(* ===== verification/Prelude.thy ===== *)
theory Prelude
  imports Main "HOL-Library.Word"
begin

unbundle bit_operations_syntax

text \<open>
  Shared vocabulary of the development: the exception-and-state monad in which
  the stateful Python code is written out, the plain error monad for pure code
  that raises, the Python loops over them, and the lemmas on bit masks, byte
  strings and list slices the components share.
\<close>

named_theorems est_simps \<open>unfolding rules of the exception-and-state monad\<close>
named_theorems mask_simps \<open>bit masks on unbounded integers as arithmetic\<close>

section \<open>Exceptions: the error monad\<close>

definition rbind :: "'e + 'a \<Rightarrow> ('a \<Rightarrow> 'e + 'b) \<Rightarrow> 'e + 'b" where
  "rbind m f = (case m of Inl e \<Rightarrow> Inl e | Inr x \<Rightarrow> f x)"

lemma rbind_simps [simp]:
  "rbind (Inl e) f = Inl e"
  "rbind (Inr x) f = f x"
  by (simp_all add: rbind_def)

lemma rbind_Inr_iff [simp]:
  "rbind m f = Inr y \<longleftrightarrow> (\<exists>x. m = Inr x \<and> f x = Inr y)"
  by (cases m) simp_all

lemma rbind_Inl_iff:
  "rbind m f = Inl e \<longleftrightarrow> m = Inl e \<or> (\<exists>x. m = Inr x \<and> f x = Inl e)"
  by (cases m) simp_all

lemma rbind_cong [fundef_cong]:
  "m = m' \<Longrightarrow> (\<And>x. m' = Inr x \<Longrightarrow> f x = g x) \<Longrightarrow> rbind m f = rbind m' g"
  by (cases m') simp_all

text \<open>A comprehension that may raise: the first error stops it.\<close>

fun mapR :: "('a \<Rightarrow> 'e + 'b) \<Rightarrow> 'a list \<Rightarrow> 'e + 'b list" where
  "mapR f [] = Inr []"
| "mapR f (x # xs) = rbind (f x) (\<lambda>y. rbind (mapR f xs) (\<lambda>ys. Inr (y # ys)))"

lemma mapR_cong [fundef_cong]:
  "xs = ys \<Longrightarrow> (\<And>x. x \<in> set ys \<Longrightarrow> f x = g x) \<Longrightarrow> mapR f xs = mapR g ys"
  by (induction xs arbitrary: ys) auto

lemma mapR_total: "(\<And>x. x \<in> set xs \<Longrightarrow> f x = Inr (g x)) \<Longrightarrow> mapR f xs = Inr (map g xs)"
  by (induction xs) auto

lemma mapR_fails:
  "(\<And>x. x \<in> set xs \<Longrightarrow> f x = Inl e \<or> (\<exists>y. f x = Inr y)) \<Longrightarrow> \<exists>x \<in> set xs. f x = Inl e \<Longrightarrow>
   mapR f xs = Inl e"
proof (induction xs)
  case Nil
  then show ?case by simp
next
  case (Cons x xs)
  show ?case
  proof (cases "f x = Inl e")
    case True
    then show ?thesis by simp
  next
    case False
    then obtain y where "f x = Inr y" using Cons.prems(1) [of x] by auto
    moreover have "mapR f xs = Inl e"
      using Cons.prems False by (intro Cons.IH) auto
    ultimately show ?thesis by simp
  qed
qed

lemma mapR_Inr_length: "mapR f xs = Inr ys \<Longrightarrow> length ys = length xs"
  by (induction xs arbitrary: ys) auto

lemma mapR_Inr_iff: "mapR f xs = Inr ys \<longleftrightarrow> list_all2 (\<lambda>x y. f x = Inr y) xs ys"
  by (induction xs arbitrary: ys) (auto simp: list_all2_Cons1)

text \<open>A loop whose body threads a value and may raise.\<close>

fun foldR :: "('a \<Rightarrow> 'b \<Rightarrow> 'e + 'b) \<Rightarrow> 'a list \<Rightarrow> 'b \<Rightarrow> 'e + 'b" where
  "foldR f [] b = Inr b"
| "foldR f (x # xs) b = rbind (f x b) (foldR f xs)"

lemma foldR_append: "foldR f (xs @ ys) b = rbind (foldR f xs b) (foldR f ys)"
  by (induction xs arbitrary: b) (auto simp: rbind_def split: sum.splits)

section \<open>Exceptions and state\<close>

type_synonym ('s, 'e, 'a) est = "'s \<Rightarrow> ('e + 'a) \<times> 's"

definition eret :: "'a \<Rightarrow> ('s, 'e, 'a) est" where
  [est_simps]: "eret x = (\<lambda>s. (Inr x, s))"

definition eraise :: "'e \<Rightarrow> ('s, 'e, 'a) est" where
  [est_simps]: "eraise e = (\<lambda>s. (Inl e, s))"

text \<open>An exception keeps the state reached so far, as a Python exception does.\<close>

definition ebind :: "('s, 'e, 'a) est \<Rightarrow> ('a \<Rightarrow> ('s, 'e, 'b) est) \<Rightarrow> ('s, 'e, 'b) est" where
  "ebind m f = (\<lambda>s. case m s of (r, s') \<Rightarrow> (case r of Inl e \<Rightarrow> (Inl e, s') | Inr x \<Rightarrow> f x s'))"

definition eseq :: "('s, 'e, 'a) est \<Rightarrow> ('s, 'e, 'b) est \<Rightarrow> ('s, 'e, 'b) est" where
  "eseq m n = ebind m (\<lambda>_. n)"

text \<open>Pure code that may raise, run inside the state monad.\<close>

definition elift :: "'e + 'a \<Rightarrow> ('s, 'e, 'a) est" where
  [est_simps]: "elift r = (\<lambda>s. (r, s))"

lemma ebind_run [est_simps]:
  "m s = (Inr x, s') \<Longrightarrow> ebind m f s = f x s'"
  "m s = (Inl e, s') \<Longrightarrow> ebind m f s = (Inl e, s')"
  by (simp_all add: ebind_def)

lemma eseq_run [est_simps]:
  "m s = (Inr x, s') \<Longrightarrow> eseq m n s = n s'"
  "m s = (Inl e, s') \<Longrightarrow> eseq m n s = (Inl e, s')"
  by (simp_all add: eseq_def ebind_def)

lemma ebind_Inr_iff:
  "ebind m f s = (Inr y, t) \<longleftrightarrow> (\<exists>x s'. m s = (Inr x, s') \<and> f x s' = (Inr y, t))"
  by (auto simp: ebind_def split: prod.splits sum.splits)

lemma eseq_Inr_iff:
  "eseq m n s = (Inr y, t) \<longleftrightarrow> (\<exists>x s'. m s = (Inr x, s') \<and> n s' = (Inr y, t))"
  by (simp add: eseq_def ebind_Inr_iff)

lemma eseq_InrE:
  assumes "eseq m n s = (Inr y, t)"
  obtains s' where "n s' = (Inr y, t)"
  using assms by (auto simp: eseq_Inr_iff)

fun mapE :: "('a \<Rightarrow> ('s, 'e, 'b) est) \<Rightarrow> 'a list \<Rightarrow> ('s, 'e, 'b list) est" where
  "mapE f [] = eret []"
| "mapE f (x # xs) = ebind (f x) (\<lambda>y. ebind (mapE f xs) (\<lambda>ys. eret (y # ys)))"

fun forE :: "('a \<Rightarrow> ('s, 'e, unit) est) \<Rightarrow> 'a list \<Rightarrow> ('s, 'e, unit) est" where
  "forE f [] = eret ()"
| "forE f (x # xs) = eseq (f x) (forE f xs)"

fun foldE :: "('a \<Rightarrow> 'b \<Rightarrow> ('s, 'e, 'b) est) \<Rightarrow> 'a list \<Rightarrow> 'b \<Rightarrow> ('s, 'e, 'b) est" where
  "foldE f [] b = eret b"
| "foldE f (x # xs) b = ebind (f x b) (foldE f xs)"

lemma ebind_assoc: "ebind (ebind m f) g = ebind m (\<lambda>x. ebind (f x) g)"
  by (rule ext) (simp add: ebind_def split: prod.splits sum.splits)

lemma foldE_append: "foldE f (xs @ ys) b = ebind (foldE f xs b) (foldE f ys)"
proof (induction xs arbitrary: b)
  case Nil
  show ?case by (rule ext) (simp add: ebind_def eret_def)
next
  case (Cons x xs)
  have "foldE f (xs @ ys) = (\<lambda>b. ebind (foldE f xs b) (foldE f ys))"
    by (rule ext) (rule Cons)
  then show ?case by (simp add: ebind_assoc)
qed

lemma mapE_pure:
  "(\<And>x. x \<in> set xs \<Longrightarrow> f x s = (Inr (g x), s)) \<Longrightarrow> mapE f xs s = (Inr (map g xs), s)"
proof (induction xs)
  case Nil
  then show ?case by (simp add: est_simps)
next
  case (Cons x xs)
  then have "f x s = (Inr (g x), s)" and "mapE f xs s = (Inr (map g xs), s)"
    by simp_all
  then show ?case by (simp add: ebind_def eret_def)
qed

text \<open>State predicates a computation keeps, whether it returns or raises.\<close>

definition keeps :: "('s \<Rightarrow> bool) \<Rightarrow> ('s, 'e, 'a) est \<Rightarrow> bool" where
  "keeps I f \<longleftrightarrow> (\<forall>s. I s \<longrightarrow> I (snd (f s)))"

named_theorems keeps_intros \<open>invariant preservation, one rule per combinator\<close>

lemma keeps_ret [keeps_intros]: "keeps I (eret x)"
  by (simp add: keeps_def eret_def)

lemma keeps_raise [keeps_intros]: "keeps I (eraise x)"
  by (simp add: keeps_def eraise_def)

lemma keeps_bind [keeps_intros]: "keeps I m \<Longrightarrow> (\<And>x. keeps I (f x)) \<Longrightarrow> keeps I (ebind m f)"
  unfolding keeps_def ebind_def by (auto split: prod.splits sum.splits)

lemma keeps_seq [keeps_intros]: "keeps I m \<Longrightarrow> keeps I n \<Longrightarrow> keeps I (eseq m n)"
  unfolding eseq_def by (rule keeps_bind)

lemma keeps_if [keeps_intros]: "keeps I m \<Longrightarrow> keeps I n \<Longrightarrow> keeps I (if b then m else n)"
  by simp

lemma keeps_fold [keeps_intros]: "(\<And>x b. keeps I (f x b)) \<Longrightarrow> keeps I (foldE f xs b)"
  by (induction xs arbitrary: b) (auto intro: keeps_intros)

lemma keeps_for [keeps_intros]: "(\<And>x. keeps I (f x)) \<Longrightarrow> keeps I (forE f xs)"
  by (induction xs) (auto intro: keeps_intros)

lemma keeps_if_state [keeps_intros]:
  "keeps I m \<Longrightarrow> keeps I n \<Longrightarrow> keeps I (\<lambda>s. if b then m s else n s)"
  by (cases b) simp_all

text \<open>A body that first looks at the state.\<close>

lemma keeps_state: "(\<And>s. keeps I (f s)) \<Longrightarrow> keeps I (\<lambda>s. f s s)"
  by (simp add: keeps_def)

text \<open>\<open>range(lo, hi)\<close>.\<close>

definition py_range :: "int \<Rightarrow> int \<Rightarrow> int list" where
  "py_range lo hi = [lo..hi - 1]"

lemma py_range_nat: "py_range (int a) (int b) = map int [a..<b]"
proof (induction b)
  case 0
  then show ?case by (simp add: py_range_def)
next
  case (Suc b)
  show ?case
  proof (cases "a \<le> b")
    case True
    then have "[int a..int b] = [int a..int b - 1] @ [int b]"
      by (simp add: upto_rec2)
    with Suc True show ?thesis by (simp add: py_range_def)
  next
    case False
    then show ?thesis by (simp add: py_range_def)
  qed
qed

lemma set_py_range [simp]: "set (py_range lo hi) = {lo..<hi}"
  by (auto simp: py_range_def)

section \<open>Bit masks on unbounded integers\<close>

lemma and_mask_int [mask_simps]:
  fixes x :: int
  shows "x AND 1 = x mod 2" "x AND 3 = x mod 4" "x AND 7 = x mod 8" "x AND 15 = x mod 16"
    "x AND 63 = x mod 64" "x AND 255 = x mod 256" "x AND 4294967295 = x mod 4294967296"
  using take_bit_eq_mask [of 1 x] take_bit_eq_mask [of 2 x] take_bit_eq_mask [of 3 x]
    take_bit_eq_mask [of 4 x] take_bit_eq_mask [of 6 x] take_bit_eq_mask [of 8 x]
    take_bit_eq_mask [of 32 x]
  by (simp_all add: take_bit_eq_mod mask_eq_exp_minus_1)

lemma and_not_3_int [mask_simps]: "(x::int) AND NOT 3 = x - x mod 4"
proof -
  have m: "mask 2 = (3::int)" by (simp add: mask_eq_exp_minus_1)
  have "x AND NOT (mask 2) = push_bit 2 (drop_bit 2 x)"
  proof (rule bit_eqI)
    fix n
    have "2 \<le> n \<Longrightarrow> Suc (Suc (n - 2)) = n" by simp
    then show "bit (x AND NOT (mask 2)) n \<longleftrightarrow> bit (push_bit 2 (drop_bit 2 x)) n"
      by (cases "2 \<le> n") (simp_all add: bit_simps)
  qed
  moreover have "push_bit 2 (drop_bit 2 x) + take_bit 2 x = x"
    by (rule bits_ident)
  ultimately show ?thesis by (simp add: m take_bit_eq_mod)
qed

lemma and_128_int: "0 \<le> x \<Longrightarrow> x < 256 \<Longrightarrow> ((x::int) AND 128 = 0) = (x < 128)"
proof -
  assume x: "0 \<le> x" "x < 256"
  have "(x AND 128 = 0) = even (x div 128)"
    using and_exp_eq_0_iff_not_bit [of x 7] by (simp add: bit_iff_odd)
  moreover have "x div 128 = (if x < 128 then 0 else 1)"
    using x by (simp add: div_pos_pos_trivial div_pos_geq)
  ultimately show ?thesis by simp
qed

section \<open>Byte strings\<close>

type_synonym byte = "8 word"

text \<open>\<open>int.from_bytes(b, "little")\<close> and \<open>v.to_bytes(n, "little")\<close>.\<close>

fun from_le :: "byte list \<Rightarrow> int" where
  "from_le [] = 0"
| "from_le (b # bs) = uint b + 256 * from_le bs"

fun to_le :: "nat \<Rightarrow> int \<Rightarrow> byte list" where
  "to_le 0 v = []"
| "to_le (Suc n) v = word_of_int v # to_le n (v div 256)"

lemma length_to_le [simp]: "length (to_le n v) = n"
  by (induction n arbitrary: v) auto

lemma uint_byte_of_int: "uint (word_of_int v :: byte) = v mod 256"
  by (simp add: uint_word_of_int)

lemma from_le_bounds: "0 \<le> from_le bs \<and> from_le bs < 256 ^ length bs"
proof (induction bs)
  case Nil
  then show ?case by simp
next
  case (Cons b bs)
  have "0 \<le> uint b" "uint b < 256"
    using uint_lt2p [of b] by simp_all
  with Cons show ?case by auto
qed

lemma from_to_le: "from_le (to_le n v) = v mod 256 ^ n"
proof (induction n arbitrary: v)
  case 0
  then show ?case by simp
next
  case (Suc n)
  have "v mod 256 + 256 * ((v div 256) mod 256 ^ n) = v mod (256 * 256 ^ n)"
    by (simp add: zmod_zmult2_eq)
  then show ?case by (simp add: Suc uint_byte_of_int)
qed

lemma to_from_le: "to_le (length bs) (from_le bs) = bs"
proof (induction bs)
  case Nil
  then show ?case by simp
next
  case (Cons b bs)
  have b: "0 \<le> uint b" "uint b < 256"
    using uint_lt2p [of b] by simp_all
  have d: "(uint b + 256 * from_le bs) div 256 = from_le bs"
    using b by simp
  have "uint (word_of_int (uint b + 256 * from_le bs) :: byte) = uint b"
    using b by (simp only: uint_byte_of_int) simp
  then have w: "word_of_int (uint b + 256 * from_le bs) = b"
    by (rule word_uint_eqI)
  show ?case
    by (simp only: list.size from_le.simps add.right_neutral add_Suc_right to_le.simps d w Cons)
qed

lemma to_le_nth: "i < n \<Longrightarrow> to_le n v ! i = word_of_int (v div 256 ^ i)"
proof (induction n arbitrary: v i)
  case 0
  then show ?case by simp
next
  case (Suc n)
  then show ?case
    by (cases i) (simp_all add: zdiv_zmult2_eq)
qed

lemma sint_byte_of_int:
  "sint (word_of_int v :: 8 word) = (if v mod 256 < 128 then v mod 256 else v mod 256 - 256)"
proof -
  define y where "y = v mod 256"
  have y: "0 \<le> y" "y < 256" by (simp_all add: y_def)
  have s: "sint (word_of_int v :: 8 word) = (y + 128) mod 256 - 128"
    by (simp add: sint_uint signed_take_bit_eq_take_bit_shift take_bit_eq_mod uint_word_of_int y_def)
  show ?thesis
  proof (cases "y < 128")
    case True
    then show ?thesis using y s by (simp add: y_def)
  next
    case False
    have "((y - 128) + 256) mod 256 = y - 128" using y False by (simp only: mod_add_self2) (simp add: mod_pos_pos_trivial)
    then have "(y + 128) mod 256 = y - 128" by (simp add: algebra_simps)
    then show ?thesis using y s False by (simp add: y_def)
  qed
qed

section \<open>Slices\<close>

text \<open>\<open>buf[off : off + len(bs)] = bs\<close> within the buffer.\<close>

definition patch :: "nat \<Rightarrow> 'a list \<Rightarrow> 'a list \<Rightarrow> 'a list" where
  "patch off bs m = take off m @ bs @ drop (off + length bs) m"

lemma length_patch [simp]:
  "off + length bs \<le> length m \<Longrightarrow> length (patch off bs m) = length m"
  by (simp add: patch_def)

lemma patch_nth:
  assumes "off + length bs \<le> length m" and "i < length m"
  shows "patch off bs m ! i = (if off \<le> i \<and> i < off + length bs then bs ! (i - off) else m ! i)"
  using assms by (auto simp: patch_def nth_append)

lemma patch_Nil [simp]: "off \<le> length m \<Longrightarrow> patch off [] m = m"
  by (simp add: patch_def)

lemma slice_patch:
  "off + length bs \<le> length m \<Longrightarrow> take (length bs) (drop off (patch off bs m)) = bs"
  by (simp add: patch_def)

section \<open>Number formatting\<close>

text \<open>
  The digits of a number, and the conversions \<open>{v}\<close>, \<open>{v:x}\<close>, \<open>{v:08x}\<close> and \<open>{v:08X}\<close> of a
  Python f-string: the width counts the sign, and zeros pad between sign and digits.
\<close>

fun nat_digits :: "nat \<Rightarrow> nat \<Rightarrow> nat list" where
  "nat_digits b n = (if b < 2 \<or> n < b then [n] else nat_digits b (n div b) @ [n mod b])"

declare nat_digits.simps [simp del]

definition digit_char :: "bool \<Rightarrow> nat \<Rightarrow> char" where
  "digit_char upper d =
     (if upper then ''0123456789ABCDEF'' ! d else ''0123456789abcdef'' ! d)"

definition fmt_int :: "nat \<Rightarrow> bool \<Rightarrow> nat \<Rightarrow> int \<Rightarrow> string" where
  "fmt_int base upper width v =
     (let sgn = (if v < 0 then [CHR ''-''] else []);
          ds = map (digit_char upper) (nat_digits base (nat \<bar>v\<bar>))
      in sgn @ replicate (width - length sgn - length ds) (CHR ''0'') @ ds)"

abbreviation dec_str :: "int \<Rightarrow> string" where
  "dec_str v \<equiv> fmt_int 10 False 0 v"

abbreviation hex08 :: "int \<Rightarrow> string" where
  "hex08 v \<equiv> fmt_int 16 False 8 v"

lemma hex08_example: "hex08 6 = ''00000006''"
  by (simp add: fmt_int_def nat_digits.simps digit_char_def numeral_eq_Suc)

lemma dec_str_example: "dec_str (-1024) = ''-1024''"
  by (simp add: fmt_int_def nat_digits.simps digit_char_def)

end
