(* ===== verification/Npu_Runtime.thy ===== *)
theory Npu_Runtime
  imports Prelude
begin

text \<open>
  The reference runtime of the NPU (\<open>compiler/runtime/e1_npu_runtime.py\<close>): the MMIO
  register contract, command launch and polling, the descriptor ring, the
  scratchpad accessors, the bounded INT8 matrix product and its golden model.
  The two callables \<open>read32\<close> and \<open>write32\<close> the runtime is built on are the fields of a
  record over an arbitrary device state, so every operation is stated for any device.
\<close>

section \<open>Types\<close>

datatype npu_precision_state = SUPPORTED | RESERVED | BLOCKED | UNSUPPORTED

fun precision_state_value :: "npu_precision_state \<Rightarrow> string" where
  "precision_state_value SUPPORTED = ''supported''"
| "precision_state_value RESERVED = ''reserved''"
| "precision_state_value BLOCKED = ''blocked''"
| "precision_state_value UNSUPPORTED = ''unsupported''"

record npu_precision_support =
  ps_precision :: string
  ps_state :: npu_precision_state
  ps_path :: string
  ps_evidence :: string

definition precision_as_dict :: "npu_precision_support \<Rightarrow> (string \<times> string) list" where
  "precision_as_dict p =
     [(''precision'', ps_precision p), (''state'', precision_state_value (ps_state p)),
      (''path'', ps_path p), (''evidence'', ps_evidence p)]"

record npu_perf =
  pf_cycles :: int
  pf_macs :: int
  pf_ops :: int
  pf_errors :: int
  pf_unsupported_ops :: int

record npu_runtime_status =
  st_ok :: bool
  st_status :: int
  st_polls :: int
  st_error :: "string option"
  st_desc_status :: "int option"
  st_perf :: "npu_perf option"

record npu_descriptor_submission =
  ds_base :: int
  ds_head :: int
  ds_tail :: int
  ds_timeout_polls :: int

record npu_stream_descriptor =
  sd_opcode :: int
  sd_source_addr :: int
  sd_scratch_offset :: int
  sd_byte_count :: int
  sd_op_b :: int
  sd_acc :: int
  sd_valid_owner :: bool
  sd_writeback_request :: bool

text \<open>
  The exceptions: \<open>ValueError\<close>, the runtime's own \<open>NpuRuntimeError\<close> and \<open>NpuTimeoutError\<close>, the
  \<open>OverflowError\<close> of \<open>int.to_bytes\<close>, \<open>IndexError\<close>, and the \<open>KeyError\<close> a dictionary-backed
  device can raise.
\<close>

datatype npu_error =
    NpuValueError string
  | NpuRuntimeError string npu_runtime_status
  | NpuTimeoutError string npu_runtime_status
  | NpuOverflowError
  | NpuIndexError
  | NpuKeyError int

type_synonym ('s, 'a) npu = "('s, npu_error, 'a) est"

record 's mmio =
  read32 :: "int \<Rightarrow> ('s, int) npu"
  write32 :: "int \<Rightarrow> int \<Rightarrow> ('s, unit) npu"

section \<open>The register contract\<close>

definition OP_A :: int where "OP_A = 0x10020000"
definition OP_B :: int where "OP_B = 0x10020004"
definition RESULT :: int where "RESULT = 0x10020008"
definition CTRL_STATUS :: int where "CTRL_STATUS = 0x1002000C"
definition OPCODE :: int where "OPCODE = 0x10020010"
definition ACC :: int where "ACC = 0x10020014"
definition RESULT_HI :: int where "RESULT_HI = 0x10020018"
definition DEBUG :: int where "DEBUG = 0x1002001C"
definition GEMM_CFG :: int where "GEMM_CFG = 0x10020020"
definition GEMM_BASE :: int where "GEMM_BASE = 0x10020024"
definition GEMM_STRIDE :: int where "GEMM_STRIDE = 0x10020028"
definition PERF_UNSUPPORTED_OPS :: int where "PERF_UNSUPPORTED_OPS = 0x1002002C"
definition CMD_PARAM :: int where "CMD_PARAM = 0x10020030"
definition DESC_BASE :: int where "DESC_BASE = 0x10020040"
definition DESC_HEAD :: int where "DESC_HEAD = 0x10020044"
definition DESC_TAIL :: int where "DESC_TAIL = 0x10020048"
definition DESC_STATUS :: int where "DESC_STATUS = 0x1002004C"
definition PERF_CYCLES :: int where "PERF_CYCLES = 0x10020050"
definition PERF_MACS :: int where "PERF_MACS = 0x10020054"
definition PERF_OPS :: int where "PERF_OPS = 0x10020058"
definition PERF_ERRORS :: int where "PERF_ERRORS = 0x1002005C"
definition DESC_TIMEOUT_COUNT :: int where "DESC_TIMEOUT_COUNT = 0x10020060"
definition DESC_BYTES_READ :: int where "DESC_BYTES_READ = 0x10020064"
definition DESC_BYTES_WRITTEN :: int where "DESC_BYTES_WRITTEN = 0x10020068"
definition DESC_READ_BEATS :: int where "DESC_READ_BEATS = 0x1002006C"
definition DESC_WRITE_BEATS :: int where "DESC_WRITE_BEATS = 0x10020070"
definition SCRATCH :: int where "SCRATCH = 0x10020080"
definition SCRATCH_BYTES :: int where "SCRATCH_BYTES = 64"

lemmas reg_defs =
  OP_A_def OP_B_def RESULT_def CTRL_STATUS_def OPCODE_def ACC_def RESULT_HI_def DEBUG_def
  GEMM_CFG_def GEMM_BASE_def GEMM_STRIDE_def PERF_UNSUPPORTED_OPS_def CMD_PARAM_def
  DESC_BASE_def DESC_HEAD_def DESC_TAIL_def DESC_STATUS_def PERF_CYCLES_def PERF_MACS_def
  PERF_OPS_def PERF_ERRORS_def DESC_TIMEOUT_COUNT_def DESC_BYTES_READ_def
  DESC_BYTES_WRITTEN_def DESC_READ_BEATS_def DESC_WRITE_BEATS_def SCRATCH_def

definition OP_ADD :: int where "OP_ADD = 0"
definition OP_SUB :: int where "OP_SUB = 1"
definition OP_MUL_LO :: int where "OP_MUL_LO = 2"
definition OP_MAC_S16 :: int where "OP_MAC_S16 = 3"
definition OP_DOT4_S8 :: int where "OP_DOT4_S8 = 4"
definition OP_MAX_U32 :: int where "OP_MAX_U32 = 5"
definition OP_MIN_U32 :: int where "OP_MIN_U32 = 6"
definition OP_DOT8_S4 :: int where "OP_DOT8_S4 = 7"
definition OP_GEMM_S8 :: int where "OP_GEMM_S8 = 8"

lemmas op_defs =
  OP_ADD_def OP_SUB_def OP_MUL_LO_def OP_MAC_S16_def OP_DOT4_S8_def OP_MAX_U32_def
  OP_MIN_U32_def OP_DOT8_S4_def OP_GEMM_S8_def

definition DESC_RING_ENTRIES :: int where "DESC_RING_ENTRIES = 8"
definition DESC_STATUS_EMPTY :: int where "DESC_STATUS_EMPTY = 0x1"
definition DESC_STATUS_DONE :: int where "DESC_STATUS_DONE = 0x2"
definition DESC_STATUS_ERROR :: int where "DESC_STATUS_ERROR = 0x4"
definition DESC_STATUS_TIMEOUT :: int where "DESC_STATUS_TIMEOUT = 0x8"
definition DESC_STATUS_MEM_ERROR :: int where "DESC_STATUS_MEM_ERROR = 0x10"
definition DESC_STATUS_STREAM_ERROR :: int where "DESC_STATUS_STREAM_ERROR = 0x20"
definition DESC_STATUS_OWNER_ERROR :: int where "DESC_STATUS_OWNER_ERROR = 0x40"
definition DESC_STATUS_WRITEBACK_UNSUPPORTED :: int where "DESC_STATUS_WRITEBACK_UNSUPPORTED = 0x80"
definition DESC_FLAG_STREAM_TO_SCRATCH :: int where "DESC_FLAG_STREAM_TO_SCRATCH = push_bit 8 1"
definition DESC_FLAG_WRITEBACK_REQUEST :: int where "DESC_FLAG_WRITEBACK_REQUEST = push_bit 30 1"
definition DESC_FLAG_VALID_OWNER :: int where "DESC_FLAG_VALID_OWNER = push_bit 31 1"

lemmas desc_defs =
  DESC_RING_ENTRIES_def DESC_STATUS_EMPTY_def DESC_STATUS_DONE_def DESC_STATUS_ERROR_def
  DESC_FLAG_STREAM_TO_SCRATCH_def DESC_FLAG_WRITEBACK_REQUEST_def DESC_FLAG_VALID_OWNER_def

abbreviation u32 :: "int \<Rightarrow> int" where
  "u32 v \<equiv> v AND 0xFFFFFFFF"

definition blocked_support :: "string \<Rightarrow> npu_precision_support" where
  "blocked_support p =
     \<lparr>ps_precision = p, ps_state = BLOCKED,
      ps_path = ''no opcode, RTL datapath, compiler lowering, or measured benchmark path'',
      ps_evidence = ''blocked until hardware/runtime tests identify execution path''\<rparr>"

definition PRECISION_MATRIX :: "npu_precision_support list" where
  "PRECISION_MATRIX =
     [\<lparr>ps_precision = ''INT8'', ps_state = SUPPORTED,
       ps_path = ''DOT4_S8 and bounded GEMM_S8 through 64-byte MMIO scratchpad'',
       ps_evidence = ''runtime tests plus e1-npu-runtime-contract.json''\<rparr>,
      \<lparr>ps_precision = ''INT4'', ps_state = SUPPORTED,
       ps_path = ''DOT8_S4 packed dot prototype only; no tensor GEMM/compiler path'',
       ps_evidence = ''runtime opcode coverage only''\<rparr>,
      blocked_support ''FP16'', blocked_support ''BF16'', blocked_support ''FP8'']"

section \<open>Launching and polling commands\<close>

definition perf :: "'s mmio \<Rightarrow> ('s, npu_perf) npu" where
  "perf rt =
     ebind (read32 rt PERF_CYCLES) (\<lambda>c.
     ebind (read32 rt PERF_MACS) (\<lambda>m.
     ebind (read32 rt PERF_OPS) (\<lambda>o'.
     ebind (read32 rt PERF_ERRORS) (\<lambda>e.
     ebind (read32 rt PERF_UNSUPPORTED_OPS) (\<lambda>u.
     eret \<lparr>pf_cycles = c, pf_macs = m, pf_ops = o', pf_errors = e, pf_unsupported_ops = u\<rparr>)))))"

definition reject :: "'s mmio \<Rightarrow> string \<Rightarrow> int \<Rightarrow> int \<Rightarrow> ('s, 'a) npu" where
  "reject rt error_prefix status poll =
     ebind (read32 rt DESC_STATUS) (\<lambda>d.
     ebind (perf rt) (\<lambda>p.
     eraise (NpuRuntimeError
       (error_prefix @ '' rejected: ctrl_status=0x'' @ hex08 status)
       \<lparr>st_ok = False, st_status = status, st_polls = poll, st_error = Some ''rejected'',
        st_desc_status = Some d, st_perf = Some p\<rparr>)))"

definition poll_timeout :: "'s mmio \<Rightarrow> int \<Rightarrow> string \<Rightarrow> ('s, npu_runtime_status) npu" where
  "poll_timeout rt timeout_polls error_prefix =
     ebind (read32 rt CTRL_STATUS) (\<lambda>status.
     ebind (read32 rt DESC_STATUS) (\<lambda>d.
     ebind (perf rt) (\<lambda>p.
     eraise (NpuTimeoutError
       (error_prefix @ '' did not complete after '' @ dec_str timeout_polls
          @ '' polls: ctrl_status=0x'' @ hex08 status)
       \<lparr>st_ok = False, st_status = status, st_polls = timeout_polls, st_error = Some ''timeout'',
        st_desc_status = Some d, st_perf = Some p\<rparr>))))"

text \<open>The polling loop; the last argument counts the polls that are left.\<close>

fun poll_loop :: "'s mmio \<Rightarrow> int \<Rightarrow> string \<Rightarrow> nat \<Rightarrow> ('s, npu_runtime_status) npu" where
  "poll_loop rt timeout_polls error_prefix 0 = poll_timeout rt timeout_polls error_prefix"
| "poll_loop rt timeout_polls error_prefix (Suc left) =
     (let poll = timeout_polls - int left in
      ebind (read32 rt CTRL_STATUS) (\<lambda>status.
        if status AND 4 \<noteq> 0 then reject rt error_prefix status poll
        else if status AND 2 \<noteq> 0 then
          ebind (perf rt) (\<lambda>p.
            eret \<lparr>st_ok = True, st_status = status, st_polls = poll, st_error = None,
                  st_desc_status = None, st_perf = Some p\<rparr>)
        else poll_loop rt timeout_polls error_prefix left))"

definition poll_status :: "'s mmio \<Rightarrow> int \<Rightarrow> string \<Rightarrow> ('s, npu_runtime_status) npu" where
  "poll_status rt timeout_polls error_prefix =
     (if timeout_polls \<le> 0 then eraise (NpuValueError ''timeout_polls must be positive'')
      else poll_loop rt timeout_polls error_prefix (nat timeout_polls))"

definition run :: "'s mmio \<Rightarrow> int \<Rightarrow> int \<Rightarrow> int \<Rightarrow> int \<Rightarrow> int \<Rightarrow> ('s, int) npu" where
  "run rt opcode a b acc timeout_polls =
     eseq (write32 rt CMD_PARAM 0)
     (eseq (write32 rt OP_A (u32 a))
     (eseq (write32 rt OP_B (u32 b))
     (eseq (write32 rt ACC (u32 acc))
     (eseq (write32 rt OPCODE (opcode AND 0xF))
     (eseq (write32 rt CTRL_STATUS 2)
     (eseq (write32 rt CTRL_STATUS 1)
     (eseq (poll_status rt timeout_polls ''e1 NPU command'')
     (read32 rt RESULT))))))))"

definition add :: "'s mmio \<Rightarrow> int \<Rightarrow> int \<Rightarrow> ('s, int) npu" where
  "add rt a b = run rt OP_ADD a b 0 1024"

definition sub :: "'s mmio \<Rightarrow> int \<Rightarrow> int \<Rightarrow> ('s, int) npu" where
  "sub rt a b = run rt OP_SUB a b 0 1024"

definition mul_lo :: "'s mmio \<Rightarrow> int \<Rightarrow> int \<Rightarrow> ('s, int) npu" where
  "mul_lo rt a b = run rt OP_MUL_LO a b 0 1024"

definition mac_s16 :: "'s mmio \<Rightarrow> int \<Rightarrow> int \<Rightarrow> int \<Rightarrow> ('s, int) npu" where
  "mac_s16 rt a b acc = run rt OP_MAC_S16 a b acc 1024"

definition dot4_s8 :: "'s mmio \<Rightarrow> int \<Rightarrow> int \<Rightarrow> int \<Rightarrow> ('s, int) npu" where
  "dot4_s8 rt a_packed b_packed acc = run rt OP_DOT4_S8 a_packed b_packed acc 1024"

definition dot8_s4 :: "'s mmio \<Rightarrow> int \<Rightarrow> int \<Rightarrow> int \<Rightarrow> ('s, int) npu" where
  "dot8_s4 rt a_packed b_packed acc = run rt OP_DOT8_S4 a_packed b_packed acc 1024"

definition clear_perf :: "'s mmio \<Rightarrow> ('s, unit) npu" where
  "clear_perf rt = write32 rt PERF_ERRORS 1"

definition precision_matrix :: "(string \<times> string) list list" where
  "precision_matrix = map precision_as_dict PRECISION_MATRIX"

definition descriptor_counters :: "'s mmio \<Rightarrow> ('s, (string \<times> int) list) npu" where
  "descriptor_counters rt =
     mapE (\<lambda>(k, a). ebind (read32 rt a) (\<lambda>v. eret (k, v)))
       [(''status'', DESC_STATUS), (''head'', DESC_HEAD), (''tail'', DESC_TAIL),
        (''timeout_count'', DESC_TIMEOUT_COUNT), (''bytes_read'', DESC_BYTES_READ),
        (''bytes_written'', DESC_BYTES_WRITTEN), (''read_beats'', DESC_READ_BEATS),
        (''write_beats'', DESC_WRITE_BEATS)]"

section \<open>The descriptor ring\<close>

definition submit_descriptors ::
  "'s mmio \<Rightarrow> npu_descriptor_submission \<Rightarrow> ('s, npu_runtime_status) npu" where
  "submit_descriptors rt submission =
     (if ds_base submission AND 3 \<noteq> 0 then
        eraise (NpuValueError ''descriptor base must be 32-bit aligned'')
      else if ds_head submission < 0 \<or> ds_tail submission < 0 then
        eraise (NpuValueError ''descriptor head/tail must be non-negative'')
      else if ds_head submission \<ge> DESC_RING_ENTRIES \<or> ds_tail submission \<ge> DESC_RING_ENTRIES then
        eraise (NpuValueError ''descriptor head/tail exceed RTL 3-bit queue window'')
      else if ds_head submission = ds_tail submission then
        eraise (NpuValueError ''descriptor submission requires at least one queued descriptor'')
      else
        eseq (write32 rt DESC_BASE (u32 (ds_base submission)))
        (eseq (write32 rt DESC_HEAD (u32 (ds_head submission)))
        (eseq (write32 rt DESC_TAIL (u32 (ds_tail submission)))
        (eseq (write32 rt CMD_PARAM 1)
        (eseq (write32 rt CTRL_STATUS 2)
        (eseq (write32 rt CTRL_STATUS 1)
        (ebind (poll_status rt (ds_timeout_polls submission) ''e1 NPU descriptor submission'') (\<lambda>r.
         ebind (read32 rt DESC_STATUS) (\<lambda>desc_status.
         let ok = (desc_status AND DESC_STATUS_DONE \<noteq> 0
                   \<and> \<not> desc_status AND DESC_STATUS_ERROR \<noteq> 0);
             r' = \<lparr>st_ok = ok, st_status = st_status r, st_polls = st_polls r, st_error = None,
                   st_desc_status = Some desc_status, st_perf = st_perf r\<rparr>
         in if \<not> ok then
              eraise (NpuRuntimeError
                (''e1 NPU descriptor submission failed: desc_status=0x'' @ hex08 desc_status) r')
            else eret r')))))))))"

definition pack_stream_descriptor_word0 ::
  "int \<Rightarrow> int \<Rightarrow> int \<Rightarrow> bool \<Rightarrow> bool \<Rightarrow> npu_error + int" where
  "pack_stream_descriptor_word0 opcode scratch_offset byte_count valid_owner writeback_request =
     (if opcode < 0 \<or> opcode > 0xF then
        Inl (NpuValueError ''descriptor opcode must fit in 4 bits'')
      else if scratch_offset < 0 \<or> scratch_offset > 63 \<or> scratch_offset AND 3 \<noteq> 0 then
        Inl (NpuValueError
          ''descriptor scratch offset must be 32-bit aligned within scratchpad'')
      else if byte_count \<le> 0 \<or> byte_count > 63 \<or> byte_count AND 3 \<noteq> 0 then
        Inl (NpuValueError ''descriptor byte count must be a positive aligned value below 64'')
      else if scratch_offset + byte_count > SCRATCH_BYTES then
        Inl (NpuValueError ''descriptor stream exceeds 64-byte NPU scratchpad'')
      else
        let word0 = (opcode AND 0xF) OR DESC_FLAG_STREAM_TO_SCRATCH
              OR push_bit 16 (scratch_offset AND 0x3F) OR push_bit 24 (byte_count AND 0x3F);
            word1 = (if writeback_request then word0 OR DESC_FLAG_WRITEBACK_REQUEST else word0);
            word2 = (if valid_owner then word1 OR DESC_FLAG_VALID_OWNER else word1)
        in Inr word2)"

definition stream_descriptor_words :: "npu_stream_descriptor \<Rightarrow> npu_error + (int \<times> int \<times> int \<times> int)" where
  "stream_descriptor_words d =
     rbind (pack_stream_descriptor_word0 (sd_opcode d) (sd_scratch_offset d) (sd_byte_count d)
              (sd_valid_owner d) (sd_writeback_request d))
       (\<lambda>w. Inr (w, u32 (sd_source_addr d), u32 (sd_op_b d), u32 (sd_acc d)))"

section \<open>The scratchpad\<close>

text \<open>\<open>int.to_bytes(4, "little")\<close> raises \<open>OverflowError\<close> outside the unsigned 32-bit range.\<close>

definition word_bytes :: "int \<Rightarrow> npu_error + byte list" where
  "word_bytes v = (if 0 \<le> v \<and> v < 2 ^ 32 then Inr (to_le 4 v) else Inl NpuOverflowError)"

definition read_words :: "'s mmio \<Rightarrow> int \<Rightarrow> int \<Rightarrow> ('s, byte list) npu" where
  "read_words rt first_word last_word =
     ebind (mapE (\<lambda>word. ebind (read32 rt (SCRATCH + word * 4)) (\<lambda>v. elift (word_bytes v)))
              (py_range first_word (last_word + 1)))
       (\<lambda>chunks. eret (concat chunks))"

definition write_scratch :: "'s mmio \<Rightarrow> int \<Rightarrow> byte list \<Rightarrow> ('s, unit) npu" where
  "write_scratch rt offset data =
     (if offset < 0 \<or> offset + int (length data) > SCRATCH_BYTES then
        eraise (NpuValueError ''scratch write exceeds 64-byte NPU scratchpad'')
      else if data = [] then eret ()
      else
        let first_word = offset div 4;
            last_word = (offset + int (length data) - 1) div 4;
            base = first_word * 4;
            relative_offset = offset - base
        in ebind (read_words rt first_word last_word) (\<lambda>bytes.
             let padded = patch (nat relative_offset) data bytes
             in forE (\<lambda>word.
                  let start = (word - first_word) * 4;
                      value = from_le (take 4 (drop (nat start) padded))
                  in write32 rt (SCRATCH + word * 4) value)
                (py_range first_word (last_word + 1))))"

definition read_scratch :: "'s mmio \<Rightarrow> int \<Rightarrow> int \<Rightarrow> ('s, byte list) npu" where
  "read_scratch rt offset sz =
     (if offset < 0 \<or> offset + sz > SCRATCH_BYTES then
        eraise (NpuValueError ''scratch read exceeds 64-byte NPU scratchpad'')
      else if sz = 0 then eret []
      else
        let first_word = offset div 4;
            last_word = (offset + sz - 1) div 4
        in ebind (read_words rt first_word last_word) (\<lambda>data.
             let relative_offset = offset - first_word * 4
             in eret (take (nat sz) (drop (nat relative_offset) data))))"

section \<open>The bounded INT8 matrix product\<close>

text \<open>Indexing raises \<open>IndexError\<close> out of range (the indices here are never negative).\<close>

definition py_nth :: "'a list \<Rightarrow> nat \<Rightarrow> npu_error + 'a" where
  "py_nth xs i = (if i < length xs then Inr (xs ! i) else Inl NpuIndexError)"

definition s8 :: "int \<Rightarrow> npu_error + byte" where
  "s8 v = (if \<not> (-128 \<le> v \<and> v \<le> 127) then
             Inl (NpuValueError ''GEMM input outside signed INT8 range'')
           else Inr (word_of_int (v AND 0xFF)))"

text \<open>\<open>len(a[0]) if m else 0\<close>.\<close>

definition row_len :: "'a list list \<Rightarrow> nat" where
  "row_len a = (case a of [] \<Rightarrow> 0 | r # _ \<Rightarrow> length r)"

text \<open>\<open>int.from_bytes(b, "little", signed=True)\<close> of four bytes.\<close>

definition from_le_s32 :: "byte list \<Rightarrow> int" where
  "from_le_s32 bs = (let v = from_le bs in if v < 2 ^ 31 then v else v - 2 ^ 32)"

definition gemm_c_base :: "nat \<Rightarrow> nat \<Rightarrow> nat \<Rightarrow> int" where
  "gemm_c_base m n k = (int (m * k) + int (k * n) + 3) AND NOT 3"

definition gemm_decode :: "nat \<Rightarrow> nat \<Rightarrow> byte list \<Rightarrow> int list list" where
  "gemm_decode m n raw =
     map (\<lambda>r. map (\<lambda>c. from_le_s32 (take 4 (drop ((r * n + c) * 4) raw))) [0..<n]) [0..<m]"

definition gemm_launch ::
  "'s mmio \<Rightarrow> nat \<Rightarrow> nat \<Rightarrow> nat \<Rightarrow> byte list \<Rightarrow> byte list \<Rightarrow> ('s, int list list) npu" where
  "gemm_launch rt m n k a_bytes b_bytes =
     (let a_base = 0; b_base = int (m * k); c_base = gemm_c_base m n k;
          c_bytes = int (m * n * 4) in
      eseq (clear_perf rt)
      (eseq (write_scratch rt a_base a_bytes)
      (eseq (write_scratch rt b_base b_bytes)
      (eseq (write_scratch rt c_base (replicate (nat c_bytes) 0))
      (eseq (write32 rt GEMM_CFG (int m OR push_bit 8 (int n) OR push_bit 16 (int k)))
      (eseq (write32 rt GEMM_BASE (a_base OR push_bit 8 b_base OR push_bit 16 c_base))
      (eseq (write32 rt GEMM_STRIDE (int k OR push_bit 8 (int n) OR push_bit 16 (int (n * 4))))
      (eseq (write32 rt OPCODE OP_GEMM_S8)
      (eseq (write32 rt CTRL_STATUS 2)
      (eseq (write32 rt CTRL_STATUS 1)
      (eseq (poll_status rt 1024 ''e1 NPU GEMM command'')
      (ebind (read_scratch rt c_base c_bytes) (\<lambda>raw.
       eret (gemm_decode m n raw))))))))))))))"

definition gemm_s8 :: "'s mmio \<Rightarrow> int list list \<Rightarrow> int list list \<Rightarrow> ('s, int list list) npu" where
  "gemm_s8 rt a b =
     (let m = length a; k = row_len a; n = row_len b in
      if \<not> (1 \<le> m \<and> m \<le> 3 \<and> 1 \<le> n \<and> n \<le> 3 \<and> 1 \<le> k \<and> k \<le> 7) then
        eraise (NpuValueError ''GEMM dimensions exceed prototype limits'')
      else if list_ex (\<lambda>row. length row \<noteq> k) a \<or> length b \<noteq> k
              \<or> list_ex (\<lambda>row. length row \<noteq> n) b then
        eraise (NpuValueError ''ragged GEMM inputs'')
      else if gemm_c_base m n k + int (m * n * 4) > SCRATCH_BYTES then
        eraise (NpuValueError ''GEMM tile exceeds 64-byte NPU scratchpad'')
      else
        ebind (elift (mapR s8 (concat a))) (\<lambda>a_bytes.
        ebind (elift (mapR (\<lambda>(row, col). rbind (py_nth b row) (\<lambda>r. rbind (py_nth r col) s8))
                 [(row, col). row \<leftarrow> [0..<k], col \<leftarrow> [0..<n]])) (\<lambda>b_bytes.
        gemm_launch rt m n k a_bytes b_bytes)))"

definition golden_gemm_s8 :: "int list list \<Rightarrow> int list list \<Rightarrow> npu_error + int list list" where
  "golden_gemm_s8 a b =
     (let m = length a; k = row_len a; n = row_len b in
      mapR (\<lambda>i. mapR (\<lambda>j.
          rbind (mapR (\<lambda>kk.
              rbind (py_nth a i) (\<lambda>ra. rbind (py_nth ra kk) (\<lambda>x.
              rbind (py_nth b kk) (\<lambda>rb. rbind (py_nth rb j) (\<lambda>y. Inr (x * y))))))
            [0..<k])
          (\<lambda>ps. Inr (sum_list ps)))
        [0..<n]) [0..<m])"

end
