(* ===== verification/Npu_Scratch.thy ===== *)
theory Npu_Scratch
  imports Npu_Runtime
begin

text \<open>
  The interface between the runtime and a device with a 64-byte scratchpad, and what
  the runtime's scratchpad accessors do over any such device. The runtime only has
  word-wide reads and writes, and a byte string at any offset is written by
  reading, patching and writing back the words it overlaps.
\<close>

section \<open>Slices of a word-addressed memory\<close>

lemma concat_slices:
  "4 * (f + n) \<le> length m \<Longrightarrow>
   concat (map (\<lambda>w. take 4 (drop (4 * w) m)) [f..<f + n]) = take (4 * n) (drop (4 * f) m)"
proof (induction n)
  case 0
  then show ?case by simp
next
  case (Suc n)
  have "take (4 * n + 4) (drop (4 * f) m)
      = take (4 * n) (drop (4 * f) m) @ take 4 (drop (4 * n + 4 * f) m)"
    by (simp add: take_add)
  with Suc show ?case by (simp add: algebra_simps)
qed

lemma patch_append:
  assumes "off + length xs + length ys \<le> length m"
  shows "patch (off + length xs) ys (patch off xs m) = patch off (xs @ ys) m"
proof (rule nth_equalityI)
  show "length (patch (off + length xs) ys (patch off xs m)) = length (patch off (xs @ ys) m)"
    using assms by simp
next
  fix i assume "i < length (patch (off + length xs) ys (patch off xs m))"
  then have i: "i < length m" using assms by simp
  show "patch (off + length xs) ys (patch off xs m) ! i = patch off (xs @ ys) m ! i"
    using assms i by (auto simp: patch_nth nth_append)
qed

lemma patch_slice:
  assumes "base + len \<le> length m" and "rel + length data \<le> len"
  shows "patch base (patch rel data (take len (drop base m))) m = patch (base + rel) data m"
proof (rule nth_equalityI)
  have l: "length (take len (drop base m)) = len" using assms by simp
  show "length (patch base (patch rel data (take len (drop base m))) m)
      = length (patch (base + rel) data m)"
    using assms l by simp
  fix i assume "i < length (patch base (patch rel data (take len (drop base m))) m)"
  then have i: "i < length m" using assms l by simp
  show "patch base (patch rel data (take len (drop base m))) m ! i
      = patch (base + rel) data m ! i"
    using assms l i by (auto simp: patch_nth)
qed

lemma word_bytes_from_le: "length bs = 4 \<Longrightarrow> word_bytes (from_le bs) = Inr bs"
  using from_le_bounds [of bs] to_from_le [of bs] by (simp add: word_bytes_def)

lemma forE_append: "forE f (xs @ ys) = eseq (forE f xs) (forE f ys)"
proof (induction xs)
  case Nil
  show ?case by (rule ext) (simp add: eseq_def ebind_def eret_def)
next
  case (Cons x xs)
  have "eseq (f x) (eseq (forE f xs) (forE f ys)) = eseq (eseq (f x) (forE f xs)) (forE f ys)"
    by (rule ext) (simp add: eseq_def ebind_def split: prod.splits sum.splits)
  with Cons show ?case by simp
qed

text \<open>The words a byte range overlaps, first and last.\<close>

lemma word_span:
  fixes off len :: nat
  assumes "0 < len"
  shows "off div 4 \<le> (off + len - 1) div 4"
    and "off mod 4 + len \<le> 4 * ((off + len - 1) div 4 + 1 - off div 4)"
    and "off + len \<le> 64 \<Longrightarrow> (off + len - 1) div 4 < 16"
    and "(int off + int len - 1) div 4 = int ((off + len - 1) div 4)"
    and "int off - int (off div 4) * 4 = int (off mod 4)"
proof -
  define f where "f = off div 4"
  define l where "l = (off + len - 1) div 4"
  define r where "r = off mod 4"
  define q where "q = (off + len - 1) mod 4"
  have off: "off = 4 * f + r" by (simp add: f_def r_def)
  have last: "off + len - 1 = 4 * l + q" and q: "q < 4" by (simp_all add: l_def q_def)
  have fl: "f \<le> l" using assms by (simp add: f_def l_def div_le_mono)
  show "off div 4 \<le> (off + len - 1) div 4" using fl by (simp add: f_def l_def)
  have "r + len \<le> 4 * (l + 1 - f)" using off last q fl assms by arith
  then show "off mod 4 + len \<le> 4 * ((off + len - 1) div 4 + 1 - off div 4)"
    by (simp add: f_def l_def r_def)
  show "(off + len - 1) div 4 < 16" if "off + len \<le> 64"
    using that assms by (intro less_mult_imp_div_less) simp
  have e: "int off + int len - 1 = int (off + len - 1)" using assms by simp
  show "(int off + int len - 1) div 4 = int ((off + len - 1) div 4)"
    by (simp only: e zdiv_int of_nat_numeral)
  show "int off - int (off div 4) * 4 = int (off mod 4)"
    by (simp add: minus_div_mult_eq_mod zdiv_int zmod_int)
qed

section \<open>The scratchpad interface\<close>

text \<open>
  \<open>mem\<close> is the content of the scratchpad, \<open>reg\<close> the other registers, \<open>inv\<close> what every
  operation keeps. Word \<open>w\<close> of the scratchpad is the four bytes from \<open>4 * w\<close>, little-endian.
\<close>

locale npu_scratchpad =
  fixes rt :: "'s mmio"
    and inv :: "'s \<Rightarrow> bool"
    and mem :: "'s \<Rightarrow> byte list"
    and reg :: "'s \<Rightarrow> int \<Rightarrow> int"
  assumes mem_len: "inv s \<Longrightarrow> length (mem s) = 64"
    and scratch_read: "inv s \<Longrightarrow> w < 16 \<Longrightarrow>
      read32 rt (SCRATCH + int w * 4) s = (Inr (from_le (take 4 (drop (4 * w) (mem s)))), s)"
    and scratch_write: "inv s \<Longrightarrow> w < 16 \<Longrightarrow> length bs = 4 \<Longrightarrow>
      \<exists>s'. write32 rt (SCRATCH + int w * 4) (from_le bs) s = (Inr (), s') \<and> inv s'
         \<and> mem s' = patch (4 * w) bs (mem s) \<and> reg s' = reg s"
begin

lemma read_words_mem:
  assumes "inv s" and "f \<le> l" and "l < 16"
  shows "read_words rt (int f) (int l) s
       = (Inr (take (4 * (l + 1 - f)) (drop (4 * f) (mem s))), s)"
proof -
  let ?g = "\<lambda>w. take 4 (drop (4 * nat w) (mem s))"
  have one: "ebind (read32 rt (SCRATCH + word * 4)) (\<lambda>v. elift (word_bytes v)) s = (Inr (?g word), s)"
    if "word \<in> set (map int [f..<l + 1])" for word
  proof -
    from that obtain w where w: "word = int w" "w < 16" using assms by auto
    then have "length (?g word) = 4" using mem_len [OF assms(1)] by simp
    then show ?thesis
      using scratch_read [OF assms(1) w(2)] w(1)
      by (simp add: ebind_def elift_def word_bytes_from_le)
  qed
  have rg: "py_range (int f) (int l + 1) = map int [f..<l + 1]"
    using py_range_nat [of f "l + 1"] by (simp add: algebra_simps)
  have "mapE (\<lambda>word. ebind (read32 rt (SCRATCH + word * 4)) (\<lambda>v. elift (word_bytes v)))
          (map int [f..<l + 1]) s = (Inr (map ?g (map int [f..<l + 1])), s)"
    using one by (rule mapE_pure)
  moreover have "concat (map ?g (map int [f..<l + 1])) = take (4 * (l + 1 - f)) (drop (4 * f) (mem s))"
    using concat_slices [of f "l + 1 - f" "mem s"] mem_len [OF assms(1)] assms
    by (simp add: comp_def)
  ultimately show ?thesis
    by (simp add: read_words_def rg ebind_def eret_def)
qed

lemma write_words_mem:
  assumes "inv s" and "f + n \<le> 16" and "4 * n \<le> length bs"
  shows "\<exists>s'. forE (\<lambda>word. write32 rt (SCRATCH + word * 4)
              (from_le (take 4 (drop (nat ((word - int f) * 4)) bs)))) (map int [f..<f + n]) s
            = (Inr (), s')
          \<and> inv s' \<and> mem s' = patch (4 * f) (take (4 * n) bs) (mem s) \<and> reg s' = reg s"
  using assms(2,3)
proof (induction n)
  case 0
  then show ?case using assms(1) mem_len [OF assms(1)] by (simp add: eret_def)
next
  case (Suc n)
  let ?body = "\<lambda>word. write32 rt (SCRATCH + word * 4)
              (from_le (take 4 (drop (nat ((word - int f) * 4)) bs)))"
  from Suc obtain s1 where s1: "forE ?body (map int [f..<f + n]) s = (Inr (), s1)" "inv s1"
    "mem s1 = patch (4 * f) (take (4 * n) bs) (mem s)" "reg s1 = reg s"
    by auto
  let ?c = "take 4 (drop (4 * n) bs)"
  have c: "length ?c = 4" using Suc.prems by simp
  have ix: "nat ((int (f + n) - int f) * 4) = 4 * n" by simp
  obtain s2 where s2: "write32 rt (SCRATCH + int (f + n) * 4) (from_le ?c) s1 = (Inr (), s2)" "inv s2"
    "mem s2 = patch (4 * (f + n)) ?c (mem s1)" "reg s2 = reg s1"
    using scratch_write [OF s1(2) _ c, of "f + n"] Suc.prems by auto
  have "?body (int (f + n)) s1 = (Inr (), s2)" using s2(1) by (simp only: ix)
  then have "forE ?body (map int [f..<f + Suc n]) s = (Inr (), s2)"
    using s1(1) by (simp add: forE_append eseq_def ebind_def eret_def)
  moreover have "mem s2 = patch (4 * f) (take (4 * Suc n) bs) (mem s)"
  proof -
    have "patch (4 * f + length (take (4 * n) bs)) ?c (patch (4 * f) (take (4 * n) bs) (mem s))
        = patch (4 * f) (take (4 * n) bs @ ?c) (mem s)"
      by (rule patch_append) (use Suc.prems mem_len [OF assms(1)] in simp)
    moreover have "take (4 * n) bs @ ?c = take (4 * Suc n) bs"
      by (simp add: take_add [symmetric] add.commute)
    ultimately show ?thesis using s1(3) s2(3) Suc.prems by (simp add: algebra_simps)
  qed
  ultimately show ?case using s1(4) s2 by auto
qed

lemma write_scratch_mem:
  assumes "inv s" and "off + length data \<le> 64"
  shows "\<exists>s'. write_scratch rt (int off) data s = (Inr (), s') \<and> inv s'
           \<and> mem s' = patch off data (mem s) \<and> reg s' = reg s"
proof (cases "data = []")
  case True
  then show ?thesis
    using assms mem_len [OF assms(1)]
    by (simp add: write_scratch_def SCRATCH_BYTES_def eret_def)
next
  case False
  then have pos: "0 < length data" by simp
  note span = word_span [OF pos, of off]
  define f where "f = off div 4"
  define l where "l = (off + length data - 1) div 4"
  have fl: "f \<le> l" and l16: "l < 16"
    using span(1,3) assms(2) by (simp_all add: f_def l_def)
  let ?n = "l + 1 - f"
  have rel: "off = 4 * f + off mod 4" by (simp add: f_def)
  have fits: "off mod 4 + length data \<le> 4 * ?n" "4 * (f + ?n) \<le> 64"
    using span(2) fl l16 by (simp_all add: f_def l_def)
  let ?old = "take (4 * ?n) (drop (4 * f) (mem s))"
  let ?new = "patch (off mod 4) data ?old"
  have old_len: "length ?old = 4 * ?n" using fits mem_len [OF assms(1)] by simp
  then have new_len: "length ?new = 4 * ?n" using fits by simp
  obtain s' where s': "forE (\<lambda>word. write32 rt (SCRATCH + word * 4)
              (from_le (take 4 (drop (nat ((word - int f) * 4)) ?new)))) (map int [f..<f + ?n]) s
            = (Inr (), s')" "inv s'" "mem s' = patch (4 * f) (take (4 * ?n) ?new) (mem s)"
            "reg s' = reg s"
    using write_words_mem [OF assms(1), of f ?n ?new] new_len fits by auto
  have idx: "int off div 4 = int f" "(int off + int (length data) - 1) div 4 = int l"
    "int off - int f * 4 = int (off mod 4)"
    using span(4,5) by (simp_all add: f_def l_def zdiv_int)
  have rg: "py_range (int f) (int l + 1) = map int [f..<f + ?n]"
    using py_range_nat [of f "l + 1"] fl by (simp add: algebra_simps)
  have "write_scratch rt (int off) data s = (Inr (), s')"
    using assms(2) False s'(1) read_words_mem [OF assms(1) fl l16]
    by (simp add: write_scratch_def SCRATCH_BYTES_def Let_def idx rg ebind_def)
  moreover have "mem s' = patch off data (mem s)"
    using s'(3) new_len rel patch_slice [of "4 * f" "4 * ?n" "mem s" "off mod 4" data]
      fits mem_len [OF assms(1)] by simp
  ultimately show ?thesis using s' by auto
qed

lemma read_scratch_mem:
  assumes "inv s" and "off + len \<le> 64"
  shows "read_scratch rt (int off) (int len) s = (Inr (take len (drop off (mem s))), s)"
proof (cases "len = 0")
  case True
  then show ?thesis
    using assms by (simp add: read_scratch_def SCRATCH_BYTES_def eret_def)
next
  case False
  then have pos: "0 < len" by simp
  note span = word_span [OF pos, of off]
  define f where "f = off div 4"
  define l where "l = (off + len - 1) div 4"
  have fl: "f \<le> l" and l16: "l < 16"
    using span(1,3) assms(2) by (simp_all add: f_def l_def)
  have idx: "int off div 4 = int f" "(int off + int len - 1) div 4 = int l"
    "int off - int f * 4 = int (off mod 4)"
    using span(4,5) by (simp_all add: f_def l_def zdiv_int)
  have fits: "off mod 4 + len \<le> 4 * (l + 1 - f)"
    using span(2) by (simp add: f_def l_def)
  have "take len (drop (off mod 4) (take (4 * (l + 1 - f)) (drop (4 * f) (mem s))))
      = take len (drop off (mem s))"
    using fits by (simp add: drop_take min_def f_def)
  then show ?thesis
    using assms(2) False read_words_mem [OF assms(1) fl l16]
    by (simp add: read_scratch_def SCRATCH_BYTES_def Let_def idx ebind_def eret_def)
qed

lemma scratch_roundtrip:
  assumes "inv s" and "off + length data \<le> 64"
  shows "\<exists>s'. eseq (write_scratch rt (int off) data)
                (read_scratch rt (int off) (int (length data))) s = (Inr data, s')
           \<and> inv s' \<and> mem s' = patch off data (mem s)"
proof -
  obtain s' where s': "write_scratch rt (int off) data s = (Inr (), s')" "inv s'"
    "mem s' = patch off data (mem s)"
    using write_scratch_mem [OF assms] by auto
  then have "read_scratch rt (int off) (int (length data)) s' = (Inr data, s')"
    using read_scratch_mem [OF s'(2) assms(2)] slice_patch [of off data "mem s"]
      assms mem_len [OF assms(1)] by simp
  with s' show ?thesis by (auto simp: eseq_def ebind_def)
qed

end

end
