(* ===== verification/Npu_Gemm.thy ===== *)
theory Npu_Gemm
  imports Npu_Scratch
begin

text \<open>
  The runtime's matrix product over any device that honours the GEMM part of the
  register contract: it returns exactly what the golden model computes. The
  device's promise is stated on packed tiles, the only layout the runtime uses:
  A at 0, B behind it, C on the next word boundary.
\<close>

section \<open>Row-major layout\<close>

lemma concat_uniform_length:
  "(\<And>r. r \<in> set a \<Longrightarrow> length r = k) \<Longrightarrow> length (concat a) = length a * k"
  by (induction a) auto

lemma concat_uniform_nth:
  "(\<And>r. r \<in> set a \<Longrightarrow> length r = k) \<Longrightarrow> i < length a \<Longrightarrow> j < k \<Longrightarrow>
   concat a ! (i * k + j) = a ! i ! j"
proof (induction a arbitrary: i)
  case Nil
  then show ?case by simp
next
  case (Cons r a)
  then show ?case by (cases i) (auto simp: nth_append)
qed

lemma concat_uniform_chunk:
  "(\<And>r. r \<in> set a \<Longrightarrow> length r = k) \<Longrightarrow> i < length a \<Longrightarrow>
   take k (drop (i * k) (concat a)) = a ! i"
proof (induction a arbitrary: i)
  case Nil
  then show ?case by simp
next
  case (Cons r a)
  then show ?case by (cases i) auto
qed

lemma concat_map_concat: "concat (map concat xss) = concat (concat xss)"
  by (induction xss) auto

lemma neg_mod: "v < 0 \<Longrightarrow> 0 \<le> v + p \<Longrightarrow> v mod p = v + (p :: int)"
  using mod_add_self2 [of v p] mod_pos_pos_trivial [of "v + p" p] by linarith

lemma row_major_index: "i < m \<Longrightarrow> j < n \<Longrightarrow> i * n + j < m * (n::nat)"
proof -
  assume "i < m" "j < n"
  then have "i * n + j < Suc i * n" by simp
  also have "\<dots> \<le> m * n" using \<open>i < m\<close> by (intro mult_le_mono1) simp
  finally show ?thesis .
qed

section \<open>What a tile computes\<close>

definition tile_product :: "nat \<Rightarrow> nat \<Rightarrow> nat \<Rightarrow> byte list \<Rightarrow> nat \<Rightarrow> nat \<Rightarrow> int" where
  "tile_product m n k mm i j =
     (\<Sum>l<k. sint (mm ! (i * k + l)) * sint (mm ! (m * k + l * n + j)))"

definition tile_result :: "nat \<Rightarrow> nat \<Rightarrow> nat \<Rightarrow> byte list \<Rightarrow> byte list" where
  "tile_result m n k mm =
     concat (map (\<lambda>i. concat (map (\<lambda>j. to_le 4 (tile_product m n k mm i j)) [0..<n])) [0..<m])"

definition gemm_shape :: "nat \<Rightarrow> nat \<Rightarrow> nat \<Rightarrow> bool" where
  "gemm_shape m n k \<longleftrightarrow> 1 \<le> m \<and> m \<le> 3 \<and> 1 \<le> n \<and> n \<le> 3 \<and> 1 \<le> k \<and> k \<le> 7
     \<and> gemm_c_base m n k + int (m * n * 4) \<le> 64"

definition cfg_word :: "nat \<Rightarrow> nat \<Rightarrow> nat \<Rightarrow> int" where
  "cfg_word m n k = int m OR push_bit 8 (int n) OR push_bit 16 (int k)"

definition base_word :: "nat \<Rightarrow> nat \<Rightarrow> nat \<Rightarrow> int" where
  "base_word m n k = 0 OR push_bit 8 (int (m * k)) OR push_bit 16 (gemm_c_base m n k)"

definition stride_word :: "nat \<Rightarrow> nat \<Rightarrow> int" where
  "stride_word n k = int k OR push_bit 8 (int n) OR push_bit 16 (int (n * 4))"

lemma gemm_c_base_nat:
  obtains c where "gemm_c_base m n k = int c" "m * k + k * n \<le> c" "c < m * k + k * n + 4" "c mod 4 = 0"
proof -
  define y where "y = m * k + k * n"
  define q where "q = (y + 3) div 4"
  have q: "4 * q \<le> y + 3" "y + 3 < 4 * q + 4"
    using dividend_less_times_div [of 4 "y + 3"] times_div_less_eq_dividend [of 4 "y + 3"]
    by (simp_all add: q_def)
  have "gemm_c_base m n k = int (y + 3) AND NOT 3"
    by (simp add: gemm_c_base_def y_def)
  also have "\<dots> = int (y + 3) - int (y + 3) mod 4" by (rule and_not_3_int)
  also have "\<dots> = int (4 * q)" by (simp add: q_def minus_mod_eq_mult_div zdiv_int)
  finally have "gemm_c_base m n k = int (4 * q)" .
  moreover have "m * k + k * n \<le> 4 * q" "4 * q < m * k + k * n + 4"
    using q unfolding y_def [symmetric] by linarith+
  moreover have "4 * q mod 4 = 0" by simp
  ultimately show ?thesis by (rule that)
qed

lemma length_tile_result [simp]: "length (tile_result m n k mm) = m * n * 4"
proof -
  have "length (concat (map (\<lambda>j. to_le 4 (tile_product m n k mm i j)) [0..<n])) = n * 4" for i
    by (subst concat_uniform_length [where k = 4]) auto
  then show ?thesis
    unfolding tile_result_def by (subst concat_uniform_length [where k = "n * 4"]) auto
qed

lemma tile_result_word:
  assumes "i < m" and "j < n"
  shows "take 4 (drop ((i * n + j) * 4) (tile_result m n k mm)) = to_le 4 (tile_product m n k mm i j)"
proof -
  let ?w = "\<lambda>i j. to_le 4 (tile_product m n k mm i j)"
  let ?ws = "concat (map (\<lambda>i. map (?w i) [0..<n]) [0..<m])"
  have "tile_result m n k mm = concat ?ws"
    by (simp add: tile_result_def concat_map_concat [symmetric] comp_def)
  moreover have "take 4 (drop ((i * n + j) * 4) (concat ?ws)) = ?ws ! (i * n + j)"
  proof (rule concat_uniform_chunk)
    have "length ?ws = m * n"
      by (subst concat_uniform_length [where k = n]) auto
    then show "i * n + j < length ?ws" using row_major_index [OF assms] by simp
  qed auto
  moreover have "?ws ! (i * n + j) = map (?w i) [0..<n] ! j"
    by (subst concat_uniform_nth [where k = n]) (use assms in auto)
  ultimately show ?thesis using assms by simp
qed

lemma from_le_s32_to_le: "- (2 ^ 31) \<le> v \<Longrightarrow> v < 2 ^ 31 \<Longrightarrow> from_le_s32 (to_le 4 v) = v"
proof -
  assume b: "- (2 ^ 31) \<le> v" "v < 2 ^ 31"
  show ?thesis
  proof (cases "0 \<le> v")
    case True
    then show ?thesis using b by (simp add: from_le_s32_def from_to_le)
  next
    case False
    then have "v mod 4294967296 = v + 4294967296"
      using b by (intro neg_mod) simp_all
    then show ?thesis using b False by (simp add: from_le_s32_def from_to_le)
  qed
qed

lemma sint_byte_range: "-128 \<le> sint (b :: byte)" "sint (b :: byte) \<le> 127"
  using sint_ge [of b] sint_lt [of b] by simp_all

lemma byte_product_bound: "\<bar>sint (x :: byte) * sint (y :: byte)\<bar> \<le> 16384"
proof -
  have "\<bar>sint x\<bar> * \<bar>sint y\<bar> \<le> 128 * 128"
    using sint_byte_range [of x] sint_byte_range [of y] by (intro mult_mono) auto
  then show ?thesis by (simp add: abs_mult)
qed

lemma tile_product_bound: "k \<le> 7 \<Longrightarrow> \<bar>tile_product m n k mm i j\<bar> < 2 ^ 31"
proof -
  assume k: "k \<le> 7"
  have "\<bar>tile_product m n k mm i j\<bar> \<le> (\<Sum>l<k. \<bar>sint (mm ! (i * k + l)) * sint (mm ! (m * k + l * n + j))\<bar>)"
    unfolding tile_product_def by (rule sum_abs)
  also have "\<dots> \<le> (\<Sum>l<k. 16384)"
    by (rule sum_mono) (rule byte_product_bound)
  also have "\<dots> \<le> 7 * 16384" using k by simp
  finally show ?thesis by simp
qed

lemma decode_tile_result:
  assumes "k \<le> 7"
  shows "gemm_decode m n (tile_result m n k mm)
       = map (\<lambda>i. map (tile_product m n k mm i) [0..<n]) [0..<m]"
proof -
  have "from_le_s32 (to_le 4 (tile_product m n k mm i j)) = tile_product m n k mm i j" for i j
    using tile_product_bound [OF assms, of m n mm i j] by (intro from_le_s32_to_le) auto
  then show ?thesis
    unfolding gemm_decode_def by (intro map_cong refl) (simp add: tile_result_word del: distrib_right_numeral add_mult_distrib)
qed

section \<open>Inputs\<close>

definition int8_matrix :: "nat \<Rightarrow> nat \<Rightarrow> int list list \<Rightarrow> bool" where
  "int8_matrix rows cols a \<longleftrightarrow>
     length a = rows \<and> list_all (\<lambda>r. length r = cols \<and> list_all (\<lambda>v. -128 \<le> v \<and> v \<le> 127) r) a"

lemma int8_matrixD:
  assumes "int8_matrix rows cols a"
  shows "length a = rows" and "r \<in> set a \<Longrightarrow> length r = cols"
    and "i < rows \<Longrightarrow> j < cols \<Longrightarrow> -128 \<le> a ! i ! j \<and> a ! i ! j \<le> 127"
    and "v \<in> set (concat a) \<Longrightarrow> -128 \<le> v \<and> v \<le> 127"
proof -
  have all: "length a = rows" "\<forall>r\<in>set a. length r = cols" "\<forall>r\<in>set a. \<forall>v\<in>set r. -128 \<le> v \<and> v \<le> 127"
    using assms by (auto simp: int8_matrix_def list_all_iff)
  then show "length a = rows" and "r \<in> set a \<Longrightarrow> length r = cols"
    and "v \<in> set (concat a) \<Longrightarrow> -128 \<le> v \<and> v \<le> 127"
    by auto
  show "-128 \<le> a ! i ! j \<and> a ! i ! j \<le> 127" if "i < rows" "j < cols"
    using all that by (metis nth_mem)
qed

lemma int8_matrix_row_len: "int8_matrix rows cols a \<Longrightarrow> 0 < rows \<Longrightarrow> row_len a = cols"
  by (cases a) (auto simp: int8_matrix_def row_len_def)

lemma s8_ok: "-128 \<le> v \<Longrightarrow> v \<le> 127 \<Longrightarrow> s8 v = Inr (word_of_int v)"
proof -
  have "uint (word_of_int (v AND 0xFF) :: byte) = uint (word_of_int v :: byte)"
    by (simp only: uint_byte_of_int mask_simps mod_mod_trivial)
  then have "word_of_int (v AND 0xFF) = (word_of_int v :: byte)" by (rule word_uint_eqI)
  then show "-128 \<le> v \<Longrightarrow> v \<le> 127 \<Longrightarrow> s8 v = Inr (word_of_int v)" by (simp only: s8_def) simp
qed

lemma sint_s8: "-128 \<le> v \<Longrightarrow> v \<le> 127 \<Longrightarrow> sint (word_of_int v :: byte) = v"
proof -
  assume v: "-128 \<le> v" "v \<le> 127"
  show ?thesis
  proof (cases "0 \<le> v")
    case True
    then show ?thesis using v by (simp add: sint_byte_of_int)
  next
    case False
    then have "v mod 256 = v + 256"
      using v by (intro neg_mod) simp_all
    then show ?thesis using v False by (simp add: sint_byte_of_int)
  qed
qed

definition tile_bytes :: "int list list \<Rightarrow> byte list" where
  "tile_bytes a = map word_of_int (concat a)"

lemma tile_bytes_nth:
  assumes "int8_matrix rows cols a" "i < rows" "j < cols"
  shows "sint (tile_bytes a ! (i * cols + j)) = a ! i ! j"
proof -
  note d = int8_matrixD [OF assms(1)]
  have "length (concat a) = rows * cols"
    using concat_uniform_length [of a cols] d(1,2) by simp
  then have "tile_bytes a ! (i * cols + j) = word_of_int (concat a ! (i * cols + j))"
    using row_major_index [OF assms(2,3)] by (simp add: tile_bytes_def)
  also have "concat a ! (i * cols + j) = a ! i ! j"
    using concat_uniform_nth [of a cols i j] d(1,2) assms by simp
  finally show ?thesis using sint_s8 d(3) [OF assms(2,3)] by simp
qed

lemma length_tile_bytes: "int8_matrix rows cols a \<Longrightarrow> length (tile_bytes a) = rows * cols"
  using concat_uniform_length [of a cols] int8_matrixD(1,2) [of rows cols a]
  by (simp add: tile_bytes_def)

lemma a_bytes_eq: "int8_matrix m k a \<Longrightarrow> mapR s8 (concat a) = Inr (tile_bytes a)"
  unfolding tile_bytes_def
  by (rule mapR_total) (use int8_matrixD(4) s8_ok in blast)

lemma concat_as_comprehension:
  assumes "length b = k" "\<And>r. r \<in> set b \<Longrightarrow> length r = n"
  shows "map (\<lambda>(i, j). b ! i ! j) [(row, col). row \<leftarrow> [0..<k], col \<leftarrow> [0..<n]] = concat b"
proof -
  have "map (\<lambda>i. map (\<lambda>j. b ! i ! j) [0..<n]) [0..<k] = b"
    using assms by (intro nth_equalityI) (auto intro!: nth_equalityI)
  moreover have "map (\<lambda>(i, j). b ! i ! j) [(row, col). row \<leftarrow> [0..<k], col \<leftarrow> [0..<n]]
      = concat (map (\<lambda>i. map (\<lambda>j. b ! i ! j) [0..<n]) [0..<k])"
    by (simp add: map_concat comp_def)
  ultimately show ?thesis by simp
qed

lemma b_bytes_eq:
  assumes "int8_matrix k n b"
  shows "mapR (\<lambda>(row, col). rbind (py_nth b row) (\<lambda>r. rbind (py_nth r col) s8))
           [(row, col). row \<leftarrow> [0..<k], col \<leftarrow> [0..<n]] = Inr (tile_bytes b)"
proof -
  note d = int8_matrixD [OF assms]
  let ?ix = "[(row, col). row \<leftarrow> [0..<k], col \<leftarrow> [0..<n]]"
  have "mapR (\<lambda>(row, col). rbind (py_nth b row) (\<lambda>r. rbind (py_nth r col) s8)) ?ix
      = Inr (map (\<lambda>(i, j). word_of_int (b ! i ! j)) ?ix)"
  proof (rule mapR_total)
    fix p assume "p \<in> set ?ix"
    then obtain i j where p: "p = (i, j)" "i < k" "j < n" by auto
    then have "length (b ! i) = n" using d(1,2) by simp
    with p d(1) s8_ok d(3) [of i j]
    show "(case p of (row, col) \<Rightarrow> rbind (py_nth b row) (\<lambda>r. rbind (py_nth r col) s8))
        = Inr (case p of (i, j) \<Rightarrow> word_of_int (b ! i ! j))"
      by (simp add: py_nth_def)
  qed
  moreover have "map (\<lambda>(i, j). word_of_int (b ! i ! j)) ?ix
      = map word_of_int (map (\<lambda>(i, j). b ! i ! j) ?ix)"
    by (simp add: case_prod_unfold)
  ultimately show ?thesis
    using concat_as_comprehension [of b k n] d(1,2) by (simp add: tile_bytes_def)
qed

text \<open>The golden model on well-formed inputs is the mathematical matrix product.\<close>

definition mat_mul :: "nat \<Rightarrow> nat \<Rightarrow> nat \<Rightarrow> int list list \<Rightarrow> int list list \<Rightarrow> int list list" where
  "mat_mul m n k a b = map (\<lambda>i. map (\<lambda>j. \<Sum>l<k. a ! i ! l * b ! l ! j) [0..<n]) [0..<m]"

lemma golden_mat_mul:
  assumes "int8_matrix m k a" "int8_matrix k n b" "0 < m" "0 < k"
  shows "golden_gemm_s8 a b = Inr (mat_mul m n k a b)"
proof -
  note da = int8_matrixD [OF assms(1)] and db = int8_matrixD [OF assms(2)]
  have dims: "length a = m" "row_len a = k" "row_len b = n"
    using da(1) int8_matrix_row_len assms by auto
  have entry: "mapR (\<lambda>kk. rbind (py_nth a i) (\<lambda>ra. rbind (py_nth ra kk) (\<lambda>x.
              rbind (py_nth b kk) (\<lambda>rb. rbind (py_nth rb j) (\<lambda>y. Inr (x * y)))))) [0..<k]
      = Inr (map (\<lambda>l. a ! i ! l * b ! l ! j) [0..<k])" if "i < m" "j < n" for i j
    by (rule mapR_total) (use that da(1,2) db(1,2) in \<open>simp add: py_nth_def\<close>)
  have "golden_gemm_s8 a b
      = mapR (\<lambda>i. Inr (map (\<lambda>j. \<Sum>l<k. a ! i ! l * b ! l ! j) [0..<n]) :: npu_error + _) [0..<m]"
    unfolding golden_gemm_s8_def Let_def dims
  proof (rule mapR_cong [OF refl])
    fix i assume i: "i \<in> set [0..<m]"
    show "mapR (\<lambda>j. rbind (mapR (\<lambda>kk. rbind (py_nth a i) (\<lambda>ra. rbind (py_nth ra kk) (\<lambda>x.
              rbind (py_nth b kk) (\<lambda>rb. rbind (py_nth rb j) (\<lambda>y. Inr (x * y)))))) [0..<k])
            (\<lambda>ps. Inr (sum_list ps))) [0..<n]
        = Inr (map (\<lambda>j. \<Sum>l<k. a ! i ! l * b ! l ! j) [0..<n])"
      by (rule mapR_total)
        (use i entry in \<open>simp add: interv_sum_list_conv_sum_set_nat atLeast0LessThan\<close>)
  qed
  then show ?thesis by (simp add: mapR_total mat_mul_def)
qed

text \<open>Well-formed inputs of a supported shape pass every check and reach the device.\<close>

lemma gemm_s8_launches:
  assumes "gemm_shape m n k" and "int8_matrix m k a" and "int8_matrix k n b"
  shows "gemm_s8 rt a b s = gemm_launch rt m n k (tile_bytes a) (tile_bytes b) s"
proof -
  note da = int8_matrixD [OF assms(2)] and db = int8_matrixD [OF assms(3)]
  have dims: "1 \<le> m" "m \<le> 3" "1 \<le> n" "n \<le> 3" "1 \<le> k" "k \<le> 7"
    "gemm_c_base m n k + int (m * n * 4) \<le> 64"
    using assms(1) by (simp_all add: gemm_shape_def)
  have lens: "length a = m" "row_len a = k" "row_len b = n"
    using da(1) int8_matrix_row_len assms(2,3) dims by auto
  then show ?thesis
    using dims da(1,2) db(1,2)
    by (simp add: gemm_s8_def Let_def SCRATCH_BYTES_def list_ex_iff
        a_bytes_eq [OF assms(2)] b_bytes_eq [OF assms(3), simplified] ebind_def elift_def)
qed

section \<open>The GEMM interface of a device\<close>

locale npu_gemm_device = npu_scratchpad rt inv mem reg
  for rt :: "'s mmio"
    and inv :: "'s \<Rightarrow> bool"
    and mem :: "'s \<Rightarrow> byte list"
    and reg :: "'s \<Rightarrow> int \<Rightarrow> int" +
  fixes finished :: "'s \<Rightarrow> bool"
  assumes perf_clear: "inv s \<Longrightarrow>
      \<exists>s'. write32 rt PERF_ERRORS 1 s = (Inr (), s') \<and> inv s' \<and> mem s' = mem s \<and> reg s' = reg s"
    and reg_write: "inv s \<Longrightarrow> r \<in> {GEMM_CFG, GEMM_BASE, GEMM_STRIDE, OPCODE} \<Longrightarrow>
      0 \<le> v \<Longrightarrow> v < 2 ^ 32 \<Longrightarrow>
      \<exists>s'. write32 rt r v s = (Inr (), s') \<and> inv s' \<and> mem s' = mem s \<and> reg s' = (reg s)(r := v)"
    and ctrl_reset: "inv s \<Longrightarrow>
      \<exists>s'. write32 rt CTRL_STATUS 2 s = (Inr (), s') \<and> inv s' \<and> mem s' = mem s \<and> reg s' = reg s"
    and ctrl_start: "inv s \<Longrightarrow> gemm_shape m n k \<Longrightarrow> reg s CMD_PARAM = 0 \<Longrightarrow>
      reg s OPCODE = OP_GEMM_S8 \<Longrightarrow> reg s GEMM_CFG = cfg_word m n k \<Longrightarrow>
      reg s GEMM_BASE = base_word m n k \<Longrightarrow> reg s GEMM_STRIDE = stride_word n k \<Longrightarrow>
      \<exists>s'. write32 rt CTRL_STATUS 1 s = (Inr (), s') \<and> inv s' \<and> finished s'
         \<and> mem s' = patch (nat (gemm_c_base m n k)) (tile_result m n k (mem s)) (mem s)"
    and finished_status: "finished s \<Longrightarrow>
      \<exists>v. read32 rt CTRL_STATUS s = (Inr v, s) \<and> v AND 4 = 0 \<and> v AND 2 \<noteq> 0"
    and finished_perf: "finished s \<Longrightarrow> \<exists>p. perf rt s = (Inr p, s)"
begin

lemma poll_finished: "finished s \<Longrightarrow> 0 < t \<Longrightarrow> \<exists>r. poll_status rt t pre s = (Inr r, s)"
proof -
  assume "finished s" and "0 < t"
  obtain v where v: "read32 rt CTRL_STATUS s = (Inr v, s)" "v AND 4 = 0" "v AND 2 \<noteq> 0"
    using finished_status [OF \<open>finished s\<close>] by blast
  obtain p where p: "perf rt s = (Inr p, s)" using finished_perf [OF \<open>finished s\<close>] by blast
  obtain n where "nat t = Suc n" using \<open>0 < t\<close> by (cases "nat t") simp_all
  then show ?thesis using v p \<open>0 < t\<close>
    by (simp add: poll_status_def Let_def ebind_def eret_def)
qed

lemma config_words_bounds:
  assumes "gemm_shape m n k"
  shows "0 \<le> cfg_word m n k \<and> cfg_word m n k < 2 ^ 32"
    and "0 \<le> base_word m n k \<and> base_word m n k < 2 ^ 32"
    and "0 \<le> stride_word n k \<and> stride_word n k < 2 ^ 32"
proof -
  have or3: "0 \<le> x OR y OR z \<and> x OR y OR z < 2 ^ 32"
    if "0 \<le> x" "x < 2 ^ 32" "0 \<le> y" "y < 2 ^ 32" "0 \<le> z" "z < 2 ^ 32" for x y z :: int
    using OR_upper [of y 32 z] OR_upper [of x 32 "y OR z"] that by simp
  obtain c where c: "gemm_c_base m n k = int c" by (rule gemm_c_base_nat)
  have d: "m \<le> 3" "n \<le> 3" "k \<le> 7" "int c + int (m * n * 4) \<le> 64"
    using assms unfolding gemm_shape_def c by blast+
  then have "c \<le> 64" by linarith
  note d = d(1-3) this
  have "m * k \<le> 3 * 7" using d by (intro mult_mono) auto
  then have "int (m * k) \<le> 21" by linarith
  then have mk: "int k * int m \<le> 21" by (simp add: mult.commute)
  show "0 \<le> cfg_word m n k \<and> cfg_word m n k < 2 ^ 32"
    unfolding cfg_word_def using d by (intro or3) (simp_all add: push_bit_eq_mult)
  show "0 \<le> base_word m n k \<and> base_word m n k < 2 ^ 32"
    unfolding base_word_def c using d mk by (intro or3) (simp_all add: push_bit_eq_mult)
  show "0 \<le> stride_word n k \<and> stride_word n k < 2 ^ 32"
    unfolding stride_word_def using d by (intro or3) (simp_all add: push_bit_eq_mult)
qed

lemma launch_prefix:
  assumes "inv s" and "gemm_shape m n k" and "length ab = m * k" and "length bb = k * n"
  obtains s' where "gemm_launch rt m n k ab bb s
      = eseq (write32 rt CTRL_STATUS 1)
          (eseq (poll_status rt 1024 ''e1 NPU GEMM command'')
          (ebind (read_scratch rt (gemm_c_base m n k) (int (m * n * 4)))
             (\<lambda>raw. eret (gemm_decode m n raw)))) s'"
    "inv s'"
    "reg s' = (reg s)(GEMM_CFG := cfg_word m n k, GEMM_BASE := base_word m n k,
       GEMM_STRIDE := stride_word n k, OPCODE := OP_GEMM_S8)"
    "\<forall>i < m * k. mem s' ! i = ab ! i"
    "\<forall>i < k * n. mem s' ! (m * k + i) = bb ! i"
proof -
  obtain c where c: "gemm_c_base m n k = int c" "m * k + k * n \<le> c" by (rule gemm_c_base_nat)
  have cfit: "c + m * n * 4 \<le> 64"
    using assms(2) unfolding gemm_shape_def c(1) by linarith
  note words = config_words_bounds [OF assms(2)]
  obtain s1 where s1: "clear_perf rt s = (Inr (), s1)" "inv s1" "mem s1 = mem s" "reg s1 = reg s"
    using perf_clear [OF assms(1)] by (auto simp: clear_perf_def)
  obtain s2 where s2: "write_scratch rt 0 ab s1 = (Inr (), s2)" "inv s2"
    "mem s2 = patch 0 ab (mem s)" "reg s2 = reg s"
    using write_scratch_mem [OF s1(2), of 0 ab] assms(3) c(2) cfit s1 by auto
  obtain s3 where s3: "write_scratch rt (int (m * k)) bb s2 = (Inr (), s3)" "inv s3"
    "mem s3 = patch (m * k) bb (mem s2)" "reg s3 = reg s"
    using write_scratch_mem [OF s2(2), of "m * k" bb] assms(4) c(2) cfit s2 by auto
  let ?z = "replicate (m * n * 4) (0 :: byte)"
  obtain s4 where s4: "write_scratch rt (int c) ?z s3 = (Inr (), s4)" "inv s4"
    "mem s4 = patch c ?z (mem s3)" "reg s4 = reg s"
    using write_scratch_mem [OF s3(2), of c ?z] cfit s3 by auto
  obtain s5 where s5: "write32 rt GEMM_CFG (cfg_word m n k) s4 = (Inr (), s5)" "inv s5"
    "mem s5 = mem s4" "reg s5 = (reg s)(GEMM_CFG := cfg_word m n k)"
    using reg_write [OF s4(2), of GEMM_CFG] words(1) s4(4) by auto
  obtain s6 where s6: "write32 rt GEMM_BASE (base_word m n k) s5 = (Inr (), s6)" "inv s6"
    "mem s6 = mem s4" "reg s6 = (reg s5)(GEMM_BASE := base_word m n k)"
    using reg_write [OF s5(2), of GEMM_BASE] words(2) s5(3) by auto
  obtain s7 where s7: "write32 rt GEMM_STRIDE (stride_word n k) s6 = (Inr (), s7)" "inv s7"
    "mem s7 = mem s4" "reg s7 = (reg s6)(GEMM_STRIDE := stride_word n k)"
    using reg_write [OF s6(2), of GEMM_STRIDE] words(3) s6(3) by auto
  obtain s8 where s8: "write32 rt OPCODE OP_GEMM_S8 s7 = (Inr (), s8)" "inv s8"
    "mem s8 = mem s4" "reg s8 = (reg s7)(OPCODE := OP_GEMM_S8)"
    using reg_write [OF s7(2), of OPCODE OP_GEMM_S8] s7(3) by (auto simp: OP_GEMM_S8_def)
  obtain s9 where s9: "write32 rt CTRL_STATUS 2 s8 = (Inr (), s9)" "inv s9"
    "mem s9 = mem s4" "reg s9 = reg s8"
    using ctrl_reset [OF s8(2)] s8(3) by auto
  have ml: "length (mem s) = 64" "length (mem s2) = 64" "length (mem s3) = 64"
    using mem_len assms(1) s2(2) s3(2) by auto
  show ?thesis
  proof (rule that [of s9])
    show "gemm_launch rt m n k ab bb s
      = eseq (write32 rt CTRL_STATUS 1)
          (eseq (poll_status rt 1024 ''e1 NPU GEMM command'')
          (ebind (read_scratch rt (gemm_c_base m n k) (int (m * n * 4)))
             (\<lambda>raw. eret (gemm_decode m n raw)))) s9"
      unfolding gemm_launch_def Let_def c(1)
        cfg_word_def [of m n k, symmetric] base_word_def [of m n k, unfolded c(1), symmetric]
        stride_word_def [of n k, symmetric]
      by (simp only: eseq_def ebind_def eret_def nat_int prod.case sum.case s1(1) s2(1) s3(1)
          s4(1) s5(1) s6(1) s7(1) s8(1) s9(1))
    show "inv s9" by (rule s9(2))
    show "reg s9 = (reg s)(GEMM_CFG := cfg_word m n k, GEMM_BASE := base_word m n k,
       GEMM_STRIDE := stride_word n k, OPCODE := OP_GEMM_S8)"
      by (simp only: s9(4) s8(4) s7(4) s6(4) s5(4))
    show "\<forall>i < m * k. mem s9 ! i = ab ! i"
      using c(2) cfit assms(3,4) ml by (simp add: s9(3) s4(3) s3(3) s2(3) patch_nth)
    show "\<forall>i < k * n. mem s9 ! (m * k + i) = bb ! i"
      using c(2) cfit assms(3,4) ml by (simp add: s9(3) s4(3) s3(3) patch_nth)
  qed
qed

lemma launch_tile:
  assumes "inv s" and "gemm_shape m n k" and "reg s CMD_PARAM = 0"
    and "length ab = m * k" and "length bb = k * n"
  shows "\<exists>s' M. gemm_launch rt m n k ab bb s = (Inr (gemm_decode m n (tile_result m n k M)), s')
           \<and> inv s'
           \<and> (\<forall>i < m * k. M ! i = ab ! i) \<and> (\<forall>i < k * n. M ! (m * k + i) = bb ! i)"
proof -
  obtain s1 where s1: "gemm_launch rt m n k ab bb s
      = eseq (write32 rt CTRL_STATUS 1)
          (eseq (poll_status rt 1024 ''e1 NPU GEMM command'')
          (ebind (read_scratch rt (gemm_c_base m n k) (int (m * n * 4)))
             (\<lambda>raw. eret (gemm_decode m n raw)))) s1"
    "inv s1"
    "reg s1 = (reg s)(GEMM_CFG := cfg_word m n k, GEMM_BASE := base_word m n k,
       GEMM_STRIDE := stride_word n k, OPCODE := OP_GEMM_S8)"
    "\<forall>i < m * k. mem s1 ! i = ab ! i"
    "\<forall>i < k * n. mem s1 ! (m * k + i) = bb ! i"
    by (rule launch_prefix [OF assms(1,2,4,5)])
  obtain c where c: "gemm_c_base m n k = int c" "m * k + k * n \<le> c" by (rule gemm_c_base_nat)
  have cfit: "c + m * n * 4 \<le> 64"
    using assms(2) unfolding gemm_shape_def c(1) by linarith
  have regs: "reg s1 CMD_PARAM = 0" "reg s1 OPCODE = OP_GEMM_S8" "reg s1 GEMM_CFG = cfg_word m n k"
    "reg s1 GEMM_BASE = base_word m n k" "reg s1 GEMM_STRIDE = stride_word n k"
    using assms(3) by (simp_all add: s1(3) reg_defs)
  obtain s2 where s2: "write32 rt CTRL_STATUS 1 s1 = (Inr (), s2)" "inv s2" "finished s2"
    "mem s2 = patch c (tile_result m n k (mem s1)) (mem s1)"
    using ctrl_start [OF s1(2) assms(2) regs] c(1) by auto
  obtain r where r: "poll_status rt 1024 ''e1 NPU GEMM command'' s2 = (Inr r, s2)"
    using poll_finished [OF s2(3), of 1024] by auto
  have rd: "read_scratch rt (int c) (int (m * n * 4)) s2 = (Inr (tile_result m n k (mem s1)), s2)"
    using read_scratch_mem [OF s2(2) cfit] s2(4) cfit mem_len [OF s1(2)]
      slice_patch [of c "tile_result m n k (mem s1)" "mem s1"] by simp
  have "gemm_launch rt m n k ab bb s
      = (Inr (gemm_decode m n (tile_result m n k (mem s1))), s2)"
    unfolding s1(1) c(1)
    by (simp only: eseq_def ebind_def eret_def prod.case sum.case s2(1) r rd)
  then show ?thesis using s1(4,5) s2(2) by blast
qed

lemma gemm_s8_golden:
  assumes "inv s" and "reg s CMD_PARAM = 0" and "gemm_shape m n k"
    and "int8_matrix m k a" and "int8_matrix k n b"
  shows "\<exists>s'. gemm_s8 rt a b s = (golden_gemm_s8 a b, s') \<and> inv s'"
proof -
  have dims: "1 \<le> m" "m \<le> 3" "1 \<le> n" "n \<le> 3" "1 \<le> k" "k \<le> 7"
    "gemm_c_base m n k + int (m * n * 4) \<le> 64"
    using assms(3) by (simp_all add: gemm_shape_def)
  obtain s' M where l: "gemm_launch rt m n k (tile_bytes a) (tile_bytes b) s
      = (Inr (gemm_decode m n (tile_result m n k M)), s')" "inv s'"
    "\<forall>i < m * k. M ! i = tile_bytes a ! i" "\<forall>i < k * n. M ! (m * k + i) = tile_bytes b ! i"
    using launch_tile [OF assms(1,3,2), of "tile_bytes a" "tile_bytes b"]
      length_tile_bytes [OF assms(4)] length_tile_bytes [OF assms(5)] by auto
  have "tile_product m n k M i j = (\<Sum>l<k. a ! i ! l * b ! l ! j)" if "i < m" "j < n" for i j
  proof -
    have "sint (M ! (i * k + l)) = a ! i ! l" "sint (M ! (m * k + l * n + j)) = b ! l ! j"
      if "l < k" for l
      using l(3,4) row_major_index [of i m l k] row_major_index [of l k j n]
        tile_bytes_nth [OF assms(4), of i l] tile_bytes_nth [OF assms(5), of l j]
        \<open>i < m\<close> \<open>j < n\<close> that by (simp_all add: add.assoc)
    then show ?thesis by (simp add: tile_product_def)
  qed
  then have "gemm_decode m n (tile_result m n k M) = mat_mul m n k a b"
    by (simp add: decode_tile_result [OF dims(6)] mat_mul_def)
  moreover have "golden_gemm_s8 a b = Inr (mat_mul m n k a b)"
    using golden_mat_mul [OF assms(4,5)] dims by simp
  moreover have "gemm_s8 rt a b s = gemm_launch rt m n k (tile_bytes a) (tile_bytes b) s"
    by (rule gemm_s8_launches [OF assms(3-5)])
  ultimately show ?thesis using l(1,2) by auto
qed

end

end
