(* ===== verification/Npu_Sim.thy ===== *)
theory Npu_Sim
  imports Npu_Gemm
begin

text \<open>
  The behavioural MMIO device of \<open>compiler/runtime/test_e1_npu_runtime_sim.py\<close>: a register
  dictionary whose control register runs a command when bit 0 is written. Every
  dictionary access that can raise \<open>KeyError\<close> does so in the model. The runtime's GEMM
  interface is interpreted on it, which makes the golden-model theorem a statement
  about this device.
\<close>

section \<open>The device\<close>

type_synonym regs = "int \<rightharpoonup> int"

text \<open>\<open>self.regs.get(addr, 0)\<close>, \<open>self.regs[addr]\<close> and \<open>self.regs[addr] += v\<close>.\<close>

definition reg_get :: "regs \<Rightarrow> int \<Rightarrow> int" where
  "reg_get r a = (case r a of None \<Rightarrow> 0 | Some v \<Rightarrow> v)"

definition reg_index :: "int \<Rightarrow> (regs, int) npu" where
  "reg_index a = (\<lambda>r. case r a of None \<Rightarrow> (Inl (NpuKeyError a), r) | Some v \<Rightarrow> (Inr v, r))"

definition reg_set :: "int \<Rightarrow> int \<Rightarrow> (regs, unit) npu" where
  "reg_set a v = (\<lambda>r. (Inr (), r(a \<mapsto> v)))"

definition reg_add :: "int \<Rightarrow> int \<Rightarrow> (regs, unit) npu" where
  "reg_add a v = ebind (reg_index a) (\<lambda>x. reg_set a (x + v))"

definition sim_init :: regs where
  "sim_init =
     (let r0 = [CTRL_STATUS \<mapsto> 0, PERF_UNSUPPORTED_OPS \<mapsto> 0, PERF_CYCLES \<mapsto> 0, PERF_MACS \<mapsto> 0,
                PERF_OPS \<mapsto> 0, PERF_ERRORS \<mapsto> 0, DESC_STATUS \<mapsto> DESC_STATUS_EMPTY, DESC_HEAD \<mapsto> 0,
                DESC_TAIL \<mapsto> 0, DESC_TIMEOUT_COUNT \<mapsto> 0, DESC_BYTES_READ \<mapsto> 0,
                DESC_BYTES_WRITTEN \<mapsto> 0, DESC_READ_BEATS \<mapsto> 0, DESC_WRITE_BEATS \<mapsto> 0]
      in foldl (\<lambda>r w. r(SCRATCH + w * 4 \<mapsto> 0)) r0 (py_range 0 (SCRATCH_BYTES div 4)))"

definition sim_read32 :: "int \<Rightarrow> (regs, int) npu" where
  "sim_read32 a = (\<lambda>r. (Inr (u32 (reg_get r a)), r))"

definition scratch_read_s8 :: "int \<Rightarrow> (regs, int) npu" where
  "scratch_read_s8 offset =
     ebind (reg_index (SCRATCH + (offset AND NOT 3))) (\<lambda>word.
       let v = drop_bit (nat (8 * (offset AND 3))) word AND 0xFF
       in eret (if v AND 0x80 \<noteq> 0 then v - 0x100 else v))"

definition scratch_write_s32 :: "int \<Rightarrow> int \<Rightarrow> (regs, unit) npu" where
  "scratch_write_s32 offset v = reg_set (SCRATCH + offset) (u32 v)"

text \<open>The descriptor branch of \<open>_execute\<close>.\<close>

definition execute_descriptors :: "(regs, unit) npu" where
  "execute_descriptors = (\<lambda>r.
     let head = reg_get r DESC_HEAD; tail = reg_get r DESC_TAIL;
         queued = (tail - head) AND (DESC_RING_ENTRIES - 1)
     in (if queued = 0 then
           eseq (reg_set DESC_STATUS (DESC_STATUS_EMPTY OR DESC_STATUS_ERROR))
                (reg_set CTRL_STATUS 0x6)
         else
           eseq (reg_add DESC_BYTES_READ (queued * 16))
           (eseq (reg_add DESC_BYTES_WRITTEN 0)
           (eseq (reg_add DESC_READ_BEATS queued)
           (eseq (reg_add DESC_WRITE_BEATS 0)
           (eseq (reg_set DESC_HEAD tail)
           (eseq (reg_set DESC_STATUS DESC_STATUS_DONE)
                 (reg_set CTRL_STATUS 0x2))))))) r)"

text \<open>
  The three nested loops: the innermost accumulates one dot product, and the counter
  of multiply-accumulates is carried through all of them.
\<close>

definition dot_step ::
  "(int \<Rightarrow> int) \<Rightarrow> (int \<Rightarrow> int) \<Rightarrow> int \<Rightarrow> int \<times> int \<Rightarrow> (regs, int \<times> int) npu" where
  "dot_step a_at b_at kk am =
     ebind (scratch_read_s8 (a_at kk)) (\<lambda>x.
     ebind (scratch_read_s8 (b_at kk)) (\<lambda>y.
     eret (fst am + x * y, snd am + 1)))"

definition execute_gemm :: "(regs, unit) npu" where
  "execute_gemm =
     ebind (reg_index GEMM_CFG) (\<lambda>cfg.
     ebind (reg_index GEMM_BASE) (\<lambda>bases.
     ebind (reg_index GEMM_STRIDE) (\<lambda>strides.
     let m = cfg AND 0x3; n = drop_bit 8 cfg AND 0x3; k = drop_bit 16 cfg AND 0x7;
         a_base = bases AND 0x3F; b_base = drop_bit 8 bases AND 0x3F;
         c_base = drop_bit 16 bases AND 0x3F;
         a_stride = strides AND 0xF; b_stride = drop_bit 8 strides AND 0xF;
         c_stride = drop_bit 16 strides AND 0xF
     in ebind (foldE (\<lambda>row. foldE (\<lambda>col macs.
            ebind (foldE (dot_step (\<lambda>kk. a_base + row * a_stride + kk)
                                   (\<lambda>kk. b_base + kk * b_stride + col))
                     (py_range 0 k) (0, macs)) (\<lambda>am.
            eseq (scratch_write_s32 (c_base + row * c_stride + col * 4) (fst am))
              (eret (snd am))))
          (py_range 0 n)) (py_range 0 m) 0) (\<lambda>macs.
        eseq (reg_add PERF_CYCLES macs)
        (eseq (reg_add PERF_MACS macs)
              (reg_set CTRL_STATUS 0x2))))))"

definition sim_execute :: "(regs, unit) npu" where
  "sim_execute = (\<lambda>r.
     (if reg_get r CMD_PARAM = 1 then execute_descriptors
      else
        let opcode = reg_get r OPCODE
        in eseq (reg_add PERF_OPS 1)
             (if opcode = OP_DOT8_S4 then
                eseq (reg_set RESULT 0) (eseq (reg_set RESULT_HI 0) (reg_set CTRL_STATUS 0x2))
              else if opcode \<noteq> OP_GEMM_S8 then
                eseq (reg_add PERF_UNSUPPORTED_OPS 1)
                (eseq (reg_add PERF_ERRORS 1) (reg_set CTRL_STATUS 0x6))
              else execute_gemm)) r)"

definition sim_write32 :: "int \<Rightarrow> int \<Rightarrow> (regs, unit) npu" where
  "sim_write32 addr v0 = (\<lambda>r.
     let v = u32 v0 in
     if addr = PERF_ERRORS \<and> v AND 1 \<noteq> 0 then
       forE (\<lambda>reg. reg_set reg 0)
         [PERF_UNSUPPORTED_OPS, PERF_CYCLES, PERF_MACS, PERF_OPS, PERF_ERRORS] r
     else if addr = CTRL_STATUS \<and> v AND 2 \<noteq> 0 then reg_set CTRL_STATUS 0 r
     else eseq (reg_set addr v)
            (if addr = CTRL_STATUS \<and> v AND 1 \<noteq> 0 then sim_execute else eret ()) r)"

definition sim :: "regs mmio" where
  "sim = \<lparr>read32 = sim_read32, write32 = sim_write32\<rparr>"

lemma sim_simps [simp]: "read32 sim = sim_read32" "write32 sim = sim_write32"
  by (simp_all add: sim_def)

lemma example_dot4: "fst (eseq (sim_write32 CMD_PARAM 0) (run sim OP_DOT8_S4 1 2 3 4) sim_init) = Inr 0"
  by code_simp

section \<open>The device keeps its register file well-formed\<close>

definition sim_inv :: "regs \<Rightarrow> bool" where
  "sim_inv r \<longleftrightarrow>
     list_all (\<lambda>w. r (SCRATCH + int w * 4) \<noteq> None) [0..<16]
     \<and> list_all (\<lambda>a. r a \<noteq> None)
         [PERF_UNSUPPORTED_OPS, PERF_CYCLES, PERF_MACS, PERF_OPS, PERF_ERRORS, DESC_BYTES_READ,
          DESC_BYTES_WRITTEN, DESC_READ_BEATS, DESC_WRITE_BEATS]"

definition sim_mem :: "regs \<Rightarrow> byte list" where
  "sim_mem r = concat (map (\<lambda>w. to_le 4 (reg_get r (SCRATCH + int w * 4))) [0..<16])"

definition sim_reg :: "regs \<Rightarrow> int \<Rightarrow> int" where
  "sim_reg r a =
     (if a \<in> {CMD_PARAM, OPCODE, GEMM_CFG, GEMM_BASE, GEMM_STRIDE, DESC_HEAD, DESC_TAIL} then reg_get r a else 0)"

definition sim_finished :: "regs \<Rightarrow> bool" where
  "sim_finished r \<longleftrightarrow> reg_get r CTRL_STATUS = 2"

lemma sim_invD:
  assumes "sim_inv r"
  shows "w < 16 \<Longrightarrow> \<exists>v. r (SCRATCH + int w * 4) = Some v"
    and "a \<in> {PERF_UNSUPPORTED_OPS, PERF_CYCLES, PERF_MACS, PERF_OPS, PERF_ERRORS, DESC_BYTES_READ,
      DESC_BYTES_WRITTEN, DESC_READ_BEATS, DESC_WRITE_BEATS} \<Longrightarrow> \<exists>v. r a = Some v"
  using assms by (auto simp: sim_inv_def list_all_iff simp del: upt.simps)

lemma sim_present:
  "sim_inv r \<Longrightarrow> a \<in> {PERF_UNSUPPORTED_OPS, PERF_CYCLES, PERF_MACS, PERF_OPS, PERF_ERRORS,
     DESC_BYTES_READ, DESC_BYTES_WRITTEN, DESC_READ_BEATS, DESC_WRITE_BEATS} \<Longrightarrow>
   r a = Some (reg_get r a)"
  by (drule (1) sim_invD(2)) (erule exE, simp add: reg_get_def)

lemma sim_inv_upd: "sim_inv r \<Longrightarrow> sim_inv (r(a \<mapsto> v))"
  unfolding sim_inv_def
  by (elim conjE, intro conjI; erule list.pred_mono_strong) simp_all

lemma sim_init_inv: "sim_inv sim_init"
  by code_simp

lemma reg_get_upd [simp]: "reg_get (r(a \<mapsto> v)) b = (if b = a then v else reg_get r b)"
  by (simp add: reg_get_def)

lemma u32_mod: "u32 v = v mod 256 ^ 4"
  by (simp only: mask_simps) simp

lemma to_le_u32: "to_le 4 (u32 v) = to_le 4 v"
proof -
  have "to_le (length (to_le 4 v)) (from_le (to_le 4 v)) = to_le 4 v" by (rule to_from_le)
  then show ?thesis by (simp only: length_to_le from_to_le u32_mod)
qed

lemma length_sim_mem [simp]: "length (sim_mem r) = 64"
  unfolding sim_mem_def by (subst concat_uniform_length [where k = 4]) auto

lemma sim_mem_word: "w < 16 \<Longrightarrow> take 4 (drop (4 * w) (sim_mem r)) = to_le 4 (reg_get r (SCRATCH + int w * 4))"
  unfolding sim_mem_def mult.commute [of 4 w]
  by (subst concat_uniform_chunk [where k = 4]) (auto simp del: upt.simps)

lemma sim_mem_nth:
  assumes "i < 64"
  shows "sim_mem r ! i = word_of_int (reg_get r (SCRATCH + int (i div 4) * 4) div 256 ^ (i mod 4))"
proof -
  have "sim_mem r ! i = take 4 (drop (4 * (i div 4)) (sim_mem r)) ! (i mod 4)"
    using assms by simp
  also have "\<dots> = to_le 4 (reg_get r (SCRATCH + int (i div 4) * 4)) ! (i mod 4)"
    using assms by (subst sim_mem_word) simp_all
  finally show ?thesis by (simp add: to_le_nth)
qed

lemma sim_mem_upd_word:
  assumes "w < 16"
  shows "sim_mem (r(SCRATCH + int w * 4 \<mapsto> v)) = patch (4 * w) (to_le 4 v) (sim_mem r)"
proof (rule nth_equalityI)
  show "length (sim_mem (r(SCRATCH + int w * 4 \<mapsto> v))) = length (patch (4 * w) (to_le 4 v) (sim_mem r))"
    using assms by simp
  fix i assume "i < length (sim_mem (r(SCRATCH + int w * 4 \<mapsto> v)))"
  then have i: "i < 64" by simp
  have "4 * w \<le> i \<and> i < 4 * w + 4 \<longleftrightarrow> i div 4 = w" by auto
  moreover have "i div 4 = w \<Longrightarrow> i - 4 * w = i mod 4" by (simp add: minus_div_mult_eq_mod [symmetric])
  ultimately show "sim_mem (r(SCRATCH + int w * 4 \<mapsto> v)) ! i = patch (4 * w) (to_le 4 v) (sim_mem r) ! i"
    using assms i by (auto simp: patch_nth sim_mem_nth to_le_nth)
qed

lemma sim_mem_upd_other:
  assumes "a < SCRATCH \<or> SCRATCH + 64 \<le> a"
  shows "sim_mem (r(a \<mapsto> v)) = sim_mem r"
proof -
  have "SCRATCH + int w * 4 \<noteq> a" if "w < 16" for w using assms that by auto
  then have "map (\<lambda>w. to_le 4 (reg_get (r(a \<mapsto> v)) (SCRATCH + int w * 4))) [0..<16]
      = map (\<lambda>w. to_le 4 (reg_get r (SCRATCH + int w * 4))) [0..<16]"
    by (intro map_cong refl) (simp add: reg_get_upd)
  then show ?thesis by (simp only: sim_mem_def)
qed

section \<open>The scratchpad interface on the device\<close>

lemma sim_read32_scratch:
  assumes "w < 16"
  shows "sim_read32 (SCRATCH + int w * 4) r = (Inr (from_le (take 4 (drop (4 * w) (sim_mem r)))), r)"
  using sim_mem_word [OF assms, of r] by (simp add: sim_read32_def from_to_le u32_mod)

lemma sim_write32_plain:
  assumes "a \<noteq> CTRL_STATUS" and "a \<noteq> PERF_ERRORS"
  shows "sim_write32 a v r = (Inr (), r(a \<mapsto> u32 v))"
  using assms by (simp add: sim_write32_def Let_def eseq_def ebind_def reg_set_def eret_def)

lemma from_le_4_u32: "length bs = 4 \<Longrightarrow> u32 (from_le bs) = from_le bs"
  using from_le_bounds [of bs] by (simp only: u32_mod) simp

lemma sim_scratch_write:
  assumes "sim_inv r" and "w < 16" and "length bs = 4"
  shows "\<exists>r'. sim_write32 (SCRATCH + int w * 4) (from_le bs) r = (Inr (), r') \<and> sim_inv r'
           \<and> sim_mem r' = patch (4 * w) bs (sim_mem r) \<and> sim_reg r' = sim_reg r"
proof -
  let ?r = "r(SCRATCH + int w * 4 \<mapsto> from_le bs)"
  have "sim_write32 (SCRATCH + int w * 4) (from_le bs) r = (Inr (), ?r)"
    using from_le_4_u32 [OF assms(3)] by (subst sim_write32_plain) (simp_all add: reg_defs)
  moreover have "sim_mem ?r = patch (4 * w) bs (sim_mem r)"
    using sim_mem_upd_word [OF assms(2)] to_from_le [of bs] assms(3) by simp
  moreover have "sim_reg ?r = sim_reg r"
    by (rule ext) (simp add: sim_reg_def reg_defs)
  ultimately show ?thesis using sim_inv_upd [OF assms(1)] by blast
qed

interpretation sim_pad: npu_scratchpad sim sim_inv sim_mem sim_reg
proof unfold_locales
  show "length (sim_mem s) = 64" if "sim_inv s" for s by simp
  show "read32 sim (SCRATCH + int w * 4) s = (Inr (from_le (take 4 (drop (4 * w) (sim_mem s)))), s)"
    if "sim_inv s" "w < 16" for s w
    using sim_read32_scratch that by simp
  show "\<exists>s'. write32 sim (SCRATCH + int w * 4) (from_le bs) s = (Inr (), s') \<and> sim_inv s'
         \<and> sim_mem s' = patch (4 * w) bs (sim_mem s) \<and> sim_reg s' = sim_reg s"
    if "sim_inv s" "w < 16" "length bs = 4" for s w bs
    using sim_scratch_write that by simp
qed

section \<open>The matrix product on the device\<close>

lemma pack3: "0 \<le> x \<Longrightarrow> x < 256 \<Longrightarrow> 0 \<le> y \<Longrightarrow> y < 256 \<Longrightarrow>
   x OR push_bit 8 y OR push_bit 16 z = x + 256 * y + 65536 * (z :: int)"
proof -
  assume x: "0 \<le> x" "x < 256" and y: "0 \<le> y" "y < 256"
  have tx: "take_bit 8 x = x" "take_bit 8 y = y"
    using x y by (simp_all add: take_bit_int_eq_self)
  have "push_bit 8 y OR push_bit 16 z = push_bit 8 (concat_bit 8 y z)"
    by (simp add: concat_bit_def tx push_bit_or push_bit_push_bit)
  moreover have "x OR push_bit 8 w = concat_bit 8 x w" for w
    by (simp add: concat_bit_def tx)
  ultimately have "x OR push_bit 8 y OR push_bit 16 z = concat_bit 8 x (concat_bit 8 y z)"
    by simp
  then show ?thesis by (simp add: concat_bit_eq tx push_bit_eq_mult)
qed

lemma unpack3:
  assumes "0 \<le> x" "x < 256" "0 \<le> y" "y < 256"
  shows "drop_bit 8 (x + 256 * y + 65536 * z) = y + 256 * (z :: int)"
    and "drop_bit 16 (x + 256 * y + 65536 * z) = z"
proof -
  have "x + 256 * y + 65536 * z = x + 256 * (y + 256 * z)" by simp
  then show "drop_bit 8 (x + 256 * y + 65536 * z) = y + 256 * z"
    using assms by (simp add: drop_bit_eq_div)
  have "x + 256 * y + 65536 * z = (x + 256 * y) + 65536 * z" by simp
  then show "drop_bit 16 (x + 256 * y + 65536 * z) = z"
    using assms by (simp only: drop_bit_eq_div) simp
qed

lemma decode_config:
  assumes "gemm_shape m n k" and "gemm_c_base m n k = int c"
  shows "cfg_word m n k AND 3 = int m" "drop_bit 8 (cfg_word m n k) AND 3 = int n"
    "drop_bit 16 (cfg_word m n k) AND 7 = int k"
    "base_word m n k AND 63 = 0" "drop_bit 8 (base_word m n k) AND 63 = int (m * k)"
    "drop_bit 16 (base_word m n k) AND 63 = int c"
    "stride_word n k AND 15 = int k" "drop_bit 8 (stride_word n k) AND 15 = int n"
    "drop_bit 16 (stride_word n k) AND 15 = int (n * 4)"
proof -
  have d: "1 \<le> m" "m \<le> 3" "1 \<le> n" "n \<le> 3" "1 \<le> k" "k \<le> 7" "int c + int (m * n * 4) \<le> 64"
    using assms unfolding gemm_shape_def by auto
  have "m * k \<le> 3 * 7" using d by (intro mult_mono) auto
  then have mk: "int (m * k) < 63" by linarith
  have "1 * 1 \<le> m * n" using d by (intro mult_mono) auto
  then have c: "int c < 64" using d(7) by linarith
  have cfg: "cfg_word m n k = int m + 256 * int n + 65536 * int k"
    unfolding cfg_word_def using d by (intro pack3) simp_all
  have base: "base_word m n k = 0 + 256 * int (m * k) + 65536 * int c"
    unfolding base_word_def assms(2) using mk by (intro pack3) simp_all
  have str: "stride_word n k = int k + 256 * int n + 65536 * int (n * 4)"
    unfolding stride_word_def using d by (intro pack3) simp_all
  have u8: "drop_bit 8 (x + 256 * y + 65536 * z) = y + 256 * z"
    "drop_bit 16 (x + 256 * y + 65536 * z) = z"
    if "0 \<le> x" "x < 256" "0 \<le> y" "y < 256" for x y z :: int
    using unpack3 [OF that] by auto
  have m2: "(x + 256 * y) mod d = x mod d" if "256 mod d = 0" for x y d :: int
    using that by (metis add.right_neutral mod_add_right_eq mod_mult_left_eq mult_zero_left mod_0)
  have m3: "(x + 256 * y + 65536 * z) mod d = x mod d" if "256 mod d = 0" for x y z d :: int
    using m2 [OF that, of x "y + 256 * z"] by (simp add: add.assoc distrib_left)
  show "cfg_word m n k AND 3 = int m" unfolding cfg using d by (simp add: mask_simps m3)
  show "drop_bit 8 (cfg_word m n k) AND 3 = int n"
    unfolding cfg using d by (subst u8) (simp_all add: mask_simps m2)
  show "drop_bit 16 (cfg_word m n k) AND 7 = int k"
    unfolding cfg using d by (subst u8) (simp_all add: mask_simps)
  show "base_word m n k AND 63 = 0"
    unfolding base by (simp only: mask_simps m3) simp
  show "drop_bit 8 (base_word m n k) AND 63 = int (m * k)"
    unfolding base using mk by (subst u8) (simp_all del: of_nat_mult add: mask_simps m2)
  show "drop_bit 16 (base_word m n k) AND 63 = int c"
    unfolding base using mk c by (subst u8) (simp_all add: mask_simps)
  show "stride_word n k AND 15 = int k" unfolding str mask_simps by (subst m3) (use d in simp_all)
  show "drop_bit 8 (stride_word n k) AND 15 = int n"
  proof -
    have "(int n + 256 * int (n * 4)) mod 16 = int n" using d by (subst m2) simp_all
    moreover have "drop_bit 8 (stride_word n k) = int n + 256 * int (n * 4)"
      unfolding str using d by (subst u8) simp_all
    ultimately show ?thesis by (simp only: mask_simps)
  qed
  show "drop_bit 16 (stride_word n k) AND 15 = int (n * 4)"
    unfolding str using d by (subst u8) (simp_all add: mask_simps)
qed

text \<open>The register file with the words \<open>ws\<close> stored from scratchpad offset \<open>c\<close> on.\<close>

fun put_words :: "nat \<Rightarrow> int list \<Rightarrow> regs \<Rightarrow> regs" where
  "put_words c [] r = r"
| "put_words c (w # ws) r = put_words (c + 4) ws (r(SCRATCH + int c \<mapsto> w))"

lemma put_words_snoc:
  "put_words c (ws @ [v]) r = (put_words c ws r)(SCRATCH + int c + 4 * int (length ws) \<mapsto> v)"
proof (induction ws arbitrary: c r)
  case Nil
  show ?case by simp
next
  case (Cons w ws)
  have "SCRATCH + int (c + 4) + 4 * int (length ws) = SCRATCH + int c + 4 * int (length (w # ws))"
    by simp
  then show ?case by (simp only: append_Cons put_words.simps Cons)
qed

lemma put_words_other:
  "a < SCRATCH + int c \<or> SCRATCH + int c + 4 * int (length ws) \<le> a \<Longrightarrow> put_words c ws r a = r a"
  by (induction ws arbitrary: c r) auto

lemma put_words_inv: "sim_inv r \<Longrightarrow> sim_inv (put_words c ws r)"
  by (induction ws arbitrary: c r) (auto simp: sim_inv_upd)

lemma sim_mem_put_words:
  assumes "c mod 4 = 0" and "c + 4 * length ws \<le> 64"
  shows "sim_mem (put_words c ws r) = patch c (concat (map (to_le 4) ws)) (sim_mem r)"
  using assms
proof (induction ws rule: rev_induct)
  case Nil
  then show ?case by simp
next
  case (snoc v ws)
  define w where "w = c div 4 + length ws"
  have w: "4 * w = c + 4 * length ws" "w < 16" using snoc.prems by (auto simp: w_def)
  have "SCRATCH + int c + 4 * int (length ws) = SCRATCH + int w * 4"
    using w(1) by (simp add: algebra_simps flip: of_nat_mult of_nat_add)
  then have "sim_mem (put_words c (ws @ [v]) r) = patch (4 * w) (to_le 4 v) (sim_mem (put_words c ws r))"
    using sim_mem_upd_word [OF w(2)] by (simp only: put_words_snoc)
  moreover have "length (concat (map (to_le 4) ws)) = 4 * length ws"
    by (subst concat_uniform_length [where k = 4]) auto
  ultimately show ?case
    using snoc patch_append [of c "concat (map (to_le 4) ws)" "to_le 4 v" "sim_mem r"] w
    by simp
qed

lemma scratch_byte:
  assumes "sim_inv r" and "off < 64"
  shows "scratch_read_s8 (int off) r = (Inr (sint (sim_mem r ! off)), r)"
proof -
  define w where "w = off div 4"
  have w: "w < 16" using assms(2) by (simp add: w_def)
  obtain v where v: "r (SCRATCH + int w * 4) = Some v" using sim_invD(1) [OF assms(1) w] by blast
  have addr: "int off AND NOT 3 = int w * 4"
    by (simp only: mask_simps) (simp add: w_def minus_mod_eq_div_mult zdiv_int)
  have sh: "nat (8 * (int off AND 3)) = 8 * (off mod 4)"
    by (simp add: mask_simps nat_mult_distrib nat_mod_distrib)
  define b where "b = v div 256 ^ (off mod 4)"
  have byte: "drop_bit (8 * (off mod 4)) v AND 0xFF = b mod 256"
    by (simp add: drop_bit_eq_div mask_simps power_mult b_def)
  have "sim_mem r ! off = word_of_int b"
    using assms(2) v by (simp add: sim_mem_nth w_def b_def reg_get_def)
  then have "sint (sim_mem r ! off) = (if b mod 256 AND 0x80 \<noteq> 0 then b mod 256 - 0x100 else b mod 256)"
    by (simp add: sint_byte_of_int and_128_int)
  moreover have "reg_index (SCRATCH + int w * 4) r = (Inr v, r)"
    using v by (simp add: reg_index_def)
  ultimately show ?thesis
    unfolding scratch_read_s8_def addr sh by (simp add: ebind_run byte eret_def Let_def)
qed

lemma scratch_byte_put:
  assumes "sim_inv r" and "c mod 4 = 0" and "c + 4 * length ws \<le> 64" and "off < c"
  shows "scratch_read_s8 (int off) (put_words c ws r)
       = (Inr (sint (sim_mem r ! off)), put_words c ws r)"
proof -
  have "length (concat (map (to_le 4) ws)) = 4 * length ws"
    by (subst concat_uniform_length [where k = 4]) auto
  then have "sim_mem (put_words c ws r) ! off = sim_mem r ! off"
    using assms by (subst sim_mem_put_words) (simp_all add: patch_nth)
  then show ?thesis using scratch_byte [OF put_words_inv [OF assms(1)], of off c ws] assms by simp
qed

lemma foldE_steps:
  assumes "\<And>i. i < n \<Longrightarrow> body (int i) (b i) (st i) = (Inr (b (Suc i)), st (Suc i))"
  shows "foldE body (map int [0..<n]) (b 0) (st 0) = (Inr (b n), st n)"
  using assms
proof (induction n)
  case 0
  then show ?case by (simp add: eret_def)
next
  case (Suc n)
  then have "foldE body (map int [0..<n]) (b 0) (st 0) = (Inr (b n), st n)" by simp
  with Suc.prems [of n] show ?case
    by (simp add: foldE_append ebind_def eret_def)
qed

lemma dot_loop:
  assumes "\<And>off. off \<in> pa ` {..<k} \<union> pb ` {..<k} \<Longrightarrow>
      scratch_read_s8 (int off) s = (Inr (sint (M ! off)), s)"
    and "\<And>l. l < k \<Longrightarrow> a_at (int l) = int (pa l) \<and> b_at (int l) = int (pb l)"
  shows "foldE (dot_step a_at b_at) (map int [0..<k]) (0, q) s
       = (Inr (\<Sum>l<k. sint (M ! pa l) * sint (M ! pb l), q + int k), s)"
proof -
  have "foldE (dot_step a_at b_at) (map int [0..<k])
         (\<Sum>l<0. sint (M ! pa l) * sint (M ! pb l), q + int 0) s
       = (Inr (\<Sum>l<k. sint (M ! pa l) * sint (M ! pb l), q + int k), s)"
    using assms by (intro foldE_steps [where st = "\<lambda>_. s"])
      (auto simp: dot_step_def ebind_def eret_def)
  then show ?thesis by simp
qed

text \<open>The words a product leaves behind, row by row, and the sum of all its steps.\<close>

definition tile_words :: "nat \<Rightarrow> nat \<Rightarrow> nat \<Rightarrow> byte list \<Rightarrow> int list" where
  "tile_words m n k mm = concat (map (\<lambda>i. map (\<lambda>j. u32 (tile_product m n k mm i j)) [0..<n]) [0..<m])"

lemma length_tile_words: "length (concat (map (\<lambda>i. map (f i) [0..<n]) [0..<m])) = m * n"
  by (subst concat_uniform_length [where k = n]) auto

lemma tile_words_bytes: "concat (map (to_le 4) (tile_words m n k mm)) = tile_result m n k mm"
  by (simp add: tile_words_def tile_result_def map_concat comp_def to_le_u32
      flip: concat_map_concat)

lemma column_loop:
  assumes inv: "sim_inv r" and c: "c mod 4 = 0" "m * k + k * n \<le> c" "c + 4 * (m * n) \<le> 64"
    and i: "i < m"
    and ws: "length ws = i * n"
  shows "foldE (\<lambda>col macs.
            ebind (foldE (dot_step (\<lambda>kk. 0 + int i * int k + kk)
                                   (\<lambda>kk. int (m * k) + kk * int n + col))
                     (map int [0..<k]) (0, macs)) (\<lambda>am.
            eseq (scratch_write_s32 (int c + int i * int (n * 4) + col * 4) (fst am))
              (eret (snd am))))
          (map int [0..<n]) q (put_words c ws r)
       = (Inr (q + int (n * k)),
          put_words c (ws @ map (\<lambda>j. u32 (tile_product m n k (sim_mem r) i j)) [0..<n]) r)"
    (is "foldE ?body _ _ _ = _")
proof -
  let ?st = "\<lambda>j. put_words c (ws @ map (\<lambda>j. u32 (tile_product m n k (sim_mem r) i j)) [0..<j]) r"
  have "foldE ?body (map int [0..<n]) (q + int (0 * k)) (?st 0) = (Inr (q + int (n * k)), ?st n)"
  proof (rule foldE_steps [where b = "\<lambda>j. q + int (j * k)"])
    fix j assume j: "j < n"
    have room: "Suc (i * n + j) \<le> m * n" using row_major_index [OF i j] by simp
    have rd: "scratch_read_s8 (int off) (?st j) = (Inr (sint (sim_mem r ! off)), ?st j)"
      if "off \<in> (\<lambda>l. i * k + l) ` {..<k} \<union> (\<lambda>l. m * k + l * n + j) ` {..<k}" for off
    proof (rule scratch_byte_put [OF inv c(1)])
      show "c + 4 * length (ws @ map (\<lambda>j. u32 (tile_product m n k (sim_mem r) i j)) [0..<j]) \<le> 64"
        using room c(3) ws by simp
      show "off < c"
        using that c(2) row_major_index [of i m _ k] row_major_index [of _ k j n] i j by fastforce
    qed
    have dot: "foldE (dot_step (\<lambda>kk. 0 + int i * int k + kk) (\<lambda>kk. int (m * k) + kk * int n + int j))
           (map int [0..<k]) (0, q + int (j * k)) (?st j)
        = (Inr (tile_product m n k (sim_mem r) i j, q + int (j * k) + int k), ?st j)"
      unfolding tile_product_def [of m n k "sim_mem r" i j]
      by (rule dot_loop [OF rd]) auto
    have addr: "SCRATCH + (int c + int i * int (n * 4) + int j * 4)
        = SCRATCH + int c + 4 * int (length (ws @ map (\<lambda>j. u32 (tile_product m n k (sim_mem r) i j)) [0..<j]))"
      by (simp add: ws algebra_simps)
    have wr: "scratch_write_s32 (int c + int i * int (n * 4) + int j * 4) v (?st j)
        = (Inr (), (?st j)(SCRATCH + (int c + int i * int (n * 4) + int j * 4) \<mapsto> u32 v))" for v
      by (simp add: scratch_write_s32_def reg_set_def add.assoc)
    show "?body (int j) (q + int (j * k)) (?st j) = (Inr (q + int (Suc j * k)), ?st (Suc j))"
      by (subst ebind_run(1), rule dot)
        (subst eseq_run(1), rule wr, simp only: eret_def addr fst_conv snd_conv
          upt_Suc_append [OF le0] map_append append_assoc [symmetric] list.map put_words_snoc,
         simp add: distrib_right)
  qed
  then show ?thesis by simp
qed

lemma row_loop:
  assumes inv: "sim_inv r" and c: "c mod 4 = 0" "m * k + k * n \<le> c" "c + 4 * (m * n) \<le> 64"
  shows "foldE (\<lambda>row. foldE (\<lambda>col macs.
            ebind (foldE (dot_step (\<lambda>kk. 0 + row * int k + kk)
                                   (\<lambda>kk. int (m * k) + kk * int n + col))
                     (map int [0..<k]) (0, macs)) (\<lambda>am.
            eseq (scratch_write_s32 (int c + row * int (n * 4) + col * 4) (fst am))
              (eret (snd am))))
          (map int [0..<n])) (map int [0..<m]) 0 r
       = (Inr (int (m * n * k)), put_words c (tile_words m n k (sim_mem r)) r)"
    (is "foldE ?body _ _ _ = _")
proof -
  define f where "f = (\<lambda>i j. u32 (tile_product m n k (sim_mem r) i j))"
  define ws where "ws = (\<lambda>t. concat (map (\<lambda>i. map (f i) [0..<n]) [0..<t]))"
  have "foldE ?body (map int [0..<m]) (int (0 * (n * k))) (put_words c (ws 0) r)
      = (Inr (int (m * (n * k))), put_words c (ws m) r)"
  proof (rule foldE_steps [where b = "\<lambda>t. int (t * (n * k))" and st = "\<lambda>t. put_words c (ws t) r"])
    fix i assume i: "i < m"
    have "ws (Suc i) = ws i @ map (f i) [0..<n]" by (simp add: ws_def)
    moreover have "length (ws i) = i * n" by (simp only: ws_def length_tile_words)
    ultimately show "?body (int i) (int (i * (n * k))) (put_words c (ws i) r)
        = (Inr (int (Suc i * (n * k))), put_words c (ws (Suc i)) r)"
      using column_loop [OF inv c i, of "ws i" "int (i * (n * k))"]
      by (simp only: f_def) (simp add: algebra_simps)
  qed
  then show ?thesis by (simp add: ws_def f_def tile_words_def mult.assoc)
qed

lemma execute_gemm_run:
  assumes inv: "sim_inv r" and shape: "gemm_shape m n k"
    and regs: "reg_get r GEMM_CFG = cfg_word m n k" "reg_get r GEMM_BASE = base_word m n k"
      "reg_get r GEMM_STRIDE = stride_word n k"
    and c: "gemm_c_base m n k = int c"
  defines "r1 \<equiv> put_words c (tile_words m n k (sim_mem r)) r"
  shows "execute_gemm r = (Inr (), r1
           (PERF_CYCLES \<mapsto> reg_get r PERF_CYCLES + int (m * n * k),
            PERF_MACS \<mapsto> reg_get r PERF_MACS + int (m * n * k), CTRL_STATUS \<mapsto> 0x2))"
proof -
  obtain c' where "gemm_c_base m n k = int c'" "m * k + k * n \<le> c'" "c' mod 4 = 0"
    by (rule gemm_c_base_nat)
  with c have base: "m * k + k * n \<le> c" "c mod 4 = 0" by simp_all
  have dims: "1 \<le> m" "1 \<le> k" "1 \<le> n" and "int c + int (m * n * 4) \<le> 64"
    using shape c unfolding gemm_shape_def by simp_all
  then have room: "c + 4 * (m * n) \<le> 64" by linarith
  note dec = decode_config [OF shape c]
  have "cfg_word m n k \<noteq> 0" "base_word m n k \<noteq> 0" "stride_word n k \<noteq> 0"
    using dec(1,5,7) dims by force+
  then have idx: "reg_index GEMM_CFG r = (Inr (cfg_word m n k), r)"
    "reg_index GEMM_BASE r = (Inr (base_word m n k), r)"
    "reg_index GEMM_STRIDE r = (Inr (stride_word n k), r)"
    using regs by (auto simp: reg_index_def reg_get_def split: option.splits)
  have len: "length (tile_words m n k (sim_mem r)) = m * n"
    by (simp only: tile_words_def length_tile_words)
  have keep: "r1 PERF_CYCLES = r PERF_CYCLES" "r1 PERF_MACS = r PERF_MACS"
    unfolding r1_def by (subst put_words_other; simp add: reg_defs)+
  obtain x y where xy: "r PERF_CYCLES = Some x" "r PERF_MACS = Some y"
    using sim_present [OF inv, of PERF_CYCLES] sim_present [OF inv, of PERF_MACS] by simp
  have "PERF_CYCLES \<noteq> PERF_MACS" by (simp add: reg_defs)
  then have tail: "eseq (reg_add PERF_CYCLES q) (eseq (reg_add PERF_MACS q) (reg_set CTRL_STATUS 2)) r1
      = (Inr (), r1(PERF_CYCLES \<mapsto> x + q, PERF_MACS \<mapsto> y + q, CTRL_STATUS \<mapsto> 2))" for q
    using keep xy by (simp add: eseq_def ebind_def reg_add_def reg_index_def reg_set_def)
  have zero: "py_range 0 (int j) = map int [0..<j]" for j using py_range_nat [of 0 j] by simp
  note rows = row_loop [OF inv base(2,1) room, folded r1_def]
  show ?thesis
    unfolding execute_gemm_def
    apply (subst ebind_run(1), rule idx)
    apply (subst ebind_run(1), rule idx)
    apply (subst ebind_run(1), rule idx)
    apply (simp only: Let_def dec zero)
    apply (subst ebind_run(1), rule rows)
    apply (simp only: tail)
    apply (simp add: reg_get_def xy)
    done
qed

text \<open>Starting the command runs the product to completion and counts it.\<close>

lemma sim_start_gemm:
  assumes inv: "sim_inv r" and shape: "gemm_shape m n k" and cmd: "reg_get r CMD_PARAM = 0"
    and op: "reg_get r OPCODE = OP_GEMM_S8"
    and regs: "reg_get r GEMM_CFG = cfg_word m n k" "reg_get r GEMM_BASE = base_word m n k"
      "reg_get r GEMM_STRIDE = stride_word n k"
  obtains r' where "sim_write32 CTRL_STATUS 1 r = (Inr (), r')" "sim_inv r'" "sim_finished r'"
    "sim_mem r' = patch (nat (gemm_c_base m n k)) (tile_result m n k (sim_mem r)) (sim_mem r)"
    "reg_get r' PERF_MACS = reg_get r PERF_MACS + int (m * n * k)"
    "reg_get r' PERF_OPS = reg_get r PERF_OPS + 1"
proof -
  obtain c where c: "gemm_c_base m n k = int c" "m * k + k * n \<le> c" "c mod 4 = 0"
    by (rule gemm_c_base_nat)
  have room: "c + 4 * (m * n) \<le> 64"
  proof -
    have "int c + int (m * n * 4) \<le> 64" using shape c(1) by (simp only: gemm_shape_def)
    then show ?thesis by linarith
  qed
  obtain x where x: "r PERF_OPS = Some x" using sim_present [OF inv, of PERF_OPS] by simp
  define r0 where "r0 = r(CTRL_STATUS \<mapsto> 1, PERF_OPS \<mapsto> x + 1)"
  define r1 where "r1 = put_words c (tile_words m n k (sim_mem r)) r0"
  define r' where "r' = r1(PERF_CYCLES \<mapsto> reg_get r PERF_CYCLES + int (m * n * k),
            PERF_MACS \<mapsto> reg_get r PERF_MACS + int (m * n * k), CTRL_STATUS \<mapsto> 0x2)"
  have inv0: "sim_inv r0" unfolding r0_def by (intro sim_inv_upd inv)
  have mem0: "sim_mem r0 = sim_mem r"
    unfolding r0_def by (simp add: sim_mem_upd_other reg_defs)
  have regs0: "reg_get r0 a = reg_get r a" if "a \<noteq> CTRL_STATUS" "a \<noteq> PERF_OPS" for a
    using that by (simp add: r0_def)
  have "execute_gemm r0 = (Inr (), r')"
    using execute_gemm_run [OF inv0 shape _ _ _ c(1)] regs
    by (simp only: regs0 reg_defs mem0) (simp add: r'_def r1_def mem0 regs0 reg_defs)
  moreover have "sim_write32 CTRL_STATUS 1 r = execute_gemm r0"
    using cmd op x
    by (simp add: sim_write32_def sim_execute_def eseq_def ebind_def reg_set_def reg_add_def
        reg_index_def reg_get_def r0_def op_defs reg_defs)
  moreover have "sim_inv r'" unfolding r'_def r1_def by (intro sim_inv_upd put_words_inv inv0)
  moreover have "sim_finished r'" by (simp add: sim_finished_def r'_def)
  moreover have "sim_mem r' = patch c (tile_result m n k (sim_mem r)) (sim_mem r)"
  proof -
    have "sim_mem r' = sim_mem r1"
      unfolding r'_def by (simp add: sim_mem_upd_other reg_defs)
    also have "length (tile_words m n k (sim_mem r)) = m * n"
      by (simp only: tile_words_def length_tile_words)
    then have "sim_mem r1 = patch c (tile_result m n k (sim_mem r)) (sim_mem r)"
      unfolding r1_def using c(3) room by (subst sim_mem_put_words) (simp_all add: tile_words_bytes mem0)
    finally show ?thesis .
  qed
  moreover have "reg_get r1 PERF_OPS = x + 1"
    unfolding r1_def reg_get_def by (subst put_words_other) (simp_all add: reg_defs r0_def)
  ultimately show ?thesis using that [of r'] c x by (simp add: r'_def reg_defs reg_get_def)
qed

lemma sim_reg_upd_other:
  "a \<notin> {CMD_PARAM, OPCODE, GEMM_CFG, GEMM_BASE, GEMM_STRIDE, DESC_HEAD, DESC_TAIL} \<Longrightarrow> sim_reg (r(a \<mapsto> v)) = sim_reg r"
  by (rule ext) (auto simp: sim_reg_def)

lemma sim_perf_clear:
  "sim_write32 PERF_ERRORS 1 s = (Inr (), s(PERF_UNSUPPORTED_OPS \<mapsto> 0, PERF_CYCLES \<mapsto> 0,
     PERF_MACS \<mapsto> 0, PERF_OPS \<mapsto> 0, PERF_ERRORS \<mapsto> 0))"
  by (simp add: sim_write32_def Let_def eseq_def ebind_def reg_set_def eret_def)

lemma sim_ctrl_reset: "sim_write32 CTRL_STATUS 2 s = (Inr (), s(CTRL_STATUS \<mapsto> 0))"
  by (simp add: sim_write32_def Let_def reg_set_def reg_defs)

lemma sim_finished_perf: "\<exists>p. perf sim r = (Inr p, r)"
  by (simp add: perf_def sim_read32_def ebind_def eret_def)

interpretation sim_dev: npu_gemm_device sim sim_inv sim_mem sim_reg sim_finished
proof unfold_locales
  show "\<exists>s'. write32 sim PERF_ERRORS 1 s = (Inr (), s') \<and> sim_inv s' \<and> sim_mem s' = sim_mem s
        \<and> sim_reg s' = sim_reg s" if "sim_inv s" for s
    using that unfolding sim_simps sim_perf_clear sim_ctrl_reset
    by (simp add: sim_inv_upd sim_mem_upd_other sim_reg_upd_other reg_defs)
  show "\<exists>s'. write32 sim a v s = (Inr (), s') \<and> sim_inv s' \<and> sim_mem s' = sim_mem s
        \<and> sim_reg s' = (sim_reg s)(a := v)"
    if "sim_inv s" "a \<in> {GEMM_CFG, GEMM_BASE, GEMM_STRIDE, OPCODE}" "0 \<le> v" "v < 2 ^ 32" for s a v
  proof -
    have "a \<noteq> CTRL_STATUS \<and> a \<noteq> PERF_ERRORS \<and> a < SCRATCH" and "u32 v = v"
      using that by (auto simp: reg_defs u32_mod)
    moreover have "sim_reg (s(a \<mapsto> v)) = (sim_reg s)(a := v)"
      using that(2) by (auto simp: sim_reg_def fun_eq_iff)
    ultimately show ?thesis
      using that(1) by (simp add: sim_write32_plain sim_inv_upd sim_mem_upd_other)
  qed
  show "\<exists>s'. write32 sim CTRL_STATUS 2 s = (Inr (), s') \<and> sim_inv s' \<and> sim_mem s' = sim_mem s
        \<and> sim_reg s' = sim_reg s" if "sim_inv s" for s
    using that unfolding sim_simps sim_perf_clear sim_ctrl_reset
    by (simp add: sim_inv_upd sim_mem_upd_other sim_reg_upd_other reg_defs)
  show "\<exists>s'. write32 sim CTRL_STATUS 1 s = (Inr (), s') \<and> sim_inv s' \<and> sim_finished s'
        \<and> sim_mem s' = patch (nat (gemm_c_base m n k)) (tile_result m n k (sim_mem s)) (sim_mem s)"
    if "sim_inv s" "gemm_shape m n k" "sim_reg s CMD_PARAM = 0" "sim_reg s OPCODE = OP_GEMM_S8"
      "sim_reg s GEMM_CFG = cfg_word m n k" "sim_reg s GEMM_BASE = base_word m n k"
      "sim_reg s GEMM_STRIDE = stride_word n k" for s m n k
    using that sim_start_gemm [of s m n k] by (simp add: sim_reg_def) blast
  show "\<exists>v. read32 sim CTRL_STATUS s = (Inr v, s) \<and> v AND 4 = 0 \<and> v AND 2 \<noteq> 0"
    if "sim_finished s" for s
    using that by (simp add: sim_finished_def sim_read32_def)
  show "\<exists>p. perf sim s = (Inr p, s)" for s by (rule sim_finished_perf)
qed

end
