(* ===== verification/Npu_Driver.thy ===== *)
theory Npu_Driver
  imports Npu_Sim
begin

text \<open>
  What the NPU runtime guarantees its callers: argument checks that leave the device
  alone, the outcomes of polling, the descriptor protocol and the matrix product on
  the simulated device, and the order of register writes of a command on a recording
  device (\<open>compiler/runtime/test_e1_npu_runtime.py\<close>).
\<close>

section \<open>Register traffic keeps the device well-formed\<close>

lemma keeps_index [keeps_intros]: "keeps I (reg_index a)"
  by (simp add: keeps_def reg_index_def split: option.splits)

lemma keeps_set [keeps_intros]: "keeps sim_inv (reg_set a v)"
  by (simp add: keeps_def reg_set_def sim_inv_upd)

lemma keeps_add [keeps_intros]: "keeps sim_inv (reg_add a v)"
  unfolding reg_add_def by (intro keeps_intros)

lemma keeps_read_s8 [keeps_intros]: "keeps I (scratch_read_s8 a)"
  unfolding scratch_read_s8_def Let_def by (intro keeps_intros)

lemma keeps_gemm [keeps_intros]: "keeps sim_inv execute_gemm"
  unfolding execute_gemm_def Let_def dot_step_def scratch_write_s32_def by (intro keeps_intros)

lemma keeps_execute [keeps_intros]: "keeps sim_inv sim_execute"
  unfolding sim_execute_def execute_descriptors_def Let_def
  by (rule keeps_state, intro keeps_intros, rule keeps_state) (intro keeps_intros)

lemma keeps_write: "keeps sim_inv (sim_write32 a v)"
  unfolding sim_write32_def Let_def by (rule keeps_state) (intro keeps_intros)

lemma keeps_read: "keeps sim_inv (sim_read32 a)"
  by (simp add: keeps_def sim_read32_def)

text \<open>What a client of the device can do to it: any sequence of reads and writes.\<close>

inductive sim_reach :: "regs \<Rightarrow> bool" where
  power_on: "sim_reach sim_init"
| read: "sim_reach r \<Longrightarrow> sim_reach (snd (sim_read32 a r))"
| write_reg: "sim_reach r \<Longrightarrow> sim_reach (snd (sim_write32 a v r))"

lemma sim_reach_inv: "sim_reach r \<Longrightarrow> sim_inv r"
proof (induction rule: sim_reach.induct)
  case power_on
  show ?case by (rule sim_init_inv)
next
  case (read r a)
  then show ?case using keeps_read by (simp add: keeps_def)
next
  case (write_reg r a v)
  then show ?case using keeps_write by (simp add: keeps_def)
qed

section \<open>The matrix product on the simulated device\<close>

text \<open>C1: On every device state a client can reach by MMIO traffic, a matrix product of a
supported shape over INT8 inputs returns exactly the golden model's answer, which is the
mathematical product, provided direct command mode is selected (CMD_PARAM is 0).\<close>
theorem sim_gemm_golden:
  assumes "sim_reach r" and "reg_get r CMD_PARAM = 0" and "gemm_shape m n k"
    and "int8_matrix m k a" and "int8_matrix k n b"
  shows "fst (gemm_s8 sim a b r) = golden_gemm_s8 a b
       \<and> golden_gemm_s8 a b = Inr (mat_mul m n k a b)"
proof
  have "sim_reg r CMD_PARAM = 0" using assms(2) by (simp add: sim_reg_def)
  then show "fst (gemm_s8 sim a b r) = golden_gemm_s8 a b"
    using sim_dev.gemm_s8_golden [OF sim_reach_inv [OF assms(1)] _ assms(3-5)] by auto
  show "golden_gemm_s8 a b = Inr (mat_mul m n k a b)"
    using golden_mat_mul [OF assms(4,5)] assms(3) by (simp add: gemm_shape_def)
qed

lemma sim_gemm_golden_witness:
  "fst (gemm_s8 sim [[1, -2, 3]] [[4], [5], [-6]] sim_init) = golden_gemm_s8 [[1, -2, 3]] [[4], [5], [-6]]
   \<and> golden_gemm_s8 [[1, -2, 3]] [[4], [5], [-6]] = Inr [[-24]]"
proof -
  have h: "sim_reach sim_init" "reg_get sim_init CMD_PARAM = 0" "gemm_shape 1 1 3"
    "int8_matrix 1 3 [[1, -2, 3]]" "int8_matrix 3 1 [[4], [5], [-6]]"
    by (rule power_on, code_simp, code_simp, code_simp, code_simp)
  have m: "mat_mul 1 1 3 [[1, -2, 3]] [[4], [5], [-6]] = [[-24]]"
    by (simp add: mat_mul_def numeral_eq_Suc)
  show ?thesis using sim_gemm_golden [OF h] unfolding m by blast
qed

text \<open>A status word with the reject bit ends polling at once.\<close>

lemma sim_poll_rejected:
  assumes "reg_get r CTRL_STATUS = 6" and "0 < t"
  shows "\<exists>st. poll_status sim t pre r
     = (Inl (NpuRuntimeError (pre @ '' rejected: ctrl_status=0x00000006'') st), r)"
proof -
  obtain p where p: "perf sim r = (Inr p, r)" using sim_finished_perf by blast
  obtain n where "nat t = Suc n" using assms(2) by (cases "nat t") simp_all
  then show ?thesis using assms p hex08_example
    by (simp add: poll_status_def sim_read32_def reject_def Let_def ebind_def eraise_def)
qed

text \<open>Starting in descriptor mode with an empty ring is an error.\<close>

lemma sim_start_empty_ring:
  assumes "reg_get s CMD_PARAM = 1" and "reg_get s DESC_TAIL - reg_get s DESC_HEAD = 0"
  shows "sim_write32 CTRL_STATUS 1 s = (Inr (), s(CTRL_STATUS \<mapsto> 1,
     DESC_STATUS \<mapsto> DESC_STATUS_EMPTY OR DESC_STATUS_ERROR, CTRL_STATUS \<mapsto> 6))"
proof -
  have "CTRL_STATUS \<noteq> PERF_ERRORS" by (simp add: reg_defs)
  moreover have "reg_get (s(CTRL_STATUS \<mapsto> 1)) a = reg_get s a" if "a \<in> {CMD_PARAM, DESC_TAIL, DESC_HEAD}" for a
    using that by (auto simp: reg_defs)
  ultimately show ?thesis
    using assms by (simp add: sim_write32_def sim_execute_def execute_descriptors_def eseq_def
        ebind_def reg_set_def eret_def Let_def del: reg_get_upd)
qed

text \<open>C3: The runtime never clears CMD_PARAM before a matrix product. After a completed
descriptor submission (CMD_PARAM is 1 and the ring has been drained), every well-formed
product is rejected by the device, although the same call succeeds in direct mode.\<close>
theorem sim_gemm_after_descriptors_rejected:
  assumes "sim_reach r" and "reg_get r CMD_PARAM = 1"
    and "reg_get r DESC_HEAD = reg_get r DESC_TAIL" and "gemm_shape m n k"
    and "int8_matrix m k a" and "int8_matrix k n b"
  shows "\<exists>st r'. gemm_s8 sim a b r
       = (Inl (NpuRuntimeError ''e1 NPU GEMM command rejected: ctrl_status=0x00000006'' st), r')
     \<and> reg_get r' DESC_STATUS AND DESC_STATUS_ERROR \<noteq> 0"
proof -
  note len = length_tile_bytes [OF assms(5)] length_tile_bytes [OF assms(6)]
  obtain s1 where s1: "gemm_launch sim m n k (tile_bytes a) (tile_bytes b) r
      = eseq (write32 sim CTRL_STATUS 1)
          (eseq (poll_status sim 1024 ''e1 NPU GEMM command'')
          (ebind (read_scratch sim (gemm_c_base m n k) (int (m * n * 4)))
             (\<lambda>raw. eret (gemm_decode m n raw)))) s1"
    and s1_reg: "sim_reg s1 = (sim_reg r)(GEMM_CFG := cfg_word m n k, GEMM_BASE := base_word m n k,
       GEMM_STRIDE := stride_word n k, OPCODE := OP_GEMM_S8)"
    by (rule sim_dev.launch_prefix [OF sim_reach_inv [OF assms(1)] assms(4) len])
  have keep: "sim_reg s1 x = sim_reg r x" if "x \<in> {CMD_PARAM, DESC_HEAD, DESC_TAIL}" for x
    using that by (auto simp: s1_reg reg_defs)
  have mode: "reg_get s1 CMD_PARAM = 1" "reg_get s1 DESC_TAIL - reg_get s1 DESC_HEAD = 0"
    using assms(2,3) keep [of CMD_PARAM] keep [of DESC_HEAD] keep [of DESC_TAIL]
    by (simp_all add: sim_reg_def)
  define s2 where "s2 = s1(CTRL_STATUS \<mapsto> 1,
     DESC_STATUS \<mapsto> DESC_STATUS_EMPTY OR DESC_STATUS_ERROR, CTRL_STATUS \<mapsto> 6)"
  have start: "sim_write32 CTRL_STATUS 1 s1 = (Inr (), s2)"
    unfolding s2_def by (rule sim_start_empty_ring [OF mode])
  obtain st where "poll_status sim 1024 ''e1 NPU GEMM command'' s2
      = (Inl (NpuRuntimeError ''e1 NPU GEMM command rejected: ctrl_status=0x00000006'' st), s2)"
    using sim_poll_rejected [of s2 1024 "''e1 NPU GEMM command''"] by (auto simp: s2_def reg_defs)
  then have "gemm_s8 sim a b r
       = (Inl (NpuRuntimeError ''e1 NPU GEMM command rejected: ctrl_status=0x00000006'' st), s2)"
    using start by (simp add: gemm_s8_launches [OF assms(4-6)] s1 eseq_def ebind_def)
  moreover have "reg_get s2 DESC_STATUS AND DESC_STATUS_ERROR \<noteq> 0"
    by (simp add: s2_def desc_defs reg_defs)
  ultimately show ?thesis by blast
qed

text \<open>The device after the register writes of one completed submission of one descriptor.\<close>

definition drained_device :: regs where
  "drained_device = foldl (\<lambda>r (a, v). snd (sim_write32 a v r)) sim_init
     [(DESC_BASE, 0x1000), (DESC_HEAD, 0), (DESC_TAIL, 1), (CMD_PARAM, 1), (CTRL_STATUS, 2),
      (CTRL_STATUS, 1)]"

lemma drained_reach: "sim_reach drained_device"
  unfolding drained_device_def by (simp add: write_reg power_on)

lemma sim_gemm_after_descriptors_rejected_witness:
  "\<exists>st r'. gemm_s8 sim [[1, 2]] [[3], [4]] drained_device
       = (Inl (NpuRuntimeError ''e1 NPU GEMM command rejected: ctrl_status=0x00000006'' st), r')
     \<and> reg_get r' DESC_STATUS AND DESC_STATUS_ERROR \<noteq> 0"
proof (rule sim_gemm_after_descriptors_rejected)
  show "sim_reach drained_device" by (rule drained_reach)
  show "reg_get drained_device CMD_PARAM = 1" by code_simp
  show "reg_get drained_device DESC_HEAD = reg_get drained_device DESC_TAIL" by code_simp
  show "gemm_shape 1 1 2" "int8_matrix 1 2 [[1, 2]]" "int8_matrix 2 1 [[3], [4]]"
    by code_simp+
qed

section \<open>Polling\<close>

text \<open>The ways polling with bound \<open>t\<close> can end, from poll \<open>lo\<close> on.\<close>

definition poll_outcome :: "string \<Rightarrow> int \<Rightarrow> int \<Rightarrow> (npu_error + npu_runtime_status) \<Rightarrow> bool" where
  "poll_outcome pre t lo r =
     (case r of
        Inr st \<Rightarrow> st_ok st \<and> lo \<le> st_polls st \<and> st_polls st \<le> t
          \<and> st_status st AND 4 = 0 \<and> st_status st AND 2 \<noteq> 0 \<and> st_error st = None
      | Inl (NpuRuntimeError msg st) \<Rightarrow> \<not> st_ok st \<and> lo \<le> st_polls st \<and> st_polls st \<le> t
          \<and> st_status st AND 4 \<noteq> 0 \<and> st_error st = Some ''rejected''
          \<and> msg = pre @ '' rejected: ctrl_status=0x'' @ hex08 (st_status st)
      | Inl (NpuTimeoutError msg st) \<Rightarrow> \<not> st_ok st \<and> st_polls st = t \<and> st_error st = Some ''timeout''
      | _ \<Rightarrow> False)"

lemma poll_outcome_mono: "poll_outcome pre t lo r \<Longrightarrow> lo' \<le> lo \<Longrightarrow> poll_outcome pre t lo' r"
  by (auto simp: poll_outcome_def split: sum.splits npu_error.splits)

lemma perf_returns:
  assumes "\<And>a u. \<exists>v u'. read32 rt a u = (Inr v, u')"
  shows "\<exists>p u'. perf rt u = (Inr p, u')"
proof -
  have "\<exists>y u'. ebind (read32 rt a) f u = (Inr y, u')" if "\<And>v u. \<exists>y u'. f v u = (Inr y, u')"
    for a u and f :: "int \<Rightarrow> ('a, npu_perf) npu"
    using assms [of a u] that by (auto simp: ebind_def)
  then show ?thesis unfolding perf_def by (auto simp: eret_def)
qed

lemma poll_loop_outcome:
  assumes "\<And>a u. \<exists>v u'. read32 rt a u = (Inr v, u')"
  shows "int left \<le> t \<Longrightarrow> poll_outcome pre t (t - int left + 1) (fst (poll_loop rt t pre left s))"
proof (induction left arbitrary: s)
  case 0
  obtain v s1 where v: "read32 rt CTRL_STATUS s = (Inr v, s1)" using assms by blast
  obtain d s2 where d: "read32 rt DESC_STATUS s1 = (Inr d, s2)" using assms by blast
  obtain p s3 where p: "perf rt s2 = (Inr p, s3)" using perf_returns [OF assms] by blast
  show ?case using v d p by (simp add: poll_timeout_def ebind_def eraise_def poll_outcome_def)
next
  case (Suc left)
  obtain v s1 where v: "read32 rt CTRL_STATUS s = (Inr v, s1)" using assms by blast
  obtain d s2 where d: "read32 rt DESC_STATUS s1 = (Inr d, s2)" using assms by blast
  obtain p s3 where p: "perf rt s2 = (Inr p, s3)" using perf_returns [OF assms] by blast
  obtain q s4 where q: "perf rt s1 = (Inr q, s4)" using perf_returns [OF assms] by blast
  consider "v AND 4 \<noteq> 0" | "v AND 4 = 0" "v AND 2 \<noteq> 0" | "v AND 4 = 0" "v AND 2 = 0" by blast
  then show ?case
  proof cases
    case 1
    then show ?thesis using v d p Suc.prems
      by (simp add: reject_def Let_def ebind_def eraise_def poll_outcome_def)
  next
    case 2
    then show ?thesis using v q Suc.prems
      by (simp add: Let_def ebind_def eret_def poll_outcome_def)
  next
    case 3
    have "poll_outcome pre t (t - int left + 1) (fst (poll_loop rt t pre left s1))"
      using Suc by simp
    then show ?thesis using 3 v poll_outcome_mono by (simp add: Let_def ebind_def)
  qed
qed

text \<open>C4: Over any device whose reads return, polling always ends, in exactly one of four
ways: a non-positive bound is refused before the device is touched; a status with the reject
bit raises \<open>NpuRuntimeError\<close> carrying it; one with the done bit and without the reject bit
returns after 1 to \<open>timeout_polls\<close> polls; otherwise \<open>NpuTimeoutError\<close> reports that all
\<open>timeout_polls\<close> polls were used.\<close>
theorem poll_status_outcome:
  assumes "\<And>a u. \<exists>v u'. read32 rt a u = (Inr v, u')"
  shows "(if t \<le> 0 then poll_status rt t pre s = (Inl (NpuValueError ''timeout_polls must be positive''), s)
          else poll_outcome pre t 1 (fst (poll_status rt t pre s)))"
  using poll_loop_outcome [OF assms, of "nat t" t pre s]
  by (cases "t \<le> 0") (simp_all add: poll_status_def eraise_def)

lemma poll_status_outcome_witness:
  "poll_outcome ''x'' 3 1 (fst (poll_status sim 3 ''x'' sim_init))"
  using poll_status_outcome [of sim 3 "''x''" sim_init] by (simp add: sim_read32_def)

section \<open>Descriptor submission\<close>

definition valid_submission :: "npu_descriptor_submission \<Rightarrow> bool" where
  "valid_submission d \<longleftrightarrow> ds_base d AND 3 = 0 \<and> 0 \<le> ds_head d \<and> ds_head d < 8
     \<and> 0 \<le> ds_tail d \<and> ds_tail d < 8 \<and> ds_head d \<noteq> ds_tail d"

lemma sim_execute_queued:
  assumes "sim_inv s" and "reg_get s CMD_PARAM = 1"
    and "q = (reg_get s DESC_TAIL - reg_get s DESC_HEAD) mod 8" and "q \<noteq> 0"
  shows "sim_execute s = (Inr (), s
    (DESC_BYTES_READ \<mapsto> reg_get s DESC_BYTES_READ + q * 16,
     DESC_BYTES_WRITTEN \<mapsto> reg_get s DESC_BYTES_WRITTEN,
     DESC_READ_BEATS \<mapsto> reg_get s DESC_READ_BEATS + q,
     DESC_WRITE_BEATS \<mapsto> reg_get s DESC_WRITE_BEATS,
     DESC_HEAD \<mapsto> reg_get s DESC_TAIL, DESC_STATUS \<mapsto> DESC_STATUS_DONE, CTRL_STATUS \<mapsto> 2))"
proof -
  have m: "(reg_get s DESC_TAIL - reg_get s DESC_HEAD) AND (DESC_RING_ENTRIES - 1) = q"
    using assms(3) by (simp add: desc_defs mask_simps)
  have c: "s DESC_BYTES_READ = Some (reg_get s DESC_BYTES_READ)"
    "s DESC_BYTES_WRITTEN = Some (reg_get s DESC_BYTES_WRITTEN)"
    "s DESC_READ_BEATS = Some (reg_get s DESC_READ_BEATS)"
    "s DESC_WRITE_BEATS = Some (reg_get s DESC_WRITE_BEATS)"
    by (rule sim_present [OF assms(1)], simp)+
  have run: "reg_add a v u = (Inr (), u(a \<mapsto> x + v))" if "u a = Some x" for u a v x
    using that by (simp add: reg_add_def reg_index_def reg_set_def ebind_def)
  have d: "DESC_BYTES_READ \<noteq> DESC_BYTES_WRITTEN" "DESC_BYTES_READ \<noteq> DESC_READ_BEATS"
    "DESC_BYTES_READ \<noteq> DESC_WRITE_BEATS" "DESC_BYTES_WRITTEN \<noteq> DESC_READ_BEATS"
    "DESC_BYTES_WRITTEN \<noteq> DESC_WRITE_BEATS" "DESC_READ_BEATS \<noteq> DESC_WRITE_BEATS"
    by (simp_all add: reg_defs)
  have "sim_execute s = execute_descriptors s" using assms(2) by (simp add: sim_execute_def)
  also have "\<dots> = (Inr (), s(DESC_BYTES_READ \<mapsto> reg_get s DESC_BYTES_READ + q * 16,
     DESC_BYTES_WRITTEN \<mapsto> reg_get s DESC_BYTES_WRITTEN + 0,
     DESC_READ_BEATS \<mapsto> reg_get s DESC_READ_BEATS + q,
     DESC_WRITE_BEATS \<mapsto> reg_get s DESC_WRITE_BEATS + 0,
     DESC_HEAD \<mapsto> reg_get s DESC_TAIL, DESC_STATUS \<mapsto> DESC_STATUS_DONE, CTRL_STATUS \<mapsto> 0x2))"
    unfolding execute_descriptors_def Let_def m if_not_P [OF assms(4)]
    apply (subst eseq_run(1), rule run, rule c(1))
    apply (subst eseq_run(1), rule run, simp add: d [symmetric] d c(2))
    apply (subst eseq_run(1), rule run, simp add: d [symmetric] d c(3))
    apply (subst eseq_run(1), rule run, simp add: d [symmetric] d c(4))
    apply (simp only: eseq_def ebind_def reg_set_def prod.case sum.case)
    done
  finally show ?thesis by (simp only: add_0_right)
qed

lemma u32_small: "0 \<le> x \<Longrightarrow> x < 8 \<Longrightarrow> u32 x = x"
  by (simp add: u32_mod)

text \<open>A valid submission reaches the launch with the ring registers and descriptor mode written.\<close>

definition submitted :: "npu_descriptor_submission \<Rightarrow> regs \<Rightarrow> regs" where
  "submitted d r = r(DESC_BASE \<mapsto> u32 (ds_base d), DESC_HEAD \<mapsto> ds_head d, DESC_TAIL \<mapsto> ds_tail d,
     CMD_PARAM \<mapsto> 1, CTRL_STATUS \<mapsto> 0)"

lemma submit_until_launch:
  assumes "valid_submission d"
  shows "submit_descriptors sim d r
    = eseq (sim_write32 CTRL_STATUS 1)
        (ebind (poll_status sim (ds_timeout_polls d) ''e1 NPU descriptor submission'') (\<lambda>st.
         ebind (sim_read32 DESC_STATUS) (\<lambda>desc_status.
          let ok = (desc_status AND DESC_STATUS_DONE \<noteq> 0 \<and> \<not> desc_status AND DESC_STATUS_ERROR \<noteq> 0);
              st' = \<lparr>st_ok = ok, st_status = st_status st, st_polls = st_polls st, st_error = None,
               st_desc_status = Some desc_status, st_perf = st_perf st\<rparr>
          in if \<not> ok then eraise (NpuRuntimeError
               (''e1 NPU descriptor submission failed: desc_status=0x'' @ hex08 desc_status) st')
             else eret st'))) (submitted d r)"
proof -
  have v: "ds_base d AND 3 = 0" "0 \<le> ds_head d" "ds_head d < 8" "0 \<le> ds_tail d" "ds_tail d < 8" "ds_head d \<noteq> ds_tail d"
    using assms by (simp_all add: valid_submission_def)
  have ring: "u32 (ds_head d) = ds_head d" "u32 (ds_tail d) = ds_tail d"
    using v u32_small by simp_all
  have plain: "sim_write32 a x u = (Inr (), u(a \<mapsto> u32 x))"
    if "a \<in> {DESC_BASE, DESC_HEAD, DESC_TAIL, CMD_PARAM}" for a x u
    using that by (intro sim_write32_plain) (auto simp: reg_defs)
  show ?thesis
    unfolding submit_descriptors_def submitted_def
    using v by (simp add: desc_defs(1) eseq_def ebind_def plain sim_ctrl_reset ring)
qed

lemma sim_poll_finished:
  assumes "0 < polls" "reg_get s CTRL_STATUS = 2" "perf sim s = (Inr p, s)"
  shows "poll_status sim polls prefix s
    = (Inr \<lparr>st_ok = True, st_status = 2, st_polls = 1, st_error = None, st_desc_status = None, st_perf = Some p\<rparr>, s)"
proof -
  obtain n where n: "nat polls = Suc n" using assms(1) by (cases "nat polls") simp_all
  then have "polls - int n = 1" by linarith
  then show ?thesis
    using assms by (simp add: poll_status_def n Let_def ebind_def eret_def sim_read32_def)
qed

text \<open>C5: From every reachable state of the simulated device, a valid submission with a
positive poll bound completes on the first poll: the ring head meets the tail, the done
status is returned without the error bit, each queued 16-byte descriptor is counted once in
bytes and once in beats, nothing is counted as written, and the device is left in descriptor
mode.\<close>
theorem sim_submit_descriptors:
  assumes "sim_reach r" and "valid_submission d" and "0 < ds_timeout_polls d"
  defines "q \<equiv> (ds_tail d - ds_head d) mod 8"
  shows "\<exists>st r'. submit_descriptors sim d r = (Inr st, r')
     \<and> st_ok st \<and> st_polls st = 1 \<and> st_desc_status st = Some DESC_STATUS_DONE \<and> 1 \<le> q
     \<and> reg_get r' DESC_HEAD = ds_tail d \<and> reg_get r' DESC_TAIL = ds_tail d
     \<and> reg_get r' DESC_BYTES_READ = reg_get r DESC_BYTES_READ + 16 * q
     \<and> reg_get r' DESC_READ_BEATS = reg_get r DESC_READ_BEATS + q
     \<and> reg_get r' DESC_BYTES_WRITTEN = reg_get r DESC_BYTES_WRITTEN
     \<and> reg_get r' CMD_PARAM = 1"
proof -
  have v: "ds_base d AND 3 = 0" "0 \<le> ds_head d" "ds_head d < 8" "0 \<le> ds_tail d" "ds_tail d < 8"
    "ds_head d \<noteq> ds_tail d"
    using assms(2) by (simp_all add: valid_submission_def)
  have q: "1 \<le> q" unfolding q_def using v(2-6) by presburger
  define s where "s = (submitted d r)(CTRL_STATUS \<mapsto> 1)"
  have inv: "sim_inv s" unfolding s_def submitted_def by (intro sim_inv_upd sim_reach_inv assms(1))
  have get: "reg_get s CMD_PARAM = 1" "reg_get s DESC_HEAD = ds_head d" "reg_get s DESC_TAIL = ds_tail d"
    "a \<notin> {DESC_BASE, DESC_HEAD, DESC_TAIL, CMD_PARAM, CTRL_STATUS} \<Longrightarrow> reg_get s a = reg_get r a" for a
    unfolding s_def submitted_def by (simp_all add: reg_defs)
  define s' where "s' = s(DESC_BYTES_READ \<mapsto> reg_get r DESC_BYTES_READ + q * 16,
     DESC_BYTES_WRITTEN \<mapsto> reg_get r DESC_BYTES_WRITTEN,
     DESC_READ_BEATS \<mapsto> reg_get r DESC_READ_BEATS + q,
     DESC_WRITE_BEATS \<mapsto> reg_get r DESC_WRITE_BEATS,
     DESC_HEAD \<mapsto> ds_tail d, DESC_STATUS \<mapsto> DESC_STATUS_DONE, CTRL_STATUS \<mapsto> 2)"
  have "sim_execute s = (Inr (), s')"
    using sim_execute_queued [OF inv get(1), of q] q
    unfolding s'_def q_def get(2,3) by (simp add: get(4) reg_defs)
  then have start: "sim_write32 CTRL_STATUS 1 (submitted d r) = (Inr (), s')"
    by (simp add: sim_write32_def Let_def eseq_def ebind_def reg_set_def s_def reg_defs)
  obtain p where p: "perf sim s' = (Inr p, s')" using sim_finished_perf by blast
  have get': "reg_get s' CTRL_STATUS = 2" "reg_get s' DESC_STATUS = DESC_STATUS_DONE"
    "reg_get s' DESC_HEAD = ds_tail d" "reg_get s' DESC_TAIL = ds_tail d"
    "reg_get s' DESC_BYTES_READ = reg_get r DESC_BYTES_READ + 16 * q"
    "reg_get s' DESC_READ_BEATS = reg_get r DESC_READ_BEATS + q"
    "reg_get s' DESC_BYTES_WRITTEN = reg_get r DESC_BYTES_WRITTEN" "reg_get s' CMD_PARAM = 1"
    unfolding s'_def using get(1,3) by (simp_all add: reg_defs)
  have "submit_descriptors sim d r = (Inr \<lparr>st_ok = True, st_status = 2, st_polls = 1, st_error = None,
      st_desc_status = Some DESC_STATUS_DONE, st_perf = Some p\<rparr>, s')"
    by (simp add: submit_until_launch [OF assms(2)] eseq_def ebind_def start sim_poll_finished [OF assms(3) get'(1) p]
        sim_read32_def get'(2) eret_def desc_defs)
  then show ?thesis using q get' by simp
qed

lemma sim_submit_descriptors_witness:
  "\<exists>st r'. submit_descriptors sim
        \<lparr>ds_base = 0x1000, ds_head = 6, ds_tail = 1, ds_timeout_polls = 4\<rparr> sim_init = (Inr st, r')
     \<and> st_ok st \<and> reg_get r' DESC_BYTES_READ = 48"
proof -
  let ?d = "\<lparr>ds_base = 0x1000, ds_head = 6, ds_tail = 1, ds_timeout_polls = 4\<rparr>"
  have "valid_submission ?d" by code_simp
  moreover have "reg_get sim_init DESC_BYTES_READ = 0" by code_simp
  ultimately show ?thesis using sim_submit_descriptors [OF power_on, of ?d] by auto
qed

section \<open>Argument checks\<close>

lemma s8_outside: "\<not> (-128 \<le> v \<and> v \<le> 127) \<Longrightarrow> s8 v = Inl (NpuValueError ''GEMM input outside signed INT8 range'')"
  by (auto simp: s8_def)

lemma s8_cases: "s8 v = Inl (NpuValueError ''GEMM input outside signed INT8 range'') \<or> (\<exists>y. s8 v = Inr y)"
  by (simp add: s8_def)

lemma gemm_elements_checked:
  assumes "length b = k" and "\<forall>r\<in>set b. length r = n" and "\<exists>r\<in>set b. \<exists>v\<in>set r. \<not> (-128 \<le> v \<and> v \<le> 127)"
  shows "mapR (\<lambda>(row, col). rbind (py_nth b row) (\<lambda>r. rbind (py_nth r col) s8))
           [(row, col). row \<leftarrow> [0..<k], col \<leftarrow> [0..<n]]
       = Inl (NpuValueError ''GEMM input outside signed INT8 range'')"
proof (rule mapR_fails)
  have at: "rbind (py_nth b i) (\<lambda>r. rbind (py_nth r j) s8) = s8 (b ! i ! j)" if "i < k" "j < n" for i j
    using that assms(1,2) by (simp add: py_nth_def)
  then show "(case p of (row, col) \<Rightarrow> rbind (py_nth b row) (\<lambda>r. rbind (py_nth r col) s8))
         = Inl (NpuValueError ''GEMM input outside signed INT8 range'')
      \<or> (\<exists>y. (case p of (row, col) \<Rightarrow> rbind (py_nth b row) (\<lambda>r. rbind (py_nth r col) s8)) = Inr y)"
    if "p \<in> set [(row, col). row \<leftarrow> [0..<k], col \<leftarrow> [0..<n]]" for p
    using that at s8_cases [of "b ! fst p ! snd p"] by (auto simp del: rbind_Inr_iff)
  obtain r v where "r \<in> set b" "v \<in> set r" and v: "\<not> (-128 \<le> v \<and> v \<le> 127)" using assms(3) by blast
  then obtain i j where "i < k" "b ! i = r" "j < n" "r ! j = v"
    using assms(1,2) by (metis in_set_conv_nth)
  then show "\<exists>p\<in>set [(row, col). row \<leftarrow> [0..<k], col \<leftarrow> [0..<n]].
      (case p of (row, col) \<Rightarrow> rbind (py_nth b row) (\<lambda>r. rbind (py_nth r col) s8))
         = Inl (NpuValueError ''GEMM input outside signed INT8 range'')"
    using at [of i j] s8_outside [OF v] by (intro bexI [of _ "(i, j)"]) (auto simp: image_iff)
qed

lemma gemm_s8_rejects:
  assumes "\<not> (gemm_shape (length a) (row_len b) (row_len a) \<and> int8_matrix (length a) (row_len a) a
         \<and> int8_matrix (row_len a) (row_len b) b)"
  shows "\<exists>msg. gemm_s8 rt a b s = (Inl (NpuValueError msg), s)"
proof -
  define k n where "k = row_len a" and "n = row_len b"
  define err where "err = (Inl (NpuValueError ''GEMM input outside signed INT8 range'') :: npu_error + byte list)"
  let ?b = "mapR (\<lambda>(row, col). rbind (py_nth b row) (\<lambda>r. rbind (py_nth r col) s8))
              [(row, col). row \<leftarrow> [0..<k], col \<leftarrow> [0..<n]]"
  define guards where "guards \<longleftrightarrow> gemm_shape (length a) n k \<and> (\<forall>r\<in>set a. length r = k)
    \<and> length b = k \<and> (\<forall>r\<in>set b. length r = n)"
  show ?thesis
  proof (cases guards)
    case False
    then show ?thesis
      by (auto simp: gemm_s8_def Let_def guards_def gemm_shape_def list_ex_iff eraise_def k_def n_def
          SCRATCH_BYTES_def)
  next
    case True
    then have launch: "gemm_s8 rt a b s = ebind (elift (mapR s8 (concat a))) (\<lambda>a_bytes.
        ebind (elift ?b) (\<lambda>b_bytes. gemm_launch rt (length a) n k a_bytes b_bytes)) s"
      by (simp add: gemm_s8_def Let_def guards_def gemm_shape_def list_ex_iff k_def n_def
          SCRATCH_BYTES_def)
    have "\<not> int8_matrix (length a) k a \<or> \<not> int8_matrix k n b"
      using assms True by (simp add: guards_def k_def n_def)
    then have bad: "(\<exists>r\<in>set a. \<exists>v\<in>set r. \<not> (-128 \<le> v \<and> v \<le> 127)) \<or> (\<exists>r\<in>set b. \<exists>v\<in>set r. \<not> (-128 \<le> v \<and> v \<le> 127))"
      using True by (auto simp: int8_matrix_def guards_def list_all_iff)
    have "mapR s8 (concat a) = err \<or> (\<exists>x. mapR s8 (concat a) = Inr x \<and> ?b = err)"
    proof (cases "\<exists>v\<in>set (concat a). s8 v = Inl (NpuValueError ''GEMM input outside signed INT8 range'')")
      case True
      then have "mapR s8 (concat a) = err"
        unfolding err_def by (intro mapR_fails s8_cases)
      then show ?thesis ..
    next
      case False
      then have "\<exists>r\<in>set b. \<exists>v\<in>set r. \<not> (-128 \<le> v \<and> v \<le> 127)"
        using bad s8_outside by fastforce
      then have "?b = err"
        unfolding err_def using True by (intro gemm_elements_checked) (auto simp: guards_def)
      moreover have "mapR s8 (concat a) = Inr (map (\<lambda>v. word_of_int (v AND 0xFF)) (concat a))"
        using False by (intro mapR_total) (auto simp: s8_def split: if_splits)
      ultimately show ?thesis by simp
    qed
    then show ?thesis unfolding launch err_def by (auto simp: ebind_def elift_def)
  qed
qed

text \<open>C6: Ill-formed arguments never reach a device: a submission that is misaligned, outside
the ring or empty, a scratchpad access outside its 64 bytes, and a matrix product whose shape,
row lengths, tile size or element range are not supported all raise an exception and leave
the state of any device as it was.\<close>
theorem argument_checks_spare_device:
  shows "(\<not> valid_submission d \<longrightarrow> (\<exists>msg. submit_descriptors rt d s = (Inl (NpuValueError msg), s)))
    \<and> (off < 0 \<or> off + int (length bs) > 64 \<longrightarrow>
         (\<exists>msg. write_scratch rt off bs s = (Inl (NpuValueError msg), s)))
    \<and> (off < 0 \<or> off + sz > 64 \<longrightarrow> (\<exists>msg. read_scratch rt off sz s = (Inl (NpuValueError msg), s)))
    \<and> (\<not> (gemm_shape (length a) (row_len b) (row_len a) \<and> int8_matrix (length a) (row_len a) a
           \<and> int8_matrix (row_len a) (row_len b) b) \<longrightarrow>
         (\<exists>msg. gemm_s8 rt a b s = (Inl (NpuValueError msg), s)))"
proof (intro conjI impI)
  show "\<exists>msg. submit_descriptors rt d s = (Inl (NpuValueError msg), s)" if "\<not> valid_submission d"
    using that by (auto simp: submit_descriptors_def valid_submission_def eraise_def desc_defs)
  show "\<exists>msg. write_scratch rt off bs s = (Inl (NpuValueError msg), s)"
    if "off < 0 \<or> off + int (length bs) > 64"
    using that by (auto simp: write_scratch_def eraise_def SCRATCH_BYTES_def)
  show "\<exists>msg. read_scratch rt off sz s = (Inl (NpuValueError msg), s)" if "off < 0 \<or> off + sz > 64"
    using that by (auto simp: read_scratch_def eraise_def SCRATCH_BYTES_def)
  show "\<exists>msg. gemm_s8 rt a b s = (Inl (NpuValueError msg), s)"
    if "\<not> (gemm_shape (length a) (row_len b) (row_len a) \<and> int8_matrix (length a) (row_len a) a
           \<and> int8_matrix (row_len a) (row_len b) b)"
    using that by (rule gemm_s8_rejects)
qed

lemma argument_checks_spare_device_witness:
  "(\<exists>msg. submit_descriptors sim
        \<lparr>ds_base = 2, ds_head = 0, ds_tail = 1, ds_timeout_polls = 4\<rparr> sim_init = (Inl (NpuValueError msg), sim_init))
   \<and> (\<exists>msg. write_scratch sim 62 [1, 2, 3] sim_init = (Inl (NpuValueError msg), sim_init))
   \<and> (\<exists>msg. read_scratch sim 60 5 sim_init = (Inl (NpuValueError msg), sim_init))
   \<and> (\<exists>msg. gemm_s8 sim [[1], [2, 3]] [[4]] sim_init = (Inl (NpuValueError msg), sim_init))"
proof -
  let ?d = "\<lparr>ds_base = 2, ds_head = 0, ds_tail = 1, ds_timeout_polls = 4\<rparr>"
  have "\<not> valid_submission ?d" by (simp add: valid_submission_def)
  moreover have "\<not> int8_matrix (length [[1], [2, 3]]) (row_len [[1], [2, 3 :: int]]) [[1], [2, 3]]"
    by (simp add: int8_matrix_def row_len_def)
  ultimately show ?thesis
    using argument_checks_spare_device
      [where rt = sim and s = sim_init and d = ?d and a = "[[1], [2, 3]]" and b = "[[4]]" and off = 62
        and bs = "[1, 2, 3]"]
      argument_checks_spare_device [where rt = sim and s = sim_init and off = 60 and sz = 5]
    by simp
qed

section \<open>The scratchpad\<close>

text \<open>C7: In every reachable state, bytes written inside the scratchpad at any alignment are
read back unchanged, every byte outside the written range keeps its value although the
runtime rewrites whole words, and the command registers are untouched.\<close>
theorem sim_scratch_roundtrip:
  assumes "sim_reach r" and "off + length bs \<le> 64"
  shows "\<exists>r'. write_scratch sim (int off) bs r = (Inr (), r')
     \<and> read_scratch sim (int off) (int (length bs)) r' = (Inr bs, r')
     \<and> (\<forall>i. i < off \<or> off + length bs \<le> i \<longrightarrow> i < 64 \<longrightarrow>
          read_scratch sim (int i) 1 r' = (fst (read_scratch sim (int i) 1 r), r'))
     \<and> sim_reg r' = sim_reg r"
proof -
  note inv = sim_reach_inv [OF assms(1)]
  obtain r' where r': "write_scratch sim (int off) bs r = (Inr (), r')" "sim_inv r'"
    "sim_mem r' = patch off bs (sim_mem r)" "sim_reg r' = sim_reg r"
    using sim_pad.write_scratch_mem [OF inv assms(2)] by blast
  have "read_scratch sim (int off) (int (length bs)) r' = (Inr bs, r')"
    using sim_pad.read_scratch_mem [OF r'(2) assms(2)] slice_patch [of off bs "sim_mem r"] assms(2)
    by (simp add: r'(3))
  moreover have "read_scratch sim (int i) 1 r' = (fst (read_scratch sim (int i) 1 r), r')"
    if "i < off \<or> off + length bs \<le> i" "i < 64" for i
  proof -
    have byte: "take 1 (drop i m) = [m ! i]" if "i < length m" for m :: "byte list"
      using that by (simp add: take_Suc_conv_app_nth hd_drop_conv_nth [symmetric] take_Suc)
    have "sim_mem r' ! i = sim_mem r ! i"
      using that assms(2) by (auto simp: r'(3) patch_nth)
    then have "take 1 (drop i (sim_mem r')) = take 1 (drop i (sim_mem r))"
      using that(2) by (subst (1 2) byte) simp_all
    then show ?thesis
      using sim_pad.read_scratch_mem [OF r'(2), of i 1] sim_pad.read_scratch_mem [OF inv, of i 1] that(2)
      by simp
  qed
  ultimately show ?thesis using r'(1,4) by blast
qed

lemma sim_scratch_roundtrip_witness:
  "\<exists>r'. write_scratch sim (int 3) [0xAA, 0xBB, 0xCC] sim_init = (Inr (), r')
     \<and> read_scratch sim (int 3) (int 3) r' = (Inr [0xAA, 0xBB, 0xCC], r')"
  using sim_scratch_roundtrip [OF power_on, of 3 "[0xAA, 0xBB, 0xCC]"] by auto

section \<open>Stream descriptors\<close>

definition stream_args_ok :: "int \<Rightarrow> int \<Rightarrow> int \<Rightarrow> bool" where
  "stream_args_ok op off cnt \<longleftrightarrow> 0 \<le> op \<and> op < 16 \<and> 0 \<le> off \<and> off mod 4 = 0
     \<and> 0 < cnt \<and> cnt \<le> 60 \<and> cnt mod 4 = 0 \<and> off + cnt \<le> 64"

text \<open>The fields do not overlap: reading one back is a matter of bit positions.\<close>

definition word0_layout :: "int \<Rightarrow> int \<Rightarrow> int \<Rightarrow> bool \<Rightarrow> bool \<Rightarrow> int" where
  "word0_layout op off cnt own wb =
     take_bit 4 op OR push_bit 8 1 OR push_bit 16 (take_bit 6 off) OR push_bit 24 (take_bit 6 cnt)
       OR push_bit 30 (of_bool wb) OR push_bit 31 (of_bool own)"

lemma and_take_bit:
  fixes x :: int
  shows "x AND 15 = take_bit 4 x" "x AND 63 = take_bit 6 x"
  by (simp_all only: mask_simps take_bit_eq_mod) simp_all

lemma word0_layout_fields:
  "take_bit 4 (word0_layout op off cnt own wb) = take_bit 4 op"
  "bit (word0_layout op off cnt own wb) 8"
  "take_bit 6 (drop_bit 16 (word0_layout op off cnt own wb)) = take_bit 6 off"
  "take_bit 6 (drop_bit 24 (word0_layout op off cnt own wb)) = take_bit 6 cnt"
  "bit (word0_layout op off cnt own wb) 30 = wb"
  "bit (word0_layout op off cnt own wb) 31 = own"
  "take_bit 32 (word0_layout op off cnt own wb) = word0_layout op off cnt own wb"
  by (rule bit_eqI; auto simp: word0_layout_def bit_simps)
    (auto simp: word0_layout_def bit_simps intro!: bit_eqI)

text \<open>C8: Packing succeeds precisely on a 4-bit opcode and a word-aligned, non-empty transfer
that fits the scratchpad, and a packed word is a 32-bit value from which the opcode, the
stream flag, the scratchpad offset, the byte count, the writeback request and the owner bit
are recovered exactly.\<close>
theorem pack_word0_fields:
  "case pack_stream_descriptor_word0 op off cnt own wb of
     Inr w \<Rightarrow> stream_args_ok op off cnt \<and> 0 \<le> w \<and> w < 2 ^ 32 \<and> w AND 0xF = op \<and> bit w 8
       \<and> drop_bit 16 w AND 0x3F = off \<and> drop_bit 24 w AND 0x3F = cnt \<and> bit w 30 = wb \<and> bit w 31 = own
   | Inl e \<Rightarrow> \<not> stream_args_ok op off cnt \<and> (\<exists>msg. e = NpuValueError msg)"
proof (cases "stream_args_ok op off cnt")
  case True
  have self: "take_bit 4 op = op" "take_bit 6 off = off" "take_bit 6 cnt = cnt"
    using True by (simp_all add: stream_args_ok_def take_bit_int_eq_self)
  have "pack_stream_descriptor_word0 op off cnt own wb = Inr (word0_layout op off cnt own wb)"
    using True unfolding stream_args_ok_def
    by (cases wb; cases own) (simp_all add: pack_stream_descriptor_word0_def SCRATCH_BYTES_def mask_simps(2) and_take_bit
        desc_defs word0_layout_def Let_def or.assoc)
  moreover have "0 \<le> word0_layout op off cnt own wb \<and> word0_layout op off cnt own wb < 2 ^ 32"
    using word0_layout_fields(7) [of op off cnt own wb] take_bit_int_less_exp [of 32 "word0_layout op off cnt own wb"]
      take_bit_nonnegative [of 32 "word0_layout op off cnt own wb"] by simp
  ultimately show ?thesis
    using True word0_layout_fields [of op off cnt own wb] self by (simp add: and_take_bit)
next
  case False
  then show ?thesis
    by (auto simp: stream_args_ok_def pack_stream_descriptor_word0_def SCRATCH_BYTES_def mask_simps(2) Let_def)
qed

section \<open>Completion needs proof\<close>

text \<open>C9: On any device, a submission is reported as successful only if its arguments were
valid, the poll bound was positive and the descriptor status read back after completion has
the done bit set and the error bit clear.\<close>
theorem submit_success_has_proof:
  assumes "submit_descriptors rt d s = (Inr st, s')"
  shows "valid_submission d \<and> 0 < ds_timeout_polls d \<and> st_ok st
     \<and> (\<exists>v. st_desc_status st = Some v \<and> v AND DESC_STATUS_DONE \<noteq> 0 \<and> v AND DESC_STATUS_ERROR = 0)"
proof -
  have valid: "valid_submission d"
  proof (rule ccontr)
    assume "\<not> valid_submission d"
    then show False using assms
      by (auto simp: submit_descriptors_def valid_submission_def eraise_def desc_defs split: if_splits)
  qed
  let ?finish = "\<lambda>r desc_status.
      let ok = (desc_status AND DESC_STATUS_DONE \<noteq> 0 \<and> \<not> desc_status AND DESC_STATUS_ERROR \<noteq> 0);
          r' = \<lparr>st_ok = ok, st_status = st_status r, st_polls = st_polls r, st_error = None,
                st_desc_status = Some desc_status, st_perf = st_perf r\<rparr>
      in if \<not> ok then eraise (NpuRuntimeError
           (''e1 NPU descriptor submission failed: desc_status=0x'' @ hex08 desc_status) r')
         else eret r'"
  have g: "\<not> ds_base d AND 3 \<noteq> 0" "\<not> (ds_head d < 0 \<or> ds_tail d < 0)"
    "\<not> (ds_head d \<ge> DESC_RING_ENTRIES \<or> ds_tail d \<ge> DESC_RING_ENTRIES)" "\<not> ds_head d = ds_tail d"
    using valid by (auto simp: valid_submission_def desc_defs)
  obtain u where "ebind (poll_status rt (ds_timeout_polls d) ''e1 NPU descriptor submission'')
          (\<lambda>r. ebind (read32 rt DESC_STATUS) (?finish r)) u = (Inr st, s')"
    using assms unfolding submit_descriptors_def
      if_not_P [OF g(1)] if_not_P [OF g(2)] if_not_P [OF g(3)] if_not_P [OF g(4)]
    by (elim eseq_InrE) (rule that)
  then obtain r u' v u'' where poll: "poll_status rt (ds_timeout_polls d)
        ''e1 NPU descriptor submission'' u = (Inr r, u')"
    and v: "?finish r v u'' = (Inr st, s')"
    unfolding ebind_Inr_iff by blast
  have "0 < ds_timeout_polls d"
    using poll by (auto simp: poll_status_def eraise_def split: if_splits)
  moreover have "st_ok st \<and> st_desc_status st = Some v \<and> v AND DESC_STATUS_DONE \<noteq> 0
      \<and> v AND DESC_STATUS_ERROR = 0"
    using v by (auto simp: Let_def eraise_def eret_def split: if_splits)
  ultimately show ?thesis using valid by blast
qed

lemma submit_success_has_proof_witness:
  "\<exists>st. fst (submit_descriptors sim
        \<lparr>ds_base = 0, ds_head = 0, ds_tail = 2, ds_timeout_polls = 1\<rparr> sim_init) = Inr st
     \<and> st_ok st \<and> (\<exists>v. st_desc_status st = Some v \<and> v AND DESC_STATUS_DONE \<noteq> 0)"
proof -
  let ?d = "\<lparr>ds_base = 0, ds_head = 0, ds_tail = 2, ds_timeout_polls = 1\<rparr>"
  let ?st = "\<lparr>st_ok = True, st_status = 2, st_polls = 1, st_error = None, st_desc_status = Some 2,
     st_perf = Some \<lparr>pf_cycles = 0, pf_macs = 0, pf_ops = 0, pf_errors = 0, pf_unsupported_ops = 0\<rparr>\<rparr>"
  have st: "fst (submit_descriptors sim ?d sim_init) = Inr ?st" by code_simp
  then have "submit_descriptors sim ?d sim_init = (Inr ?st, snd (submit_descriptors sim ?d sim_init))"
    by (metis prod.collapse)
  from submit_success_has_proof [OF this] st show ?thesis by blast
qed

end
