(* ===== verification/Npu_Client.thy ===== *)
theory Npu_Client
  imports Npu_Runtime
begin

text \<open>
  Whatever a device keeps under single register accesses, the runtime keeps: the interface
  \<open>mmio_invariant\<close> names the two laws, and the lemmas lift them to every method of \<open>E1NpuRuntime\<close>,
  whether the method returns or raises.
\<close>

lemma keeps_lift [keeps_intros]: "keeps I (elift r)"
  by (simp add: keeps_def elift_def)

lemma keeps_map [keeps_intros]: "(\<And>x. keeps I (f x)) \<Longrightarrow> keeps I (mapE f xs)"
  by (induction xs) (auto intro!: keeps_intros)

locale mmio_invariant =
  fixes rt :: "'s mmio" and I :: "'s \<Rightarrow> bool"
  assumes read: "keeps I (read32 rt a)" and "write": "keeps I (write32 rt a v)"
begin

lemma perf: "keeps I (perf rt)"
  unfolding perf_def by (intro keeps_intros read)

lemma poll_loop: "keeps I (poll_loop rt polls pre left)"
proof (induction left)
  case 0
  show ?case unfolding poll_loop.simps poll_timeout_def by (intro keeps_intros read perf)
next
  case (Suc left)
  show ?case unfolding poll_loop.simps reject_def Let_def by (intro keeps_intros read perf Suc.IH)
qed

lemma poll_status: "keeps I (poll_status rt polls pre)"
  unfolding poll_status_def by (intro keeps_intros poll_loop)

lemma run: "keeps I (run rt opcode a b acc polls)"
  unfolding run_def by (intro keeps_intros read "write" poll_status)

lemma submit: "keeps I (submit_descriptors rt d)"
  unfolding submit_descriptors_def Let_def by (intro keeps_intros read "write" poll_status)

lemma read_words: "keeps I (read_words rt first_word last_word)"
  unfolding read_words_def by (intro keeps_intros read)

lemma write_scratch: "keeps I (write_scratch rt offset bytes)"
  unfolding write_scratch_def Let_def by (intro keeps_intros read_words "write")

lemma read_scratch: "keeps I (read_scratch rt offset sz)"
  unfolding read_scratch_def Let_def by (intro keeps_intros read_words)

lemma gemm: "keeps I (gemm_s8 rt a b)"
  unfolding gemm_s8_def gemm_launch_def clear_perf_def Let_def
  by (intro keeps_intros "write" write_scratch read_scratch poll_status)

end

end
