(* ===== verification/Npu_Recovery.thy ===== *)
theory Npu_Recovery
  imports Npu_Driver Npu_Client
begin

text \<open>
  How a device that descriptor mode has made unusable for matrix products is recovered: direct mode
  is an invariant of every access but one, so a scalar command, which starts by clearing
  \<open>CMD_PARAM\<close>, restores it.
\<close>

section \<open>Leaving descriptor mode\<close>

text \<open>Direct command mode survives every access but a write of \<open>CMD_PARAM\<close>.\<close>

definition direct_mode :: "regs \<Rightarrow> bool" where
  "direct_mode r \<longleftrightarrow> reg_get r CMD_PARAM = 0"

lemma direct_set: "a \<noteq> CMD_PARAM \<Longrightarrow> keeps direct_mode (reg_set a v)"
  by (simp add: keeps_def direct_mode_def reg_set_def reg_get_def)

lemma direct_add: "a \<noteq> CMD_PARAM \<Longrightarrow> keeps direct_mode (reg_add a v)"
  unfolding reg_add_def by (intro keeps_intros direct_set)

lemma direct_scratch: "0 \<le> off \<Longrightarrow> keeps direct_mode (scratch_write_s32 off v)"
  unfolding scratch_write_s32_def by (intro direct_set) (simp add: reg_defs)

lemma keeps_fold_in: "(\<And>x b. x \<in> set xs \<Longrightarrow> keeps I (f x b)) \<Longrightarrow> keeps I (foldE f xs b)"
  by (induction xs arbitrary: b) (auto intro: keeps_intros)

lemma keeps_for_in: "(\<And>x. x \<in> set xs \<Longrightarrow> keeps I (f x)) \<Longrightarrow> keeps I (forE f xs)"
  by (induction xs) (auto intro: keeps_intros)

lemma direct_gemm: "keeps direct_mode execute_gemm"
proof -
  have dot: "keeps direct_mode (dot_step f g kk am)" for f g kk am
    unfolding dot_step_def by (intro keeps_intros)
  have cell: "keeps direct_mode (scratch_write_s32 ((c AND 0x3F) + row * (s AND 0xF) + col * 4) v)"
    if "0 \<le> row" "0 \<le> col" for c s v row col
    using that by (intro direct_scratch) simp
  show ?thesis
    unfolding execute_gemm_def Let_def
    by (intro keeps_bind keeps_index keeps_seq keeps_fold_in keeps_ret dot cell direct_add direct_set keeps_fold) (auto simp: reg_defs py_range_def)
qed

lemma direct_execute: "keeps direct_mode sim_execute"
  unfolding keeps_def
proof (intro allI impI)
  fix r assume r: "direct_mode r"
  have "keeps direct_mode (eseq (reg_add PERF_OPS 1)
      (if reg_get r OPCODE = OP_DOT8_S4 then
         eseq (reg_set RESULT 0) (eseq (reg_set RESULT_HI 0) (reg_set CTRL_STATUS 0x2))
       else if reg_get r OPCODE \<noteq> OP_GEMM_S8 then
         eseq (reg_add PERF_UNSUPPORTED_OPS 1) (eseq (reg_add PERF_ERRORS 1) (reg_set CTRL_STATUS 0x6))
       else execute_gemm))"
    by (intro keeps_seq keeps_if direct_add direct_set direct_gemm) (simp_all add: reg_defs)
  with r show "direct_mode (snd (sim_execute r))"
    by (simp add: sim_execute_def keeps_def direct_mode_def [of r] Let_def)
qed

lemma direct_write: "a \<noteq> CMD_PARAM \<Longrightarrow> keeps direct_mode (sim_write32 a v)"
  unfolding sim_write32_def Let_def
  by (intro keeps_if_state keeps_for_in keeps_seq keeps_if keeps_ret direct_set direct_execute) (auto simp: reg_defs)


text \<open>Every register but \<open>CMD_PARAM\<close>: what the rest of a scalar command touches.\<close>

lemma direct_read: "keeps direct_mode (sim_read32 a)"
  by (simp add: keeps_def sim_read32_def)

lemma direct_poll: "keeps direct_mode (poll_status sim polls pre)"
proof -
  have perf: "keeps direct_mode (perf sim)" unfolding perf_def sim_simps by (intro keeps_intros direct_read)
  have "keeps direct_mode (poll_loop sim polls pre left)" for left
  proof (induction left)
    case 0
    show ?case unfolding poll_loop.simps poll_timeout_def sim_simps by (intro keeps_intros direct_read perf)
  next
    case (Suc left)
    show ?case unfolding poll_loop.simps reject_def Let_def sim_simps by (intro keeps_intros direct_read perf Suc.IH)
  qed
  then show ?thesis unfolding poll_status_def by (intro keeps_intros)
qed

lemma run_leaves_descriptor_mode: "direct_mode (snd (run sim opcode x y acc polls r))"
proof -
  have first: "sim_write32 CMD_PARAM 0 r = (Inr (), r(CMD_PARAM \<mapsto> 0))"
    by (simp add: sim_write32_def Let_def eseq_def ebind_def eret_def reg_set_def reg_defs)
  have "keeps direct_mode
     (eseq (sim_write32 OP_A (u32 x)) (eseq (sim_write32 OP_B (u32 y)) (eseq (sim_write32 ACC (u32 acc))
      (eseq (sim_write32 OPCODE (opcode AND 0xF)) (eseq (sim_write32 CTRL_STATUS 2) (eseq (sim_write32 CTRL_STATUS 1)
      (eseq (poll_status sim polls ''e1 NPU command'') (sim_read32 RESULT))))))))"
    by (intro keeps_seq direct_write direct_poll direct_read) (simp_all add: reg_defs)
  moreover have "direct_mode (r(CMD_PARAM \<mapsto> 0))" by (simp add: direct_mode_def reg_get_def)
  ultimately show ?thesis
    unfolding run_def sim_simps eseq_run(1) [of "sim_write32 CMD_PARAM 0" r "()", OF first] by (simp add: keeps_def)
qed

interpretation reach: mmio_invariant sim sim_reach
  by unfold_locales (auto simp: keeps_def intro: sim_reach.intros)

text \<open>
  C2: A scalar command brings a device out of descriptor mode whatever its own outcome: on every
  state a client can reach, in either mode, running any command and then a matrix product of a
  supported shape returns the golden model's answer, and the device is again in a state a client
  can reach.
\<close>

theorem gemm_after_scalar_command:
  assumes "sim_reach r" and "gemm_shape m n k" and "int8_matrix m k a" and "int8_matrix k n b"
    and "r' = snd (run sim opcode x y acc polls r)"
  shows "fst (gemm_s8 sim a b r') = golden_gemm_s8 a b \<and> golden_gemm_s8 a b = Inr (mat_mul m n k a b)
    \<and> sim_reach (snd (gemm_s8 sim a b r'))"
proof -
  have r': "sim_reach r'" using reach.run assms(1) unfolding assms(5) keeps_def by blast
  moreover have mode: "reg_get r' CMD_PARAM = 0"
    using run_leaves_descriptor_mode unfolding assms(5) direct_mode_def by blast
  moreover have "sim_reg r' CMD_PARAM = 0" using mode by (simp add: sim_reg_def)
  ultimately show ?thesis
    using sim_dev.gemm_s8_golden [OF sim_reach_inv [OF r'] _ assms(2-4)] golden_mat_mul [OF assms(3,4)] assms(2) reach.gemm
    by (auto simp: gemm_shape_def keeps_def)
qed

text \<open>A device that a descriptor submission has left in descriptor mode.\<close>

theorem gemm_after_scalar_command_witness:
  "fst (gemm_s8 sim [[1, -2, 3]] [[4], [5], [-6]] (snd (run sim OP_ADD 1 2 0 4 drained_device))) = Inr [[-24]]
   \<and> sim_reach (snd (gemm_s8 sim [[1, -2, 3]] [[4], [5], [-6]] (snd (run sim OP_ADD 1 2 0 4 drained_device))))"
proof -
  have h: "gemm_shape 1 1 3" "int8_matrix 1 3 [[1, -2, 3]]" "int8_matrix 3 1 [[4], [5], [-6]]"
    by (code_simp, code_simp, code_simp)
  have m: "mat_mul 1 1 3 [[1, -2, 3]] [[4], [5], [-6]] = [[-24]]"
    by (simp add: mat_mul_def numeral_eq_Suc)
  have "sim_reach drained_device" by (rule drained_reach)
  from gemm_after_scalar_command [OF this h refl] show ?thesis unfolding m by metis
qed

end
