(* ===== verification/Npu_Fakes.thy ===== *)
theory Npu_Fakes
  imports Npu_Sim
begin

text \<open>
  The recording devices of \<open>compiler/runtime/test_e1_npu_runtime.py\<close>: one that logs every
  register access, one that also completes commands the way the accelerator's scalar
  unit does, and three that reject a command, complete it without doing it, or complete a
  descriptor submission. On the second
  the scalar operations of the runtime are compared with 32-bit machine arithmetic, and
  the order of the register writes of a command is fixed.
\<close>

section \<open>The devices\<close>

record fake =
  fk_regs :: regs
  fk_reads :: "int list"
  fk_writes :: "(int \<times> int) list"
  fk_commands :: "int list"

definition fake_init :: fake where
  "fake_init = \<lparr>fk_regs = Map.empty, fk_reads = [], fk_writes = [], fk_commands = []\<rparr>"

definition fake_read32 :: "int \<Rightarrow> (fake, int) npu" where
  "fake_read32 a = (\<lambda>f. (Inr (reg_get (fk_regs f) a), f\<lparr>fk_reads := fk_reads f @ [a]\<rparr>))"

definition fake_write :: "int \<Rightarrow> int \<Rightarrow> fake \<Rightarrow> fake" where
  "fake_write a v f = f\<lparr>fk_writes := fk_writes f @ [(a, u32 v)], fk_regs := (fk_regs f)(a \<mapsto> u32 v)\<rparr>"

text \<open>\<open>_s32\<close>, \<open>_s16\<close> and \<open>_s8\<close>.\<close>

definition cc_s32 :: "int \<Rightarrow> int" where
  "cc_s32 value = (let v = value AND 0xFFFFFFFF in if v AND 0x80000000 \<noteq> 0 then v - 0x100000000 else v)"

definition cc_s16 :: "int \<Rightarrow> int" where
  "cc_s16 value = (let v = value AND 0xFFFF in if v AND 0x8000 \<noteq> 0 then v - 0x10000 else v)"

definition cc_s8 :: "int \<Rightarrow> int" where
  "cc_s8 value = (let v = value AND 0xFF in if v AND 0x80 \<noteq> 0 then v - 0x100 else v)"

definition read_scratch_byte :: "regs \<Rightarrow> int \<Rightarrow> int" where
  "read_scratch_byte r offset =
     (let word = reg_get r (SCRATCH + (offset AND NOT 3))
      in drop_bit (nat (8 * (offset AND 3))) word AND 0xFF)"

definition write_scratch_i32 :: "int \<Rightarrow> int \<Rightarrow> regs \<Rightarrow> regs" where
  "write_scratch_i32 offset v r = r(SCRATCH + offset \<mapsto> u32 v)"

definition complete_gemm :: "regs \<Rightarrow> regs" where
  "complete_gemm r0 =
     (let cfg = reg_get r0 GEMM_CFG; base = reg_get r0 GEMM_BASE; stride = reg_get r0 GEMM_STRIDE;
          m = cfg AND 0xFF; n = drop_bit 8 cfg AND 0xFF; k = drop_bit 16 cfg AND 0xFF;
          a_base = base AND 0xFF; b_base = drop_bit 8 base AND 0xFF;
          c_base = drop_bit 16 base AND 0xFF;
          a_stride = stride AND 0xFF; b_stride = drop_bit 8 stride AND 0xFF;
          c_stride = drop_bit 16 stride AND 0xFF;
          (r1, macs) = foldl (\<lambda>s row. foldl (\<lambda>(r, macs) col.
              let (acc, macs') = foldl (\<lambda>(acc, macs) kk.
                    (acc + cc_s8 (read_scratch_byte r (a_base + row * a_stride + kk))
                         * cc_s8 (read_scratch_byte r (b_base + kk * b_stride + col)), macs + 1))
                  (0, macs) (py_range 0 k)
              in (write_scratch_i32 (c_base + row * c_stride + col * 4) acc r, macs'))
            s (py_range 0 n)) (r0, 0 :: int) (py_range 0 m);
          r2 = r1(PERF_CYCLES \<mapsto> reg_get r1 PERF_CYCLES + macs)
      in r2(PERF_MACS \<mapsto> reg_get r2 PERF_MACS + macs))"

definition complete_command :: "fake \<Rightarrow> fake" where
  "complete_command f0 =
     (let opcode = reg_get (fk_regs f0) OPCODE;
          f = f0\<lparr>fk_commands := fk_commands f0 @ [opcode]\<rparr>;
          r = fk_regs f;
          finish = (\<lambda>r'. f\<lparr>fk_regs := r'(CTRL_STATUS \<mapsto> 0x2)\<rparr>)
      in if opcode = OP_ADD then
           finish (r(RESULT \<mapsto> u32 (reg_get r OP_A + reg_get r OP_B)))
         else if opcode = OP_SUB then
           finish (r(RESULT \<mapsto> u32 (reg_get r OP_A - reg_get r OP_B)))
         else if opcode = OP_MUL_LO then
           finish (r(RESULT \<mapsto> u32 (reg_get r OP_A * reg_get r OP_B)))
         else if opcode = OP_MAC_S16 then
           let a = cc_s16 (reg_get r OP_A); b = cc_s16 (reg_get r OP_B)
           in finish (r(RESULT \<mapsto> u32 (cc_s32 (reg_get r ACC) + a * b)))
         else if opcode = OP_DOT4_S8 then
           let a = reg_get r OP_A; b = reg_get r OP_B; acc = cc_s32 (reg_get r ACC)
           in finish (r(RESULT \<mapsto> u32 (acc + sum_list (map (\<lambda>index.
                cc_s8 (drop_bit (8 * index) a) * cc_s8 (drop_bit (8 * index) b)) [0..<4]))))
         else if opcode = OP_GEMM_S8 then finish (complete_gemm r)
         else f\<lparr>fk_regs := r(CTRL_STATUS \<mapsto> 0x4)\<rparr>)"

definition command_completing :: "fake mmio" where
  "command_completing =
     \<lparr>read32 = fake_read32,
      write32 = (\<lambda>a v f.
        let f' = fake_write a v f
        in (Inr (), if a = CTRL_STATUS \<and> v AND 1 \<noteq> 0 then complete_command f' else f'))\<rparr>"

definition rejecting :: "fake mmio" where
  "rejecting =
     \<lparr>read32 = fake_read32,
      write32 = (\<lambda>a v f.
        let f' = fake_write a v f
        in (Inr (), if a = CTRL_STATUS \<and> v AND 1 \<noteq> 0
                    then f'\<lparr>fk_regs := (fk_regs f')(CTRL_STATUS \<mapsto> 0x4)\<rparr> else f'))\<rparr>"

definition done_without_proof :: "fake mmio" where
  "done_without_proof =
     \<lparr>read32 = fake_read32,
      write32 = (\<lambda>a v f.
        let f' = fake_write a v f
        in (Inr (), if a = CTRL_STATUS \<and> v AND 1 \<noteq> 0
                    then f'\<lparr>fk_regs := (fk_regs f')(CTRL_STATUS \<mapsto> 0x2, DESC_STATUS \<mapsto> 0)\<rparr>
                    else f'))\<rparr>"

definition descriptor_completing :: "fake mmio" where
  "descriptor_completing =
     \<lparr>read32 = fake_read32,
      write32 = (\<lambda>a v f.
        let f' = fake_write a v f
        in (Inr (), if a = CTRL_STATUS \<and> v AND 1 \<noteq> 0
                    then f'\<lparr>fk_regs := (fk_regs f')(CTRL_STATUS \<mapsto> 0x2, DESC_STATUS \<mapsto> DESC_STATUS_DONE,
                           DESC_TAIL \<mapsto> reg_get (fk_regs f') DESC_HEAD)\<rparr>
                    else f'))\<rparr>"

section \<open>The scalar unit in machine arithmetic\<close>

definition dot4 :: "32 word \<Rightarrow> 32 word \<Rightarrow> int" where
  "dot4 a b = (\<Sum>i<4. sint (ucast (drop_bit (8 * i) a) :: 8 word) * sint (ucast (drop_bit (8 * i) b) :: 8 word))"

fun npu_alu :: "int \<Rightarrow> 32 word \<Rightarrow> 32 word \<Rightarrow> 32 word \<Rightarrow> 32 word option" where
  "npu_alu opcode a b acc =
     (if opcode = OP_ADD then Some (a + b)
      else if opcode = OP_SUB then Some (a - b)
      else if opcode = OP_MUL_LO then Some (a * b)
      else if opcode = OP_MAC_S16 then
        Some (acc + word_of_int (sint (ucast a :: 16 word) * sint (ucast b :: 16 word)))
      else if opcode = OP_DOT4_S8 then Some (acc + word_of_int (dot4 a b))
      else None)"

declare npu_alu.simps [simp del]

lemma signed_by_mask:
  fixes v :: int
  assumes "M = mask (Suc n)" and "B = 2 ^ n" and "P = 2 ^ Suc n"
  shows "(let u = v AND M in if u AND B \<noteq> 0 then u - P else u) = signed_take_bit n v"
proof -
  have "v AND M = take_bit (Suc n) v" by (simp add: assms(1) take_bit_eq_mask)
  moreover have "(take_bit (Suc n) v AND B \<noteq> 0) = bit v n"
    using and_exp_eq_0_iff_not_bit [of "take_bit (Suc n) v" n] by (simp add: assms(2) bit_simps)
  ultimately show ?thesis
    by (simp add: assms(3) signed_take_bit_eq_take_bit_minus)
qed

lemma cc_signed:
  "cc_s32 v = sint (word_of_int v :: 32 word)"
  "cc_s16 v = sint (word_of_int v :: 16 word)"
  "cc_s8 v = sint (word_of_int v :: 8 word)"
proof -
  show "cc_s32 v = sint (word_of_int v :: 32 word)"
    unfolding cc_s32_def by (subst signed_by_mask [of _ 31]) (simp_all add: mask_eq_exp_minus_1 sint_sbintrunc')
  show "cc_s16 v = sint (word_of_int v :: 16 word)"
    unfolding cc_s16_def by (subst signed_by_mask [of _ 15]) (simp_all add: mask_eq_exp_minus_1 sint_sbintrunc')
  show "cc_s8 v = sint (word_of_int v :: 8 word)"
    unfolding cc_s8_def by (subst signed_by_mask [of _ 7]) (simp_all add: mask_eq_exp_minus_1 sint_sbintrunc')
qed

lemma u32_uint: "u32 v = uint (word_of_int v :: 32 word)"
  by (simp add: mask_simps uint_word_of_int)

lemma word_of_u32 [simp]: "word_of_int (u32 v) = (word_of_int v :: 32 word)"
  by (simp add: u32_uint)

text \<open>What the device leaves in the result register after a scalar command.\<close>

lemma scalar_result:
  assumes "npu_alu opcode (word_of_int a) (word_of_int b) (word_of_int acc) = Some w"
    and "reg_get (fk_regs f) OPCODE = opcode" and "reg_get (fk_regs f) OP_A = u32 a"
    and "reg_get (fk_regs f) OP_B = u32 b" and "reg_get (fk_regs f) ACC = u32 acc"
  shows "complete_command f = f\<lparr>fk_commands := fk_commands f @ [opcode],
     fk_regs := (fk_regs f)(RESULT \<mapsto> uint w, CTRL_STATUS \<mapsto> 2)\<rparr>"
proof -
  have dot: "(\<Sum>index\<leftarrow>[0..<4]. cc_s8 (drop_bit (8 * index) (u32 a)) * cc_s8 (drop_bit (8 * index) (u32 b)))
      = dot4 (word_of_int a) (word_of_int b)"
  proof -
    have "cc_s8 (drop_bit (8 * i) (u32 x)) = sint (ucast (drop_bit (8 * i) (word_of_int x :: 32 word)) :: 8 word)"
      for i x
      unfolding cc_signed u32_uint ucast_eq by (simp add: unsigned_drop_bit_eq bintr_uint)
    then show ?thesis
      by (simp only: dot4_def sum_list_distinct_conv_sum_set [OF distinct_upt] set_upt atLeast0LessThan)
  qed
  show ?thesis
  proof (cases "opcode = OP_DOT4_S8")
    case True
    then have "w = word_of_int acc + word_of_int (dot4 (word_of_int a) (word_of_int b))"
      using assms(1) by (simp add: npu_alu.simps op_defs)
    then show ?thesis
      using True assms(2-) dot by (simp add: complete_command_def Let_def op_defs cc_signed) (simp add: u32_uint)
  next
    case False
    then show ?thesis
      using assms by (auto simp: npu_alu.simps complete_command_def Let_def u32_uint cc_signed op_defs
          split: if_splits)
  qed
qed

section \<open>A command on the device\<close>

lemma completing_simps [simp]:
  "read32 command_completing = fake_read32"
  "write32 command_completing a v f =
     (Inr (), if a = CTRL_STATUS \<and> v AND 1 \<noteq> 0 then complete_command (fake_write a v f) else fake_write a v f)"
  by (simp_all add: command_completing_def Let_def)

lemma poll_first_done:
  assumes "reg_get (fk_regs f) CTRL_STATUS = 2" and "0 < t"
  shows "\<exists>st. poll_status command_completing t pre f = (Inr st, f\<lparr>fk_reads := fk_reads f @
     [CTRL_STATUS, PERF_CYCLES, PERF_MACS, PERF_OPS, PERF_ERRORS, PERF_UNSUPPORTED_OPS]\<rparr>)"
proof -
  obtain n where "nat t = Suc n" using assms(2) by (cases "nat t") simp_all
  then show ?thesis using assms
    by (simp add: poll_status_def Let_def ebind_def eret_def fake_read32_def perf_def)
qed

text \<open>C10: A scalar command writes exactly the seven command registers in the documented order,
launches once, and returns the 32-bit machine result of the operation on its operands after a
single poll. A non-positive poll bound is refused only after that launch.\<close>
theorem run_scalar_command:
  assumes "npu_alu opcode (word_of_int a) (word_of_int b) (word_of_int acc) = Some w"
  shows "\<exists>f'. run command_completing opcode a b acc t f
       = (if 0 < t then Inr (uint w) else Inl (NpuValueError ''timeout_polls must be positive''), f')
     \<and> fk_writes f' = fk_writes f @ [(CMD_PARAM, 0), (OP_A, u32 a), (OP_B, u32 b), (ACC, u32 acc),
         (OPCODE, opcode), (CTRL_STATUS, 2), (CTRL_STATUS, 1)]
     \<and> fk_commands f' = fk_commands f @ [opcode]
     \<and> (0 < t \<longrightarrow> fk_reads f' = fk_reads f @ [CTRL_STATUS, PERF_CYCLES, PERF_MACS, PERF_OPS,
         PERF_ERRORS, PERF_UNSUPPORTED_OPS, RESULT])"
proof -
  have op: "opcode AND 0xF = opcode" "u32 opcode = opcode"
    using assms by (auto simp: npu_alu.simps op_defs split: if_splits)
  define g where "g = foldl (\<lambda>f (a, v). fake_write a v f) f
     [(CMD_PARAM, 0), (OP_A, u32 a), (OP_B, u32 b), (ACC, u32 acc), (OPCODE, opcode), (CTRL_STATUS, 2),
      (CTRL_STATUS, 1)]"
  have regs: "reg_get (fk_regs g) OPCODE = opcode" "reg_get (fk_regs g) OP_A = u32 a"
    "reg_get (fk_regs g) OP_B = u32 b" "reg_get (fk_regs g) ACC = u32 acc"
    by (simp_all add: g_def fake_write_def reg_defs op)
  define h where "h = complete_command g"
  have h: "h = g\<lparr>fk_commands := fk_commands g @ [opcode],
     fk_regs := (fk_regs g)(RESULT \<mapsto> uint w, CTRL_STATUS \<mapsto> 2)\<rparr>"
    unfolding h_def by (rule scalar_result [OF assms regs])
  have log: "fk_writes g = fk_writes f @ [(CMD_PARAM, 0), (OP_A, u32 a), (OP_B, u32 b), (ACC, u32 acc),
         (OPCODE, opcode), (CTRL_STATUS, 2), (CTRL_STATUS, 1)]"
    "fk_commands g = fk_commands f" "fk_reads g = fk_reads f"
    by (simp_all add: g_def fake_write_def op)
  have prefix: "run command_completing opcode a b acc t f
      = eseq (poll_status command_completing t ''e1 NPU command'') (fake_read32 RESULT) h"
    by (simp add: run_def eseq_def ebind_def op h_def g_def reg_defs)
  show ?thesis
  proof (cases "0 < t")
    case True
    obtain st where "poll_status command_completing t ''e1 NPU command'' h
       = (Inr st, h\<lparr>fk_reads := fk_reads h @
           [CTRL_STATUS, PERF_CYCLES, PERF_MACS, PERF_OPS, PERF_ERRORS, PERF_UNSUPPORTED_OPS]\<rparr>)"
      using poll_first_done [of h t] True by (auto simp: h)
    then show ?thesis
      using True by (simp add: prefix eseq_def ebind_def fake_read32_def h log reg_defs)
  next
    case False
    then show ?thesis by (simp add: prefix eseq_def ebind_def poll_status_def eraise_def h log)
  qed
qed

lemma run_scalar_command_witness:
  "\<exists>f'. run command_completing OP_SUB 3 5 0 1 fake_init = (Inr 0xFFFFFFFE, f') \<and> fk_commands f' = [OP_SUB]"
proof -
  have "npu_alu OP_SUB (word_of_int 3) (word_of_int 5) (word_of_int 0) = Some 0xFFFFFFFE"
    by (simp add: npu_alu.simps op_defs)
  from run_scalar_command [OF this, of 1 fake_init] show ?thesis by (auto simp: fake_init_def)
qed

text \<open>The two descriptor devices differ in the proof of completion alone.\<close>

lemma descriptor_devices:
  "case fst (submit_descriptors descriptor_completing \<lparr>ds_base = 0x1000, ds_head = 1, ds_tail = 2, ds_timeout_polls = 4\<rparr> fake_init) of
     Inr st \<Rightarrow> st_ok st \<and> st_desc_status st = Some DESC_STATUS_DONE | Inl e \<Rightarrow> False"
  "case fst (submit_descriptors done_without_proof \<lparr>ds_base = 0x1000, ds_head = 1, ds_tail = 2, ds_timeout_polls = 4\<rparr> fake_init) of
     Inr st \<Rightarrow> False | Inl (NpuRuntimeError msg st) \<Rightarrow> \<not> st_ok st | Inl e \<Rightarrow> False"
  by code_simp+

end
