(* ===== verification/Py_Float.thy ===== *)
theory Py_Float
  imports Prelude Complex_Main
begin

text \<open>
  Python floats as the binary64 numbers they are: finite values are rationals rounded to
  53 significant bits (to nearest, ties to even, gradual underflow), next to the two
  infinities and NaN. The sign of a zero is not tracked. The operations are the ones the
  scripts use: true division and product, the conversions from and to integers, the
  ordering, and running extremes of a list.
\<close>

section \<open>Rounding\<close>

definition pow2 :: "int \<Rightarrow> rat" where
  "pow2 e = 2 powi e"

fun ilog2 :: "nat \<Rightarrow> nat" where
  "ilog2 n = (if n < 2 then 0 else Suc (ilog2 (n div 2)))"

declare ilog2.simps [simp del]

text \<open>The exponent \<open>e\<close> with \<open>2^e \<le> x < 2^(e+1)\<close> of a positive rational.\<close>

definition log2_floor :: "rat \<Rightarrow> int" where
  "log2_floor x =
     (let (p, q) = quotient_of x; e = int (ilog2 (nat p)) - int (ilog2 (nat q))
      in if pow2 e \<le> x then e else e - 1)"

definition round_even :: "rat \<Rightarrow> int" where
  "round_even y =
     (let k = \<lfloor>y\<rfloor>; d = y - of_int k
      in if d < 1 / 2 then k else if 1 / 2 < d then k + 1 else if even k then k else k + 1)"

definition ulp_exp :: "rat \<Rightarrow> int" where
  "ulp_exp x = max (log2_floor \<bar>x\<bar> - 52) (- 1074)"

definition fl :: "rat \<Rightarrow> rat" where
  "fl x = (if x = 0 then 0 else of_int (round_even (x / pow2 (ulp_exp x))) * pow2 (ulp_exp x))"

definition fl_overflow :: "rat \<Rightarrow> bool" where
  "fl_overflow x \<longleftrightarrow> 2 ^ 1024 \<le> \<bar>fl x\<bar>"

section \<open>Values and operations\<close>

datatype pyfloat = Fin rat | PInf | NInf | NaN

definition to_float :: "rat \<Rightarrow> pyfloat" where
  "to_float x = (if fl_overflow x then if 0 < x then PInf else NInf else Fin (fl x))"

datatype num_error = ZeroDivision | NumOverflow | NumValueError

text \<open>\<open>a / b\<close> on integers: the quotient correctly rounded; too large a result raises.\<close>

definition int_truediv :: "int \<Rightarrow> int \<Rightarrow> num_error + pyfloat" where
  "int_truediv a b =
     (if b = 0 then Inl ZeroDivision
      else let x = of_int a / of_int b in if fl_overflow x then Inl NumOverflow else Inr (Fin (fl x)))"

text \<open>The conversion of an integer operand of a float operation, and a literal.\<close>

definition float_of_int :: "int \<Rightarrow> num_error + pyfloat" where
  "float_of_int a = (if fl_overflow (of_int a) then Inl NumOverflow else Inr (Fin (fl (of_int a))))"

abbreviation float_lit :: "rat \<Rightarrow> pyfloat" where
  "float_lit q \<equiv> Fin (fl q)"

definition float_sign :: "pyfloat \<Rightarrow> int" where
  "float_sign x = (case x of Fin q \<Rightarrow> (if q < 0 then - 1 else if 0 < q then 1 else 0) | PInf \<Rightarrow> 1 | NInf \<Rightarrow> - 1 | NaN \<Rightarrow> 0)"

definition inf_of_sign :: "int \<Rightarrow> pyfloat" where
  "inf_of_sign s = (if s = 0 then NaN else if 0 < s then PInf else NInf)"

definition float_mul :: "pyfloat \<Rightarrow> pyfloat \<Rightarrow> pyfloat" where
  "float_mul x y =
     (if x = NaN \<or> y = NaN then NaN
      else case (x, y) of (Fin a, Fin b) \<Rightarrow> to_float (a * b)
           | _ \<Rightarrow> inf_of_sign (float_sign x * float_sign y))"

definition float_div :: "pyfloat \<Rightarrow> pyfloat \<Rightarrow> num_error + pyfloat" where
  "float_div x y =
     (if y = Fin 0 then Inl ZeroDivision
      else if x = NaN \<or> y = NaN then Inr NaN
      else case (x, y) of
             (Fin a, Fin b) \<Rightarrow> Inr (to_float (a / b))
           | (Fin a, _) \<Rightarrow> Inr (Fin 0)
           | (_, Fin b) \<Rightarrow> Inr (inf_of_sign (float_sign x * float_sign y))
           | _ \<Rightarrow> Inr NaN)"

definition float_add :: "pyfloat \<Rightarrow> pyfloat \<Rightarrow> pyfloat" where
  "float_add x y = (case (x, y) of
       (NaN, _) \<Rightarrow> NaN | (_, NaN) \<Rightarrow> NaN
     | (Fin a, Fin b) \<Rightarrow> to_float (a + b)
     | (Fin a, _) \<Rightarrow> y | (_, Fin b) \<Rightarrow> x
     | _ \<Rightarrow> if x = y then x else NaN)"

definition float_neg :: "pyfloat \<Rightarrow> pyfloat" where
  "float_neg x = (case x of Fin q \<Rightarrow> Fin (- q) | PInf \<Rightarrow> NInf | NInf \<Rightarrow> PInf | NaN \<Rightarrow> NaN)"

definition float_sub :: "pyfloat \<Rightarrow> pyfloat \<Rightarrow> pyfloat" where
  "float_sub x y = float_add x (float_neg y)"

definition float_abs :: "pyfloat \<Rightarrow> pyfloat" where
  "float_abs x = (case x of Fin q \<Rightarrow> Fin \<bar>q\<bar> | NInf \<Rightarrow> PInf | _ \<Rightarrow> x)"

text \<open>\<open>math.ceil\<close> and \<open>int\<close> raise on the non-finite values.\<close>

definition py_ceil :: "pyfloat \<Rightarrow> num_error + int" where
  "py_ceil x = (case x of Fin q \<Rightarrow> Inr \<lceil>q\<rceil> | NaN \<Rightarrow> Inl NumValueError | _ \<Rightarrow> Inl NumOverflow)"

definition py_trunc :: "pyfloat \<Rightarrow> num_error + int" where
  "py_trunc x = (case x of Fin q \<Rightarrow> Inr (if 0 \<le> q then \<lfloor>q\<rfloor> else \<lceil>q\<rceil>)
     | NaN \<Rightarrow> Inl NumValueError | _ \<Rightarrow> Inl NumOverflow)"

text \<open>The ordering: every comparison with NaN is false.\<close>

definition float_le :: "pyfloat \<Rightarrow> pyfloat \<Rightarrow> bool" where
  "float_le x y = (case (x, y) of
       (NaN, _) \<Rightarrow> False | (_, NaN) \<Rightarrow> False
     | (NInf, _) \<Rightarrow> True | (_, PInf) \<Rightarrow> True
     | (Fin a, Fin b) \<Rightarrow> a \<le> b
     | _ \<Rightarrow> False)"

definition float_lt :: "pyfloat \<Rightarrow> pyfloat \<Rightarrow> bool" where
  "float_lt x y = (x \<noteq> NaN \<and> y \<noteq> NaN \<and> \<not> float_le y x)"

definition float_eq :: "pyfloat \<Rightarrow> pyfloat \<Rightarrow> bool" where
  "float_eq x y = (x \<noteq> NaN \<and> x = y)"

text \<open>\<open>max\<close> and \<open>min\<close> of a non-empty list of floats: the first of the extremes.\<close>

definition fmax :: "pyfloat \<Rightarrow> pyfloat list \<Rightarrow> pyfloat" where
  "fmax x xs = foldl (\<lambda>m y. if float_lt m y then y else m) x xs"

definition fmin :: "pyfloat \<Rightarrow> pyfloat list \<Rightarrow> pyfloat" where
  "fmin x xs = foldl (\<lambda>m y. if float_lt y m then y else m) x xs"

section \<open>Accuracy\<close>

lemma pow2_pos [simp]: "0 < pow2 e"
  by (simp add: pow2_def)

lemma pow2_nonneg [simp]: "0 \<le> pow2 e" and pow2_not_0 [simp]: "pow2 e \<noteq> 0"
  by (simp_all add: pow2_def)

lemma pow2_add: "pow2 (a + b) = pow2 a * pow2 b"
  by (simp add: pow2_def power_int_add)

lemma pow2_mono: "a \<le> b \<Longrightarrow> pow2 a \<le> pow2 b"
  by (simp add: pow2_def power_int_increasing)

lemma pow2_less_imp: "pow2 a < pow2 b \<Longrightarrow> a < b"
  using pow2_mono [of b a] by (meson not_less)

lemma ilog2_bounds: "0 < n \<Longrightarrow> 2 ^ ilog2 n \<le> n \<and> n < 2 ^ (ilog2 n + 1)"
proof (induction n rule: ilog2.induct)
  case (1 n)
  show ?case
  proof (cases "n < 2")
    case True
    then show ?thesis using 1 by (simp add: ilog2.simps [of n])
  next
    case False
    then have "2 ^ ilog2 (n div 2) \<le> n div 2 \<and> n div 2 < 2 ^ (ilog2 (n div 2) + 1)"
      using 1 by simp
    then show ?thesis using False by (subst (1 2) ilog2.simps) auto
  qed
qed

lemma log2_floor_bounds:
  assumes "0 < x"
  shows "pow2 (log2_floor x) \<le> x" and "x < pow2 (log2_floor x + 1)"
proof -
  obtain p q where pq: "quotient_of x = (p, q)" by (metis surj_pair)
  have q: "0 < q" using quotient_of_denom_pos [OF pq] .
  have x: "x = of_int p / of_int q" using quotient_of_div [OF pq] .
  have p: "0 < p" using assms q by (simp add: x zero_less_divide_iff)
  define i j where "i = ilog2 (nat p)" and "j = ilog2 (nat q)"
  have nats: "rat_of_int p = of_nat (nat p)" "rat_of_int q = of_nat (nat q)" using p q by simp_all
  have "(2::nat) ^ i \<le> nat p" "nat p < 2 ^ (i + 1)" "(2::nat) ^ j \<le> nat q" "nat q < 2 ^ (j + 1)"
    unfolding i_def j_def using ilog2_bounds [of "nat p"] ilog2_bounds [of "nat q"] p q
    by (simp_all only: zero_less_nat_eq simp_thms)
  then have "rat_of_nat (2 ^ i) \<le> of_nat (nat p)" "rat_of_nat (nat p) < of_nat (2 ^ (i + 1))"
    "rat_of_nat (2 ^ j) \<le> of_nat (nat q)" "rat_of_nat (nat q) < of_nat (2 ^ (j + 1))"
    unfolding of_nat_le_iff of_nat_less_iff by simp_all
  then have b: "2 ^ i \<le> rat_of_int p" "rat_of_int p < 2 ^ (i + 1)" "2 ^ j \<le> rat_of_int q" "rat_of_int q < 2 ^ (j + 1)"
    unfolding nats by simp_all
  have two: "pow2 (int n) = 2 ^ n" for n by (simp add: pow2_def)
  have split: "pow2 (int a) = pow2 (int a - int c) * 2 ^ c" for a c
    using pow2_add [of "int a - int c" "int c"] by (simp add: two)
  have qq: "0 < rat_of_int q" using q by simp
  have lo: "pow2 (int i - int (j + 1)) \<le> x"
  proof -
    have "pow2 (int i - int (j + 1)) * of_int q \<le> pow2 (int i - int (j + 1)) * 2 ^ (j + 1)"
      using b(4) by (intro mult_left_mono) simp_all
    also have "\<dots> = 2 ^ i" using split [of i "j + 1"] two [of i] by simp
    also have "\<dots> \<le> of_int p" by (rule b(1))
    finally show ?thesis using qq by (simp add: x pos_le_divide_eq)
  qed
  have hi: "x < pow2 (int (i + 1) - int j)"
  proof -
    have "rat_of_int p < 2 ^ (i + 1)" by (rule b(2))
    also have "\<dots> = pow2 (int (i + 1) - int j) * 2 ^ j" using split [of "i + 1" j] two [of "i + 1"] by simp
    also have "\<dots> \<le> pow2 (int (i + 1) - int j) * of_int q"
      using b(3) by (intro mult_left_mono) (simp_all add: less_imp_le)
    finally show ?thesis using qq by (simp add: x pos_divide_less_eq)
  qed
  have f: "log2_floor x = (if pow2 (int i - int j) \<le> x then int i - int j else int i - int j - 1)"
    by (simp add: log2_floor_def pq i_def j_def Let_def)
  have e: "int i - int (j + 1) = int i - int j - 1" "int (i + 1) - int j = int i - int j + 1" by simp_all
  show "pow2 (log2_floor x) \<le> x" using lo [unfolded e] by (simp add: f)
  show "x < pow2 (log2_floor x + 1)" using hi [unfolded e] by (simp add: f)
qed

lemma pow2_nat: "pow2 (int n) = 2 ^ n"
  by (simp add: pow2_def)

lemma pow2_minus: "pow2 (a - b) = pow2 a / pow2 b"
  by (simp add: pow2_def power_int_diff)

lemma log2_floor_less: "0 < x \<Longrightarrow> x < pow2 e \<Longrightarrow> log2_floor x < e"
  using log2_floor_bounds(1) [of x] pow2_less_imp by fastforce

lemma log2_floor_ge: "pow2 e \<le> x \<Longrightarrow> e \<le> log2_floor x"
  using log2_floor_bounds(2) [of x] pow2_less_imp [of e "log2_floor x + 1"] pow2_pos [of e]
  by fastforce

lemma round_even_error: "\<bar>of_int (round_even y) - y\<bar> \<le> 1 / 2"
proof -
  have "of_int \<lfloor>y\<rfloor> \<le> y" "y < of_int \<lfloor>y\<rfloor> + 1" using floor_correct [of y] by simp_all
  then show ?thesis by (auto simp: round_even_def Let_def abs_le_iff)
qed

lemma round_even_mono_int:
  "y \<le> of_int N \<Longrightarrow> round_even y \<le> N"
  "of_int N \<le> y \<Longrightarrow> N \<le> round_even y"
proof -
  show "N \<le> round_even y" if "of_int N \<le> y"
    using that le_floor_iff [of N y] by (auto simp: round_even_def Let_def)
  show "round_even y \<le> N" if "y \<le> of_int N"
  proof (cases "y = of_int N")
    case True
    then show ?thesis by (simp add: round_even_def)
  next
    case False
    then have "\<lfloor>y\<rfloor> < N" using that by (simp add: floor_less_iff)
    then show ?thesis by (auto simp: round_even_def Let_def)
  qed
qed

text \<open>The relative error of rounding in the normal range is at most half a unit in the last place.\<close>

lemma fl_error:
  assumes "pow2 (- 1022) \<le> x"
  shows "\<bar>fl x - x\<bar> \<le> x * pow2 (- 53)"
proof -
  have x: "0 < x" using assms pow2_pos less_le_trans by blast
  define e where "e = log2_floor x - 52"
  have e: "ulp_exp x = e"
    using log2_floor_ge [OF assms] x by (simp add: ulp_exp_def e_def)
  have "fl x - x = (of_int (round_even (x / pow2 e)) - x / pow2 e) * pow2 e"
    using x by (simp add: fl_def e algebra_simps)
  then have "\<bar>fl x - x\<bar> = \<bar>of_int (round_even (x / pow2 e)) - x / pow2 e\<bar> * pow2 e"
    by (simp add: abs_mult)
  also have "\<dots> \<le> 1 / 2 * pow2 e"
    by (intro mult_right_mono round_even_error) simp
  also have "\<dots> = pow2 (log2_floor x) * pow2 (- 53)"
    unfolding e_def by (simp add: pow2_add [symmetric] pow2_def power_int_diff power_int_add)
  also have "\<dots> \<le> x * pow2 (- 53)"
    using log2_floor_bounds(1) [OF x] by (intro mult_right_mono) simp_all
  finally show ?thesis .
qed

text \<open>Below \<open>2^53\<close> rounding does not cross an integer.\<close>

lemma fl_between_ints:
  assumes "0 < x" and "x < 2 ^ 53"
  shows "x \<le> of_int N \<Longrightarrow> fl x \<le> of_int N"
    and "of_int N \<le> x \<Longrightarrow> of_int N \<le> fl x"
proof -
  have "log2_floor x < 53"
    using log2_floor_less [OF assms(1), of 53] assms(2) by (simp add: pow2_def)
  then have e: "ulp_exp x \<le> 0" by (simp add: ulp_exp_def abs_of_pos [OF assms(1)])
  define s where "s = nat (- ulp_exp x)"
  have p: "pow2 (ulp_exp x) = 1 / 2 ^ s"
  proof -
    have "ulp_exp x = - int s" using e by (simp add: s_def)
    then show ?thesis by (simp add: pow2_def power_int_minus inverse_eq_divide)
  qed
  have f: "fl x = of_int (round_even (x * 2 ^ s)) / 2 ^ s" using assms by (simp add: fl_def p)
  have scaled: "of_int N * 2 ^ s = rat_of_int (N * 2 ^ s)" by simp
  show "fl x \<le> of_int N" if "x \<le> of_int N"
  proof -
    have "x * 2 ^ s \<le> of_int (N * 2 ^ s)" using that by (simp add: mult_right_mono)
    then have "round_even (x * 2 ^ s) \<le> N * 2 ^ s" by (rule round_even_mono_int(1))
    then have "rat_of_int (round_even (x * 2 ^ s)) \<le> of_int (N * 2 ^ s)" by (simp only: of_int_le_iff)
    then show ?thesis by (simp add: f pos_divide_le_eq)
  qed
  show "of_int N \<le> fl x" if "of_int N \<le> x"
  proof -
    have "of_int (N * 2 ^ s) \<le> x * 2 ^ s" using that by (simp add: mult_right_mono)
    then have "N * 2 ^ s \<le> round_even (x * 2 ^ s)" by (rule round_even_mono_int(2))
    then have "of_int (N * 2 ^ s) \<le> rat_of_int (round_even (x * 2 ^ s))" by (simp only: of_int_le_iff)
    then show ?thesis by (simp add: f pos_le_divide_eq)
  qed
qed

lemma fl_int: "0 \<le> k \<Longrightarrow> k < 2 ^ 53 \<Longrightarrow> fl (of_int k) = of_int k"
proof (cases "k = 0")
  case False
  moreover assume "0 \<le> k" "k < 2 ^ 53"
  ultimately have "0 < rat_of_int k" "rat_of_int k < 2 ^ 53"
    by (simp, metis of_int_less_iff of_int_numeral of_int_power)
  from fl_between_ints [OF this, of k] show ?thesis by simp
qed (simp add: fl_def)

lemma fl_overflow_small: "0 \<le> x \<Longrightarrow> x < 2 ^ 53 \<Longrightarrow> \<not> fl_overflow x"
proof (cases "x = 0")
  case False
  moreover assume x: "0 \<le> x" "x < 2 ^ 53"
  ultimately have "0 < x" by simp
  then have "fl x \<le> of_int (2 ^ 53)" "of_int 0 \<le> fl x"
    using fl_between_ints [of x "2 ^ 53"] fl_between_ints [of x 0] x by simp_all
  then have "\<bar>fl x\<bar> \<le> 2 ^ 53" by simp
  also have "(2 :: rat) ^ 53 < 2 ^ 1024" by simp
  finally show ?thesis by (simp add: fl_overflow_def)
qed (simp add: fl_overflow_def fl_def)

text \<open>
  The pattern \<open>ceil(a / b)\<close>: below \<open>2^53\<close> the rounding error of the quotient is smaller than
  its distance to the next integer, so the ceiling is that of the exact quotient.
\<close>

lemma ceil_truediv:
  assumes a: "0 < a" "a < 2 ^ 53" and b: "0 < b" "b < 2 ^ 53"
  shows "rbind (int_truediv a b) py_ceil = Inr ((a + b - 1) div b)"
proof -
  define x where "x = rat_of_int a / of_int b"
  define q where "q = (a + b - 1) div b"
  have bb: "0 < rat_of_int b" and aa: "0 < rat_of_int a" using a b by simp_all
  have x0: "0 < x" using aa bb by (simp add: x_def)
  have af: "rat_of_int a < 2 ^ 53" using a by (metis of_int_less_iff of_int_numeral of_int_power)
  have bf: "rat_of_int b < 2 ^ 53" using b by (metis of_int_less_iff of_int_numeral of_int_power)
  have "x \<le> of_int a" using aa b by (simp add: x_def divide_le_eq)
  then have x53: "x < 2 ^ 53" using af by simp
  have qb: "(q - 1) * b < a" "a \<le> q * b"
    using b a unfolding q_def by (smt (verit) div_mult_mod_eq pos_mod_bound pos_mod_sign left_diff_distrib mult_cancel_right1)+
  have up: "x \<le> of_int q"
  proof -
    have "rat_of_int a \<le> of_int (q * b)" using qb(2) by (simp only: of_int_le_iff)
    then show ?thesis using bb by (simp add: x_def pos_divide_le_eq)
  qed
  have gap: "of_int (q - 1) + 1 / of_int b \<le> x"
  proof -
    have "(q - 1) * b + 1 \<le> a" using qb(1) by simp
    then have "rat_of_int ((q - 1) * b + 1) \<le> of_int a" by (simp only: of_int_le_iff)
    then have "rat_of_int ((q - 1) * b + 1) / of_int b \<le> x"
      unfolding x_def using bb by (intro divide_right_mono) simp_all
    then show ?thesis using bb by (simp add: add_divide_distrib)
  qed
  have small: "x * pow2 (- 53) < 1 / of_int b"
  proof -
    have p: "pow2 (- 53) = 1 / 2 ^ 53" by (simp add: pow2_def power_int_minus inverse_eq_divide)
    have "of_int a / 2 ^ 53 < (1 :: rat)" using af by simp
    then have "of_int a / 2 ^ 53 / of_int b < 1 / rat_of_int b" using bb by (rule divide_strict_right_mono)
    then show ?thesis unfolding p x_def by (simp add: mult.commute)
  qed
  have "pow2 (- 1022) \<le> pow2 (- 53)" by (rule pow2_mono) simp
  also have "pow2 (- 53) = 1 / 2 ^ 53" by (simp add: pow2_def power_int_minus inverse_eq_divide)
  also have "\<dots> \<le> 1 / of_int b" using bb bf by (simp add: frac_le)
  also have "\<dots> \<le> x" using bb a by (simp add: x_def divide_right_mono)
  finally have err: "\<bar>fl x - x\<bar> \<le> x * pow2 (- 53)" by (rule fl_error)
  have "of_int (q - 1) < fl x" using gap small err by linarith
  moreover have "fl x \<le> of_int q" using fl_between_ints(1) [OF x0 x53 up] .
  ultimately have "\<lceil>fl x\<rceil> = q" by (simp add: ceiling_eq_iff)
  then show ?thesis
    using b fl_overflow_small [of x] x0 x53 by (simp add: int_truediv_def py_ceil_def x_def q_def Let_def)
qed

text \<open>Above it the pattern loses units: the quotient is rounded before the ceiling is taken.\<close>

lemma log2_floor_eq: "pow2 e \<le> x \<Longrightarrow> x < pow2 (e + 1) \<Longrightarrow> log2_floor x = e"
  using log2_floor_ge [of e x] log2_floor_less [of x "e + 1"] pow2_pos [of e] by fastforce

lemma ceil_truediv_loses: "rbind (int_truediv (2 ^ 53 + 1) 1) py_ceil = Inr (2 ^ 53)"
proof -
  have "log2_floor (2 ^ 53 + 1) = 53"
    by (rule log2_floor_eq) (simp_all add: pow2_def power_int_def)
  then have e: "ulp_exp (2 ^ 53 + 1) = 1" by (simp add: ulp_exp_def)
  have "\<lfloor>(9007199254740993 :: rat) / 2\<rfloor> = 4503599627370496" by (simp add: floor_eq_iff)
  then have "round_even (9007199254740993 / 2) = 4503599627370496"
    by (simp add: round_even_def)
  then have "fl (2 ^ 53 + 1) = 2 ^ 53" using e by (simp add: fl_def pow2_def)
  then show ?thesis by (simp add: int_truediv_def py_ceil_def fl_overflow_def)
qed

lemma fl_pos: "pow2 (- 1022) \<le> x \<Longrightarrow> 0 < fl x"
proof -
  assume x: "pow2 (- 1022) \<le> x"
  have "0 < x" using x pow2_pos less_le_trans by blast
  moreover have "pow2 (- 53) \<le> pow2 (- 1)" by (rule pow2_mono) simp
  then have "pow2 (- 53) \<le> 1 / 2" by (simp add: pow2_def power_int_minus inverse_eq_divide)
  then have "x * pow2 (- 53) \<le> x * (1 / 2)" using \<open>0 < x\<close> by (intro mult_left_mono) simp_all
  ultimately show ?thesis using fl_error [OF x] by linarith
qed

text \<open>A positive quotient of integers below \<open>2^53\<close> is a positive float.\<close>

lemma int_truediv_pos:
  assumes "0 < a" "a < 2 ^ 53" "0 < b" "b < 2 ^ 53"
  shows "\<exists>q. int_truediv a b = Inr (Fin q) \<and> 0 < q"
proof -
  define x where "x = rat_of_int a / of_int b"
  have bf: "rat_of_int b < 2 ^ 53" using assms(4) by (metis of_int_less_iff of_int_numeral of_int_power)
  have af: "rat_of_int a < 2 ^ 53" using assms(2) by (metis of_int_less_iff of_int_numeral of_int_power)
  have ab: "1 \<le> rat_of_int a" "1 \<le> rat_of_int b" using assms by simp_all
  have "pow2 (- 1022) \<le> pow2 (- 53)" by (rule pow2_mono) simp
  also have "pow2 (- 53) = 1 / 2 ^ 53" by (simp add: pow2_def power_int_minus inverse_eq_divide)
  also have "\<dots> \<le> x" unfolding x_def using ab bf by (intro frac_le) simp_all
  finally have "0 < fl x" by (rule fl_pos)
  moreover have "x \<le> of_int a" using ab by (simp add: x_def divide_le_eq)
  then have "x < 2 ^ 53" "0 \<le> x" using af ab by (simp_all add: x_def)
  then have "\<not> fl_overflow x" by (intro fl_overflow_small)
  ultimately show ?thesis using assms(3) by (simp add: int_truediv_def x_def Let_def)
qed

lemma float_of_int_small: "0 \<le> k \<Longrightarrow> k < 2 ^ 53 \<Longrightarrow> float_of_int k = Inr (Fin (of_int k))"
proof -
  assume k: "0 \<le> k" "k < 2 ^ 53"
  have "rat_of_int k < 2 ^ 53" using k(2) by (metis of_int_less_iff of_int_numeral of_int_power)
  then show ?thesis
    using k fl_overflow_small [of "of_int k"] fl_int [OF k] by (simp add: float_of_int_def)
qed

lemma to_float_int: "0 \<le> k \<Longrightarrow> k < 2 ^ 53 \<Longrightarrow> to_float (of_int k) = Fin (of_int k)"
proof -
  assume k: "0 \<le> k" "k < 2 ^ 53"
  have "rat_of_int k < 2 ^ 53" using k(2) by (metis of_int_less_iff of_int_numeral of_int_power)
  then show ?thesis
    using k fl_overflow_small [of "of_int k"] fl_int [OF k] by (simp add: to_float_def)
qed

lemma fl_numeral: "fl (numeral n) = numeral n" if "(numeral n :: int) < 2 ^ 53"
  using fl_int [of "numeral n"] that by simp

text \<open>The ordering is transitive, so a running minimum is a minimum.\<close>

lemma float_lt_trans: "float_lt x y \<Longrightarrow> float_lt y z \<Longrightarrow> float_lt x z"
  by (auto simp: float_lt_def float_le_def split: pyfloat.splits)

lemma float_lt_irrefl [simp]: "\<not> float_lt x x"
  by (cases x) (auto simp: float_lt_def float_le_def)

lemma float_le_Fin [simp]: "float_le (Fin a) (Fin b) = (a \<le> b)" "float_lt (Fin a) (Fin b) = (a < b)"
  by (auto simp: float_lt_def float_le_def)

section \<open>Evaluation\<close>

text \<open>Code equations: integers below \<open>2^53\<close> are their own rounding, and logarithms recurse on \<open>int\<close>.\<close>

function ilog2_int :: "int \<Rightarrow> int" where
  "ilog2_int n = (if n < 2 then 0 else 1 + ilog2_int (n div 2))"
  by auto
termination by (relation "measure nat") auto

declare ilog2_int.simps [simp del]

lemma ilog2_int: "int (ilog2 (nat n)) = ilog2_int n"
proof (induction n rule: ilog2_int.induct)
  case (1 n)
  then show ?case
    by (subst ilog2.simps, subst ilog2_int.simps) (auto simp: nat_div_distrib)
qed

lemma log2_floor_code [code]:
  "log2_floor x =
     (let (p, q) = quotient_of x; e = ilog2_int p - ilog2_int q in if pow2 e \<le> x then e else e - 1)"
  by (simp add: log2_floor_def ilog2_int)

lemma fl_code [code]:
  "fl x =
     (case quotient_of x of (p, q) \<Rightarrow>
        if q = 1 \<and> 0 \<le> p \<and> p < 9007199254740992 then x
        else of_int (round_even (x / pow2 (ulp_exp x))) * pow2 (ulp_exp x))"
proof -
  obtain p q where pq: "quotient_of x = (p, q)" by (cases "quotient_of x")
  show ?thesis
  proof (cases "q = 1 \<and> 0 \<le> p \<and> p < 9007199254740992")
    case True
    then have "x = of_int p" using quotient_of_div [OF pq] by simp
    then show ?thesis using True pq fl_int [of p] by simp
  next
    case False
    have "quotient_of 0 = (0, 1)" by (simp add: rat_zero_code)
    then have "x \<noteq> 0" using False pq by auto
    then show ?thesis using False pq by (auto simp: fl_def)
  qed
qed

lemma fl_overflow_code [code]:
  "fl_overflow x = (if 0 \<le> x \<and> x < 9007199254740992 then False else 2 ^ 1024 \<le> \<bar>fl x\<bar>)"
  using fl_overflow_small [of x] by (simp add: fl_overflow_def)

section \<open>Running extremes\<close>

text \<open>A running extreme of a transitive comparison, on which incomparable values (NaN) have no effect.\<close>

definition running :: "('b \<Rightarrow> 'b \<Rightarrow> bool) \<Rightarrow> 'b \<Rightarrow> 'b list \<Rightarrow> 'b" where
  "running lt x xs = foldl (\<lambda>m y. if lt m y then y else m) x xs"

lemma running_simps [simp]:
  "running lt x [] = x" "running lt x (y # ys) = running lt (if lt x y then y else x) ys"
  by (simp_all add: running_def)

lemma running_from:
  assumes "\<And>x y z. lt x y \<Longrightarrow> lt y z \<Longrightarrow> lt x z"
  shows "running lt x xs = x \<or> lt x (running lt x xs)"
proof (induction xs arbitrary: x)
  case (Cons y ys)
  show ?case using Cons.IH [of y] Cons.IH [of x] assms by auto
qed simp

lemma running_extreme:
  assumes trans: "\<And>x y z. lt x y \<Longrightarrow> lt y z \<Longrightarrow> lt x z" and irrefl: "\<And>x. \<not> lt x x"
  shows "y \<in> set (x # xs) \<Longrightarrow> \<not> lt (running lt x xs) y"
proof (induction xs arbitrary: x)
  case (Cons u us)
  have ext: "running lt v us = v \<or> lt v (running lt v us)" for v by (rule running_from [OF trans])
  show ?case
  proof (cases "lt x u")
    case True
    then have "\<not> lt (running lt u us) x" using ext [of u] trans irrefl by metis
    then show ?thesis using Cons.IH [of u] Cons.prems True by auto
  next
    case False
    then have "\<not> lt (running lt x us) u" using ext [of x] trans by metis
    then show ?thesis using Cons.IH [of x] Cons.prems False by auto
  qed
qed (simp add: irrefl)

lemma running_in: "running lt x xs \<in> set (x # xs)"
proof (induction xs arbitrary: x)
  case (Cons y ys)
  show ?case using Cons.IH [of x] Cons.IH [of y] by auto
qed simp

end
