(* ===== verification/Npu_Scale.thy ===== *)
theory Npu_Scale
  imports Py_Float
begin

text \<open>
  The NPU architecture scale model (\<open>compiler/runtime/e1_npu_scale_model.py\<close>) and the
  deterministic run over it (\<open>benchmarks/sim/run_npu_scale_sim.py\<close>): cycle estimates of
  three kernels, the derived metrics of one configuration, and the process corners. The
  hashes of the two artifact files are an argument of the report.
\<close>

section \<open>Configurations and estimates\<close>

datatype scale_error = ScaleValueError string | ScaleNum num_error

definition num :: "num_error + 'a \<Rightarrow> scale_error + 'a" where
  "num m = (case m of Inl e \<Rightarrow> Inl (ScaleNum e) | Inr x \<Rightarrow> Inr x)"

lemma num_simps [simp]: "num (Inr x) = Inr x" "num (Inl e) = Inl (ScaleNum e)"
  by (simp_all add: num_def)

definition INT8_BYTES :: int where "INT8_BYTES = 1"
definition INT4_VALUES_PER_BYTE :: int where "INT4_VALUES_PER_BYTE = 2"
definition ACCUM_BYTES :: int where "ACCUM_BYTES = 4"

lemmas byte_sizes = INT8_BYTES_def INT4_VALUES_PER_BYTE_def ACCUM_BYTES_def

record npu_scale_config =
  sc_name :: string
  sc_tiles :: int
  sc_int8_macs_per_tile_per_cycle :: int
  sc_clock_hz :: int
  sc_scratchpad_kib :: int
  sc_dma_queue_depth :: int
  sc_dma_bytes_per_cycle :: int
  sc_supports_int4 :: bool
  sc_supports_bf16 :: bool
  sc_supports_fp16 :: bool
  sc_supports_fp8 :: bool
  sc_structured_sparsity_factor :: int

definition int8_macs_per_cycle :: "npu_scale_config \<Rightarrow> int" where
  "int8_macs_per_cycle c = sc_tiles c * sc_int8_macs_per_tile_per_cycle c"

text \<open>\<open>n / 1e12\<close> on an integer.\<close>

definition per_tera :: "int \<Rightarrow> num_error + pyfloat" where
  "per_tera n = rbind (float_of_int n) (\<lambda>x. float_div x (float_lit (10 ^ 12)))"

definition dense_int8_peak_tops :: "npu_scale_config \<Rightarrow> scale_error + pyfloat" where
  "dense_int8_peak_tops c = num (per_tera (int8_macs_per_cycle c * 2 * sc_clock_hz c))"

definition sparse_int4_peak_tops :: "npu_scale_config \<Rightarrow> scale_error + pyfloat" where
  "sparse_int4_peak_tops c =
     (if \<not> sc_supports_int4 c then Inr (Fin 0)
      else rbind (dense_int8_peak_tops c) (\<lambda>d.
           rbind (num (float_of_int INT4_VALUES_PER_BYTE)) (\<lambda>p.
           rbind (num (float_of_int (sc_structured_sparsity_factor c))) (\<lambda>s.
           Inr (float_mul (float_mul d p) s)))))"

definition scale_precision_row :: "string \<Rightarrow> string \<Rightarrow> string \<Rightarrow> (string \<times> string) list" where
  "scale_precision_row p s c = [(''precision'', p), (''state'', s), (''claim'', c)]"

definition projected :: "bool \<Rightarrow> string" where
  "projected b = (if b then ''projected'' else ''blocked'')"

definition scale_precision_matrix :: "npu_scale_config \<Rightarrow> (string \<times> string) list list" where
  "scale_precision_matrix c =
     [scale_precision_row ''INT8'' ''modeled'' ''dense throughput model only'',
      scale_precision_row ''INT4'' (projected (sc_supports_int4 c))
        ''sparse/packed projection only; requires measured RTL/compiler evidence'',
      scale_precision_row ''FP16'' (projected (sc_supports_fp16 c))
        ''support flag only; no measured runtime path in this repository'',
      scale_precision_row ''BF16'' (projected (sc_supports_bf16 c))
        ''support flag only; no measured runtime path in this repository'',
      scale_precision_row ''FP8'' (projected (sc_supports_fp8 c))
        ''blocked until opcode/datapath/compiler and benchmark evidence exist'']"

record kernel_estimate =
  ke_kernel :: string
  ke_macs :: int
  ke_bytes_read :: int
  ke_bytes_written :: int
  ke_compute_cycles :: int
  ke_memory_cycles :: int

definition ke_cycles :: "kernel_estimate \<Rightarrow> int" where
  "ke_cycles e = max (ke_compute_cycles e) (ke_memory_cycles e)"

text \<open>\<open>macs * 2 / (cycles / clock_hz) / 1e12\<close>.\<close>

definition tops_of :: "int \<Rightarrow> int \<Rightarrow> int \<Rightarrow> num_error + pyfloat" where
  "tops_of macs cycles clock_hz =
     rbind (int_truediv cycles clock_hz) (\<lambda>elapsed.
     rbind (float_of_int (macs * 2)) (\<lambda>ops.
     rbind (float_div ops elapsed) (\<lambda>rate. float_div rate (float_lit (10 ^ 12)))))"

definition observed_tops :: "kernel_estimate \<Rightarrow> int \<Rightarrow> scale_error + pyfloat" where
  "observed_tops e clock_hz = num (tops_of (ke_macs e) (ke_cycles e) clock_hz)"

definition MIN_REAL_V1 :: npu_scale_config where
  "MIN_REAL_V1 = \<lparr>sc_name = ''min_real_v1_16mac_128kib'', sc_tiles = 1,
     sc_int8_macs_per_tile_per_cycle = 16, sc_clock_hz = 500000000, sc_scratchpad_kib = 128,
     sc_dma_queue_depth = 8, sc_dma_bytes_per_cycle = 16, sc_supports_int4 = True,
     sc_supports_bf16 = False, sc_supports_fp16 = False, sc_supports_fp8 = False,
     sc_structured_sparsity_factor = 1\<rparr>"

definition OPEN_2028_FIRST :: npu_scale_config where
  "OPEN_2028_FIRST = \<lparr>sc_name = ''open_2028_first_50tops'', sc_tiles = 16,
     sc_int8_macs_per_tile_per_cycle = 1024, sc_clock_hz = 1500000000, sc_scratchpad_kib = 256 * 16,
     sc_dma_queue_depth = 1024, sc_dma_bytes_per_cycle = 512, sc_supports_int4 = True,
     sc_supports_bf16 = True, sc_supports_fp16 = True, sc_supports_fp8 = False,
     sc_structured_sparsity_factor = 1\<rparr>"

definition OPEN_2028_STRETCH :: npu_scale_config where
  "OPEN_2028_STRETCH = \<lparr>sc_name = ''open_2028_stretch_100tops'', sc_tiles = 16,
     sc_int8_macs_per_tile_per_cycle = 2048, sc_clock_hz = 1500000000, sc_scratchpad_kib = 512 * 16,
     sc_dma_queue_depth = 2048, sc_dma_bytes_per_cycle = 1024, sc_supports_int4 = True,
     sc_supports_bf16 = True, sc_supports_fp16 = True, sc_supports_fp8 = False,
     sc_structured_sparsity_factor = 2\<rparr>"

fun require_positive :: "(string \<times> int) list \<Rightarrow> scale_error + unit" where
  "require_positive [] = Inr ()"
| "require_positive ((name, v) # rest) =
     (if v \<le> 0 then Inl (ScaleValueError (name @ '' must be positive'')) else require_positive rest)"

definition memory_cycles :: "int \<Rightarrow> int \<Rightarrow> scale_error + int" where
  "memory_cycles total_bytes bytes_per_cycle = num (rbind (int_truediv total_bytes bytes_per_cycle) py_ceil)"

definition compute_cycles :: "npu_scale_config \<Rightarrow> int \<Rightarrow> scale_error + int" where
  "compute_cycles c macs = num (rbind (int_truediv macs (int8_macs_per_cycle c)) py_ceil)"

definition estimate_gemm_s8 :: "npu_scale_config \<Rightarrow> int \<Rightarrow> int \<Rightarrow> int \<Rightarrow> scale_error + kernel_estimate" where
  "estimate_gemm_s8 c m n k =
     rbind (require_positive [(''m'', m), (''n'', n), (''k'', k)]) (\<lambda>_.
     let macs = m * n * k;
         bytes_read = (m * k + k * n) * INT8_BYTES;
         bytes_written = m * n * ACCUM_BYTES
     in rbind (compute_cycles c macs) (\<lambda>cc.
        rbind (memory_cycles (bytes_read + bytes_written) (sc_dma_bytes_per_cycle c)) (\<lambda>mc.
        Inr \<lparr>ke_kernel = ''gemm_s8'', ke_macs = macs, ke_bytes_read = bytes_read,
             ke_bytes_written = bytes_written, ke_compute_cycles = cc, ke_memory_cycles = mc\<rparr>)))"

definition estimate_conv2d_s8 ::
  "npu_scale_config \<Rightarrow> int \<Rightarrow> int \<Rightarrow> int \<Rightarrow> int \<Rightarrow> int \<Rightarrow> int \<Rightarrow> int \<Rightarrow> scale_error + kernel_estimate" where
  "estimate_conv2d_s8 c batch out_h out_w out_channels in_channels kernel_h kernel_w =
     rbind (require_positive [(''batch'', batch), (''out_h'', out_h), (''out_w'', out_w),
              (''out_channels'', out_channels), (''in_channels'', in_channels),
              (''kernel_h'', kernel_h), (''kernel_w'', kernel_w)]) (\<lambda>_.
     let positions = batch * out_h * out_w;
         reduction = in_channels * kernel_h * kernel_w;
         macs = positions * out_channels * reduction;
         input_bytes = positions * reduction * INT8_BYTES;
         weight_bytes = out_channels * reduction * INT8_BYTES;
         output_bytes = positions * out_channels * ACCUM_BYTES
     in rbind (compute_cycles c macs) (\<lambda>cc.
        rbind (memory_cycles (input_bytes + weight_bytes + output_bytes) (sc_dma_bytes_per_cycle c)) (\<lambda>mc.
        Inr \<lparr>ke_kernel = ''conv2d_s8'', ke_macs = macs, ke_bytes_read = input_bytes + weight_bytes,
             ke_bytes_written = output_bytes, ke_compute_cycles = cc, ke_memory_cycles = mc\<rparr>)))"

definition estimate_attention_qk_s8 ::
  "npu_scale_config \<Rightarrow> int \<Rightarrow> int \<Rightarrow> int \<Rightarrow> int \<Rightarrow> int \<Rightarrow> scale_error + kernel_estimate" where
  "estimate_attention_qk_s8 c batch heads query_tokens key_tokens head_dim =
     rbind (require_positive [(''batch'', batch), (''heads'', heads), (''query_tokens'', query_tokens),
              (''key_tokens'', key_tokens), (''head_dim'', head_dim)]) (\<lambda>_.
     let macs = batch * heads * query_tokens * key_tokens * head_dim;
         q_bytes = batch * heads * query_tokens * head_dim * INT8_BYTES;
         k_bytes = batch * heads * key_tokens * head_dim * INT8_BYTES;
         score_bytes = batch * heads * query_tokens * key_tokens * ACCUM_BYTES
     in rbind (compute_cycles c macs) (\<lambda>cc.
        rbind (memory_cycles (q_bytes + k_bytes + score_bytes) (sc_dma_bytes_per_cycle c)) (\<lambda>mc.
        Inr \<lparr>ke_kernel = ''attention_qk_s8'', ke_macs = macs, ke_bytes_read = q_bytes + k_bytes,
             ke_bytes_written = score_bytes, ke_compute_cycles = cc, ke_memory_cycles = mc\<rparr>)))"

section \<open>The run over a configuration\<close>

record process_corner =
  pc_name :: string
  pc_voltage_v :: pyfloat
  pc_temperature_c :: int
  pc_frequency_derate :: pyfloat
  pc_interconnect_rc_derate :: pyfloat
  pc_dynamic_power_scale :: pyfloat
  pc_leakage_power_scale :: pyfloat
  pc_thermal_margin_derate :: pyfloat
  pc_claim_boundary :: string

text \<open>A literal with two decimals.\<close>

definition cents :: "int \<Rightarrow> pyfloat" where
  "cents n = float_lit (of_int n / 100)"

definition PROCESS_CORNERS :: "process_corner list" where
  "PROCESS_CORNERS =
     [\<lparr>pc_name = ''14a_tt_0p70v_25c_frontside_pdn'', pc_voltage_v = cents 70, pc_temperature_c = 25,
       pc_frequency_derate = cents 100, pc_interconnect_rc_derate = cents 100,
       pc_dynamic_power_scale = cents 100, pc_leakage_power_scale = cents 100,
       pc_thermal_margin_derate = cents 100,
       pc_claim_boundary = ''planning_corner_not_pdk_signoff''\<rparr>,
      \<lparr>pc_name = ''14a_ss_0p63v_105c_frontside_pdn'', pc_voltage_v = cents 63, pc_temperature_c = 105,
       pc_frequency_derate = cents 72, pc_interconnect_rc_derate = cents 130,
       pc_dynamic_power_scale = cents 81, pc_leakage_power_scale = cents 185,
       pc_thermal_margin_derate = cents 70,
       pc_claim_boundary = ''pessimistic_mobile_hot_corner_not_pdk_signoff''\<rparr>,
      \<lparr>pc_name = ''14a_ff_0p77v_0c_frontside_pdn'', pc_voltage_v = cents 77, pc_temperature_c = 0,
       pc_frequency_derate = cents 114, pc_interconnect_rc_derate = cents 88,
       pc_dynamic_power_scale = cents 121, pc_leakage_power_scale = cents 62,
       pc_thermal_margin_derate = cents 108,
       pc_claim_boundary = ''fast_cold_corner_not_pdk_signoff''\<rparr>,
      \<lparr>pc_name = ''14a_bspdn_follow_on_hot_ir_em_stress'', pc_voltage_v = cents 68, pc_temperature_c = 115,
       pc_frequency_derate = cents 82, pc_interconnect_rc_derate = cents 112,
       pc_dynamic_power_scale = cents 94, pc_leakage_power_scale = cents 225,
       pc_thermal_margin_derate = cents 62,
       pc_claim_boundary = ''backside_pdn_follow_on_variant_not_selected_not_pdk_signoff''\<rparr>]"

definition build_workload :: "npu_scale_config \<Rightarrow> scale_error + kernel_estimate list" where
  "build_workload c =
     rbind (estimate_gemm_s8 c 4096 4096 4096) (\<lambda>e1.
     rbind (estimate_gemm_s8 c 1024 1024 4096) (\<lambda>e2.
     rbind (estimate_conv2d_s8 c 1 56 56 256 256 3 3) (\<lambda>e3.
     rbind (estimate_attention_qk_s8 c 1 16 2048 2048 128) (\<lambda>e4.
     Inr [e1, e2, e3, e4]))))"

record metric_row =
  mr_kernel :: string
  mr_target_cycles :: int
  mr_npu_cycles :: int
  mr_macs :: int
  mr_bytes_read :: int
  mr_bytes_written :: int
  mr_compute_cycles :: int
  mr_memory_cycles :: int
  mr_memory_wait_cycles :: int
  mr_stall_cycles :: int
  mr_utilization_percent :: pyfloat
  mr_modeled_frequency_hz :: int
  mr_throughput_ops_s :: pyfloat
  mr_observed_tops :: pyfloat

text \<open>\<open>100.0 * part / whole\<close>.\<close>

definition percent_of :: "int \<Rightarrow> int \<Rightarrow> num_error + pyfloat" where
  "percent_of part whole =
     rbind (float_of_int part) (\<lambda>p. rbind (float_of_int whole) (\<lambda>w.
     float_div (float_mul (float_lit 100) p) w))"

definition metric_entry :: "npu_scale_config \<Rightarrow> kernel_estimate \<Rightarrow> scale_error + metric_row" where
  "metric_entry c e =
     (let memory_wait_cycles = max 0 (ke_memory_cycles e - ke_compute_cycles e);
          stall_cycles = max 0 (ke_cycles e - ke_compute_cycles e)
      in rbind (num (percent_of (ke_compute_cycles e) (ke_cycles e))) (\<lambda>utilization.
         rbind (num (int_truediv (ke_cycles e) (sc_clock_hz c))) (\<lambda>elapsed_s.
         rbind (num (rbind (float_of_int (ke_macs e * 2)) (\<lambda>ops. float_div ops elapsed_s))) (\<lambda>throughput.
         rbind (observed_tops e (sc_clock_hz c)) (\<lambda>tops.
         Inr \<lparr>mr_kernel = ke_kernel e, mr_target_cycles = ke_cycles e, mr_npu_cycles = ke_cycles e,
              mr_macs = ke_macs e, mr_bytes_read = ke_bytes_read e,
              mr_bytes_written = ke_bytes_written e, mr_compute_cycles = ke_compute_cycles e,
              mr_memory_cycles = ke_memory_cycles e, mr_memory_wait_cycles = memory_wait_cycles,
              mr_stall_cycles = stall_cycles, mr_utilization_percent = utilization,
              mr_modeled_frequency_hz = sc_clock_hz c, mr_throughput_ops_s = throughput,
              mr_observed_tops = tops\<rparr>)))))"

record corner_kernel =
  ck_kernel :: string
  ck_npu_cycles :: int
  ck_compute_cycles :: int
  ck_memory_cycles :: int
  ck_memory_wait_cycles :: int
  ck_modeled_frequency_hz :: int
  ck_observed_tops :: pyfloat
  ck_utilization_percent :: pyfloat

record corner_row =
  cr_corner :: process_corner
  cr_effective_clock_hz :: int
  cr_effective_dma_bytes_per_cycle :: int
  cr_dense_int8_peak_tops :: pyfloat
  cr_min_observed_tops :: pyfloat
  cr_max_observed_tops :: pyfloat
  cr_min_utilization_percent :: pyfloat
  cr_kernels :: "corner_kernel list"
  cr_release_use :: string

text \<open>\<open>min(..., key=...)\<close> and \<open>max\<close> keep the first of equals; an empty argument raises \<open>ValueError\<close>.\<close>

fun py_min :: "('a \<Rightarrow> pyfloat) \<Rightarrow> 'a list \<Rightarrow> scale_error + 'a" where
  "py_min key [] = Inl (ScaleValueError ''min() arg is an empty sequence'')"
| "py_min key (x # xs) = Inr (foldl (\<lambda>m y. if float_lt (key y) (key m) then y else m) x xs)"

fun py_max :: "('a \<Rightarrow> pyfloat) \<Rightarrow> 'a list \<Rightarrow> scale_error + 'a" where
  "py_max key [] = Inl (ScaleValueError ''max() arg is an empty sequence'')"
| "py_max key (x # xs) = Inr (foldl (\<lambda>m y. if float_lt (key m) (key y) then y else m) x xs)"

definition corner_kernel_entry :: "int \<Rightarrow> int \<Rightarrow> kernel_estimate \<Rightarrow> scale_error + corner_kernel" where
  "corner_kernel_entry clock dma e =
     (let cc = ke_compute_cycles e;
          mc = (ke_bytes_read e + ke_bytes_written e + dma - 1) div dma;
          cycles = max cc mc
      in rbind (num (tops_of (ke_macs e) cycles clock)) (\<lambda>tops.
         rbind (num (percent_of cc cycles)) (\<lambda>utilization.
         Inr \<lparr>ck_kernel = ke_kernel e, ck_npu_cycles = cycles, ck_compute_cycles = cc,
              ck_memory_cycles = mc, ck_memory_wait_cycles = max 0 (mc - cc),
              ck_modeled_frequency_hz = clock, ck_observed_tops = tops,
              ck_utilization_percent = utilization\<rparr>)))"

definition process_corner_entry ::
  "npu_scale_config \<Rightarrow> process_corner \<Rightarrow> kernel_estimate list \<Rightarrow> scale_error + corner_row" where
  "process_corner_entry c corner estimates =
     rbind (num (rbind (float_of_int (sc_clock_hz c)) (\<lambda>f.
              py_trunc (float_mul f (pc_frequency_derate corner))))) (\<lambda>clock.
     rbind (num (rbind (float_of_int (sc_dma_bytes_per_cycle c)) (\<lambda>f.
              rbind (float_div f (pc_interconnect_rc_derate corner)) py_trunc))) (\<lambda>dma0.
     let dma = max 1 dma0 in
     rbind (mapR (corner_kernel_entry clock dma) estimates) (\<lambda>kernels.
     rbind (py_min ck_observed_tops kernels) (\<lambda>min_tops.
     rbind (num (per_tera (int8_macs_per_cycle c * 2 * clock))) (\<lambda>peak.
     rbind (py_max ck_observed_tops kernels) (\<lambda>max_tops.
     rbind (py_min ck_utilization_percent kernels) (\<lambda>min_util.
     Inr \<lparr>cr_corner = corner, cr_effective_clock_hz = clock, cr_effective_dma_bytes_per_cycle = dma,
          cr_dense_int8_peak_tops = peak, cr_min_observed_tops = ck_observed_tops min_tops,
          cr_max_observed_tops = ck_observed_tops max_tops,
          cr_min_utilization_percent = ck_utilization_percent min_util, cr_kernels = kernels,
          cr_release_use = ''prohibited_until_pdk_extracted_timing_power_thermal_signoff''\<rparr>)))))))"

record scale_summary =
  ss_kernel_count :: nat
  ss_process_corner_count :: nat
  ss_total_macs :: int
  ss_total_bytes_read :: int
  ss_total_bytes_written :: int
  ss_min_observed_tops :: pyfloat
  ss_max_observed_tops :: pyfloat
  ss_min_utilization_percent :: pyfloat
  ss_worst_process_corner :: string
  ss_worst_process_corner_min_observed_tops :: pyfloat

record 'f scale_report =
  sr_config :: npu_scale_config
  sr_dense_int8_peak_tops :: pyfloat
  sr_sparse_int4_peak_tops :: pyfloat
  sr_precision_matrix :: "(string \<times> string) list list"
  sr_artifacts :: "'f \<times> 'f"
  sr_kernels :: "metric_row list"
  sr_process_corners :: "corner_row list"
  sr_summary :: scale_summary

text \<open>The report of \<open>main\<close>; the two file hashes come from the outside.\<close>

definition scale_report :: "'f \<times> 'f \<Rightarrow> npu_scale_config \<Rightarrow> scale_error + 'f scale_report" where
  "scale_report hashes c =
     rbind (build_workload c) (\<lambda>estimates.
     rbind (mapR (metric_entry c) estimates) (\<lambda>kernels.
     rbind (mapR (\<lambda>corner. process_corner_entry c corner estimates) PROCESS_CORNERS) (\<lambda>corners.
     rbind (py_min cr_min_observed_tops corners) (\<lambda>worst.
     rbind (dense_int8_peak_tops c) (\<lambda>dense.
     rbind (sparse_int4_peak_tops c) (\<lambda>sparse.
     rbind (py_min mr_observed_tops kernels) (\<lambda>min_tops.
     rbind (py_max mr_observed_tops kernels) (\<lambda>max_tops.
     rbind (py_min mr_utilization_percent kernels) (\<lambda>min_util.
     Inr \<lparr>sr_config = c, sr_dense_int8_peak_tops = dense, sr_sparse_int4_peak_tops = sparse,
          sr_precision_matrix = scale_precision_matrix c, sr_artifacts = hashes,
          sr_kernels = kernels, sr_process_corners = corners,
          sr_summary = \<lparr>ss_kernel_count = length kernels,
            ss_process_corner_count = length corners,
            ss_total_macs = sum_list (map mr_macs kernels),
            ss_total_bytes_read = sum_list (map mr_bytes_read kernels),
            ss_total_bytes_written = sum_list (map mr_bytes_written kernels),
            ss_min_observed_tops = mr_observed_tops min_tops,
            ss_max_observed_tops = mr_observed_tops max_tops,
            ss_min_utilization_percent = mr_utilization_percent min_util,
            ss_worst_process_corner = pc_name (cr_corner worst),
            ss_worst_process_corner_min_observed_tops = cr_min_observed_tops worst\<rparr>\<rparr>)))))))))"

section \<open>Estimates\<close>

lemma require_positive_iff: "require_positive kvs = Inr () \<longleftrightarrow> list_all (\<lambda>(_, v). 0 < v) kvs"
  by (induction kvs rule: require_positive.induct) auto

definition config_ok :: "npu_scale_config \<Rightarrow> bool" where
  "config_ok c \<longleftrightarrow> 0 < int8_macs_per_cycle c \<and> int8_macs_per_cycle c < 2 ^ 53
     \<and> 0 < sc_dma_bytes_per_cycle c \<and> sc_dma_bytes_per_cycle c < 2 ^ 53"

definition ceil_div :: "int \<Rightarrow> int \<Rightarrow> int" where
  "ceil_div a b = (a + b - 1) div b"

lemma ceil_div_bounds: "0 < b \<Longrightarrow> a \<le> ceil_div a b * b \<and> ceil_div a b * b < a + b"
  unfolding ceil_div_def
  by (smt (verit) div_mult_mod_eq pos_mod_bound pos_mod_sign)

text \<open>The roofline specification: exact ceilings of the two resource bounds.\<close>

definition roofline :: "string \<Rightarrow> npu_scale_config \<Rightarrow> int \<Rightarrow> int \<Rightarrow> int \<Rightarrow> kernel_estimate" where
  "roofline kern c macs bytes_read bytes_written =
     \<lparr>ke_kernel = kern, ke_macs = macs, ke_bytes_read = bytes_read, ke_bytes_written = bytes_written,
      ke_compute_cycles = ceil_div macs (int8_macs_per_cycle c),
      ke_memory_cycles = ceil_div (bytes_read + bytes_written) (sc_dma_bytes_per_cycle c)\<rparr>"

lemma cycles_exact:
  assumes "config_ok c" and "0 < x" and "x < 2 ^ 53"
  shows "compute_cycles c x = Inr (ceil_div x (int8_macs_per_cycle c))"
    and "memory_cycles x (sc_dma_bytes_per_cycle c) = Inr (ceil_div x (sc_dma_bytes_per_cycle c))"
  using assms ceil_truediv [of x "int8_macs_per_cycle c"] ceil_truediv [of x "sc_dma_bytes_per_cycle c"]
  by (auto simp: compute_cycles_def memory_cycles_def config_ok_def ceil_div_def simp del: rbind_Inr_iff)

text \<open>C11: For every configuration and matrix-product shape whose work fits in 53 bits, the
floating-point estimate returns and is exactly the integer roofline: the compute cycles are
the least number covering all multiply-accumulates at the configured rate, the memory cycles
the least number covering all bytes, and the estimated cycles cover both.\<close>
theorem estimate_gemm_roofline:
  assumes "config_ok c" and "0 < m" "0 < n" "0 < k"
    and "m * n * k < 2 ^ 53" and "m * k + k * n + m * n * 4 < 2 ^ 53"
  shows "\<exists>e. estimate_gemm_s8 c m n k = Inr e
     \<and> e = roofline ''gemm_s8'' c (m * n * k) (m * k + k * n) (m * n * 4)
     \<and> m * n * k \<le> ke_cycles e * int8_macs_per_cycle c
     \<and> ke_compute_cycles e * int8_macs_per_cycle c < m * n * k + int8_macs_per_cycle c
     \<and> m * k + k * n + m * n * 4 \<le> ke_cycles e * sc_dma_bytes_per_cycle c"
proof -
  have pos: "0 < m * n * k" "0 < m * k + k * n + m * n * 4"
    using assms(2-4) by (simp_all add: add_pos_pos)
  define e where "e = roofline ''gemm_s8'' c (m * n * k) (m * k + k * n) (m * n * 4)"
  have rates: "0 < int8_macs_per_cycle c" "0 < sc_dma_bytes_per_cycle c"
    using assms(1) by (simp_all add: config_ok_def)
  have "estimate_gemm_s8 c m n k = Inr e"
    using assms(2-4) cycles_exact(1) [OF assms(1) pos(1) assms(5)]
      cycles_exact(2) [OF assms(1) pos(2) assms(6)]
    by (simp add: estimate_gemm_s8_def e_def roofline_def Let_def byte_sizes)
  moreover have up: "ke_compute_cycles e * int8_macs_per_cycle c \<le> ke_cycles e * int8_macs_per_cycle c"
    "ke_memory_cycles e * sc_dma_bytes_per_cycle c \<le> ke_cycles e * sc_dma_bytes_per_cycle c"
    using rates by (auto intro!: mult_right_mono simp: ke_cycles_def)
  have f: "ke_compute_cycles e = ceil_div (m * n * k) (int8_macs_per_cycle c)"
    "ke_memory_cycles e = ceil_div (m * k + k * n + m * n * 4) (sc_dma_bytes_per_cycle c)"
    by (simp_all add: e_def roofline_def)
  have lo: "m * n * k \<le> ke_compute_cycles e * int8_macs_per_cycle c"
    "ke_compute_cycles e * int8_macs_per_cycle c < m * n * k + int8_macs_per_cycle c"
    "m * k + k * n + m * n * 4 \<le> ke_memory_cycles e * sc_dma_bytes_per_cycle c"
    unfolding f using ceil_div_bounds rates by blast+
  ultimately show ?thesis
    unfolding e_def [symmetric] using order_trans [OF lo(1) up(1)] order_trans [OF lo(3) up(2)] lo(2) by blast
qed

lemma estimate_gemm_roofline_witness:
  "\<exists>e. estimate_gemm_s8 MIN_REAL_V1 3 5 7 = Inr e \<and> 105 \<le> ke_cycles e * 16"
proof -
  have "config_ok MIN_REAL_V1" by (simp add: config_ok_def int8_macs_per_cycle_def MIN_REAL_V1_def)
  from estimate_gemm_roofline [OF this, of 3 5 7] show ?thesis
    by (auto simp: int8_macs_per_cycle_def MIN_REAL_V1_def)
qed

text \<open>Beyond 53 bits the estimate is no longer sound: a product of \<open>2^53 + 1\<close>
multiply-accumulates on a one-MAC-per-cycle configuration is estimated at \<open>2^53\<close> compute
cycles, one less than the work needs.\<close>
theorem estimate_gemm_undercounts:
  assumes "int8_macs_per_cycle c = 1" and "0 < sc_dma_bytes_per_cycle c"
  shows "compute_cycles c (2 ^ 53 + 1) = Inr (2 ^ 53)
     \<and> (\<forall>e. estimate_gemm_s8 c 1 1 (2 ^ 53 + 1) = Inr e \<longrightarrow>
          ke_compute_cycles e * int8_macs_per_cycle c < ke_macs e)"
proof -
  have "compute_cycles c (2 ^ 53 + 1) = Inr (2 ^ 53)"
    using ceil_truediv_loses by (simp only: compute_cycles_def assms(1)) simp
  then show ?thesis using assms(1) by (auto simp: estimate_gemm_s8_def Let_def)
qed

lemma estimate_gemm_undercounts_witness:
  "compute_cycles (MIN_REAL_V1\<lparr>sc_int8_macs_per_tile_per_cycle := 1\<rparr>) (2 ^ 53 + 1) = Inr (2 ^ 53)"
  using estimate_gemm_undercounts [of "MIN_REAL_V1\<lparr>sc_int8_macs_per_tile_per_cycle := 1\<rparr>"]
  by (simp add: int8_macs_per_cycle_def MIN_REAL_V1_def)

text \<open>The convolution estimate is the matrix-product estimate of its im2col form
(positions by output channels over the reduction), and the attention estimate counts the
work and traffic of one matrix product per batch entry and head.\<close>
theorem estimates_reduce_to_gemm:
  assumes "0 < batch" "0 < out_h" "0 < out_w" "0 < oc" "0 < ic" "0 < kh" "0 < kw"
    and "0 < heads" "0 < qt" "0 < kt" "0 < hdim"
  shows "estimate_conv2d_s8 c batch out_h out_w oc ic kh kw
       = rbind (estimate_gemm_s8 c (batch * out_h * out_w) oc (ic * kh * kw))
           (\<lambda>e. Inr (e\<lparr>ke_kernel := ''conv2d_s8''\<rparr>))
     \<and> (\<forall>e g. estimate_attention_qk_s8 c batch heads qt kt hdim = Inr e \<longrightarrow>
          estimate_gemm_s8 c qt kt hdim = Inr g \<longrightarrow>
          ke_macs e = batch * heads * ke_macs g
          \<and> ke_bytes_read e = batch * heads * ke_bytes_read g
          \<and> ke_bytes_written e = batch * heads * ke_bytes_written g)"
proof (rule conjI)
  have "0 < batch * out_h * out_w" "0 < ic * kh * kw" using assms by simp_all
  then have pos: "\<not> batch * out_h * out_w \<le> 0" "\<not> ic * kh * kw \<le> 0" by linarith+
  have b: "(x * z + z * y) * INT8_BYTES = x * z * INT8_BYTES + y * z * INT8_BYTES" for x y z
    by (simp add: algebra_simps)
  show "estimate_conv2d_s8 c batch out_h out_w oc ic kh kw
       = rbind (estimate_gemm_s8 c (batch * out_h * out_w) oc (ic * kh * kw))
           (\<lambda>e. Inr (e\<lparr>ke_kernel := ''conv2d_s8''\<rparr>))"
    using assms(1-7) pos
    by (simp only: estimate_conv2d_s8_def estimate_gemm_s8_def Let_def b)
      (simp add: rbind_def split: sum.splits)
  show "\<forall>e g. estimate_attention_qk_s8 c batch heads qt kt hdim = Inr e \<longrightarrow>
          estimate_gemm_s8 c qt kt hdim = Inr g \<longrightarrow>
          ke_macs e = batch * heads * ke_macs g
          \<and> ke_bytes_read e = batch * heads * ke_bytes_read g
          \<and> ke_bytes_written e = batch * heads * ke_bytes_written g"
    by (auto simp: estimate_attention_qk_s8_def estimate_gemm_s8_def Let_def byte_sizes algebra_simps)
qed

lemma estimates_reduce_to_gemm_witness:
  "estimate_conv2d_s8 MIN_REAL_V1 1 2 2 3 4 3 3
     = rbind (estimate_gemm_s8 MIN_REAL_V1 4 3 36) (\<lambda>e. Inr (e\<lparr>ke_kernel := ''conv2d_s8''\<rparr>))"
  using estimates_reduce_to_gemm [of 1 2 2 3 4 3 3 2 5 5 8 MIN_REAL_V1] by simp

section \<open>Derived metrics\<close>

lemma percent_bounds:
  assumes "0 \<le> p" "p \<le> w" "0 < w" "w < 2 ^ 46"
  shows "\<exists>q. percent_of p w = Inr (Fin q) \<and> 0 \<le> q \<and> q \<le> 100"
proof -
  have b: "p < 2 ^ 53" "w < 2 ^ 53" "0 \<le> 100 * p" "100 * p < 2 ^ 53" using assms by simp_all
  define x where "x = rat_of_int (100 * p) / of_int w"
  have w: "0 < rat_of_int w" using assms by simp
  have x: "0 \<le> x" "x \<le> 100"
  proof -
    have "100 * p \<le> 100 * w" using assms by simp
    then have "rat_of_int (100 * p) \<le> of_int (100 * w)" by (simp only: of_int_le_iff)
    then show "0 \<le> x" "x \<le> 100" using w assms(1) by (simp_all add: x_def pos_divide_le_eq)
  qed
  have f100: "fl 100 = 100" by (rule fl_numeral) simp
  have "fl_overflow (rat_of_int (100 * p)) = False" "fl (rat_of_int (100 * p)) = of_int (100 * p)"
    using fl_int [OF b(3,4)] float_of_int_small [OF b(3,4)] by (auto simp: float_of_int_def split: if_splits)
  then have mul: "float_mul (Fin 100) (Fin (of_int p)) = Fin (of_int (100 * p))"
    by (simp add: float_mul_def to_float_def)
  have "x < 2 ^ 53" using x by simp
  then have ov: "\<not> fl_overflow x" using x by (intro fl_overflow_small)
  have "percent_of p w = Inr (Fin (fl x))"
    using float_of_int_small [of p] float_of_int_small [of w] assms b(1,2) ov
    by (simp add: percent_of_def f100 mul float_div_def to_float_def x_def del: of_int_mult)
  moreover have "0 \<le> fl x \<and> fl x \<le> 100"
  proof (cases "x = 0")
    case False
    then show ?thesis using fl_between_ints [of x 100] fl_between_ints [of x 0] x by simp
  qed (simp add: fl_def)
  ultimately show ?thesis by blast
qed

lemma tops_returns:
  assumes "0 < cycles" "cycles < 2 ^ 53" "0 < clock" "clock < 2 ^ 53" "0 \<le> macs" "macs * 2 < 2 ^ 53"
  shows "\<exists>x. tops_of macs cycles clock = Inr x"
proof -
  obtain q where q: "int_truediv cycles clock = Inr (Fin q)" "0 < q"
    using int_truediv_pos [OF assms(1-4)] by blast
  have "fl (10 ^ 12) = 10 ^ 12" using fl_numeral [of "Num.num_of_nat 1000000000000"] by (simp add: fl_int [of "10 ^ 12", simplified])
  then show ?thesis
    using q assms(5,6) by (auto simp: tops_of_def float_of_int_small float_div_def split: pyfloat.splits)
qed

text \<open>An estimate whose numbers stay clear of the rounding limits.\<close>

definition estimate_ok :: "kernel_estimate \<Rightarrow> bool" where
  "estimate_ok e \<longleftrightarrow> 0 \<le> ke_compute_cycles e \<and> 0 < ke_cycles e \<and> ke_cycles e < 2 ^ 46
     \<and> 0 \<le> ke_macs e \<and> ke_macs e * 2 < 2 ^ 53"

text \<open>The metrics of an estimate are always produced and are consistent: waiting and
stalling are the same cycles, compute and stall cycles add up to the total, and utilization is
a percentage.\<close>
theorem metric_entry_consistent:
  assumes "estimate_ok e" and "0 < sc_clock_hz c" and "sc_clock_hz c < 2 ^ 53"
  shows "\<exists>r q. metric_entry c e = Inr r \<and> mr_stall_cycles r = mr_memory_wait_cycles r
     \<and> mr_compute_cycles r + mr_stall_cycles r = mr_npu_cycles r
     \<and> mr_utilization_percent r = Fin q \<and> 0 \<le> q \<and> q \<le> 100"
proof -
  have e: "0 \<le> ke_compute_cycles e" "ke_compute_cycles e \<le> ke_cycles e" "0 < ke_cycles e"
    "ke_cycles e < 2 ^ 46" "0 \<le> ke_macs e" "ke_macs e * 2 < 2 ^ 53"
    using assms(1) by (simp_all add: estimate_ok_def ke_cycles_def)
  then have small: "ke_cycles e < 2 ^ 53" by simp
  obtain q where q: "percent_of (ke_compute_cycles e) (ke_cycles e) = Inr (Fin q)" "0 \<le> q" "q \<le> 100"
    using percent_bounds [OF e(1-4)] by blast
  obtain el where el: "int_truediv (ke_cycles e) (sc_clock_hz c) = Inr (Fin el)" "0 < el"
    using int_truediv_pos [OF e(3) small assms(2,3)] by blast
  obtain t where t: "tops_of (ke_macs e) (ke_cycles e) (sc_clock_hz c) = Inr t"
    using tops_returns [OF e(3) small assms(2,3) e(5,6)] by blast
  have thr: "rbind (float_of_int (ke_macs e * 2)) (\<lambda>ops. float_div ops (Fin el))
      = Inr (to_float (of_int (ke_macs e * 2) / el))"
    using e(5,6) el by (simp add: float_of_int_small float_div_def)
  show ?thesis
    using q el t thr
    by (simp add: metric_entry_def observed_tops_def Let_def) (auto simp: ke_cycles_def)
qed

lemma metric_entry_consistent_witness:
  "\<exists>r. metric_entry MIN_REAL_V1 (roofline ''gemm_s8'' MIN_REAL_V1 4096 512 1024) = Inr r
     \<and> mr_compute_cycles r + mr_stall_cycles r = mr_npu_cycles r"
proof -
  have "estimate_ok (roofline ''gemm_s8'' MIN_REAL_V1 4096 512 1024)"
    by (simp add: estimate_ok_def roofline_def ke_cycles_def ceil_div_def MIN_REAL_V1_def int8_macs_per_cycle_def)
  from metric_entry_consistent [OF this, of MIN_REAL_V1] show ?thesis
    by (auto simp: MIN_REAL_V1_def)
qed

section \<open>Process corners\<close>

text \<open>The least and the greatest value of a key over a list, attained and with a real comparison
(which a NaN on either side would fail).\<close>

definition least_of :: "('a \<Rightarrow> pyfloat) \<Rightarrow> 'a list \<Rightarrow> pyfloat \<Rightarrow> bool" where
  "least_of key xs v \<longleftrightarrow> v \<in> key ` set xs \<and> list_all (\<lambda>x. float_le v (key x)) xs"

definition greatest_of :: "('a \<Rightarrow> pyfloat) \<Rightarrow> 'a list \<Rightarrow> pyfloat \<Rightarrow> bool" where
  "greatest_of key xs v \<longleftrightarrow> v \<in> key ` set xs \<and> list_all (\<lambda>x. float_le (key x) v) xs"

lemma float_le_not_lt: "x \<noteq> NaN \<Longrightarrow> y \<noteq> NaN \<Longrightarrow> \<not> float_lt x y \<Longrightarrow> float_le y x"
  by (simp add: float_lt_def)

lemma py_min_selects:
  assumes "py_min key xs = Inr m"
  shows "m \<in> set xs" and "y \<in> set xs \<Longrightarrow> \<not> float_lt (key y) (key m)"
proof -
  let ?lt = "\<lambda>m y. float_lt (key y) (key m)"
  from assms obtain z zs where xs: "xs = z # zs" and m: "m = running ?lt z zs"
    by (cases xs) (auto simp: running_def)
  show "m \<in> set xs" unfolding xs m by (rule running_in)
  show "y \<in> set xs \<Longrightarrow> \<not> float_lt (key y) (key m)"
    unfolding xs m using running_extreme [of ?lt y z zs] float_lt_trans float_lt_irrefl by blast
qed

lemma py_max_selects:
  assumes "py_max key xs = Inr m"
  shows "m \<in> set xs" and "y \<in> set xs \<Longrightarrow> \<not> float_lt (key m) (key y)"
proof -
  let ?lt = "\<lambda>m y. float_lt (key m) (key y)"
  from assms obtain z zs where xs: "xs = z # zs" and m: "m = running ?lt z zs"
    by (cases xs) (auto simp: running_def)
  show "m \<in> set xs" unfolding xs m by (rule running_in)
  show "y \<in> set xs \<Longrightarrow> \<not> float_lt (key m) (key y)"
    unfolding xs m using running_extreme [of ?lt y z zs] float_lt_trans float_lt_irrefl by blast
qed

lemma py_min_least: "py_min key xs = Inr m \<Longrightarrow> \<forall>x \<in> set xs. key x \<noteq> NaN \<Longrightarrow> least_of key xs (key m)"
  using py_min_selects [of key xs m] by (simp add: least_of_def list_all_iff float_le_not_lt)

lemma py_max_greatest: "py_max key xs = Inr m \<Longrightarrow> \<forall>x \<in> set xs. key x \<noteq> NaN \<Longrightarrow> greatest_of key xs (key m)"
  using py_max_selects [of key xs m] by (simp add: greatest_of_def list_all_iff float_le_not_lt)

text \<open>The figures of a kernel are numbers or infinities, never NaN.\<close>

lemma to_float_number: "to_float x \<noteq> NaN"
  by (simp add: to_float_def)

lemma float_div_number: "float_div x (Fin b) = Inr z \<Longrightarrow> x \<noteq> NaN \<Longrightarrow> z \<noteq> NaN"
  using to_float_number
  by (cases x) (auto simp: float_div_def inf_of_sign_def float_sign_def split: if_splits)

lemma tops_of_number:
  assumes "tops_of macs cycles clock = Inr t"
  shows "t \<noteq> NaN"
proof -
  from assms obtain elapsed ops rate where d: "int_truediv cycles clock = Inr elapsed" "float_of_int (macs * 2) = Inr ops"
    "float_div ops elapsed = Inr rate" "float_div rate (float_lit (10 ^ 12)) = Inr t"
    by (auto simp: tops_of_def)
  then obtain q where "elapsed = Fin q" by (auto simp: int_truediv_def Let_def split: if_splits)
  moreover have "ops \<noteq> NaN" using d(2) by (auto simp: float_of_int_def split: if_splits)
  ultimately have "rate \<noteq> NaN" using float_div_number d(3) by blast
  then show ?thesis by (rule float_div_number [OF d(4)])
qed

lemma percent_of_number:
  assumes "percent_of part whole = Inr z"
  shows "z \<noteq> NaN"
proof -
  from assms obtain p w where d: "float_of_int part = Inr p" "float_of_int whole = Inr w"
    "float_div (float_mul (float_lit 100) p) w = Inr z"
    by (auto simp: percent_of_def)
  then obtain a b where f: "p = Fin a" "w = Fin b" by (auto simp: float_of_int_def split: if_splits)
  then have "float_mul (float_lit 100) p \<noteq> NaN" by (simp add: float_mul_def to_float_number)
  with d(3) show ?thesis unfolding f by (rule float_div_number)
qed

lemma corner_kernel_entry_sound:
  assumes "corner_kernel_entry clock dma e = Inr k" and "1 \<le> dma"
  defines "bytes \<equiv> ke_bytes_read e + ke_bytes_written e"
  shows "ck_kernel k = ke_kernel e \<and> ck_compute_cycles k = ke_compute_cycles e
     \<and> bytes \<le> ck_memory_cycles k * dma \<and> ck_memory_cycles k * dma < bytes + dma
     \<and> ck_compute_cycles k + ck_memory_wait_cycles k = ck_npu_cycles k"
proof -
  have "ck_memory_cycles k = ceil_div bytes dma"
    using assms(1) by (auto simp: corner_kernel_entry_def Let_def bytes_def ceil_div_def)
  moreover have "ck_kernel k = ke_kernel e \<and> ck_compute_cycles k = ke_compute_cycles e
     \<and> ck_compute_cycles k + ck_memory_wait_cycles k = ck_npu_cycles k"
    using assms(1) by (auto simp: corner_kernel_entry_def Let_def)
  ultimately show ?thesis using ceil_div_bounds [of dma bytes] assms(2) by auto
qed

lemma corner_kernel_numbers:
  assumes "corner_kernel_entry clock dma e = Inr k"
  shows "ck_observed_tops k \<noteq> NaN \<and> ck_utilization_percent k \<noteq> NaN"
proof -
  let ?mc = "(ke_bytes_read e + ke_bytes_written e + dma - 1) div dma"
  let ?cycles = "max (ke_compute_cycles e) ?mc"
  have "tops_of (ke_macs e) ?cycles clock = Inr (ck_observed_tops k)"
    "percent_of (ke_compute_cycles e) ?cycles = Inr (ck_utilization_percent k)"
    using assms by (auto simp: corner_kernel_entry_def Let_def num_def split: sum.splits)
  then show ?thesis using tops_of_number percent_of_number by blast
qed

text \<open>C12: Whatever a process corner does to clock and memory bandwidth, every reported kernel
keeps its compute cycles and moves all its bytes within the reported memory cycles, with less than
one cycle of slack, at a bandwidth of at least one byte per cycle; and the reported minimum and maximum
throughput and minimum utilization are the least and greatest of the kernels' figures, each attained by a
kernel.\<close>
theorem process_corner_sound:
  assumes "process_corner_entry c corner es = Inr r"
  shows "1 \<le> cr_effective_dma_bytes_per_cycle r \<and> length (cr_kernels r) = length es
     \<and> (\<forall>i < length es. let k = cr_kernels r ! i; e = es ! i;
            bytes = ke_bytes_read e + ke_bytes_written e; dma = cr_effective_dma_bytes_per_cycle r
          in ck_kernel k = ke_kernel e \<and> ck_compute_cycles k = ke_compute_cycles e
             \<and> bytes \<le> ck_memory_cycles k * dma \<and> ck_memory_cycles k * dma < bytes + dma
             \<and> ck_compute_cycles k + ck_memory_wait_cycles k = ck_npu_cycles k)
     \<and> least_of ck_observed_tops (cr_kernels r) (cr_min_observed_tops r)
     \<and> greatest_of ck_observed_tops (cr_kernels r) (cr_max_observed_tops r)
     \<and> least_of ck_utilization_percent (cr_kernels r) (cr_min_utilization_percent r)"
proof -
  let ?dma = "cr_effective_dma_bytes_per_cycle r" and ?ks = "cr_kernels r"
  obtain lo hi util where parts: "1 \<le> ?dma" "mapR (corner_kernel_entry (cr_effective_clock_hz r) ?dma) es = Inr ?ks"
    "py_min ck_observed_tops ?ks = Inr lo" "cr_min_observed_tops r = ck_observed_tops lo"
    "py_max ck_observed_tops ?ks = Inr hi" "cr_max_observed_tops r = ck_observed_tops hi"
    "py_min ck_utilization_percent ?ks = Inr util" "cr_min_utilization_percent r = ck_utilization_percent util"
    using assms by (auto simp: process_corner_entry_def Let_def)
  have all: "length ?ks = length es"
    "i < length es \<Longrightarrow> corner_kernel_entry (cr_effective_clock_hz r) ?dma (es ! i) = Inr (?ks ! i)" for i
    using parts(2) by (auto simp: mapR_Inr_iff list_all2_conv_all_nth)
  have numbers: "\<forall>k \<in> set ?ks. ck_observed_tops k \<noteq> NaN" "\<forall>k \<in> set ?ks. ck_utilization_percent k \<noteq> NaN"
    using all corner_kernel_numbers by (metis in_set_conv_nth)+
  show ?thesis
    unfolding Let_def parts(4,6,8)
  proof (intro conjI allI impI)
    show "1 \<le> ?dma" by (rule parts(1))
    show "length ?ks = length es" by (rule all(1))
    show "least_of ck_observed_tops ?ks (ck_observed_tops lo)" by (rule py_min_least [OF parts(3) numbers(1)])
    show "greatest_of ck_observed_tops ?ks (ck_observed_tops hi)" by (rule py_max_greatest [OF parts(5) numbers(1)])
    show "least_of ck_utilization_percent ?ks (ck_utilization_percent util)"
      by (rule py_min_least [OF parts(7) numbers(2)])
  qed (use corner_kernel_entry_sound [OF all(2) parts(1)] in blast)+
qed

lemma process_corner_sound_witness:
  defines "es \<equiv> [roofline ''gemm_s8'' MIN_REAL_V1 4096 512 1024]"
  shows "\<exists>r. process_corner_entry MIN_REAL_V1 (hd PROCESS_CORNERS) es = Inr r
     \<and> 1536 \<le> ck_memory_cycles (cr_kernels r ! 0) * cr_effective_dma_bytes_per_cycle r
     \<and> cr_max_observed_tops r = ck_observed_tops (cr_kernels r ! 0)"
proof -
  obtain q where q: "percent_of 256 256 = Inr (Fin q)" using percent_bounds [of 256 256] by auto
  obtain t where t: "tops_of 4096 256 500000000 = Inr t"
    using tops_returns [of 256 500000000 4096] by auto
  have one: "cents 100 = Fin 1" using fl_int [of 1] by (simp add: cents_def)
  have mul: "float_mul (Fin 500000000) (Fin 1) = Fin 500000000"
    using float_of_int_small [of 500000000]
    by (simp add: float_mul_def to_float_def float_of_int_def split: if_splits)
  have div: "float_div (Fin 16) (Fin 1) = Inr (Fin 16)"
    using float_of_int_small [of 16]
    by (simp add: float_div_def to_float_def float_of_int_def split: if_splits)
  have peak: "\<exists>x. per_tera 16000000000 = Inr x"
    using float_of_int_small [of 16000000000] fl_int [of "10 ^ 12"]
    by (simp add: per_tera_def float_div_def)
  then obtain x where x: "per_tera 16000000000 = Inr x" ..
  have entry: "\<exists>k. corner_kernel_entry 500000000 16 (roofline ''gemm_s8'' MIN_REAL_V1 4096 512 1024) = Inr k"
    using q t by (simp add: corner_kernel_entry_def roofline_def ceil_div_def MIN_REAL_V1_def
        int8_macs_per_cycle_def)
  then obtain k where k: "corner_kernel_entry 500000000 16 (roofline ''gemm_s8'' MIN_REAL_V1 4096 512 1024) = Inr k" ..
  obtain r where r: "process_corner_entry MIN_REAL_V1 (hd PROCESS_CORNERS) es = Inr r"
    using k x float_of_int_small [of 500000000] float_of_int_small [of 16]
    by (simp add: process_corner_entry_def PROCESS_CORNERS_def es_def one mul div py_trunc_def
        MIN_REAL_V1_def int8_macs_per_cycle_def Let_def)
  from process_corner_sound [OF this] have "1536 \<le> ck_memory_cycles (cr_kernels r ! 0) * cr_effective_dma_bytes_per_cycle r"
    "length (cr_kernels r) = 1" "cr_max_observed_tops r \<in> ck_observed_tops ` set (cr_kernels r)"
    by (simp_all add: es_def roofline_def Let_def greatest_of_def)
  with r show ?thesis by (cases "cr_kernels r") auto
qed

end
