(* ===== verification/Py_Value.thy ===== *)
theory Py_Value
  imports Py_Float "HOL-Library.List_Lexorder" "HOL-Library.Char_ord"
begin

text \<open>
  The dynamically typed values the scripts read from JSON and pass around, with the
  parts of the language they rely on: equality, truth, membership, indexing, type tests,
  string methods, \<open>str\<close> and \<open>repr\<close>, and the exceptions these raise. A dictionary is its
  list of entries in insertion order; text is modelled with 8-bit characters.
\<close>

section \<open>Values and exceptions\<close>

datatype pyv =
    PNone
  | PBool bool
  | PInt int
  | PFloat pyfloat
  | PStr string
  | PList "pyv list"
  | PDict "(string \<times> pyv) list"

datatype py_exc =
    PyValueError string
  | PyTypeError
  | PyKeyError string
  | PyAttributeError
  | PyIndexError
  | PyZeroDivisionError
  | PyOverflowError
  | PyJSONDecodeError
  | PyOSError string
  | PyRuntimeError string
  | PyCsvError string
  | PySystemExit string
  | PyYAMLError
  | PyRegexError

type_synonym 'a py = "py_exc + 'a"

text \<open>Type tests. \<open>bool\<close> is a subclass of \<open>int\<close>.\<close>

fun is_str :: "pyv \<Rightarrow> bool" where "is_str (PStr _) = True" | "is_str _ = False"
fun is_bool :: "pyv \<Rightarrow> bool" where "is_bool (PBool _) = True" | "is_bool _ = False"
fun is_list :: "pyv \<Rightarrow> bool" where "is_list (PList _) = True" | "is_list _ = False"
fun is_dict :: "pyv \<Rightarrow> bool" where "is_dict (PDict _) = True" | "is_dict _ = False"
fun is_float :: "pyv \<Rightarrow> bool" where "is_float (PFloat _) = True" | "is_float _ = False"

fun is_int :: "pyv \<Rightarrow> bool" where
  "is_int (PInt _) = True" | "is_int (PBool _) = True" | "is_int _ = False"

definition is_num :: "pyv \<Rightarrow> bool" where
  "is_num v \<longleftrightarrow> is_int v \<or> is_float v"

text \<open>The number a value stands for, when it is one.\<close>

fun as_int :: "pyv \<Rightarrow> int" where
  "as_int (PInt i) = i" | "as_int (PBool b) = of_bool b" | "as_int _ = 0"

fun as_str :: "pyv \<Rightarrow> string" where "as_str (PStr s) = s" | "as_str _ = []"
fun as_list :: "pyv \<Rightarrow> pyv list" where "as_list (PList xs) = xs" | "as_list _ = []"
fun as_dict :: "pyv \<Rightarrow> (string \<times> pyv) list" where "as_dict (PDict d) = d" | "as_dict _ = []"

definition as_num :: "pyv \<Rightarrow> pyfloat" where
  "as_num v = (case v of PFloat f \<Rightarrow> f | _ \<Rightarrow> Fin (of_int (as_int v)))"

lemma is_D [elim!]:
  "is_str v \<Longrightarrow> (\<And>s. v = PStr s \<Longrightarrow> P) \<Longrightarrow> P"
  "is_list v \<Longrightarrow> (\<And>xs. v = PList xs \<Longrightarrow> P) \<Longrightarrow> P"
  "is_dict v \<Longrightarrow> (\<And>d. v = PDict d \<Longrightarrow> P) \<Longrightarrow> P"
  "is_bool v \<Longrightarrow> (\<And>b. v = PBool b \<Longrightarrow> P) \<Longrightarrow> P"
  by (cases v; simp)+

text \<open>\<open>bool(v)\<close>.\<close>

fun truthy :: "pyv \<Rightarrow> bool" where
  "truthy PNone = False"
| "truthy (PBool b) = b"
| "truthy (PInt i) = (i \<noteq> 0)"
| "truthy (PFloat f) = (f \<noteq> Fin 0)"
| "truthy (PStr s) = (s \<noteq> [])"
| "truthy (PList xs) = (xs \<noteq> [])"
| "truthy (PDict d) = (d \<noteq> [])"

section \<open>Dictionaries\<close>

fun dget :: "(string \<times> 'a) list \<Rightarrow> string \<Rightarrow> 'a option" where
  "dget [] k = None"
| "dget ((k', v) # d) k = (if k' = k then Some v else dget d k)"

text \<open>\<open>d[k] = v\<close> keeps the position of an existing key.\<close>

fun dset :: "(string \<times> 'a) list \<Rightarrow> string \<Rightarrow> 'a \<Rightarrow> (string \<times> 'a) list" where
  "dset [] k v = [(k, v)]"
| "dset ((k', v') # d) k v = (if k' = k then (k, v) # d else (k', v') # dset d k v)"

definition dhas :: "(string \<times> 'a) list \<Rightarrow> string \<Rightarrow> bool" where
  "dhas d k \<longleftrightarrow> dget d k \<noteq> None"

lemma dget_dset [simp]: "dget (dset d k v) k' = (if k' = k then Some v else dget d k')"
  by (induction d k v rule: dset.induct) auto

lemma dhas_dset [simp]: "dhas (dset d k v) k' \<longleftrightarrow> k' = k \<or> dhas d k'"
  by (simp add: dhas_def)

lemma keys_dset: "set (map fst (dset d k v)) = insert k (set (map fst d))"
  by (induction d k v rule: dset.induct) auto

lemma distinct_dset: "distinct (map fst d) \<Longrightarrow> distinct (map fst (dset d k v))"
proof (induction d k v rule: dset.induct)
  case (2 k' v' d k v)
  then show ?case using keys_dset [of d k v] by auto
qed simp

text \<open>\<open>d.update(e)\<close>.\<close>

definition dupdate :: "(string \<times> 'a) list \<Rightarrow> (string \<times> 'a) list \<Rightarrow> (string \<times> 'a) list" where
  "dupdate d e = foldl (\<lambda>d (k, v). dset d k v) d e"

lemma dupdate_simps [simp]:
  "dupdate d [] = d"
  "dupdate d ((k, v) # e) = dupdate (dset d k v) e"
  by (simp_all add: dupdate_def)

text \<open>\<open>v.get(k, default)\<close>: only a dictionary has the attribute.\<close>

fun py_get :: "pyv \<Rightarrow> string \<Rightarrow> pyv \<Rightarrow> pyv py" where
  "py_get (PDict d) k def = Inr (case dget d k of None \<Rightarrow> def | Some v \<Rightarrow> v)"
| "py_get _ k def = Inl PyAttributeError"

text \<open>\<open>v[k]\<close> with a string key.\<close>

fun py_item :: "pyv \<Rightarrow> string \<Rightarrow> pyv py" where
  "py_item (PDict d) k = (case dget d k of None \<Rightarrow> Inl (PyKeyError k) | Some v \<Rightarrow> Inr v)"
| "py_item _ k = Inl PyTypeError"

text \<open>On a value already known to be a dictionary.\<close>

definition get_or :: "pyv \<Rightarrow> string \<Rightarrow> pyv \<Rightarrow> pyv" where
  "get_or v k def = (case dget (as_dict v) k of None \<Rightarrow> def | Some x \<Rightarrow> x)"

definition get :: "pyv \<Rightarrow> string \<Rightarrow> pyv" where
  "get v k = get_or v k PNone"

lemma py_get_dict: "is_dict v \<Longrightarrow> py_get v k def = Inr (get_or v k def)"
  by (cases v) (simp_all add: get_or_def)

section \<open>Equality and membership\<close>

text \<open>\<open>==\<close>: numbers compare across types, dictionaries ignore the order of their entries.\<close>

definition num_eq :: "pyv \<Rightarrow> pyv \<Rightarrow> bool" where
  "num_eq v w = float_eq (as_num v) (as_num w)"

function (sequential) py_eq :: "pyv \<Rightarrow> pyv \<Rightarrow> bool" where
  "py_eq PNone PNone = True"
| "py_eq (PStr s) (PStr t) = (s = t)"
| "py_eq (PList xs) (PList ys) =
     (length xs = length ys \<and> list_all (\<lambda>(x, y). py_eq x y) (zip xs ys))"
| "py_eq (PDict d) (PDict e) =
     (length d = length e
      \<and> list_all (\<lambda>(k, v). case dget e k of None \<Rightarrow> False | Some w \<Rightarrow> py_eq v w) d)"
| "py_eq v w = (is_num v \<and> is_num w \<and> num_eq v w)"
  by pat_completeness auto
termination
proof (relation "measure (\<lambda>(v, w). size v)")
  fix xs ys :: "pyv list" and z x y
  assume z: "z \<in> set (zip xs ys)" "(x, y) = z"
  then have "x \<in> set xs" by (metis set_zip_leftD)
  then have "size x < Suc (size_list size xs)" by (metis le_imp_less_Suc order_refl size_list_estimation')
  then show "((x, y), PList xs, PList ys) \<in> measure (\<lambda>(v, w). size v)" by simp
next
  fix d e :: "(string \<times> pyv) list" and z k v w
  assume "z \<in> set d" "(k, v) = z"
  then have "(k, v) \<in> set d" by simp
  then have "size v < size (PDict d)"
    by (induction d) (auto simp: less_Suc_eq_le trans_le_add1 trans_le_add2)
  then show "((v, w), PDict d, PDict e) \<in> measure (\<lambda>(v, w). size v)" by simp
qed simp

lemma py_eq_str [simp]: "py_eq v (PStr s) \<longleftrightarrow> v = PStr s"
  by (cases v) (simp_all add: is_num_def)

text \<open>\<open>v in {"a", "b"}\<close> on a set of strings: lists and dictionaries are not hashable.\<close>

definition in_names :: "pyv \<Rightarrow> string list \<Rightarrow> bool py" where
  "in_names v names =
     (case v of PList _ \<Rightarrow> Inl PyTypeError | PDict _ \<Rightarrow> Inl PyTypeError
      | PStr s \<Rightarrow> Inr (s \<in> set names) | _ \<Rightarrow> Inr False)"

lemma in_names_True: "in_names v ns = Inr True \<longleftrightarrow> (\<exists>s \<in> set ns. v = PStr s)"
  by (cases v) (auto simp: in_names_def)

text \<open>Substring test.\<close>

definition starts_with :: "string \<Rightarrow> string \<Rightarrow> bool" where
  "starts_with p s \<longleftrightarrow> take (length p) s = p"

fun contains :: "string \<Rightarrow> string \<Rightarrow> bool" where
  "contains sub [] = (sub = [])"
| "contains sub (c # s) = (starts_with sub (c # s) \<or> contains sub s)"

text \<open>\<open>k in v\<close> for a string \<open>k\<close>.\<close>

fun py_in :: "string \<Rightarrow> pyv \<Rightarrow> bool py" where
  "py_in k (PDict d) = Inr (dhas d k)"
| "py_in k (PList xs) = Inr (list_ex (\<lambda>x. py_eq x (PStr k)) xs)"
| "py_in k (PStr s) = Inr (contains k s)"
| "py_in k _ = Inl PyTypeError"

section \<open>Text\<close>

definition is_space :: "char \<Rightarrow> bool" where
  "is_space c \<longleftrightarrow> (let n = of_char c :: int in (9 \<le> n \<and> n \<le> 13) \<or> (28 \<le> n \<and> n \<le> 32) \<or> n = 133 \<or> n = 160)"

definition strip :: "string \<Rightarrow> string" where
  "strip s = rev (dropWhile is_space (rev (dropWhile is_space s)))"

definition lower_char :: "char \<Rightarrow> char" where
  "lower_char c = (let n = of_char c :: int in if 65 \<le> n \<and> n \<le> 90 then char_of (n + 32) else c)"

definition lower :: "string \<Rightarrow> string" where
  "lower s = map lower_char s"

text \<open>\<open>s.split()\<close> and \<open>s.splitlines()\<close>.\<close>

fun split_ws :: "string \<Rightarrow> string \<Rightarrow> string list" where
  "split_ws cur [] = (if cur = [] then [] else [rev cur])"
| "split_ws cur (c # s) =
     (if is_space c then (if cur = [] then [] else [rev cur]) @ split_ws [] s
      else split_ws (c # cur) s)"

definition is_line_end :: "char \<Rightarrow> bool" where
  "is_line_end c \<longleftrightarrow> (let n = of_char c :: int in (10 \<le> n \<and> n \<le> 13) \<or> (28 \<le> n \<and> n \<le> 30) \<or> n = 133)"

fun split_lines_from :: "string \<Rightarrow> string \<Rightarrow> string list" where
  "split_lines_from cur [] = (if cur = [] then [] else [rev cur])"
| "split_lines_from cur [c] = (if is_line_end c then [rev cur] else [rev (c # cur)])"
| "split_lines_from cur (c # d # s) =
     (if c = CHR 0x0D \<and> d = CHR 0x0A then rev cur # split_lines_from [] s
      else if is_line_end c then rev cur # split_lines_from [] (d # s)
      else split_lines_from (c # cur) (d # s))"

definition split_lines :: "string \<Rightarrow> string list" where
  "split_lines s = split_lines_from [] s"

text \<open>\<open>s.split(sep)\<close> for a one-character separator, and \<open>sep.join(parts)\<close>.\<close>

fun split_on :: "char \<Rightarrow> string \<Rightarrow> string list" where
  "split_on sep [] = [[]]"
| "split_on sep (c # s) =
     (if c = sep then [] # split_on sep s
      else case split_on sep s of [] \<Rightarrow> [[c]] | w # ws \<Rightarrow> (c # w) # ws)"

fun join :: "string \<Rightarrow> string list \<Rightarrow> string" where
  "join sep [] = []"
| "join sep [s] = s"
| "join sep (s # t # ss) = s @ sep @ join sep (t # ss)"

lemma split_on_not_Nil [simp]: "split_on sep s \<noteq> []"
  by (induction s) (auto split: list.splits)

lemma join_split_on: "join [sep] (split_on sep s) = s"
proof (induction s)
  case (Cons c s)
  obtain w ws where w: "split_on sep s = w # ws" by (cases "split_on sep s") auto
  with Cons show ?case by (cases ws) auto
qed simp

section \<open>\<open>repr\<close> and \<open>str\<close>\<close>

definition hex2 :: "nat \<Rightarrow> string" where
  "hex2 n = fmt_int 16 False 2 (int n)"

definition repr_char :: "char \<Rightarrow> char \<Rightarrow> string" where
  "repr_char q c =
     (let n = of_char c :: nat in
      if c = q \<or> n = 92 then [CHR 0x5C, c]
      else if n = 9 then [CHR 0x5C, CHR ''t'']
      else if n = 10 then [CHR 0x5C, CHR ''n'']
      else if n = 13 then [CHR 0x5C, CHR ''r'']
      else if n < 32 \<or> (127 \<le> n \<and> n \<le> 160) \<or> n = 173 then [CHR 0x5C, CHR ''x''] @ hex2 n
      else [c])"

definition repr_str :: "string \<Rightarrow> string" where
  "repr_str s =
     (let q = (if CHR 0x27 \<in> set s \<and> CHR 0x22 \<notin> set s then CHR 0x22 else CHR 0x27)
      in [q] @ concat (map (repr_char q) s) @ [q])"

text \<open>
  The shortest decimal that reads back as the same float: \<open>p\<close> significant digits for the
  least \<open>p\<close> that works, laid out with an exponent outside \<open>1e-4 .. 1e16\<close>.
\<close>

fun scale_up :: "nat \<Rightarrow> rat \<Rightarrow> int" where
  "scale_up 0 x = 0"
| "scale_up (Suc n) x = (if 1 \<le> x then 0 else scale_up n (10 * x) - 1)"

text \<open>The decimal exponent; no positive double is below \<open>1e-324\<close>.\<close>

definition dec_exp :: "rat \<Rightarrow> int" where
  "dec_exp x = (if 1 \<le> x then int (length (nat_digits 10 (nat \<lfloor>x\<rfloor>))) - 1 else scale_up 324 x)"

definition pow10 :: "int \<Rightarrow> rat" where
  "pow10 k = (if 0 \<le> k then of_int (10 ^ nat k) else 1 / of_int (10 ^ nat (- k)))"

definition shortest_digits :: "rat \<Rightarrow> int \<times> int" where
  "shortest_digits x =
     (let k = dec_exp x;
          cand = (\<lambda>p. round_even (x / pow10 (k - int p + 1)));
          ok = (\<lambda>p. fl (of_int (cand p) * pow10 (k - int p + 1)) = x);
          p = (case find ok [1..<18] of None \<Rightarrow> 17 | Some p \<Rightarrow> p);
          d = cand p
      in if d = 10 ^ p then (d div 10, k + 1) else (d, k))"

definition float_repr_pos :: "rat \<Rightarrow> string" where
  "float_repr_pos x =
     (let (d, e) = shortest_digits x; ds = dec_str d; n = int (length ds) in
      if - 4 \<le> e \<and> e < 0 then ''0.'' @ replicate (nat (- e - 1)) (CHR ''0'') @ ds
      else if 0 \<le> e \<and> e < 16 then
        (if n \<le> e + 1 then ds @ replicate (nat (e + 1 - n)) (CHR ''0'') @ ''.0''
         else take (nat (e + 1)) ds @ ''.'' @ drop (nat (e + 1)) ds)
      else (case ds of [] \<Rightarrow> [] | c # cs \<Rightarrow>
              [c] @ (if cs = [] then [] else ''.'' @ cs) @ ''e'' @ (if e < 0 then ''-'' else ''+'')
                @ fmt_int 10 False 2 \<bar>e\<bar>))"

definition float_repr :: "pyfloat \<Rightarrow> string" where
  "float_repr f = (case f of
       PInf \<Rightarrow> ''inf'' | NInf \<Rightarrow> ''-inf'' | NaN \<Rightarrow> ''nan''
     | Fin x \<Rightarrow> if x = 0 then ''0.0'' else if x < 0 then ''-'' @ float_repr_pos (- x) else float_repr_pos x)"

fun py_repr :: "pyv \<Rightarrow> string" where
  "py_repr PNone = ''None''"
| "py_repr (PBool b) = (if b then ''True'' else ''False'')"
| "py_repr (PInt i) = dec_str i"
| "py_repr (PFloat f) = float_repr f"
| "py_repr (PStr s) = repr_str s"
| "py_repr (PList xs) = ''['' @ join '', '' (map py_repr xs) @ '']''"
| "py_repr (PDict d) =
     ''{'' @ join '', '' (map (\<lambda>(k, r). repr_str k @ '': '' @ r) (map (map_prod id py_repr) d)) @ ''}''"

definition py_str :: "pyv \<Rightarrow> string" where
  "py_str v = (case v of PStr s \<Rightarrow> s | _ \<Rightarrow> py_repr v)"

lemma repr_examples:
  "py_repr (PList [PStr ''a'', PInt (-3), PBool True, PNone]) = ''['' @ repr_str ''a'' @ '', -3, True, None]''"
  by (simp add: fmt_int_def nat_digits.simps digit_char_def)

section \<open>Comparison of numbers\<close>

definition py_lt :: "pyv \<Rightarrow> pyv \<Rightarrow> bool py" where
  "py_lt v w = (if is_num v \<and> is_num w then Inr (float_lt (as_num v) (as_num w)) else Inl PyTypeError)"

definition py_le :: "pyv \<Rightarrow> pyv \<Rightarrow> bool py" where
  "py_le v w = (if is_num v \<and> is_num w then Inr (float_le (as_num v) (as_num w)) else Inl PyTypeError)"

text \<open>\<open>is_json_number\<close>-like test used by several scripts: a number that is not a boolean.\<close>

definition is_json_number :: "pyv \<Rightarrow> bool" where
  "is_json_number v \<longleftrightarrow> is_num v \<and> \<not> is_bool v"

definition is_plain_int :: "pyv \<Rightarrow> bool" where
  "is_plain_int v \<longleftrightarrow> is_int v \<and> \<not> is_bool v"

section \<open>Checks in sequence\<close>

text \<open>\<open>if b: raise ValueError(msg)\<close>, and a sequence of statements that may raise.\<close>

definition fail_if :: "bool \<Rightarrow> string \<Rightarrow> unit py" where
  "fail_if b msg = (if b then Inl (PyValueError msg) else Inr ())"

fun steps :: "unit py list \<Rightarrow> unit py" where
  "steps [] = Inr ()"
| "steps (m # ms) = rbind m (\<lambda>_. steps ms)"

lemma fail_if_Inr [simp]: "fail_if b msg = Inr u \<longleftrightarrow> \<not> b"
  by (simp add: fail_if_def)

lemma steps_Inr: "steps ms = Inr u \<longleftrightarrow> list_all (\<lambda>m. m = Inr ()) ms"
  by (induction ms) auto

lemma steps_append: "steps (ms @ ns) = rbind (steps ms) (\<lambda>_. steps ns)"
  by (induction ms) (auto simp: rbind_def split: sum.splits)

text \<open>\<open>for x in v\<close>: the elements, characters or keys.\<close>

fun py_iter :: "pyv \<Rightarrow> pyv list py" where
  "py_iter (PList xs) = Inr xs"
| "py_iter (PStr s) = Inr (map (\<lambda>c. PStr [c]) s)"
| "py_iter (PDict d) = Inr (map (\<lambda>(k, _). PStr k) d)"
| "py_iter _ = Inl PyTypeError"

text \<open>\<open>for i, x in enumerate(xs)\<close>.\<close>

definition enum :: "'a list \<Rightarrow> (nat \<times> 'a) list" where
  "enum xs = zip [0..<length xs] xs"

definition has_key :: "pyv \<Rightarrow> string \<Rightarrow> bool" where
  "has_key v k = dhas (as_dict v) k"

definition nonempty_str :: "pyv \<Rightarrow> bool" where
  "nonempty_str v \<longleftrightarrow> is_str v \<and> truthy v"

lemma nonempty_str_iff: "nonempty_str v \<longleftrightarrow> (\<exists>s. v = PStr s \<and> s \<noteq> [])"
  by (cases v) (auto simp: nonempty_str_def)

definition nat_str :: "nat \<Rightarrow> string" where
  "nat_str n = dec_str (int n)"

section \<open>Conversions\<close>

text \<open>Digits with single underscores between them, as \<open>int\<close> and \<open>float\<close> accept them.\<close>

definition is_digit :: "char \<Rightarrow> bool" where
  "is_digit c \<longleftrightarrow> (let n = of_char c :: int in 48 \<le> n \<and> n \<le> 57)"

definition digit_val :: "char \<Rightarrow> int" where
  "digit_val c = of_char c - 48"

fun digits_from :: "int \<Rightarrow> nat \<Rightarrow> string \<Rightarrow> int \<times> nat \<times> string" where
  "digits_from acc n (c # s) =
     (if is_digit c then digits_from (10 * acc + digit_val c) (Suc n) s
      else if c = CHR ''_'' \<and> 0 < n \<and> (case s of d # _ \<Rightarrow> is_digit d | [] \<Rightarrow> False)
        then digits_from acc n s
      else (acc, n, c # s))"
| "digits_from acc n [] = (acc, n, [])"

definition read_sign :: "string \<Rightarrow> int \<times> string" where
  "read_sign s = (case s of c # r \<Rightarrow> if c = CHR ''-'' then (-1, r) else if c = CHR ''+'' then (1, r) else (1, s)
     | [] \<Rightarrow> (1, s))"

definition int_of_string :: "string \<Rightarrow> int option" where
  "int_of_string s0 =
     (let (sg, s) = read_sign (strip s0); (v, n, rest) = digits_from 0 0 s
      in if 0 < n \<and> rest = [] then Some (sg * v) else None)"

text \<open>A decimal literal: digits, fraction, exponent, or a special value.\<close>

definition read_decimal :: "string \<Rightarrow> rat option" where
  "read_decimal s =
     (let (ip, n, r1) = digits_from 0 0 s;
          (fp, m, r2) = (case r1 of c # r \<Rightarrow> if c = CHR ''.'' then digits_from 0 0 r else (0, 0, r1) | [] \<Rightarrow> (0, 0, []));
          mant = of_int ip + of_int fp * pow10 (- int m)
      in if n = 0 \<and> m = 0 then None
         else case r2 of
             [] \<Rightarrow> Some mant
           | c # r \<Rightarrow> if c = CHR ''e'' \<or> c = CHR ''E'' then
                 (let (sg, r3) = read_sign r; (e, k, rest) = digits_from 0 0 r3
                  in if 0 < k \<and> rest = [] then Some (mant * pow10 (sg * e)) else None)
               else None)"

definition float_of_string :: "string \<Rightarrow> pyfloat option" where
  "float_of_string s0 =
     (let (sg, s) = read_sign (strip s0); l = lower s;
          m = (if l = ''inf'' \<or> l = ''infinity'' then Some PInf
               else if l = ''nan'' then Some NaN
               else map_option to_float (read_decimal s))
      in map_option (\<lambda>f. if sg < 0 then float_neg f else f) m)"

lemma float_of_string_examples:
  "float_of_string ''1.5'' = Some (to_float (3 / 2))" "float_of_string ''x'' = None"
  by (simp_all add: float_of_string_def Let_def strip_def is_space_def read_sign_def lower_def lower_char_def
      read_decimal_def is_digit_def digit_val_def pow10_def)

text \<open>\<open>int(v)\<close> and \<open>float(v)\<close>.\<close>

fun of_num_error :: "num_error \<Rightarrow> py_exc" where
  "of_num_error ZeroDivision = PyZeroDivisionError"
| "of_num_error NumOverflow = PyOverflowError"
| "of_num_error NumValueError = PyValueError ''cannot convert float NaN to integer''"

definition pynum :: "num_error + 'a \<Rightarrow> 'a py" where
  "pynum m = (case m of Inl e \<Rightarrow> Inl (of_num_error e) | Inr x \<Rightarrow> Inr x)"

lemma pynum_simps [simp]: "pynum (Inr x) = Inr x" "pynum (Inl e) = Inl (of_num_error e)"
  by (simp_all add: pynum_def)

fun py_int :: "pyv \<Rightarrow> int py" where
  "py_int (PInt i) = Inr i"
| "py_int (PBool b) = Inr (of_bool b)"
| "py_int (PFloat f) = pynum (py_trunc f)"
| "py_int (PStr s) = (case int_of_string s of None \<Rightarrow>
     Inl (PyValueError (''invalid literal for int() with base 10: '' @ repr_str s)) | Some i \<Rightarrow> Inr i)"
| "py_int _ = Inl PyTypeError"

fun py_float :: "pyv \<Rightarrow> pyfloat py" where
  "py_float (PInt i) = pynum (float_of_int i)"
| "py_float (PBool b) = Inr (Fin (of_bool b))"
| "py_float (PFloat f) = Inr f"
| "py_float (PStr s) = (case float_of_string s of None \<Rightarrow>
     Inl (PyValueError (''could not convert string to float: '' @ repr_str s)) | Some f \<Rightarrow> Inr f)"
| "py_float _ = Inl PyTypeError"

text \<open>Messages gathered in order by code that may raise.\<close>

definition collect :: "string list py list \<Rightarrow> string list py" where
  "collect ms = rbind (mapR id ms) (\<lambda>ess. Inr (concat ess))"

lemma collect_simps [simp]:
  "collect [] = Inr []"
  "collect (m # ms) = rbind m (\<lambda>es. rbind (collect ms) (\<lambda>fs. Inr (es @ fs)))"
  by (auto simp: collect_def rbind_def split: sum.splits)

text \<open>\<open>if b: errors.append(msg)\<close>.\<close>

definition err_if :: "bool \<Rightarrow> string \<Rightarrow> string list" where
  "err_if b msg = (if b then [msg] else [])"

lemma err_if_Nil [simp]: "err_if b msg = [] \<longleftrightarrow> \<not> b"
  by (simp add: err_if_def)

lemma set_err_if [simp]: "set (err_if b msg) = (if b then {msg} else {})"
  by (simp add: err_if_def)

text \<open>A path of keys through nested dictionaries, \<open>None\<close> where it leaves them.\<close>

definition dotted_get :: "pyv \<Rightarrow> string \<Rightarrow> pyv" where
  "dotted_get data path =
     foldl (\<lambda>v part. if is_dict v then get v part else PNone) data (split_on (CHR ''.'') path)"

end
