(* ===== verification/Bench_Config.thy ===== *)
theory Bench_Config
  imports Py_Value
begin

text \<open>
  The benchmark plan of \<open>benchmarks/run_benchmarks.py\<close>: the harness's constants, the
  validation of a plan read from JSON, and the selection of benchmarks from it.
\<close>

section \<open>Constants\<close>

definition COMMANDS :: "string list" where
  "COMMANDS = [''list'', ''plan'', ''run'', ''validate-report'']"

definition VALID_CLAIM_LEVELS :: "string list" where
  "VALID_CLAIM_LEVELS =
     [''L0_RTL_UNIT'', ''L1_RTL_FULL_SOC'', ''L2_ARCH_SIM'', ''L3_FPGA'', ''L4_DEV_BOARD'',
      ''L5_PROTOTYPE_SILICON'', ''L6_COMPLETE_PHONE'']"

definition VALID_RESULT_STATUSES :: "string list" where
  "VALID_RESULT_STATUSES =
     [''planned'', ''planned_missing_deps'', ''blocked'', ''missing_dependencies'', ''passed'',
      ''failed'', ''timeout'', ''error'']"

definition LOCAL_TOOL_DIRS :: "string list" where
  "LOCAL_TOOL_DIRS = [''tools/bin'', ''.venv/bin'']"
definition HOST_SMOKE_TOOL_DIR :: string where "HOST_SMOKE_TOOL_DIR = ''benchmarks/tools''"
definition HOST_SMOKE_MARKER :: string where "HOST_SMOKE_MARKER = ''openagent-host-smoke''"
definition HOST_SMOKE_CLAIM_LEVEL :: string where "HOST_SMOKE_CLAIM_LEVEL = ''L2_ARCH_SIM''"
definition EXECUTABLE_MARKER_READ_BYTES :: nat where
  "EXECUTABLE_MARKER_READ_BYTES = 256 * 1024"

definition VALID_PARSERS :: "string list" where
  "VALID_PARSERS =
     [''coremark_v1'', ''openagent_npu_scale_sim_v1'', ''stream_v5'', ''lmbench_bw_mem'',
      ''lmbench_lat_mem_rd'', ''fio_json_v3'', ''tflite_benchmark_model'', ''simulator_metrics_v1'']"

definition VALID_PROVENANCE :: "string list" where
  "VALID_PROVENANCE = [''dry_run'', ''measured'', ''simulator'', ''imported'']"

definition E1_NPU_REQUIRED_CAPTURE_COMMANDS :: "(string \<times> string) list" where
  "E1_NPU_REQUIRED_CAPTURE_COMMANDS =
     [(''adb_devices'', ''adb devices''),
      (''nnapi_accelerator_query'', ''adb shell cmd neuralnetworks list''),
      (''benchmark_model_nnapi'',
         ''adb shell benchmark_model --graph=/data/local/tmp/mobile_smoke.tflite ''
         @ ''--use_nnapi=true --nnapi_accelerator_name=e1-npu ''
         @ ''--enable_op_profiling=true --verbose=true''),
      (''dma_trace'', ''adb shell cat /sys/bus/platform/devices/10020000.npu/dma_trace'')]"

definition PROCESS_EFFECTS_CONTRACT_PATH :: string where
  "PROCESS_EFFECTS_CONTRACT_PATH = ''docs/spec-db/process-14a-effects.yaml''"
definition PROCESS_PDK_SIGNOFF_PASSED :: string where
  "PROCESS_PDK_SIGNOFF_PASSED = ''pdk_extracted_timing_power_thermal_signoff_passed''"

definition REAL_METADATA_SECTIONS :: "string list" where
  "REAL_METADATA_SECTIONS =
     [''software'', ''clocks'', ''memory'', ''thermal'', ''power'', ''process'', ''calibration'']"

text \<open>The types \<open>isinstance\<close> is asked about: \<open>TNumber\<close> is the pair \<open>(int, float)\<close>.\<close>

datatype py_type = TStr | TInt | TNumber | TBool | TDict | TList

fun has_type :: "pyv \<Rightarrow> py_type \<Rightarrow> bool" where
  "has_type v TStr = is_str v"
| "has_type v TInt = is_int v"
| "has_type v TNumber = is_num v"
| "has_type v TBool = is_bool v"
| "has_type v TDict = is_dict v"
| "has_type v TList = is_list v"

text \<open>\<open>expected_type.__name__\<close>; the pair has none and is named apart where it occurs.\<close>

fun type_name :: "py_type \<Rightarrow> string" where
  "type_name TStr = ''str''" | "type_name TInt = ''int''" | "type_name TBool = ''bool''"
| "type_name TDict = ''dict''" | "type_name TList = ''list''" | "type_name TNumber = ''number''"

definition REAL_METADATA_REQUIRED_FIELDS :: "(string \<times> (string \<times> py_type) list) list" where
  "REAL_METADATA_REQUIRED_FIELDS =
     [(''software'',
        [(''os'', TStr), (''kernel'', TStr), (''firmware'', TStr), (''runtime'', TStr), (''build_id'', TStr)]),
      (''clocks'',
        [(''source'', TStr), (''cpu_hz'', TNumber), (''npu_hz'', TNumber), (''memory_hz'', TNumber),
         (''governor'', TStr)]),
      (''memory'',
        [(''type'', TStr), (''capacity_bytes'', TInt), (''bandwidth_bytes_per_second'', TNumber),
         (''channels'', TInt)]),
      (''thermal'',
        [(''ambient_c'', TNumber), (''die_c'', TNumber), (''cooling'', TStr), (''throttle_state'', TStr)]),
      (''power'',
        [(''source'', TStr), (''watts'', TNumber), (''measurement_method'', TStr), (''sample_count'', TInt),
         (''averaging_window_seconds'', TNumber)]),
      (''process'',
        [(''node'', TStr), (''pdk'', TStr), (''process_effects_contract'', TDict),
         (''process_corner_count'', TInt), (''worst_process_corner'', TStr), (''pdk_signoff_claim'', TStr)]),
      (''calibration'',
        [(''status'', TStr), (''source'', TStr), (''ground_truth_reference'', TStr),
         (''last_calibrated_utc'', TStr), (''assets'', TDict)])]"

definition REQUIRED_REPORT_FIELDS :: "(string \<times> py_type) list" where
  "REQUIRED_REPORT_FIELDS =
     [(''schema'', TStr), (''report_id'', TStr), (''date_utc'', TStr), (''dry_run'', TBool),
      (''claim_level'', TStr), (''platform'', TDict), (''config'', TDict), (''results'', TList)]"

definition REQUIRED_RESULT_FIELDS :: "(string \<times> py_type) list" where
  "REQUIRED_RESULT_FIELDS =
     [(''name'', TStr), (''suite'', TStr), (''version'', TStr), (''command'', TList),
      (''input_dataset'', TStr), (''primary_metric'', TStr), (''units'', TStr), (''dependencies'', TList),
      (''artifacts'', TDict), (''status'', TStr)]"

definition STRICT_RESULT_METADATA_FIELDS :: "(string \<times> py_type) list" where
  "STRICT_RESULT_METADATA_FIELDS = [(''provenance'', TStr), (''parser'', TStr)]"

definition BLOCKED_PREFIX :: string where "BLOCKED_PREFIX = ''blocked-''"

definition METRIC_OPS :: "string list" where
  "METRIC_OPS = [''=='', ''!='', ''<'', ''<='', ''>'', ''>='']"

section \<open>Validation of a plan\<close>

text \<open>A list-valued key whose entries must be non-empty strings.\<close>

definition check_name_list :: "string \<Rightarrow> pyv \<Rightarrow> string \<Rightarrow> unit py" where
  "check_name_list location bench key =
     steps
       (fail_if (has_key bench key \<and> \<not> is_list (get bench key)) (location @ '' '' @ key @ '' must be a list'')
        # map (\<lambda>item. fail_if (\<not> nonempty_str item)
                 (location @ '' '' @ key @ '' entries must be non-empty strings''))
            (as_list (get_or bench key (PList []))))"

definition check_gate :: "string \<Rightarrow> pyv \<Rightarrow> unit py" where
  "check_gate gate_location gate =
     steps
       [fail_if (\<not> is_dict gate) (gate_location @ '' must be an object''),
        fail_if (\<not> nonempty_str (get gate ''metric'')) (gate_location @ ''.metric must be a non-empty string''),
        rbind (in_names (get gate ''op'') METRIC_OPS) (\<lambda>ok.
          fail_if (\<not> ok) (gate_location @ ''.op must be one of ==, !=, <, <=, >, >='')),
        fail_if (\<not> is_num (get gate ''value'')) (gate_location @ ''.value must be numeric'')]"

text \<open>\<open>proof.get(key)\<close> is truthy but has the wrong type.\<close>

definition proof_field :: "string \<Rightarrow> pyv \<Rightarrow> string \<Rightarrow> py_type \<Rightarrow> string \<Rightarrow> unit py" where
  "proof_field location prf key ty what =
     fail_if (truthy (get prf key) \<and> \<not> has_type (get prf key) ty)
       (location @ '' capability proof.'' @ key @ '' must be a '' @ what)"

definition proof_entries :: "string \<Rightarrow> pyv \<Rightarrow> string \<Rightarrow> unit py" where
  "proof_entries location prf key =
     rbind (py_iter (get_or prf key (PList []))) (\<lambda>items.
     steps (map (\<lambda>item. fail_if (\<not> nonempty_str item)
         (location @ '' capability proof.'' @ key @ '' entries must be non-empty strings'')) items))"

definition check_markers :: "string \<Rightarrow> pyv \<Rightarrow> unit py" where
  "check_markers location markers =
     (if markers = PNone then Inr ()
      else steps
        (fail_if (\<not> is_dict markers)
           (location @ '' capability proof.required_transcript_markers must be an object'')
         # concat (map (\<lambda>(name, values).
             [fail_if (name = [])
                (location @ '' capability proof.required_transcript_markers keys must be strings''),
              fail_if (\<not> (is_list values \<and> list_all nonempty_str (as_list values)))
                (location @ '' capability proof.required_transcript_markers values must be non-empty string lists'')])
             (as_dict markers))))"

definition check_proof :: "string \<Rightarrow> pyv \<Rightarrow> unit py" where
  "check_proof location prf =
     steps
       [fail_if (\<not> is_dict prf) (location @ '' capability proof must be an object''),
        proof_field location prf ''schema'' TStr ''string'',
        proof_field location prf ''accelerator_name'' TStr ''string'',
        proof_field location prf ''required_files'' TList ''list'',
        proof_field location prf ''required_model_artifacts'' TList ''list'',
        proof_entries location prf ''required_model_artifacts'',
        proof_field location prf ''required_json_fields'' TList ''list'',
        proof_entries location prf ''required_json_fields'',
        fail_if (get prf ''max_cpu_fallback_percent'' \<noteq> PNone
                 \<and> \<not> is_json_number (get prf ''max_cpu_fallback_percent''))
          (location @ '' capability proof.max_cpu_fallback_percent must be numeric''),
        fail_if (get prf ''max_unsupported_op_count'' \<noteq> PNone
                 \<and> \<not> is_plain_int (get prf ''max_unsupported_op_count''))
          (location @ '' capability proof.max_unsupported_op_count must be an integer''),
        check_markers location (get prf ''required_transcript_markers'')]"

definition check_asset :: "string \<Rightarrow> pyv \<Rightarrow> unit py" where
  "check_asset location asset =
     steps
       ([fail_if (\<not> is_dict asset \<or> \<not> is_str (get asset ''path''))
           (location @ '' artifact entries must contain a string path'')]
        @ map (\<lambda>key. fail_if (has_key asset key \<and> \<not> is_bool (get asset key))
             (location @ '' model_artifacts '' @ key @ '' must be a boolean''))
            [''pipeline_visible'', ''release_blocking'']
        @ [fail_if (get asset ''placeholder_allowed'' = PBool True
                    \<and> get_or asset ''release_blocking'' (PBool True) = PBool True)
             (location @ '' release-blocking model artifacts must not allow placeholders'')]
        @ (if has_key asset ''generator'' then
             let generator = get asset ''generator'' in
             [fail_if (\<not> is_dict generator \<or> \<not> is_list (get generator ''command''))
                (location @ '' model_artifacts generator.command must be a list''),
              fail_if (\<not> list_all is_str (as_list (get generator ''command'')))
                (location @ '' model_artifacts generator.command must contain strings'')]
           else [])
        @ (if has_key asset ''proof'' then [check_proof location (get asset ''proof'')] else []))"

definition BENCH_KEYS :: "string list" where
  "BENCH_KEYS = [''name'', ''suite'', ''version'', ''command'', ''primary_metric'', ''units'', ''parser'']"

definition check_keys :: "string \<Rightarrow> pyv \<Rightarrow> unit py" where
  "check_keys location bench =
     steps (map (\<lambda>key. rbind (py_in key bench) (\<lambda>present.
         fail_if (\<not> present) (location @ '' missing required key '' @ repr_str key))) BENCH_KEYS)"

definition check_bench_rest :: "string \<Rightarrow> pyv \<Rightarrow> unit py" where
  "check_bench_rest location bench =
     steps
       ([fail_if (\<not> (is_list (get bench ''command'') \<and> list_all is_str (as_list (get bench ''command''))))
           (location @ '' command must be a list of strings''),
         rbind (in_names (get bench ''parser'') VALID_PARSERS) (\<lambda>ok.
           fail_if (\<not> ok) (location @ '' parser '' @ py_repr (get bench ''parser'') @ '' is not supported'')),
         (if has_key bench ''provenance'' then
            rbind (in_names (get bench ''provenance'') VALID_PROVENANCE) (\<lambda>ok.
              fail_if (\<not> ok)
                (location @ '' provenance '' @ py_repr (get bench ''provenance'') @ '' is not supported''))
          else Inr ())]
        @ map (check_name_list location bench)
            [''required_metadata'', ''required_metrics'', ''required_calibration_assets'']
        @ [fail_if (has_key bench ''metric_gates'' \<and> \<not> is_list (get bench ''metric_gates''))
             (location @ '' metric_gates must be a list'')]
        @ map (\<lambda>(i, gate). check_gate (location @ '' metric_gates['' @ nat_str i @ '']'') gate)
            (enum (as_list (get_or bench ''metric_gates'' (PList []))))
        @ map (\<lambda>key. fail_if (has_key bench key \<and> \<not> is_list (get bench key))
             (location @ '' '' @ key @ '' must be a list''))
            [''requires'', ''required_files'', ''model_artifacts'', ''capability_artifacts'']
        @ map (check_asset location)
            (as_list (get_or bench ''model_artifacts'' (PList []))
             @ as_list (get_or bench ''capability_artifacts'' (PList []))))"

text \<open>One benchmark of the plan: its name joins the names seen so far.\<close>

definition check_bench :: "string \<Rightarrow> nat \<times> pyv \<Rightarrow> string list \<Rightarrow> string list py" where
  "check_bench path ib names =
     (let (index, bench) = ib; location = path @ '': benchmarks['' @ nat_str index @ '']'' in
      rbind (check_keys location bench) (\<lambda>_.
      rbind (py_item bench ''name'') (\<lambda>name.
      rbind (fail_if (\<not> nonempty_str name) (location @ '' name must be a non-empty string'')) (\<lambda>_.
      rbind (fail_if (as_str name \<in> set names)
               (location @ '' duplicate benchmark name '' @ py_repr name)) (\<lambda>_.
      rbind (check_bench_rest location bench) (\<lambda>_. Inr (as_str name # names)))))))"

definition validate_config :: "pyv \<Rightarrow> string \<Rightarrow> unit py" where
  "validate_config config path =
     rbind (py_item config ''benchmarks'') (\<lambda>b. rbind (py_iter b) (\<lambda>benches.
     rbind (foldR (check_bench path) (enum benches) []) (\<lambda>_. Inr ())))"

text \<open>\<open>load_config\<close> on the decoded contents of the file.\<close>

definition load_config :: "pyv \<Rightarrow> string \<Rightarrow> pyv py" where
  "load_config config path =
     rbind (py_in ''benchmarks'' config) (\<lambda>present.
     rbind (if present then rbind (py_item config ''benchmarks'') (\<lambda>b. Inr (\<not> is_list b)) else Inr True) (\<lambda>bad.
     rbind (fail_if bad (path @ '' must contain a benchmarks list'')) (\<lambda>_.
     rbind (validate_config config path) (\<lambda>_. Inr config))))"

definition selected_benchmarks :: "pyv \<Rightarrow> string list \<Rightarrow> pyv list py" where
  "selected_benchmarks config names =
     (let benches = as_list (get config ''benchmarks'') in
      if names = [] \<or> ''all'' \<in> set names then Inr benches
      else
        let selected = filter (\<lambda>b. as_str (get b ''name'') \<in> set names) benches;
            found = map (\<lambda>b. as_str (get b ''name'')) selected;
            missing = sorted_list_of_set (set names - set found)
        in rbind (fail_if (missing \<noteq> []) (''unknown benchmark(s): '' @ join '', '' missing)) (\<lambda>_.
           Inr selected))"

section \<open>What an accepted plan is\<close>

abbreviation bench_name :: "pyv \<Rightarrow> string" where
  "bench_name b \<equiv> as_str (get b ''name'')"

definition good_gate :: "pyv \<Rightarrow> bool" where
  "good_gate g \<longleftrightarrow> is_dict g \<and> nonempty_str (get g ''metric'')
     \<and> (\<exists>op \<in> set METRIC_OPS. get g ''op'' = PStr op) \<and> is_num (get g ''value'')"

definition good_asset :: "pyv \<Rightarrow> bool" where
  "good_asset a \<longleftrightarrow> is_dict a \<and> is_str (get a ''path'')
     \<and> \<not> (get a ''placeholder_allowed'' = PBool True \<and> get_or a ''release_blocking'' (PBool True) = PBool True)"

definition good_bench :: "pyv \<Rightarrow> bool" where
  "good_bench b \<longleftrightarrow> is_dict b \<and> nonempty_str (get b ''name'')
     \<and> list_all (has_key b) BENCH_KEYS
     \<and> is_list (get b ''command'') \<and> list_all is_str (as_list (get b ''command''))
     \<and> (\<exists>p \<in> set VALID_PARSERS. get b ''parser'' = PStr p)
     \<and> list_all good_gate (as_list (get_or b ''metric_gates'' (PList [])))
     \<and> list_all good_asset (as_list (get_or b ''model_artifacts'' (PList []))
          @ as_list (get_or b ''capability_artifacts'' (PList [])))"

lemma py_item_Inr: "py_item v k = Inr x \<longleftrightarrow> is_dict v \<and> has_key v k \<and> x = get v k"
  by (cases v) (auto simp: has_key_def dhas_def get_def get_or_def split: option.splits)

lemma check_gate_ok: "check_gate loc g = Inr u \<Longrightarrow> good_gate g"
  by (auto simp: check_gate_def good_gate_def steps_Inr in_names_True)

lemma check_asset_ok: "check_asset loc a = Inr u \<Longrightarrow> good_asset a"
  by (auto simp: check_asset_def good_asset_def steps_Inr)

lemma check_bench_rest_ok:
  assumes "check_bench_rest loc b = Inr u"
  shows "is_list (get b ''command'') \<and> list_all is_str (as_list (get b ''command''))
     \<and> (\<exists>p \<in> set VALID_PARSERS. get b ''parser'' = PStr p)
     \<and> list_all good_gate (as_list (get_or b ''metric_gates'' (PList [])))
     \<and> list_all good_asset (as_list (get_or b ''model_artifacts'' (PList []))
          @ as_list (get_or b ''capability_artifacts'' (PList [])))"
proof -
  have gates: "list_all good_gate gs"
    if "list_all (\<lambda>m. m = Inr ()) (map (\<lambda>(i, gate). check_gate (f i) gate) (enum gs))" for gs f
    using that unfolding list_all_length enum_def by (auto dest!: check_gate_ok)
  have assets: "list_all good_asset xs" if "list_all (\<lambda>m. m = Inr ()) (map (check_asset loc) xs)" for xs
    using that unfolding list_all_length by (auto dest!: check_asset_ok)
  show ?thesis
    using assms gates assets
    by (simp only: check_bench_rest_def steps_Inr list_all_append list.pred_inject fail_if_Inr)
      (auto simp: in_names_True)
qed

lemma check_bench_ok:
  assumes "check_bench path ib names = Inr names'"
  shows "good_bench (snd ib) \<and> bench_name (snd ib) \<notin> set names \<and> names' = bench_name (snd ib) # names"
proof -
  obtain i b where ib: "ib = (i, b)" by (cases ib)
  have item: "check_keys (path @ '': benchmarks['' @ nat_str i @ '']'') b = Inr ()"
    "is_dict b" "nonempty_str (get b ''name'')" "bench_name b \<notin> set names"
    "names' = bench_name b # names"
    "check_bench_rest (path @ '': benchmarks['' @ nat_str i @ '']'') b = Inr ()"
    using assms by (auto simp: check_bench_def ib Let_def py_item_Inr)
  have "list_all (has_key b) BENCH_KEYS"
    using item(1,2) by (auto simp: check_keys_def steps_Inr list_all_iff has_key_def)
  then show ?thesis
    using item check_bench_rest_ok [OF item(6)] by (simp add: good_bench_def ib)
qed

lemma check_benches_ok:
  "foldR (check_bench path) ibs names = Inr names' \<Longrightarrow>
   list_all (\<lambda>ib. good_bench (snd ib)) ibs \<and> distinct (map (bench_name \<circ> snd) ibs)
   \<and> (\<forall>ib \<in> set ibs. bench_name (snd ib) \<notin> set names)"
proof (induction ibs arbitrary: names)
  case Nil
  then show ?case by simp
next
  case (Cons ib ibs)
  then obtain n1 where "check_bench path ib names = Inr n1" and rest: "foldR (check_bench path) ibs n1 = Inr names'"
    by auto
  with check_bench_ok [of path ib names n1] Cons.IH [OF rest] show ?case by auto
qed

lemma enum_simps [simp]: "map snd (enum xs) = xs" "length (enum xs) = length xs"
  by (simp_all add: enum_def)

lemma load_config_ok:
  assumes "load_config c path = Inr c'"
  shows "c' = c \<and> is_dict c \<and> is_list (get c ''benchmarks'')
     \<and> list_all good_bench (as_list (get c ''benchmarks''))
     \<and> distinct (map bench_name (as_list (get c ''benchmarks'')))"
proof -
  have parts: "c' = c" "is_dict c" "is_list (get c ''benchmarks'')" "validate_config c path = Inr ()"
    using assms by (auto simp: load_config_def py_item_Inr split: if_splits)
  then obtain bs where bs: "get c ''benchmarks'' = PList bs" by blast
  obtain n where "foldR (check_bench path) (enum bs) [] = Inr n"
    using parts(4) by (auto simp: validate_config_def py_item_Inr bs)
  from check_benches_ok [OF this]
  have "list_all good_bench (map snd (enum bs))" "distinct (map bench_name (map snd (enum bs)))"
    by (simp_all only: list.pred_map map_map comp_def)
  then show ?thesis using parts bs by simp
qed

text \<open>C13: A plan that loads is returned unchanged, has benchmarks with pairwise distinct
non-empty names, commands that are lists of strings, a supported parser each, comparison
gates with a known operator and a numeric bound, and no artifact that is release blocking
while allowing a placeholder.\<close>
theorem load_config_accepts:
  assumes "load_config c path = Inr c'"
  shows "c' = c \<and> is_dict c \<and> list_all good_bench (as_list (get c ''benchmarks''))
     \<and> distinct (map bench_name (as_list (get c ''benchmarks'')))"
  using load_config_ok [OF assms] by blast

definition small_plan :: pyv where
  "small_plan = PDict [(''benchmarks'', PList (map (\<lambda>n. PDict
     [(''name'', PStr n), (''suite'', PStr ''cpu''), (''version'', PStr ''1''),
      (''command'', PList [PStr ''run'']), (''primary_metric'', PStr ''m''), (''units'', PStr ''u''),
      (''parser'', PStr ''coremark_v1'')]) [''a'', ''b'']))]"

lemma small_plan_loads: "load_config small_plan ''p'' = Inr small_plan"
  by code_simp

lemma load_config_accepts_witness:
  "distinct (map bench_name (as_list (get small_plan ''benchmarks'')))"
  using load_config_accepts [OF small_plan_loads] by blast

section \<open>Selection\<close>

text \<open>Selecting from a loaded plan by a list of names returns, in plan order, exactly one
benchmark per requested name when all of them exist, and otherwise raises \<open>ValueError\<close> naming
the unknown ones in sorted order.\<close>
theorem selected_benchmarks_exact:
  assumes "load_config c path = Inr c'" and "names \<noteq> []" and "''all'' \<notin> set names"
  defines "known \<equiv> bench_name ` set (as_list (get c ''benchmarks''))"
  shows "if set names \<subseteq> known then
      \<exists>sel. selected_benchmarks c names = Inr sel
        \<and> sel = filter (\<lambda>b. bench_name b \<in> set names) (as_list (get c ''benchmarks''))
        \<and> distinct (map bench_name sel) \<and> bench_name ` set sel = set names
    else selected_benchmarks c names
       = Inl (PyValueError (''unknown benchmark(s): '' @ join '', '' (sorted_list_of_set (set names - known))))"
proof -
  let ?bs = "as_list (get c ''benchmarks'')"
  define sel where "sel = filter (\<lambda>b. bench_name b \<in> set names) ?bs"
  have dist: "distinct (map bench_name ?bs)" using load_config_ok [OF assms(1)] by blast
  have found: "bench_name ` set sel = set names \<inter> known" by (auto simp: sel_def known_def)
  have "set names - set (map bench_name sel) = set names - known" using found by auto
  then have run: "selected_benchmarks c names = rbind (fail_if (sorted_list_of_set (set names - known) \<noteq> [])
      (''unknown benchmark(s): '' @ join '', '' (sorted_list_of_set (set names - known)))) (\<lambda>_. Inr sel)"
    using assms(2,3) by (simp only: selected_benchmarks_def Let_def sel_def [symmetric]) simp
  have "sorted_list_of_set (set names - known) = [] \<longleftrightarrow> set names \<subseteq> known"
    by simp
  moreover have "distinct (map bench_name sel)" unfolding sel_def using dist by (simp add: distinct_map_filter)
  ultimately show ?thesis
    unfolding run sel_def [symmetric] using found by (auto simp: fail_if_def)
qed

lemma selected_benchmarks_exact_witness:
  "selected_benchmarks small_plan [''b'', ''x'']
     = Inl (PyValueError (''unknown benchmark(s): '' @ join '', '' (sorted_list_of_set ({''b'', ''x''} - {''a'', ''b''}))))"
  using selected_benchmarks_exact [OF small_plan_loads, of "[''b'', ''x'']"]
  by (simp add: small_plan_def get_def get_or_def)

end
