(* ===== verification/Py_World.thy ===== *)
theory Py_World
  imports Py_Value
begin

text \<open>
  Paths and the file system as the scripts see them: POSIX path joining and printing,
  regular files with their bytes, directories, permissions, symbolic-link resolution and
  \<open>shutil.which\<close>. The SHA-256 digest, the JSON and YAML decoders and the names in a directory
  are fields of the world, and so is what a child process does with a command, a search
  path and a time limit. A YAML mapping has string keys.
\<close>

section \<open>Paths\<close>

datatype ppath = PPath (pabs: bool) (pparts: "string list")

definition path_of :: "string \<Rightarrow> ppath" where
  "path_of s = PPath (starts_with ''/'' s) (filter (\<lambda>p. p \<noteq> [] \<and> p \<noteq> ''.'') (split_on (CHR ''/'') s))"

definition path_str :: "ppath \<Rightarrow> string" where
  "path_str p =
     (if pabs p then ''/'' @ join ''/'' (pparts p)
      else if pparts p = [] then ''.'' else join ''/'' (pparts p))"

text \<open>\<open>p / q\<close>: an absolute right operand replaces the left one.\<close>

definition path_join :: "ppath \<Rightarrow> ppath \<Rightarrow> ppath" where
  "path_join p q = (if pabs q then q else PPath (pabs p) (pparts p @ pparts q))"

text \<open>\<open>p.relative_to(q)\<close>, when it does not raise.\<close>

definition relative_to :: "ppath \<Rightarrow> ppath \<Rightarrow> ppath option" where
  "relative_to p q =
     (if pabs p = pabs q \<and> take (length (pparts q)) (pparts p) = pparts q
      then Some (PPath False (drop (length (pparts q)) (pparts p))) else None)"

lemma relative_to_join: "\<not> pabs q \<Longrightarrow> relative_to (path_join p q) p = Some q"
  by (cases q) (simp add: relative_to_def path_join_def)

section \<open>The world\<close>

text \<open>What running a command ends in.\<close>

datatype process_end =
    Completed int string
  | TimedOut string
  | OsFailure string

record world =
  wd_file :: "ppath \<Rightarrow> string option"
  wd_readable :: "ppath \<Rightarrow> bool"
  wd_is_dir :: "ppath \<Rightarrow> bool"
  wd_executable :: "ppath \<Rightarrow> bool"
  wd_resolve :: "ppath \<Rightarrow> ppath"
  wd_env_path :: string
  wd_sha256 :: "string \<Rightarrow> string"
  wd_json :: "string \<Rightarrow> pyv option"
  wd_yaml :: "string \<Rightarrow> pyv option"
  wd_list :: "ppath \<Rightarrow> string list"
  wd_run :: "string list \<Rightarrow> string \<Rightarrow> pyv \<Rightarrow> process_end"

definition is_file :: "world \<Rightarrow> ppath \<Rightarrow> bool" where
  "is_file w p \<longleftrightarrow> wd_file w p \<noteq> None"

definition path_exists :: "world \<Rightarrow> ppath \<Rightarrow> bool" where
  "path_exists w p \<longleftrightarrow> is_file w p \<or> wd_is_dir w p"

definition read_bytes :: "world \<Rightarrow> ppath \<Rightarrow> string py" where
  "read_bytes w p = (case wd_file w p of
       Some s \<Rightarrow> if wd_readable w p then Inr s else Inl (PyOSError (path_str p))
     | None \<Rightarrow> Inl (PyOSError (path_str p)))"

definition stat_size :: "world \<Rightarrow> ppath \<Rightarrow> int py" where
  "stat_size w p = (case wd_file w p of Some s \<Rightarrow> Inr (int (length s)) | None \<Rightarrow> Inl (PyOSError (path_str p)))"

definition sha256_file :: "world \<Rightarrow> ppath \<Rightarrow> string py" where
  "sha256_file w p = rbind (read_bytes w p) (\<lambda>s. Inr (wd_sha256 w s))"

definition json_loads :: "world \<Rightarrow> string \<Rightarrow> pyv py" where
  "json_loads w s = (case wd_json w s of None \<Rightarrow> Inl PyJSONDecodeError | Some v \<Rightarrow> Inr v)"

definition yaml_loads :: "world \<Rightarrow> string \<Rightarrow> pyv py" where
  "yaml_loads w s = (case wd_yaml w s of None \<Rightarrow> Inl PyYAMLError | Some v \<Rightarrow> Inr v)"

definition json_file :: "world \<Rightarrow> ppath \<Rightarrow> pyv py" where
  "json_file w p = rbind (read_bytes w p) (json_loads w)"

text \<open>Text mode translates line ends; \<open>newline=""\<close> keeps them and only splits there.\<close>

fun universal_newlines :: "string \<Rightarrow> string" where
  "universal_newlines [] = []"
| "universal_newlines [c] = [if c = CHR 0x0D then CHR 0x0A else c]"
| "universal_newlines (c # d # s) =
     (if c = CHR 0x0D \<and> d = CHR 0x0A then CHR 0x0A # universal_newlines s
      else (if c = CHR 0x0D then CHR 0x0A else c) # universal_newlines (d # s))"

definition read_text :: "world \<Rightarrow> ppath \<Rightarrow> string py" where
  "read_text w p = rbind (read_bytes w p) (\<lambda>s. Inr (universal_newlines s))"

fun raw_lines :: "string \<Rightarrow> string \<Rightarrow> string list" where
  "raw_lines cur [] = (if cur = [] then [] else [rev cur])"
| "raw_lines cur [c] = [rev (c # cur)]"
| "raw_lines cur (c # d # s) =
     (if c = CHR 0x0D \<and> d = CHR 0x0A then rev (d # c # cur) # raw_lines [] s
      else if c = CHR 0x0D \<or> c = CHR 0x0A then rev (c # cur) # raw_lines [] (d # s)
      else raw_lines (c # cur) (d # s))"

text \<open>Iterating over an open file.\<close>

definition file_lines :: "string \<Rightarrow> string list" where
  "file_lines s = raw_lines [] s"

lemma concat_raw_lines: "concat (raw_lines cur s) = rev cur @ s"
  by (induction cur s rule: raw_lines.induct) auto

lemma concat_file_lines: "concat (file_lines s) = s"
  by (simp add: file_lines_def concat_raw_lines)

text \<open>\<open>shutil.which(cmd, path=...)\<close>: the first directory holding an executable that is not a directory.\<close>

definition os_join :: "string \<Rightarrow> string \<Rightarrow> string" where
  "os_join d s = (if starts_with ''/'' s then s
     else if d = [] \<or> last d = CHR ''/'' then d @ s else d @ ''/'' @ s)"

definition access_check :: "world \<Rightarrow> string \<Rightarrow> bool" where
  "access_check w s \<longleftrightarrow> is_file w (path_of s) \<and> wd_executable w (path_of s)"

definition which :: "world \<Rightarrow> string \<Rightarrow> string \<Rightarrow> string option" where
  "which w cmd paths =
     (if CHR ''/'' \<in> set cmd then if access_check w cmd then Some cmd else None
      else find (access_check w) (map (\<lambda>d. os_join d cmd) (split_on (CHR '':'') paths)))"

end
