(* ===== verification/Bench_Deps.thy ===== *)
theory Bench_Deps
  imports Bench_Config Py_World
begin

text \<open>
  How \<open>benchmarks/run_benchmarks.py\<close> decides which dependencies of a benchmark are
  available: executables on the search path (with the repository's own host-smoke stubs
  kept out unless asked for), files and model artifacts, and what it reports about the
  ones that are not. A status is the dictionary the code builds.
\<close>

type_synonym status = "(string \<times> pyv) list"

section \<open>Executables\<close>

definition join_paths :: "string list \<Rightarrow> string" where
  "join_paths ds = join '':'' ds"

definition smoke_dir :: "ppath \<Rightarrow> ppath" where
  "smoke_dir repo = path_join repo (path_of HOST_SMOKE_TOOL_DIR)"

definition local_search_path :: "world \<Rightarrow> ppath \<Rightarrow> bool \<Rightarrow> string" where
  "local_search_path w repo include_host_smoke =
     (let local_dirs = map path_str (filter (wd_is_dir w)
            (map (\<lambda>d. path_join repo (path_of d)) LOCAL_TOOL_DIRS));
          env_dirs = filter (\<lambda>entry. entry \<noteq> [] \<and> wd_resolve w (path_of entry) \<noteq> wd_resolve w (smoke_dir repo))
            (split_on (CHR '':'') (wd_env_path w));
          smoke_dirs = (if include_host_smoke \<and> wd_is_dir w (smoke_dir repo)
            then [path_str (smoke_dir repo)] else [])
      in join_paths (local_dirs @ env_dirs @ smoke_dirs))"

definition is_host_smoke_tool :: "world \<Rightarrow> string \<Rightarrow> ppath \<Rightarrow> bool" where
  "is_host_smoke_tool w path repo =
     (if path = [] then False
      else
        let resolved = wd_resolve w (path_of path) in
        if relative_to resolved (wd_resolve w (smoke_dir repo)) \<noteq> None then True
        else case read_bytes w resolved of
               Inl _ \<Rightarrow> False
             | Inr bytes \<Rightarrow> contains HOST_SMOKE_MARKER (take EXECUTABLE_MARKER_READ_BYTES bytes))"

definition executable_metadata :: "world \<Rightarrow> string option \<Rightarrow> ppath \<Rightarrow> bool \<Rightarrow> status" where
  "executable_metadata w path repo allow_host_smoke =
     (case path of None \<Rightarrow> []
      | Some p \<Rightarrow> if p = [] then [] else
          let resolved = path_of p;
              smoke = is_host_smoke_tool w (path_str resolved) repo;
              kind = [(''evidence_kind'', PStr (if smoke then ''host_smoke_tool'' else ''executable''))];
              digest = (case sha256_file w resolved of Inl _ \<Rightarrow> []
                | Inr h \<Rightarrow> (''sha256'', PStr h)
                    # (case stat_size w resolved of Inl _ \<Rightarrow> [] | Inr n \<Rightarrow> [(''size_bytes'', PInt n)]));
              prov = [(''provenance'', PStr (if smoke then ''repo_local_host_smoke'' else ''path_executable'')),
                      (''release_claim_allowed'', PBool (\<not> smoke)),
                      (''host_smoke_allowed_for_run'', PBool allow_host_smoke)]
          in kind @ digest @ prov)"

record command_status =
  cs_available :: bool
  cs_path :: "string option"
  cs_reason :: "string option"
  cs_rejected :: "(string \<times> string) list"

definition SMOKE_REASON :: string where "SMOKE_REASON = ''repo_local_host_smoke_tool''"

text \<open>
  The search loop: the resolved names seen, the first smoke match and the rejected
  candidates are carried along; \<open>Inr\<close> ends the search with a result.
\<close>

fun search_entries ::
  "world \<Rightarrow> ppath \<Rightarrow> string \<Rightarrow> bool \<Rightarrow> string list \<Rightarrow> string list \<Rightarrow> string option \<Rightarrow> (string \<times> string) list \<Rightarrow>
   (string option \<times> (string \<times> string) list) + command_status" where
  "search_entries w repo cmd allow [] seen first rejected = Inl (first, rejected)"
| "search_entries w repo cmd allow (entry # entries) seen first rejected =
     (if entry = [] then search_entries w repo cmd allow entries seen first rejected
      else case which w cmd entry of
          None \<Rightarrow> search_entries w repo cmd allow entries seen first rejected
        | Some resolved \<Rightarrow>
            let key = path_str (wd_resolve w (path_of resolved)) in
            if key \<in> set seen then search_entries w repo cmd allow entries seen first rejected
            else if is_host_smoke_tool w resolved repo then
              if allow then Inr \<lparr>cs_available = True, cs_path = Some resolved, cs_reason = None, cs_rejected = rejected\<rparr>
              else search_entries w repo cmd allow entries (key # seen)
                     (case first of None \<Rightarrow> Some resolved | Some f \<Rightarrow> if f = [] then Some resolved else Some f)
                     (rejected @ [(resolved, SMOKE_REASON)])
            else Inr \<lparr>cs_available = True, cs_path = Some resolved, cs_reason = None, cs_rejected = rejected\<rparr>)"

definition command_available :: "world \<Rightarrow> ppath \<Rightarrow> string \<Rightarrow> bool \<Rightarrow> command_status" where
  "command_available w repo executable allow_host_smoke =
     (let candidate = path_of executable in
      if (pparts candidate \<noteq> [] \<or> pabs candidate) \<and> (pabs candidate \<or> 1 < length (pparts candidate)) then
        let resolved_path = (if pabs candidate then candidate else path_join repo candidate);
            available = (path_exists w resolved_path \<and> wd_executable w resolved_path);
            reason = (if available \<and> is_host_smoke_tool w (path_str resolved_path) repo
                      then Some SMOKE_REASON else None);
            reason' = (if allow_host_smoke \<and> reason = Some SMOKE_REASON then None else reason)
        in \<lparr>cs_available = available \<and> reason' = None, cs_path = Some (path_str resolved_path),
            cs_reason = reason', cs_rejected = []\<rparr>
      else case search_entries w repo executable allow_host_smoke
                  (split_on (CHR '':'') (local_search_path w repo allow_host_smoke)) [] None [] of
          Inr r \<Rightarrow> r
        | Inl (first, rejected) \<Rightarrow>
            let smoke = (case first of None \<Rightarrow> which w executable (local_search_path w repo True)
                         | Some f \<Rightarrow> Some f)
            in \<lparr>cs_available = False, cs_path = smoke,
                cs_reason = (case smoke of None \<Rightarrow> None | Some f \<Rightarrow> if f = [] then None else Some SMOKE_REASON),
                cs_rejected = rejected\<rparr>)"

section \<open>Artifacts\<close>

definition opt_str :: "string option \<Rightarrow> pyv" where
  "opt_str s = (case s of None \<Rightarrow> PNone | Some t \<Rightarrow> PStr t)"

text \<open>\<open>set(v)\<close> membership of a string: every element must be hashable.\<close>

definition in_set_of :: "string \<Rightarrow> pyv \<Rightarrow> bool py" where
  "in_set_of s v = rbind (py_iter v) (\<lambda>xs.
     if list_ex (\<lambda>x. is_list x \<or> is_dict x) xs then Inl PyTypeError
     else Inr (list_ex (\<lambda>x. py_eq x (PStr s)) xs))"

definition model_artifact_status :: "world \<Rightarrow> ppath \<Rightarrow> pyv \<Rightarrow> status py" where
  "model_artifact_status w repo artifact =
     rbind (py_item artifact ''path'') (\<lambda>name.
     if \<not> is_str name then Inl PyTypeError else
     let path = path_join repo (path_of (as_str name));
         placeholder_allowed = truthy (get_or artifact ''placeholder_allowed'' (PBool False));
         status = [(''name'', name), (''kind'', PStr ''model_artifact''), (''available'', PBool (is_file w path)),
           (''path'', PStr (path_str path)),
           (''placeholder_allowed'', PBool placeholder_allowed),
           (''blocker_id'', get_or artifact ''blocker_id'' (PStr ''MODEL_ARTIFACT_UNAVAILABLE'')),
           (''pipeline_visible'', PBool (truthy (get_or artifact ''pipeline_visible'' (PBool True)))),
           (''release_blocking'', PBool (truthy (get_or artifact ''release_blocking'' (PBool True))))]
          @ (if truthy (get artifact ''generator'') then [(''generator'', get artifact ''generator'')] else [])
          @ (if truthy (get artifact ''resolution'') then [(''resolution'', get artifact ''resolution'')] else [])
     in if \<not> is_file w path then Inr (status @ [(''blocked_reason'', PStr ''missing_model_artifact'')])
        else
          rbind (sha256_file w path) (\<lambda>digest.
          rbind (in_set_of digest (get_or artifact ''placeholder_sha256'' (PList []))) (\<lambda>is_placeholder.
          rbind (py_int (get_or artifact ''min_size_bytes'' (PInt 1))) (\<lambda>min_size_bytes.
          rbind (stat_size w path) (\<lambda>size.
          let status1 = status @ [(''sha256'', PStr digest), (''size_bytes'', PInt size)];
              expected = get artifact ''sha256'';
              block = (\<lambda>reason. dset (dset status1 ''available'' (PBool False)) ''blocked_reason'' (PStr reason))
          in Inr (if \<not> truthy expected \<and> \<not> placeholder_allowed then block ''model_sha256_unpinned''
                  else if truthy expected \<and> \<not> py_eq (PStr digest) expected then block ''model_sha256_mismatch''
                  else if is_placeholder \<or> size < min_size_bytes then block ''placeholder_model_artifact''
                  else status1))))))"

section \<open>Summaries of the unavailable\<close>

text \<open>Each status has a name and an availability; \<open>item["available"]\<close> is tested for truth.\<close>

definition st_get :: "status \<Rightarrow> string \<Rightarrow> pyv \<Rightarrow> pyv" where
  "st_get st k def = (case dget st k of None \<Rightarrow> def | Some v \<Rightarrow> v)"

definition st_available :: "status \<Rightarrow> bool" where
  "st_available st \<longleftrightarrow> truthy (st_get st ''available'' PNone)"

definition is_artifact :: "status \<Rightarrow> bool" where
  "is_artifact st \<longleftrightarrow> st_get st ''kind'' PNone \<in> {PStr ''model_artifact'', PStr ''capability_artifact''}"

definition missing_dependencies :: "status list \<Rightarrow> pyv list" where
  "missing_dependencies sts =
     map (\<lambda>st. st_get st ''name'' PNone) (filter (\<lambda>st. \<not> st_available st \<and> \<not> is_artifact st) sts)"

definition missing_dependency_details :: "status list \<Rightarrow> pyv list" where
  "missing_dependency_details sts =
     map (\<lambda>st. PDict
       [(''name'', st_get st ''name'' PNone), (''kind'', st_get st ''kind'' (PStr ''unknown'')),
        (''reason'', st_get st ''blocked_reason'' (PStr ''missing_dependency'')),
        (''path'', st_get st ''path'' PNone), (''resolution'', st_get st ''resolution'' (PStr []))])
       (filter (\<lambda>st. \<not> (st_available st \<or> is_artifact st)) sts)"

definition missing_dependency_blockers :: "pyv \<Rightarrow> status list \<Rightarrow> pyv list" where
  "missing_dependency_blockers bench sts =
     (let install = get_or bench ''install'' (PStr []) in
      map (\<lambda>st.
        let kind = st_get st ''kind'' (PStr ''dependency''); name = st_get st ''name'' PNone;
            command = (if kind = PStr ''executable'' then ''Install/build '' @ py_str name
                         @ '' for the target and put it on PATH, then rerun this benchmark.''
                       else if kind = PStr ''file'' then ''Create or copy '' @ py_str name
                         @ '' into the repository, then rerun this benchmark.''
                       else ''Provide missing '' @ py_str kind @ '' '' @ py_str name @ '', then rerun this benchmark.'')
        in PDict [(''name'', name), (''kind'', kind), (''reason'', PStr (''missing_'' @ py_str kind)),
                  (''resolution'', if truthy install then install else PStr command)])
        (filter (\<lambda>st. \<not> (st_available st \<or> st_get st ''kind'' PNone = PStr ''model_artifact'')) sts))"

definition blocked_assets :: "status list \<Rightarrow> pyv list" where
  "blocked_assets sts =
     map (\<lambda>st. PDict
       [(''name'', st_get st ''name'' PNone),
        (''reason'', st_get st ''blocked_reason'' (PStr ''unavailable_model_artifact'')),
        (''blocker_id'', st_get st ''blocker_id'' (PStr ''MODEL_ARTIFACT_UNAVAILABLE'')),
        (''pipeline_visible'', st_get st ''pipeline_visible'' (PBool True)),
        (''release_blocking'', st_get st ''release_blocking'' (PBool True)),
        (''resolution'', st_get st ''resolution'' (PStr []))])
       (filter (\<lambda>st. \<not> st_available st \<and> is_artifact st) sts)"

text \<open>The first word of a command is replaced by the executable that was found for it.\<close>

definition command_with_resolved_executable :: "string list \<Rightarrow> status list \<Rightarrow> string list" where
  "command_with_resolved_executable command sts =
     (case command of [] \<Rightarrow> command
      | executable # args \<Rightarrow>
          (case find (\<lambda>st. st_get st ''kind'' PNone = PStr ''executable''
                 \<and> st_get st ''name'' PNone = PStr executable
                 \<and> st_available st \<and> truthy (st_get st ''path'' PNone)) sts of
             None \<Rightarrow> command
           | Some st \<Rightarrow> py_str (st_get st ''path'' PNone) # args))"

end
