(* ===== verification/Py_Regex.thy ===== *)
theory Py_Regex
  imports Py_Value
begin

text \<open>
  The fragment of Python's \<open>re\<close> the scripts use: a backtracking matcher that lists its
  results in order of priority (greedy or lazy repetition, left alternative first), with
  groups, anchors and case-insensitive letters.
\<close>

section \<open>Patterns and matching\<close>

text \<open>A character set is a list of code ranges, possibly negated.\<close>

datatype rx =
    REps
  | RSet bool "(int \<times> int) list"
  | RSeq rx rx
  | RAlt rx rx
  | RStar rx
  | RLazy rx
  | RGroup nat rx
  | RBol
  | REol
  | RWordB

type_synonym caps = "(nat \<times> nat \<times> nat) list"

definition upper_char :: "char \<Rightarrow> char" where
  "upper_char c = (let n = of_char c :: int in if 97 \<le> n \<and> n \<le> 122 then char_of (n - 32) else c)"

definition in_ranges :: "(int \<times> int) list \<Rightarrow> char \<Rightarrow> bool" where
  "in_ranges rs c \<longleftrightarrow> list_ex (\<lambda>(a, b). a \<le> of_char c \<and> of_char c \<le> b) rs"

definition set_matches :: "bool \<Rightarrow> bool \<Rightarrow> (int \<times> int) list \<Rightarrow> char \<Rightarrow> bool" where
  "set_matches ic neg rs c \<longleftrightarrow>
     (if ic then in_ranges rs (lower_char c) \<or> in_ranges rs (upper_char c) else in_ranges rs c) \<noteq> neg"

definition WORD_RANGES :: "(int \<times> int) list" where
  "WORD_RANGES = [(48, 57), (65, 90), (95, 95), (97, 122), (170, 170), (178, 179), (181, 181),
     (185, 186), (188, 190), (192, 214), (216, 246), (248, 255)]"

definition is_word :: "char \<Rightarrow> bool" where
  "is_word c \<longleftrightarrow> in_ranges WORD_RANGES c"

text \<open>Repetition: every further round must consume something.\<close>

fun star_rounds :: "(nat \<Rightarrow> caps \<Rightarrow> (nat \<times> caps) list) \<Rightarrow> nat \<Rightarrow> nat \<Rightarrow> caps \<Rightarrow> (nat \<times> caps) list" where
  "star_rounds f 0 pos g = [(pos, g)]"
| "star_rounds f (Suc n) pos g =
     concat (map (\<lambda>(p, h). if pos < p then star_rounds f n p h else []) (f pos g)) @ [(pos, g)]"

fun lazy_rounds :: "(nat \<Rightarrow> caps \<Rightarrow> (nat \<times> caps) list) \<Rightarrow> nat \<Rightarrow> nat \<Rightarrow> caps \<Rightarrow> (nat \<times> caps) list" where
  "lazy_rounds f 0 pos g = [(pos, g)]"
| "lazy_rounds f (Suc n) pos g =
     (pos, g) # concat (map (\<lambda>(p, h). if pos < p then lazy_rounds f n p h else []) (f pos g))"

primrec rx_match :: "rx \<Rightarrow> bool \<Rightarrow> string \<Rightarrow> nat \<Rightarrow> caps \<Rightarrow> (nat \<times> caps) list" where
  "rx_match REps ic s pos g = [(pos, g)]"
| "rx_match (RSet neg rs) ic s pos g =
     (if pos < length s \<and> set_matches ic neg rs (s ! pos) then [(Suc pos, g)] else [])"
| "rx_match (RSeq r1 r2) ic s pos g =
     concat (map (\<lambda>(p, h). rx_match r2 ic s p h) (rx_match r1 ic s pos g))"
| "rx_match (RAlt r1 r2) ic s pos g = rx_match r1 ic s pos g @ rx_match r2 ic s pos g"
| "rx_match (RStar r) ic s pos g = star_rounds (rx_match r ic s) (length s - pos) pos g"
| "rx_match (RLazy r) ic s pos g = lazy_rounds (rx_match r ic s) (length s - pos) pos g"
| "rx_match (RGroup k r) ic s pos g =
     map (\<lambda>(p, h). (p, (k, pos, p) # h)) (rx_match r ic s pos g)"
| "rx_match RBol ic s pos g =
     (if pos = 0 \<or> pos \<le> length s \<and> s ! (pos - 1) = CHR 0x0A then [(pos, g)] else [])"
| "rx_match REol ic s pos g =
     (if pos = length s \<or> pos < length s \<and> s ! pos = CHR 0x0A then [(pos, g)] else [])"
| "rx_match RWordB ic s pos g =
     (let prev = (0 < pos \<and> pos \<le> length s \<and> is_word (s ! (pos - 1)));
          here = (pos < length s \<and> is_word (s ! pos))
      in if prev \<noteq> here then [(pos, g)] else [])"

text \<open>\<open>re.search\<close> and \<open>re.match\<close>: the first match at the least start position, or at 0.\<close>

definition rx_at :: "rx \<Rightarrow> bool \<Rightarrow> string \<Rightarrow> nat \<Rightarrow> (nat \<times> nat \<times> caps) option" where
  "rx_at r ic s i = (case rx_match r ic s i [] of [] \<Rightarrow> None | (p, g) # _ \<Rightarrow> Some (i, p, g))"

fun search_from :: "rx \<Rightarrow> bool \<Rightarrow> string \<Rightarrow> nat list \<Rightarrow> (nat \<times> nat \<times> caps) option" where
  "search_from r ic s [] = None"
| "search_from r ic s (i # is) = (case rx_at r ic s i of None \<Rightarrow> search_from r ic s is | Some m \<Rightarrow> Some m)"

definition rx_search :: "rx \<Rightarrow> bool \<Rightarrow> string \<Rightarrow> (nat \<times> nat \<times> caps) option" where
  "rx_search r ic s = search_from r ic s [0..<Suc (length s)]"

text \<open>\<open>re.fullmatch\<close>: some match ends at the end of the text.\<close>

definition rx_fullmatch :: "rx \<Rightarrow> string \<Rightarrow> bool" where
  "rx_fullmatch r s \<longleftrightarrow> list_ex (\<lambda>(p, g). p = length s) (rx_match r False s 0 [])"

text \<open>\<open>re.finditer\<close>, on patterns that never match the empty text.\<close>

fun rx_all :: "nat \<Rightarrow> rx \<Rightarrow> bool \<Rightarrow> string \<Rightarrow> nat \<Rightarrow> (nat \<times> nat \<times> caps) list" where
  "rx_all 0 r ic s i = []"
| "rx_all (Suc n) r ic s i =
     (case search_from r ic s [i..<Suc (length s)] of
        None \<Rightarrow> []
      | Some (a, b, g) \<Rightarrow> (a, b, g) # rx_all n r ic s (max b (Suc a)))"

definition rx_finditer :: "rx \<Rightarrow> bool \<Rightarrow> string \<Rightarrow> (nat \<times> nat \<times> caps) list" where
  "rx_finditer r ic s = rx_all (Suc (length s)) r ic s 0"

text \<open>\<open>re.sub(p, repl, s)\<close> for a fixed replacement: the text between the matches is kept.\<close>

fun sub_from :: "string \<Rightarrow> string \<Rightarrow> nat \<Rightarrow> (nat \<times> nat \<times> caps) list \<Rightarrow> string" where
  "sub_from repl s i [] = drop i s"
| "sub_from repl s i ((a, b, g) # ms) = take (a - i) (drop i s) @ repl @ sub_from repl s b ms"

definition rx_sub :: "rx \<Rightarrow> string \<Rightarrow> string \<Rightarrow> string" where
  "rx_sub r repl s = sub_from repl s 0 (rx_finditer r False s)"

text \<open>\<open>match.group(k)\<close> of a group that took part: the last time it matched.\<close>

definition group_text :: "string \<Rightarrow> caps \<Rightarrow> nat \<Rightarrow> string" where
  "group_text s g k = (case map_of g k of None \<Rightarrow> [] | Some (a, b) \<Rightarrow> take (b - a) (drop a s))"

section \<open>Building patterns\<close>

abbreviation ranges :: "(int \<times> int) list \<Rightarrow> rx" where "ranges rs \<equiv> RSet False rs"

definition rx_char :: "char \<Rightarrow> rx" where
  "rx_char c = RSet False [(of_char c, of_char c)]"

definition rx_seq :: "rx list \<Rightarrow> rx" where
  "rx_seq rs = foldr RSeq rs REps"

lemma rx_seq_simps [simp]: "rx_seq [] = REps" "rx_seq (r # rs) = RSeq r (rx_seq rs)"
  by (simp_all add: rx_seq_def)

definition rx_lit :: "string \<Rightarrow> rx" where
  "rx_lit s = rx_seq (map rx_char s)"

definition rx_alts :: "rx list \<Rightarrow> rx" where
  "rx_alts rs = (case rs of [] \<Rightarrow> RSet False [] | r # rs \<Rightarrow> foldl RAlt r rs)"

definition rx_opt :: "rx \<Rightarrow> rx" where "rx_opt r = RAlt r REps"
definition rx_plus :: "rx \<Rightarrow> rx" where "rx_plus r = RSeq r (RStar r)"

definition rx_digit :: rx where "rx_digit = RSet False [(48, 57)]"
definition rx_space :: rx where "rx_space = RSet False [(9, 13), (28, 32), (133, 133), (160, 160)]"
definition rx_any :: rx where "rx_any = RSet True [(10, 10)]"

text \<open>\<open>.\<close> under \<open>DOTALL\<close>, and \<open>\w\<close>.\<close>

definition rx_dot_all :: rx where "rx_dot_all = RSet True []"
definition rx_word :: rx where "rx_word = RSet False WORD_RANGES"

text \<open>\<open>[0-9]+(?:\.[0-9]+)?\<close>.\<close>

definition rx_number :: rx where
  "rx_number = RSeq (rx_plus rx_digit) (rx_opt (RSeq (rx_char (CHR ''.'')) (rx_plus rx_digit)))"

section \<open>What a match is\<close>

lemma star_rounds_bounds:
  assumes "\<And>pos g p h. (p, h) \<in> set (f pos g) \<Longrightarrow> pos \<le> L \<Longrightarrow> pos \<le> p \<and> p \<le> L"
  shows "(p, h) \<in> set (star_rounds f n pos g) \<Longrightarrow> pos \<le> L \<Longrightarrow> pos \<le> p \<and> p \<le> L"
proof (induction n arbitrary: pos g)
  case (Suc n)
  then show ?case using assms by (fastforce split: if_splits)
qed simp

lemma lazy_rounds_bounds:
  assumes "\<And>pos g p h. (p, h) \<in> set (f pos g) \<Longrightarrow> pos \<le> L \<Longrightarrow> pos \<le> p \<and> p \<le> L"
  shows "(p, h) \<in> set (lazy_rounds f n pos g) \<Longrightarrow> pos \<le> L \<Longrightarrow> pos \<le> p \<and> p \<le> L"
proof (induction n arbitrary: pos g)
  case (Suc n)
  then show ?case using assms by (fastforce split: if_splits)
qed simp

lemma rx_match_bounds:
  "(p, h) \<in> set (rx_match r ic s pos g) \<Longrightarrow> pos \<le> length s \<Longrightarrow> pos \<le> p \<and> p \<le> length s"
proof (induction r arbitrary: pos g p h)
  case (RSeq r1 r2)
  then show ?case by fastforce
next
  case (RLazy r)
  show ?case
    using lazy_rounds_bounds [of "rx_match r ic s" "length s", OF RLazy.IH] RLazy.prems by simp
next
  case (RStar r)
  show ?case
    using star_rounds_bounds [of "rx_match r ic s" "length s", OF RStar.IH] RStar.prems by simp
qed (auto split: if_splits simp: Let_def)

lemma search_from_in: "search_from r ic s is = Some (a, b, g) \<Longrightarrow> a \<in> set is \<and> rx_at r ic s a = Some (a, b, g)"
  by (induction "is") (auto simp: rx_at_def split: option.splits list.splits)

lemma rx_search_bounds: "rx_search r ic s = Some (a, b, g) \<Longrightarrow> a \<le> b \<and> b \<le> length s"
  using search_from_in [of r ic s "[0..<Suc (length s)]" a b g] rx_match_bounds [of b g r ic s a "[]"]
  by (auto simp: rx_search_def rx_at_def split: list.splits prod.splits)

text \<open>A fixed number of characters of a class.\<close>

lemma rx_match_replicate:
  "rx_match (rx_seq (replicate n (RSet neg rs))) ic s pos g =
     (if pos + n \<le> length s \<and> (\<forall>i < n. set_matches ic neg rs (s ! (pos + i))) \<or> n = 0
      then [(pos + n, g)] else [])"
proof (induction n arbitrary: pos)
  case 0
  then show ?case by simp
next
  case (Suc n)
  have "rx_match (rx_seq (replicate (Suc n) (RSet neg rs))) ic s pos g
      = (if pos < length s \<and> set_matches ic neg rs (s ! pos)
         then rx_match (rx_seq (replicate n (RSet neg rs))) ic s (Suc pos) g else [])"
    by auto
  also have "\<dots> = (if pos + Suc n \<le> length s \<and> (\<forall>i < Suc n. set_matches ic neg rs (s ! (pos + i)))
      then [(pos + Suc n, g)] else [])"
    using Suc.IH [of "Suc pos"] by (auto simp: All_less_Suc2)
  finally show ?case by simp
qed

lemma rx_fullmatch_replicate:
  "rx_fullmatch (rx_seq (replicate n (RSet neg rs))) s \<longleftrightarrow> length s = n \<and> list_all (set_matches False neg rs) s"
  by (cases "n = 0") (auto simp: rx_fullmatch_def rx_match_replicate list_all_length)

end
