(* ===== verification/Bench_Capability.thy ===== *)
theory Bench_Capability
  imports Bench_Deps Py_Regex
begin

text \<open>
  The check of a capability proof file (\<open>capability_artifact_status\<close> of
  \<open>benchmarks/run_benchmarks.py\<close>), one definition per section of it. A section returns the
  messages it appends, or the exception it lets escape.
\<close>

section \<open>Shared tests\<close>

definition SHA256_RE :: rx where
  "SHA256_RE = rx_seq (replicate 64 (RSet False [(48, 57), (97, 102)]))"

definition is_sha256 :: "pyv \<Rightarrow> bool" where
  "is_sha256 v \<longleftrightarrow> is_str v \<and> rx_fullmatch SHA256_RE (as_str v)"

definition positive_int :: "pyv \<Rightarrow> bool" where
  "positive_int v \<longleftrightarrow> is_plain_int v \<and> 0 < as_int v"

text \<open>\<open>value in (None, "", [], {})\<close>.\<close>

definition is_empty_value :: "pyv \<Rightarrow> bool" where
  "is_empty_value v \<longleftrightarrow> v \<in> {PNone, PStr [], PList [], PDict []}"

text \<open>\<open>d.get(k)\<close> on a dictionary with any key: an unhashable key raises, a foreign one is absent.\<close>

definition get_any :: "pyv \<Rightarrow> pyv \<Rightarrow> pyv py" where
  "get_any d k = (if is_list k \<or> is_dict k then Inl PyTypeError
     else Inr (if is_str k then get d (as_str k) else PNone))"

section \<open>Sections of the check\<close>

definition cap_identity_errors :: "pyv \<Rightarrow> pyv \<Rightarrow> string list" where
  "cap_identity_errors prf data =
     (let schema = get prf ''schema''; accel = get prf ''accelerator_name'' in
      err_if (truthy schema \<and> \<not> py_eq (get data ''schema'') schema) (''schema must be '' @ py_str schema)
      @ err_if (truthy accel \<and> \<not> py_eq (get data ''accelerator_name'') accel)
          (''accelerator_name must be '' @ py_str accel)
      @ concat (map (\<lambda>field. err_if (\<not> nonempty_str (get data field)) (field @ '' must be a non-empty string''))
          [''target'', ''generated_by'', ''date_utc'']))"

definition cap_nnapi_errors :: "pyv \<Rightarrow> pyv \<Rightarrow> string list py" where
  "cap_nnapi_errors prf data =
     (let nnapi = get data ''nnapi''; accel = get prf ''accelerator_name'' in
      if \<not> is_dict nnapi then Inr [''nnapi must be an object'']
      else
        let fallback = get nnapi ''cpu_fallback_percent''; max_fallback = get prf ''max_cpu_fallback_percent'';
            unsupported = get nnapi ''unsupported_op_count''; max_unsupported = get prf ''max_unsupported_op_count'';
            delegated = get nnapi ''delegated_node_count''; total = get nnapi ''total_node_count''
        in collect
          [Inr (err_if (truthy accel \<and> \<not> py_eq (get nnapi ''accelerator_name'') accel)
             (''nnapi.accelerator_name must be '' @ py_str accel)),
           (if \<not> is_json_number fallback then Inr [''nnapi.cpu_fallback_percent must be numeric'']
            else if max_fallback = PNone then Inr []
            else rbind (py_lt max_fallback fallback) (\<lambda>above. Inr (err_if above
              (''nnapi.cpu_fallback_percent must be <= '' @ py_str max_fallback @ ''; got '' @ py_str fallback)))),
           (if \<not> is_plain_int unsupported then Inr [''nnapi.unsupported_op_count must be an integer'']
            else if max_unsupported = PNone then Inr []
            else rbind (py_lt max_unsupported unsupported) (\<lambda>above. Inr (err_if above
              (''nnapi.unsupported_op_count must be <= '' @ py_str max_unsupported @ ''; got '' @ py_str unsupported)))),
           Inr (concat (map (\<lambda>field. let v = get nnapi field in
             err_if (\<not> is_plain_int v \<or> as_int v < 0) (''nnapi.'' @ field @ '' must be a non-negative integer''))
             [''delegated_node_count'', ''total_node_count''])),
           Inr (if is_int delegated \<and> is_int total then
                  if as_int total \<le> 0 then [''nnapi.total_node_count must be greater than zero'']
                  else err_if (as_int total < as_int delegated)
                    ''nnapi.delegated_node_count must be <= nnapi.total_node_count''
                else [])])"

definition cap_field_errors :: "pyv \<Rightarrow> pyv \<Rightarrow> string list py" where
  "cap_field_errors prf data =
     rbind (py_iter (get_or prf ''required_json_fields'' (PList []))) (\<lambda>fields.
     collect (map (\<lambda>f. if \<not> is_str f then Inl PyAttributeError
       else Inr (err_if (is_empty_value (dotted_get data (as_str f))) (as_str f @ '' must be present and non-empty'')))
       fields))"

text \<open>The measured throughput against the one the counters imply.\<close>

definition tops_from_counters :: "pyv \<Rightarrow> pyv \<Rightarrow> pyv \<Rightarrow> pyfloat py" where
  "tops_from_counters macs cycles hz =
     rbind (pynum (float_of_int (as_int macs))) (\<lambda>m.
     rbind (py_float hz) (\<lambda>h.
     rbind (pynum (float_of_int (as_int cycles))) (\<lambda>c.
     rbind (pynum (float_div c h)) (\<lambda>seconds.
     rbind (pynum (float_div (float_mul m (float_lit 2)) seconds)) (\<lambda>rate.
     pynum (float_div rate (float_lit (10 ^ 12))))))))"

definition cap_tops_errors :: "pyv \<Rightarrow> string list py" where
  "cap_tops_errors data =
     (let macs = dotted_get data ''measurements.macs_per_inference'';
          cycles = dotted_get data ''measurements.npu_cycles'';
          hz = dotted_get data ''measurements.npu_hz'';
          tops = dotted_get data ''measurements.observed_tops''
      in if is_plain_int macs \<and> is_plain_int cycles \<and> is_json_number hz \<and> is_json_number tops
            \<and> 0 < as_int cycles \<and> float_lt (Fin 0) (as_num hz)
         then rbind (tops_from_counters macs cycles hz) (\<lambda>bound.
           collect
             [Inr (err_if (float_lt (float_mul bound (float_lit (105 / 100))) (as_num tops))
                ''measurements.observed_tops exceeds MAC/cycle/hz-derived upper bound''),
              (if float_lt (Fin 0) bound then
                 rbind (py_float tops) (\<lambda>t.
                 Inr (err_if (float_lt (float_mul bound (float_lit (5 / 100))) (float_abs (float_sub t bound)))
                   ''measurements.observed_tops must match MAC/cycle/hz-derived value within 5%''))
               else Inr [])])
         else Inr [])"

definition cap_measurement_errors :: "pyv \<Rightarrow> string list py" where
  "cap_measurement_errors data =
     collect
       (map (\<lambda>field. Inr (err_if (\<not> positive_int (dotted_get data field))
            (field @ '' must be positive integer evidence'')))
          [''measurements.macs_per_inference'', ''measurements.npu_cycles'']
        @ map (\<lambda>field. let v = dotted_get data field; msg = field @ '' must be positive numeric evidence'' in
            if \<not> is_json_number v then Inr [msg]
            else rbind (py_float v) (\<lambda>x. Inr (err_if (float_le x (Fin 0)) msg)))
          [''measurements.npu_hz'', ''measurements.observed_tops'']
        @ [cap_tops_errors data])"

definition cap_e1_npu_errors :: "pyv \<Rightarrow> string list py" where
  "cap_e1_npu_errors data =
     (let commands = dotted_get data ''capture.commands'';
          dataflow_name = dotted_get data ''dataflow.name'';
          formula = dotted_get data ''measurements.tops_formula''
      in collect
       [Inr (if \<not> is_dict commands then [''capture.commands must be an object'']
             else concat (map (\<lambda>(name, command). err_if (\<not> py_eq (get commands name) (PStr command))
               (''capture.commands.'' @ name @ '' must be exactly '' @ repr_str command))
               E1_NPU_REQUIRED_CAPTURE_COMMANDS)),
        rbind (in_names (dotted_get data ''capability.claim_level'')
            [''L4_DEV_BOARD'', ''L5_PROTOTYPE_SILICON'', ''L6_COMPLETE_PHONE'']) (\<lambda>ok. Inr (err_if (\<not> ok)
          ''capability.claim_level must be L4_DEV_BOARD, L5_PROTOTYPE_SILICON, or L6_COMPLETE_PHONE'')),
        rbind (in_names (dotted_get data ''capability.precision'')
            [''int8'', ''int4'', ''int2'', ''fp8'', ''bf16'', ''fp16'']) (\<lambda>ok. Inr (err_if (\<not> ok)
          ''capability.precision must identify a real accelerator precision'')),
        rbind (in_names (dotted_get data ''dma.path'') [''hardware_dma'', ''coherent_dma'']) (\<lambda>ok.
          Inr (err_if (\<not> ok) ''dma.path must be hardware_dma or coherent_dma'')),
        Inr (concat (map (\<lambda>field. err_if (\<not> positive_int (dotted_get data field))
          (field @ '' must be a positive integer'')) [''dma.bytes_read'', ''dma.bytes_written''])),
        Inr (err_if (\<not> nonempty_str dataflow_name) ''dataflow.name must be a non-empty string''),
        cap_measurement_errors data,
        Inr (err_if (\<not> is_str formula \<or> \<not> contains ''mac'' (lower (as_str formula))
                     \<or> \<not> contains ''cycle'' (lower (as_str formula)))
          ''measurements.tops_formula must state the MAC/cycle based calculation'')])"

definition cap_model_error :: "world \<Rightarrow> ppath \<Rightarrow> pyv \<Rightarrow> pyv \<Rightarrow> string list py" where
  "cap_model_error w repo models model_path =
     rbind (get_any models model_path) (\<lambda>entry.
     let recorded = get entry ''sha256''; shown = py_str model_path;
         local_model = path_join repo (path_of (as_str model_path))
     in if \<not> is_dict entry then Inr [''model_artifacts.'' @ shown @ '' must be an object'']
         else if \<not> is_sha256 recorded then
           Inr [''model_artifacts.'' @ shown @ ''.sha256 must be a lowercase SHA-256 hex string'']
         else if \<not> is_file w local_model then Inr [''model artifact '' @ shown @ '' is missing'']
         else rbind (sha256_file w local_model) (\<lambda>actual.
           Inr (err_if (lower (as_str recorded) \<noteq> actual)
             (''model_artifacts.'' @ shown @ ''.sha256 does not match current repository file''))))"

definition cap_model_errors :: "world \<Rightarrow> ppath \<Rightarrow> pyv \<Rightarrow> pyv \<Rightarrow> string list py" where
  "cap_model_errors w repo prf data =
     (let models = get data ''model_artifacts''; required = get_or prf ''required_model_artifacts'' (PList []) in
      if truthy required \<and> \<not> is_dict models then Inr [''model_artifacts must be an object'']
      else if is_dict models then
        rbind (py_iter required) (\<lambda>paths. collect (map (cap_model_error w repo models) paths))
      else Inr [])"

text \<open>One required transcript: its messages, and its path when it was found.\<close>

definition cap_transcript :: "world \<Rightarrow> ppath \<Rightarrow> pyv \<Rightarrow> pyv \<Rightarrow> (string list \<times> ppath option) py" where
  "cap_transcript w repo transcripts name =
     rbind (get_any transcripts name) (\<lambda>entry.
      let pre = ''transcripts.'' @ py_str name; rel = get entry ''path'' in
      if \<not> is_dict entry then Inr ([pre @ '' must be an object with path, sha256, and bytes''], None)
      else if \<not> nonempty_str rel then Inr ([pre @ ''.path must name a non-empty file''], None)
      else if pabs (path_of (as_str rel)) then Inr ([pre @ ''.path must be repo-relative''], None)
      else
        let path = path_join repo (path_of (as_str rel)) in
        if \<not> is_file w path \<or> wd_file w path = Some [] then
          Inr ([''transcript '' @ as_str rel @ '' is missing or empty''], None)
        else
          let expected_sha = get entry ''sha256''; expected_bytes = get entry ''bytes'' in
          rbind (if \<not> is_sha256 expected_sha then Inr [pre @ ''.sha256 must be lowercase SHA-256 hex'']
                 else rbind (sha256_file w path) (\<lambda>actual.
                   Inr (err_if (as_str expected_sha \<noteq> actual) (pre @ ''.sha256 does not match '' @ as_str rel)))) (\<lambda>e1.
          rbind (stat_size w path) (\<lambda>actual_bytes.
          let e2 = (if \<not> is_plain_int expected_bytes then [pre @ ''.bytes must be an integer byte count'']
                    else err_if (as_int expected_bytes \<noteq> actual_bytes)
                      (pre @ ''.bytes must match '' @ as_str rel @ ''; got '' @ py_str expected_bytes
                       @ '', expected '' @ dec_str actual_bytes))
          in Inr (e1 @ e2, Some path))))"

definition cap_transcripts ::
  "world \<Rightarrow> ppath \<Rightarrow> pyv \<Rightarrow> pyv \<Rightarrow> (string list \<times> (string \<times> ppath) list) py" where
  "cap_transcripts w repo prf data =
     (let transcripts = get data ''transcripts'' in
      if \<not> is_dict transcripts \<or> \<not> truthy transcripts then Inr ([''transcripts must be a non-empty object''], [])
      else rbind (py_iter (get_or prf ''required_files'' (PList []))) (\<lambda>names.
        foldR (\<lambda>name (errs, found).
          rbind (cap_transcript w repo transcripts name) (\<lambda>(es, p).
          Inr (errs @ es, case p of None \<Rightarrow> found | Some q \<Rightarrow> dset found (as_str name) q)))
          names ([], [])))"

definition cap_dma_trace_errors :: "world \<Rightarrow> pyv \<Rightarrow> (string \<times> ppath) list \<Rightarrow> string list py" where
  "cap_dma_trace_errors w data found =
     (let bytes = dotted_get data ''dma.trace_bytes'' in
      case dget found ''dma_trace'' of
        None \<Rightarrow> Inr [''dma.trace_bytes requires a validated dma_trace transcript'']
      | Some path \<Rightarrow>
          if \<not> is_plain_int bytes then Inr [''dma.trace_bytes must be an integer byte count'']
          else rbind (stat_size w path) (\<lambda>size.
            Inr (err_if (as_int bytes \<noteq> size) ''dma.trace_bytes must match transcripts.dma_trace.bytes'')))"

definition cap_marker_errors :: "world \<Rightarrow> ppath \<Rightarrow> pyv \<Rightarrow> (string \<times> ppath) list \<Rightarrow> string list py" where
  "cap_marker_errors w repo prf found =
     (let markers = get_or prf ''required_transcript_markers'' (PDict []) in
      if \<not> is_dict markers then Inl PyAttributeError
      else collect (map (\<lambda>(name, ms).
        case dget found name of None \<Rightarrow> Inr []
        | Some path \<Rightarrow>
            let rel = (case relative_to path repo of None \<Rightarrow> path_str path | Some q \<Rightarrow> path_str q) in
            (case read_text w path of
               Inl _ \<Rightarrow> Inr [''transcript '' @ rel @ '' could not be read: '' @ path_str path]
             | Inr text' \<Rightarrow> rbind (py_iter ms) (\<lambda>items. collect (map (\<lambda>m.
                 if \<not> is_str m then Inl PyTypeError
                 else Inr (err_if (\<not> contains (as_str m) text')
                   (''transcript '' @ rel @ '' must contain '' @ py_repr m))) items))))
        (as_dict markers)))"

section \<open>The status of a capability artifact\<close>

definition cap_errors ::
  "world \<Rightarrow> ppath \<Rightarrow> pyv \<Rightarrow> pyv \<Rightarrow> (string list \<times> (string \<times> ppath) list) py" where
  "cap_errors w repo prf data =
     (if \<not> is_dict data then Inl PyAttributeError
      else
        rbind (collect
          [Inr (cap_identity_errors prf data),
           cap_nnapi_errors prf data,
           cap_field_errors prf data,
           (if py_eq (get prf ''schema'') (PStr ''openagent.e1_npu_nnapi_capability.v1'')
            then cap_e1_npu_errors data else Inr []),
           cap_model_errors w repo prf data]) (\<lambda>e1.
        rbind (cap_transcripts w repo prf data) (\<lambda>(e2, found).
        rbind (collect [cap_dma_trace_errors w data found, cap_marker_errors w repo prf found]) (\<lambda>e3.
        Inr (e1 @ e2 @ e3, found)))))"

definition cap_base_status :: "world \<Rightarrow> ppath \<Rightarrow> pyv \<Rightarrow> ppath \<Rightarrow> status" where
  "cap_base_status w repo artifact path =
     [(''name'', get artifact ''path''), (''kind'', PStr ''capability_artifact''),
      (''available'', PBool (is_file w path)), (''path'', PStr (path_str path)),
      (''blocker_id'', get_or artifact ''blocker_id'' (PStr ''CAPABILITY_ARTIFACT_UNAVAILABLE'')),
      (''pipeline_visible'', PBool (truthy (get_or artifact ''pipeline_visible'' (PBool True)))),
      (''release_blocking'', PBool (truthy (get_or artifact ''release_blocking'' (PBool True)))),
      (''resolution'', get_or artifact ''resolution'' (PStr []))]
     @ (if is_file w path then []
        else [(''blocked_reason'', get_or artifact ''blocked_reason'' (PStr ''missing_capability_artifact''))])"

definition cap_block :: "status \<Rightarrow> string \<Rightarrow> string \<Rightarrow> pyv \<Rightarrow> status" where
  "cap_block st reason key detail =
     dset (dset (dset st ''available'' (PBool False)) ''blocked_reason'' (PStr reason)) key detail"

definition capability_artifact_status :: "world \<Rightarrow> ppath \<Rightarrow> pyv \<Rightarrow> status py" where
  "capability_artifact_status w repo artifact =
     rbind (py_item artifact ''path'') (\<lambda>name.
     if \<not> is_str name then Inl PyTypeError else
     let path = path_join repo (path_of (as_str name)); prf = get artifact ''proof'';
         status = cap_base_status w repo artifact path
     in if \<not> is_file w path \<or> \<not> truthy prf then Inr status
        else case rbind (sha256_file w path) (\<lambda>h. rbind (stat_size w path) (\<lambda>n. Inr (h, n))) of
            Inl e \<Rightarrow> Inr (cap_block status ''unreadable_capability_proof'' ''error'' (PStr (path_str path)))
          | Inr (h, n) \<Rightarrow>
              let status1 = dset (dset status ''sha256'' (PStr h)) ''size_bytes'' (PInt n) in
              (case json_file w path of
                 Inl e \<Rightarrow> Inr (cap_block status1 ''invalid_capability_proof'' ''error'' (PStr (path_str path)))
               | Inr data \<Rightarrow>
                   if \<not> is_dict prf then Inl PyAttributeError else
                   rbind (cap_errors w repo prf data) (\<lambda>(errors, found).
                   if errors \<noteq> [] then
                     Inr (cap_block status1 ''invalid_capability_proof'' ''errors'' (PList (map PStr errors)))
                   else
                     rbind (mapR (\<lambda>(name, p). rbind (sha256_file w p) (\<lambda>h. Inr (name, PStr h)))
                              (sort_key fst found)) (\<lambda>hashes.
                     Inr (dupdate status1
                       [(''proof_schema'', get data ''schema''), (''target'', get data ''target''),
                        (''accelerator_name'', get data ''accelerator_name''),
                        (''transcript_sha256'', PDict hashes)])))))"

definition dependency_status :: "world \<Rightarrow> ppath \<Rightarrow> bool \<Rightarrow> pyv \<Rightarrow> status list py" where
  "dependency_status w repo allow_host_smoke bench =
     rbind (py_iter (get_or bench ''requires'' (PList []))) (\<lambda>deps.
     rbind (mapR (\<lambda>dep. if \<not> is_str dep then Inl PyTypeError else
       let cs = command_available w repo (as_str dep) allow_host_smoke;
           st = dupdate [(''name'', dep), (''kind'', PStr ''executable''), (''available'', PBool (cs_available cs)),
                         (''path'', opt_str (cs_path cs))]
                  (executable_metadata w (cs_path cs) repo allow_host_smoke)
             @ (if cs_rejected cs \<noteq> [] then [(''rejected_candidates'', PList (map (\<lambda>(p, r).
                  PDict [(''path'', PStr p), (''reason'', PStr r)]) (cs_rejected cs)))] else [])
             @ (case cs_reason cs of None \<Rightarrow> []
                | Some r \<Rightarrow> [(''blocked_reason'', PStr r),
                    (''resolution'', get_or bench ''install''
                      (PStr (''Install a real '' @ as_str dep @ '' executable on PATH.'')))])
       in Inr st) deps) (\<lambda>execs.
     rbind (py_iter (get_or bench ''required_files'' (PList []))) (\<lambda>files.
     rbind (mapR (\<lambda>f. if \<not> is_str f then Inl PyTypeError else
       let path = path_join repo (path_of (as_str f)) in
       Inr [(''name'', f), (''kind'', PStr ''file''), (''available'', PBool (is_file w path)),
            (''path'', PStr (path_str path))]) files) (\<lambda>file_sts.
     rbind (py_iter (get_or bench ''model_artifacts'' (PList []))) (\<lambda>models.
     rbind (mapR (model_artifact_status w repo) models) (\<lambda>model_sts.
     rbind (py_iter (get_or bench ''capability_artifacts'' (PList []))) (\<lambda>caps.
     rbind (mapR (capability_artifact_status w repo) caps) (\<lambda>cap_sts.
     Inr (execs @ file_sts @ model_sts @ cap_sts)))))))))"

section \<open>What an accepted proof binds\<close>

lemma sha256_file_Inr:
  "sha256_file w p = Inr h \<longleftrightarrow> (\<exists>s. wd_file w p = Some s \<and> wd_readable w p \<and> h = wd_sha256 w s)"
  by (auto simp: sha256_file_def read_bytes_def split: option.splits if_splits)

lemma stat_size_Inr: "stat_size w p = Inr n \<longleftrightarrow> (\<exists>s. wd_file w p = Some s \<and> n = int (length s))"
  by (auto simp: stat_size_def split: option.splits)

text \<open>A transcript entry that names a file and pins its bytes.\<close>

definition transcript_bound :: "world \<Rightarrow> ppath \<Rightarrow> pyv \<Rightarrow> ppath \<Rightarrow> bool" where
  "transcript_bound w repo entry path \<longleftrightarrow>
     (\<exists>rel s. get entry ''path'' = PStr rel \<and> \<not> pabs (path_of rel) \<and> path = path_join repo (path_of rel)
        \<and> wd_file w path = Some s \<and> s \<noteq> [] \<and> get entry ''sha256'' = PStr (wd_sha256 w s)
        \<and> is_plain_int (get entry ''bytes'') \<and> as_int (get entry ''bytes'') = int (length s))"

lemma cap_transcript_clean:
  assumes "cap_transcript w repo ts name = Inr ([], p)"
  shows "\<exists>path s. p = Some path \<and> name = PStr s \<and> transcript_bound w repo (get ts s) path"
proof -
  obtain e where e: "get_any ts name = Inr e" "is_dict e"
    using assms by (auto simp: cap_transcript_def Let_def split: if_splits)
  then obtain s where s: "name = PStr s" "e = get ts s"
    by (auto simp: get_any_def split: if_splits elim!: is_D)
  show ?thesis
    using assms e s
    by (auto simp: cap_transcript_def Let_def transcript_bound_def sha256_file_Inr stat_size_Inr
        is_sha256_def nonempty_str_iff split: if_splits)
qed

lemma cap_transcripts_clean:
  assumes "cap_transcripts w repo prf data = Inr ([], found)"
  shows "is_dict (get data ''transcripts'')
     \<and> (\<exists>names. py_iter (get_or prf ''required_files'' (PList [])) = Inr names
        \<and> (\<forall>n \<in> set names. \<exists>s path. n = PStr s
             \<and> transcript_bound w repo (get (get data ''transcripts'') s) path))"
proof -
  let ?ts = "get data ''transcripts''"
  define f where "f = (\<lambda>name (errs :: string list, found).
     rbind (cap_transcript w repo ?ts name) (\<lambda>(es, p).
     Inr (errs @ es, case p of None \<Rightarrow> found | Some q \<Rightarrow> dset found (as_str name) q)))"
  have loop: "foldR f ns (e0, f0) = Inr ([], g) \<Longrightarrow> e0 = [] \<and> (\<forall>n \<in> set ns. \<exists>s path. n = PStr s
             \<and> transcript_bound w repo (get ?ts s) path)" for ns e0 f0 g
  proof (induction ns arbitrary: e0 f0)
    case (Cons n ns)
    then obtain es p where n: "cap_transcript w repo ?ts n = Inr (es, p)"
      and rest: "foldR f ns (e0 @ es, case p of None \<Rightarrow> f0 | Some q \<Rightarrow> dset f0 (as_str n) q) = Inr ([], g)"
      by (auto simp: f_def)
    from Cons.IH [OF rest] n cap_transcript_clean [of w repo ?ts n p] show ?case by auto
  qed simp
  show ?thesis
    using assms loop by (auto simp: cap_transcripts_def Let_def f_def [symmetric] split: if_splits)
qed

lemma st_available_dset:
  "st_available (dset st k v) \<longleftrightarrow> (if k = ''available'' then truthy v else st_available st)"
  by (simp add: st_available_def st_get_def)

lemma cap_block_unavailable: "key \<noteq> ''available'' \<Longrightarrow> \<not> st_available (cap_block st r key d)"
  by (simp add: cap_block_def st_available_dset)

lemma capability_available:
  assumes "capability_artifact_status w repo a = Inr st" and "st_available st" and "truthy (get a ''proof'')"
  shows "\<exists>name data found. get a ''path'' = PStr name \<and> json_file w (path_join repo (path_of name)) = Inr data
     \<and> cap_errors w repo (get a ''proof'') data = Inr ([], found)"
proof -
  obtain name where name: "get a ''path'' = PStr name" "is_dict a" "has_key a ''path''"
    using assms(1) by (auto simp: capability_artifact_status_def py_item_Inr split: if_splits)
  define path where "path = path_join repo (path_of name)"
  have item: "py_item a ''path'' = Inr (PStr name)" using name by (simp add: py_item_Inr)
  have isf: "is_file w path"
  proof (rule ccontr)
    assume "\<not> is_file w path"
    then have "st = cap_base_status w repo a path"
      using assms(1) item by (simp add: capability_artifact_status_def Let_def path_def)
    then show False using assms(2) \<open>\<not> is_file w path\<close>
      by (simp add: cap_base_status_def st_available_def st_get_def)
  qed
  show ?thesis
    using assms item isf cap_block_unavailable
    by (auto simp: capability_artifact_status_def Let_def path_def [symmetric] name(1)
        split: sum.splits if_splits)
qed

text \<open>C14: A capability artifact with a proof is reported available only if the proof file
decodes to a dictionary without a single complaint, and then every transcript it must contain
names a repository-relative, non-empty file whose present bytes have exactly the recorded
SHA-256 digest and length.\<close>
theorem capability_evidence_bound:
  assumes "capability_artifact_status w repo a = Inr st" and "st_available st" and "truthy (get a ''proof'')"
  shows "\<exists>name data found names. get a ''path'' = PStr name
     \<and> json_file w (path_join repo (path_of name)) = Inr data
     \<and> cap_errors w repo (get a ''proof'') data = Inr ([], found)
     \<and> py_iter (get_or (get a ''proof'') ''required_files'' (PList [])) = Inr names
     \<and> (\<forall>n \<in> set names. \<exists>s path. n = PStr s
          \<and> transcript_bound w repo (get (get data ''transcripts'') s) path)"
proof -
  obtain name data found where c: "get a ''path'' = PStr name"
    "json_file w (path_join repo (path_of name)) = Inr data"
    "cap_errors w repo (get a ''proof'') data = Inr ([], found)"
    using capability_available [OF assms] by blast
  have "cap_transcripts w repo (get a ''proof'') data = Inr ([], found)"
    using c(3) by (auto simp: cap_errors_def split: if_splits)
  from cap_transcripts_clean [OF this] c show ?thesis by blast
qed

text \<open>A world with one accepted proof file.\<close>

definition demo_digest :: string where
  "demo_digest = replicate 64 (CHR ''a'')"

definition demo_proof :: pyv where
  "demo_proof = PDict
     [(''target'', PStr ''t''), (''generated_by'', PStr ''g''), (''date_utc'', PStr ''d''),
      (''nnapi'', PDict [(''cpu_fallback_percent'', PInt 0), (''unsupported_op_count'', PInt 0),
         (''delegated_node_count'', PInt 1), (''total_node_count'', PInt 1)]),
      (''transcripts'', PDict [(''dma_trace'', PDict [(''path'', PStr ''t''),
         (''sha256'', PStr demo_digest), (''bytes'', PInt 1)])]),
      (''dma'', PDict [(''trace_bytes'', PInt 1)])]"

definition demo_world :: world where
  "demo_world = \<lparr>wd_file = (\<lambda>p. if p = PPath True [''r'', ''p''] then Some ''P''
        else if p = PPath True [''r'', ''t''] then Some ''x'' else None),
     wd_readable = (\<lambda>p. True), wd_is_dir = (\<lambda>p. False), wd_executable = (\<lambda>p. False),
     wd_resolve = (\<lambda>p. p), wd_env_path = [], wd_sha256 = (\<lambda>s. demo_digest),
     wd_json = (\<lambda>s. if s = ''P'' then Some demo_proof else None), wd_yaml = (\<lambda>_. None), wd_list = (\<lambda>_. []), wd_run = (\<lambda>c e t. Completed 0 [])\<rparr>"

definition demo_artifact :: pyv where
  "demo_artifact = PDict [(''path'', PStr ''p''), (''proof'', PDict [(''required_files'', PList [PStr ''dma_trace''])])]"

lemma is_sha256_iff:
  "is_sha256 v \<longleftrightarrow> (\<exists>s. v = PStr s \<and> length s = 64 \<and> list_all (in_ranges [(48, 57), (97, 102)]) s)"
  by (cases v) (simp_all add: is_sha256_def SHA256_RE_def rx_fullmatch_replicate set_matches_def [abs_def])

lemma demo_available:
  "case capability_artifact_status demo_world (PPath True [''r'']) demo_artifact of
     Inl e \<Rightarrow> False | Inr st \<Rightarrow> st_available st"
  by code_simp

theorem capability_evidence_bound_witness:
  "\<exists>st names. capability_artifact_status demo_world (PPath True [''r'']) demo_artifact = Inr st
     \<and> py_iter (get_or (get demo_artifact ''proof'') ''required_files'' (PList [])) = Inr names
     \<and> names \<noteq> []
     \<and> (\<forall>n \<in> set names. \<exists>s path. n = PStr s
          \<and> transcript_bound demo_world (PPath True [''r'']) (get (get demo_proof ''transcripts'') s) path)"
proof -
  obtain st where st: "capability_artifact_status demo_world (PPath True [''r'']) demo_artifact = Inr st" "st_available st"
    using demo_available by (auto split: sum.splits)
  have "truthy (get demo_artifact ''proof'')" by (simp add: demo_artifact_def get_def get_or_def)
  from capability_evidence_bound [OF st this] obtain name data names where
    n: "get demo_artifact ''path'' = PStr name"
      "json_file demo_world (path_join (PPath True [''r'']) (path_of name)) = Inr data"
      "py_iter (get_or (get demo_artifact ''proof'') ''required_files'' (PList [])) = Inr names"
      "\<forall>n \<in> set names. \<exists>s path. n = PStr s
          \<and> transcript_bound demo_world (PPath True [''r'']) (get (get data ''transcripts'') s) path"
    by blast
  have "name = ''p''" using n(1) by (simp add: demo_artifact_def get_def get_or_def)
  moreover have "json_file demo_world (path_join (PPath True [''r'']) (path_of ''p'')) = Inr demo_proof"
    by code_simp
  ultimately have "data = demo_proof" using n(2) by simp
  moreover have "names \<noteq> []" using n(3) by (auto simp: demo_artifact_def get_def get_or_def)
  ultimately show ?thesis using st n(3,4) by blast
qed

section \<open>The throughput figure\<close>

lemma positive_int_iff: "positive_int v \<longleftrightarrow> (\<exists>i. v = PInt i \<and> 0 < i)"
  by (cases v) (auto simp: positive_int_def is_plain_int_def)

lemma py_float_json_number:
  "is_json_number v \<Longrightarrow> py_float v = Inr x \<Longrightarrow> v = PFloat x \<or> (\<exists>i. v = PInt i \<and> float_of_int i = Inr x)"
  by (cases v) (auto simp: is_json_number_def is_num_def pynum_def split: sum.splits)

lemma cap_measurements_clean:
  assumes "cap_measurement_errors data = Inr []"
  shows "\<exists>macs cycles hz tops.
       dotted_get data ''measurements.macs_per_inference'' = PInt macs \<and> 0 < macs
     \<and> dotted_get data ''measurements.npu_cycles'' = PInt cycles \<and> 0 < cycles
     \<and> is_json_number (dotted_get data ''measurements.npu_hz'')
     \<and> py_float (dotted_get data ''measurements.npu_hz'') = Inr hz \<and> \<not> float_le hz (Fin 0)
     \<and> is_json_number (dotted_get data ''measurements.observed_tops'')
     \<and> py_float (dotted_get data ''measurements.observed_tops'') = Inr tops \<and> \<not> float_le tops (Fin 0)
     \<and> cap_tops_errors data = Inr []"
  using assms
  by (auto simp: cap_measurement_errors_def Let_def positive_int_iff split: if_splits)

lemma fl_nonpos: "x \<le> 0 \<Longrightarrow> fl x \<le> 0"
proof -
  assume "x \<le> 0"
  then have "x / pow2 e \<le> 0" for e by (simp add: divide_le_0_iff)
  moreover have "round_even y \<le> 0" if "y \<le> 0" for y
    using that by (auto simp: round_even_def Let_def)
  ultimately have "round_even (x / pow2 (ulp_exp x)) \<le> 0" by blast
  then show ?thesis by (simp add: fl_def mult_nonpos_nonneg)
qed

lemma positive_number:
  assumes "is_json_number v" "py_float v = Inr x" "\<not> float_le x (Fin 0)" "v \<noteq> PFloat NaN"
  shows "float_lt (Fin 0) (as_num v)"
proof -
  consider "v = PFloat x" | i where "v = PInt i" "float_of_int i = Inr x"
    using py_float_json_number [OF assms(1,2)] by blast
  then show ?thesis
  proof cases
    case 1
    then show ?thesis using assms(3,4) by (auto simp: as_num_def float_lt_def)
  next
    case 2
    then have "\<not> i \<le> 0" using assms(3) fl_nonpos [of "of_int i"]
      by (auto simp: float_of_int_def split: if_splits)
    then show ?thesis using 2 by (simp add: as_num_def)
  qed
qed

lemma cap_errors_e1_npu:
  assumes "cap_errors w repo prf data = Inr ([], found)"
    and "get prf ''schema'' = PStr ''openagent.e1_npu_nnapi_capability.v1''"
  shows "cap_measurement_errors data = Inr []"
  using assms by (auto simp: cap_errors_def cap_e1_npu_errors_def Let_def split: if_splits)

text \<open>Without a NaN the tolerance tests are real comparisons.\<close>

lemma tolerances_pos: "0 < fl (105 / 100)" "0 < fl (5 / 100)"
  by (rule fl_pos, rule order_trans [OF pow2_mono [of _ "- 5"]], simp_all add: pow2_def)+

lemma scaled_number: "x \<noteq> NaN \<Longrightarrow> 0 < b \<Longrightarrow> float_mul x (Fin b) \<noteq> NaN"
  by (cases x) (auto simp: float_mul_def to_float_def inf_of_sign_def float_sign_def)

lemma distance_number:
  "x \<noteq> NaN \<Longrightarrow> y \<noteq> NaN \<Longrightarrow> x \<noteq> PInf \<Longrightarrow> y \<noteq> NInf \<Longrightarrow> float_abs (float_sub x y) \<noteq> NaN"
  by (cases x; cases y) (auto simp: float_sub_def float_add_def float_neg_def float_abs_def to_float_def)

lemma not_above: "x \<noteq> NaN \<Longrightarrow> y \<noteq> NaN \<Longrightarrow> \<not> float_lt y x \<Longrightarrow> float_le x y"
  by (simp add: float_lt_def)

lemma within_tolerances:
  assumes "bound \<noteq> NaN" and "x \<noteq> NaN" and "tops \<noteq> NaN"
    and "\<not> float_lt (float_mul bound (float_lit (105 / 100))) x"
    and "float_lt (Fin 0) bound \<Longrightarrow> \<not> float_lt (float_mul bound (float_lit (5 / 100))) (float_abs (float_sub tops bound))"
  shows "float_le x (float_mul bound (float_lit (105 / 100)))"
    and "float_lt (Fin 0) bound \<Longrightarrow> tops \<noteq> PInf \<Longrightarrow>
      float_le (float_abs (float_sub tops bound)) (float_mul bound (float_lit (5 / 100)))"
proof -
  show "float_le x (float_mul bound (float_lit (105 / 100)))"
    by (rule not_above [OF assms(2) scaled_number [OF assms(1) tolerances_pos(1)] assms(4)])
  assume pos: "float_lt (Fin 0) bound" and "tops \<noteq> PInf"
  then have "float_abs (float_sub tops bound) \<noteq> NaN"
    using assms(1,3) by (intro distance_number) (auto simp: float_lt_def float_le_def)
  then show "float_le (float_abs (float_sub tops bound)) (float_mul bound (float_lit (5 / 100)))"
    by (rule not_above [OF _ scaled_number [OF assms(1) tolerances_pos(2)] assms(5) [OF pos]])
qed

text \<open>C15: An accepted capability proof of the e1 NPU schema in which neither the clock frequency nor the
observed throughput is NaN carries positive counters and a positive throughput. When the value that the counters
imply is not NaN either, the throughput is at most 5 percent above it, and a throughput that is not infinite is
within 5 percent of a positive implied value, both up to the rounding of the code's float tests.\<close>
theorem e1_npu_throughput_checked:
  assumes "cap_errors w repo prf data = Inr ([], found)"
    and "get prf ''schema'' = PStr ''openagent.e1_npu_nnapi_capability.v1''"
    and "dotted_get data ''measurements.npu_hz'' \<noteq> PFloat NaN"
    and "dotted_get data ''measurements.observed_tops'' \<noteq> PFloat NaN"
  shows "\<exists>macs cycles bound tops.
       dotted_get data ''measurements.macs_per_inference'' = PInt macs \<and> 0 < macs
     \<and> dotted_get data ''measurements.npu_cycles'' = PInt cycles \<and> 0 < cycles
     \<and> tops_from_counters (PInt macs) (PInt cycles) (dotted_get data ''measurements.npu_hz'') = Inr bound
     \<and> py_float (dotted_get data ''measurements.observed_tops'') = Inr tops
     \<and> float_lt (Fin 0) (as_num (dotted_get data ''measurements.observed_tops''))
     \<and> (bound \<noteq> NaN \<longrightarrow>
          float_le (as_num (dotted_get data ''measurements.observed_tops'')) (float_mul bound (float_lit (105 / 100)))
          \<and> (float_lt (Fin 0) bound \<longrightarrow> tops \<noteq> PInf \<longrightarrow>
               float_le (float_abs (float_sub tops bound)) (float_mul bound (float_lit (5 / 100)))))"
proof -
  let ?hz = "dotted_get data ''measurements.npu_hz''" and ?tops = "dotted_get data ''measurements.observed_tops''"
  obtain macs cycles hz tops where c:
       "dotted_get data ''measurements.macs_per_inference'' = PInt macs" "0 < macs"
       "dotted_get data ''measurements.npu_cycles'' = PInt cycles" "0 < cycles"
       "is_json_number ?hz" "py_float ?hz = Inr hz" "\<not> float_le hz (Fin 0)"
       "is_json_number ?tops" "py_float ?tops = Inr tops" "\<not> float_le tops (Fin 0)"
       "cap_tops_errors data = Inr []"
    using cap_measurements_clean [OF cap_errors_e1_npu [OF assms(1,2)]] by blast
  have "float_lt (Fin 0) (as_num ?hz)" by (rule positive_number [OF c(5-7) assms(3)])
  then obtain bound where b: "tops_from_counters (PInt macs) (PInt cycles) ?hz = Inr bound"
    "\<not> float_lt (float_mul bound (float_lit (105 / 100))) (as_num ?tops)"
    "float_lt (Fin 0) bound \<Longrightarrow> \<not> float_lt (float_mul bound (float_lit (5 / 100))) (float_abs (float_sub tops bound))"
    using c(11,4,8,9) by (auto simp: cap_tops_errors_def Let_def c(1,3) is_plain_int_def c(5) split: if_splits)
  have pos: "float_lt (Fin 0) (as_num ?tops)" by (rule positive_number [OF c(8-10) assms(4)])
  then have "as_num ?tops \<noteq> NaN" by (auto simp: float_lt_def)
  moreover have "tops \<noteq> NaN"
    using py_float_json_number [OF c(8,9)] assms(4) by (auto simp: float_of_int_def split: if_splits)
  ultimately have "bound \<noteq> NaN \<longrightarrow>
      float_le (as_num ?tops) (float_mul bound (float_lit (105 / 100)))
      \<and> (float_lt (Fin 0) bound \<longrightarrow> tops \<noteq> PInf \<longrightarrow>
           float_le (float_abs (float_sub tops bound)) (float_mul bound (float_lit (5 / 100))))"
    using within_tolerances [OF _ _ _ b(2,3)] by blast
  with c(1-4,9) b(1) pos show ?thesis by blast
qed

text \<open>A proof of that schema the checks accept: one TOPS from half a tera-MAC in a second.\<close>

definition demo_e1_proof :: pyv where
  "demo_e1_proof = PDict (as_dict demo_proof @
     [(''schema'', PStr ''openagent.e1_npu_nnapi_capability.v1''),
      (''capture'', PDict [(''commands'', PDict (map (\<lambda>(k, c). (k, PStr c)) E1_NPU_REQUIRED_CAPTURE_COMMANDS))]),
      (''capability'', PDict [(''claim_level'', PStr ''L4_DEV_BOARD''), (''precision'', PStr ''int8'')]),
      (''dataflow'', PDict [(''name'', PStr ''os'')]),
      (''measurements'', PDict [(''macs_per_inference'', PInt 500000000000), (''npu_cycles'', PInt 1),
         (''npu_hz'', PInt 1), (''observed_tops'', PInt 1), (''tops_formula'', PStr ''mac/cycle'')])])"

definition demo_e1_data :: pyv where
  "demo_e1_data = PDict (dset (as_dict demo_e1_proof) ''dma'' (PDict
     [(''trace_bytes'', PInt 1), (''path'', PStr ''hardware_dma''), (''bytes_read'', PInt 1), (''bytes_written'', PInt 1)]))"

definition demo_e1_spec :: pyv where
  "demo_e1_spec = PDict [(''schema'', PStr ''openagent.e1_npu_nnapi_capability.v1''),
     (''required_files'', PList [PStr ''dma_trace''])]"

lemma demo_e1_fields:
  "get demo_e1_spec ''schema'' = PStr ''openagent.e1_npu_nnapi_capability.v1''"
  "dotted_get demo_e1_data ''measurements.npu_hz'' = PInt 1"
  "dotted_get demo_e1_data ''measurements.macs_per_inference'' = PInt 500000000000"
  "dotted_get demo_e1_data ''measurements.npu_cycles'' = PInt 1"
  "dotted_get demo_e1_data ''measurements.observed_tops'' = PInt 1"
  "is_dict demo_e1_data"
  by code_simp+

lemma demo_e1_bound: "tops_from_counters (PInt 500000000000) (PInt 1) (PInt 1) = Inr (Fin 1)"
  using to_float_int [of 1] to_float_int [of 1000000000000] fl_numeral [of "num.Bit0 num.One"]
    float_of_int_small [of 1] float_of_int_small [of 500000000000] fl_int [of 1000000000000]
  by (simp add: tops_from_counters_def float_div_def float_mul_def)

lemma to_float_between:
  assumes "of_int m \<le> q" "q \<le> of_int n" "0 < q" "n < 2 ^ 53"
  shows "\<exists>r. to_float q = Fin r \<and> of_int m \<le> r"
proof -
  have "rat_of_int n < 2 ^ 53" using assms(4) by (metis of_int_less_iff of_int_numeral of_int_power)
  then have "q < 2 ^ 53" using assms(2) by linarith
  then show ?thesis
    using assms fl_between_ints(2) [of q m] fl_overflow_small [of q] by (simp add: to_float_def)
qed

lemma demo_e1_tops: "cap_tops_errors demo_e1_data = Inr []"
proof -
  have "1 \<le> fl (105 / 100)" "fl (105 / 100) \<le> 2"
    using fl_between_ints(2) [of "105 / 100" 1] fl_between_ints(1) [of "105 / 100" 2] by simp_all
  then obtain a where a: "float_mul (Fin 1) (float_lit (105 / 100)) = Fin a" "1 \<le> a"
    using to_float_between [of 1 "fl (105 / 100)" 2] by (auto simp: float_mul_def)
  have "0 < fl (5 / 100)" by (rule tolerances_pos)
  moreover have "fl (5 / 100) \<le> 1" using fl_between_ints(1) [of "5 / 100" 1] by simp
  ultimately obtain b where b: "float_mul (Fin 1) (float_lit (5 / 100)) = Fin b" "0 \<le> b"
    using to_float_between [of 0 "fl (5 / 100)" 1] by (auto simp: float_mul_def)
  have "float_sub (Fin 1) (Fin 1) = Fin 0"
    using to_float_int [of 0] by (simp add: float_sub_def float_add_def float_neg_def)
  moreover have "float_of_int 1 = Inr (Fin 1)" using float_of_int_small [of 1] by simp
  ultimately show ?thesis
    using a b unfolding cap_tops_errors_def Let_def demo_e1_fields demo_e1_bound
    by (simp add: as_num_def float_abs_def demo_e1_bound)
qed

lemma demo_e1_sections:
  "cap_identity_errors demo_e1_spec demo_e1_data = []"
  "cap_nnapi_errors demo_e1_spec demo_e1_data = Inr []"
  "cap_field_errors demo_e1_spec demo_e1_data = Inr []"
  "cap_model_errors demo_world (PPath True [''r'']) demo_e1_spec demo_e1_data = Inr []"
  "cap_transcripts demo_world (PPath True [''r'']) demo_e1_spec demo_e1_data
     = Inr ([], [(''dma_trace'', PPath True [''r'', ''t''])])"
  "cap_dma_trace_errors demo_world demo_e1_data [(''dma_trace'', PPath True [''r'', ''t''])] = Inr []"
  "cap_marker_errors demo_world (PPath True [''r'']) demo_e1_spec [(''dma_trace'', PPath True [''r'', ''t''])] = Inr []"
  by code_simp+

lemma demo_e1_measurements: "cap_measurement_errors demo_e1_data = Inr []"
  using float_of_int_small [of 1] demo_e1_tops
  by (simp add: cap_measurement_errors_def demo_e1_fields positive_int_iff is_json_number_def is_num_def)

lemma demo_e1_rest:
  "dotted_get demo_e1_data ''capability.claim_level'' = PStr ''L4_DEV_BOARD''"
  "dotted_get demo_e1_data ''capability.precision'' = PStr ''int8''"
  "dotted_get demo_e1_data ''dma.path'' = PStr ''hardware_dma''"
  "dotted_get demo_e1_data ''dma.bytes_read'' = PInt 1"
  "dotted_get demo_e1_data ''dma.bytes_written'' = PInt 1"
  "dotted_get demo_e1_data ''dataflow.name'' = PStr ''os''"
  "dotted_get demo_e1_data ''measurements.tops_formula'' = PStr ''mac/cycle''"
  "is_dict (dotted_get demo_e1_data ''capture.commands'')"
  "concat (map (\<lambda>(name, command). err_if (\<not> py_eq (get (dotted_get demo_e1_data ''capture.commands'') name) (PStr command))
     (''capture.commands.'' @ name @ '' must be exactly '' @ repr_str command)) E1_NPU_REQUIRED_CAPTURE_COMMANDS) = []"
  "contains ''mac'' (lower ''mac/cycle'')" "contains ''cycle'' (lower ''mac/cycle'')"
  by code_simp+

lemma demo_e1_npu: "cap_e1_npu_errors demo_e1_data = Inr []"
  unfolding cap_e1_npu_errors_def Let_def demo_e1_rest demo_e1_measurements
  by (simp add: demo_e1_rest in_names_def positive_int_iff nonempty_str_iff)

lemma demo_e1_accepted:
  "cap_errors demo_world (PPath True [''r'']) demo_e1_spec demo_e1_data
     = Inr ([], [(''dma_trace'', PPath True [''r'', ''t''])])"
  by (simp add: cap_errors_def demo_e1_sections demo_e1_npu demo_e1_fields)

theorem e1_npu_throughput_checked_witness:
  "tops_from_counters (PInt 500000000000) (PInt 1) (PInt 1) = Inr (Fin 1)
     \<and> float_le (float_abs (float_sub (Fin 1) (Fin 1))) (float_mul (Fin 1) (float_lit (5 / 100)))"
proof -
  have "py_float (PInt 1) = Inr (Fin 1)" using float_of_int_small [of 1] by simp
  moreover have "float_lt (Fin 0) (Fin 1)" by (simp add: float_lt_def float_le_def)
  ultimately show ?thesis
    using e1_npu_throughput_checked [OF demo_e1_accepted demo_e1_fields(1)] by (auto simp: demo_e1_fields demo_e1_bound)
qed

text \<open>The same section accepts any positive throughput figure, however large, when the recorded clock frequency
is the NaN that Python's JSON decoder reads, and accepts a NaN throughput whatever the counters: no comparison
with NaN holds, so neither the positivity test nor the bound applies.\<close>

lemma measurement_paths:
  "split_on (CHR ''.'') ''measurements.macs_per_inference'' = [''measurements'', ''macs_per_inference'']"
  "split_on (CHR ''.'') ''measurements.npu_cycles'' = [''measurements'', ''npu_cycles'']"
  "split_on (CHR ''.'') ''measurements.npu_hz'' = [''measurements'', ''npu_hz'']"
  "split_on (CHR ''.'') ''measurements.observed_tops'' = [''measurements'', ''observed_tops'']"
  by simp_all

theorem capability_nan_gap:
  assumes "0 < m" and "0 < c" and "0 < t"
  shows "cap_measurement_errors (PDict [(''measurements'', PDict
     [(''macs_per_inference'', PInt m), (''npu_cycles'', PInt c),
      (''npu_hz'', PFloat NaN), (''observed_tops'', PFloat (Fin t))])]) = Inr []"
  using assms
  by (simp add: cap_measurement_errors_def cap_tops_errors_def dotted_get_def measurement_paths get_def get_or_def
      positive_int_iff is_plain_int_def is_json_number_def is_num_def as_num_def float_lt_def float_le_def Let_def)

theorem capability_nan_throughput:
  assumes "0 < m" and "0 < c" and "0 < h" and "tops_from_counters (PInt m) (PInt c) (PFloat (Fin h)) = Inr bound"
  shows "cap_measurement_errors (PDict [(''measurements'', PDict
     [(''macs_per_inference'', PInt m), (''npu_cycles'', PInt c),
      (''npu_hz'', PFloat (Fin h)), (''observed_tops'', PFloat NaN)])]) = Inr []"
proof -
  have "float_sub NaN y = NaN" for y by (simp add: float_sub_def float_add_def)
  then show ?thesis
    using assms
    by (simp add: cap_measurement_errors_def cap_tops_errors_def dotted_get_def measurement_paths get_def get_or_def
        positive_int_iff is_plain_int_def is_json_number_def is_num_def as_num_def float_lt_def float_le_def float_abs_def Let_def)
qed

theorem capability_nan_gap_witness:
  "cap_measurement_errors (PDict [(''measurements'', PDict
     [(''macs_per_inference'', PInt 1), (''npu_cycles'', PInt 1000000),
      (''npu_hz'', PFloat NaN), (''observed_tops'', PFloat (Fin 2028))])]) = Inr []"
  by (rule capability_nan_gap) simp_all

end
