(* ===== verification/Bench_Metadata.thy ===== *)
theory Bench_Metadata
  imports Bench_Capability
begin

text \<open>
  What a real run must know about its target before it may execute: the metadata
  sections and the calibration record (\<open>metadata_blockers\<close>), and the tests a finished
  result must pass (\<open>check_metric_requirements\<close>, \<open>check_calibration_requirements\<close>) of
  \<open>benchmarks/run_benchmarks.py\<close>.
\<close>

section \<open>Blockers\<close>

definition is_blocked_value :: "pyv \<Rightarrow> bool" where
  "is_blocked_value v \<longleftrightarrow> is_str v \<and> starts_with BLOCKED_PREFIX (strip (as_str v))"

definition blocker :: "string \<Rightarrow> string \<Rightarrow> string \<Rightarrow> string \<Rightarrow> pyv" where
  "blocker name kind reason resolution =
     PDict [(''name'', PStr name), (''kind'', PStr kind), (''reason'', PStr reason),
            (''resolution'', PStr resolution)]"

definition block_if :: "bool \<Rightarrow> string \<Rightarrow> string \<Rightarrow> string \<Rightarrow> string \<Rightarrow> pyv list" where
  "block_if b name kind reason resolution = (if b then [blocker name kind reason resolution] else [])"

lemma block_if_Nil [simp]: "block_if b n k r s = [] \<longleftrightarrow> \<not> b"
  by (simp add: block_if_def)

definition field_blockers :: "string \<Rightarrow> pyv \<Rightarrow> pyv list" where
  "field_blockers section' data =
     (case map_of REAL_METADATA_REQUIRED_FIELDS section' of
        None \<Rightarrow> []
      | Some required \<Rightarrow> concat (map (\<lambda>(field, ty).
          let v = get data field; name = section' @ ''.'' @ field in
          block_if (v = PNone \<or> is_blocked_value v) name ''metadata'' ''blocked_metadata_field''
            (''Replace '' @ name @ '' with measured target evidence in --metadata JSON.'')) required))"

definition contract_blockers :: "pyv \<Rightarrow> pyv list" where
  "contract_blockers contract =
     (if \<not> is_dict contract then
        [blocker ''process.process_effects_contract'' ''metadata'' ''missing_process_effects_contract''
           (''Bind process metadata to '' @ PROCESS_EFFECTS_CONTRACT_PATH @ '' with its sha256.'')]
      else
        block_if (\<not> py_eq (get contract ''path'') (PStr PROCESS_EFFECTS_CONTRACT_PATH))
          ''process.process_effects_contract.path'' ''metadata'' ''wrong_process_effects_contract''
          (''Set process.process_effects_contract.path to '' @ PROCESS_EFFECTS_CONTRACT_PATH @ ''.'')
        @ block_if (\<not> is_sha256 (get contract ''sha256''))
          ''process.process_effects_contract.sha256'' ''metadata'' ''missing_process_effects_contract_hash''
          ''Record the sha256 of the process effects contract used for this benchmark run.'')"

definition names_14a :: "pyv \<Rightarrow> bool" where
  "names_14a v \<longleftrightarrow> is_str v \<and> contains ''14A'' (as_str v)"

definition names_14a_corner :: "pyv \<Rightarrow> bool" where
  "names_14a_corner v \<longleftrightarrow> is_str v \<and> starts_with ''14a_'' (as_str v)"

definition process_blockers :: "pyv \<Rightarrow> pyv list" where
  "process_blockers data =
     contract_blockers (get data ''process_effects_contract'')
     @ block_if (\<not> names_14a (get data ''node'')) ''process.node'' ''metadata'' ''wrong_process_node''
         ''Bind benchmark metadata to the 14A target process node.''
     @ block_if (\<not> positive_int (get data ''process_corner_count''))
         ''process.process_corner_count'' ''metadata'' ''invalid_process_corner_count''
         ''Record the number of 14A process corners evaluated for this benchmark.''
     @ block_if (\<not> names_14a_corner (get data ''worst_process_corner''))
         ''process.worst_process_corner'' ''metadata'' ''invalid_worst_process_corner''
         ''Record the worst 14A process corner that limits this benchmark result.''
     @ block_if (\<not> py_eq (get data ''pdk_signoff_claim'') (PStr PROCESS_PDK_SIGNOFF_PASSED))
         ''process.pdk_signoff_claim'' ''metadata'' ''missing_pdk_signoff''
         ''Use benchmark results for 2028/14A claims only after extracted PDK timing, power, and thermal signoff passes.''"

text \<open>One required section; a name that is not a known section is skipped.\<close>

definition section_blockers :: "pyv \<Rightarrow> pyv \<Rightarrow> pyv list py" where
  "section_blockers report sec =
     rbind (in_names sec (map fst REAL_METADATA_REQUIRED_FIELDS)) (\<lambda>known.
     if \<not> known then Inr []
     else
       let section' = as_str sec; data = get report section' in
       Inr (if \<not> is_dict data then
              [blocker section' ''metadata'' ''missing_metadata_section''
                 (''Populate '' @ section' @ '' in --metadata JSON before running real benchmarks.'')]
            else field_blockers section' data
              @ (if section' = ''process'' then process_blockers data else [])))"

definition asset_blockers :: "pyv \<Rightarrow> pyv \<Rightarrow> pyv list py" where
  "asset_blockers assets asset_name =
     rbind (get_any assets asset_name) (\<lambda>asset.
     let name = ''calibration.assets.'' @ py_str asset_name in
     Inr (if \<not> is_dict asset then
            [blocker name ''calibration'' ''missing_calibration_asset''
               (''Add calibrated asset '' @ py_str asset_name @ '' with source, sha256, and evidence fields.'')]
          else
            block_if (\<not> py_eq (get asset ''status'') (PStr ''calibrated''))
              (name @ ''.status'') ''calibration'' ''uncalibrated_asset''
              (''Record calibrated evidence for '' @ py_str asset_name @ '' before accepting this result.'')
            @ concat (map (\<lambda>field. let v = get asset field in
                block_if (\<not> is_str v \<or> strip (as_str v) = [] \<or> is_blocked_value v)
                  (name @ ''.'' @ field) ''calibration'' ''blocked_calibration_field''
                  (''Populate '' @ name @ ''.'' @ field @ '' with immutable evidence.''))
                [''source'', ''sha256'', ''evidence''])))"

definition calibration_blockers :: "pyv \<Rightarrow> pyv \<Rightarrow> pyv list py" where
  "calibration_blockers calibration bench =
     (if \<not> is_dict calibration then Inr []
      else
        let assets = (if is_dict (get calibration ''assets'') then get calibration ''assets'' else PDict []) in
        rbind (py_iter (get_or bench ''required_calibration_assets'' (PList []))) (\<lambda>names.
        rbind (mapR (asset_blockers assets) names) (\<lambda>bs.
        Inr (block_if (\<not> py_eq (get calibration ''status'') (PStr ''calibrated''))
               ''calibration.status'' ''calibration'' ''uncalibrated_metadata''
               ''Set calibration.status to calibrated only after clock, power, workload, and simulator evidence assets are recorded.''
             @ concat bs))))"

definition metadata_blockers :: "pyv \<Rightarrow> pyv \<Rightarrow> pyv list py" where
  "metadata_blockers report bench =
     rbind (py_iter (get_or bench ''required_metadata'' (PList (map PStr REAL_METADATA_SECTIONS)))) (\<lambda>sections.
     rbind (mapR (section_blockers report) sections) (\<lambda>bs.
     rbind (calibration_blockers (get report ''calibration'') bench) (\<lambda>cs.
     Inr (concat bs @ cs))))"

section \<open>Metric gates\<close>

text \<open>The comparison of two numbers; the operands are already known to be numbers.\<close>

definition metric_gate_passes :: "pyv \<Rightarrow> pyv \<Rightarrow> pyv \<Rightarrow> bool py" where
  "metric_gate_passes actual op expected =
     (let x = as_num actual; y = as_num expected in
      if op = PStr ''=='' then Inr (float_eq x y)
      else if op = PStr ''!='' then Inr (\<not> float_eq x y)
      else if op = PStr ''<'' then Inr (float_lt x y)
      else if op = PStr ''<='' then Inr (float_le x y)
      else if op = PStr ''>'' then Inr (float_lt y x)
      else if op = PStr ''>='' then Inr (float_le y x)
      else Inl (PyValueError (''unsupported metric gate op '' @ py_repr op)))"

definition required_metric_errors :: "pyv \<Rightarrow> pyv \<Rightarrow> string list py" where
  "required_metric_errors metrics metric =
     (if \<not> nonempty_str metric then Inr [''required_metrics entries must be non-empty strings'']
      else if \<not> is_dict metrics then Inl PyAttributeError
      else Inr (err_if (\<not> is_num (get metrics (as_str metric))) (''missing required metric '' @ as_str metric)))"

definition gate_errors :: "pyv \<Rightarrow> nat \<times> pyv \<Rightarrow> string list py" where
  "gate_errors metrics ig =
     (let (i, gate) = ig; location = ''metric_gates['' @ nat_str i @ '']'' in
      if \<not> is_dict gate then Inr [location @ '' must be an object'']
      else
        let metric = get gate ''metric''; op = get gate ''op''; expected = get gate ''value'' in
        if \<not> nonempty_str metric then Inr [location @ ''.metric must be a non-empty string'']
        else if \<not> is_dict metrics then Inl PyAttributeError
        else
          let name = as_str metric; actual = get metrics name; label = ''metric gate '' @ name in
          rbind (in_names op METRIC_OPS) (\<lambda>known.
          if \<not> known then Inr [label @ '' has unsupported op '' @ py_repr op]
          else if \<not> is_num expected then Inr [label @ '' has non-numeric expected value'']
          else if \<not> is_num actual then Inr [label @ '' has no numeric metric'']
          else rbind (metric_gate_passes actual op expected) (\<lambda>ok.
            Inr (err_if (\<not> ok) (label @ '' '' @ py_str op @ '' '' @ py_str expected
              @ '' failed with '' @ py_str actual)))))"

definition check_metric_requirements :: "pyv \<Rightarrow> pyv \<Rightarrow> string list py" where
  "check_metric_requirements metrics run_metadata =
     (if \<not> is_dict run_metadata then Inl PyAttributeError else
      rbind (py_iter (get_or run_metadata ''required_metrics'' (PList []))) (\<lambda>required.
      rbind (collect (map (required_metric_errors metrics) required)) (\<lambda>rs.
      rbind (py_iter (get_or run_metadata ''metric_gates'' (PList []))) (\<lambda>gates.
      rbind (collect (map (gate_errors metrics) (enum gates))) (\<lambda>es.
      Inr (rs @ es))))))"

section \<open>Calibration\<close>

definition unpopulated :: "pyv \<Rightarrow> bool" where
  "unpopulated v \<longleftrightarrow> \<not> is_str v \<or> strip (as_str v) = [] \<or> starts_with ''blocked-'' (as_str v)"

definition asset_errors :: "pyv \<Rightarrow> pyv \<Rightarrow> string list py" where
  "asset_errors assets asset_name =
     rbind (get_any assets asset_name) (\<lambda>asset.
     let name = py_str asset_name in
     Inr (if \<not> is_dict asset then [''missing calibration asset '' @ name]
          else err_if (\<not> py_eq (get asset ''status'') (PStr ''calibrated''))
                 (''calibration asset '' @ name @ '' status must be calibrated'')
            @ concat (map (\<lambda>field. err_if (unpopulated (get asset field))
                (''calibration asset '' @ name @ ''.'' @ field @ '' must be populated with non-blocked evidence''))
                [''source'', ''sha256'', ''evidence''])))"

definition check_calibration_requirements :: "pyv \<Rightarrow> pyv \<Rightarrow> string list py" where
  "check_calibration_requirements report res =
     (let calibration = get report ''calibration''; run_metadata = get_or res ''run_metadata'' (PDict []) in
      if \<not> is_dict calibration then Inr [''missing calibration metadata'']
      else
        let assets0 = get calibration ''assets'';
            assets = (if is_dict assets0 then assets0 else PDict []);
            es = err_if (\<not> py_eq (get calibration ''status'') (PStr ''calibrated'')) ''calibration.status must be calibrated''
              @ concat (map (\<lambda>field. err_if (unpopulated (get calibration field))
                  (''calibration.'' @ field @ '' must be populated with non-blocked evidence''))
                  [''source'', ''ground_truth_reference'', ''last_calibrated_utc''])
              @ err_if (\<not> is_dict assets0) ''calibration.assets must be object''
        in if \<not> is_dict run_metadata then Inl PyAttributeError else
           rbind (py_iter (get_or run_metadata ''required_calibration_assets'' (PList []))) (\<lambda>names.
           rbind (collect (map (asset_errors assets) names)) (\<lambda>as. Inr (es @ as))))"

section \<open>What a clean check establishes\<close>

lemma mapR_concat_Nil:
  "mapR f xs = Inr ys \<Longrightarrow> concat ys = [] \<Longrightarrow> x \<in> set xs \<Longrightarrow> f x = Inr []"
  by (induction xs arbitrary: ys) auto

lemma collect_map_Nil: "collect (map f xs) = Inr [] \<longleftrightarrow> (\<forall>x \<in> set xs. f x = Inr [])"
proof (induction xs)
  case (Cons x xs)
  then show ?case by (cases "f x"; cases "collect (map f xs)") auto
qed simp

text \<open>A metadata section that nothing blocks.\<close>

definition section_clear :: "pyv \<Rightarrow> string \<Rightarrow> bool" where
  "section_clear report section' \<longleftrightarrow>
     is_dict (get report section')
     \<and> (\<forall>fields. map_of REAL_METADATA_REQUIRED_FIELDS section' = Some fields \<longrightarrow>
          (\<forall>(field, ty) \<in> set fields. get (get report section') field \<noteq> PNone
             \<and> \<not> is_blocked_value (get (get report section') field)))
     \<and> (section' = ''process'' \<longrightarrow>
          get (get (get report section') ''process_effects_contract'') ''path'' = PStr PROCESS_EFFECTS_CONTRACT_PATH
          \<and> is_sha256 (get (get (get report section') ''process_effects_contract'') ''sha256'')
          \<and> names_14a (get (get report section') ''node'')
          \<and> positive_int (get (get report section') ''process_corner_count'')
          \<and> get (get report section') ''pdk_signoff_claim'' = PStr PROCESS_PDK_SIGNOFF_PASSED)"

lemma field_blockers_Nil:
  assumes "field_blockers section' data = []" "map_of REAL_METADATA_REQUIRED_FIELDS section' = Some fs"
    "(field, ty) \<in> set fs"
  shows "get data field \<noteq> PNone \<and> \<not> is_blocked_value (get data field)"
  using assms by (force simp: field_blockers_def Let_def)

lemma process_blockers_Nil:
  assumes "process_blockers data = []"
  shows "get (get data ''process_effects_contract'') ''path'' = PStr PROCESS_EFFECTS_CONTRACT_PATH
     \<and> is_sha256 (get (get data ''process_effects_contract'') ''sha256'')
     \<and> names_14a (get data ''node'') \<and> positive_int (get data ''process_corner_count'')
     \<and> get data ''pdk_signoff_claim'' = PStr PROCESS_PDK_SIGNOFF_PASSED"
  using assms by (auto simp: process_blockers_def contract_blockers_def split: if_splits)

lemma section_blockers_Nil:
  assumes "section_blockers report (PStr section') = Inr []" "section' \<in> fst ` set REAL_METADATA_REQUIRED_FIELDS"
  shows "section_clear report section'"
  using assms field_blockers_Nil [of section' "get report section'"] process_blockers_Nil [of "get report section'"]
  by (auto simp: section_blockers_def in_names_def Let_def section_clear_def split: if_splits)

lemma metadata_clear:
  assumes "metadata_blockers report bench = Inr []"
    and "py_iter (get_or bench ''required_metadata'' (PList (map PStr REAL_METADATA_SECTIONS))) = Inr sections"
    and "PStr section' \<in> set sections" "section' \<in> fst ` set REAL_METADATA_REQUIRED_FIELDS"
  shows "section_clear report section'"
proof -
  obtain bs where "mapR (section_blockers report) sections = Inr bs" "concat bs = []"
    using assms(1,2) by (auto simp: metadata_blockers_def)
  from mapR_concat_Nil [OF this assms(3)] show ?thesis by (rule section_blockers_Nil) (rule assms(4))
qed

lemma calibration_clear:
  assumes "metadata_blockers report bench = Inr []" and "is_dict (get report ''calibration'')"
  shows "get (get report ''calibration'') ''status'' = PStr ''calibrated''"
  using assms by (auto simp: metadata_blockers_def calibration_blockers_def Let_def)

definition gate_holds :: "pyv \<Rightarrow> pyv \<Rightarrow> bool" where
  "gate_holds metrics gate \<longleftrightarrow>
     (\<exists>name op. get gate ''metric'' = PStr name \<and> get gate ''op'' = PStr op \<and> op \<in> set METRIC_OPS
        \<and> is_num (get metrics name) \<and> is_num (get gate ''value'')
        \<and> metric_gate_passes (get metrics name) (PStr op) (get gate ''value'') = Inr True)"

lemma gate_errors_Nil: "gate_errors metrics (i, gate) = Inr [] \<Longrightarrow> gate_holds metrics gate"
  by (auto simp: gate_errors_def Let_def gate_holds_def nonempty_str_iff in_names_True split: if_splits)

lemma metric_requirements_Nil:
  assumes "check_metric_requirements metrics (PDict rm) = Inr []"
    and "py_iter (get_or (PDict rm) ''required_metrics'' (PList [])) = Inr required"
    and "py_iter (get_or (PDict rm) ''metric_gates'' (PList [])) = Inr gates"
  shows "(\<forall>m \<in> set required. \<exists>name. m = PStr name \<and> is_num (get metrics name))
     \<and> (\<forall>g \<in> set gates. gate_holds metrics g)"
proof -
  have r: "\<forall>m \<in> set required. required_metric_errors metrics m = Inr []"
    and g: "\<forall>ig \<in> set (enum gates). gate_errors metrics ig = Inr []"
    using assms by (auto simp: check_metric_requirements_def collect_map_Nil)
  have "gate_holds metrics gate" if "gate \<in> set gates" for gate
  proof -
    have "gate \<in> set (map snd (enum gates))" using that by simp
    then obtain i where "(i, gate) \<in> set (enum gates)" by (auto simp del: enum_simps)
    then show ?thesis using g gate_errors_Nil by blast
  qed
  with r show ?thesis by (auto simp: required_metric_errors_def nonempty_str_iff split: if_splits)
qed

end
