(* ===== verification/Bench_Parsers.thy ===== *)
theory Bench_Parsers
  imports Bench_Metadata
begin

text \<open>
  The output parsers of \<open>benchmarks/run_benchmarks.py\<close>: one definition per parser, from the
  captured text of a benchmark to the dictionary of its metrics or the exception the parser
  raises, and the older \<open>parse_metrics\<close> beside them. The JSON decoder is a field of the world.
\<close>

section \<open>Shared pieces\<close>

abbreviation num_group :: "nat \<Rightarrow> rx" where
  "num_group k \<equiv> RGroup k rx_number"

abbreviation digits_group :: "nat \<Rightarrow> rx" where
  "digits_group k \<equiv> RGroup k (rx_plus rx_digit)"

abbreviation spaces :: rx where "spaces \<equiv> RStar rx_space"
abbreviation spaces1 :: rx where "spaces1 \<equiv> rx_plus rx_space"

definition rx_one_of :: "string \<Rightarrow> rx" where
  "rx_one_of cs = RSet False (map (\<lambda>c. (of_char c, of_char c)) cs)"

definition not_digits :: rx where "not_digits = RStar (RSet True [(48, 57)])"

text \<open>\<open>float(match.group(k))\<close> and \<open>int(match.group(k))\<close>.\<close>

definition group_float :: "string \<Rightarrow> nat \<times> nat \<times> caps \<Rightarrow> nat \<Rightarrow> pyfloat py" where
  "group_float s m k = (case m of (a, b, g) \<Rightarrow> py_float (PStr (group_text s g k)))"

definition group_int :: "string \<Rightarrow> nat \<times> nat \<times> caps \<Rightarrow> nat \<Rightarrow> int py" where
  "group_int s m k = (case m of (a, b, g) \<Rightarrow> py_int (PStr (group_text s g k)))"

text \<open>\<open>if match: metrics[key] = float(match.group(1))\<close>.\<close>

definition set_float :: "string \<Rightarrow> (nat \<times> nat \<times> caps) option \<Rightarrow> string \<Rightarrow> status \<Rightarrow> status py" where
  "set_float s m key metrics =
     (case m of None \<Rightarrow> Inr metrics
      | Some m \<Rightarrow> rbind (group_float s m 1) (\<lambda>x. Inr (dset metrics key (PFloat x))))"

definition set_int :: "string \<Rightarrow> (nat \<times> nat \<times> caps) option \<Rightarrow> string \<Rightarrow> status \<Rightarrow> status py" where
  "set_int s m key metrics =
     (case m of None \<Rightarrow> Inr metrics
      | Some m \<Rightarrow> rbind (group_int s m 1) (\<lambda>x. Inr (dset metrics key (PInt x))))"

text \<open>\<open>re.search(p, s)\<close>, or the next pattern when it finds nothing.\<close>

definition search_first :: "(rx \<times> bool) list \<Rightarrow> string \<Rightarrow> (nat \<times> nat \<times> caps) option" where
  "search_first ps s = foldl (\<lambda>m (p, ic). case m of None \<Rightarrow> rx_search p ic s | Some x \<Rightarrow> Some x) None ps"

text \<open>\<open>text[text.find("{"):]\<close> when there is a brace.\<close>

definition from_brace :: "string \<Rightarrow> string" where
  "from_brace s = (if CHR ''{'' \<in> set s then dropWhile (\<lambda>c. c \<noteq> CHR ''{'') s else s)"

section \<open>Text reports\<close>

definition ITERATIONS_RE :: rx where
  "ITERATIONS_RE = rx_seq [rx_lit ''Iterations/Sec'', spaces, rx_opt (rx_lit '':''), spaces, num_group 1]"

definition COREMARK_RE :: rx where
  "COREMARK_RE = rx_seq [rx_lit ''CoreMark/MHz'', spaces, rx_opt (rx_lit '':''), spaces, num_group 1]"

definition coremark_line :: "string \<Rightarrow> status \<Rightarrow> status py" where
  "coremark_line line metrics =
     rbind (if contains ''Iterations/Sec'' line
            then set_float line (rx_search ITERATIONS_RE True line) ''iterations_per_second'' metrics
            else Inr metrics) (\<lambda>metrics.
     if contains ''CoreMark/MHz'' line
     then set_float line (rx_search COREMARK_RE False line) ''coremark_per_mhz'' metrics
     else Inr metrics)"

definition parse_coremark :: "string \<Rightarrow> pyv py" where
  "parse_coremark out =
     rbind (foldR coremark_line (split_lines out) []) (\<lambda>metrics.
     rbind (fail_if (\<not> dhas metrics ''coremark_per_mhz'') ''CoreMark parser did not find CoreMark/MHz'') (\<lambda>_.
     Inr (PDict metrics)))"

definition STREAM_RE :: rx where
  "STREAM_RE = rx_seq [spaces, RGroup 1 (rx_alts (map rx_lit [''Copy'', ''Scale'', ''Add'', ''Triad''])),
     rx_lit '':'', spaces1, RGroup 2 rx_number]"

definition stream_line :: "string \<Rightarrow> status \<Rightarrow> status py" where
  "stream_line line metrics =
     (case rx_at STREAM_RE False line 0 of
        None \<Rightarrow> Inr metrics
      | Some (a, b, g) \<Rightarrow> rbind (group_float line (a, b, g) 2) (\<lambda>x.
          Inr (dset metrics (lower (group_text line g 1) @ ''_mb_per_s'') (PFloat x))))"

definition parse_stream :: "string \<Rightarrow> pyv py" where
  "parse_stream out =
     rbind (foldR stream_line (split_lines out) []) (\<lambda>metrics.
     rbind (fail_if (\<not> dhas metrics ''triad_mb_per_s'') ''STREAM parser did not find Triad bandwidth'') (\<lambda>_.
     Inr (PDict metrics)))"

text \<open>\<open>contextlib.suppress(ValueError)\<close>: a word that is no number is skipped.\<close>

definition bw_mem_line :: "string \<Rightarrow> pyfloat list" where
  "bw_mem_line line =
     (let parts = split_ws [] line in
      if 2 \<le> length parts then
        (case float_of_string (last parts) of None \<Rightarrow> [] | Some x \<Rightarrow> [x])
      else [])"

definition parse_lmbench_bw_mem :: "string \<Rightarrow> pyv py" where
  "parse_lmbench_bw_mem out =
     (let values = concat (map bw_mem_line (split_lines out)) in
      rbind (fail_if (values = []) ''lmbench bw_mem parser did not find bandwidth values'') (\<lambda>_.
      Inr (PDict [(''bandwidth_mb_per_s'', PFloat (last values))])))"

definition lat_mem_line :: "string \<Rightarrow> (pyfloat \<times> pyfloat) list" where
  "lat_mem_line line =
     (case split_ws [] line of
        a # b # rest \<Rightarrow> (case (float_of_string a, float_of_string b) of
            (Some x, Some y) \<Rightarrow> [(x, y)] | _ \<Rightarrow> [])
      | _ \<Rightarrow> [])"

definition parse_lmbench_lat_mem_rd :: "string \<Rightarrow> pyv py" where
  "parse_lmbench_lat_mem_rd out =
     (case concat (map lat_mem_line (split_lines out)) of
        [] \<Rightarrow> Inl (PyValueError ''lmbench lat_mem_rd parser did not find latency points'')
      | p # ps \<Rightarrow> Inr (PDict
          [(''points'', PList (map (\<lambda>(x, y). PDict [(''size_mb'', PFloat x), (''latency_ns'', PFloat y)]) (p # ps))),
           (''max_latency_ns'', PFloat (fmax (snd p) (map snd ps)))]))"

definition TFLITE_AVG_RES :: "(rx \<times> bool) list" where
  "TFLITE_AVG_RES =
     [(rx_seq [rx_lit ''Inference timings in us:'', RStar rx_any, rx_lit ''avg='', num_group 1], False),
      (rx_seq [RWordB, rx_lit ''avg'', rx_one_of ''=:'', spaces, num_group 1], False),
      (rx_seq [rx_lit ''Inference timings in us:'', RStar rx_any, rx_lit ''Inference'', spaces1,
               rx_lit ''(avg):'', spaces, num_group 1], False)]"

definition TFLITE_FALLBACK_RES :: "(rx \<times> bool) list" where
  "TFLITE_FALLBACK_RES =
     [(rx_seq [rx_lit ''CPU fallback'', rx_opt (rx_alts [rx_lit '' percent'', rx_lit '' percentage'']),
               not_digits, num_group 1, spaces, rx_opt (rx_lit ''%'')], True),
      (rx_seq [rx_lit ''cpu_fallback_percent'', spaces, rx_one_of ''=:'', spaces, num_group 1], True)]"

definition TFLITE_UNSUPPORTED_RES :: "(rx \<times> bool) list" where
  "TFLITE_UNSUPPORTED_RES =
     [(rx_seq [rx_lit ''unsupported op'', rx_opt (rx_lit ''s''), not_digits, digits_group 1], True),
      (rx_seq [rx_lit ''unsupported_op_count'', spaces, rx_one_of ''=:'', spaces, digits_group 1], True)]"

definition tflite_line :: "string \<Rightarrow> status \<Rightarrow> status py" where
  "tflite_line line metrics =
     rbind (set_float line (search_first TFLITE_AVG_RES line) ''avg_latency_us'' metrics) (\<lambda>metrics.
     rbind (set_float line (search_first TFLITE_FALLBACK_RES line) ''cpu_fallback_percent'' metrics) (\<lambda>metrics.
     set_int line (search_first TFLITE_UNSUPPORTED_RES line) ''unsupported_op_count'' metrics))"

definition parse_tflite_benchmark_model :: "string \<Rightarrow> pyv py" where
  "parse_tflite_benchmark_model out =
     rbind (foldR tflite_line (split_lines out) []) (\<lambda>metrics.
     rbind (fail_if (\<not> dhas metrics ''avg_latency_us'')
        ''TFLite parser did not find average inference latency'') (\<lambda>_.
     Inr (PDict metrics)))"

section \<open>JSON reports\<close>

definition fio_add :: "pyv \<Rightarrow> string \<Rightarrow> pyfloat \<Rightarrow> pyfloat py" where
  "fio_add side key acc =
     rbind (py_get side key (PFloat (Fin 0))) (\<lambda>v. rbind (py_float v) (\<lambda>x. Inr (float_add acc x)))"

definition fio_job :: "pyv \<Rightarrow> pyfloat \<times> pyfloat \<times> pyfloat \<times> pyfloat \<Rightarrow> (pyfloat \<times> pyfloat \<times> pyfloat \<times> pyfloat) py" where
  "fio_job job totals =
     (case totals of (ri, wi, rb, wb) \<Rightarrow>
     rbind (py_get job ''read'' (PDict [])) (\<lambda>rd.
     rbind (py_get job ''write'' (PDict [])) (\<lambda>wr.
     rbind (fio_add rd ''iops'' ri) (\<lambda>ri.
     rbind (fio_add wr ''iops'' wi) (\<lambda>wi.
     rbind (fio_add rd ''bw'' rb) (\<lambda>rb.
     rbind (fio_add wr ''bw'' wb) (\<lambda>wb.
     Inr (ri, wi, rb, wb))))))))"

definition parse_fio_json :: "world \<Rightarrow> string \<Rightarrow> pyv py" where
  "parse_fio_json w out =
     rbind (json_loads w out) (\<lambda>data.
     rbind (py_get data ''jobs'' PNone) (\<lambda>jobs.
     rbind (fail_if (\<not> is_list jobs \<or> \<not> truthy jobs) ''fio JSON output missing jobs'') (\<lambda>_.
     rbind (foldR fio_job (as_list jobs) (Fin 0, Fin 0, Fin 0, Fin 0)) (\<lambda>(ri, wi, rb, wb).
     rbind (fail_if (\<not> list_ex (\<lambda>x. x \<noteq> Fin 0) [ri, wi, rb, wb])
        ''fio JSON output did not contain non-zero IO metrics'') (\<lambda>_.
     Inr (PDict [(''read_iops'', PFloat ri), (''write_iops'', PFloat wi),
                 (''read_bw_kib_s'', PFloat rb), (''write_bw_kib_s'', PFloat wb)]))))))"

definition SIMULATOR_REQUIRED :: "string list" where
  "SIMULATOR_REQUIRED = [''target_cycles'', ''simulated_frequency_hz'', ''ipc'']"

definition FORBIDDEN_SCORES :: "string list" where
  "FORBIDDEN_SCORES = [''wall_clock_score'', ''phone_score'', ''geekbench_score'']"

definition parse_simulator_metrics :: "world \<Rightarrow> string \<Rightarrow> pyv py" where
  "parse_simulator_metrics w out =
     rbind (json_loads w out) (\<lambda>data.
     if \<not> is_dict data then Inl PyAttributeError
     else
       let missing = filter (\<lambda>key. \<not> is_num (get data key)) SIMULATOR_REQUIRED;
           forbidden = filter (has_key data) FORBIDDEN_SCORES
       in rbind (fail_if (missing \<noteq> []) (''simulator metrics missing numeric keys: '' @ join '', '' missing)) (\<lambda>_.
          rbind (fail_if (forbidden \<noteq> [])
            (''simulator metrics contain forbidden comparable score keys: '' @ join '', '' forbidden)) (\<lambda>_.
          rbind (fail_if (get data ''benchmark_success_allowed'' \<noteq> PBool True)
            ''simulator metrics are not calibrated benchmark evidence'') (\<lambda>_.
          Inr data))))"

text \<open>\<open>int(d.get(key, 0))\<close> and \<open>float(d.get(key, 0.0))\<close> with the metric's name.\<close>

definition int_field :: "pyv \<Rightarrow> string \<Rightarrow> (string \<times> pyv) py" where
  "int_field d key = rbind (py_int (get_or d key (PInt 0))) (\<lambda>i. Inr (key, PInt i))"

definition float_field :: "pyv \<Rightarrow> string \<Rightarrow> (string \<times> pyv) py" where
  "float_field d key = rbind (py_float (get_or d key (PFloat (Fin 0)))) (\<lambda>x. Inr (key, PFloat x))"

definition npu_scale_fields :: "pyv \<Rightarrow> pyv \<Rightarrow> status py" where
  "npu_scale_fields summary config =
     mapR id
       [int_field summary ''kernel_count'', int_field summary ''process_corner_count'',
        float_field config ''dense_int8_peak_tops'', int_field config ''int8_macs_per_cycle'',
        int_field config ''dma_queue_depth'', int_field config ''scratchpad_kib'',
        int_field summary ''total_macs'', int_field summary ''total_bytes_read'',
        int_field summary ''total_bytes_written'', float_field summary ''min_observed_tops'',
        float_field summary ''max_observed_tops'', float_field summary ''min_utilization_percent'',
        float_field summary ''worst_process_corner_min_observed_tops'']"

definition parse_openagent_npu_scale_sim :: "world \<Rightarrow> string \<Rightarrow> pyv py" where
  "parse_openagent_npu_scale_sim w out =
     rbind (json_loads w (from_brace out)) (\<lambda>data.
     if \<not> is_dict data then Inl PyAttributeError
     else
       let summary = get_or data ''summary'' (PDict []); config = get_or data ''config'' (PDict []);
           kernels = get_or data ''kernels'' (PList [])
       in rbind (fail_if (\<not> py_eq (get data ''schema'') (PStr ''openagent.npu_scale_sim.v1''))
            ''NPU scale simulator output had an unexpected schema'') (\<lambda>_.
          rbind (fail_if (\<not> is_dict summary \<or> \<not> is_dict config \<or> \<not> truthy kernels)
            ''NPU scale simulator output is missing summary/config/kernels'') (\<lambda>_.
          rbind (npu_scale_fields summary config) (\<lambda>fields.
          Inr (PDict ((''benchmark_success_allowed'', PBool True) # fields))))))"

definition parse_benchmark_output :: "world \<Rightarrow> string \<Rightarrow> string \<Rightarrow> pyv py" where
  "parse_benchmark_output w parser out =
     (if parser = ''coremark_v1'' then parse_coremark out
      else if parser = ''openagent_npu_scale_sim_v1'' then parse_openagent_npu_scale_sim w out
      else if parser = ''stream_v5'' then parse_stream out
      else if parser = ''lmbench_bw_mem'' then parse_lmbench_bw_mem out
      else if parser = ''lmbench_lat_mem_rd'' then parse_lmbench_lat_mem_rd out
      else if parser = ''fio_json_v3'' then parse_fio_json w out
      else if parser = ''tflite_benchmark_model'' then parse_tflite_benchmark_model out
      else if parser = ''simulator_metrics_v1'' then parse_simulator_metrics w out
      else Inl (PyKeyError parser))"

section \<open>The parser by benchmark name\<close>

text \<open>\<open>parse_metrics\<close>: no parser name and no metrics when the text does not fit. Sums start at
the integer 0 and add from the left.\<close>

type_synonym named_metrics = "string option \<times> status"

definition no_metrics :: named_metrics where "no_metrics = (None, [])"

definition metrics_npu_scale :: "world \<Rightarrow> string \<Rightarrow> named_metrics py" where
  "metrics_npu_scale w out =
     (case json_loads w (from_brace out) of
        Inl e \<Rightarrow> Inr no_metrics
      | Inr data \<Rightarrow>
          if \<not> is_dict data then Inl PyAttributeError
          else
            let summary = get_or data ''summary'' (PDict []); config = get_or data ''config'' (PDict []);
                kernels = get_or data ''kernels'' (PList [])
            in if \<not> py_eq (get data ''schema'') (PStr ''openagent.npu_scale_sim.v1'')
                  \<or> \<not> is_dict summary \<or> \<not> is_dict config \<or> \<not> truthy kernels then Inr no_metrics
               else rbind (npu_scale_fields summary config) (\<lambda>fields.
                 Inr (Some ''openagent_npu_scale_sim_v1'', fields)))"

definition metrics_coremark :: "string \<Rightarrow> named_metrics py" where
  "metrics_coremark out =
     (let required = rx_search (rx_seq [rx_lit ''Iterations/Sec'', spaces, rx_lit '':'', spaces, num_group 1]) False out;
          match = rx_search (rx_seq [rx_lit ''CoreMark'', spaces, rx_lit ''/'', spaces, rx_lit ''MHz'', spaces,
                    rx_lit '':'', spaces, num_group 1]) False out
      in if required = None then Inr no_metrics
         else rbind (set_float out required ''iterations_per_second'' []) (\<lambda>metrics.
              rbind (set_float out match ''coremark_per_mhz'' metrics) (\<lambda>metrics.
              Inr (Some ''coremark_v1'', metrics))))"

definition metrics_stream :: "string \<Rightarrow> named_metrics py" where
  "metrics_stream out =
     rbind (foldR (\<lambda>kernel' metrics. set_float out
         (rx_search (rx_seq [RBol, spaces, rx_lit kernel', spaces, rx_lit '':'', spaces, num_group 1]) False out)
         (lower kernel' @ ''_mb_per_s'') metrics)
       [''Copy'', ''Scale'', ''Add'', ''Triad''] []) (\<lambda>metrics.
     Inr (if dhas metrics ''triad_mb_per_s'' then (Some ''stream_v5'', metrics) else no_metrics))"

definition PAIR_LINE_RE :: rx where
  "PAIR_LINE_RE = rx_seq [RBol, spaces, num_group 1, spaces1, num_group 2, spaces, REol]"

definition pair_lines :: "string \<Rightarrow> (pyfloat \<times> pyfloat) list py" where
  "pair_lines out = mapR (\<lambda>m. rbind (group_float out m 1) (\<lambda>x. rbind (group_float out m 2) (\<lambda>y. Inr (x, y))))
     (rx_finditer PAIR_LINE_RE False out)"

definition metrics_bw_mem :: "string \<Rightarrow> named_metrics py" where
  "metrics_bw_mem out =
     rbind (pair_lines out) (\<lambda>ps.
     Inr (if ps = [] then no_metrics
          else (Some ''lmbench_bw_mem'', [(''size_mb'', PFloat (fst (last ps))),
                  (''bandwidth_mb_per_s'', PFloat (snd (last ps)))])))"

definition metrics_lat_mem_rd :: "string \<Rightarrow> named_metrics py" where
  "metrics_lat_mem_rd out =
     rbind (pair_lines out) (\<lambda>ps.
     Inr (case map snd ps of
            [] \<Rightarrow> no_metrics
          | l # ls \<Rightarrow> (Some ''lmbench_lat_mem_rd'', [(''points'', PInt (int (length ps))),
                  (''min_latency_ns'', PFloat (fmin l ls)), (''max_latency_ns'', PFloat (fmax l ls))])))"

definition fio_sum :: "pyv list \<Rightarrow> string \<Rightarrow> string \<Rightarrow> pyv py" where
  "fio_sum jobs side key =
     (if jobs = [] then Inr (PInt 0)
      else rbind (foldR (\<lambda>job acc. rbind (py_get job side (PDict [])) (\<lambda>d. fio_add d key acc)) jobs (Fin 0)) (\<lambda>x.
        Inr (PFloat x)))"

definition metrics_fio :: "world \<Rightarrow> string \<Rightarrow> named_metrics py" where
  "metrics_fio w out =
     (case json_loads w (from_brace out) of
        Inl e \<Rightarrow> Inr no_metrics
      | Inr data \<Rightarrow>
          rbind (py_get data ''jobs'' PNone) (\<lambda>jobs0.
          if \<not> truthy jobs0 then Inr no_metrics
          else rbind (py_iter jobs0) (\<lambda>jobs.
            rbind (fio_sum jobs ''read'' ''iops'') (\<lambda>ri.
            rbind (fio_sum jobs ''write'' ''iops'') (\<lambda>wi.
            rbind (fio_sum jobs ''read'' ''bw'') (\<lambda>rb.
            rbind (fio_sum jobs ''write'' ''bw'') (\<lambda>wb.
            Inr (Some ''fio_json_v3'', [(''jobs'', PInt (int (length jobs))), (''read_iops'', ri),
              (''write_iops'', wi), (''read_bw_kib_s'', rb), (''write_bw_kib_s'', wb)]))))))))"

definition TFLITE_TIMINGS_RE :: rx where
  "TFLITE_TIMINGS_RE = rx_seq
     [rx_lit ''Inference timings in us:'', spaces, rx_lit ''Init:'', spaces, num_group 1, spaces, rx_lit '','', spaces,
      rx_lit ''First inference:'', spaces, num_group 2, spaces, rx_lit '','', spaces,
      rx_lit ''Warmup'', spaces, rx_lit ''(avg):'', spaces, num_group 3, spaces, rx_lit '','', spaces,
      rx_lit ''Inference'', spaces, rx_lit ''(avg):'', spaces, num_group 4]"

definition DELEGATED_RE :: rx where
  "DELEGATED_RE = rx_seq [rx_lit ''NNAPI delegated'', spaces1, digits_group 1, spaces1, rx_lit ''nodes;'', spaces1,
     digits_group 2, spaces1, rx_lit ''fallback to CPU'']"

definition UNSUPPORTED_RE :: rx where
  "UNSUPPORTED_RE = rx_seq [rx_lit ''Number of unsupported ops:'', spaces, digits_group 1]"

definition metrics_tflite :: "string \<Rightarrow> named_metrics py" where
  "metrics_tflite out =
     (case rx_search TFLITE_TIMINGS_RE False out of
        None \<Rightarrow> Inr no_metrics
      | Some m \<Rightarrow>
          rbind (mapR (\<lambda>(k, key). rbind (group_float out m k) (\<lambda>x. Inr (key, PFloat x)))
            [(1, ''init_us''), (2, ''first_inference_us''), (3, ''warmup_avg_us''), (4, ''avg_latency_us'')]) (\<lambda>ms.
          rbind (case rx_search DELEGATED_RE False out of
                   None \<Rightarrow> Inr ms
                 | Some d \<Rightarrow> rbind (group_int out d 1) (\<lambda>x. rbind (group_int out d 2) (\<lambda>y.
                     Inr (ms @ [(''nnapi_delegated_nodes'', PInt x), (''cpu_fallback_nodes'', PInt y)])))) (\<lambda>ms.
          rbind (set_int out (rx_search UNSUPPORTED_RE False out) ''unsupported_op_count'' ms) (\<lambda>ms.
          Inr (Some ''tflite_benchmark_model'', ms)))))"

definition parse_metrics :: "world \<Rightarrow> string \<Rightarrow> string \<Rightarrow> named_metrics py" where
  "parse_metrics w name out =
     (if name = ''npu_arch_sim_open_2028'' then metrics_npu_scale w out
      else if name = ''coremark'' then metrics_coremark out
      else if name = ''stream'' then metrics_stream out
      else if name = ''lmbench_bw_mem'' then metrics_bw_mem out
      else if name = ''lmbench_lat_mem_rd'' then metrics_lat_mem_rd out
      else if starts_with ''fio_'' name then metrics_fio w out
      else if starts_with ''tflite_'' name then metrics_tflite out
      else Inr no_metrics)"

section \<open>What a parser promises\<close>

text \<open>
  The runner relies on one thing about every parser: an accepted text yields a dictionary
  with the headline metric of its benchmark.
\<close>

locale metric_parser =
  fixes parse :: "string \<Rightarrow> pyv py" and headline :: string
  assumes accepted_headline: "parse out = Inr m \<Longrightarrow> \<exists>d v. m = PDict d \<and> dget d headline = Some v"
begin

lemma metrics_usable: "parse out = Inr m \<Longrightarrow> is_dict m \<and> truthy m \<and> has_key m headline"
  using accepted_headline [of out m] by (auto simp: has_key_def dhas_def)

end

lemma npu_scale_fields_kernel_count:
  "npu_scale_fields s c = Inr d \<Longrightarrow> \<exists>v. dget d ''kernel_count'' = Some v"
  by (auto simp: npu_scale_fields_def int_field_def)

interpretation coremark: metric_parser parse_coremark "''coremark_per_mhz''"
  by unfold_locales (auto simp: parse_coremark_def dhas_def)

interpretation stream: metric_parser parse_stream "''triad_mb_per_s''"
  by unfold_locales (auto simp: parse_stream_def dhas_def)

interpretation bw_mem: metric_parser parse_lmbench_bw_mem "''bandwidth_mb_per_s''"
  by unfold_locales (auto simp: parse_lmbench_bw_mem_def Let_def)

interpretation lat_mem: metric_parser parse_lmbench_lat_mem_rd "''max_latency_ns''"
  by unfold_locales (auto simp: parse_lmbench_lat_mem_rd_def split: list.splits)

interpretation tflite: metric_parser parse_tflite_benchmark_model "''avg_latency_us''"
  by unfold_locales (auto simp: parse_tflite_benchmark_model_def dhas_def)

interpretation fio: metric_parser "parse_fio_json w" "''read_iops''" for w
  by unfold_locales (auto simp: parse_fio_json_def)

interpretation simulator: metric_parser "parse_simulator_metrics w" "''ipc''" for w
proof
  fix out m
  assume a: "parse_simulator_metrics w out = Inr m"
  then have m: "is_dict m" "is_num (get m ''ipc'')"
    by (auto simp: parse_simulator_metrics_def Let_def SIMULATOR_REQUIRED_def split: if_splits)
  then obtain d where d: "m = PDict d" by blast
  then have "dget d ''ipc'' \<noteq> None" using m(2) by (auto simp: get_def get_or_def is_num_def split: option.splits)
  then show "\<exists>d v. m = PDict d \<and> dget d ''ipc'' = Some v" using d by auto
qed

interpretation npu_scale: metric_parser "parse_openagent_npu_scale_sim w" "''kernel_count''" for w
  using npu_scale_fields_kernel_count
  by unfold_locales (auto simp: parse_openagent_npu_scale_sim_def Let_def split: if_splits)

definition headline_of :: "string \<Rightarrow> string" where
  "headline_of parser =
     (if parser = ''coremark_v1'' then ''coremark_per_mhz''
      else if parser = ''openagent_npu_scale_sim_v1'' then ''kernel_count''
      else if parser = ''stream_v5'' then ''triad_mb_per_s''
      else if parser = ''lmbench_bw_mem'' then ''bandwidth_mb_per_s''
      else if parser = ''lmbench_lat_mem_rd'' then ''max_latency_ns''
      else if parser = ''fio_json_v3'' then ''read_iops''
      else if parser = ''tflite_benchmark_model'' then ''avg_latency_us''
      else ''ipc'')"

text \<open>C16: Whatever the output of a benchmark, a parser that accepts it returns a non-empty
dictionary that holds the headline metric of that parser; unknown parsers raise \<open>KeyError\<close>.\<close>
theorem parsed_metrics_usable:
  assumes "parse_benchmark_output w parser out = Inr m"
  shows "parser \<in> set VALID_PARSERS \<and> is_dict m \<and> truthy m \<and> has_key m (headline_of parser)"
proof -
  note usable = coremark.metrics_usable stream.metrics_usable bw_mem.metrics_usable lat_mem.metrics_usable
    tflite.metrics_usable fio.metrics_usable simulator.metrics_usable npu_scale.metrics_usable
  show ?thesis
    using assms usable unfolding parse_benchmark_output_def headline_of_def VALID_PARSERS_def
    by (simp split: if_splits)
qed

definition demo_simulator_world :: world where
  "demo_simulator_world = demo_world\<lparr>wd_json := (\<lambda>s. Some (PDict
     [(''target_cycles'', PInt 10), (''simulated_frequency_hz'', PInt 5), (''ipc'', PInt 2),
      (''benchmark_success_allowed'', PBool True)]))\<rparr>"

lemma demo_simulator_parses:
  "case parse_benchmark_output demo_simulator_world ''simulator_metrics_v1'' ''J'' of Inl e \<Rightarrow> False | Inr m \<Rightarrow> True"
  by code_simp

theorem parsed_metrics_usable_witness:
  "\<exists>m. parse_benchmark_output demo_simulator_world ''simulator_metrics_v1'' ''J'' = Inr m \<and> has_key m ''ipc''"
proof -
  obtain m where m: "parse_benchmark_output demo_simulator_world ''simulator_metrics_v1'' ''J'' = Inr m"
    using demo_simulator_parses by (auto split: sum.splits)
  from parsed_metrics_usable [OF m] have "has_key m (headline_of ''simulator_metrics_v1'')" by blast
  then show ?thesis using m by (simp add: headline_of_def)
qed

section \<open>Reading back a latency table\<close>

definition plain_word :: "string \<Rightarrow> bool" where
  "plain_word s \<longleftrightarrow> s \<noteq> [] \<and> list_all (\<lambda>c. \<not> is_space c \<and> \<not> is_line_end c) s"

lemma split_ws_word:
  "list_all (\<lambda>c. \<not> is_space c) s \<Longrightarrow> split_ws cur (s @ rest) = split_ws (rev s @ cur) rest"
  by (induction s arbitrary: cur) auto

lemma split_ws_pair: "plain_word a \<Longrightarrow> plain_word b \<Longrightarrow> split_ws [] (a @ '' '' @ b) = [a, b]"
proof -
  assume w: "plain_word a" "plain_word b"
  then have s: "list_all (\<lambda>c. \<not> is_space c) a" "list_all (\<lambda>c. \<not> is_space c) b" "a \<noteq> []" "b \<noteq> []"
    by (auto simp: plain_word_def list_all_iff)
  have sp: "is_space (CHR '' '')" by (simp add: is_space_def)
  show ?thesis
    using split_ws_word [OF s(1), of "[]" "'' '' @ b"] split_ws_word [OF s(2), of "[]" "[]"] s(3,4) sp by simp
qed

lemma split_lines_line:
  "list_all (\<lambda>c. \<not> is_line_end c) s \<Longrightarrow>
   split_lines_from cur (s @ CHR 0x0A # rest) = (rev cur @ s) # split_lines_from [] rest"
proof (induction s arbitrary: cur)
  case Nil
  have "is_line_end (CHR 0x0A)" by (simp add: is_line_end_def)
  then show ?case by (cases rest) simp_all
next
  case (Cons c s)
  have "is_line_end (CHR 0x0D)" by (simp add: is_line_end_def)
  then have "c \<noteq> CHR 0x0D" "\<not> is_line_end c" using Cons.prems by auto
  then show ?case using Cons.IH [of "c # cur"] Cons.prems by (cases s) simp_all
qed

definition lat_table :: "(string \<times> string) list \<Rightarrow> string" where
  "lat_table ps = concat (map (\<lambda>(a, b). a @ '' '' @ b @ [CHR 0x0A]) ps)"

definition readable_point :: "string \<times> string \<Rightarrow> bool" where
  "readable_point p \<longleftrightarrow> plain_word (fst p) \<and> plain_word (snd p)
     \<and> float_of_string (fst p) \<noteq> None \<and> float_of_string (snd p) \<noteq> None"

definition read_point :: "string \<times> string \<Rightarrow> pyfloat \<times> pyfloat" where
  "read_point p = (the (float_of_string (fst p)), the (float_of_string (snd p)))"

lemma lat_mem_line_point: "readable_point (a, b) \<Longrightarrow> lat_mem_line (a @ '' '' @ b) = [read_point (a, b)]"
  using split_ws_pair [of a b] by (auto simp: lat_mem_line_def readable_point_def read_point_def)

lemma lat_table_points:
  "list_all readable_point ps \<Longrightarrow> concat (map lat_mem_line (split_lines_from [] (lat_table ps))) = map read_point ps"
proof (induction ps)
  case (Cons p ps)
  obtain a b where p: "p = (a, b)" by (cases p)
  have "\<not> is_line_end (CHR '' '')" by (simp add: is_line_end_def)
  then have "list_all (\<lambda>c. \<not> is_line_end c) (a @ '' '' @ b)"
    using Cons.prems by (auto simp: p readable_point_def plain_word_def list_all_iff)
  from split_lines_line [OF this, of "[]" "lat_table ps"]
  have "split_lines_from [] (lat_table (p # ps)) = (a @ '' '' @ b) # split_lines_from [] (lat_table ps)"
    by (simp add: p lat_table_def)
  then show ?case using Cons lat_mem_line_point [of a b] by (simp add: p)
qed (simp add: lat_table_def)

lemma fmax_grows: "fmax y zs = y \<or> float_lt y (fmax y zs)"
proof (induction zs arbitrary: y)
  case (Cons z zs)
  have "fmax y (z # zs) = fmax (if float_lt y z then z else y) zs" by (simp add: fmax_def)
  then show ?case using Cons.IH [of z] Cons.IH [of y] float_lt_trans [of y z "fmax z zs"] by auto
qed (simp add: fmax_def)

lemma fmax_not_less: "x \<in> set (y # ys) \<Longrightarrow> \<not> float_lt (fmax y ys) x"
proof (induction ys arbitrary: y x)
  case (Cons z zs)
  have step: "fmax y (z # zs) = fmax (if float_lt y z then z else y) zs" by (simp add: fmax_def)
  consider "x = y" | "x = z" | "x \<in> set zs" using Cons.prems by auto
  then show ?case
  proof cases
    case 1
    show ?thesis
    proof (cases "float_lt y z")
      case True
      then have "\<not> float_lt (fmax z zs) z" using Cons.IH [of z z] by simp
      then show ?thesis using step True 1 float_lt_trans [of "fmax z zs" y z] by auto
    next
      case False
      then show ?thesis using step 1 Cons.IH [of y y] by simp
    qed
  next
    case 2
    show ?thesis
    proof (cases "float_lt y z")
      case True
      then show ?thesis using step 2 Cons.IH [of z z] by simp
    next
      case False
      then show ?thesis using step 2 fmax_grows [of y zs] float_lt_trans [of y "fmax y zs" z] by auto
    qed
  next
    case 3
    then show ?thesis using step Cons.IH by simp
  qed
qed (simp add: fmax_def)

text \<open>A latency table printed as lines of two words that read as numbers is read back by the
parser: exactly its points in order, and a maximum that is one not below any of the latencies.\<close>
theorem lat_mem_rd_roundtrip:
  assumes "list_all readable_point (p # ps)"
  shows "\<exists>m. parse_lmbench_lat_mem_rd (lat_table (p # ps)) = Inr (PDict
       [(''points'', PList (map (\<lambda>q. PDict [(''size_mb'', PFloat (fst (read_point q))), (''latency_ns'', PFloat (snd (read_point q)))])
           (p # ps))), (''max_latency_ns'', PFloat m)])
     \<and> (\<forall>q \<in> set (p # ps). \<not> float_lt m (snd (read_point q)))"
proof -
  have "concat (map lat_mem_line (split_lines (lat_table (p # ps)))) = read_point p # map read_point ps"
    unfolding split_lines_def lat_table_points [OF assms] by simp
  then have "parse_lmbench_lat_mem_rd (lat_table (p # ps)) = Inr (PDict
       [(''points'', PList (map (\<lambda>q. PDict [(''size_mb'', PFloat (fst (read_point q))), (''latency_ns'', PFloat (snd (read_point q)))])
           (p # ps))), (''max_latency_ns'', PFloat (fmax (snd (read_point p)) (map snd (map read_point ps))))])"
    by (simp add: parse_lmbench_lat_mem_rd_def case_prod_unfold comp_def)
  moreover have "\<forall>q \<in> set (p # ps). \<not> float_lt (fmax (snd (read_point p)) (map snd (map read_point ps))) (snd (read_point q))"
    by (auto intro!: fmax_not_less)
  ultimately show ?thesis by blast
qed

lemma demo_point: "readable_point (''1'', ''inf'')"
  by code_simp

theorem lat_mem_rd_roundtrip_witness:
  "\<exists>v. parse_lmbench_lat_mem_rd (lat_table [(''1'', ''inf'')]) = Inr v"
  using lat_mem_rd_roundtrip [of "(''1'', ''inf'')" "[]"] demo_point by auto

end
