(* ===== verification/Bench_Report.thy ===== *)
theory Bench_Report
  imports Bench_Metadata
begin

text \<open>
  The validator of a benchmark report (\<open>validate_report\<close> of \<open>benchmarks/run_benchmarks.py\<close>), one
  definition per group of checks. A group returns the messages it appends, or the
  exception it lets escape on a report of an unexpected shape.
\<close>

section \<open>The report itself\<close>

text \<open>The loop over a table of required fields, on the report and on each result.\<close>

definition typed_field_errors :: "string \<Rightarrow> string \<Rightarrow> pyv \<Rightarrow> string \<times> py_type \<Rightarrow> string list py" where
  "typed_field_errors pre dot v ft =
     (let (field, ty) = ft in
      rbind (py_in field v) (\<lambda>present.
      if \<not> present then Inr [pre @ '' missing '' @ field]
      else rbind (py_item v field) (\<lambda>x.
        Inr (err_if (\<not> has_type x ty) (dot @ field @ '' must be '' @ type_name ty)))))"

definition identity_errors :: "pyv \<Rightarrow> string list py" where
  "identity_errors report =
     rbind (in_names (get report ''claim_level'') VALID_CLAIM_LEVELS) (\<lambda>ok.
     Inr (err_if (\<not> py_eq (get report ''schema'') (PStr ''openagent.benchmark_run.v1''))
            ''report.schema must be openagent.benchmark_run.v1''
          @ err_if (\<not> ok) ''report.claim_level is not a valid claim level''))"

definition passed_result :: "pyv \<Rightarrow> bool" where
  "passed_result r \<longleftrightarrow> is_dict r \<and> py_eq (get r ''status'') (PStr ''passed'')"

definition metadata_type_name :: "py_type \<Rightarrow> string" where
  "metadata_type_name ty = (if ty = TNumber then ''number'' else if ty = TInt then ''integer'' else type_name ty)"

definition metadata_field_errors :: "string \<Rightarrow> pyv \<Rightarrow> string \<times> py_type \<Rightarrow> string list" where
  "metadata_field_errors section' data ft =
     (let (field, ty) = ft; v = get data field; pre = ''real report metadata '' @ section' @ ''.'' @ field in
      if \<not> has_type v ty \<or> ty \<in> {TInt, TNumber} \<and> is_bool v then [pre @ '' must be '' @ metadata_type_name ty]
      else err_if (is_str v \<and> strip (as_str v) = []) (pre @ '' must be non-empty''))"

definition process_errors :: "pyv \<Rightarrow> string list" where
  "process_errors process =
     (let contract = get process ''process_effects_contract''; pre = ''real report metadata process.'' in
      (if \<not> is_dict contract then [pre @ ''process_effects_contract must be object'']
       else err_if (\<not> py_eq (get contract ''path'') (PStr PROCESS_EFFECTS_CONTRACT_PATH))
              (pre @ ''process_effects_contract.path must be '' @ PROCESS_EFFECTS_CONTRACT_PATH)
         @ err_if (\<not> is_sha256 (get contract ''sha256''))
              (pre @ ''process_effects_contract.sha256 must be lowercase hex sha256''))
      @ err_if (\<not> names_14a (get process ''node'')) (pre @ ''node must identify the 14A target node'')
      @ err_if (\<not> positive_int (get process ''process_corner_count''))
          (pre @ ''process_corner_count must be positive integer'')
      @ err_if (\<not> names_14a_corner (get process ''worst_process_corner''))
          (pre @ ''worst_process_corner must name a 14A corner'')
      @ err_if (\<not> py_eq (get process ''pdk_signoff_claim'') (PStr PROCESS_PDK_SIGNOFF_PASSED))
          (pre @ ''pdk_signoff_claim must record passed PDK extracted timing/power/thermal signoff''))"

definition metadata_section_errors :: "pyv \<Rightarrow> string \<Rightarrow> string list" where
  "metadata_section_errors report section' =
     (let data = get report section' in
      if \<not> is_dict data then [''real report missing metadata section '' @ section']
      else concat (map (metadata_field_errors section' data)
             (case map_of REAL_METADATA_REQUIRED_FIELDS section' of None \<Rightarrow> [] | Some required \<Rightarrow> required))
        @ (if section' = ''process'' then process_errors data else []))"

definition real_metadata_errors :: "pyv \<Rightarrow> string list py" where
  "real_metadata_errors report =
     rbind (py_iter (get_or report ''results'' (PList []))) (\<lambda>results.
     Inr (if get report ''dry_run'' = PBool False \<and> list_ex passed_result results
          then concat (map (metadata_section_errors report) REAL_METADATA_SECTIONS) else []))"

definition platform_errors :: "pyv \<Rightarrow> string list py" where
  "platform_errors report =
     (let p = get_or report ''platform'' (PDict []) in
      if \<not> is_dict p then Inl PyAttributeError
      else Inr (concat (map (\<lambda>field. err_if (\<not> is_str (get p field)) (''report.platform.'' @ field @ '' must be string''))
        [''name'', ''revision'', ''source_tree_sha'', ''host'', ''host_system''])))"

section \<open>One result\<close>

definition vocabulary_errors :: "string \<Rightarrow> pyv \<Rightarrow> string list py" where
  "vocabulary_errors pre res =
     collect
       [rbind (in_names (get res ''parser'') VALID_PARSERS) (\<lambda>ok. Inr (err_if (\<not> ok) (pre @ ''.parser is not supported''))),
        rbind (in_names (get res ''provenance'') VALID_PROVENANCE) (\<lambda>ok.
          Inr (err_if (\<not> ok) (pre @ ''.provenance is not supported''))),
        rbind (in_names (get res ''status'') VALID_RESULT_STATUSES) (\<lambda>ok.
          Inr (err_if (\<not> ok) (pre @ ''.status '' @ py_repr (get res ''status'') @ '' is not valid'')))]"

definition dry_run_errors :: "string \<Rightarrow> pyv \<Rightarrow> pyv \<Rightarrow> string list" where
  "dry_run_errors pre report res =
     (if get report ''dry_run'' = PBool True then
        err_if (py_eq (get res ''status'') (PStr ''passed'')) (pre @ '' dry-run report must not contain passed results'')
        @ err_if (\<not> py_eq (get res ''provenance'') (PStr ''dry_run'')) (pre @ '' dry-run result provenance must be dry_run'')
      else [])"

definition real_passed_errors :: "string \<Rightarrow> pyv \<Rightarrow> pyv \<Rightarrow> string list py" where
  "real_passed_errors pre report res =
     (let metrics = get res ''metrics''; run_metadata = get res ''run_metadata'' in
      if get report ''dry_run'' = PBool False \<and> py_eq (get res ''status'') (PStr ''passed'') then
        collect
          [Inr (err_if (py_eq (get res ''provenance'') (PStr ''dry_run''))
             (pre @ '' real passed result cannot use dry_run provenance'')),
           Inr (err_if (\<not> is_dict metrics \<or> \<not> truthy metrics) (pre @ '' passed result missing parsed metrics'')),
           Inr (err_if (\<not> is_dict run_metadata) (pre @ '' passed result missing run_metadata'')),
           (if is_dict metrics \<and> is_dict run_metadata then
              collect
                [rbind (check_metric_requirements metrics run_metadata) (\<lambda>es.
                   Inr (map (\<lambda>e. pre @ ''.metrics '' @ e) es)),
                 rbind (check_calibration_requirements report res) (\<lambda>es.
                   Inr (map (\<lambda>e. pre @ ''.calibration '' @ e) es))]
            else Inr [])]
      else Inr [])"

definition passed_dependency_errors :: "string \<Rightarrow> pyv \<Rightarrow> pyv \<Rightarrow> string list py" where
  "passed_dependency_errors pre report dep =
     (if \<not> is_dict dep then Inl PyAttributeError else
      rbind (in_names (get dep ''kind'') [''model_artifact'', ''capability_artifact'']) (\<lambda>artifact.
      Inr (err_if (artifact \<and> \<not> truthy (get dep ''available''))
             (pre @ '' passed with unavailable '' @ py_str (get dep ''kind'') @ '' '' @ py_str (get dep ''name''))
           @ err_if (\<not> py_eq (get report ''claim_level'') (PStr HOST_SMOKE_CLAIM_LEVEL)
                     \<and> get dep ''release_claim_allowed'' = PBool False)
             (pre @ '' '' @ py_str (get report ''claim_level'') @ '' passed with non-release dependency ''
              @ py_str (get dep ''name'')))))"

definition e1_npu_metric_errors :: "string \<Rightarrow> pyv \<Rightarrow> string list" where
  "e1_npu_metric_errors pre metrics =
     (if \<not> is_dict metrics then [pre @ '' tflite_e1_npu passed without parsed metrics'']
      else err_if (\<not> py_eq (get metrics ''unsupported_op_count'') (PInt 0))
             (pre @ '' tflite_e1_npu must report zero unsupported ops'')
        @ err_if (\<not> py_eq (get metrics ''cpu_fallback_nodes'') (PInt 0))
             (pre @ '' tflite_e1_npu must report zero CPU fallback'')
        @ err_if (\<not> is_int (get metrics ''nnapi_delegated_nodes'') \<or> as_int (get metrics ''nnapi_delegated_nodes'') \<le> 0)
             (pre @ '' tflite_e1_npu must report delegated NNAPI nodes''))"

definition passed_errors :: "string \<Rightarrow> pyv \<Rightarrow> pyv \<Rightarrow> string list py" where
  "passed_errors pre report res =
     (if \<not> py_eq (get res ''status'') (PStr ''passed'') then Inr []
      else rbind (py_iter (get_or res ''dependencies'' (PList []))) (\<lambda>deps.
        rbind (collect (map (passed_dependency_errors pre report) deps)) (\<lambda>ds.
        Inr (err_if (truthy (get res ''missing_dependencies'')) (pre @ '' passed with missing_dependencies'')
             @ err_if (truthy (get res ''blocked_assets'')) (pre @ '' passed with blocked_assets'')
             @ ds
             @ (if py_eq (get res ''name'') (PStr ''tflite_e1_npu'')
                then e1_npu_metric_errors pre (get res ''metrics'') else [])))))"

definition blocked_errors :: "string \<Rightarrow> pyv \<Rightarrow> string list" where
  "blocked_errors pre res =
     err_if (py_eq (get res ''status'') (PStr ''blocked'')
             \<and> \<not> (truthy (get res ''blocked_assets'') \<or> truthy (get res ''blocked_requirements'')
                  \<or> truthy (get res ''missing_dependencies'')))
       (pre @ '' blocked without blocked_assets, blocked_requirements, or missing_dependencies'')"

definition SCORE_KEYS :: "string list" where
  "SCORE_KEYS = [''wall_clock_score'', ''phone_score'', ''geekbench_score'']"

definition simulator_errors :: "string \<Rightarrow> pyv \<Rightarrow> pyv \<Rightarrow> string list py" where
  "simulator_errors pre report res =
     (let metrics = get_or res ''metrics'' (PDict []) in
      if \<not> py_eq (get res ''provenance'') (PStr ''simulator'') then Inr []
      else rbind (in_names (get report ''claim_level'') [''L0_RTL_UNIT'', ''L1_RTL_FULL_SOC'', ''L2_ARCH_SIM'']) (\<lambda>ok.
        Inr ((if is_dict metrics then concat (map (\<lambda>forbidden. err_if (has_key metrics forbidden)
                (pre @ ''.metrics contains simulator-forbidden key '' @ forbidden)) SCORE_KEYS) else [])
             @ err_if (\<not> ok) (pre @ '' simulator provenance is incompatible with '' @ py_str (get report ''claim_level''))
             @ err_if (py_eq (get res ''status'') (PStr ''passed'') \<and> is_dict metrics
                       \<and> get metrics ''benchmark_success_allowed'' \<noteq> PBool True)
                 (pre @ ''.metrics simulator benchmark_success_allowed must be true''))))"

definition blocked_asset_errors :: "string \<Rightarrow> nat \<times> pyv \<Rightarrow> string list py" where
  "blocked_asset_errors pre ia =
     (let (i, asset) = ia; apre = pre @ ''.blocked_assets['' @ nat_str i @ '']'' in
      if \<not> is_dict asset then Inl PyAttributeError
      else Inr (err_if (\<not> nonempty_str (get asset ''blocker_id'')) (apre @ ''.blocker_id must be non-empty string'')
        @ concat (map (\<lambda>field. err_if (\<not> is_bool (get asset field)) (apre @ ''.'' @ field @ '' must be bool''))
            [''pipeline_visible'', ''release_blocking''])))"

definition dependency_errors :: "string \<Rightarrow> nat \<times> pyv \<Rightarrow> string list py" where
  "dependency_errors pre id' =
     (let (i, dep) = id'; dpre = pre @ ''.dependencies['' @ nat_str i @ '']'' in
      rbind (collect (map (\<lambda>field. rbind (py_in field dep) (\<lambda>present.
          Inr (err_if (\<not> present) (dpre @ '' missing '' @ field)))) [''name'', ''kind'', ''available''])) (\<lambda>es.
      rbind (py_in ''available'' dep) (\<lambda>present.
      if \<not> present then Inr es
      else rbind (py_item dep ''available'') (\<lambda>a.
        Inr (es @ err_if (\<not> is_bool a) (dpre @ ''.available must be bool''))))))"

definition result_errors :: "pyv \<Rightarrow> nat \<times> pyv \<Rightarrow> string list py" where
  "result_errors report ir =
     (let (i, res) = ir; pre = ''report.results['' @ nat_str i @ '']'' in
      if \<not> is_dict res then Inr [pre @ '' must be object'']
      else collect
        [collect (map (typed_field_errors pre (pre @ ''.'') res) REQUIRED_RESULT_FIELDS),
         collect (map (typed_field_errors pre (pre @ ''.'') res) STRICT_RESULT_METADATA_FIELDS),
         vocabulary_errors pre res,
         Inr (dry_run_errors pre report res),
         real_passed_errors pre report res,
         passed_errors pre report res,
         Inr (blocked_errors pre res),
         simulator_errors pre report res,
         rbind (py_iter (get_or res ''blocked_assets'' (PList []))) (\<lambda>assets.
           collect (map (blocked_asset_errors pre) (enum assets))),
         rbind (py_iter (get_or res ''command'' (PList []))) (\<lambda>parts.
           Inr (err_if (\<not> list_all is_str parts) (pre @ ''.command must contain only strings''))),
         rbind (py_iter (get_or res ''dependencies'' (PList []))) (\<lambda>deps.
           collect (map (dependency_errors pre) (enum deps)))])"

section \<open>The validator\<close>

definition validate_report :: "pyv \<Rightarrow> string list py" where
  "validate_report report =
     rbind (collect (map (typed_field_errors ''report'' ''report.'' report) REQUIRED_REPORT_FIELDS)) (\<lambda>es.
     if \<not> is_dict report then Inl PyAttributeError
     else rbind (collect
       [identity_errors report, real_metadata_errors report, platform_errors report,
        rbind (py_iter (get_or report ''results'' (PList []))) (\<lambda>results.
          collect (map (result_errors report) (enum results)))]) (\<lambda>fs. Inr (es @ fs)))"

definition validate_report_file :: "world \<Rightarrow> ppath \<Rightarrow> string list py" where
  "validate_report_file w p = rbind (json_file w p) validate_report"

end
