(* ===== verification/Bench_Run.thy ===== *)
theory Bench_Run
  imports Bench_Parsers Bench_Report
begin

text \<open>
  The runner of \<open>benchmarks/run_benchmarks.py\<close>: one benchmark (\<open>run_benchmark\<close>), the loop over the
  selected ones with its exit code (\<open>run_plan_or_real\<close>), and the dispatch of \<open>main\<close>. A benchmark
  yields its result dictionary and the text of its log file; the clock, the host's names
  and the commit are a record of their own.
\<close>

section \<open>Arguments and surroundings\<close>

record run_args =
  ra_config :: ppath
  ra_out_dir :: ppath
  ra_bench :: "string list"
  ra_strict_missing :: bool
  ra_timeout_seconds :: int
  ra_report_id :: string
  ra_platform :: string
  ra_platform_revision :: string
  ra_claim_level :: string
  ra_allow_host_smoke_tools :: bool
  ra_metadata :: "ppath option"
  ra_dry_run :: bool

datatype cli = CliList ppath | CliPlan run_args | CliRun run_args | CliValidate ppath

record surroundings =
  su_now :: string
  su_git :: process_end
  su_host :: string
  su_host_system :: string
  su_elapsed :: "string list \<Rightarrow> pyfloat"

text \<open>The default subcommand.\<close>

definition normalized_argv :: "string list \<Rightarrow> string list" where
  "normalized_argv argv =
     (case argv of [] \<Rightarrow> [''run''] | a # _ \<Rightarrow> if a \<in> set COMMANDS then argv else ''run'' # argv)"

definition source_tree_sha :: "process_end \<Rightarrow> string" where
  "source_tree_sha git =
     (case git of Completed code out \<Rightarrow> if code = 0 \<and> strip out \<noteq> [] then strip out else ''unknown''
      | _ \<Rightarrow> ''unknown'')"

definition base_report :: "world \<Rightarrow> surroundings \<Rightarrow> run_args \<Rightarrow> pyv \<Rightarrow> ppath \<Rightarrow> status py" where
  "base_report w su a config repo =
     (let report =
        [(''schema'', PStr ''openagent.benchmark_run.v1''), (''report_id'', PStr (ra_report_id a)),
         (''date_utc'', PStr (su_now su)), (''dry_run'', PBool (ra_dry_run a)),
         (''claim_level'', PStr (ra_claim_level a)),
         (''platform'', PDict
            [(''name'', PStr (ra_platform a)), (''revision'', PStr (ra_platform_revision a)),
             (''source_tree_sha'', PStr (source_tree_sha (su_git su))), (''host'', PStr (su_host su)),
             (''host_system'', PStr (su_host_system su))]),
         (''config'', PDict
            [(''path'', PStr (path_str (ra_config a))), (''version'', get_or config ''version'' (PStr ''unknown''))]),
         (''results'', PList [])]
      in case ra_metadata a of None \<Rightarrow> Inr report
         | Some p \<Rightarrow>
             rbind (json_file w (path_join repo p)) (\<lambda>metadata.
             foldR (\<lambda>key r. rbind (py_in key metadata) (\<lambda>present.
                 if \<not> present then Inr r
                 else rbind (py_item metadata key) (\<lambda>v. Inr (dset r key v))))
               REAL_METADATA_SECTIONS report))"

section \<open>One benchmark\<close>

text \<open>The log file is written as UTF-8 before its digest and size are recorded.\<close>

definition utf8 :: "string \<Rightarrow> string" where
  "utf8 s = concat (map (\<lambda>c. let n = of_char c :: int in
     if n < 128 then [c] else [char_of (192 + n div 64), char_of (128 + n mod 64)]) s)"

definition record_artifact_hash :: "world \<Rightarrow> string \<Rightarrow> status \<Rightarrow> status" where
  "record_artifact_hash w log_text res =
     dset res ''artifacts'' (PDict (dupdate (as_dict (st_get res ''artifacts'' (PDict [])))
       [(''raw_output_sha256'', PStr (wd_sha256 w (utf8 log_text))),
        (''raw_output_bytes'', PInt (int (length (utf8 log_text))))]))"

text \<open>\<open>if v: result[key] = v\<close> for a list.\<close>

definition put_list :: "string \<Rightarrow> pyv list \<Rightarrow> status \<Rightarrow> status" where
  "put_list key xs res = (if xs = [] then res else dset res key (PList xs))"

definition blocked_line :: "pyv \<Rightarrow> string" where
  "blocked_line item = ''- '' @ py_str (get item ''name'') @ '': '' @ py_str (get item ''reason'') @ ''; ''
     @ py_str (get_or item ''resolution'' (PStr []))"

definition missing_line :: "pyv \<Rightarrow> string" where
  "missing_line item = ''- '' @ py_str (get item ''name'') @ '': '' @ py_str (get item ''reason'')
     @ (if truthy (get item ''path'') then '' at '' @ py_str (get item ''path'') else [])
     @ (if truthy (get item ''resolution'') then ''; '' @ py_str (get item ''resolution'') else [])"

abbreviation newline :: string where "newline \<equiv> [CHR 0x0A]"

definition initial_result ::
  "run_args \<Rightarrow> pyv \<Rightarrow> pyv list \<Rightarrow> status list \<Rightarrow> ppath \<Rightarrow> string list \<Rightarrow> status" where
  "initial_result a bench command sts log_path execution =
     [(''name'', get bench ''name''), (''suite'', get_or bench ''suite'' (get bench ''name'')),
      (''version'', get_or bench ''version'' (PStr ''unknown'')), (''command'', PList command),
      (''input_dataset'', get_or bench ''input_dataset'' (PStr ''none'')),
      (''primary_metric'', get_or bench ''primary_metric'' (PStr ''not_parsed'')),
      (''units'', get_or bench ''units'' (PStr ''unknown'')), (''parser'', get bench ''parser''),
      (''provenance'', if ra_dry_run a then PStr ''dry_run'' else get_or bench ''provenance'' (PStr ''measured'')),
      (''dependencies'', PList (map PDict sts)),
      (''artifacts'', PDict [(''raw_output'', PStr (path_str log_path))])]
     @ (if execution \<noteq> map as_str command then [(''resolved_command'', PList (map PStr execution))] else [])"

text \<open>The three ways a benchmark ends without being executed.\<close>

definition dry_run_result :: "world \<Rightarrow> pyv \<Rightarrow> status list \<Rightarrow> status \<Rightarrow> status \<times> string" where
  "dry_run_result w bench sts res =
     (let missing = missing_dependencies sts; blocked = blocked_assets sts;
          state = (if blocked \<noteq> [] then ''blocked'' else if missing \<noteq> [] then ''planned_missing_deps'' else ''planned'');
          log_text = ''dry-run: command was not executed'' @ newline;
          r = put_list ''blocked_assets'' blocked
                (put_list ''blocked_requirements'' (missing_dependency_blockers bench sts)
                (put_list ''missing_dependency_details'' (missing_dependency_details sts)
                (dset (dset res ''status'' (PStr state)) ''missing_dependencies'' (PList missing))))
      in (record_artifact_hash w log_text r, log_text))"

definition blocked_result :: "world \<Rightarrow> status list \<Rightarrow> pyv list \<Rightarrow> status \<Rightarrow> status \<times> string" where
  "blocked_result w sts requirements res =
     (let blocked = blocked_assets sts;
          log_text = join newline (''blocked benchmark requirements:''
            # map blocked_line requirements @ map blocked_line blocked) @ newline;
          r = put_list ''blocked_requirements'' requirements
                (put_list ''blocked_assets'' blocked
                (put_list ''missing_dependency_details'' (missing_dependency_details sts)
                (dset (dset res ''status'' (PStr ''blocked''))
                   ''missing_dependencies'' (PList (missing_dependencies sts)))))
      in (record_artifact_hash w log_text r, log_text))"

definition missing_result :: "world \<Rightarrow> status list \<Rightarrow> status \<Rightarrow> status \<times> string" where
  "missing_result w sts res =
     (let details = missing_dependency_details sts;
          log_text = ''missing dependencies:'' @ newline @ join newline (map missing_line details) @ newline;
          r = put_list ''missing_dependency_details'' details
                (dset (dset res ''status'' (PStr ''missing_dependencies''))
                   ''missing_dependencies'' (PList (missing_dependencies sts)))
      in (record_artifact_hash w log_text r, log_text))"

text \<open>\<open>str(exc)\<close> of the exceptions the runner turns into a failed result; the decoder's own text is left out.\<close>

fun caught_text :: "py_exc \<Rightarrow> string option" where
  "caught_text (PyValueError m) = Some m"
| "caught_text (PyKeyError k) = Some (repr_str k)"
| "caught_text PyJSONDecodeError = Some ''invalid JSON''"
| "caught_text _ = None"

definition run_metadata_of :: "pyv \<Rightarrow> pyv py" where
  "run_metadata_of bench =
     rbind (py_int (get_or bench ''runs'' (PInt 1))) (\<lambda>runs.
     rbind (py_int (get_or bench ''warmup_runs'' (PInt 0))) (\<lambda>warmup.
     Inr (PDict
       [(''runs'', PInt runs), (''warmup_runs'', PInt warmup),
        (''required_metadata'', get_or bench ''required_metadata'' (PList (map PStr REAL_METADATA_SECTIONS))),
        (''required_metrics'', get_or bench ''required_metrics'' (PList [])),
        (''metric_gates'', get_or bench ''metric_gates'' (PList [])),
        (''required_calibration_assets'', get_or bench ''required_calibration_assets'' (PList []))])))"

text \<open>After the parser: the exit code, then the gates, decide.\<close>

definition gated_result :: "pyv \<Rightarrow> int \<Rightarrow> status \<Rightarrow> status py" where
  "gated_result bench code res =
     (if code \<noteq> 0 then Inr (dset res ''status'' (PStr ''failed''))
      else
        rbind (run_metadata_of bench) (\<lambda>rm.
        let res1 = dset res ''run_metadata'' rm in
        rbind (py_item (PDict res1) ''metrics'') (\<lambda>metrics.
        rbind (check_metric_requirements metrics rm) (\<lambda>errs.
        Inr (if errs \<noteq> [] then
               dset (dset res1 ''status'' (PStr ''failed'')) ''error'' (PStr (''metric gate failed: '' @ join ''; '' errs))
             else dset res1 ''status'' (PStr ''passed''))))))"

definition completed_result :: "world \<Rightarrow> pyv \<Rightarrow> int \<Rightarrow> string \<Rightarrow> status \<Rightarrow> status py" where
  "completed_result w bench code out res =
     (let parser_name = py_str (get_or bench ''parser'' (PStr [])) in
      if parser_name = [] then gated_result bench code res
      else
        let res1 = dset res ''parser'' (PStr parser_name) in
        case parse_benchmark_output w parser_name out of
          Inr metrics \<Rightarrow> gated_result bench code (dset res1 ''metrics'' metrics)
        | Inl e \<Rightarrow>
            (case caught_text e of
               None \<Rightarrow> Inl e
             | Some m \<Rightarrow> Inr (dset (dset res1 ''status'' (PStr ''failed'')) ''error'' (PStr m))))"

definition execute_benchmark ::
  "world \<Rightarrow> surroundings \<Rightarrow> run_args \<Rightarrow> ppath \<Rightarrow> pyv \<Rightarrow> string list \<Rightarrow> status \<Rightarrow> (status \<times> string) py" where
  "execute_benchmark w su a repo bench execution res =
     (if execution = [] then Inl PyIndexError
      else
        case wd_run w execution (local_search_path w repo (ra_allow_host_smoke_tools a))
               (get_or bench ''timeout_seconds'' (PInt (ra_timeout_seconds a))) of
          TimedOut out \<Rightarrow>
            let log_text = out @ newline @ ''TIMEOUT'' @ newline in
            Inr (dset (dset (record_artifact_hash w log_text res) ''status'' (PStr ''timeout''))
                   ''elapsed_seconds'' (PFloat (su_elapsed su execution)), log_text)
        | OsFailure msg \<Rightarrow>
            let log_text = msg @ newline in
            Inr (record_artifact_hash w log_text
                   (dset (dset res ''status'' (PStr ''error'')) ''error'' (PStr msg)), log_text)
        | Completed code out \<Rightarrow>
            let res1 = dset (dset (dset (record_artifact_hash w out res)
                  ''status'' (PStr (if code = 0 then ''passed'' else ''failed''))) ''returncode'' (PInt code))
                  ''elapsed_seconds'' (PFloat (su_elapsed su execution))
            in rbind (completed_result w bench code out res1) (\<lambda>r. Inr (r, out)))"

text \<open>The dependencies, the command with its executable resolved, and the result so far.\<close>

definition prepare_benchmark ::
  "world \<Rightarrow> run_args \<Rightarrow> ppath \<Rightarrow> ppath \<Rightarrow> pyv \<Rightarrow> (status list \<times> string list \<times> status) py" where
  "prepare_benchmark w a repo run_dir bench =
     rbind (py_item bench ''command'') (\<lambda>cmd. rbind (py_iter cmd) (\<lambda>command.
     if \<not> list_all is_str command then Inl PyTypeError
     else
       rbind (dependency_status w repo (ra_allow_host_smoke_tools a) bench) (\<lambda>sts.
       let execution = command_with_resolved_executable (map as_str command) sts;
           log_path = path_join run_dir (path_of (py_str (get bench ''name'') @ ''.log''))
       in Inr (sts, execution, initial_result a bench command sts log_path execution))))"

definition real_result ::
  "world \<Rightarrow> surroundings \<Rightarrow> run_args \<Rightarrow> ppath \<Rightarrow> pyv \<Rightarrow> pyv \<Rightarrow> status list \<Rightarrow> string list \<Rightarrow> status \<Rightarrow> (status \<times> string) py" where
  "real_result w su a repo report bench sts execution res =
     rbind (metadata_blockers report bench) (\<lambda>mbs.
     let requirements = missing_dependency_blockers bench sts @ mbs in
     if blocked_assets sts \<noteq> [] \<or> requirements \<noteq> [] then Inr (blocked_result w sts requirements res)
     else if missing_dependencies sts \<noteq> [] then Inr (missing_result w sts res)
     else execute_benchmark w su a repo bench execution res)"

definition run_benchmark ::
  "world \<Rightarrow> surroundings \<Rightarrow> run_args \<Rightarrow> ppath \<Rightarrow> ppath \<Rightarrow> pyv \<Rightarrow> pyv \<Rightarrow> (status \<times> string) py" where
  "run_benchmark w su a repo run_dir report bench =
     rbind (prepare_benchmark w a repo run_dir bench) (\<lambda>(sts, execution, res).
     if ra_dry_run a then Inr (dry_run_result w bench sts res)
     else real_result w su a repo report bench sts execution res)"

section \<open>The run\<close>

record run_flags =
  rf_missing :: bool
  rf_blocked :: bool
  rf_failed :: bool

definition flags_after :: "status \<Rightarrow> run_flags \<Rightarrow> run_flags" where
  "flags_after res f =
     \<lparr>rf_missing = rf_missing f \<or> truthy (st_get res ''missing_dependencies'' PNone),
      rf_blocked = rf_blocked f \<or> truthy (st_get res ''blocked_assets'' PNone)
                   \<or> truthy (st_get res ''blocked_requirements'' PNone),
      rf_failed = rf_failed f \<or> st_get res ''status'' PNone \<in> {PStr ''failed'', PStr ''timeout'', PStr ''error''}\<rparr>"

definition run_all ::
  "world \<Rightarrow> surroundings \<Rightarrow> run_args \<Rightarrow> ppath \<Rightarrow> ppath \<Rightarrow> pyv \<Rightarrow> pyv list \<Rightarrow> (status list \<times> run_flags) py" where
  "run_all w su a repo run_dir report benches =
     foldR (\<lambda>bench (rs, f).
         rbind (run_benchmark w su a repo run_dir report bench) (\<lambda>(res, log_text).
         Inr (rs @ [res], flags_after res f)))
       benches ([], \<lparr>rf_missing = False, rf_blocked = False, rf_failed = False\<rparr>)"

record run_outcome =
  ro_code :: int
  ro_schema_errors :: "string list"
  ro_report :: "pyv option"

definition exit_code :: "bool \<Rightarrow> run_flags \<Rightarrow> int" where
  "exit_code strict f =
     (if rf_failed f then 1 else if (rf_missing f \<or> rf_blocked f) \<and> strict then 2 else 0)"

definition run_selected :: "world \<Rightarrow> surroundings \<Rightarrow> ppath \<Rightarrow> run_args \<Rightarrow> run_outcome py" where
  "run_selected w su repo a =
     (let config_path = path_join repo (ra_config a);
          run_dir = path_join (path_join repo (ra_out_dir a)) (path_of (ra_report_id a)) in
      rbind (json_file w config_path) (\<lambda>data.
      rbind (load_config data (path_str config_path)) (\<lambda>config.
      rbind (selected_benchmarks config (ra_bench a)) (\<lambda>benches.
      rbind (base_report w su a config repo) (\<lambda>report.
      rbind (run_all w su a repo run_dir (PDict report) benches) (\<lambda>(results, f).
      let final = PDict (dset report ''results'' (PList (map PDict results))) in
      rbind (validate_report final) (\<lambda>errors.
      Inr (if errors \<noteq> [] then \<lparr>ro_code = 3, ro_schema_errors = errors, ro_report = None\<rparr>
           else \<lparr>ro_code = exit_code (ra_strict_missing a) f, ro_schema_errors = [], ro_report = Some final\<rparr>))))))))"

definition effective_args :: "bool \<Rightarrow> run_args \<Rightarrow> run_args" where
  "effective_args plan a = (if plan then a\<lparr>ra_dry_run := True\<rparr> else a)"

definition run_plan_or_real ::
  "world \<Rightarrow> surroundings \<Rightarrow> ppath \<Rightarrow> bool \<Rightarrow> run_args \<Rightarrow> run_outcome py" where
  "run_plan_or_real w su repo plan a0 =
     (let a = effective_args plan a0 in
      if ra_allow_host_smoke_tools a \<and> ra_claim_level a \<noteq> HOST_SMOKE_CLAIM_LEVEL then
        Inr \<lparr>ro_code = 2, ro_schema_errors = [], ro_report = None\<rparr>
      else run_selected w su repo a)"

text \<open>The lines \<open>print_benchmark_list\<close> prints for one benchmark.\<close>

definition join_strs :: "string \<Rightarrow> pyv list \<Rightarrow> string py" where
  "join_strs sep vs = (if list_all is_str vs then Inr (join sep (map as_str vs)) else Inl PyTypeError)"

definition listed_benchmark :: "pyv \<Rightarrow> string list py" where
  "listed_benchmark bench =
     (let listed = (\<lambda>key label. if \<not> truthy (get bench key) then Inr []
            else rbind (py_iter (get bench key)) (\<lambda>vs. rbind (join_strs '', '' vs) (\<lambda>s. Inr [label @ s])));
          models = get bench ''model_artifacts''
      in collect
        [Inr [py_str (get bench ''name'') @ '': '' @ py_str (get bench ''suite'') @ '' (''
              @ py_str (get_or bench ''version'' (PStr ''unknown'')) @ '')''],
         rbind (join_strs '' '' (as_list (get bench ''command''))) (\<lambda>s. Inr [''  command: '' @ s]),
         listed ''requires'' ''  tools: '', listed ''required_files'' ''  files: '',
         (if \<not> truthy models then Inr []
          else rbind (join_strs '', '' (map (\<lambda>m. get m ''path'') (as_list models))) (\<lambda>s.
            rbind (collect (map (\<lambda>m. if \<not> truthy (get m ''generator'') then Inr []
                else rbind (join_strs '' '' (as_list (get (get m ''generator'') ''command''))) (\<lambda>c.
                  Inr [''  model generator: '' @ c])) (as_list models))) (\<lambda>gs.
            Inr ((''  model artifacts: '' @ s) # gs)))),
         (if \<not> truthy (get bench ''install'') then Inr []
          else if is_str (get bench ''install'') then Inr [''  install: '' @ as_str (get bench ''install'')]
          else Inl PyTypeError)])"

definition print_benchmark_list :: "pyv \<Rightarrow> string list py" where
  "print_benchmark_list config = collect (map listed_benchmark (as_list (get config ''benchmarks'')))"

text \<open>\<open>main\<close> after argument parsing: the exit code.\<close>

definition main :: "world \<Rightarrow> surroundings \<Rightarrow> ppath \<Rightarrow> cli \<Rightarrow> int py" where
  "main w su repo c =
     (case c of
        CliValidate p \<Rightarrow> rbind (validate_report_file w (path_join repo p)) (\<lambda>errors. Inr (if errors \<noteq> [] then 3 else 0))
      | CliList p \<Rightarrow>
          let config_path = path_join repo p in
          rbind (json_file w config_path) (\<lambda>data. rbind (load_config data (path_str config_path)) (\<lambda>config.
          rbind (print_benchmark_list config) (\<lambda>lines. Inr 0)))
      | CliPlan a \<Rightarrow> rbind (run_plan_or_real w su repo True a) (\<lambda>r. Inr (ro_code r))
      | CliRun a \<Rightarrow> rbind (run_plan_or_real w su repo False a) (\<lambda>r. Inr (ro_code r)))"

end
