(* ===== verification/Bench_Evidence.thy ===== *)
theory Bench_Evidence
  imports Bench_Run
begin

text \<open>
  What the runner of \<open>benchmarks/run_benchmarks.py\<close> guarantees: dry runs execute nothing, a
  passed result carries all the evidence that was asked for, host-smoke stubs stay out of
  release claims, and the exit code follows the results.
\<close>

section \<open>Executables and artifacts\<close>

lemma search_entries_available:
  assumes "search_entries w repo cmd False entries seen first rejected = Inr r"
  shows "cs_available r \<and> cs_reason r = None
     \<and> (\<exists>p entry. cs_path r = Some p \<and> entry \<in> set entries \<and> which w cmd entry = Some p \<and> \<not> is_host_smoke_tool w p repo)"
  using assms
proof (induction entries arbitrary: seen first rejected)
  case (Cons e es)
  show ?case
    using Cons.prems Cons.IH by (fastforce simp: Let_def split: if_splits option.splits)
qed simp

text \<open>Without the host-smoke permission an executable is only ever reported available under
a path that is not a host-smoke tool; with or without it, an available executable has a
path and no reason to block it.\<close>
theorem available_executable_is_real:
  assumes "cs_available (command_available w repo cmd allow)"
  shows "cs_reason (command_available w repo cmd allow) = None
     \<and> (\<exists>p. cs_path (command_available w repo cmd allow) = Some p
          \<and> (\<not> allow \<longrightarrow> \<not> is_host_smoke_tool w p repo))"
proof (cases "(pparts (path_of cmd) \<noteq> [] \<or> pabs (path_of cmd)) \<and> (pabs (path_of cmd) \<or> 1 < length (pparts (path_of cmd)))")
  case True
  then show ?thesis
    using assms by (auto simp: command_available_def Let_def split: if_splits)
next
  case False
  have gen: "search_entries w repo cmd allow entries seen first rejected = Inr r \<Longrightarrow>
      cs_reason r = None \<and> cs_path r \<noteq> None" for entries seen first rejected r
    by (induction entries arbitrary: seen first rejected) (auto simp: Let_def split: if_splits option.splits)
  show ?thesis
    using assms False gen search_entries_available [of w repo cmd _ "[]" None "[]"]
    by (cases allow) (fastforce simp: command_available_def Let_def split: sum.splits)+
qed

definition demo_exec_world :: world where
  "demo_exec_world = demo_world\<lparr>wd_file := (\<lambda>p. if p = PPath True [''b'', ''t''] then Some ''elf'' else None),
     wd_readable := (\<lambda>p. False), wd_executable := (\<lambda>p. True), wd_env_path := ''/b''\<rparr>"

lemma demo_exec_available: "cs_available (command_available demo_exec_world (PPath True [''r'']) ''t'' False)"
  by code_simp

theorem available_executable_is_real_witness:
  "\<exists>p. cs_path (command_available demo_exec_world (PPath True [''r'']) ''t'' False) = Some p
     \<and> \<not> is_host_smoke_tool demo_exec_world p (PPath True [''r''])"
  using available_executable_is_real [OF demo_exec_available] by blast

section \<open>A small plan and its world\<close>

text \<open>One benchmark with a metric gate, and a process that prints a CoreMark score.\<close>

definition demo_bench :: pyv where
  "demo_bench = PDict
     [(''name'', PStr ''c''), (''suite'', PStr ''s''), (''version'', PStr ''1''), (''command'', PList [PStr ''r'']),
      (''primary_metric'', PStr ''m''), (''units'', PStr ''u''), (''parser'', PStr ''coremark_v1''),
      (''required_metadata'', PList []), (''required_metrics'', PList [PStr ''coremark_per_mhz'']),
      (''metric_gates'', PList [PDict [(''metric'', PStr ''coremark_per_mhz''), (''op'', PStr ''>=''), (''value'', PInt 2)]])]"

definition demo_run_world :: world where
  "demo_run_world = demo_world\<lparr>wd_run := (\<lambda>c e t. Completed 0 ''CoreMark/MHz: 3'')\<rparr>"

definition demo_args :: "bool \<Rightarrow> run_args" where
  "demo_args dry = \<lparr>ra_config = PPath False [''c''], ra_out_dir = PPath False [''o''], ra_bench = [],
     ra_strict_missing = False, ra_timeout_seconds = 300, ra_report_id = ''i'', ra_platform = ''p'',
     ra_platform_revision = ''v'', ra_claim_level = ''L2_ARCH_SIM'', ra_allow_host_smoke_tools = False,
     ra_metadata = None, ra_dry_run = dry\<rparr>"

definition demo_su :: surroundings where
  "demo_su = \<lparr>su_now = ''n'', su_git = Completed 0 ''g'', su_host = ''h'', su_host_system = ''s'',
     su_elapsed = (\<lambda>c. Fin 1)\<rparr>"

abbreviation demo_repo :: ppath where "demo_repo \<equiv> PPath True [''r'']"

lemma demo_run_passes:
  "case run_benchmark demo_run_world demo_su (demo_args False) demo_repo demo_repo (PDict []) demo_bench of
     Inl e \<Rightarrow> False | Inr (res, log_text) \<Rightarrow> st_get res ''status'' PNone = PStr ''passed''"
  by code_simp

section \<open>A real run\<close>

lemma missing_are_blockers:
  "missing_dependencies sts \<noteq> [] \<Longrightarrow> missing_dependency_blockers bench sts \<noteq> []"
proof -
  assume "missing_dependencies sts \<noteq> []"
  then obtain st where st: "st \<in> set sts" "\<not> st_available st" "\<not> is_artifact st"
    by (auto simp: missing_dependencies_def filter_empty_conv)
  then have "st_get st ''kind'' PNone \<noteq> PStr ''model_artifact''" by (auto simp: is_artifact_def)
  then show ?thesis using st by (auto simp: missing_dependency_blockers_def Let_def filter_empty_conv)
qed

lemma run_benchmark_dry:
  assumes "run_benchmark w su a repo run_dir report bench = Inr (res, log_text)" and "ra_dry_run a"
  shows "\<exists>sts execution res0. prepare_benchmark w a repo run_dir bench = Inr (sts, execution, res0)
     \<and> (res, log_text) = dry_run_result w bench sts res0"
  using assms by (auto simp: run_benchmark_def)

lemma real_result_cases:
  assumes "real_result w su a repo report bench sts execution res0 = Inr r"
  shows "\<exists>mbs. metadata_blockers report bench = Inr mbs
     \<and> (r = blocked_result w sts (missing_dependency_blockers bench sts @ mbs) res0
          \<and> (blocked_assets sts \<noteq> [] \<or> missing_dependency_blockers bench sts @ mbs \<noteq> [])
        \<or> blocked_assets sts = [] \<and> missing_dependency_blockers bench sts = [] \<and> mbs = []
          \<and> missing_dependencies sts = [] \<and> execute_benchmark w su a repo bench execution res0 = Inr r)"
proof -
  obtain mbs where m: "metadata_blockers report bench = Inr mbs" using assms by (auto simp: real_result_def)
  have nomiss: "missing_dependencies sts = []" if "missing_dependency_blockers bench sts = []"
    using missing_are_blockers that by blast
  show ?thesis
    using assms m nomiss by (auto simp: real_result_def Let_def split: if_split_asm)
qed

lemma run_benchmark_real:
  assumes "run_benchmark w su a repo run_dir report bench = Inr r" and "\<not> ra_dry_run a"
  shows "\<exists>sts execution res0. prepare_benchmark w a repo run_dir bench = Inr (sts, execution, res0)
     \<and> real_result w su a repo report bench sts execution res0 = Inr r"
  using assms by (auto simp: run_benchmark_def)

lemma prepare_benchmark_Inr:
  assumes "prepare_benchmark w a repo run_dir bench = Inr (sts, execution, res0)"
  shows "dependency_status w repo (ra_allow_host_smoke_tools a) bench = Inr sts
     \<and> (\<exists>command lp. py_item bench ''command'' = Inr (PList command) \<and> list_all is_str command
          \<and> res0 = initial_result a bench command sts lp execution)
     \<or> \<not> is_list (get bench ''command'')"
  using assms
  by (cases "get bench ''command''") (auto simp: prepare_benchmark_def Let_def py_item_Inr split: if_splits)

lemma dget_record_artifact_hash [simp]:
  "k \<noteq> ''artifacts'' \<Longrightarrow> dget (record_artifact_hash w l res) k = dget res k"
  by (simp add: record_artifact_hash_def)

lemma dget_put_list [simp]: "dget (put_list key xs res) k = (if k = key \<and> xs \<noteq> [] then Some (PList xs) else dget res k)"
  by (simp add: put_list_def)

lemma st_get_dset [simp]: "st_get (dset res k v) k' d = (if k' = k then v else st_get res k' d)"
  by (simp add: st_get_def)

lemma initial_result_keys [simp]:
  "dget (initial_result a bench command sts lp execution) ''metrics'' = None"
  "dget (initial_result a bench command sts lp execution) ''status'' = None"
  by (simp_all add: initial_result_def)

lemma gated_passed:
  assumes "gated_result bench code res = Inr r" and "st_get r ''status'' PNone = PStr ''passed''"
  shows "\<exists>rm metrics. code = 0 \<and> run_metadata_of bench = Inr rm \<and> dget res ''metrics'' = Some metrics
     \<and> check_metric_requirements metrics rm = Inr []
     \<and> dget r ''metrics'' = Some metrics \<and> dget r ''run_metadata'' = Some rm"
  using assms by (auto simp: gated_result_def Let_def split: if_splits option.splits)

lemma completed_passed:
  assumes "completed_result w bench code out res = Inr r" and "st_get r ''status'' PNone = PStr ''passed''"
    and "dget res ''metrics'' = None"
  shows "\<exists>rm metrics. code = 0 \<and> run_metadata_of bench = Inr rm
     \<and> parse_benchmark_output w (py_str (get_or bench ''parser'' (PStr []))) out = Inr metrics
     \<and> check_metric_requirements metrics rm = Inr []
     \<and> dget r ''metrics'' = Some metrics \<and> dget r ''run_metadata'' = Some rm"
proof (cases "py_str (get_or bench ''parser'' (PStr [])) = []")
  case True
  then have "gated_result bench code res = Inr r" using assms(1) by (simp add: completed_result_def)
  from gated_passed [OF this assms(2)] show ?thesis using assms(3) by auto
next
  case False
  let ?p = "py_str (get_or bench ''parser'' (PStr []))"
  show ?thesis
  proof (cases "parse_benchmark_output w ?p out")
    case (Inl e)
    then show ?thesis
      using assms(1,2) False by (auto simp: completed_result_def Let_def split: option.splits)
  next
    case (Inr m)
    then have "gated_result bench code (dset (dset res ''parser'' (PStr ?p)) ''metrics'' m) = Inr r"
      using assms(1) False by (simp add: completed_result_def Let_def)
    from gated_passed [OF this assms(2)] show ?thesis using Inr by auto
  qed
qed

lemma execute_passed:
  assumes "execute_benchmark w su a repo bench execution res = Inr (r, log_text)"
    and "st_get r ''status'' PNone = PStr ''passed''" and "dget res ''metrics'' = None"
  shows "\<exists>rm metrics. wd_run w execution (local_search_path w repo (ra_allow_host_smoke_tools a))
        (get_or bench ''timeout_seconds'' (PInt (ra_timeout_seconds a))) = Completed 0 log_text
     \<and> run_metadata_of bench = Inr rm
     \<and> parse_benchmark_output w (py_str (get_or bench ''parser'' (PStr []))) log_text = Inr metrics
     \<and> check_metric_requirements metrics rm = Inr []
     \<and> dget r ''metrics'' = Some metrics \<and> dget r ''run_metadata'' = Some rm"
proof -
  have ne: "execution \<noteq> []" using assms(1) by (auto simp: execute_benchmark_def)
  let ?run = "wd_run w execution (local_search_path w repo (ra_allow_host_smoke_tools a))
        (get_or bench ''timeout_seconds'' (PInt (ra_timeout_seconds a)))"
  show ?thesis
  proof (cases ?run)
    case (Completed code out)
    define res1 where "res1 = dset (dset (dset (record_artifact_hash w out res)
        ''status'' (PStr (if code = 0 then ''passed'' else ''failed''))) ''returncode'' (PInt code))
        ''elapsed_seconds'' (PFloat (su_elapsed su execution))"
    have "rbind (completed_result w bench code out res1) (\<lambda>r. Inr (r, out)) = Inr (r, log_text)"
      using assms(1) ne by (auto simp: execute_benchmark_def Completed res1_def Let_def split del: if_split)
    then have c: "completed_result w bench code out res1 = Inr r" "log_text = out" by auto
    have "dget res1 ''metrics'' = None" using assms(3) by (simp add: res1_def)
    from completed_passed [OF c(1) assms(2) this] show ?thesis using Completed c(2) by auto
  next
    case (TimedOut out)
    then show ?thesis using assms(1,2) ne by (auto simp: execute_benchmark_def Let_def)
  next
    case (OsFailure m)
    then show ?thesis using assms(1,2) ne by (auto simp: execute_benchmark_def Let_def st_get_def)
  qed
qed

text \<open>Nothing unavailable is left when neither blockers nor blocked assets are.\<close>

lemma nothing_unavailable:
  assumes "blocked_assets sts = []" and "missing_dependency_blockers bench sts = []"
  shows "list_all st_available sts"
  using assms
  by (auto simp: blocked_assets_def missing_dependency_blockers_def Let_def filter_empty_conv list_all_iff is_artifact_def)

lemma initial_status: "st_get (initial_result a bench command sts lp execution) ''status'' PNone = PNone"
  by (simp add: st_get_def)

lemma prepare_no_metrics:
  "prepare_benchmark w a repo run_dir bench = Inr (sts, execution, res0) \<Longrightarrow> dget res0 ''metrics'' = None"
  by (auto simp: prepare_benchmark_def Let_def split: if_splits)

lemma prepare_dependencies:
  "prepare_benchmark w a repo run_dir bench = Inr (sts, execution, res0)
   \<Longrightarrow> dependency_status w repo (ra_allow_host_smoke_tools a) bench = Inr sts"
  by (auto simp: prepare_benchmark_def Let_def split: if_splits)

lemma passed_real_run:
  assumes "run_benchmark w su a repo run_dir report bench = Inr (res, log_text)"
    and "\<not> ra_dry_run a" and "st_get res ''status'' PNone = PStr ''passed''"
  shows "\<exists>sts execution metrics rm.
       dependency_status w repo (ra_allow_host_smoke_tools a) bench = Inr sts \<and> list_all st_available sts
     \<and> metadata_blockers report bench = Inr []
     \<and> wd_run w execution (local_search_path w repo (ra_allow_host_smoke_tools a))
          (get_or bench ''timeout_seconds'' (PInt (ra_timeout_seconds a))) = Completed 0 log_text
     \<and> parse_benchmark_output w (py_str (get_or bench ''parser'' (PStr []))) log_text = Inr metrics
     \<and> run_metadata_of bench = Inr rm \<and> check_metric_requirements metrics rm = Inr []
     \<and> dget res ''metrics'' = Some metrics \<and> dget res ''run_metadata'' = Some rm"
proof -
  obtain sts execution res0 where prep: "prepare_benchmark w a repo run_dir bench = Inr (sts, execution, res0)"
    and real: "real_result w su a repo report bench sts execution res0 = Inr (res, log_text)"
    using run_benchmark_real [OF assms(1,2)] by blast
  obtain mbs where m: "metadata_blockers report bench = Inr mbs"
    and alt: "(res, log_text) = blocked_result w sts (missing_dependency_blockers bench sts @ mbs) res0
        \<or> blocked_assets sts = [] \<and> missing_dependency_blockers bench sts = [] \<and> mbs = []
          \<and> execute_benchmark w su a repo bench execution res0 = Inr (res, log_text)"
    using real_result_cases [OF real] by blast
  have "(res, log_text) \<noteq> blocked_result w sts (missing_dependency_blockers bench sts @ mbs) res0"
    using assms(3) by (auto simp: blocked_result_def Let_def st_get_def)
  with alt have e: "blocked_assets sts = []" "missing_dependency_blockers bench sts = []" "mbs = []"
    "execute_benchmark w su a repo bench execution res0 = Inr (res, log_text)" by blast+
  from execute_passed [OF e(4) assms(3) prepare_no_metrics [OF prep]]
    prepare_dependencies [OF prep] nothing_unavailable [OF e(1,2)] m e(3)
  show ?thesis by blast
qed

text \<open>C17: A benchmark that passes in a real run had every dependency, model and capability
artifact available and no metadata or calibration requirement open, its process ended with
return code 0, its output was accepted by the configured parser, every required metric is a
number and every metric gate of the plan holds of the reported metrics.\<close>
theorem passed_result_evidence:
  assumes "run_benchmark w su a repo run_dir report bench = Inr (res, log_text)"
    and "\<not> ra_dry_run a" and "st_get res ''status'' PNone = PStr ''passed''"
    and "get_or bench ''metric_gates'' (PList []) = PList gates"
    and "get_or bench ''required_metrics'' (PList []) = PList required"
  shows "\<exists>sts execution metrics.
       dependency_status w repo (ra_allow_host_smoke_tools a) bench = Inr sts \<and> list_all st_available sts
     \<and> metadata_blockers report bench = Inr []
     \<and> wd_run w execution (local_search_path w repo (ra_allow_host_smoke_tools a))
          (get_or bench ''timeout_seconds'' (PInt (ra_timeout_seconds a))) = Completed 0 log_text
     \<and> parse_benchmark_output w (py_str (get_or bench ''parser'' (PStr []))) log_text = Inr metrics
     \<and> dget res ''metrics'' = Some metrics
     \<and> (\<forall>m \<in> set required. \<exists>name. m = PStr name \<and> is_num (get metrics name))
     \<and> (\<forall>g \<in> set gates. gate_holds metrics g)"
proof -
  obtain sts execution metrics rm where p:
       "dependency_status w repo (ra_allow_host_smoke_tools a) bench = Inr sts" "list_all st_available sts"
       "metadata_blockers report bench = Inr []"
       "wd_run w execution (local_search_path w repo (ra_allow_host_smoke_tools a))
          (get_or bench ''timeout_seconds'' (PInt (ra_timeout_seconds a))) = Completed 0 log_text"
       "parse_benchmark_output w (py_str (get_or bench ''parser'' (PStr []))) log_text = Inr metrics"
       "run_metadata_of bench = Inr rm" "check_metric_requirements metrics rm = Inr []"
       "dget res ''metrics'' = Some metrics"
    using passed_real_run [OF assms(1-3)] by blast
  obtain d where d: "rm = PDict d" "get_or rm ''required_metrics'' (PList []) = PList required"
    "get_or rm ''metric_gates'' (PList []) = PList gates"
    using p(6) assms(4,5) by (auto simp: run_metadata_of_def get_or_def)
  have it: "py_iter (get_or (PDict d) ''required_metrics'' (PList [])) = Inr required"
    "py_iter (get_or (PDict d) ''metric_gates'' (PList [])) = Inr gates"
    unfolding d(1) [symmetric] d(2,3) by simp_all
  have "check_metric_requirements metrics (PDict d) = Inr []" using p(7) d(1) by simp
  from metric_requirements_Nil [OF this it]
  have req: "\<forall>m \<in> set required. \<exists>name. m = PStr name \<and> is_num (get metrics name)"
    and gates: "\<forall>g \<in> set gates. gate_holds metrics g" by blast+
  from p req gates show ?thesis by blast
qed

theorem passed_result_evidence_witness:
  "\<exists>log_text metrics. parse_benchmark_output demo_run_world ''coremark_v1'' log_text = Inr metrics
     \<and> is_num (get metrics ''coremark_per_mhz'')"
proof -
  obtain res log_text where r: "run_benchmark demo_run_world demo_su (demo_args False) demo_repo demo_repo (PDict []) demo_bench
      = Inr (res, log_text)" "st_get res ''status'' PNone = PStr ''passed''"
    using demo_run_passes by (auto split: sum.splits)
  have b: "\<not> ra_dry_run (demo_args False)" by (simp add: demo_args_def)
  have f: "get_or demo_bench ''required_metrics'' (PList []) = PList [PStr ''coremark_per_mhz'']"
    "get_or demo_bench ''metric_gates'' (PList []) = PList [PDict [(''metric'', PStr ''coremark_per_mhz''),
       (''op'', PStr ''>=''), (''value'', PInt 2)]]"
    "py_str (get_or demo_bench ''parser'' (PStr [])) = ''coremark_v1''"
    by (simp_all add: demo_bench_def get_or_def py_str_def)
  from passed_result_evidence [OF r(1) b r(2) f(2,1)] show ?thesis
    unfolding f(3) by auto
qed

text \<open>In a real run the status \<open>missing_dependencies\<close> never occurs: every missing executable or
file also becomes a blocking requirement, so that branch of the code is unreachable.\<close>
theorem missing_status_unreachable:
  assumes "run_benchmark w su a repo run_dir report bench = Inr (res, log_text)" and "\<not> ra_dry_run a"
  shows "st_get res ''status'' PNone \<in> {PStr ''blocked'', PStr ''timeout'', PStr ''error'', PStr ''failed'', PStr ''passed''}"
proof -
  obtain sts execution res0 where "real_result w su a repo report bench sts execution res0 = Inr (res, log_text)"
    using run_benchmark_real [OF assms] by blast
  from real_result_cases [OF this] consider mbs where "(res, log_text) = blocked_result w sts (missing_dependency_blockers bench sts @ mbs) res0"
    | "execute_benchmark w su a repo bench execution res0 = Inr (res, log_text)" by blast
  then show ?thesis
  proof cases
    case 1
    then show ?thesis by (auto simp: blocked_result_def Let_def st_get_def)
  next
    case 2
    have gated: "gated_result bench code r0 = Inr r \<Longrightarrow> st_get r ''status'' PNone \<in> {PStr ''failed'', PStr ''passed''}" for code r0 r
      by (auto simp: gated_result_def Let_def split: if_splits)
    have completed: "completed_result w bench code out r0 = Inr r \<Longrightarrow> st_get r ''status'' PNone \<in> {PStr ''failed'', PStr ''passed''}"
      for code out r0 r
      using gated by (fastforce simp: completed_result_def Let_def split: if_splits sum.splits option.splits)
    show ?thesis
      using 2 completed
      by (cases "wd_run w execution (local_search_path w repo (ra_allow_host_smoke_tools a))
            (get_or bench ''timeout_seconds'' (PInt (ra_timeout_seconds a)))")
        (fastforce simp: execute_benchmark_def Let_def st_get_def split: if_splits)+
  qed
qed

theorem missing_status_unreachable_witness:
  "case run_benchmark demo_run_world demo_su (demo_args False) demo_repo demo_repo (PDict []) demo_bench of
     Inl e \<Rightarrow> False | Inr (res, log_text) \<Rightarrow> st_get res ''status'' PNone \<noteq> PStr ''missing_dependencies''"
proof -
  obtain res log_text where r: "run_benchmark demo_run_world demo_su (demo_args False) demo_repo demo_repo (PDict []) demo_bench
      = Inr (res, log_text)"
    using demo_run_passes by (auto split: sum.splits)
  have "\<not> ra_dry_run (demo_args False)" by (simp add: demo_args_def)
  from missing_status_unreachable [OF r this] show ?thesis using r by auto
qed

section \<open>A dry run\<close>

text \<open>What a child process would do enters none of the checks that precede it.\<close>

named_theorems no_run

lemma no_run_fields [no_run]:
  "wd_file (w\<lparr>wd_run := r\<rparr>) = wd_file w" "wd_sha256 (w\<lparr>wd_run := r\<rparr>) = wd_sha256 w"
  by simp_all

lemma no_run_world [no_run]:
  "is_file (w\<lparr>wd_run := r\<rparr>) = is_file w" "read_bytes (w\<lparr>wd_run := r\<rparr>) = read_bytes w"
  "read_text (w\<lparr>wd_run := r\<rparr>) = read_text w"
  "stat_size (w\<lparr>wd_run := r\<rparr>) = stat_size w" "sha256_file (w\<lparr>wd_run := r\<rparr>) = sha256_file w"
  "json_loads (w\<lparr>wd_run := r\<rparr>) = json_loads w" "json_file (w\<lparr>wd_run := r\<rparr>) = json_file w"
  "path_exists (w\<lparr>wd_run := r\<rparr>) = path_exists w" "access_check (w\<lparr>wd_run := r\<rparr>) = access_check w"
  "which (w\<lparr>wd_run := r\<rparr>) = which w" "local_search_path (w\<lparr>wd_run := r\<rparr>) = local_search_path w"
  "is_host_smoke_tool (w\<lparr>wd_run := r\<rparr>) = is_host_smoke_tool w"
  by (rule ext; simp add: is_file_def [abs_def] read_bytes_def [abs_def] read_text_def [abs_def] stat_size_def [abs_def] sha256_file_def [abs_def]
      json_loads_def [abs_def] json_file_def [abs_def] path_exists_def [abs_def] access_check_def [abs_def]
      which_def [abs_def] local_search_path_def [abs_def] is_host_smoke_tool_def [abs_def] cong del: option.case_cong_weak sum.case_cong_weak if_weak_cong prod.case_cong_weak)+

lemma no_run_search [no_run]:
  "search_entries (w\<lparr>wd_run := r\<rparr>) repo cmd allow es seen first rejected
   = search_entries w repo cmd allow es seen first rejected"
  by (induction w repo cmd allow es seen first rejected rule: search_entries.induct)
    (simp add: no_run Let_def split: option.split)+

lemma no_run_deps [no_run]:
  "executable_metadata (w\<lparr>wd_run := r\<rparr>) = executable_metadata w"
  "command_available (w\<lparr>wd_run := r\<rparr>) = command_available w"
  "model_artifact_status (w\<lparr>wd_run := r\<rparr>) = model_artifact_status w"
  by (intro ext; simp add: executable_metadata_def [abs_def] command_available_def [abs_def]
      model_artifact_status_def [abs_def] no_run cong del: option.case_cong_weak sum.case_cong_weak if_weak_cong prod.case_cong_weak)+

lemma no_run_capability [no_run]:
  "cap_model_error (w\<lparr>wd_run := r\<rparr>) = cap_model_error w" "cap_model_errors (w\<lparr>wd_run := r\<rparr>) = cap_model_errors w"
  "cap_transcript (w\<lparr>wd_run := r\<rparr>) = cap_transcript w" "cap_transcripts (w\<lparr>wd_run := r\<rparr>) = cap_transcripts w"
  "cap_dma_trace_errors (w\<lparr>wd_run := r\<rparr>) = cap_dma_trace_errors w"
  "cap_marker_errors (w\<lparr>wd_run := r\<rparr>) = cap_marker_errors w" "cap_errors (w\<lparr>wd_run := r\<rparr>) = cap_errors w"
  "cap_base_status (w\<lparr>wd_run := r\<rparr>) = cap_base_status w"
  "capability_artifact_status (w\<lparr>wd_run := r\<rparr>) = capability_artifact_status w"
  "dependency_status (w\<lparr>wd_run := r\<rparr>) = dependency_status w"
  unfolding cap_model_error_def [abs_def] cap_model_errors_def [abs_def] cap_transcript_def [abs_def] cap_transcripts_def [abs_def] cap_dma_trace_errors_def [abs_def]
    cap_marker_errors_def [abs_def] cap_errors_def [abs_def] cap_base_status_def [abs_def] capability_artifact_status_def [abs_def] dependency_status_def [abs_def] no_run
  by (rule refl)+

lemma no_run_prepare [no_run]:
  "prepare_benchmark (w\<lparr>wd_run := r\<rparr>) = prepare_benchmark w"
  "dry_run_result (w\<lparr>wd_run := r\<rparr>) = dry_run_result w"
  by (intro ext; simp add: prepare_benchmark_def [abs_def] dry_run_result_def [abs_def] record_artifact_hash_def [abs_def] no_run cong del: option.case_cong_weak sum.case_cong_weak if_weak_cong prod.case_cong_weak)+

lemma dry_run_status:
  "st_get (fst (dry_run_result w bench sts res)) ''status'' PNone
   = PStr (if blocked_assets sts \<noteq> [] then ''blocked''
           else if missing_dependencies sts \<noteq> [] then ''planned_missing_deps'' else ''planned'')"
  by (simp add: dry_run_result_def Let_def st_get_def)

text \<open>C18: A dry run executes nothing: its outcome is the same whatever the child processes would
do, and its results are planned, planned with missing dependencies, or blocked, never passed.\<close>
theorem dry_run_executes_nothing:
  assumes "ra_dry_run a"
  shows "run_benchmark (w\<lparr>wd_run := r\<rparr>) su a repo run_dir report bench = run_benchmark w su a repo run_dir report bench
     \<and> (\<forall>res log_text. run_benchmark w su a repo run_dir report bench = Inr (res, log_text) \<longrightarrow>
          st_get res ''status'' PNone \<in> {PStr ''planned'', PStr ''planned_missing_deps'', PStr ''blocked''})"
proof -
  have "run_benchmark (w\<lparr>wd_run := r\<rparr>) su a repo run_dir report bench = run_benchmark w su a repo run_dir report bench"
    using assms by (simp add: run_benchmark_def no_run)
  moreover have "st_get res ''status'' PNone \<in> {PStr ''planned'', PStr ''planned_missing_deps'', PStr ''blocked''}"
    if run: "run_benchmark w su a repo run_dir report bench = Inr (res, log_text)" for res log_text
  proof -
    obtain sts res0 where "(res, log_text) = dry_run_result w bench sts res0"
      using run_benchmark_dry [OF run assms] by blast
    then have "res = fst (dry_run_result w bench sts res0)" by (metis fst_conv)
    then show ?thesis by (simp add: dry_run_status)
  qed
  ultimately show ?thesis by blast
qed

theorem dry_run_executes_nothing_witness:
  "run_benchmark (demo_run_world\<lparr>wd_run := (\<lambda>c e t. OsFailure ''x'')\<rparr>) demo_su (demo_args True) demo_repo demo_repo (PDict []) demo_bench
   = run_benchmark demo_run_world demo_su (demo_args True) demo_repo demo_repo (PDict []) demo_bench"
  using dry_run_executes_nothing [of "demo_args True"] by (simp add: demo_args_def)

section \<open>The exit code\<close>

definition failed_status :: "status \<Rightarrow> bool" where
  "failed_status res \<longleftrightarrow> st_get res ''status'' PNone \<in> {PStr ''failed'', PStr ''timeout'', PStr ''error''}"

definition flags_of :: "status list \<Rightarrow> run_flags" where
  "flags_of rs =
     \<lparr>rf_missing = list_ex (\<lambda>r. truthy (st_get r ''missing_dependencies'' PNone)) rs,
      rf_blocked = list_ex (\<lambda>r. truthy (st_get r ''blocked_assets'' PNone)
                     \<or> truthy (st_get r ''blocked_requirements'' PNone)) rs,
      rf_failed = list_ex failed_status rs\<rparr>"

lemma run_all_flags:
  assumes "run_all w su a repo run_dir report benches = Inr (rs, f)"
  shows "f = flags_of rs \<and> length rs = length benches"
proof -
  define step where "step = (\<lambda>bench (rs, f). rbind (run_benchmark w su a repo run_dir report bench) (\<lambda>(res, log_text :: string).
      Inr (rs @ [res], flags_after res f)))"
  have "foldR step bs (rs0, flags_of rs0) = Inr (rs, f) \<Longrightarrow> f = flags_of rs \<and> length rs = length rs0 + length bs" for bs rs0
  proof (induction bs arbitrary: rs0)
    case (Cons b bs)
    then obtain res l where "foldR step bs (rs0 @ [res], flags_after res (flags_of rs0)) = Inr (rs, f)"
      by (auto simp: step_def)
    moreover have "flags_after res (flags_of rs0) = flags_of (rs0 @ [res])"
      by (auto simp: flags_after_def flags_of_def failed_status_def)
    ultimately show ?case using Cons.IH by fastforce
  qed simp
  from this [of benches "[]"] show ?thesis
    using assms by (simp add: run_all_def step_def [symmetric] flags_of_def)
qed

lemma effective_args_simps [simp]:
  "ra_allow_host_smoke_tools (effective_args plan a) = ra_allow_host_smoke_tools a"
  "ra_claim_level (effective_args plan a) = ra_claim_level a"
  "ra_strict_missing (effective_args plan a) = ra_strict_missing a"
  by (simp_all add: effective_args_def)

lemma run_selected_report:
  assumes "run_selected w su repo a = Inr r"
  shows "ro_code r = 3 \<and> ro_schema_errors r \<noteq> [] \<and> ro_report r = None
    \<or> (\<exists>rs report. ro_report r = Some report \<and> get report ''results'' = PList (map PDict rs) \<and> is_dict report
         \<and> validate_report report = Inr [] \<and> ro_schema_errors r = []
         \<and> ro_code r = exit_code (ra_strict_missing a) (flags_of rs))"
proof -
  obtain report rs f run_dir benches errors where
    all: "run_all w su a repo run_dir (PDict report) benches = Inr (rs, f)"
    and v: "validate_report (PDict (dset report ''results'' (PList (map PDict rs)))) = Inr errors"
    and r: "r = (if errors \<noteq> [] then \<lparr>ro_code = 3, ro_schema_errors = errors, ro_report = None\<rparr>
             else \<lparr>ro_code = exit_code (ra_strict_missing a) f, ro_schema_errors = [],
                    ro_report = Some (PDict (dset report ''results'' (PList (map PDict rs))))\<rparr>)"
    using assms by (auto simp: run_selected_def Let_def split del: if_split)
  show ?thesis
    using r v run_all_flags [OF all] by (auto simp: get_def get_or_def)
qed

lemma run_report:
  assumes "run_plan_or_real w su repo plan a = Inr r"
  shows "ro_code r = 2 \<and> ro_report r = None \<and> ro_schema_errors r = []
         \<and> ra_allow_host_smoke_tools a \<and> ra_claim_level a \<noteq> HOST_SMOKE_CLAIM_LEVEL
    \<or> \<not> (ra_allow_host_smoke_tools a \<and> ra_claim_level a \<noteq> HOST_SMOKE_CLAIM_LEVEL)
         \<and> run_selected w su repo (effective_args plan a) = Inr r"
  using assms by (auto simp: run_plan_or_real_def Let_def split: if_splits)

text \<open>The exit code is 0, 1, 2 or 3. It is 3 exactly when the validator complained; then, and
when the host-smoke permission is used outside its claim level, no report is written. A
written report passed the validator. Code 0 means no benchmark failed, timed out or could not
be started, and under the strict option that nothing was missing or blocked either.\<close>
theorem exit_code_meaning:
  assumes "run_plan_or_real w su repo plan a = Inr r"
  shows "ro_code r \<in> {0, 1, 2, 3} \<and> (ro_code r = 3 \<longleftrightarrow> ro_schema_errors r \<noteq> [])
     \<and> (ro_code r = 3 \<longrightarrow> ro_report r = None)
     \<and> (\<forall>report. ro_report r = Some report \<longrightarrow> validate_report report = Inr [])
     \<and> (ra_allow_host_smoke_tools a \<and> ra_claim_level a \<noteq> HOST_SMOKE_CLAIM_LEVEL \<longrightarrow> ro_report r = None)
     \<and> (ro_code r = 0 \<longrightarrow> (\<exists>report rs. ro_report r = Some report \<and> get report ''results'' = PList (map PDict rs)
          \<and> \<not> list_ex failed_status rs
          \<and> (ra_strict_missing a \<longrightarrow> \<not> rf_missing (flags_of rs) \<and> \<not> rf_blocked (flags_of rs))))"
proof -
  have codes: "exit_code s f \<in> {0, 1, 2}" for s f by (simp add: exit_code_def)
  have failed: "rf_failed (flags_of rs) = list_ex failed_status rs" for rs by (simp add: flags_of_def)
  from run_report [OF assms] consider (smoke) "ro_code r = 2" "ro_report r = None" "ro_schema_errors r = []"
    | (sel) "\<not> (ra_allow_host_smoke_tools a \<and> ra_claim_level a \<noteq> HOST_SMOKE_CLAIM_LEVEL)"
        "run_selected w su repo (effective_args plan a) = Inr r" by (elim disjE conjE) simp_all
  then show ?thesis
  proof cases
    case smoke
    then show ?thesis by simp
  next
    case sel
    from run_selected_report [OF sel(2)] consider (bad) "ro_code r = 3" "ro_schema_errors r \<noteq> []" "ro_report r = None"
      | (good) rs report where "ro_report r = Some report" "get report ''results'' = PList (map PDict rs)"
        "validate_report report = Inr []" "ro_schema_errors r = []" "ro_code r = exit_code (ra_strict_missing a) (flags_of rs)"
      by auto
    then show ?thesis
    proof cases
      case good
      have "ro_code r \<in> {0, 1, 2}" using good(5) codes by simp
      moreover have "\<not> list_ex failed_status rs
            \<and> (ra_strict_missing a \<longrightarrow> \<not> rf_missing (flags_of rs) \<and> \<not> rf_blocked (flags_of rs))" if "ro_code r = 0"
        using that good(5) failed by (auto simp: exit_code_def split: if_splits)
      ultimately show ?thesis using good sel(1) by auto
    qed (use sel(1) in simp)
  qed
qed

definition demo_plan_world :: world where
  "demo_plan_world = demo_run_world\<lparr>wd_file := (\<lambda>p. if p = PPath True [''r'', ''c''] then Some ''C'' else None),
     wd_json := (\<lambda>s. Some (PDict [(''benchmarks'', PList [demo_bench])]))\<rparr>"

lemma demo_plan_runs:
  "case run_plan_or_real demo_plan_world demo_su demo_repo True (demo_args False) of
     Inl e \<Rightarrow> False | Inr r \<Rightarrow> ro_code r = 0"
  by code_simp

theorem exit_code_meaning_witness:
  "\<exists>report rs. validate_report report = Inr [] \<and> get report ''results'' = PList (map PDict rs) \<and> \<not> list_ex failed_status rs"
proof -
  obtain r where r: "run_plan_or_real demo_plan_world demo_su demo_repo True (demo_args False) = Inr r" "ro_code r = 0"
    using demo_plan_runs by (auto split: sum.splits)
  from exit_code_meaning [OF r(1)] r(2) obtain report rs where
    "ro_report r = Some report" "get report ''results'' = PList (map PDict rs)" "\<not> list_ex failed_status rs"
    "validate_report report = Inr []" by auto
  then show ?thesis by auto
qed

end
