(* ===== verification/Bench_Accept.thy ===== *)
theory Bench_Accept
  imports Bench_Evidence
begin

text \<open>
  What a report accepted by \<open>validate_report\<close> of \<open>benchmarks/run_benchmarks.py\<close> must contain, and one
  benchmark whose passed results it can never accept.
\<close>

section \<open>Clean checks\<close>

lemma collect_Nil: "collect ms = Inr [] \<longleftrightarrow> (\<forall>m \<in> set ms. m = Inr [])"
proof (induction ms)
  case (Cons m ms)
  then show ?case by (cases m; cases "collect ms") auto
qed simp

lemma get_or_of_get: "get v k = x \<Longrightarrow> x \<noteq> PNone \<Longrightarrow> get_or v k d = x"
  by (auto simp: get_def get_or_def split: option.splits)

lemma accepted_parts:
  assumes "validate_report report = Inr []"
  shows "is_dict report \<and> identity_errors report = Inr [] \<and> real_metadata_errors report = Inr []
     \<and> platform_errors report = Inr []
     \<and> (\<exists>rs. py_iter (get_or report ''results'' (PList [])) = Inr rs
          \<and> (\<forall>ir \<in> set (enum rs). result_errors report ir = Inr []))"
  using assms by (auto simp: validate_report_def collect_Nil collect_map_Nil split: if_splits)

lemma enum_member: "x \<in> set xs \<Longrightarrow> \<exists>i. (i, x) \<in> set (enum xs)"
proof -
  assume "x \<in> set xs"
  then have "x \<in> set (map snd (enum xs))" by simp
  then show ?thesis by (auto simp del: enum_simps)
qed

lemma accepted_result:
  assumes "validate_report report = Inr []" and "get report ''results'' = PList rs" and "r \<in> set rs"
  shows "is_dict report \<and> (\<exists>i. result_errors report (i, r) = Inr [])"
proof -
  have "get_or report ''results'' (PList []) = PList rs"
    using assms(2) by (simp add: get_or_of_get)
  then have "\<forall>ir \<in> set (enum rs). result_errors report ir = Inr []" "is_dict report"
    using accepted_parts [OF assms(1)] by auto
  with enum_member [OF assms(3)] show ?thesis by blast
qed

lemma result_sections:
  assumes "result_errors report (i, r) = Inr []"
  shows "is_dict r \<and> (\<exists>pre. vocabulary_errors pre r = Inr [] \<and> dry_run_errors pre report r = []
     \<and> real_passed_errors pre report r = Inr [] \<and> passed_errors pre report r = Inr []
     \<and> blocked_errors pre r = [] \<and> simulator_errors pre report r = Inr [])"
  using assms by (auto simp: result_errors_def Let_def collect_Nil split: if_splits)

lemma metadata_section_clean:
  assumes "metadata_section_errors report s = []"
  shows "is_dict (get report s) \<and> (\<forall>fs. map_of REAL_METADATA_REQUIRED_FIELDS s = Some fs \<longrightarrow>
     (\<forall>(field, ty) \<in> set fs. has_type (get (get report s) field) ty))"
proof (intro conjI allI impI ballI)
  show "is_dict (get report s)" using assms by (auto simp: metadata_section_errors_def Let_def split: if_splits)
next
  fix fs ft
  assume fs: "map_of REAL_METADATA_REQUIRED_FIELDS s = Some fs" "ft \<in> set fs"
  have "metadata_field_errors s (get report s) ft = []"
    using assms fs by (auto simp: metadata_section_errors_def Let_def split: if_splits)
  then show "case ft of (field, ty) \<Rightarrow> has_type (get (get report s) field) ty"
    by (cases ft) (auto simp: metadata_field_errors_def Let_def split: if_splits)
qed

lemma real_metadata_clean:
  assumes "real_metadata_errors report = Inr []" and "get report ''dry_run'' = PBool False"
    and "get report ''results'' = PList rs" and "r \<in> set rs" and "passed_result r"
    and "s \<in> set REAL_METADATA_SECTIONS"
  shows "metadata_section_errors report s = []"
proof -
  have "get_or report ''results'' (PList []) = PList rs"
    using assms(3) by (simp add: get_or_of_get)
  then show ?thesis
    using assms by (auto simp: real_metadata_errors_def list_ex_iff split: if_splits)
qed

lemma passed_dependency_clean:
  assumes "passed_dependency_errors pre report dep = Inr []"
  shows "is_dict dep
     \<and> (get dep ''kind'' \<in> {PStr ''model_artifact'', PStr ''capability_artifact''} \<longrightarrow> truthy (get dep ''available''))
     \<and> (get report ''claim_level'' \<noteq> PStr HOST_SMOKE_CLAIM_LEVEL \<longrightarrow> get dep ''release_claim_allowed'' \<noteq> PBool False)"
  using assms by (auto simp: passed_dependency_errors_def in_names_def split: if_splits)

text \<open>C19: In an accepted report of a real run, a passed result comes with every metadata section
present and typed, calibrated evidence, non-empty metrics that satisfy every gate recorded for it, and no
missing dependency or blocked asset recorded. Each model or capability artifact among its dependencies is marked
available; at any claim level other than the architecture-simulation one no dependency forbids release
claims. The validator does not look at the availability of a dependency of another kind, such as an executable, which
only the result's list of missing dependencies tells.\<close>
theorem accepted_report_sound:
  assumes "validate_report report = Inr []" and "get report ''dry_run'' = PBool False"
    and "get report ''results'' = PList rs" and "r \<in> set rs" and "get r ''status'' = PStr ''passed''"
    and "get r ''dependencies'' = PList deps"
    and "get (get r ''run_metadata'') ''metric_gates'' = PList gates"
  shows "(\<forall>s \<in> set REAL_METADATA_SECTIONS. is_dict (get report s) \<and>
           (\<forall>fs. map_of REAL_METADATA_REQUIRED_FIELDS s = Some fs \<longrightarrow>
             (\<forall>(field, ty) \<in> set fs. has_type (get (get report s) field) ty)))
     \<and> get (get report ''calibration'') ''status'' = PStr ''calibrated''
     \<and> get r ''provenance'' \<noteq> PStr ''dry_run''
     \<and> truthy (get r ''metrics'') \<and> (\<forall>g \<in> set gates. gate_holds (get r ''metrics'') g)
     \<and> \<not> truthy (get r ''missing_dependencies'') \<and> \<not> truthy (get r ''blocked_assets'')
     \<and> (\<forall>d \<in> set deps. (get d ''kind'' \<in> {PStr ''model_artifact'', PStr ''capability_artifact''} \<longrightarrow> truthy (get d ''available''))
          \<and> (get report ''claim_level'' \<noteq> PStr HOST_SMOKE_CLAIM_LEVEL \<longrightarrow> get d ''release_claim_allowed'' \<noteq> PBool False))"
proof -
  obtain i where res: "result_errors report (i, r) = Inr []" using accepted_result [OF assms(1,3,4)] by blast
  from result_sections [OF res] obtain pre where p: "is_dict r" "real_passed_errors pre report r = Inr []"
    "passed_errors pre report r = Inr []" by metis
  have passed: "passed_result r" using p(1) assms(5) by (simp add: passed_result_def)
  have real: "get r ''provenance'' \<noteq> PStr ''dry_run''" "is_dict (get r ''metrics'')" "truthy (get r ''metrics'')"
    "is_dict (get r ''run_metadata'')"
    "check_metric_requirements (get r ''metrics'') (get r ''run_metadata'') = Inr []"
    "check_calibration_requirements report r = Inr []"
    using p(2) assms(2,5) by (auto simp: real_passed_errors_def Let_def collect_Nil split: if_splits)
  obtain rm where rm: "get r ''run_metadata'' = PDict rm" using real(4) by blast
  have g: "get_or (PDict rm) ''metric_gates'' (PList []) = PList gates"
    using get_or_of_get [OF assms(7)] by (simp add: rm)
  obtain required where q: "py_iter (get_or (PDict rm) ''required_metrics'' (PList [])) = Inr required"
    using real(5) by (auto simp: check_metric_requirements_def rm)
  have gates: "\<forall>g \<in> set gates. gate_holds (get r ''metrics'') g"
    using metric_requirements_Nil [OF _ q, of "get r ''metrics''" gates] real(5) g by (simp add: rm)
  have cal: "get (get report ''calibration'') ''status'' = PStr ''calibrated''"
    using real(6) by (auto simp: check_calibration_requirements_def Let_def split: if_splits)
  have "get_or r ''dependencies'' (PList []) = PList deps"
    using assms(6) by (simp add: get_or_of_get)
  then have deps: "\<forall>d \<in> set deps. passed_dependency_errors pre report d = Inr []"
    "\<not> truthy (get r ''missing_dependencies'')" "\<not> truthy (get r ''blocked_assets'')"
    using p(3) assms(5) by (auto simp: passed_errors_def collect_map_Nil split: if_splits)
  have meta: "\<forall>s \<in> set REAL_METADATA_SECTIONS. metadata_section_errors report s = []"
    using real_metadata_clean [OF _ assms(2-4) passed] accepted_parts [OF assms(1)] by blast
  show ?thesis
    using metadata_section_clean meta cal real(1,3) gates passed_dependency_clean deps by blast
qed

section \<open>An accepted report\<close>

text \<open>A real run of one simulator benchmark with all of its evidence.\<close>

definition demo_section :: "string \<Rightarrow> pyv" where
  "demo_section s = PDict (map (\<lambda>(field, ty). (field, case ty of TInt \<Rightarrow> PInt 1 | TNumber \<Rightarrow> PInt 1 | TDict \<Rightarrow> PDict []
      | _ \<Rightarrow> PStr ''v'')) (case map_of REAL_METADATA_REQUIRED_FIELDS s of None \<Rightarrow> [] | Some fs \<Rightarrow> fs))"

definition demo_process :: pyv where
  "demo_process = PDict [(''node'', PStr ''14A''), (''pdk'', PStr ''p''),
     (''process_effects_contract'', PDict [(''path'', PStr PROCESS_EFFECTS_CONTRACT_PATH), (''sha256'', PStr demo_digest)]),
     (''process_corner_count'', PInt 4), (''worst_process_corner'', PStr ''14a_ss''),
     (''pdk_signoff_claim'', PStr PROCESS_PDK_SIGNOFF_PASSED)]"

definition demo_calibration :: pyv where
  "demo_calibration = PDict [(''status'', PStr ''calibrated''), (''source'', PStr ''s''),
     (''ground_truth_reference'', PStr ''g''), (''last_calibrated_utc'', PStr ''t''), (''assets'', PDict [])]"

definition demo_dependencies :: "pyv list" where
  "demo_dependencies =
     [PDict [(''name'', PStr ''e''), (''kind'', PStr ''executable''), (''available'', PBool True), (''release_claim_allowed'', PBool True)],
      PDict [(''name'', PStr ''m''), (''kind'', PStr ''model_artifact''), (''available'', PBool True),
        (''release_claim_allowed'', PBool True)]]"

definition demo_result :: pyv where
  "demo_result = PDict
     [(''name'', PStr ''n''), (''suite'', PStr ''s''), (''version'', PStr ''1''), (''command'', PList [PStr ''c'']),
      (''input_dataset'', PStr ''d''), (''primary_metric'', PStr ''m''), (''units'', PStr ''u''),
      (''dependencies'', PList demo_dependencies), (''artifacts'', PDict []), (''status'', PStr ''passed''),
      (''provenance'', PStr ''simulator''), (''parser'', PStr ''simulator_metrics_v1''),
      (''metrics'', PDict [(''ipc'', PInt 2), (''benchmark_success_allowed'', PBool True)]),
      (''run_metadata'', PDict [(''metric_gates'', PList [PDict
          [(''metric'', PStr ''ipc''), (''op'', PStr ''>''), (''value'', PInt 1)]])])]"

definition demo_report :: pyv where
  "demo_report = PDict
     ([(''schema'', PStr ''openagent.benchmark_run.v1''), (''report_id'', PStr ''i''), (''date_utc'', PStr ''d''),
       (''dry_run'', PBool False), (''claim_level'', PStr ''L1_RTL_FULL_SOC''),
       (''platform'', PDict (map (\<lambda>k. (k, PStr ''p'')) [''name'', ''revision'', ''source_tree_sha'', ''host'', ''host_system''])),
       (''config'', PDict []), (''results'', PList [demo_result])]
      @ map (\<lambda>s. (s, demo_section s)) [''software'', ''clocks'', ''memory'', ''thermal'', ''power'']
      @ [(''process'', demo_process), (''calibration'', demo_calibration)])"

lemma demo_report_accepted: "validate_report demo_report = Inr []"
  by code_simp

lemma demo_report_fields:
  "get demo_report ''dry_run'' = PBool False" "get demo_report ''results'' = PList [demo_result]"
  "get demo_result ''status'' = PStr ''passed''" "get demo_result ''dependencies'' = PList demo_dependencies"
  "get (get demo_result ''run_metadata'') ''metric_gates'' = PList [PDict
     [(''metric'', PStr ''ipc''), (''op'', PStr ''>''), (''value'', PInt 1)]]"
  "get demo_result ''provenance'' = PStr ''simulator''"
  "get demo_report ''claim_level'' = PStr ''L1_RTL_FULL_SOC''"
  by (simp_all add: demo_report_def demo_result_def get_def get_or_def)

theorem accepted_report_sound_witness:
  "gate_holds (get demo_result ''metrics'') (PDict [(''metric'', PStr ''ipc''), (''op'', PStr ''>''), (''value'', PInt 1)])
   \<and> get (demo_dependencies ! 1) ''kind'' = PStr ''model_artifact'' \<and> truthy (get (demo_dependencies ! 1) ''available'')
   \<and> list_all (\<lambda>d. get d ''release_claim_allowed'' \<noteq> PBool False) demo_dependencies"
proof -
  have "get (demo_dependencies ! 1) ''kind'' = PStr ''model_artifact''" "demo_dependencies ! 1 \<in> set demo_dependencies"
    "PStr ''L1_RTL_FULL_SOC'' \<noteq> PStr HOST_SMOKE_CLAIM_LEVEL"
    by (simp_all add: demo_dependencies_def get_def get_or_def HOST_SMOKE_CLAIM_LEVEL_def)
  then show ?thesis
    using accepted_report_sound [OF demo_report_accepted demo_report_fields(1,2) _ demo_report_fields(3-5)]
    unfolding demo_report_fields(7) list_all_iff by simp
qed

section \<open>Simulated and dry results\<close>

text \<open>C20: In an accepted report, a result of simulator provenance stays at the simulation claim
levels, carries no score comparable with a phone, and, when it passed, metrics that the
simulator marked as usable; and a dry run contains only dry-run results, none of them passed.\<close>
theorem accepted_provenance:
  assumes "validate_report report = Inr []" and "get report ''results'' = PList rs" and "r \<in> set rs"
  shows "(get r ''provenance'' = PStr ''simulator'' \<longrightarrow>
        get report ''claim_level'' \<in> {PStr ''L0_RTL_UNIT'', PStr ''L1_RTL_FULL_SOC'', PStr ''L2_ARCH_SIM''}
        \<and> (is_dict (get r ''metrics'') \<longrightarrow> (\<forall>k \<in> set SCORE_KEYS. \<not> has_key (get r ''metrics'') k)
             \<and> (get r ''status'' = PStr ''passed'' \<longrightarrow>
                  get (get r ''metrics'') ''benchmark_success_allowed'' = PBool True)))
     \<and> (get report ''dry_run'' = PBool True \<longrightarrow>
        get r ''provenance'' = PStr ''dry_run'' \<and> get r ''status'' \<noteq> PStr ''passed'')
     \<and> (get r ''status'' = PStr ''blocked'' \<longrightarrow> truthy (get r ''blocked_assets'')
          \<or> truthy (get r ''blocked_requirements'') \<or> truthy (get r ''missing_dependencies''))"
proof -
  obtain i where res: "result_errors report (i, r) = Inr []" using accepted_result [OF assms] by blast
  from result_sections [OF res] obtain pre where p: "dry_run_errors pre report r = []" "blocked_errors pre r = []"
    "simulator_errors pre report r = Inr []" by metis
  have "get_or r ''metrics'' (PDict []) = get r ''metrics''" if "is_dict (get r ''metrics'')"
    using that by (intro get_or_of_get) auto
  then show ?thesis
    using p by (auto simp: dry_run_errors_def blocked_errors_def simulator_errors_def Let_def in_names_True split: if_splits)
qed

theorem accepted_provenance_witness:
  "get (get demo_result ''metrics'') ''benchmark_success_allowed'' = PBool True"
proof -
  have "is_dict (get demo_result ''metrics'')" by (simp add: demo_result_def get_def get_or_def)
  then show ?thesis
    using accepted_provenance [OF demo_report_accepted demo_report_fields(2), of demo_result] demo_report_fields(3,6) by simp
qed

section \<open>A benchmark that cannot be accepted\<close>

definition TFLITE_KEYS :: "string list" where
  "TFLITE_KEYS = [''avg_latency_us'', ''cpu_fallback_percent'', ''unsupported_op_count'']"

lemma set_keys:
  "set_float s m key d = Inr d' \<Longrightarrow> set (map fst d') \<subseteq> insert key (set (map fst d))"
  "set_int s m key d = Inr d' \<Longrightarrow> set (map fst d') \<subseteq> insert key (set (map fst d))"
  using keys_dset [of d key] by (auto simp: set_float_def set_int_def split: option.splits)

lemma tflite_line_keys:
  assumes "tflite_line line m = Inr m'" and "set (map fst m) \<subseteq> set TFLITE_KEYS"
  shows "set (map fst m') \<subseteq> set TFLITE_KEYS"
proof -
  obtain m1 m2 where s: "set_float line (search_first TFLITE_AVG_RES line) ''avg_latency_us'' m = Inr m1"
    "set_float line (search_first TFLITE_FALLBACK_RES line) ''cpu_fallback_percent'' m1 = Inr m2"
    "set_int line (search_first TFLITE_UNSUPPORTED_RES line) ''unsupported_op_count'' m2 = Inr m'"
    using assms(1) by (auto simp: tflite_line_def)
  have "''avg_latency_us'' \<in> set TFLITE_KEYS" "''cpu_fallback_percent'' \<in> set TFLITE_KEYS"
    "''unsupported_op_count'' \<in> set TFLITE_KEYS" by (simp_all add: TFLITE_KEYS_def)
  with set_keys(1) [OF s(1)] set_keys(1) [OF s(2)] set_keys(2) [OF s(3)] assms(2) show ?thesis by blast
qed

lemma parse_tflite_keys:
  assumes "parse_tflite_benchmark_model out = Inr m"
  shows "\<exists>d. m = PDict d \<and> set (map fst d) \<subseteq> set TFLITE_KEYS"
proof -
  have "foldR tflite_line ls m0 = Inr m1 \<Longrightarrow> set (map fst m0) \<subseteq> set TFLITE_KEYS \<Longrightarrow> set (map fst m1) \<subseteq> set TFLITE_KEYS" for ls m0 m1
  proof (induction ls arbitrary: m0)
    case (Cons l ls)
    then obtain m2 where "tflite_line l m0 = Inr m2" "foldR tflite_line ls m2 = Inr m1" by auto
    then show ?case using Cons.IH Cons.prems tflite_line_keys by metis
  qed simp
  then show ?thesis using assms by (fastforce simp: parse_tflite_benchmark_model_def)
qed

lemma dget_None: "k \<notin> set (map fst d) \<Longrightarrow> dget d k = None"
  by (induction d k rule: dget.induct) auto

text \<open>The name of a result is that of its benchmark.\<close>

lemma gated_name: "gated_result bench code res = Inr r \<Longrightarrow> dget r ''name'' = dget res ''name''"
  by (auto simp: gated_result_def Let_def split: if_splits)

lemma completed_name:
  assumes "completed_result w bench code out res = Inr r"
  shows "dget r ''name'' = dget res ''name''"
proof (cases "parse_benchmark_output w (py_str (get_or bench ''parser'' (PStr []))) out")
  case (Inl e)
  then show ?thesis
    using assms gated_name by (cases "caught_text e") (auto simp: completed_result_def Let_def split: if_splits)
next
  case (Inr m)
  then show ?thesis
    using assms gated_name by (fastforce simp: completed_result_def Let_def split: if_splits)
qed

lemma execute_name:
  assumes "execute_benchmark w su a repo bench execution res = Inr (r, log_text)"
  shows "dget r ''name'' = dget res ''name''"
  using assms completed_name
  by (cases "wd_run w execution (local_search_path w repo (ra_allow_host_smoke_tools a))
        (get_or bench ''timeout_seconds'' (PInt (ra_timeout_seconds a)))")
    (fastforce simp: execute_benchmark_def Let_def split: if_splits)+

lemma prepare_name:
  "prepare_benchmark w a repo run_dir bench = Inr (sts, execution, res0) \<Longrightarrow> dget res0 ''name'' = Some (get bench ''name'')"
  by (auto simp: prepare_benchmark_def initial_result_def Let_def split: if_splits)

lemma real_name:
  assumes "run_benchmark w su a repo run_dir report bench = Inr (res, log_text)" and "\<not> ra_dry_run a"
  shows "dget res ''name'' = Some (get bench ''name'')"
proof -
  obtain sts execution res0 where p: "prepare_benchmark w a repo run_dir bench = Inr (sts, execution, res0)"
    "real_result w su a repo report bench sts execution res0 = Inr (res, log_text)"
    using run_benchmark_real [OF assms] by blast
  from real_result_cases [OF p(2)] consider reqs where "(res, log_text) = blocked_result w sts reqs res0"
    | "execute_benchmark w su a repo bench execution res0 = Inr (res, log_text)" by metis
  then show ?thesis
  proof cases
    case 1
    then show ?thesis using prepare_name [OF p(1)] by (auto simp: blocked_result_def Let_def)
  next
    case 2
    then show ?thesis using prepare_name [OF p(1)] execute_name by metis
  qed
qed

text \<open>C21: A benchmark named \<open>tflite_e1_npu\<close> that is parsed by the TFLite parser can pass, but a report
with such a passed result is never accepted: the parser produces no count of fallback or
delegated nodes, and the validator demands both.\<close>
theorem tflite_e1_npu_never_accepted:
  assumes "run_benchmark w su a repo run_dir report0 bench = Inr (res, log_text)" and "\<not> ra_dry_run a"
    and "st_get res ''status'' PNone = PStr ''passed''"
    and "get bench ''name'' = PStr ''tflite_e1_npu''" and "get bench ''parser'' = PStr ''tflite_benchmark_model''"
    and "get report ''results'' = PList rs" and "PDict res \<in> set rs"
  shows "validate_report report \<noteq> Inr []"
proof
  assume ok: "validate_report report = Inr []"
  have parser: "py_str (get_or bench ''parser'' (PStr [])) = ''tflite_benchmark_model''"
    using get_or_of_get [OF assms(5)] by (simp add: py_str_def)
  obtain metrics where m: "parse_benchmark_output w ''tflite_benchmark_model'' log_text = Inr metrics"
    "dget res ''metrics'' = Some metrics"
    using passed_real_run [OF assms(1-3)] unfolding parser by metis
  then obtain d where d: "metrics = PDict d" "set (map fst d) \<subseteq> set TFLITE_KEYS"
    using parse_tflite_keys [of log_text metrics] by (auto simp: parse_benchmark_output_def)
  then have "''cpu_fallback_nodes'' \<notin> set (map fst d)" by (auto simp: TFLITE_KEYS_def)
  then have none: "get metrics ''cpu_fallback_nodes'' = PNone"
    by (simp add: d(1) get_def get_or_def dget_None)
  have g: "get (PDict res) ''metrics'' = metrics" "get (PDict res) ''status'' = PStr ''passed''"
    "get (PDict res) ''name'' = PStr ''tflite_e1_npu''"
    using m(2) assms(3) real_name [OF assms(1,2)] assms(4) by (simp_all add: get_def get_or_def st_get_def)
  obtain i where "result_errors report (i, PDict res) = Inr []"
    using accepted_result [OF ok assms(6,7)] by blast
  from result_sections [OF this] obtain pre where "passed_errors pre report (PDict res) = Inr []" by metis
  then have "e1_npu_metric_errors pre metrics = []" by (auto simp: passed_errors_def g)
  then show False by (simp add: e1_npu_metric_errors_def d(1) none [unfolded d(1)] is_num_def)
qed

definition demo_tflite_bench :: pyv where
  "demo_tflite_bench = PDict
     [(''name'', PStr ''tflite_e1_npu''), (''suite'', PStr ''s''), (''version'', PStr ''1''), (''command'', PList [PStr ''r'']),
      (''primary_metric'', PStr ''m''), (''units'', PStr ''u''), (''parser'', PStr ''tflite_benchmark_model''),
      (''required_metadata'', PList [])]"

definition demo_tflite_world :: world where
  "demo_tflite_world = demo_world\<lparr>wd_run := (\<lambda>c e t. Completed 0 ''avg=5'')\<rparr>"

lemma demo_tflite_passes:
  "case run_benchmark demo_tflite_world demo_su (demo_args False) demo_repo demo_repo (PDict []) demo_tflite_bench of
     Inl e \<Rightarrow> False | Inr (res, log_text) \<Rightarrow> st_get res ''status'' PNone = PStr ''passed''"
  by code_simp

theorem tflite_e1_npu_never_accepted_witness:
  "\<exists>res. st_get res ''status'' PNone = PStr ''passed''
     \<and> validate_report (PDict [(''results'', PList [PDict res])]) \<noteq> Inr []"
proof -
  obtain res log_text where r: "run_benchmark demo_tflite_world demo_su (demo_args False) demo_repo demo_repo (PDict [])
      demo_tflite_bench = Inr (res, log_text)" "st_get res ''status'' PNone = PStr ''passed''"
    using demo_tflite_passes by (auto split: sum.splits)
  have f: "\<not> ra_dry_run (demo_args False)" "get demo_tflite_bench ''name'' = PStr ''tflite_e1_npu''"
    "get demo_tflite_bench ''parser'' = PStr ''tflite_benchmark_model''"
    by (simp_all add: demo_args_def demo_tflite_bench_def get_def get_or_def)
  have "get (PDict [(''results'', PList [PDict res])]) ''results'' = PList [PDict res]" by (simp add: get_def get_or_def)
  from tflite_e1_npu_never_accepted [OF r(1) f(1) r(2) f(2,3) this] r(2) show ?thesis by auto
qed

end
