(* ===== verification/Py_Check.thy ===== *)
theory Py_Check
  imports Py_World
begin

text \<open>
  Checkers: code that appends messages to a list of failures, may return a value and may
  raise. The messages are the first component of the result, in the order they are
  appended. A check is clean when it returns without a message; the rules in
  \<open>clean_simps\<close> reduce the cleanness of a composed check to that of its parts, and the
  locale \<open>sound_check\<close> lifts what one clean check guarantees to loops over it.
\<close>

named_theorems clean_simps \<open>when a composed check returns without a message\<close>

section \<open>Composition\<close>

type_synonym 'a checked = "(string list \<times> 'a) py"

definition wret :: "'a \<Rightarrow> 'a checked" where
  "wret x = Inr ([], x)"

text \<open>\<open>if b: failures.append(msg)\<close>.\<close>

definition report_if :: "bool \<Rightarrow> string \<Rightarrow> unit checked" where
  "report_if b msg = Inr (err_if b msg, ())"

text \<open>Code that only may raise.\<close>

definition wlift :: "'a py \<Rightarrow> 'a checked" where
  "wlift m = rbind m wret"

definition wbind :: "'a checked \<Rightarrow> ('a \<Rightarrow> 'b checked) \<Rightarrow> 'b checked" where
  "wbind m f = rbind m (\<lambda>(es, x). rbind (f x) (\<lambda>(fs, y). Inr (es @ fs, y)))"

fun wlist :: "unit checked list \<Rightarrow> unit checked" where
  "wlist [] = wret ()"
| "wlist (m # ms) = wbind m (\<lambda>_. wlist ms)"

definition weach :: "('a \<Rightarrow> unit checked) \<Rightarrow> 'a list \<Rightarrow> unit checked" where
  "weach f xs = wlist (map f xs)"

fun wmap :: "('a \<Rightarrow> 'b checked) \<Rightarrow> 'a list \<Rightarrow> 'b list checked" where
  "wmap f [] = wret []"
| "wmap f (x # xs) = wbind (f x) (\<lambda>y. wbind (wmap f xs) (\<lambda>ys. wret (y # ys)))"

text \<open>The messages of a check whose value is not used.\<close>

definition messages :: "'a checked \<Rightarrow> string list py" where
  "messages m = rbind m (\<lambda>(es, _). Inr es)"

lemma wbind_clean_value [simp]: "wbind (Inr ([], x)) f = f x"
  by (cases "f x") (auto simp: wbind_def)

lemma wlift_simps [simp]: "wlift (Inr x) = Inr ([], x)" "wlift (Inl e) = Inl e"
  by (simp_all add: wlift_def wret_def)

lemma wbind_raises [simp]: "wbind (Inl e) f = Inl e"
  by (simp add: wbind_def)

section \<open>Clean checks\<close>

lemma wret_clean [clean_simps]: "wret x = Inr ([], y) \<longleftrightarrow> y = x"
  by (auto simp: wret_def)

lemma report_if_clean [clean_simps]: "report_if b msg = Inr ([], u) \<longleftrightarrow> \<not> b"
  by (simp add: report_if_def)

lemma wlift_clean [clean_simps]: "wlift m = Inr ([], x) \<longleftrightarrow> m = Inr x"
  by (cases m) (auto simp: wlift_def wret_def)

lemma wbind_clean [clean_simps]:
  "wbind m f = Inr ([], y) \<longleftrightarrow> (\<exists>x. m = Inr ([], x) \<and> f x = Inr ([], y))"
  by (auto simp: wbind_def)

lemma wlist_clean [clean_simps]: "wlist ms = Inr ([], u) \<longleftrightarrow> (\<forall>m \<in> set ms. m = Inr ([], ()))"
  by (induction ms) (auto simp: clean_simps)

lemma weach_clean [clean_simps]: "weach f xs = Inr ([], u) \<longleftrightarrow> (\<forall>x \<in> set xs. f x = Inr ([], ()))"
  by (simp add: weach_def clean_simps)

lemma wmap_clean [clean_simps]:
  "wmap f xs = Inr ([], ys) \<longleftrightarrow> list_all2 (\<lambda>x y. f x = Inr ([], y)) xs ys"
  by (induction xs arbitrary: ys) (auto simp: clean_simps list_all2_Cons1)

lemma messages_clean [clean_simps]: "messages m = Inr [] \<longleftrightarrow> (\<exists>x. m = Inr ([], x))"
  by (auto simp: messages_def)

section \<open>What a clean check guarantees\<close>

locale sound_check =
  fixes check :: "'a \<Rightarrow> unit checked" and holds :: "'a \<Rightarrow> bool"
  assumes sound: "check x = Inr ([], ()) \<Longrightarrow> holds x"
begin

lemma each_sound: "weach check xs = Inr ([], u) \<Longrightarrow> \<forall>x \<in> set xs. holds x"
  using sound by (simp add: clean_simps)

lemma listed_sound: "wlist (map check xs @ ms) = Inr ([], u) \<Longrightarrow> list_all holds xs"
  using sound by (auto simp: clean_simps list_all_iff)

end

end
