(* ===== verification/Py_Csv.thy ===== *)
theory Py_Csv
  imports Py_World
begin

text \<open>
  The reader of the standard \<open>csv\<close> module in its default dialect (comma, double quote,
  doubled quotes, not strict), as the state machine it is, and \<open>csv.DictReader\<close> over it.
  The input is the list of lines the reader iterates over, ends of lines included.
\<close>

section \<open>The state machine\<close>

datatype csv_state = StartRecord | StartField | InField | InQuoted | QuoteInQuoted | EatCrnl

record csv_reader =
  cr_state :: csv_state
  cr_field :: string
  cr_fields :: "string list"

text \<open>The field under construction is kept in reverse, and so are the fields read.\<close>

definition csv_start :: csv_reader where
  "csv_start = \<lparr>cr_state = StartRecord, cr_field = [], cr_fields = []\<rparr>"

definition FIELD_LIMIT :: int where "FIELD_LIMIT = 131072"

definition csv_add :: "csv_state \<Rightarrow> char \<Rightarrow> csv_reader \<Rightarrow> csv_reader py" where
  "csv_add st c r =
     (if FIELD_LIMIT \<le> int (length (cr_field r)) then Inl (PyCsvError ''field larger than field limit (131072)'')
      else Inr (r\<lparr>cr_state := st, cr_field := c # cr_field r\<rparr>))"

definition csv_save :: "csv_state \<Rightarrow> csv_reader \<Rightarrow> csv_reader" where
  "csv_save st r = r\<lparr>cr_state := st, cr_field := [], cr_fields := rev (cr_field r) # cr_fields r\<rparr>"

text \<open>\<open>None\<close> is the end of a line, which follows its last character.\<close>

definition is_crnl :: "char option \<Rightarrow> bool" where
  "is_crnl c \<longleftrightarrow> c = Some (CHR 0x0A) \<or> c = Some (CHR 0x0D)"

definition after_line :: "char option \<Rightarrow> csv_state" where
  "after_line c = (if c = None then StartRecord else EatCrnl)"

definition csv_plain :: "char option \<Rightarrow> csv_reader \<Rightarrow> csv_reader py" where
  "csv_plain c r =
     (if c = None \<or> is_crnl c then Inr (csv_save (after_line c) r)
      else if c = Some (CHR '','') then Inr (csv_save StartField r)
      else csv_add InField (the c) r)"

definition csv_field_start :: "char option \<Rightarrow> csv_reader \<Rightarrow> csv_reader py" where
  "csv_field_start c r =
     (if c = Some (CHR 0x22) then Inr (r\<lparr>cr_state := InQuoted\<rparr>) else csv_plain c r)"

definition csv_step :: "char option \<Rightarrow> csv_reader \<Rightarrow> csv_reader py" where
  "csv_step c r =
     (case cr_state r of
        StartRecord \<Rightarrow>
          if c = None then Inr r
          else if is_crnl c then Inr (r\<lparr>cr_state := EatCrnl\<rparr>)
          else csv_field_start c r
      | StartField \<Rightarrow> csv_field_start c r
      | InField \<Rightarrow> csv_plain c r
      | InQuoted \<Rightarrow>
          if c = None then Inr r
          else if c = Some (CHR 0x22) then Inr (r\<lparr>cr_state := QuoteInQuoted\<rparr>)
          else csv_add InQuoted (the c) r
      | QuoteInQuoted \<Rightarrow>
          if c = Some (CHR 0x22) then csv_add InQuoted (CHR 0x22) r else csv_plain c r
      | EatCrnl \<Rightarrow>
          if c = None then Inr (r\<lparr>cr_state := StartRecord\<rparr>)
          else if is_crnl c then Inr r
          else Inl (PyCsvError ''new-line character seen in unquoted field - do you need to open the file in universal-newline mode?''))"

definition csv_line :: "string \<Rightarrow> csv_reader \<Rightarrow> csv_reader py" where
  "csv_line l r = foldR csv_step (map Some l @ [None]) r"

text \<open>One record: more lines while a quoted field is open; an open field at the end is kept.\<close>

fun csv_next :: "csv_reader \<Rightarrow> string list \<Rightarrow> (string list \<times> string list) option py" where
  "csv_next r [] =
     Inr (if cr_field r \<noteq> [] \<or> cr_state r = InQuoted
          then Some (rev (cr_fields (csv_save StartRecord r)), []) else None)"
| "csv_next r (l # ls) =
     rbind (csv_line l r) (\<lambda>r'.
       if cr_state r' = StartRecord then Inr (Some (rev (cr_fields r'), ls)) else csv_next r' ls)"

lemma csv_next_shorter:
  "csv_next r ls = Inr (Some (row, rest)) \<Longrightarrow> length rest < length ls \<or> ls = []"
  by (induction r ls rule: csv_next.induct) (fastforce split: if_splits)+

lemma csv_next_start_Nil [simp]: "csv_next csv_start [] = Inr None"
  by (simp add: csv_start_def)

lemma csv_next_start_shorter: "csv_next csv_start ls = Inr (Some (row, rest)) \<Longrightarrow> length rest < length ls"
  using csv_next_shorter [of csv_start ls row rest] by (cases "ls = []") (simp_all del: csv_next.simps)

function csv_records :: "string list \<Rightarrow> string list list py" where
  "csv_records ls =
     rbind (csv_next csv_start ls) (\<lambda>m.
     case m of None \<Rightarrow> Inr []
     | Some (row, rest) \<Rightarrow> rbind (csv_records rest) (\<lambda>rows. Inr (row # rows)))"
  by auto
termination
proof (relation "measure length")
  fix ls m p row rest
  assume "csv_next csv_start ls = Inr m" "m = Some p" "(row, rest) = p"
  then have "csv_next csv_start ls = Inr (Some (row, rest))" by simp
  then have "length rest < length ls" by (rule csv_next_start_shorter)
  then show "(rest, ls) \<in> measure length" by simp
qed simp

declare csv_records.simps [simp del]

text \<open>For evaluation: a bound on the number of records, one per line.\<close>

fun csv_records_upto :: "nat \<Rightarrow> string list \<Rightarrow> string list list py" where
  "csv_records_upto 0 ls = Inr []"
| "csv_records_upto (Suc n) ls =
     rbind (csv_next csv_start ls) (\<lambda>m.
     case m of None \<Rightarrow> Inr []
     | Some (row, rest) \<Rightarrow> rbind (csv_records_upto n rest) (\<lambda>rows. Inr (row # rows)))"

lemma csv_records_upto: "length ls \<le> n \<Longrightarrow> csv_records_upto n ls = csv_records ls"
proof (induction n arbitrary: ls)
  case 0
  then show ?case by (subst csv_records.simps) (simp add: csv_start_def)
next
  case (Suc n)
  have "csv_records_upto n rest = csv_records rest" if "csv_next csv_start ls = Inr (Some (row, rest))" for row rest
    using Suc csv_next_start_shorter [OF that] by simp
  then show ?case
    by (subst csv_records.simps) (auto simp: rbind_def split: sum.splits option.splits)
qed

lemma csv_records_code [code]: "csv_records ls = csv_records_upto (length ls) ls"
  by (simp add: csv_records_upto)

section \<open>Dictionaries\<close>

text \<open>A row with its surplus fields; a missing field is \<open>None\<close>.\<close>

type_synonym csv_row = "(string \<times> pyv) list \<times> string list"

definition dict_row :: "string list \<Rightarrow> string list \<Rightarrow> csv_row" where
  "dict_row names row =
     (dupdate (dupdate [] (zip names (map PStr row))) (map (\<lambda>k. (k, PNone)) (drop (length row) names)),
      drop (length names) row)"

text \<open>\<open>reader.fieldnames or []\<close> and the lines after them; \<open>list(reader)\<close> skips empty rows.\<close>

definition csv_header :: "string list \<Rightarrow> (string list \<times> string list) py" where
  "csv_header ls = rbind (csv_next csv_start ls) (\<lambda>m. Inr (case m of None \<Rightarrow> ([], []) | Some p \<Rightarrow> p))"

definition dict_rows :: "string list \<Rightarrow> string list \<Rightarrow> csv_row list py" where
  "dict_rows names ls =
     rbind (csv_records ls) (\<lambda>rows. Inr (map (dict_row names) (filter (\<lambda>row. row \<noteq> []) rows)))"

end
