(* ===== verification/Power_Evidence.thy ===== *)
theory Power_Evidence
  imports Py_Check Py_Csv Py_Regex
begin

text \<open>
  The gate for sustained power and thermal evidence,
  \<open>benchmarks/power/scripts/check_sustained_run_evidence.py\<close>: a manifest with its traces,
  digests and computed metrics. Failures are gathered as messages; a set is iterated in the
  order of its listing.
\<close>

section \<open>Constants\<close>

definition SCHEMA :: string where "SCHEMA = ''openagent.sustained_power_thermal_evidence.v1''"

definition ALLOWED_STATUS :: "string list" where
  "ALLOWED_STATUS = [''blocked'', ''draft_local_evidence'', ''complete_measured_evidence'']"

definition MEASURED_SUBSTRATES :: "string list" where
  "MEASURED_SUBSTRATES = [''prototype_silicon'', ''complete_phone'']"

definition SHA256_RE :: rx where
  "SHA256_RE = rx_seq (replicate 64 (RSet False [(48, 57), (97, 102)]))"

definition REQUIRED_TOP_LEVEL :: "string list" where
  "REQUIRED_TOP_LEVEL =
     [''schema'', ''status'', ''claim_boundary'', ''target'', ''workload'', ''measurement_environment'',
      ''instrumentation'', ''artifacts'', ''computed_metrics'', ''release_blockers'']"

definition REQUIRED_ARTIFACTS :: "string list" where
  "REQUIRED_ARTIFACTS =
     [''power_trace'', ''thermal_trace'', ''frequency_trace'', ''workload_transcript'', ''calibration_record'']"

definition REQUIRED_CAPTURE_STATUSES :: "string list" where
  "REQUIRED_CAPTURE_STATUSES =
     [''power_meter_calibrated'', ''thermal_sensor_calibrated'', ''frequency_source_recorded'',
      ''workload_transcript_recorded'', ''throttle_state_recorded'', ''same_window_alignment_checked'']"

definition TRANSCRIPT_MARKERS :: "string list" where
  "TRANSCRIPT_MARKERS =
     [''openagent-evidence: status=PASS'', ''NNAPI_ACCELERATOR=e1-npu'', ''CPU_FALLBACK_PERCENT=0'',
      ''UNSUPPORTED_OP_COUNT=0'']"

definition POSITIVE_METRICS :: "string list" where
  "POSITIVE_METRICS = [''average_watts'', ''max_die_c'', ''sustained_int8_tops'', ''sustained_tops_per_w'']"

definition INSTRUMENTS :: "string list" where
  "INSTRUMENTS = [''power'', ''thermal'', ''frequency'']"

section \<open>Helpers\<close>

definition resolve :: "ppath \<Rightarrow> ppath \<Rightarrow> ppath" where
  "resolve repo p = path_join repo p"

definition display_path :: "ppath \<Rightarrow> ppath \<Rightarrow> string" where
  "display_path repo p = (case relative_to p repo of Some q \<Rightarrow> path_str q | None \<Rightarrow> path_str p)"

definition load_manifest :: "world \<Rightarrow> ppath \<Rightarrow> pyv py" where
  "load_manifest w p =
     rbind (json_file w p) (\<lambda>data.
     rbind (fail_if (\<not> is_dict data) ''manifest must be a JSON object'') (\<lambda>_. Inr data))"

definition as_number :: "pyv \<Rightarrow> pyfloat option py" where
  "as_number v = (if is_json_number v then rbind (py_float v) (\<lambda>x. Inr (Some x)) else Inr None)"

definition as_mapping :: "pyv \<Rightarrow> pyv" where
  "as_mapping v = (if is_dict v then v else PDict [])"

text \<open>\<open>as_list\<close> of the source; the list itself.\<close>

definition list_or_empty :: "pyv \<Rightarrow> pyv list" where
  "list_or_empty v = (case v of PList xs \<Rightarrow> xs | _ \<Rightarrow> [])"

definition validate_repo_path :: "ppath \<Rightarrow> pyv \<Rightarrow> string \<Rightarrow> ppath option checked" where
  "validate_repo_path repo v field =
     (if \<not> nonempty_str v then Inr ([field @ '': missing path''], None)
      else let p = path_of (as_str v) in
        if pabs p \<or> ''..'' \<in> set (pparts p) then Inr ([field @ '': path must be repo-relative''], None)
        else wret (Some (path_join repo p)))"

text \<open>\<open>except csv.Error\<close>.\<close>

definition catch_csv :: "'a checked \<Rightarrow> (string \<Rightarrow> 'a checked) \<Rightarrow> 'a checked" where
  "catch_csv m handler = (case m of Inl (PyCsvError msg) \<Rightarrow> handler msg | _ \<Rightarrow> m)"

definition load_csv_rows :: "world \<Rightarrow> ppath \<Rightarrow> ppath \<Rightarrow> string list \<Rightarrow> csv_row list checked" where
  "load_csv_rows w repo p required_columns =
     rbind (read_bytes w p) (\<lambda>data.
     catch_csv
       (rbind (csv_header (file_lines data)) (\<lambda>(columns, rest).
        let missing = filter (\<lambda>c. c \<notin> set columns) (sort required_columns) in
        if missing \<noteq> [] then
          Inr ([display_path repo p @ '' missing CSV columns: '' @ join '', '' missing], [])
        else
          rbind (dict_rows columns rest) (\<lambda>rows.
          Inr (err_if (rows = []) (display_path repo p @ '' must contain at least one data row''), rows))))
       (\<lambda>msg. Inr ([display_path repo p @ '' is not parseable CSV: '' @ msg], [])))"

definition is_finite :: "pyfloat \<Rightarrow> bool" where
  "is_finite x \<longleftrightarrow> x \<noteq> NaN \<and> x \<noteq> PInf \<and> x \<noteq> NInf"

definition parse_float :: "pyv \<Rightarrow> string \<Rightarrow> pyfloat option checked" where
  "parse_float v field =
     (case py_float v of
        Inl PyTypeError \<Rightarrow> Inr ([field @ '' must be numeric''], None)
      | Inl (PyValueError _) \<Rightarrow> Inr ([field @ '' must be numeric''], None)
      | Inl e \<Rightarrow> Inl e
      | Inr x \<Rightarrow> if is_finite x then wret (Some x) else Inr ([field @ '' must be finite''], None))"

definition somes :: "'a option list \<Rightarrow> 'a list" where
  "somes xs = concat (map (\<lambda>x. case x of None \<Rightarrow> [] | Some y \<Rightarrow> [y]) xs)"

definition row_get :: "csv_row \<Rightarrow> string \<Rightarrow> pyv" where
  "row_get row column = get (PDict (fst row)) column"

definition values_from_rows :: "ppath \<Rightarrow> csv_row list \<Rightarrow> ppath \<Rightarrow> string \<Rightarrow> pyfloat list checked" where
  "values_from_rows repo rows p column =
     wbind (wmap (\<lambda>(i, row). parse_float (row_get row column)
              (display_path repo p @ '':'' @ nat_str (i + 2) @ '':'' @ column)) (enum rows))
       (\<lambda>vs. wret (somes vs))"

definition relative_error :: "pyfloat \<Rightarrow> pyfloat \<Rightarrow> pyfloat py" where
  "relative_error actual expected =
     pynum (float_div (float_abs (float_sub actual expected))
       (fmax (float_abs expected) [float_lit (1 / 10 ^ 12)]))"

section \<open>The contents of measured artifacts\<close>

text \<open>One trace: its timestamps are not negative and span the duration of the workload.\<close>

definition trace_check :: "ppath \<Rightarrow> pyfloat \<Rightarrow> string \<Rightarrow> csv_row list \<Rightarrow> ppath \<Rightarrow> unit checked" where
  "trace_check repo duration label rows p =
     wbind (values_from_rows repo rows p ''timestamp_s'') (\<lambda>timestamps.
     case timestamps of [] \<Rightarrow> wret ()
     | x # xs \<Rightarrow> wlist
         [report_if (float_lt (fmin x xs) (Fin 0)) (label @ '': timestamp_s must be non-negative''),
          report_if (duration \<noteq> Fin 0 \<and> float_lt (float_sub (fmax x xs) (fmin x xs)) duration)
            (label @ '': timestamp span must cover workload.duration_seconds'')])"

text \<open>\<open>sum(values) / len(values)\<close>, added from left to right.\<close>

definition average :: "pyfloat list \<Rightarrow> pyfloat py" where
  "average xs =
     pynum (rbind (float_of_int (int (length xs))) (\<lambda>n. float_div (foldl float_add (Fin 0) xs) n))"

text \<open>A claimed number, when there is one, agrees with an observed one.\<close>

definition agree_within :: "rat \<Rightarrow> pyfloat \<Rightarrow> pyfloat \<Rightarrow> string \<Rightarrow> unit checked" where
  "agree_within tolerance actual expected msg =
     wbind (wlift (relative_error actual expected)) (\<lambda>e. report_if (float_lt (float_lit tolerance) e) msg)"

definition watts_check :: "pyv \<Rightarrow> pyfloat list \<Rightarrow> unit checked" where
  "watts_check metrics watts = wlist
     [report_if (list_ex (\<lambda>v. float_le v (Fin 0)) watts) ''power_trace.watts must be positive for measured evidence'',
      if watts = [] then wret ()
      else
        wbind (wlift (average watts)) (\<lambda>observed.
        wbind (wlift (as_number (get metrics ''average_watts''))) (\<lambda>claimed.
        case claimed of None \<Rightarrow> wret ()
        | Some c \<Rightarrow> agree_within (5 / 100) observed c
            ''computed_metrics.average_watts must match power_trace average within 5%''))]"

definition die_check :: "pyv \<Rightarrow> pyfloat list \<Rightarrow> unit checked" where
  "die_check metrics die_c =
     (case die_c of [] \<Rightarrow> wret ()
      | x # xs \<Rightarrow>
          wbind (wlift (as_number (get metrics ''max_die_c''))) (\<lambda>claimed.
          case claimed of None \<Rightarrow> wret ()
          | Some c \<Rightarrow> report_if (float_lt (Fin (1 / 2)) (float_abs (float_sub (fmax x xs) c)))
              ''computed_metrics.max_die_c must match thermal_trace max within 0.5C''))"

definition efficiency_check :: "pyv \<Rightarrow> unit checked" where
  "efficiency_check metrics =
     wbind (wlift (as_number (get metrics ''sustained_int8_tops''))) (\<lambda>sustained_tops.
     wbind (wlift (as_number (get metrics ''average_watts''))) (\<lambda>average_watts.
     wbind (wlift (as_number (get metrics ''sustained_tops_per_w''))) (\<lambda>tops_per_w.
     case (sustained_tops, average_watts, tops_per_w) of
       (Some tops, Some watts, Some per_w) \<Rightarrow>
         wbind (wlift (pynum (float_div tops watts))) (\<lambda>expected.
         agree_within (2 / 100) per_w expected
           ''computed_metrics.sustained_tops_per_w must equal sustained_int8_tops / average_watts within 2%'')
     | _ \<Rightarrow> wret ())))"

definition transcript_check :: "world \<Rightarrow> ppath \<Rightarrow> unit checked" where
  "transcript_check w p =
     wbind (wlift (read_text w p)) (\<lambda>transcript.
     weach (\<lambda>marker. report_if (\<not> contains marker transcript)
       (''workload_transcript missing marker: '' @ marker)) TRANSCRIPT_MARKERS)"

definition calibration_check :: "world \<Rightarrow> ppath \<Rightarrow> ppath \<Rightarrow> unit checked" where
  "calibration_check w repo p =
     wbind (wlift (read_text w p)) (\<lambda>data.
     case json_loads w data of
       Inl e \<Rightarrow> report_if True (display_path repo p @ '' is invalid JSON'')
     | Inr calibration \<Rightarrow>
         if \<not> is_dict calibration then report_if True ''calibration_record must contain a JSON object''
         else wlist
           (report_if (\<not> py_eq (get calibration ''status'') (PStr ''complete'')) ''calibration_record.status must be complete''
            # map (\<lambda>key. report_if (list_or_empty (get calibration key) = [])
                (''calibration_record.'' @ key @ '' must list calibrated instruments'')) INSTRUMENTS))"

definition artifact_entry :: "pyv \<Rightarrow> string \<Rightarrow> pyv" where
  "artifact_entry manifest name = as_mapping (get (as_mapping (get manifest ''artifacts'')) name)"

definition path_at :: "ppath \<Rightarrow> (string \<times> ppath) list \<Rightarrow> string \<Rightarrow> ppath" where
  "path_at repo paths name = (case map_of paths name of Some p \<Rightarrow> p | None \<Rightarrow> repo)"

definition measured_contents :: "world \<Rightarrow> ppath \<Rightarrow> pyv \<Rightarrow> pyfloat \<Rightarrow> (string \<times> ppath) list \<Rightarrow> unit checked" where
  "measured_contents w repo metrics duration paths =
     (let power = path_at repo paths ''power_trace''; thermal = path_at repo paths ''thermal_trace'';
          frequency = path_at repo paths ''frequency_trace'' in
      wbind (load_csv_rows w repo power [''timestamp_s'', ''watts'']) (\<lambda>power_rows.
      wbind (load_csv_rows w repo thermal [''timestamp_s'', ''die_c'']) (\<lambda>thermal_rows.
      wbind (load_csv_rows w repo frequency [''timestamp_s'', ''frequency_hz'']) (\<lambda>frequency_rows.
      wbind (wlist [trace_check repo duration ''power_trace'' power_rows power,
                    trace_check repo duration ''thermal_trace'' thermal_rows thermal,
                    trace_check repo duration ''frequency_trace'' frequency_rows frequency]) (\<lambda>_.
      wbind (values_from_rows repo power_rows power ''watts'') (\<lambda>watts.
      wbind (watts_check metrics watts) (\<lambda>_.
      wbind (values_from_rows repo thermal_rows thermal ''die_c'') (\<lambda>die_c.
      wbind (die_check metrics die_c) (\<lambda>_.
      wbind (values_from_rows repo frequency_rows frequency ''frequency_hz'') (\<lambda>frequency_hz.
      wlist [report_if (list_ex (\<lambda>v. float_le v (Fin 0)) frequency_hz)
               ''frequency_trace.frequency_hz must be positive for measured evidence'',
             efficiency_check metrics,
             transcript_check w (path_at repo paths ''workload_transcript''),
             calibration_check w repo (path_at repo paths ''calibration_record'')]))))))))))"

definition workload_duration :: "pyv \<Rightarrow> pyfloat py" where
  "workload_duration manifest =
     rbind (as_number (get (as_mapping (get manifest ''workload'')) ''duration_seconds'')) (\<lambda>x.
     Inr (case x of Some d \<Rightarrow> d | None \<Rightarrow> Fin 0))"

definition validate_measured_artifact_contents :: "world \<Rightarrow> ppath \<Rightarrow> pyv \<Rightarrow> unit checked" where
  "validate_measured_artifact_contents w repo manifest =
     wbind (wlift (workload_duration manifest)) (\<lambda>duration.
     wbind (wmap (\<lambda>name. validate_repo_path repo (get (artifact_entry manifest name) ''path'') (''artifacts.'' @ name))
              REQUIRED_ARTIFACTS) (\<lambda>found.
     let paths = concat (map (\<lambda>(name, x). case x of None \<Rightarrow> [] | Some p \<Rightarrow> [(name, p)]) (zip REQUIRED_ARTIFACTS found)) in
     if set (map fst paths) \<noteq> set REQUIRED_ARTIFACTS then wret ()
     else if list_ex (\<lambda>(_, p). \<not> is_file w p) paths then wret ()
     else measured_contents w repo (as_mapping (get manifest ''computed_metrics'')) duration paths))"

section \<open>The manifest\<close>

definition is_digest :: "pyv \<Rightarrow> bool" where
  "is_digest v \<longleftrightarrow> is_str v \<and> rx_fullmatch SHA256_RE (as_str v)"

definition validate_artifact :: "world \<Rightarrow> ppath \<Rightarrow> pyv \<Rightarrow> bool \<Rightarrow> string \<Rightarrow> unit checked" where
  "validate_artifact w repo manifest require_existing name =
     (let artifact = artifact_entry manifest name; field = ''artifacts.'' @ name; sha = get artifact ''sha256'' in
      wbind (validate_repo_path repo (get artifact ''path'') field) (\<lambda>found. wlist
        [report_if (\<not> is_digest sha) (field @ '': sha256 must be a 64-character lowercase hex digest''),
         report_if (\<not> is_int (get artifact ''sample_count'') \<or> as_int (get artifact ''sample_count'') < 0)
           (field @ '': sample_count must be a non-negative integer''),
         case found of None \<Rightarrow> wret ()
         | Some p \<Rightarrow>
             if \<not> require_existing then wret ()
             else if \<not> is_file w p then
               report_if True (field @ '': referenced file is missing: '' @ display_path repo p)
             else if is_digest sha then
               wbind (wlift (sha256_file w p)) (\<lambda>actual.
               report_if (actual \<noteq> as_str sha) (field @ '': sha256 mismatch for '' @ display_path repo p))
             else wret ()]))"

definition missing_keys :: "string list \<Rightarrow> pyv \<Rightarrow> string list" where
  "missing_keys names v = filter (\<lambda>k. \<not> has_key v k) (sort names)"

definition header_check :: "pyv \<Rightarrow> bool \<Rightarrow> unit checked" where
  "header_check manifest require_measured = wlist
     [report_if (missing_keys REQUIRED_TOP_LEVEL manifest \<noteq> [])
        (''missing top-level keys: '' @ join '', '' (missing_keys REQUIRED_TOP_LEVEL manifest)),
      report_if (\<not> py_eq (get manifest ''schema'') (PStr SCHEMA)) (''schema must be '' @ SCHEMA),
      wbind (wlift (in_names (get manifest ''status'') ALLOWED_STATUS)) (\<lambda>ok.
        report_if (\<not> ok) (''status must be one of '' @ join '', '' (sort ALLOWED_STATUS))),
      if \<not> require_measured then wret ()
      else wbind (wlift (in_names (get (as_mapping (get manifest ''target'')) ''substrate'') MEASURED_SUBSTRATES)) (\<lambda>ok.
        report_if (\<not> ok) ''target.substrate must be prototype_silicon or complete_phone for measured evidence'')]"

definition workload_check :: "pyv \<Rightarrow> unit checked" where
  "workload_check workload =
     wbind (wlift (as_number (get workload ''duration_seconds''))) (\<lambda>duration. wlist
       [report_if (case duration of None \<Rightarrow> True | Some d \<Rightarrow> float_lt d (Fin 1800))
          ''workload.duration_seconds must be at least 1800 for sustained evidence'',
        report_if (list_or_empty (get workload ''commands'') = [])
          ''workload.commands must list the exact sustained workload commands''])"

definition environment_check :: "pyv \<Rightarrow> unit checked" where
  "environment_check environment =
     wbind (wlift (as_number (get environment ''ambient_c''))) (\<lambda>ambient. wlist
       (report_if (case ambient of None \<Rightarrow> True | Some a \<Rightarrow> float_lt a (Fin 0) \<or> float_lt (Fin 60) a)
          ''measurement_environment.ambient_c must be a realistic numeric value''
        # map (\<lambda>key. report_if (\<not> nonempty_str (get environment key))
            (''measurement_environment.'' @ key @ '' is required'')) [''cooling'', ''enclosure'', ''operator'']))"

definition instrumentation_check :: "pyv \<Rightarrow> bool \<Rightarrow> unit checked" where
  "instrumentation_check instrumentation require_measured =
     (let statuses = as_mapping (get instrumentation ''capture_statuses''); missing = missing_keys REQUIRED_CAPTURE_STATUSES statuses in
      wlist
        ([report_if (missing \<noteq> []) (''instrumentation.capture_statuses missing: '' @ join '', '' missing)]
         @ (if require_measured then
              map (\<lambda>key. report_if (\<not> py_eq (get statuses key) (PStr ''complete''))
                (''instrumentation.capture_statuses.'' @ key @ '' must be complete'')) (sort REQUIRED_CAPTURE_STATUSES)
            else [])
         @ map (\<lambda>key. report_if (list_or_empty (get instrumentation key) = [])
             (''instrumentation.'' @ key @ '' must contain at least one entry'')) INSTRUMENTS))"

definition artifacts_check :: "world \<Rightarrow> ppath \<Rightarrow> pyv \<Rightarrow> bool \<Rightarrow> unit checked" where
  "artifacts_check w repo manifest require_measured =
     (let artifacts = as_mapping (get manifest ''artifacts''); missing = missing_keys REQUIRED_ARTIFACTS artifacts in
      wlist
        [report_if (missing \<noteq> []) (''artifacts missing: '' @ join '', '' missing),
         weach (validate_artifact w repo manifest require_measured)
           (filter (has_key artifacts) (sort REQUIRED_ARTIFACTS)),
         if require_measured then validate_measured_artifact_contents w repo manifest else wret ()])"

definition metrics_check :: "pyv \<Rightarrow> bool \<Rightarrow> unit checked" where
  "metrics_check metrics require_measured = wlist
     [weach (\<lambda>key.
        wbind (wlift (as_number (get metrics key))) (\<lambda>v.
        report_if (require_measured \<and> (case v of None \<Rightarrow> True | Some x \<Rightarrow> float_le x (Fin 0)))
          (''computed_metrics.'' @ key @ '' must be positive measured data''))) POSITIVE_METRICS,
      if \<not> require_measured then wret ()
      else wbind (wlift (in_names (get metrics ''throttle_state'') [''none'', ''observed'', ''thermal_shutdown''])) (\<lambda>ok.
        report_if (\<not> ok) ''computed_metrics.throttle_state must be one of none, observed, thermal_shutdown'')]"

definition blockers_check :: "pyv \<Rightarrow> unit checked" where
  "blockers_check manifest =
     (let complete = py_eq (get manifest ''status'') (PStr ''complete_measured_evidence'');
          blockers = list_or_empty (get manifest ''release_blockers'') in
      wlist [report_if (\<not> complete \<and> blockers = []) ''blocked/draft manifests require release_blockers'',
             report_if (complete \<and> blockers \<noteq> []) ''complete measured evidence must not carry release_blockers''])"

definition validate_manifest :: "world \<Rightarrow> ppath \<Rightarrow> pyv \<Rightarrow> bool \<Rightarrow> string list py" where
  "validate_manifest w repo manifest require_measured = messages (wlist
     [header_check manifest require_measured,
      workload_check (as_mapping (get manifest ''workload'')),
      environment_check (as_mapping (get manifest ''measurement_environment'')),
      instrumentation_check (as_mapping (get manifest ''instrumentation'')) require_measured,
      artifacts_check w repo manifest require_measured,
      metrics_check (as_mapping (get manifest ''computed_metrics'')) require_measured,
      blockers_check manifest])"

text \<open>The exit code, and the lines printed for the failures.\<close>

definition power_main :: "world \<Rightarrow> ppath \<Rightarrow> ppath \<Rightarrow> bool \<Rightarrow> (int \<times> string list) py" where
  "power_main w repo manifest_arg allow_blocked =
     (let p = resolve repo manifest_arg in
      rbind (load_manifest w p) (\<lambda>manifest.
      let require_measured = py_eq (get manifest ''status'') (PStr ''complete_measured_evidence'') in
      rbind (validate_manifest w repo manifest require_measured) (\<lambda>failures.
      Inr (if failures \<noteq> [] then
             (1, map (\<lambda>failure. ''FAIL: '' @ display_path repo p @ '': '' @ failure) failures)
           else if require_measured then
             (0, [''PASS: '' @ display_path repo p @ '' contains complete measured sustained evidence''])
           else (if allow_blocked then 0 else 2,
             [''BLOCKED: '' @ display_path repo p @ '' is valid '' @ py_str (get manifest ''status'')
                @ '' evidence, not release evidence'']))))) "

end
