(* ===== verification/Power_Sound.thy ===== *)
theory Power_Sound
  imports Power_Evidence
begin

text \<open>
  What exit code 0 of the sustained-evidence gate says about the evidence: recorded digests,
  traces that cover the workload, and claimed metrics that agree with the traces, as long as
  no claimed number is NaN; and the gap NaN leaves.
\<close>

section \<open>Clean parts\<close>

text \<open>The numbers of a column of a CSV file, all finite.\<close>

definition trace_values :: "world \<Rightarrow> ppath \<Rightarrow> string \<Rightarrow> rat list \<Rightarrow> bool" where
  "trace_values w p column qs \<longleftrightarrow>
     (\<exists>data names rest rows. read_bytes w p = Inr data \<and> csv_header (file_lines data) = Inr (names, rest)
        \<and> dict_rows names rest = Inr rows
        \<and> list_all2 (\<lambda>row q. py_float (row_get row column) = Inr (Fin q)) rows qs)
     \<and> qs \<noteq> []"

lemma is_finite_iff: "is_finite x \<longleftrightarrow> (\<exists>q. x = Fin q)"
  by (cases x) (auto simp: is_finite_def)

lemma catch_csv_clean:
  "catch_csv m h = Inr ([], x) \<longleftrightarrow> m = Inr ([], x) \<or> (\<exists>msg. m = Inl (PyCsvError msg) \<and> h msg = Inr ([], x))"
  by (auto simp: catch_csv_def split: sum.splits py_exc.splits)

lemma load_csv_rows_clean:
  "load_csv_rows w repo p required = Inr ([], rows) \<longleftrightarrow>
     (\<exists>data columns rest. read_bytes w p = Inr data \<and> csv_header (file_lines data) = Inr (columns, rest)
        \<and> dict_rows columns rest = Inr rows \<and> rows \<noteq> [] \<and> set required \<subseteq> set columns)"
  by (auto simp: load_csv_rows_def catch_csv_clean Let_def filter_empty_conv split: if_splits)

lemma parse_float_clean:
  "parse_float v field = Inr ([], r) \<longleftrightarrow> (\<exists>q. r = Some (Fin q) \<and> py_float v = Inr (Fin q))"
  by (auto simp: parse_float_def wret_def is_finite_iff split: sum.splits py_exc.splits if_splits)

lemma values_from_rows_clean:
  assumes "values_from_rows repo rows p column = Inr ([], xs)"
  shows "\<exists>qs. xs = map Fin qs \<and> list_all2 (\<lambda>row q. py_float (row_get row column) = Inr (Fin q)) rows qs"
proof -
  obtain rs where xs: "xs = somes rs"
    and rs: "list_all2 (\<lambda>(i, row) r. \<exists>q. r = Some (Fin q) \<and> py_float (row_get row column) = Inr (Fin q)) (enum rows) rs"
    using assms by (auto simp: values_from_rows_def clean_simps parse_float_clean case_prod_unfold)
  have len: "length rs = length rows" using list_all2_lengthD [OF rs] by (simp add: enum_def)
  have nth: "\<exists>q. rs ! i = Some (Fin q) \<and> py_float (row_get (rows ! i) column) = Inr (Fin q)" if "i < length rows" for i
    using list_all2_nthD [OF rs, of i] that len by (simp add: enum_def)
  define qs where "qs = map (\<lambda>r. case r of Some (Fin q) \<Rightarrow> q | _ \<Rightarrow> 0) rs"
  have "rs = map (Some \<circ> Fin) qs"
    using nth len by (intro nth_equalityI) (fastforce simp: qs_def)+
  then have "xs = map Fin qs" unfolding xs somes_def by (simp add: comp_def)
  moreover have "list_all2 (\<lambda>row q. py_float (row_get row column) = Inr (Fin q)) rows qs"
    using nth len by (fastforce simp: list_all2_conv_all_nth qs_def)
  ultimately show ?thesis by blast
qed

lemma loaded_column:
  assumes "load_csv_rows w repo p required = Inr ([], rows)"
    and "values_from_rows repo rows p' column = Inr ([], xs)"
  shows "\<exists>qs. xs = map Fin qs \<and> trace_values w p column qs"
proof -
  obtain qs where "xs = map Fin qs" "list_all2 (\<lambda>row q. py_float (row_get row column) = Inr (Fin q)) rows qs"
    using values_from_rows_clean [OF assms(2)] by blast
  moreover have "qs \<noteq> []" using calculation(2) assms(1) by (auto simp: load_csv_rows_clean)
  ultimately show ?thesis
    using assms(1) unfolding trace_values_def load_csv_rows_clean by blast
qed

lemma fmax_Fin: "fmax (Fin q) (map Fin qs) = Fin (Max (set (q # qs)))"
proof -
  have "foldl (\<lambda>m y. if float_lt m y then y else m) (Fin q) (map Fin qs) = Fin (foldl max q qs)"
    by (induction qs arbitrary: q) (auto simp: max_def not_le)
  moreover have "foldl max q qs = fold max qs q"
    by (induction qs arbitrary: q) (simp_all add: max.commute)
  ultimately show ?thesis unfolding fmax_def Max.set_eq_fold by simp
qed

lemma fmin_Fin: "fmin (Fin q) (map Fin qs) = Fin (Min (set (q # qs)))"
proof -
  have "foldl (\<lambda>m y. if float_lt y m then y else m) (Fin q) (map Fin qs) = Fin (foldl min q qs)"
    by (induction qs arbitrary: q) (auto simp: min_def not_le)
  moreover have "foldl min q qs = fold min qs q"
    by (induction qs arbitrary: q) (simp_all add: min.commute)
  ultimately show ?thesis unfolding fmin_def Min.set_eq_fold by simp
qed

lemma float_sub_Fin [simp]: "float_sub (Fin a) (Fin b) = to_float (a - b)"
  by (simp add: float_sub_def float_neg_def float_add_def)

lemma trace_check_clean:
  assumes "trace_check repo duration label rows p = Inr ([], u)"
    and "load_csv_rows w repo p required = Inr ([], rows)"
  shows "\<exists>ts. trace_values w p ''timestamp_s'' ts \<and> (\<forall>t \<in> set ts. 0 \<le> t)
     \<and> (duration = Fin 0 \<or> \<not> float_lt (to_float (Max (set ts) - Min (set ts))) duration)"
proof -
  obtain xs where xs: "values_from_rows repo rows p ''timestamp_s'' = Inr ([], xs)"
    using assms(1) by (auto simp: trace_check_def clean_simps)
  obtain qs where qs: "xs = map Fin qs" "trace_values w p ''timestamp_s'' qs"
    using loaded_column [OF assms(2) xs] by blast
  then obtain q more where "qs = q # more" by (cases qs) (auto simp: trace_values_def)
  then show ?thesis
    using assms(1) qs xs
    by (auto simp: trace_check_def clean_simps fmax_Fin fmin_Fin not_less intro!: exI [of _ qs])
qed

section \<open>Agreement of claimed and observed numbers\<close>

definition agrees :: "rat \<Rightarrow> pyfloat \<Rightarrow> rat \<Rightarrow> bool" where
  "agrees tolerance x c \<longleftrightarrow> (\<exists>e. relative_error x (Fin c) = Inr e \<and> float_le e (float_lit tolerance))"

lemma to_float_not_NaN [simp]: "to_float x \<noteq> NaN" "NaN \<noteq> to_float x"
  by (simp_all add: to_float_def)

lemma fl_tiny_pos: "0 < fl (1 / 10 ^ 12)"
proof (rule fl_pos)
  have "pow2 (- 1022) \<le> pow2 (- 40)" by (rule pow2_mono) simp
  also have "\<dots> \<le> 1 / 10 ^ 12" by (simp add: pow2_def power_int_def power_one_over)
  finally show "pow2 (- 1022) \<le> 1 / 10 ^ 12" .
qed

lemma relative_error_not_NaN:
  assumes "x \<noteq> NaN" and "relative_error x (Fin c) = Inr e"
  shows "e \<noteq> NaN"
proof -
  obtain y where y: "fmax (float_abs (Fin c)) [float_lit (1 / 10 ^ 12)] = Fin y" "0 < y"
  proof (cases "\<bar>c\<bar> < fl (1 / 10 ^ 12)")
    case True
    then show ?thesis using fl_tiny_pos by (intro that) (simp_all add: fmax_def float_abs_def)
  next
    case False
    then have "0 < \<bar>c\<bar>" using fl_tiny_pos by linarith
    moreover have "fmax (float_abs (Fin c)) [float_lit (1 / 10 ^ 12)] = Fin \<bar>c\<bar>"
      using False by (simp add: fmax_def float_abs_def)
    ultimately show ?thesis by (rule that [rotated])
  qed
  have "float_sub x (Fin c) \<noteq> NaN" using assms(1) by (cases x) (auto simp: float_sub_def float_neg_def float_add_def)
  then show ?thesis
    using assms(2) y unfolding relative_error_def
    by (auto simp: float_div_def float_abs_def inf_of_sign_def float_sign_def pynum_def
        split: pyfloat.splits sum.splits if_splits)
qed

lemma agree_within_clean:
  assumes "agree_within tolerance x (Fin c) msg = Inr ([], u)" and "x \<noteq> NaN"
  shows "agrees tolerance x c"
proof -
  obtain e where e: "relative_error x (Fin c) = Inr e" "\<not> float_lt (float_lit tolerance) e"
    using assms(1) by (auto simp: agree_within_def clean_simps)
  then show ?thesis
    using relative_error_not_NaN [OF assms(2) e(1)] by (auto simp: agrees_def float_lt_def)
qed

lemma average_not_NaN: "average (map Fin qs) = Inr a \<Longrightarrow> qs \<noteq> [] \<Longrightarrow> a \<noteq> NaN"
proof -
  assume avg: "average (map Fin qs) = Inr a" and "qs \<noteq> []"
  have total: "foldl float_add x (map Fin qs) \<noteq> NaN" if "x \<noteq> NaN" for x
    using that by (induction qs arbitrary: x) (auto simp: float_add_def split: pyfloat.splits)
  have n: "float_of_int (int (length qs)) = Inr y \<Longrightarrow> y = Fin (fl (of_nat (length qs)))" for y
    by (auto simp: float_of_int_def split: if_splits)
  have pos: "0 < fl (of_nat (length qs))"
  proof (rule fl_pos)
    have "pow2 (- 1022) \<le> pow2 0" by (rule pow2_mono) simp
    also have "\<dots> \<le> of_nat (length qs)" using \<open>qs \<noteq> []\<close> by (simp add: pow2_def Suc_le_eq)
    finally show "pow2 (- 1022) \<le> of_nat (length qs)" .
  qed
  show "a \<noteq> NaN"
    using avg total [of "Fin 0"] n pos unfolding average_def
    by (auto simp: float_div_def inf_of_sign_def float_sign_def pynum_def
        split: pyfloat.splits sum.splits if_splits)
qed

lemma watts_check_clean:
  assumes "watts_check metrics (map Fin qs) = Inr ([], u)" and "qs \<noteq> []"
    and "as_number (get metrics ''average_watts'') = Inr (Some (Fin c))"
  shows "(\<forall>q \<in> set qs. 0 < q) \<and> (\<exists>a. average (map Fin qs) = Inr a \<and> agrees (5 / 100) a c)"
proof -
  obtain a where a: "average (map Fin qs) = Inr a"
    "agree_within (5 / 100) a (Fin c) ''computed_metrics.average_watts must match power_trace average within 5%'' = Inr ([], ())"
    using assms by (auto simp: watts_check_def clean_simps)
  have "\<forall>q \<in> set qs. 0 < q"
    using assms(1) by (auto simp: watts_check_def clean_simps list_ex_iff not_le)
  then show ?thesis
    using a agree_within_clean [OF a(2)] average_not_NaN [OF a(1) assms(2)] by blast
qed

lemma efficiency_check_clean:
  assumes "efficiency_check metrics = Inr ([], u)"
    and "as_number (get metrics ''sustained_int8_tops'') = Inr (Some (Fin tops))"
    and "as_number (get metrics ''average_watts'') = Inr (Some (Fin watts))"
    and "as_number (get metrics ''sustained_tops_per_w'') = Inr (Some (Fin per_w))"
    and "to_float (tops / watts) = Fin expected"
  shows "agrees (2 / 100) (Fin per_w) expected"
proof -
  have "watts \<noteq> 0"
    using assms(1-4) by (auto simp: efficiency_check_def clean_simps float_div_def)
  then show ?thesis
    using assms by (auto simp: efficiency_check_def clean_simps float_div_def intro: agree_within_clean)
qed

section \<open>Artifacts\<close>

definition artifact_path :: "ppath \<Rightarrow> pyv \<Rightarrow> string \<Rightarrow> ppath" where
  "artifact_path repo manifest name = path_join repo (path_of (as_str (get (artifact_entry manifest name) ''path'')))"

text \<open>A file inside the repository with the recorded digest.\<close>

definition artifact_bound :: "world \<Rightarrow> ppath \<Rightarrow> pyv \<Rightarrow> string \<Rightarrow> bool" where
  "artifact_bound w repo manifest name \<longleftrightarrow>
     (let p = path_of (as_str (get (artifact_entry manifest name) ''path'')) in \<not> pabs p \<and> ''..'' \<notin> set (pparts p))
     \<and> (\<exists>data. read_bytes w (artifact_path repo manifest name) = Inr data
          \<and> get (artifact_entry manifest name) ''sha256'' = PStr (wd_sha256 w data))
     \<and> is_digest (get (artifact_entry manifest name) ''sha256'')"

lemma validate_repo_path_clean:
  "validate_repo_path repo v field = Inr ([], found) \<longleftrightarrow>
     nonempty_str v \<and> \<not> pabs (path_of (as_str v)) \<and> ''..'' \<notin> set (pparts (path_of (as_str v)))
     \<and> found = Some (path_join repo (path_of (as_str v)))"
  by (auto simp: validate_repo_path_def Let_def wret_def)

interpretation artifact: sound_check "validate_artifact w repo manifest True" "artifact_bound w repo manifest"
  for w repo manifest
proof
  fix name assume "validate_artifact w repo manifest True name = Inr ([], ())"
  then show "artifact_bound w repo manifest name"
    by (auto simp: validate_artifact_def artifact_bound_def artifact_path_def Let_def clean_simps
        validate_repo_path_clean sha256_file_def is_digest_def split: if_splits elim: is_D)
qed

lemma missing_keys_Nil: "missing_keys names v = [] \<longleftrightarrow> (\<forall>k \<in> set names. has_key v k)"
  by (auto simp: missing_keys_def filter_empty_conv)

lemma artifacts_bound:
  assumes "artifacts_check w repo manifest True = Inr ([], u)" and "name \<in> set REQUIRED_ARTIFACTS"
  shows "artifact_bound w repo manifest name"
proof -
  have "weach (validate_artifact w repo manifest True)
      (filter (has_key (as_mapping (get manifest ''artifacts''))) (sort REQUIRED_ARTIFACTS)) = Inr ([], ())"
    and "missing_keys REQUIRED_ARTIFACTS (as_mapping (get manifest ''artifacts'')) = []"
    using assms(1) by (auto simp: artifacts_check_def Let_def clean_simps)
  then show ?thesis using artifact.each_sound assms(2) by (fastforce simp: missing_keys_Nil)
qed

text \<open>With every artifact bound, the contents are examined at the paths of the manifest.\<close>

lemma contents_examined:
  assumes "validate_measured_artifact_contents w repo manifest = Inr ([], u)"
    and "\<forall>name \<in> set REQUIRED_ARTIFACTS. artifact_bound w repo manifest name"
  shows "\<exists>duration. workload_duration manifest = Inr duration
     \<and> measured_contents w repo (as_mapping (get manifest ''computed_metrics'')) duration
          (map (\<lambda>name. (name, artifact_path repo manifest name)) REQUIRED_ARTIFACTS) = Inr ([], ())"
proof -
  let ?found = "map (\<lambda>name. Some (artifact_path repo manifest name)) REQUIRED_ARTIFACTS"
  let ?paths = "\<lambda>found. concat (map (\<lambda>(name, x). case x of None \<Rightarrow> [] | Some p \<Rightarrow> [(name, p)]) (zip REQUIRED_ARTIFACTS found))"
  obtain duration found where d: "workload_duration manifest = Inr duration"
    and found: "list_all2 (\<lambda>name r. validate_repo_path repo (get (artifact_entry manifest name) ''path'') (''artifacts.'' @ name)
        = Inr ([], r)) REQUIRED_ARTIFACTS found"
    and rest: "(if set (map fst (?paths found)) \<noteq> set REQUIRED_ARTIFACTS then wret ()
       else if list_ex (\<lambda>(_, p). \<not> is_file w p) (?paths found) then wret ()
       else measured_contents w repo (as_mapping (get manifest ''computed_metrics'')) duration (?paths found)) = Inr ([], u)"
    using assms(1) unfolding validate_measured_artifact_contents_def Let_def clean_simps by blast
  have "found = ?found"
    using found by (auto simp: list_all2_conv_all_nth validate_repo_path_clean artifact_path_def intro!: nth_equalityI)
  moreover have "is_file w (artifact_path repo manifest name)" if "name \<in> set REQUIRED_ARTIFACTS" for name
    using assms(2) that by (fastforce simp: artifact_bound_def read_bytes_def is_file_def split: option.splits)
  moreover have "?paths ?found = map (\<lambda>name. (name, artifact_path repo manifest name)) REQUIRED_ARTIFACTS"
    by (simp add: REQUIRED_ARTIFACTS_def)
  ultimately have "measured_contents w repo (as_mapping (get manifest ''computed_metrics'')) duration
      (map (\<lambda>name. (name, artifact_path repo manifest name)) REQUIRED_ARTIFACTS) = Inr ([], u)"
    using rest by (auto simp: list_ex_iff comp_def)
  with d show ?thesis by auto
qed

section \<open>Complete evidence\<close>

text \<open>A trace whose time stamps cover a duration, with the values of one of its columns.\<close>

definition covering_trace :: "world \<Rightarrow> ppath \<Rightarrow> rat \<Rightarrow> string \<Rightarrow> rat list \<Rightarrow> bool" where
  "covering_trace w p d column qs \<longleftrightarrow>
     trace_values w p column qs
     \<and> (\<exists>ts. trace_values w p ''timestamp_s'' ts \<and> (\<forall>t \<in> set ts. 0 \<le> t)
          \<and> float_le (Fin d) (to_float (Max (set ts) - Min (set ts))))"

lemma covering_traceI:
  assumes "load_csv_rows w repo p required = Inr ([], rows)"
    and "trace_check repo (Fin d) label rows p = Inr ([], u)" and "d \<noteq> 0"
    and "values_from_rows repo rows p column = Inr ([], xs)"
  shows "\<exists>qs. xs = map Fin qs \<and> qs \<noteq> [] \<and> covering_trace w p d column qs"
proof -
  obtain qs where "xs = map Fin qs" "trace_values w p column qs"
    using loaded_column [OF assms(1,4)] by blast
  moreover have "\<exists>ts. trace_values w p ''timestamp_s'' ts \<and> (\<forall>t \<in> set ts. 0 \<le> t)
      \<and> float_le (Fin d) (to_float (Max (set ts) - Min (set ts)))"
    using trace_check_clean [OF assms(2,1)] assms(3) by (auto simp: float_lt_def)
  ultimately show ?thesis unfolding covering_trace_def trace_values_def by blast
qed

definition metric_is :: "pyv \<Rightarrow> string \<Rightarrow> rat \<Rightarrow> bool" where
  "metric_is manifest key q \<longleftrightarrow>
     as_number (get (as_mapping (get manifest ''computed_metrics'')) key) = Inr (Some (Fin q))"

lemma contents_sound:
  assumes "measured_contents w repo (as_mapping (get manifest ''computed_metrics'')) (Fin d) paths = Inr ([], u)"
    and "d \<noteq> 0" and claimed: "\<forall>key \<in> set POSITIVE_METRICS. metric_is manifest key (m key)"
    and p: "\<And>name. name \<in> set REQUIRED_ARTIFACTS \<Longrightarrow> p name = path_at repo paths name"
  shows "(\<exists>watts a. covering_trace w (p ''power_trace'') d ''watts'' watts \<and> (\<forall>q \<in> set watts. 0 < q)
            \<and> average (map Fin watts) = Inr a \<and> agrees (5 / 100) a (m ''average_watts''))
     \<and> (\<exists>die_c. covering_trace w (p ''thermal_trace'') d ''die_c'' die_c
            \<and> \<not> float_lt (Fin (1 / 2)) (float_abs (to_float (Max (set die_c) - m ''max_die_c''))))
     \<and> (\<exists>hz. covering_trace w (p ''frequency_trace'') d ''frequency_hz'' hz \<and> (\<forall>q \<in> set hz. 0 < q))
     \<and> (\<forall>q. to_float (m ''sustained_int8_tops'' / m ''average_watts'') = Fin q \<longrightarrow>
            agrees (2 / 100) (Fin (m ''sustained_tops_per_w'')) q)
     \<and> (\<exists>s. read_text w (p ''workload_transcript'') = Inr s \<and> (\<forall>x \<in> set TRANSCRIPT_MARKERS. contains x s))"
proof -
  have claims: "metric_is manifest ''average_watts'' (m ''average_watts'')" "metric_is manifest ''max_die_c'' (m ''max_die_c'')"
    "metric_is manifest ''sustained_int8_tops'' (m ''sustained_int8_tops'')"
    "metric_is manifest ''sustained_tops_per_w'' (m ''sustained_tops_per_w'')"
    using claimed by (simp_all add: POSITIVE_METRICS_def)
  note claims = claims [unfolded metric_is_def]
  have ps: "path_at repo paths ''power_trace'' = p ''power_trace''" "path_at repo paths ''thermal_trace'' = p ''thermal_trace''"
    "path_at repo paths ''frequency_trace'' = p ''frequency_trace''"
    "path_at repo paths ''workload_transcript'' = p ''workload_transcript''"
    using p by (simp_all add: REQUIRED_ARTIFACTS_def)
  let ?M = "as_mapping (get manifest ''computed_metrics'')"
  obtain pr tr fr ws ds fs where rows:
      "load_csv_rows w repo (p ''power_trace'') [''timestamp_s'', ''watts''] = Inr ([], pr)"
      "load_csv_rows w repo (p ''thermal_trace'') [''timestamp_s'', ''die_c''] = Inr ([], tr)"
      "load_csv_rows w repo (p ''frequency_trace'') [''timestamp_s'', ''frequency_hz''] = Inr ([], fr)"
    and traces: "trace_check repo (Fin d) ''power_trace'' pr (p ''power_trace'') = Inr ([], ())"
      "trace_check repo (Fin d) ''thermal_trace'' tr (p ''thermal_trace'') = Inr ([], ())"
      "trace_check repo (Fin d) ''frequency_trace'' fr (p ''frequency_trace'') = Inr ([], ())"
    and columns: "values_from_rows repo pr (p ''power_trace'') ''watts'' = Inr ([], ws)"
      "values_from_rows repo tr (p ''thermal_trace'') ''die_c'' = Inr ([], ds)"
      "values_from_rows repo fr (p ''frequency_trace'') ''frequency_hz'' = Inr ([], fs)"
    and checks: "watts_check ?M ws = Inr ([], ())" "die_check ?M ds = Inr ([], ())"
      "efficiency_check ?M = Inr ([], ())" "transcript_check w (p ''workload_transcript'') = Inr ([], ())"
    and positive: "\<not> list_ex (\<lambda>v. float_le v (Fin 0)) fs"
    using assms(1) unfolding measured_contents_def Let_def clean_simps ps
    by (clarsimp simp: clean_simps)
  note power = covering_traceI [OF rows(1) traces(1) assms(2) columns(1)]
    and thermal = covering_traceI [OF rows(2) traces(2) assms(2) columns(2)]
    and frequency = covering_traceI [OF rows(3) traces(3) assms(2) columns(3)]
  have "\<exists>watts a. covering_trace w (p ''power_trace'') d ''watts'' watts \<and> (\<forall>q \<in> set watts. 0 < q)
      \<and> average (map Fin watts) = Inr a \<and> agrees (5 / 100) a (m ''average_watts'')"
  proof -
    obtain qs where qs: "ws = map Fin qs" "qs \<noteq> []" "covering_trace w (p ''power_trace'') d ''watts'' qs"
      using power by blast
    have "(\<forall>q \<in> set qs. 0 < q) \<and> (\<exists>a. average (map Fin qs) = Inr a \<and> agrees (5 / 100) a (m ''average_watts''))"
      by (rule watts_check_clean [OF _ qs(2)]) (use checks(1) claims(1) qs(1) in simp_all)
    with qs(3) show ?thesis by blast
  qed
  moreover have "\<exists>die_c. covering_trace w (p ''thermal_trace'') d ''die_c'' die_c
      \<and> \<not> float_lt (Fin (1 / 2)) (float_abs (to_float (Max (set die_c) - m ''max_die_c'')))"
  proof -
    obtain q qs where qs: "ds = map Fin (q # qs)" "covering_trace w (p ''thermal_trace'') d ''die_c'' (q # qs)"
      using thermal by (auto simp: neq_Nil_conv)
    then have "\<not> float_lt (Fin (1 / 2)) (float_abs (to_float (Max (set (q # qs)) - m ''max_die_c'')))"
      using checks(2) claims(2) by (simp add: die_check_def clean_simps fmax_Fin del: set_simps)
    with qs(2) show ?thesis by blast
  qed
  moreover have "\<exists>hz. covering_trace w (p ''frequency_trace'') d ''frequency_hz'' hz \<and> (\<forall>q \<in> set hz. 0 < q)"
    using frequency positive by (fastforce simp: list_ex_iff not_le)
  moreover have "\<forall>q. to_float (m ''sustained_int8_tops'' / m ''average_watts'') = Fin q \<longrightarrow>
      agrees (2 / 100) (Fin (m ''sustained_tops_per_w'')) q"
    by (intro allI impI, rule efficiency_check_clean [OF checks(3)]) (rule claims)+
  moreover have "\<exists>s. read_text w (p ''workload_transcript'') = Inr s \<and> (\<forall>x \<in> set TRANSCRIPT_MARKERS. contains x s)"
    using checks(4) by (auto simp: transcript_check_def clean_simps)
  ultimately show ?thesis by blast
qed

lemma path_at_artifact:
  "name \<in> set REQUIRED_ARTIFACTS \<Longrightarrow>
   path_at repo (map (\<lambda>name. (name, artifact_path repo manifest name)) REQUIRED_ARTIFACTS) name = artifact_path repo manifest name"
  by (auto simp: path_at_def REQUIRED_ARTIFACTS_def)

lemma metrics_positive:
  assumes "metrics_check (as_mapping (get manifest ''computed_metrics'')) True = Inr ([], u)"
    and "metric_is manifest key q" and "key \<in> set POSITIVE_METRICS"
  shows "0 < q"
  using assms by (fastforce simp: metrics_check_def clean_simps metric_is_def not_le)

text \<open>C22: Exit code 0 without the permission for blocked manifests means that the manifest is complete
measured evidence: five files inside the repository with their recorded digests; traces of
power, temperature and frequency that each span the workload's duration of at least half an
hour; positive claimed metrics that agree with the traces and with each other within the
stated tolerances; a transcript with all markers; and no release blocker. The claimed numbers
must be finite for this.\<close>
theorem complete_evidence_sound:
  assumes "power_main w repo arg False = Inr (0, printed)"
    and "json_file w (resolve repo arg) = Inr manifest"
    and "as_number (get (as_mapping (get manifest ''workload'')) ''duration_seconds'') = Inr (Some (Fin d))"
    and "\<forall>key \<in> set POSITIVE_METRICS. metric_is manifest key (m key)"
  shows "get manifest ''status'' = PStr ''complete_measured_evidence''
     \<and> list_or_empty (get manifest ''release_blockers'') = [] \<and> 1800 \<le> d
     \<and> (\<forall>name \<in> set REQUIRED_ARTIFACTS. artifact_bound w repo manifest name)
     \<and> (\<forall>key \<in> set POSITIVE_METRICS. 0 < m key)
     \<and> (\<exists>watts a. covering_trace w (artifact_path repo manifest ''power_trace'') d ''watts'' watts
          \<and> (\<forall>q \<in> set watts. 0 < q) \<and> average (map Fin watts) = Inr a \<and> agrees (5 / 100) a (m ''average_watts''))
     \<and> (\<exists>die_c. covering_trace w (artifact_path repo manifest ''thermal_trace'') d ''die_c'' die_c
          \<and> \<not> float_lt (Fin (1 / 2)) (float_abs (to_float (Max (set die_c) - m ''max_die_c''))))
     \<and> (\<exists>hz. covering_trace w (artifact_path repo manifest ''frequency_trace'') d ''frequency_hz'' hz
          \<and> (\<forall>q \<in> set hz. 0 < q))
     \<and> (\<forall>q. to_float (m ''sustained_int8_tops'' / m ''average_watts'') = Fin q \<longrightarrow>
          agrees (2 / 100) (Fin (m ''sustained_tops_per_w'')) q)
     \<and> (\<exists>s. read_text w (artifact_path repo manifest ''workload_transcript'') = Inr s
          \<and> (\<forall>x \<in> set TRANSCRIPT_MARKERS. contains x s))"
proof -
  have complete: "get manifest ''status'' = PStr ''complete_measured_evidence''"
    and clean: "validate_manifest w repo manifest True = Inr []"
    using assms(1,2) by (auto simp: power_main_def load_manifest_def Let_def split: if_splits)
  have parts: "workload_check (as_mapping (get manifest ''workload'')) = Inr ([], ())"
    "artifacts_check w repo manifest True = Inr ([], ())"
    "metrics_check (as_mapping (get manifest ''computed_metrics'')) True = Inr ([], ())"
    "blockers_check manifest = Inr ([], ())"
    using clean by (auto simp: validate_manifest_def clean_simps)
  have d: "1800 \<le> d" using parts(1) assms(3) by (auto simp: workload_check_def clean_simps not_less)
  have bound: "\<forall>name \<in> set REQUIRED_ARTIFACTS. artifact_bound w repo manifest name"
    using artifacts_bound [OF parts(2)] by blast
  have dur: "workload_duration manifest = Inr (Fin d)" using assms(3) by (simp add: workload_duration_def)
  have contents: "measured_contents w repo (as_mapping (get manifest ''computed_metrics'')) (Fin d)
      (map (\<lambda>name. (name, artifact_path repo manifest name)) REQUIRED_ARTIFACTS) = Inr ([], ())"
  proof -
    have "validate_measured_artifact_contents w repo manifest = Inr ([], ())"
      using parts(2) by (simp add: artifacts_check_def Let_def clean_simps)
    from contents_examined [OF this bound] show ?thesis using dur by simp
  qed
  have "list_or_empty (get manifest ''release_blockers'') = []"
    using parts(4) complete by (auto simp: blockers_check_def Let_def clean_simps)
  moreover have "\<forall>key \<in> set POSITIVE_METRICS. 0 < m key"
    using metrics_positive [OF parts(3)] assms(4) by blast
  moreover have "d \<noteq> 0" using d by auto
  ultimately show ?thesis
    using complete d bound contents_sound [OF contents _ assms(4) path_at_artifact [symmetric]] by simp
qed

section \<open>A concrete manifest\<close>

definition demo_repo :: ppath where "demo_repo = path_of ''/r''"

definition text_lines :: "string list \<Rightarrow> string" where
  "text_lines ls = concat (map (\<lambda>l. l @ [CHR 0x0A]) ls)"

definition demo_evidence_file :: "ppath \<Rightarrow> string option" where
  "demo_evidence_file p = map_of
     [(path_of ''/r/m'', ''M''), (path_of ''/r/p'', text_lines [''timestamp_s,watts'', ''0,2'', ''1800,2'']),
      (path_of ''/r/t'', text_lines [''timestamp_s,die_c'', ''0,40'', ''1800,50'']),
      (path_of ''/r/f'', text_lines [''timestamp_s,frequency_hz'', ''0,9'', ''1800,9'']),
      (path_of ''/r/w'', text_lines TRANSCRIPT_MARKERS), (path_of ''/r/c'', ''C'')] p"

definition demo_digest :: string where "demo_digest = replicate 64 (CHR ''a'')"

definition demo_manifest :: pyv where
  "demo_manifest =
     (let entry = (\<lambda>p. PDict [(''path'', PStr p), (''sha256'', PStr demo_digest), (''sample_count'', PInt 2)]) in
      PDict [(''schema'', PStr SCHEMA), (''status'', PStr ''complete_measured_evidence''), (''claim_boundary'', PNone),
        (''target'', PDict [(''substrate'', PStr ''complete_phone'')]),
        (''workload'', PDict [(''duration_seconds'', PInt 1800), (''commands'', PList [PNone])]),
        (''measurement_environment'', PDict [(''ambient_c'', PInt 25), (''cooling'', PStr ''c''), (''enclosure'', PStr ''e''),
           (''operator'', PStr ''o'')]),
        (''instrumentation'', PDict ((''capture_statuses'', PDict (map (\<lambda>k. (k, PStr ''complete'')) REQUIRED_CAPTURE_STATUSES))
           # map (\<lambda>k. (k, PList [PNone])) INSTRUMENTS)),
        (''artifacts'', PDict (zip REQUIRED_ARTIFACTS (map entry [''p'', ''t'', ''f'', ''w'', ''c'']))),
        (''computed_metrics'', PDict [(''average_watts'', PInt 2), (''max_die_c'', PInt 50), (''sustained_int8_tops'', PInt 4),
           (''sustained_tops_per_w'', PInt 2), (''throttle_state'', PStr ''none'')]),
        (''release_blockers'', PList [])])"

definition demo_evidence_world :: world where
  "demo_evidence_world = \<lparr>wd_file = demo_evidence_file, wd_readable = (\<lambda>_. True), wd_is_dir = (\<lambda>_. False),
     wd_executable = (\<lambda>_. False), wd_resolve = id, wd_env_path = [], wd_sha256 = (\<lambda>_. demo_digest),
     wd_json = (\<lambda>s. if s = ''M'' then Some demo_manifest
        else Some (PDict ((''status'', PStr ''complete'') # map (\<lambda>k. (k, PList [PNone])) INSTRUMENTS))),
     wd_yaml = (\<lambda>_. None), wd_list = (\<lambda>_. []), wd_run = (\<lambda>_ _ _. OsFailure [])\<rparr>"

text \<open>The gate is evaluated part by part.\<close>

definition demo_trace :: "string \<Rightarrow> string list \<Rightarrow> csv_row list" where
  "demo_trace column vs = map (\<lambda>(t, v). ([(''timestamp_s'', PStr t), (column, PStr v)], [])) (zip [''0'', ''1800''] vs)"

lemma demo_traces:
  "load_csv_rows demo_evidence_world demo_repo (path_of ''/r/p'') [''timestamp_s'', ''watts''] = Inr ([], demo_trace ''watts'' [''2'', ''2''])"
  "load_csv_rows demo_evidence_world demo_repo (path_of ''/r/t'') [''timestamp_s'', ''die_c''] = Inr ([], demo_trace ''die_c'' [''40'', ''50''])"
  "load_csv_rows demo_evidence_world demo_repo (path_of ''/r/f'') [''timestamp_s'', ''frequency_hz''] = Inr ([], demo_trace ''frequency_hz'' [''9'', ''9''])"
  by code_simp+

lemma demo_trace_checks:
  "trace_check demo_repo (Fin 1800) ''power_trace'' (demo_trace ''watts'' [''2'', ''2'']) (path_of ''/r/p'') = Inr ([], ())"
  "trace_check demo_repo (Fin 1800) ''thermal_trace'' (demo_trace ''die_c'' [''40'', ''50'']) (path_of ''/r/t'') = Inr ([], ())"
  "trace_check demo_repo (Fin 1800) ''frequency_trace'' (demo_trace ''frequency_hz'' [''9'', ''9'']) (path_of ''/r/f'') = Inr ([], ())"
  "values_from_rows demo_repo (demo_trace ''watts'' [''2'', ''2'']) (path_of ''/r/p'') ''watts'' = Inr ([], [Fin 2, Fin 2])"
  "values_from_rows demo_repo (demo_trace ''die_c'' [''40'', ''50'']) (path_of ''/r/t'') ''die_c'' = Inr ([], [Fin 40, Fin 50])"
  "values_from_rows demo_repo (demo_trace ''frequency_hz'' [''9'', ''9'']) (path_of ''/r/f'') ''frequency_hz'' = Inr ([], [Fin 9, Fin 9])"
  by code_simp+

lemma demo_value_checks:
  "watts_check (as_mapping (get demo_manifest ''computed_metrics'')) [Fin 2, Fin 2] = Inr ([], ())"
  "die_check (as_mapping (get demo_manifest ''computed_metrics'')) [Fin 40, Fin 50] = Inr ([], ())"
  "efficiency_check (as_mapping (get demo_manifest ''computed_metrics'')) = Inr ([], ())"
  "transcript_check demo_evidence_world (path_of ''/r/w'') = Inr ([], ())"
  "calibration_check demo_evidence_world demo_repo (path_of ''/r/c'') = Inr ([], ())"
  by code_simp+

definition demo_paths :: "(string \<times> ppath) list" where
  "demo_paths = zip REQUIRED_ARTIFACTS (map path_of [''/r/p'', ''/r/t'', ''/r/f'', ''/r/w'', ''/r/c''])"

lemma demo_path_at:
  "path_at demo_repo demo_paths ''power_trace'' = path_of ''/r/p''" "path_at demo_repo demo_paths ''thermal_trace'' = path_of ''/r/t''"
  "path_at demo_repo demo_paths ''frequency_trace'' = path_of ''/r/f''"
  "path_at demo_repo demo_paths ''workload_transcript'' = path_of ''/r/w''"
  "path_at demo_repo demo_paths ''calibration_record'' = path_of ''/r/c''"
  by code_simp+

lemma demo_contents:
  "measured_contents demo_evidence_world demo_repo (as_mapping (get demo_manifest ''computed_metrics'')) (Fin 1800) demo_paths = Inr ([], ())"
  unfolding measured_contents_def Let_def demo_path_at clean_simps
  by (simp add: demo_traces demo_trace_checks demo_value_checks clean_simps)

lemma demo_sections:
  "header_check demo_manifest True = Inr ([], ())"
  "workload_check (as_mapping (get demo_manifest ''workload'')) = Inr ([], ())"
  "environment_check (as_mapping (get demo_manifest ''measurement_environment'')) = Inr ([], ())"
  "instrumentation_check (as_mapping (get demo_manifest ''instrumentation'')) True = Inr ([], ())"
  "metrics_check (as_mapping (get demo_manifest ''computed_metrics'')) True = Inr ([], ())"
  "blockers_check demo_manifest = Inr ([], ())"
  "missing_keys REQUIRED_ARTIFACTS (as_mapping (get demo_manifest ''artifacts'')) = []"
  "list_all (\<lambda>name. validate_artifact demo_evidence_world demo_repo demo_manifest True name = Inr ([], ())) REQUIRED_ARTIFACTS"
  by code_simp+

lemma demo_found:
  "workload_duration demo_manifest = Inr (Fin 1800)"
  "wmap (\<lambda>name. validate_repo_path demo_repo (get (artifact_entry demo_manifest name) ''path'') (''artifacts.'' @ name))
     REQUIRED_ARTIFACTS = Inr ([], map (\<lambda>(_, p). Some p) demo_paths)"
  "concat (map (\<lambda>(name, x). case x of None \<Rightarrow> [] | Some p \<Rightarrow> [(name, p)])
     (zip REQUIRED_ARTIFACTS (map (\<lambda>(_, p). Some p) demo_paths))) = demo_paths"
  "map fst demo_paths = REQUIRED_ARTIFACTS" "list_ex (\<lambda>(_, p). \<not> is_file demo_evidence_world p) demo_paths = False"
  by code_simp+

lemma demo_artifacts: "artifacts_check demo_evidence_world demo_repo demo_manifest True = Inr ([], ())"
proof -
  have "validate_measured_artifact_contents demo_evidence_world demo_repo demo_manifest = Inr ([], ())"
    unfolding validate_measured_artifact_contents_def Let_def demo_found wlift_simps wbind_clean_value
    by (simp add: demo_contents)
  then show ?thesis
    using demo_sections(7,8) by (auto simp: artifacts_check_def Let_def clean_simps list_all_iff)
qed

lemma demo_evidence_accepted:
  "power_main demo_evidence_world demo_repo (path_of ''m'') False
     = Inr (0, [''PASS: '' @ display_path demo_repo (resolve demo_repo (path_of ''m'')) @ '' contains complete measured sustained evidence''])"
proof -
  have "validate_manifest demo_evidence_world demo_repo demo_manifest True = Inr []"
    unfolding validate_manifest_def clean_simps using demo_sections demo_artifacts by simp
  moreover have "load_manifest demo_evidence_world (resolve demo_repo (path_of ''m'')) = Inr demo_manifest" by code_simp
  moreover have "py_eq (get demo_manifest ''status'') (PStr ''complete_measured_evidence'')" by code_simp
  ultimately show ?thesis by (simp add: power_main_def Let_def)
qed

lemma demo_evidence_numbers:
  "json_file demo_evidence_world (resolve demo_repo (path_of ''m'')) = Inr demo_manifest"
  "as_number (get (as_mapping (get demo_manifest ''workload'')) ''duration_seconds'') = Inr (Some (Fin 1800))"
  "\<forall>key \<in> set POSITIVE_METRICS.
     metric_is demo_manifest key (case map_of [(''average_watts'', 2), (''max_die_c'', 50), (''sustained_int8_tops'', 4),
       (''sustained_tops_per_w'', 2)] key of Some q \<Rightarrow> q | None \<Rightarrow> 0)"
  by code_simp+

theorem complete_evidence_sound_witness:
  "\<exists>watts a. covering_trace demo_evidence_world (artifact_path demo_repo demo_manifest ''power_trace'') 1800 ''watts'' watts
     \<and> (\<forall>q \<in> set watts. 0 < q) \<and> average (map Fin watts) = Inr a \<and> agrees (5 / 100) a 2"
  using complete_evidence_sound [OF demo_evidence_accepted demo_evidence_numbers] by simp

section \<open>Claims that are not numbers\<close>

text \<open>C23: A claimed metric that is NaN disables every comparison with the traces: with all four claimed
metrics NaN, any positive power trace and any temperature trace pass, and the efficiency is not
checked; with NaN as the workload's duration any trace with non-negative time stamps is long
enough and the half-hour minimum is met.\<close>
theorem nan_claims_unchecked:
  assumes "\<forall>key \<in> set POSITIVE_METRICS. as_number (get metrics key) = Inr (Some NaN)"
    and "as_number (get workload ''duration_seconds'') = Inr (Some NaN)"
    and "list_or_empty (get workload ''commands'') \<noteq> []"
    and "qs \<noteq> []" and "\<forall>q \<in> set qs. 0 < q" and "average (map Fin qs) = Inr a"
    and "values_from_rows repo rows p ''timestamp_s'' = Inr ([], map Fin ts)" and "\<forall>t \<in> set ts. 0 \<le> t"
  shows "watts_check metrics (map Fin qs) = Inr ([], ()) \<and> die_check metrics (map Fin ds) = Inr ([], ())
     \<and> efficiency_check metrics = Inr ([], ())
     \<and> (in_names (get metrics ''throttle_state'') [''none'', ''observed'', ''thermal_shutdown''] = Inr True \<longrightarrow>
          metrics_check metrics True = Inr ([], ()))
     \<and> workload_check workload = Inr ([], ()) \<and> trace_check repo NaN label rows p = Inr ([], ())"
proof -
  have nan: "as_number (get metrics key) = Inr (Some NaN)" if "key \<in> set POSITIVE_METRICS" for key
    using assms(1) that by blast
  have names: "as_number (get metrics ''average_watts'') = Inr (Some NaN)" "as_number (get metrics ''max_die_c'') = Inr (Some NaN)"
    "as_number (get metrics ''sustained_int8_tops'') = Inr (Some NaN)" "as_number (get metrics ''sustained_tops_per_w'') = Inr (Some NaN)"
    by (rule nan, simp add: POSITIVE_METRICS_def)+
  have cmp: "\<not> float_lt x NaN" "\<not> float_lt NaN x" "\<not> float_le NaN x" "float_abs NaN = NaN" "float_sub x NaN = NaN" for x
    by (auto simp: float_lt_def float_le_def float_abs_def float_sub_def float_neg_def float_add_def split: pyfloat.splits)
  have agree: "agree_within tolerance x NaN msg = Inr ([], ())" for tolerance x msg
    by (simp add: agree_within_def relative_error_def fmax_def cmp float_div_def report_if_def err_if_def)
  have "watts_check metrics (map Fin qs) = Inr ([], ())"
    using assms(4-6) by (auto simp: watts_check_def clean_simps names agree list_ex_iff not_le)
  moreover have "die_check metrics (map Fin ds) = Inr ([], ())"
    by (auto simp: die_check_def clean_simps names cmp split: list.splits)
  moreover have "efficiency_check metrics = Inr ([], ())"
    by (simp add: efficiency_check_def names float_div_def agree)
  moreover have "metrics_check metrics True = Inr ([], ())"
    if "in_names (get metrics ''throttle_state'') [''none'', ''observed'', ''thermal_shutdown''] = Inr True"
    using that by (simp add: metrics_check_def clean_simps nan cmp)
  moreover have "workload_check workload = Inr ([], ())"
    using assms(2,3) by (simp add: workload_check_def clean_simps cmp)
  moreover have "trace_check repo NaN label rows p = Inr ([], ())"
  proof (cases ts)
    case (Cons t more)
    moreover have "0 \<le> Min (insert t (set more))" using assms(8) Cons by simp
    ultimately show ?thesis
      using assms(7) by (simp add: trace_check_def clean_simps cmp fmin_Fin not_less del: Min_ge_iff)
  qed (use assms(7) in \<open>simp add: trace_check_def wret_def\<close>)
  ultimately show ?thesis by blast
qed

text \<open>The average is a divisor: claimed as zero, it makes the gate raise instead of report.\<close>

lemma zero_average_watts_raises:
  assumes "as_number (get metrics ''sustained_int8_tops'') = Inr (Some x)"
    and "as_number (get metrics ''average_watts'') = Inr (Some (Fin 0))"
    and "as_number (get metrics ''sustained_tops_per_w'') = Inr (Some y)"
  shows "efficiency_check metrics = Inl PyZeroDivisionError"
  by (simp add: efficiency_check_def assms float_div_def)

definition nan_metrics :: pyv where
  "nan_metrics = PDict (map (\<lambda>k. (k, PFloat NaN)) POSITIVE_METRICS)"

theorem nan_claims_unchecked_witness:
  "watts_check nan_metrics (map Fin [7]) = Inr ([], ()) \<and> die_check nan_metrics (map Fin [300]) = Inr ([], ())
     \<and> efficiency_check nan_metrics = Inr ([], ())"
proof -
  have "\<forall>key \<in> set POSITIVE_METRICS. as_number (get nan_metrics key) = Inr (Some NaN)" by code_simp
  moreover have "as_number (get (PDict [(''duration_seconds'', PFloat NaN), (''commands'', PList [PNone])]) ''duration_seconds'') = Inr (Some NaN)"
    "list_or_empty (get (PDict [(''duration_seconds'', PFloat NaN), (''commands'', PList [PNone])]) ''commands'') \<noteq> []"
    by code_simp+
  moreover have "average (map Fin [7]) = Inr (Fin 7)" by code_simp
  moreover have "values_from_rows demo_repo [] demo_repo ''timestamp_s'' = Inr ([], map Fin [])" by code_simp
  ultimately show ?thesis
    using nan_claims_unchecked [of nan_metrics "PDict [(''duration_seconds'', PFloat NaN), (''commands'', PList [PNone])]" "[7]"
        "Fin 7" demo_repo "[]" demo_repo "[]" "[300]"] by simp
qed

end
