(* ===== verification/Pad_Check.thy ===== *)
theory Pad_Check
  imports Py_Csv Py_Regex
begin

text \<open>
  The cross-probe of RTL ports, pinout, bonding table and board netlist,
  \<open>scripts/check_pad_consistency.py\<close>. Sets of names are sets; a parsed row is a dictionary of
  strings; the report is a record with the fields that vary.
\<close>

section \<open>RTL ports\<close>

definition RTL_TOP :: string where "RTL_TOP = ''rtl/top/e1_chip_top.sv''"
definition BONDING_CSV :: string where "BONDING_CSV = ''package/bonding/e1_demo_bonding.csv''"
definition PINOUT_YAML :: string where "PINOUT_YAML = ''package/e1-demo-pinout.yaml''"
definition KICAD_NET_DIR :: string where "KICAD_NET_DIR = ''board/kicad/e1-demo''"

abbreviation white :: rx where "white \<equiv> RStar rx_space"
abbreviation white1 :: rx where "white1 \<equiv> rx_plus rx_space"

definition MODULE_RE :: rx where
  "MODULE_RE = rx_seq [rx_lit ''module'', white1, rx_plus rx_word, white, rx_lit ''('', RGroup 1 (RLazy rx_dot_all),
     rx_lit '');'']"

definition LINE_COMMENT_RE :: rx where "LINE_COMMENT_RE = rx_seq [rx_lit ''//'', RStar rx_any]"

definition BLOCK_COMMENT_RE :: rx where
  "BLOCK_COMMENT_RE = rx_seq [rx_lit ''/*'', RLazy rx_dot_all, rx_lit ''*/'']"

definition WIDTH_RE :: rx where
  "WIDTH_RE = rx_seq [rx_lit ''['', RStar (RSet True [(93, 93)]), rx_lit '']'']"

definition IDENT_RE :: rx where
  "IDENT_RE = rx_seq [RSet False [(65, 90), (97, 122), (95, 95)], RStar rx_word]"

definition DIRECTIONS :: "string list" where "DIRECTIONS = [''input'', ''output'', ''inout'']"

definition RESERVED :: "string list" where
  "RESERVED = [''input'', ''output'', ''inout'', ''logic'', ''wire'', ''reg'']"

text \<open>Splitting at the commas outside brackets.\<close>

definition depth_after :: "char \<Rightarrow> int \<Rightarrow> int" where
  "depth_after c depth =
     (if c \<in> set ''([{'' then depth + 1 else if c \<in> set '')]}'' then depth - 1 else depth)"

fun split_top :: "int \<Rightarrow> string \<Rightarrow> string \<Rightarrow> string list" where
  "split_top depth buf [] = (if buf = [] then [] else [rev buf])"
| "split_top depth buf (c # s) =
     (if c = CHR '','' \<and> depth_after c depth = 0 then rev buf # split_top (depth_after c depth) [] s
      else split_top (depth_after c depth) (c # buf) s)"

definition split_top_level :: "string \<Rightarrow> string list" where
  "split_top_level s = split_top 0 [] s"

text \<open>One entry of the header: \<open>ports[name] = direction\<close>, when it has both.\<close>

definition port_entry :: "string \<Rightarrow> (string \<times> string) list \<Rightarrow> (string \<times> string) list" where
  "port_entry raw ports =
     (let entry = strip raw in
      if entry = [] then ports
      else
        let toks = split_ws [] (rx_sub WIDTH_RE '' '' entry) in
        case find (\<lambda>t. t \<in> set DIRECTIONS) toks of None \<Rightarrow> ports
        | Some direction \<Rightarrow>
            (case find (\<lambda>t. rx_fullmatch IDENT_RE t \<and> t \<notin> set RESERVED) (rev toks) of None \<Rightarrow> ports
             | Some name \<Rightarrow> dset ports name direction))"

definition parse_rtl_ports :: "world \<Rightarrow> ppath \<Rightarrow> (string \<times> string) list py" where
  "parse_rtl_ports w p =
     rbind (read_text w p) (\<lambda>s.
     case rx_search MODULE_RE False s of
       None \<Rightarrow> Inl (PyRuntimeError (''could not find module header in '' @ path_str p))
     | Some (a, b, g) \<Rightarrow>
         let body = rx_sub BLOCK_COMMENT_RE [] (rx_sub LINE_COMMENT_RE [] (group_text s g 1)) in
         Inr (foldl (\<lambda>ports raw. port_entry raw ports) [] (split_top_level body)))"

text \<open>\<open>re.fullmatch(re.escape(name) + "\d+", n)\<close>.\<close>

definition bus_bit :: "string \<Rightarrow> string \<Rightarrow> bool" where
  "bus_bit name n \<longleftrightarrow> rx_fullmatch (rx_seq [rx_lit name, rx_plus rx_digit]) n"

definition port_names :: "string set \<Rightarrow> string \<Rightarrow> string set" where
  "port_names pinout_names name =
     (if name \<in> pinout_names then {name}
      else let matches = Set.filter (bus_bit name) pinout_names in if matches \<noteq> {} then matches else {name})"

definition expand_rtl_buses :: "(string \<times> string) list \<Rightarrow> string set \<Rightarrow> string set" where
  "expand_rtl_buses ports pinout_names =
     foldl (\<lambda>expanded (name, _). expanded \<union> port_names pinout_names name) {} ports"

section \<open>Pinout, bonding table and netlist\<close>

type_synonym text_row = "(string \<times> string) list"

definition PIN_RE :: rx where
  "PIN_RE = rx_seq [rx_lit ''-'', white, rx_lit ''{'', RGroup 1 (RStar rx_any), rx_lit ''}'', white, REol]"

definition pin_piece :: "string \<Rightarrow> text_row \<Rightarrow> text_row" where
  "pin_piece piece entry =
     (if CHR '':'' \<notin> set piece then entry
      else dset entry (strip (takeWhile (\<lambda>c. c \<noteq> CHR '':'') piece)) (strip (drop 1 (dropWhile (\<lambda>c. c \<noteq> CHR '':'') piece))))"

definition pinout_line :: "string \<Rightarrow> bool \<times> text_row list \<Rightarrow> bool \<times> text_row list" where
  "pinout_line raw st =
     (case st of (in_pins, rows) \<Rightarrow>
        let line = strip raw in
        if starts_with ''pins:'' line then (True, rows)
        else if \<not> in_pins \<or> line = [] then (in_pins, rows)
        else case rx_at PIN_RE False line 0 of None \<Rightarrow> (in_pins, rows)
          | Some (a, b, g) \<Rightarrow>
              let entry = foldl (\<lambda>e piece. pin_piece piece e) [] (split_on (CHR '','') (group_text line g 1)) in
              (in_pins, if entry = [] then rows else rows @ [entry]))"

definition parse_pinout_yaml :: "world \<Rightarrow> ppath \<Rightarrow> text_row list py" where
  "parse_pinout_yaml w p =
     rbind (read_text w p) (\<lambda>s. Inr (snd (foldl (\<lambda>st raw. pinout_line raw st) (False, []) (split_lines s))))"

text \<open>A surplus field of a row is a list, which has no \<open>strip\<close>.\<close>

definition stripped_row :: "csv_row \<Rightarrow> text_row py" where
  "stripped_row row =
     (if snd row \<noteq> [] then Inl PyAttributeError
      else Inr (map (\<lambda>(k, v). (k, strip (as_str v))) (fst row)))"

definition parse_bonding_csv :: "world \<Rightarrow> ppath \<Rightarrow> text_row list py" where
  "parse_bonding_csv w p =
     rbind (read_text w p) (\<lambda>s.
     let lines = filter (\<lambda>ln. \<not> starts_with ''#'' (dropWhile is_space ln)) (file_lines s) in
     rbind (csv_header lines) (\<lambda>(names, rest).
     rbind (dict_rows names rest) (\<lambda>rows. mapR stripped_row rows)))"

definition ends_with :: "string \<Rightarrow> string \<Rightarrow> bool" where
  "ends_with suffix s \<longleftrightarrow> starts_with (rev suffix) (rev s)"

definition find_kicad_netlist :: "world \<Rightarrow> ppath \<Rightarrow> ppath option" where
  "find_kicad_netlist w directory =
     (if \<not> wd_is_dir w directory then None
      else case concat (map (\<lambda>ext. sort (filter (ends_with ext) (wd_list w directory))) [''.net'', ''.kicad_net'', ''.netlist'']) of
        [] \<Rightarrow> None | n # _ \<Rightarrow> Some (path_join directory (PPath False [n])))"

definition NET_RE :: rx where
  "NET_RE = rx_seq [rx_lit ''(net'', white1, rx_lit ''(code'', white1, rx_plus rx_digit, rx_lit '')'', white1, rx_lit ''(name'',
     white1, rx_opt (rx_char (CHR 0x22)), RGroup 1 (rx_plus (RSet True [(34, 34), (41, 41)])), rx_opt (rx_char (CHR 0x22)),
     rx_lit '')'']"

definition LEGACY_NET_RE :: rx where
  "LEGACY_NET_RE = rx_seq [RBol, white, rx_lit ''NET'', white1,
     RGroup 1 (rx_plus (RSet True [(9, 13), (28, 32), (133, 133), (160, 160)])), white, REol]"

definition parse_kicad_netlist :: "world \<Rightarrow> ppath \<Rightarrow> string set py" where
  "parse_kicad_netlist w p =
     rbind (read_text w p) (\<lambda>s.
     Inr (set (map (\<lambda>(a, b, g). strip (group_text s g 1)) (rx_finditer NET_RE False s @ rx_finditer LEGACY_NET_RE False s))))"

section \<open>The cross-check\<close>

record pad_report =
  pr_ok :: bool
  pr_errors :: "string list"
  pr_warnings :: "string list"
  pr_kicad :: "string option"
  pr_counts :: "(string \<times> int) list"

definition empty_report :: pad_report where
  "empty_report = \<lparr>pr_ok = True, pr_errors = [], pr_warnings = [], pr_kicad = None, pr_counts = []\<rparr>"

definition err :: "string \<Rightarrow> pad_report \<Rightarrow> pad_report" where
  "err msg r = r\<lparr>pr_ok := False, pr_errors := pr_errors r @ [msg]\<rparr>"

definition err_when :: "bool \<Rightarrow> string \<Rightarrow> pad_report \<Rightarrow> pad_report" where
  "err_when b msg r = (if b then err msg r else r)"

definition warn :: "string \<Rightarrow> pad_report \<Rightarrow> pad_report" where
  "warn msg r = r\<lparr>pr_warnings := pr_warnings r @ [msg]\<rparr>"

text \<open>\<open>s.isdigit()\<close>, which the superscript digits satisfy.\<close>

definition isdigit :: "string \<Rightarrow> bool" where
  "isdigit s \<longleftrightarrow> s \<noteq> [] \<and> list_all (\<lambda>c. is_digit c \<or> (of_char c :: int) \<in> {178, 179, 185}) s"

definition row_or_empty :: "text_row \<Rightarrow> string \<Rightarrow> string" where
  "row_or_empty r k = (case dget r k of Some s \<Rightarrow> s | None \<Rightarrow> [])"

text \<open>\<open>{r[key] for r in rows if r.get(key)}\<close>, and the same as numbers.\<close>

definition column_set :: "string \<Rightarrow> text_row list \<Rightarrow> string set" where
  "column_set key rows = set (filter (\<lambda>s. s \<noteq> []) (map (\<lambda>r. row_or_empty r key) rows))"

definition pin_numbers :: "string \<Rightarrow> text_row list \<Rightarrow> int set py" where
  "pin_numbers key rows =
     rbind (mapR (\<lambda>s. py_int (PStr s)) (filter isdigit (map (\<lambda>r. row_or_empty r key) rows))) (\<lambda>ns. Inr (set ns))"

definition pin_names :: "text_row list \<Rightarrow> string set" where
  "pin_names rows = set (map the (filter (\<lambda>n. n \<noteq> None) (map (\<lambda>r. dget r ''name'') rows)))"

definition NON_SIGNAL :: "string list" where "NON_SIGNAL = [''power'', ''ground'', ''nc'']"

definition is_signal :: "text_row \<Rightarrow> bool" where
  "is_signal r \<longleftrightarrow> (case dget r ''direction'' of Some d \<Rightarrow> d \<notin> set NON_SIGNAL | None \<Rightarrow> True)"

definition signal_names :: "text_row list \<Rightarrow> string set py" where
  "signal_names rows =
     rbind (mapR (\<lambda>r. case dget r ''name'' of Some n \<Rightarrow> Inr n | None \<Rightarrow> Inl (PyKeyError ''name'')) (filter is_signal rows)) (\<lambda>ns.
     Inr (set ns))"

definition names_text :: "string set \<Rightarrow> string" where
  "names_text A = py_repr (PList (map PStr (sorted_list_of_set A)))"

definition opt_text :: "string option \<Rightarrow> string" where
  "opt_text x = (case x of Some s \<Rightarrow> s | None \<Rightarrow> ''None'')"

definition pins_text :: "int set \<Rightarrow> string" where
  "pins_text A = py_repr (PList (map PInt (take 5 (sorted_list_of_set A)))) @ ''...''"

definition name_errors :: "string set \<Rightarrow> string set \<Rightarrow> string set \<Rightarrow> string set \<Rightarrow> pad_report \<Rightarrow> pad_report" where
  "name_errors rtl pinout signals pads r =
     err_when (pinout - pads \<noteq> {}) (''Pinout YAML has names absent from bonding CSV: '' @ names_text (pinout - pads))
     (err_when (pads - pinout \<noteq> {}) (''Bonding CSV has die_pads absent from pinout YAML: '' @ names_text (pads - pinout))
     (err_when (signals - rtl \<noteq> {}) (''Pinout signal pads missing from RTL: '' @ names_text (signals - rtl))
     (err_when (rtl - pinout - {''NC''} \<noteq> {}) (''RTL ports missing from pinout: '' @ names_text (rtl - pinout - {''NC''})) r)))"

definition pin_errors :: "int set \<Rightarrow> int set \<Rightarrow> pad_report \<Rightarrow> pad_report" where
  "pin_errors bonding pinout r =
     err_when (bonding \<noteq> set [1..64])
       (''bonding CSV pins are not contiguous 1..64; got '' @ nat_str (card bonding) @ '' pins'')
     (err_when (bonding \<noteq> pinout)
       (''package_pin set mismatch between bonding CSV ('' @ pins_text bonding @ '') and pinout YAML (''
          @ pins_text pinout @ '')'') r)"

text \<open>The first pinout row of the same name.\<close>

definition pin_row_of :: "text_row list \<Rightarrow> text_row \<Rightarrow> text_row option" where
  "pin_row_of pinout row = find (\<lambda>p. dget p ''name'' = dget row ''die_pad'') pinout"

definition net_error :: "text_row list \<Rightarrow> pad_report \<Rightarrow> text_row \<Rightarrow> pad_report" where
  "net_error pinout r row =
     (case pin_row_of pinout row of None \<Rightarrow> r
      | Some p \<Rightarrow> err_when (dget p ''board_net'' \<noteq> dget row ''board_net'')
          (''board_net mismatch for '' @ opt_text (dget row ''die_pad'') @ '': pinout='' @ opt_text (dget p ''board_net'')
             @ '' bonding='' @ opt_text (dget row ''board_net'')) r)"

definition TYPE_MAP :: "(string \<times> string) list" where
  "TYPE_MAP = [(''PWR'', ''power''), (''GND'', ''ground''), (''RSV'', ''nc'')]"

definition type_error :: "text_row list \<Rightarrow> pad_report \<Rightarrow> text_row \<Rightarrow> pad_report" where
  "type_error pinout r row =
     (case (pin_row_of pinout row, dget row ''type'') of
        (Some p, Some t) \<Rightarrow>
          let direction = dget p ''direction''; pad = opt_text (dget row ''die_pad'');
              r1 = (case map_of TYPE_MAP t of None \<Rightarrow> r
                    | Some expected \<Rightarrow> err_when (direction \<noteq> Some expected)
                        (''type '' @ t @ '' for '' @ pad @ '' does not match pinout direction '' @ opt_text direction) r)
          in err_when (t = ''IO'' \<and> direction \<in> Some ` set NON_SIGNAL)
               (''type IO for '' @ pad @ '' but pinout direction is '' @ opt_text direction) r1
      | _ \<Rightarrow> r)"

definition cross_check :: "(string \<times> string) list \<Rightarrow> text_row list \<Rightarrow> text_row list \<Rightarrow> pad_report \<Rightarrow> pad_report py" where
  "cross_check ports pinout bonding r0 =
     rbind (pin_numbers ''package_pin'' bonding) (\<lambda>bonding_pins.
     rbind (pin_numbers ''pin'' pinout) (\<lambda>pinout_pins.
     let r1 = r0\<lparr>pr_counts := [(''rtl_ports'', int (length ports)), (''pinout_pins'', int (length pinout)),
                              (''bonding_rows'', int (length bonding))]\<rparr> in
     rbind (signal_names pinout) (\<lambda>signals.
     let names = pin_names pinout;
         r2 = name_errors (expand_rtl_buses ports names) names signals (column_set ''die_pad'' bonding) r1;
         r3 = pin_errors bonding_pins pinout_pins r2;
         r4 = foldl (net_error pinout) r3 bonding
     in Inr (foldl (type_error pinout) r4 bonding))))"

definition board_check :: "world \<Rightarrow> ppath \<Rightarrow> text_row list \<Rightarrow> text_row list \<Rightarrow> pad_report \<Rightarrow> pad_report py" where
  "board_check w repo pinout bonding r =
     (case find_kicad_netlist w (path_join repo (path_of KICAD_NET_DIR)) of
        None \<Rightarrow> Inr (warn (''no KiCad netlist found under '' @ KICAD_NET_DIR @ ''; skipping board cross-probe'') r)
      | Some p \<Rightarrow>
          rbind (parse_kicad_netlist w p) (\<lambda>nets.
          let shown = (case relative_to p repo of Some q \<Rightarrow> path_str q | None \<Rightarrow> path_str p);
              missing = column_set ''board_net'' bonding \<union> column_set ''board_net'' pinout - {''NC'', []} - nets;
              r1 = r\<lparr>pr_kicad := Some shown\<rparr>
          in Inr (if missing = {} then r1 else warn (''board_nets not found in KiCad netlist: '' @ names_text missing) r1)))"

definition pad_main :: "world \<Rightarrow> ppath \<Rightarrow> (int \<times> pad_report) py" where
  "pad_main w repo =
     (let rtl = path_join repo (path_of RTL_TOP); bonding_csv = path_join repo (path_of BONDING_CSV);
          pinout_yaml = path_join repo (path_of PINOUT_YAML) in
      if \<not> is_file w rtl then Inr (1, err (''missing RTL top: '' @ path_str rtl) empty_report)
      else if \<not> is_file w bonding_csv then Inr (1, err (''missing bonding CSV: '' @ path_str bonding_csv) empty_report)
      else if \<not> is_file w pinout_yaml then Inr (1, err (''missing pinout YAML: '' @ path_str pinout_yaml) empty_report)
      else
        rbind (parse_rtl_ports w rtl) (\<lambda>ports.
        rbind (parse_pinout_yaml w pinout_yaml) (\<lambda>pinout.
        rbind (parse_bonding_csv w bonding_csv) (\<lambda>bonding.
        rbind (cross_check ports pinout bonding empty_report) (\<lambda>r.
        rbind (board_check w repo pinout bonding r) (\<lambda>r.
        Inr (if pr_ok r then 0 else 1, r)))))))"

end
