(* ===== verification/Pad_Sound.thy ===== *)
theory Pad_Sound
  imports Pad_Check
begin

text \<open>
  What a report without errors says about ports, pinout and bonding table; what the
  cross-check does not look at; and the splitting of the port list.
\<close>

section \<open>Reports\<close>

lemma err_when_ok [simp]: "pr_ok (err_when b msg r) \<longleftrightarrow> pr_ok r \<and> \<not> b"
  by (simp add: err_when_def err_def)

lemma warn_ok [simp]: "pr_ok (warn msg r) = pr_ok r"
  by (simp add: warn_def)

text \<open>The flag and the list of errors agree.\<close>

definition report_inv :: "pad_report \<Rightarrow> bool" where
  "report_inv r \<longleftrightarrow> (pr_ok r \<longleftrightarrow> pr_errors r = [])"

lemma report_inv_err_when [simp]: "report_inv r \<Longrightarrow> report_inv (err_when b msg r)"
  by (simp add: report_inv_def err_when_def err_def)

text \<open>A check of one row, folded over the rows of a table.\<close>

locale row_check =
  fixes step :: "pad_report \<Rightarrow> text_row \<Rightarrow> pad_report" and good :: "text_row \<Rightarrow> bool"
  assumes step_ok: "pr_ok (step r row) \<longleftrightarrow> pr_ok r \<and> good row"
    and step_inv: "report_inv r \<Longrightarrow> report_inv (step r row)"
begin

lemma rows_ok: "pr_ok (foldl step r rows) \<longleftrightarrow> pr_ok r \<and> list_all good rows"
  by (induction rows arbitrary: r) (auto simp: step_ok)

lemma rows_inv: "report_inv r \<Longrightarrow> report_inv (foldl step r rows)"
  by (induction rows arbitrary: r) (auto simp: step_inv)

end

definition good_net :: "text_row list \<Rightarrow> text_row \<Rightarrow> bool" where
  "good_net pinout row \<longleftrightarrow>
     (\<forall>p. pin_row_of pinout row = Some p \<longrightarrow> dget p ''board_net'' = dget row ''board_net'')"

definition good_type :: "text_row list \<Rightarrow> text_row \<Rightarrow> bool" where
  "good_type pinout row \<longleftrightarrow>
     (\<forall>p t. pin_row_of pinout row = Some p \<longrightarrow> dget row ''type'' = Some t \<longrightarrow>
        (\<forall>expected. map_of TYPE_MAP t = Some expected \<longrightarrow> dget p ''direction'' = Some expected)
        \<and> (t = ''IO'' \<longrightarrow> dget p ''direction'' \<notin> Some ` set NON_SIGNAL))"

interpretation nets: row_check "net_error pinout" "good_net pinout" for pinout
  by unfold_locales (auto simp: net_error_def good_net_def split: option.splits)

interpretation types: row_check "type_error pinout" "good_type pinout" for pinout
  by unfold_locales (auto simp: type_error_def good_type_def Let_def split: option.splits)

section \<open>A clean cross-check\<close>

lemma cross_check_ok:
  assumes "cross_check ports pinout bonding r0 = Inr r" and "pr_ok r"
  shows "\<exists>signals. signal_names pinout = Inr signals
     \<and> pin_numbers ''package_pin'' bonding = Inr {1..64} \<and> pin_numbers ''pin'' pinout = Inr {1..64}
     \<and> column_set ''die_pad'' bonding = pin_names pinout
     \<and> expand_rtl_buses ports (pin_names pinout) \<subseteq> insert ''NC'' (pin_names pinout)
     \<and> signals \<subseteq> expand_rtl_buses ports (pin_names pinout)
     \<and> list_all (good_net pinout) bonding \<and> list_all (good_type pinout) bonding"
proof -
  have range: "set [1..64] = {1..64 :: int}" by auto
  show ?thesis
    using assms unfolding cross_check_def Let_def
    by (auto simp: nets.rows_ok types.rows_ok name_errors_def pin_errors_def range)
qed

lemma board_check_ok: "board_check w repo pinout bonding r = Inr r' \<Longrightarrow> pr_ok r' = pr_ok r"
  by (auto simp: board_check_def Let_def split: option.splits if_splits)

lemma expand_rtl_buses_eq: "expand_rtl_buses ports N = (\<Union>(name, d) \<in> set ports. port_names N name)"
proof -
  have "foldl (\<lambda>expanded (name, _). expanded \<union> port_names N name) E ports
      = E \<union> (\<Union>(name, d) \<in> set ports. port_names N name)" for E
    by (induction ports arbitrary: E) auto
  then show ?thesis by (simp add: expand_rtl_buses_def)
qed

lemma port_names_cases:
  "x \<in> port_names N name \<Longrightarrow> x = name \<or> bus_bit name x"
  "name \<in> port_names N name \<or> (\<exists>n \<in> N. bus_bit name n)"
  by (auto simp: port_names_def Let_def split: if_splits)

lemma pin_row_of_name:
  assumes "dget row ''die_pad'' = Some pad" and "pad \<in> pin_names pinout"
  shows "\<exists>p \<in> set pinout. pin_row_of pinout row = Some p \<and> dget p ''name'' = Some pad"
proof -
  obtain q where "q \<in> set pinout" "dget q ''name'' = Some pad"
    using assms(2) by (auto simp: pin_names_def)
  then obtain p where "pin_row_of pinout row = Some p"
    using assms(1) by (cases "pin_row_of pinout row") (auto simp: pin_row_of_def find_None_iff)
  then show ?thesis
    using assms(1) by (auto simp: pin_row_of_def find_Some_iff intro!: bexI [of _ p])
qed

lemma bonded_pad:
  assumes "column_set ''die_pad'' bonding = pin_names pinout" "list_all (good_net pinout) bonding" "list_all (good_type pinout) bonding"
    and row: "row \<in> set bonding" "dget row ''die_pad'' = Some pad" "pad \<noteq> []"
  shows "\<exists>p \<in> set pinout. dget p ''name'' = Some pad \<and> dget p ''board_net'' = dget row ''board_net''
      \<and> (\<forall>t. dget row ''type'' = Some t \<longrightarrow> (\<forall>d. map_of TYPE_MAP t = Some d \<longrightarrow> dget p ''direction'' = Some d)
          \<and> (t = ''IO'' \<longrightarrow> dget p ''direction'' \<notin> Some ` set NON_SIGNAL))"
proof -
  have "pad \<in> column_set ''die_pad'' bonding"
    using row unfolding column_set_def by (force simp: row_or_empty_def)
  then obtain p where "p \<in> set pinout" "pin_row_of pinout row = Some p" "dget p ''name'' = Some pad"
    using pin_row_of_name [OF row(2)] assms(1) by blast
  then show ?thesis
    using assms(2,3) row(1) by (intro bexI [of _ p]) (simp_all add: list_all_iff good_net_def good_type_def)
qed

lemma port_known:
  assumes "expand_rtl_buses ports names \<subseteq> insert ''NC'' names" "(port, d) \<in> set ports"
  shows "port \<in> insert ''NC'' names \<or> (\<exists>n \<in> names. bus_bit port n)"
proof (rule ccontr)
  assume absent: "\<not> (port \<in> insert ''NC'' names \<or> (\<exists>n \<in> names. bus_bit port n))"
  then have "port \<in> expand_rtl_buses ports names"
    using assms(2) port_names_cases(2) [of port names] by (auto simp: expand_rtl_buses_eq)
  then show False using assms(1) absent by blast
qed

lemma signal_covered:
  assumes "signal_names pinout = Inr signals" "signals \<subseteq> expand_rtl_buses ports names" "p \<in> set pinout" "is_signal p"
  shows "\<exists>n. \<exists>(port, d) \<in> set ports. dget p ''name'' = Some n \<and> (n = port \<or> bus_bit port n)"
proof -
  obtain ns where ns: "mapR (\<lambda>r. case dget r ''name'' of Some n \<Rightarrow> Inr n | None \<Rightarrow> Inl (PyKeyError ''name''))
      (filter is_signal pinout) = Inr ns" "signals = set ns"
    using assms(1) by (auto simp: signal_names_def)
  have "p \<in> set (filter is_signal pinout)" using assms by simp
  then obtain i where "i < length (filter is_signal pinout)" "filter is_signal pinout ! i = p"
    by (metis in_set_conv_nth)
  then have "dget p ''name'' = Some (ns ! i)" "ns ! i \<in> set ns"
    using ns(1) by (auto simp: mapR_Inr_iff list_all2_conv_all_nth split: option.splits)
  moreover have "ns ! i \<in> expand_rtl_buses ports names" using calculation(2) assms(2) ns(2) by blast
  then obtain port d where "(port, d) \<in> set ports" "ns ! i \<in> port_names names port"
    by (auto simp: expand_rtl_buses_eq)
  ultimately show ?thesis using port_names_cases(1) by blast
qed

text \<open>C24: The cross-probe ends with code 0 only if the die pads of the bonding table are exactly the names
of the pinout, both tables use exactly the package pins 1 to 64, every bonded pad has a pinout
row with the same board net and the direction its type calls for, every RTL port is a pinout
name, a bus of pinout names, or NC, and every signal of the pinout is an RTL port or a bit of one.\<close>
theorem pad_consistency_sound:
  assumes "pad_main w repo = Inr (0, report)"
    and "parse_rtl_ports w (path_join repo (path_of RTL_TOP)) = Inr ports"
    and "parse_pinout_yaml w (path_join repo (path_of PINOUT_YAML)) = Inr pinout"
    and "parse_bonding_csv w (path_join repo (path_of BONDING_CSV)) = Inr bonding"
  shows "column_set ''die_pad'' bonding = pin_names pinout
     \<and> pin_numbers ''package_pin'' bonding = Inr {1..64} \<and> pin_numbers ''pin'' pinout = Inr {1..64}
     \<and> (\<forall>row \<in> set bonding. \<forall>pad. dget row ''die_pad'' = Some pad \<longrightarrow> pad \<noteq> [] \<longrightarrow>
          (\<exists>p \<in> set pinout. dget p ''name'' = Some pad \<and> dget p ''board_net'' = dget row ''board_net''
             \<and> (\<forall>t. dget row ''type'' = Some t \<longrightarrow>
                  (\<forall>d. map_of TYPE_MAP t = Some d \<longrightarrow> dget p ''direction'' = Some d)
                  \<and> (t = ''IO'' \<longrightarrow> dget p ''direction'' \<notin> Some ` set NON_SIGNAL))))
     \<and> (\<forall>(port, d) \<in> set ports. port \<in> insert ''NC'' (pin_names pinout) \<or> (\<exists>n \<in> pin_names pinout. bus_bit port n))
     \<and> (\<forall>p \<in> set pinout. is_signal p \<longrightarrow>
          (\<exists>n. \<exists>(port, d) \<in> set ports. dget p ''name'' = Some n \<and> (n = port \<or> bus_bit port n)))"
proof -
  obtain r where r: "cross_check ports pinout bonding empty_report = Inr r" "pr_ok r"
    using assms by (auto simp: pad_main_def Let_def board_check_ok split: if_splits)
  obtain signals where sound: "signal_names pinout = Inr signals"
      "pin_numbers ''package_pin'' bonding = Inr {1..64}" "pin_numbers ''pin'' pinout = Inr {1..64}"
      "column_set ''die_pad'' bonding = pin_names pinout"
    and rtl: "expand_rtl_buses ports (pin_names pinout) \<subseteq> insert ''NC'' (pin_names pinout)"
      "signals \<subseteq> expand_rtl_buses ports (pin_names pinout)"
    and rows: "list_all (good_net pinout) bonding" "list_all (good_type pinout) bonding"
    using cross_check_ok [OF r] by blast
  have "\<forall>row \<in> set bonding. \<forall>pad. dget row ''die_pad'' = Some pad \<longrightarrow> pad \<noteq> [] \<longrightarrow>
      (\<exists>p \<in> set pinout. dget p ''name'' = Some pad \<and> dget p ''board_net'' = dget row ''board_net''
         \<and> (\<forall>t. dget row ''type'' = Some t \<longrightarrow> (\<forall>d. map_of TYPE_MAP t = Some d \<longrightarrow> dget p ''direction'' = Some d)
              \<and> (t = ''IO'' \<longrightarrow> dget p ''direction'' \<notin> Some ` set NON_SIGNAL)))"
    by (intro ballI allI impI) (rule bonded_pad [OF sound(4) rows])
  moreover have "\<forall>(port, d) \<in> set ports. port \<in> insert ''NC'' (pin_names pinout) \<or> (\<exists>n \<in> pin_names pinout. bus_bit port n)"
    using port_known [OF rtl(1)] by blast
  moreover have "\<forall>p \<in> set pinout. is_signal p \<longrightarrow>
      (\<exists>n. \<exists>(port, d) \<in> set ports. dget p ''name'' = Some n \<and> (n = port \<or> bus_bit port n))"
    by (intro ballI impI) (rule signal_covered [OF sound(1) rtl(2)])
  ultimately show ?thesis by (intro conjI sound(2-4))
qed

section \<open>What is not compared\<close>

text \<open>Two rows that differ at most in their package pin.\<close>

definition same_but_pin :: "text_row \<Rightarrow> text_row \<Rightarrow> bool" where
  "same_but_pin row row' \<longleftrightarrow> (\<forall>k. k \<noteq> ''package_pin'' \<longrightarrow> dget row' k = dget row k)"

lemma foldl_same_but_pin:
  assumes "list_all2 same_but_pin rows rows'" and "\<And>r row row'. same_but_pin row row' \<Longrightarrow> step r row' = step r row"
  shows "foldl step r rows' = foldl step r rows"
  using assms(1) by (induction arbitrary: r rule: list_all2_induct) (simp_all add: assms(2))

lemma column_same_but_pin:
  "list_all2 same_but_pin rows rows' \<Longrightarrow> key \<noteq> ''package_pin'' \<Longrightarrow> column_set key rows' = column_set key rows"
proof -
  assume same: "list_all2 same_but_pin rows rows'" and key: "key \<noteq> ''package_pin''"
  from same have "map (\<lambda>r. row_or_empty r key) rows' = map (\<lambda>r. row_or_empty r key) rows"
    by (induction rule: list_all2_induct) (simp_all add: key same_but_pin_def row_or_empty_def)
  then show ?thesis by (simp add: column_set_def)
qed

text \<open>C25: The package pin a pad is bonded to is never compared with the pin the pinout gives that pad: any
reassignment of the package pins among the rows of the bonding table that keeps the set of
pins leaves the outcome of the cross-check unchanged.\<close>
theorem pin_assignment_unchecked:
  assumes "list_all2 same_but_pin bonding bonding'"
    and "pin_numbers ''package_pin'' bonding' = pin_numbers ''package_pin'' bonding"
  shows "cross_check ports pinout bonding' r = cross_check ports pinout bonding r"
proof -
  have len: "length bonding' = length bonding" using list_all2_lengthD [OF assms(1)] by simp
  have pads: "column_set ''die_pad'' bonding' = column_set ''die_pad'' bonding"
    by (rule column_same_but_pin [OF assms(1)]) simp
  have nets: "foldl (net_error pinout) x bonding' = foldl (net_error pinout) x bonding" for x
    by (rule foldl_same_but_pin [OF assms(1)])
      (simp add: net_error_def pin_row_of_def same_but_pin_def split: option.splits)
  have types: "foldl (type_error pinout) x bonding' = foldl (type_error pinout) x bonding" for x
    by (rule foldl_same_but_pin [OF assms(1)])
      (simp add: type_error_def pin_row_of_def same_but_pin_def split: option.splits)
  show ?thesis unfolding cross_check_def assms(2) pads len nets types ..
qed

theorem pin_assignment_unchecked_witness:
  "cross_check [] [] [[(''die_pad'', ''A''), (''package_pin'', ''2'')], [(''die_pad'', ''B''), (''package_pin'', ''1'')]] empty_report
   = cross_check [] [] [[(''die_pad'', ''A''), (''package_pin'', ''1'')], [(''die_pad'', ''B''), (''package_pin'', ''2'')]] empty_report"
proof (rule pin_assignment_unchecked)
  show "list_all2 same_but_pin [[(''die_pad'', ''A''), (''package_pin'', ''1'')], [(''die_pad'', ''B''), (''package_pin'', ''2'')]]
      [[(''die_pad'', ''A''), (''package_pin'', ''2'')], [(''die_pad'', ''B''), (''package_pin'', ''1'')]]"
    by (auto simp: same_but_pin_def)
  have "pin_numbers ''package_pin'' [[(''die_pad'', ''A''), (''package_pin'', ''2'')], [(''die_pad'', ''B''), (''package_pin'', ''1'')]] = Inr (set [2, 1])"
    "pin_numbers ''package_pin'' [[(''die_pad'', ''A''), (''package_pin'', ''1'')], [(''die_pad'', ''B''), (''package_pin'', ''2'')]] = Inr (set [1, 2])"
    by code_simp+
  then show "pin_numbers ''package_pin'' [[(''die_pad'', ''A''), (''package_pin'', ''2'')], [(''die_pad'', ''B''), (''package_pin'', ''1'')]]
      = pin_numbers ''package_pin'' [[(''die_pad'', ''A''), (''package_pin'', ''1'')], [(''die_pad'', ''B''), (''package_pin'', ''2'')]]"
    by (simp add: insert_commute)
qed

section \<open>Splitting the port list\<close>

lemma split_top_Nil: "split_top depth buf s = [] \<longleftrightarrow> buf = [] \<and> s = []"
  by (induction depth buf s rule: split_top.induct) simp_all

lemma join_split_top:
  "let parts = split_top depth buf s; whole = rev buf @ s in
   join '','' parts = whole \<or> whole = join '','' parts @ '',''"
proof (induction depth buf s rule: split_top.induct)
  case (1 depth buf)
  then show ?case by simp
next
  case (2 depth buf c s)
  show ?case
  proof (cases "c = CHR '','' \<and> depth_after c depth = 0")
    case True
    then show ?thesis
      using 2(1) by (cases "split_top (depth_after c depth) [] s") (auto simp: Let_def split_top_Nil)
  next
    case False
    then show ?thesis using 2 by (auto simp: Let_def)
  qed
qed

text \<open>Splitting a port list at its top-level commas loses nothing: joining the pieces with commas
gives the text back, up to one comma at its end.\<close>
theorem split_top_level_join:
  "join '','' (split_top_level s) = s \<or> s = join '','' (split_top_level s) @ '',''"
  using join_split_top [of 0 "[]" s] by (simp add: split_top_level_def Let_def)

section \<open>A consistent board\<close>

text \<open>One port \<open>NC\<close> and 64 pins of that name.\<close>

definition demo_pins :: "int list" where "demo_pins = [1..64]"

definition pin_line :: "int \<Rightarrow> string" where "pin_line i = ''-{pin:'' @ dec_str i @ '',name:NC}''"
definition pin_entry :: "int \<Rightarrow> text_row" where "pin_entry i = [(''pin'', dec_str i), (''name'', ''NC'')]"

definition demo_pinout_text :: string where
  "demo_pinout_text = ''pins:'' @ concat (map (\<lambda>i. [CHR 0x0A] @ pin_line i) demo_pins)"

definition demo_pad_file :: "ppath \<Rightarrow> string option" where
  "demo_pad_file p = map_of
     [(path_of (''/r/'' @ RTL_TOP), ''module m(input NC);''), (path_of (''/r/'' @ PINOUT_YAML), demo_pinout_text),
      (path_of (''/r/'' @ BONDING_CSV), ''die_pad,package_pin'' @ concat (map (\<lambda>i. [CHR 0x0A] @ ''NC,'' @ dec_str i) demo_pins))] p"

definition demo_pad_world :: world where
  "demo_pad_world = \<lparr>wd_file = demo_pad_file, wd_readable = (\<lambda>_. True), wd_is_dir = (\<lambda>_. False),
     wd_executable = (\<lambda>_. False), wd_resolve = id, wd_env_path = [], wd_sha256 = id,
     wd_json = (\<lambda>_. None), wd_yaml = (\<lambda>_. None), wd_list = (\<lambda>_. []), wd_run = (\<lambda>_ _ _. OsFailure [])\<rparr>"

definition demo_pad_repo :: ppath where "demo_pad_repo = path_of ''/r''"

definition demo_bonding :: "text_row list" where
  "demo_bonding = map (\<lambda>i. [(''die_pad'', ''NC''), (''package_pin'', dec_str i)]) demo_pins"

lemma demo_pad_ports: "parse_rtl_ports demo_pad_world (path_join demo_pad_repo (path_of RTL_TOP)) = Inr [(''NC'', ''input'')]"
  by code_simp

lemma pinout_line_appends: "pinout_line raw (True, rows) = (True, rows @ snd (pinout_line raw (True, [])))"
  by (simp add: pinout_line_def Let_def split: option.splits)

lemma pinout_lines:
  "list_all (\<lambda>i. pinout_line (pin_line i) (True, []) = (True, [pin_entry i])) is \<Longrightarrow>
   foldl (\<lambda>st raw. pinout_line raw st) (True, rows) (map pin_line is) = (True, rows @ map pin_entry is)"
proof (induction "is" arbitrary: rows)
  case (Cons i "is")
  then show ?case using pinout_line_appends [of "pin_line i" rows] by simp
qed simp

lemma demo_pin_lines:
  "list_all (\<lambda>i. pinout_line (pin_line i) (True, []) = (True, [pin_entry i])) [1..16]"
  "list_all (\<lambda>i. pinout_line (pin_line i) (True, []) = (True, [pin_entry i])) [17..32]"
  "list_all (\<lambda>i. pinout_line (pin_line i) (True, []) = (True, [pin_entry i])) [33..48]"
  "list_all (\<lambda>i. pinout_line (pin_line i) (True, []) = (True, [pin_entry i])) [49..64]"
  by code_simp+

lemma demo_pins_split: "demo_pins = [1..16] @ [17..32] @ [33..48] @ [49..64]"
  by code_simp

lemma demo_pad_pinout:
  "parse_pinout_yaml demo_pad_world (path_join demo_pad_repo (path_of PINOUT_YAML)) = Inr (map pin_entry demo_pins)"
proof -
  have data: "read_text demo_pad_world (path_join demo_pad_repo (path_of PINOUT_YAML)) = Inr demo_pinout_text"
    and lines: "split_lines demo_pinout_text = ''pins:'' # map pin_line demo_pins"
    and start: "pinout_line ''pins:'' (False, []) = (True, [])"
    by code_simp+
  have "list_all (\<lambda>i. pinout_line (pin_line i) (True, []) = (True, [pin_entry i])) demo_pins"
    unfolding demo_pins_split list_all_append using demo_pin_lines by blast
  from pinout_lines [OF this, of "[]"] show ?thesis
    by (simp add: parse_pinout_yaml_def data lines start)
qed

lemma demo_pad_bonding: "parse_bonding_csv demo_pad_world (path_join demo_pad_repo (path_of BONDING_CSV)) = Inr demo_bonding"
  by code_simp

lemma demo_pad_sets:
  "pin_numbers ''package_pin'' demo_bonding = Inr (set demo_pins)" "pin_numbers ''pin'' (map pin_entry demo_pins) = Inr (set demo_pins)"
  "pin_names (map pin_entry demo_pins) = {''NC''}" "signal_names (map pin_entry demo_pins) = Inr {''NC''}"
  "column_set ''die_pad'' demo_bonding = {''NC''}" "expand_rtl_buses [(''NC'', ''input'')] {''NC''} = {''NC''}"
  by code_simp+

lemma demo_pad_rows: "list_all (good_net (map pin_entry demo_pins)) demo_bonding" "list_all (good_type (map pin_entry demo_pins)) demo_bonding"
proof -
  have pin: "pin_row_of (map pin_entry demo_pins) row = Some (pin_entry 1)" if "row \<in> set demo_bonding" for row
    using that by (auto simp: pin_row_of_def demo_bonding_def pin_entry_def demo_pins_def upto_rec1)
  then show "list_all (good_net (map pin_entry demo_pins)) demo_bonding" "list_all (good_type (map pin_entry demo_pins)) demo_bonding"
    by (auto simp: list_all_iff good_net_def good_type_def demo_bonding_def pin_entry_def)
qed

lemma demo_pad_ok: "\<exists>report. pad_main demo_pad_world demo_pad_repo = Inr (0, report)"
proof -
  have files: "is_file demo_pad_world (path_join demo_pad_repo (path_of RTL_TOP))"
    "is_file demo_pad_world (path_join demo_pad_repo (path_of BONDING_CSV))"
    "is_file demo_pad_world (path_join demo_pad_repo (path_of PINOUT_YAML))"
    and no_net: "find_kicad_netlist demo_pad_world (path_join demo_pad_repo (path_of KICAD_NET_DIR)) = None"
    by code_simp+
  have pins: "set demo_pins = set [1..64]" by (simp add: demo_pins_def)
  obtain r where "cross_check [(''NC'', ''input'')] (map pin_entry demo_pins) demo_bonding empty_report = Inr r" "pr_ok r"
    using demo_pad_rows
    by (simp add: cross_check_def Let_def demo_pad_sets nets.rows_ok types.rows_ok name_errors_def pin_errors_def pins empty_report_def)
  then show ?thesis
    by (simp add: pad_main_def Let_def files demo_pad_ports demo_pad_pinout demo_pad_bonding board_check_def no_net)
qed

theorem pad_consistency_sound_witness:
  "column_set ''die_pad'' demo_bonding = pin_names (map pin_entry demo_pins) \<and> pin_numbers ''package_pin'' demo_bonding = Inr {1..64}"
proof -
  obtain report where "pad_main demo_pad_world demo_pad_repo = Inr (0, report)" using demo_pad_ok by blast
  note sound = pad_consistency_sound [OF this demo_pad_ports demo_pad_pinout demo_pad_bonding]
  show ?thesis by (rule conjI, rule conjunct1 [OF sound], rule conjunct1 [OF conjunct2 [OF sound]])
qed

end
