(* ===== verification/Py_Files.thy ===== *)
theory Py_Files
  imports Py_World Py_Regex
begin

text \<open>
  What the scripts that write files need: an order on paths, \<open>json.dumps\<close>, UTF-8, and the effect of
  writing on the world. Writing a file and making a directory do not fail here, and text is
  kept as the text that is read back.
\<close>

section \<open>The order of paths\<close>

text \<open>\<open>sorted\<close> on paths compares their parts; an absolute path comes before a relative one.\<close>

instantiation ppath :: linorder
begin

definition less_eq_ppath :: "ppath \<Rightarrow> ppath \<Rightarrow> bool" where
  "p \<le> q \<longleftrightarrow> (pabs p \<and> \<not> pabs q) \<or> (pabs p = pabs q \<and> pparts p \<le> pparts q)"

definition less_ppath :: "ppath \<Rightarrow> ppath \<Rightarrow> bool" where
  "(p :: ppath) < q \<longleftrightarrow> p \<le> q \<and> \<not> q \<le> p"

instance
proof
  fix x y z :: ppath
  show "x < y \<longleftrightarrow> x \<le> y \<and> \<not> y \<le> x" by (rule less_ppath_def)
  show "x \<le> x" by (simp add: less_eq_ppath_def)
  show "x \<le> y \<Longrightarrow> y \<le> z \<Longrightarrow> x \<le> z" by (auto simp: less_eq_ppath_def)
  show "x \<le> y \<Longrightarrow> y \<le> x \<Longrightarrow> x = y" by (auto simp: less_eq_ppath_def intro: ppath.expand)
  show "x \<le> y \<or> y \<le> x" by (auto simp: less_eq_ppath_def)
qed

end

definition path_parent :: "ppath \<Rightarrow> ppath" where
  "path_parent p = PPath (pabs p) (butlast (pparts p))"

definition path_name :: "ppath \<Rightarrow> string" where
  "path_name p = (if pparts p = [] then [] else last (pparts p))"

text \<open>\<open>str.endswith\<close>.\<close>

definition ends_in :: "string \<Rightarrow> string \<Rightarrow> bool" where
  "ends_in suffix s \<longleftrightarrow> starts_with (rev suffix) (rev s)"

section \<open>JSON text\<close>

definition json_char :: "char \<Rightarrow> string" where
  "json_char c =
     (let n = of_char c :: int; b = CHR 0x5C in
      if n = 34 \<or> n = 92 then [b, c]
      else if n = 8 then [b, CHR ''b''] else if n = 9 then [b, CHR ''t''] else if n = 10 then [b, CHR ''n'']
      else if n = 12 then [b, CHR ''f''] else if n = 13 then [b, CHR ''r'']
      else if n < 32 \<or> 127 \<le> n then [b] @ ''u00'' @ fmt_int 16 False 2 n
      else [c])"

definition json_string :: "string \<Rightarrow> string" where
  "json_string s = [CHR 0x22] @ concat (map json_char s) @ [CHR 0x22]"

definition json_float :: "pyfloat \<Rightarrow> string" where
  "json_float f = (case f of
     PInf \<Rightarrow> ''Infinity'' | NInf \<Rightarrow> ''-Infinity'' | NaN \<Rightarrow> ''NaN'' | Fin _ \<Rightarrow> float_repr f)"

definition json_block :: "string \<Rightarrow> string \<Rightarrow> nat \<Rightarrow> string list \<Rightarrow> string" where
  "json_block l r n items =
     (let pad = (\<lambda>k. CHR 0x0A # replicate k (CHR '' '')) in
      if items = [] then l @ r else l @ pad (n + 2) @ join ('','' @ pad (n + 2)) items @ pad n @ r)"

text \<open>\<open>json.dumps(v, indent=2, sort_keys=srt)\<close>, at an indentation of \<open>n\<close>.\<close>

fun dumps_at :: "bool \<Rightarrow> nat \<Rightarrow> pyv \<Rightarrow> string" where
  "dumps_at srt n PNone = ''null''"
| "dumps_at srt n (PBool b) = (if b then ''true'' else ''false'')"
| "dumps_at srt n (PInt i) = dec_str i"
| "dumps_at srt n (PFloat f) = json_float f"
| "dumps_at srt n (PStr s) = json_string s"
| "dumps_at srt n (PList xs) = json_block ''['' '']'' n (map (dumps_at srt (n + 2)) xs)"
| "dumps_at srt n (PDict d) =
     (let items = map (map_prod id (dumps_at srt (n + 2))) d in
      json_block ''{'' ''}'' n
        (map (\<lambda>(k, s). json_string k @ '': '' @ s) (if srt then sort_key fst items else items)))"

definition json_dumps :: "bool \<Rightarrow> pyv \<Rightarrow> string" where
  "json_dumps srt v = dumps_at srt 0 v"

lemma json_dumps_example:
  "json_dumps True (PDict [(''b'', PList []), (''a'', PBool True)]) =
     ''{'' @ [CHR 0x0A] @ ''  '' @ json_string ''a'' @ '': true,'' @ [CHR 0x0A] @ ''  ''
       @ json_string ''b'' @ '': []'' @ [CHR 0x0A] @ ''}''"
  by code_simp

section \<open>Writing\<close>

definition write_file :: "world \<Rightarrow> ppath \<Rightarrow> string \<Rightarrow> world" where
  "write_file w p s = w\<lparr>wd_file := (wd_file w)(p \<mapsto> s), wd_readable := (wd_readable w)(p := True)\<rparr>"

definition unlink :: "world \<Rightarrow> ppath \<Rightarrow> world" where
  "unlink w p = w\<lparr>wd_file := (wd_file w)(p := None)\<rparr>"

text \<open>\<open>p.mkdir(parents=True, exist_ok=True)\<close>: the directory and all above it exist.\<close>

definition make_dirs :: "world \<Rightarrow> ppath \<Rightarrow> world" where
  "make_dirs w p = w\<lparr>wd_is_dir := (\<lambda>q. wd_is_dir w q
     \<or> pabs q = pabs p \<and> take (length (pparts q)) (pparts p) = pparts q)\<rparr>"

text \<open>\<open>tmp.write_text(s); tmp.replace(p)\<close> for a temporary file beside \<open>p\<close>.\<close>

definition replace_file :: "world \<Rightarrow> ppath \<Rightarrow> ppath \<Rightarrow> string \<Rightarrow> world" where
  "replace_file w tmp p s = write_file (unlink w tmp) p s"

lemma read_write [simp]:
  "read_bytes (write_file w p s) q = (if q = p then Inr s else read_bytes w q)"
  "is_file (write_file w p s) q \<longleftrightarrow> q = p \<or> is_file w q"
  by (auto simp: read_bytes_def write_file_def is_file_def split: option.splits)

lemma read_make_dirs [simp]:
  "read_bytes (make_dirs w p) q = read_bytes w q" "is_file (make_dirs w p) q = is_file w q"
  by (auto simp: read_bytes_def make_dirs_def is_file_def split: option.splits)

section \<open>Line ends\<close>

lemma no_carriage_return: "CHR 0x0D \<notin> set (universal_newlines s)"
  by (induction s rule: universal_newlines.induct) auto

lemma universal_newlines_plain: "universal_newlines s = s \<longleftrightarrow> CHR 0x0D \<notin> set s"
proof
  show "CHR 0x0D \<notin> set s" if "universal_newlines s = s" using that no_carriage_return [of s] by simp
  show "universal_newlines s = s" if "CHR 0x0D \<notin> set s"
    using that by (induction s rule: universal_newlines.induct) auto
qed

section \<open>Directory trees\<close>

text \<open>
  \<open>p.rglob("*")\<close>, to a depth no path on the host exceeds: a path has at most 4096 bytes, and each
  level takes two.
\<close>

fun descendants :: "nat \<Rightarrow> world \<Rightarrow> ppath \<Rightarrow> ppath list" where
  "descendants 0 w p = []"
| "descendants (Suc n) w p =
     concat (map (\<lambda>name. let q = path_join p (PPath False [name]) in
       q # (if wd_is_dir w q then descendants n w q else [])) (wd_list w p))"

definition rglob :: "world \<Rightarrow> ppath \<Rightarrow> ppath list" where
  "rglob w p = descendants 2048 w p"

section \<open>Membership\<close>

text \<open>\<open>x in v\<close> for any \<open>x\<close>.\<close>

definition hashable :: "pyv \<Rightarrow> bool" where
  "hashable v \<longleftrightarrow> \<not> is_list v \<and> \<not> is_dict v"

fun py_mem :: "pyv \<Rightarrow> pyv \<Rightarrow> bool py" where
  "py_mem x (PDict d) = (if hashable x then Inr (is_str x \<and> dhas d (as_str x)) else Inl PyTypeError)"
| "py_mem x (PList xs) = Inr (list_ex (py_eq x) xs)"
| "py_mem x (PStr s) = (if is_str x then Inr (contains (as_str x) s) else Inl PyTypeError)"
| "py_mem x _ = Inl PyTypeError"

text \<open>\<open>set(xs)\<close> of a list: its elements must be hashable.\<close>

definition py_set :: "pyv list \<Rightarrow> pyv list py" where
  "py_set xs = (if list_all hashable xs then Inr xs else Inl PyTypeError)"

text \<open>\<open>sep.join(v)\<close>: every element must be a string.\<close>

definition py_join :: "string \<Rightarrow> pyv \<Rightarrow> string py" where
  "py_join sep v = rbind (py_iter v) (\<lambda>xs. if list_all is_str xs then Inr (join sep (map as_str xs)) else Inl PyTypeError)"

fun py_items :: "pyv \<Rightarrow> (string \<times> pyv) list py" where
  "py_items (PDict d) = Inr d"
| "py_items _ = Inl PyAttributeError"

definition rstrip :: "string \<Rightarrow> string" where
  "rstrip s = rev (dropWhile is_space (rev s))"

section \<open>Substrings\<close>

lemma contains_append: "contains m s \<Longrightarrow> contains m (pre @ s)"
  by (induction pre) auto

lemma contains_front: "contains m (m @ s)"
proof (cases "m @ s")
  case (Cons c r)
  have "take (length m) (m @ s) = m" by simp
  with Cons show ?thesis by (simp add: starts_with_def)
qed simp

lemma contains_concat: "m \<in> set ms \<Longrightarrow> contains m (concat ms)"
proof (induction ms)
  case (Cons x ms)
  then show ?case using contains_front [of m "concat ms"] contains_append [of m "concat ms" x] by auto
qed simp

lemma starts_withE:
  assumes "starts_with pre s"
  obtains r where "s = pre @ r"
  using assms append_take_drop_id [of "length pre" s] by (simp add: starts_with_def) metis

section \<open>Runs that return\<close>

lemma ebind_InrE:
  assumes "ebind m f s = (Inr y, t)"
  obtains x s' where "m s = (Inr x, s')" "f x s' = (Inr y, t)"
  using assms by (auto simp: ebind_Inr_iff)

lemma dget_in: "dget d k = Some v \<Longrightarrow> (k, v) \<in> set d"
  by (induction d k rule: dget.induct) (auto split: if_splits)

end
