(* ===== verification/Mvp_Sim.thy ===== *)
theory Mvp_Sim
  imports Py_Files
begin

text \<open>
  The simulator MVP runner, \<open>scripts/run_mvp_simulator.py\<close>: a list of steps, each a command with
  the markers its output must or may contain, run in order under a timeout wrapper; the claims
  and blockers derived from their results; the report. A step and a result are records, as every
  dictionary of that kind has the same keys with values of one type; what a command does to the
  files is part of the host.
\<close>

section \<open>Steps\<close>

record mvp_step =
  ms_name :: string
  ms_tier :: string
  ms_scope :: string
  ms_claim :: string
  ms_command :: "string list"
  ms_pass_markers :: "string list"
  ms_block_markers :: "string list"
  ms_timeout_seconds :: int
  ms_artifact_paths :: "string list"

text \<open>\<open>STEPS\<close>, by the interpreter \<open>sys.executable\<close>.\<close>

definition reference_boot_steps :: "string \<Rightarrow> mvp_step list" where
  "reference_boot_steps exe =
    [\<lparr>ms_name = ''android_sim_boot'', ms_tier = ''os_boot'', ms_scope = ''android_reference'',
       ms_claim = ''Android simulator boot evidence'',
       ms_command = [''scripts/boot_android_simulator.sh'', ''--run-cuttlefish'', ''--run-cts'', ''--run-vts''],
       ms_pass_markers = [''PASS: Android simulator evidence captured and validated''],
       ms_block_markers = [''BLOCKED:''],
       ms_timeout_seconds = 1800, ms_artifact_paths = []\<rparr>,
     \<lparr>ms_name = ''android_sim_report_check'', ms_tier = ''os_boot'', ms_scope = ''android_reference'',
       ms_claim = ''validated Android simulator boot report'',
       ms_command = [exe, ''scripts/check_android_sim_boot.py''],
       ms_pass_markers = [''Android simulator boot check passed''],
       ms_block_markers = [''Android simulator boot blocked''],
       ms_timeout_seconds = 120, ms_artifact_paths = []\<rparr>,
     \<lparr>ms_name = ''qemu_os_boot'', ms_tier = ''os_boot'', ms_scope = ''qemu_virt_reference'',
       ms_claim = ''QEMU qemu-virt reference OS boot to init/login; not e1-chip/AP evidence'',
       ms_command = [''scripts/run_qemu.sh'', ''--check-os''],
       ms_pass_markers = [''STATUS: PASS qemu.os_boot''],
       ms_block_markers = [''STATUS: BLOCKED qemu.os_boot''],
       ms_timeout_seconds = 120, ms_artifact_paths = []\<rparr>]"

definition generated_ap_steps :: "string \<Rightarrow> mvp_step list" where
  "generated_ap_steps exe =
    [\<lparr>ms_name = ''cpu_ap_linux_evidence'', ms_tier = ''os_prereq'', ms_scope = ''our_chip_prereq'',
       ms_claim = ''CPU/AP Linux evidence prerequisites'',
       ms_command = [exe, ''scripts/check_cpu_ap_evidence.py'', ''--require-evidence''],
       ms_pass_markers = [''STATUS: PASS cpu_ap.linux_evidence''],
       ms_block_markers = [''STATUS: BLOCKED cpu_ap.linux_evidence''],
       ms_timeout_seconds = 120, ms_artifact_paths = []\<rparr>,
     \<lparr>ms_name = ''chipyard_verilator_preflight'', ms_tier = ''os_prereq'', ms_scope = ''our_chip_prereq'',
       ms_claim = ''Chipyard Verilator environment can generate OpenAgentRocketConfig'',
       ms_command = [exe, ''scripts/check_chipyard_verilator_preflight.py''],
       ms_pass_markers = [''STATUS: PASS chipyard.verilator_preflight''],
       ms_block_markers = [''STATUS: BLOCKED chipyard.verilator_preflight''],
       ms_timeout_seconds = 180, ms_artifact_paths = []\<rparr>,
     \<lparr>ms_name = ''chipyard_generated_ap'', ms_tier = ''os_prereq'', ms_scope = ''our_chip_prereq'',
       ms_claim = ''generated CPU/AP simulator input'',
       ms_command = [exe, ''scripts/check_chipyard_generator_manifest.py'', ''--require-generated''],
       ms_pass_markers = [''STATUS: PASS chipyard.generated_import''],
       ms_block_markers = [''STATUS: BLOCKED chipyard.generated_import'', ''Verilator preflight blocker:'', ''missing generated import manifest:''],
       ms_timeout_seconds = 120, ms_artifact_paths = []\<rparr>,
     \<lparr>ms_name = ''chipyard_payload_path'', ms_tier = ''os_prereq'', ms_scope = ''our_chip_prereq'',
       ms_claim = ''generated Chipyard DTS/artifacts are ready for the external OpenSBI/U-Boot/Linux payload path; not RTL boot evidence'',
       ms_command = [exe, ''scripts/check_chipyard_payload_path.py''],
       ms_pass_markers = [''STATUS: PASS chipyard.payload_path''],
       ms_block_markers = [''STATUS: BLOCKED chipyard.payload_path''],
       ms_timeout_seconds = 120, ms_artifact_paths = []\<rparr>,
     \<lparr>ms_name = ''chipyard_verilator_linux_attempt'', ms_tier = ''os_boot'', ms_scope = ''our_chip_os_boot'',
       ms_claim = ''bounded startup attempt of OpenSBI/Linux on generated OpenAgentRocketConfig Verilator simulator'',
       ms_command = [''scripts/run_chipyard_openagent_linux_smoke.sh''],
       ms_pass_markers = [''STATUS: PASS chipyard.verilator_linux_smoke''],
       ms_block_markers = [''STATUS: BLOCKED chipyard.verilator_linux_smoke'', ''STATUS: BLOCKED chipyard.verilator_linux_smoke_docker'', ''STATUS: REPAIR chipyard.verilator_linux_smoke'', ''STATUS: REPAIR chipyard.verilator_linux_smoke_docker'', ''CHIPYARD_LINUX_BINARY is unset'', ''payload missing:''],
       ms_timeout_seconds = 1500, ms_artifact_paths = [''build/chipyard/openagent_rocket/verilator-linux-smoke.log'', ''build/chipyard/openagent_rocket/verilator-linux-smoke-runner.log'']\<rparr>,
     \<lparr>ms_name = ''chipyard_verilator_linux_smoke'', ms_tier = ''os_boot'', ms_scope = ''our_chip_os_boot'',
       ms_claim = ''OpenSBI/Linux smoke on generated OpenAgentRocketConfig Verilator simulator'',
       ms_command = [exe, ''scripts/check_chipyard_verilator_linux_smoke.py''],
       ms_pass_markers = [''STATUS: PASS chipyard.verilator_linux_smoke''],
       ms_block_markers = [''STATUS: BLOCKED chipyard.verilator_linux_smoke''],
       ms_timeout_seconds = 120, ms_artifact_paths = [''build/chipyard/openagent_rocket/verilator-linux-smoke.log'', ''build/chipyard/openagent_rocket/verilator-linux-smoke.json'', ''build/chipyard/openagent_rocket/OpenAgentRocketConfig.manifest.json'']\<rparr>]"

definition local_steps :: "string \<Rightarrow> mvp_step list" where
  "local_steps exe =
    [\<lparr>ms_name = ''npu_ml_smoke'', ms_tier = ''npu_ml'', ms_scope = ''our_chip_npu_ml_local'',
       ms_claim = ''local e1 NPU INT8 GEMM runtime/scratchpad smoke transcript; not integrated generated-AP Linux evidence'',
       ms_command = [exe, ''scripts/check_mvp_npu_ml_evidence.py'', ''--run''],
       ms_pass_markers = [''STATUS: PASS mvp.npu_ml_smoke''],
       ms_block_markers = [''STATUS: BLOCKED mvp.npu_ml_smoke''],
       ms_timeout_seconds = 180, ms_artifact_paths = [''build/reports/mvp_npu_ml_smoke.log'', ''build/reports/mvp_npu_ml_smoke.json'', ''build/reports/mvp_npu_scale_sim.json'', ''benchmarks/models/mobile_smoke.tflite'']\<rparr>,
     \<lparr>ms_name = ''qemu_firmware_smoke'', ms_tier = ''firmware_smoke'', ms_scope = ''qemu_virt_reference'',
       ms_claim = ''QEMU qemu-virt firmware serial smoke'',
       ms_command = [''scripts/run_qemu.sh'', ''--check''],
       ms_pass_markers = [''STATUS: PASS qemu.check''],
       ms_block_markers = [''STATUS: BLOCKED qemu.check''],
       ms_timeout_seconds = 120, ms_artifact_paths = []\<rparr>,
     \<lparr>ms_name = ''renode_firmware_smoke'', ms_tier = ''firmware_smoke'', ms_scope = ''renode_reference'',
       ms_claim = ''Renode firmware serial smoke on the current Renode reference model; not generated AP/Linux evidence'',
       ms_command = [''scripts/run_renode.sh'', ''--check''],
       ms_pass_markers = [''STATUS: PASS renode.check''],
       ms_block_markers = [''STATUS: BLOCKED renode.check''],
       ms_timeout_seconds = 120, ms_artifact_paths = []\<rparr>,
     \<lparr>ms_name = ''local_rtl_sim_ladder'', ms_tier = ''rtl_sim'', ms_scope = ''our_chip_rtl_sim'',
       ms_claim = ''local RTL simulation ladder'',
       ms_command = [exe, ''scripts/run_sim_ladder.py''],
       ms_pass_markers = [''Simulation ladder passed''],
       ms_block_markers = [''STATUS: BLOCKED sim_ladder''],
       ms_timeout_seconds = 300, ms_artifact_paths = []\<rparr>]"

definition STEPS :: "string \<Rightarrow> mvp_step list" where
  "STEPS exe = reference_boot_steps exe @ generated_ap_steps exe @ local_steps exe"

definition REPORT :: string where "REPORT = ''build/reports/mvp_simulator.json''"
definition CHIPYARD_OUT :: string where "CHIPYARD_OUT = ''build/chipyard/openagent_rocket''"
definition MVP_NPU_REPORT :: string where "MVP_NPU_REPORT = ''build/reports/mvp_npu_ml_smoke.json''"
definition MVP_NPU_TRANSCRIPT :: string where "MVP_NPU_TRANSCRIPT = ''build/reports/mvp_npu_ml_smoke.log''"
definition MVP_NPU_SCALE_REPORT :: string where "MVP_NPU_SCALE_REPORT = ''build/reports/mvp_npu_scale_sim.json''"
definition DEFAULT_TIMEOUT_SECONDS :: int where "DEFAULT_TIMEOUT_SECONDS = 300"

definition INTEGRATED_NPU_LINUX_MARKERS :: "string list" where
  "INTEGRATED_NPU_LINUX_MARKERS =
     [''openagent-evidence: target=generated_chipyard_ap'', ''Linux version'', ''e1-npu'',
      ''openagent-evidence: workload=gemm_s8_int8_2x2x3'', ''openagent-evidence: status=PASS'']"

text \<open>\<open>TIER_RANK.get(tier, 0)\<close>.\<close>

definition TIER_RANK :: "string \<Rightarrow> int" where
  "TIER_RANK tier = (case map_of [(''os_boot'', 4), (''os_prereq'', 3), (''npu_ml'', 3), (''firmware_smoke'', 2),
     (''rtl_sim'', 1)] tier of Some r \<Rightarrow> r | None \<Rightarrow> 0)"

section \<open>The host\<close>

text \<open>
  The interpreter, the environment, what running a command does and returns, and the measured
  time of a command, rounded to three digits.
\<close>

record mvp_host =
  mh_executable :: string
  mh_environ :: "string \<Rightarrow> string option"
  mh_run :: "string list \<Rightarrow> (world, py_exc, int \<times> string) est"
  mh_elapsed :: "string list \<Rightarrow> pyfloat"

definition mvp_path :: "ppath \<Rightarrow> ppath \<Rightarrow> string" where
  "mvp_path repo p = (case relative_to p repo of Some q \<Rightarrow> path_str q | None \<Rightarrow> path_str p)"

text \<open>The digest of a file is that of its chunks in order.\<close>

definition file_artifact :: "ppath \<Rightarrow> ppath \<Rightarrow> world \<Rightarrow> pyv py" where
  "file_artifact repo p w =
     (let item = [(''path'', PStr (mvp_path repo p)), (''exists'', PBool (is_file w p))] in
      if \<not> is_file w p then Inr (PDict item)
      else
        rbind (sha256_file w p) (\<lambda>digest.
        rbind (stat_size w p) (\<lambda>size.
        Inr (PDict (dupdate item [(''sha256'', PStr digest), (''bytes'', PInt size)])))))"

definition step_artifacts :: "ppath \<Rightarrow> mvp_step \<Rightarrow> world \<Rightarrow> pyv list py" where
  "step_artifacts repo step w =
     mapR (\<lambda>path. file_artifact repo (path_join repo (path_of path)) w) (ms_artifact_paths step)"

definition classify :: "int \<Rightarrow> string \<Rightarrow> mvp_step \<Rightarrow> string" where
  "classify returncode out step =
     (if returncode = 0 \<and> list_all (\<lambda>marker. contains marker out) (ms_pass_markers step) then ''pass''
      else if returncode = 2 \<or> list_ex (\<lambda>marker. contains marker out) (ms_block_markers step) then ''blocked''
      else if returncode = 124 \<and> contains ''[timeout-wrapper]'' out \<and> contains ''status=timeout'' out then ''blocked''
      else ''fail'')"

text \<open>\<open>os.environ.get(key)\<close>, and the first operand of \<open>or\<close> that is true, else the last.\<close>

definition environ_get :: "mvp_host \<Rightarrow> string \<Rightarrow> pyv" where
  "environ_get host key = (case mh_environ host key of None \<Rightarrow> PNone | Some s \<Rightarrow> PStr s)"

fun first_true :: "pyv list \<Rightarrow> pyv \<Rightarrow> pyv" where
  "first_true [] final = final"
| "first_true (v # vs) final = (if truthy v then v else first_true vs final)"

definition timeout_seconds :: "mvp_host \<Rightarrow> mvp_step \<Rightarrow> int py" where
  "timeout_seconds host step =
     (let env_key = ''MVP_SIMULATOR_TIMEOUT_'' @ map upper_char (ms_name step) @ ''_SECONDS'';
          raw = first_true
            [environ_get host ''MVP_SIMULATOR_FORCE_TIMEOUT_SECONDS'', environ_get host env_key,
             environ_get host ''MVP_SIMULATOR_DEFAULT_TIMEOUT_SECONDS'', PInt (ms_timeout_seconds step)]
            (PInt DEFAULT_TIMEOUT_SECONDS)
      in case py_int raw of
           Inl PyTypeError \<Rightarrow> Inr DEFAULT_TIMEOUT_SECONDS
         | Inl (PyValueError _) \<Rightarrow> Inr DEFAULT_TIMEOUT_SECONDS
         | Inl e \<Rightarrow> Inl e
         | Inr value \<Rightarrow> Inr (max 1 value))"

definition TIMEOUT_WRAPPER :: "string \<Rightarrow> string list" where
  "TIMEOUT_WRAPPER exe = [exe, ''scripts/run_with_timeout.py'']"

definition wrapped_command :: "mvp_host \<Rightarrow> mvp_step \<Rightarrow> string list py" where
  "wrapped_command host step =
     rbind (timeout_seconds host step) (\<lambda>seconds.
     Inr (TIMEOUT_WRAPPER (mh_executable host)
       @ [''--timeout-seconds'', dec_str seconds, ''--label'', ''mvp.'' @ ms_name step, ''--''] @ ms_command step))"

definition skip_reason :: "mvp_host \<Rightarrow> mvp_step \<Rightarrow> string option" where
  "skip_reason host step =
     (let raw = first_true [environ_get host (''MVP_SIMULATOR_SKIP_'' @ map upper_char (ms_name step))]
            (environ_get host ''MVP_SIMULATOR_SKIP_LONG_STEPS'') in
      if raw \<in> PStr ` {''1'', ''true'', ''TRUE'', ''yes'', ''YES''}
      then Some (''STATUS: BLOCKED mvp.'' @ ms_name step @ '' - skipped by bounded aggregate refresh'')
      else None)"

section \<open>Running a step\<close>

record mvp_result =
  mr_name :: string
  mr_tier :: string
  mr_scope :: string
  mr_claim :: string
  mr_command :: "string list"
  mr_executed_command :: "string list"
  mr_timeout_seconds :: int
  mr_status :: string
  mr_returncode :: int
  mr_elapsed_seconds :: pyfloat
  mr_artifacts :: "pyv list"
  mr_log_tail :: "string list"

definition step_result ::
  "mvp_step \<Rightarrow> string list \<Rightarrow> int \<Rightarrow> string \<Rightarrow> int \<Rightarrow> pyfloat \<Rightarrow> pyv list \<Rightarrow> string list \<Rightarrow> mvp_result" where
  "step_result step executed seconds status code elapsed artifacts tail =
     \<lparr>mr_name = ms_name step, mr_tier = ms_tier step, mr_scope = ms_scope step, mr_claim = ms_claim step,
      mr_command = ms_command step, mr_executed_command = executed, mr_timeout_seconds = seconds,
      mr_status = status, mr_returncode = code, mr_elapsed_seconds = elapsed,
      mr_artifacts = artifacts, mr_log_tail = tail\<rparr>"

text \<open>\<open>xs[-n:]\<close>.\<close>

definition last_lines :: "nat \<Rightarrow> 'a list \<Rightarrow> 'a list" where
  "last_lines n xs = drop (length xs - n) xs"

text \<open>Code that reads the world of the moment and may raise.\<close>

definition observe :: "(world \<Rightarrow> 'a py) \<Rightarrow> (world, py_exc, 'a) est" where
  "observe f = (\<lambda>w. (f w, w))"

definition run_step :: "mvp_host \<Rightarrow> ppath \<Rightarrow> mvp_step \<Rightarrow> (world, py_exc, mvp_result) est" where
  "run_step host repo step =
     ebind (elift (wrapped_command host step)) (\<lambda>executed.
     ebind (elift (timeout_seconds host step)) (\<lambda>seconds.
     case skip_reason host step of
       Some skipped \<Rightarrow>
         ebind (observe (step_artifacts repo step)) (\<lambda>artifacts.
         eret (step_result step executed seconds ''blocked'' 2 (Fin 0) artifacts
           [skipped, ''next_command: '' @ join '' '' (ms_command step)]))
     | None \<Rightarrow>
         ebind (mh_run host executed) (\<lambda>(code, out).
         ebind (observe (step_artifacts repo step)) (\<lambda>artifacts.
         eret (step_result step executed seconds (classify code out step) code (mh_elapsed host executed) artifacts
           (last_lines 40 (split_lines out)))))))"

section \<open>What the results show\<close>

text \<open>\<open>max(items, key=...)\<close>: the first of the greatest.\<close>

fun max_by :: "('a \<Rightarrow> int) \<Rightarrow> 'a \<Rightarrow> 'a list \<Rightarrow> 'a" where
  "max_by f m [] = m"
| "max_by f m (x # xs) = max_by f (if f m < f x then x else m) xs"

definition best_of :: "string list \<Rightarrow> mvp_result list \<Rightarrow> mvp_result option" where
  "best_of scopes results =
     (case filter (\<lambda>item. mr_status item = ''pass'' \<and> mr_scope item \<in> set scopes) results of
        [] \<Rightarrow> None
      | item # items \<Rightarrow> Some (max_by (\<lambda>r. TIER_RANK (mr_tier r)) item items))"

definition best_executable_evidence :: "mvp_result list \<Rightarrow> mvp_result option" where
  "best_executable_evidence =
     best_of [''our_chip_prereq'', ''our_chip_os_boot'', ''our_chip_npu_ml_local'', ''our_chip_rtl_sim'']"

definition best_reference_evidence :: "mvp_result list \<Rightarrow> mvp_result option" where
  "best_reference_evidence = best_of [''qemu_virt_reference'', ''renode_reference'', ''android_reference'']"

record mvp_item =
  mi_name :: string
  mi_tier :: string
  mi_detail :: string
  mi_next_command :: string

text \<open>The last line of the log that carries the status, or the last line.\<close>

definition status_detail :: "string list \<Rightarrow> string list \<Rightarrow> string" where
  "status_detail prefixes tail =
     (if tail = [] then []
      else let status_lines = filter (\<lambda>line. list_ex (\<lambda>p. starts_with p line) prefixes) tail in
        if status_lines \<noteq> [] then last status_lines else last tail)"

definition items_with :: "string \<Rightarrow> string list \<Rightarrow> mvp_result list \<Rightarrow> mvp_item list" where
  "items_with status prefixes results =
     map (\<lambda>item. \<lparr>mi_name = mr_name item, mi_tier = mr_tier item,
            mi_detail = status_detail prefixes (mr_log_tail item),
            mi_next_command = join '' '' (mr_command item)\<rparr>)
       (filter (\<lambda>item. mr_status item = status) results)"

definition blocked_items :: "mvp_result list \<Rightarrow> mvp_item list" where
  "blocked_items = items_with ''blocked'' [''STATUS: BLOCKED '', ''BLOCKED:'']"

definition failed_items :: "mvp_result list \<Rightarrow> mvp_item list" where
  "failed_items = items_with ''fail'' [''STATUS: FAIL '', ''FAIL:'']"

definition smoke_log :: "ppath \<Rightarrow> ppath" where
  "smoke_log repo = path_join repo (path_of (CHIPYARD_OUT @ ''/verilator-linux-smoke.log''))"

definition integrated_linux_npu_ml_claim :: "ppath \<Rightarrow> world \<Rightarrow> (bool \<times> string list) py" where
  "integrated_linux_npu_ml_claim repo w =
     (let log_path = smoke_log repo in
      if \<not> is_file w log_path then
        Inr (False, [''missing generated-AP Linux/NPU transcript: '' @ mvp_path repo log_path])
      else
        rbind (read_text w log_path) (\<lambda>t.
        let missing = filter (\<lambda>marker. \<not> contains marker t) INTEGRATED_NPU_LINUX_MARKERS in
        Inr (missing = [],
          map (\<lambda>marker. mvp_path repo log_path @ '' lacks required integrated Linux+NPU marker: '' @ marker) missing)))"

definition evidence_artifacts :: "ppath \<Rightarrow> world \<Rightarrow> pyv py" where
  "evidence_artifacts repo w =
     rbind (mapR (\<lambda>(key, path). rbind (file_artifact repo (path_join repo (path_of path)) w) (\<lambda>v. Inr (key, v)))
       [(''aggregate_report'', REPORT),
        (''generated_ap_manifest'', CHIPYARD_OUT @ ''/OpenAgentRocketConfig.manifest.json''),
        (''boot_transcript'', CHIPYARD_OUT @ ''/verilator-linux-smoke.log''),
        (''boot_manifest'', CHIPYARD_OUT @ ''/verilator-linux-smoke.json''),
        (''npu_ml_transcript'', MVP_NPU_TRANSCRIPT),
        (''npu_ml_manifest'', MVP_NPU_REPORT),
        (''npu_scale_report'', MVP_NPU_SCALE_REPORT)]) (\<lambda>d. Inr (PDict d))"

section \<open>The report\<close>

definition claim_boundary :: string where
  "claim_boundary =
   ''Simulator MVP separates qemu-virt/Renode/Android reference evidence from OS running on generated ''
    @ ''OpenAgent AP/e1-chip RTL. qemu_os_boot may be claimed only as reference_qemu_virt_os_boot_claim. ''
    @ ''Renode smoke is renode_reference_only unless a generated e1-chip hardware model and transcript are ''
    @ ''archived. OS on our chip may be claimed only when on_chip_os_boot_claim is true from generated ''
    @ ''AP/Linux evidence; qemu-virt, Renode, and Android simulator evidence do not satisfy that claim. The ''
    @ ''minimum Linux+NPU target may be claimed only when minimum_linux_npu_target_claim is true from one ''
    @ ''generated-AP Linux transcript that also contains the e1 NPU ML smoke PASS markers; local NPU ''
    @ ''runtime smoke alone does not satisfy the integrated target. It is not a fabrication or phone-class ''
    @ ''performance claim.''"

text \<open>What \<open>main\<close> derives from the results and the integrated transcript.\<close>

definition passed_with :: "(mvp_result \<Rightarrow> bool) \<Rightarrow> mvp_result list \<Rightarrow> bool" where
  "passed_with P results = list_ex (\<lambda>item. P item \<and> mr_status item = ''pass'') results"

definition on_chip_os_boot_passed :: "mvp_result list \<Rightarrow> bool" where
  "on_chip_os_boot_passed =
     passed_with (\<lambda>r. mr_name r = ''chipyard_verilator_linux_smoke'' \<and> mr_scope r = ''our_chip_os_boot'')"

definition npu_ml_smoke_passed :: "mvp_result list \<Rightarrow> bool" where
  "npu_ml_smoke_passed = passed_with (\<lambda>r. mr_name r = ''npu_ml_smoke'')"

definition overall_status :: "mvp_result list \<Rightarrow> nat \<Rightarrow> string \<times> int" where
  "overall_status results n =
     (let statuses = map mr_status results in
      if ''fail'' \<in> set statuses then (''fail'', 1)
      else if ''blocked'' \<in> set statuses \<or> length results \<noteq> n then (''blocked'', 2)
      else (''pass'', 0))"

definition on_chip_blockers :: "mvp_result list \<Rightarrow> mvp_item list" where
  "on_chip_blockers results =
     filter (\<lambda>item. list_ex (\<lambda>r. mr_name r = mi_name item
         \<and> mr_scope r \<in> {''our_chip_prereq'', ''our_chip_os_boot''}) results)
       (blocked_items results)"

definition minimum_target_blockers :: "mvp_result list \<Rightarrow> bool \<Rightarrow> string list \<Rightarrow> mvp_item list" where
  "minimum_target_blockers results integrated integrated_blockers =
     on_chip_blockers results
     @ (if \<not> npu_ml_smoke_passed results
        then filter (\<lambda>item. mi_name item = ''npu_ml_smoke'') (blocked_items results) else [])
     @ (if \<not> integrated
        then [\<lparr>mi_name = ''integrated_linux_npu_ml_transcript'', mi_tier = ''npu_ml'',
               mi_detail = join ''; '' integrated_blockers,
               mi_next_command = ''python3 scripts/run_mvp_simulator.py''\<rparr>] else [])"

definition item_json :: "mvp_item \<Rightarrow> pyv" where
  "item_json item = PDict
     [(''name'', PStr (mi_name item)), (''tier'', PStr (mi_tier item)), (''detail'', PStr (mi_detail item)),
      (''next_command'', PStr (mi_next_command item))]"

definition strings :: "string list \<Rightarrow> pyv" where
  "strings xs = PList (map PStr xs)"

definition result_json :: "mvp_result \<Rightarrow> pyv" where
  "result_json r = PDict
     [(''name'', PStr (mr_name r)), (''tier'', PStr (mr_tier r)), (''scope'', PStr (mr_scope r)),
      (''claim'', PStr (mr_claim r)), (''command'', strings (mr_command r)),
      (''executed_command'', strings (mr_executed_command r)),
      (''timeout_seconds'', PInt (mr_timeout_seconds r)), (''status'', PStr (mr_status r)),
      (''returncode'', PInt (mr_returncode r)), (''elapsed_seconds'', PFloat (mr_elapsed_seconds r)),
      (''artifacts'', PList (mr_artifacts r)), (''log_tail'', strings (mr_log_tail r))]"

definition best_field :: "(mvp_result \<Rightarrow> string) \<Rightarrow> mvp_result option \<Rightarrow> pyv" where
  "best_field f best = PStr (case best of None \<Rightarrow> ''none'' | Some r \<Rightarrow> f r)"

definition mvp_report :: "mvp_result list \<Rightarrow> nat \<Rightarrow> bool \<Rightarrow> string list \<Rightarrow> pyv \<Rightarrow> pyv" where
  "mvp_report results n integrated integrated_blockers artifacts =
     (let best = best_executable_evidence results; reference = best_reference_evidence results;
          on_chip = on_chip_os_boot_passed results; npu = npu_ml_smoke_passed results in
      PDict
       [(''schema'', PStr ''openagent.mvp_simulator.v1''),
        (''status'', PStr (fst (overall_status results n))),
        (''strongest_attempted'', PStr ''os_boot''),
        (''best_executable_evidence'', best_field mr_name best),
        (''best_executable_tier'', best_field mr_tier best),
        (''best_reference_evidence'', best_field mr_name reference),
        (''best_reference_tier'', best_field mr_tier reference),
        (''os_boot_claim'', PBool on_chip),
        (''on_chip_os_boot_claim'', PBool on_chip),
        (''reference_qemu_virt_os_boot_claim'', PBool (passed_with (\<lambda>r. mr_name r = ''qemu_os_boot'') results)),
        (''reference_android_os_boot_claim'', PBool (passed_with (\<lambda>r. mr_scope r = ''android_reference'') results)),
        (''npu_ml_smoke_claim'', PBool npu),
        (''integrated_linux_npu_ml_claim'', PBool integrated),
        (''minimum_linux_npu_target_claim'', PBool (on_chip \<and> npu \<and> integrated)),
        (''qemu_virt_reference_only'', PBool True),
        (''renode_reference_only'', PBool True),
        (''blockers_to_on_chip_os_boot'', PList (map item_json (on_chip_blockers results))),
        (''blockers_to_minimum_linux_npu_target'',
           PList (map item_json (minimum_target_blockers results integrated integrated_blockers))),
        (''remaining_blockers'', PList (map item_json (blocked_items results))),
        (''failures'', PList (map item_json (failed_items results))),
        (''artifacts'', artifacts),
        (''manifest_paths'', strings
           [''build/reports/mvp_simulator.json'', ''build/chipyard/openagent_rocket/verilator-linux-smoke.json'',
            ''build/reports/mvp_npu_ml_smoke.json'',
            ''build/chipyard/openagent_rocket/OpenAgentRocketConfig.manifest.json'']),
        (''claim_boundary'', PStr claim_boundary),
        (''results'', PList (map result_json results))])"

definition summary_lines :: "mvp_result list \<Rightarrow> pyv \<Rightarrow> string list" where
  "summary_lines results report =
     (let field = (\<lambda>k. py_str (get report k)) in
      [''MVP simulator '' @ field ''status'' @ ''; wrote '' @ REPORT,
       ''  strongest_attempted: '' @ field ''strongest_attempted'',
       ''  best_executable_evidence: '' @ field ''best_executable_evidence'' @ '' ('' @ field ''best_executable_tier'' @ '')'',
       ''  best_reference_evidence: '' @ field ''best_reference_evidence'' @ '' ('' @ field ''best_reference_tier'' @ '')'']
      @ map (\<lambda>k. ''  '' @ k @ '': '' @ lower (field k))
          [''reference_qemu_virt_os_boot_claim'', ''on_chip_os_boot_claim'', ''npu_ml_smoke_claim'',
           ''integrated_linux_npu_ml_claim'', ''minimum_linux_npu_target_claim'']
      @ map (\<lambda>r. ''  - '' @ mr_name r @ '': '' @ mr_status r) results)"

text \<open>The exit code, the report and the printed lines; the report replaces the earlier one.\<close>

definition write_report :: "ppath \<Rightarrow> pyv \<Rightarrow> (world, py_exc, unit) est" where
  "write_report repo report = (\<lambda>w.
     (Inr (), replace_file w (path_join repo (path_of (REPORT @ ''.tmp''))) (path_join repo (path_of REPORT))
        (json_dumps True report @ [CHR 0x0A])))"

definition mvp_main :: "mvp_host \<Rightarrow> ppath \<Rightarrow> (world, py_exc, int \<times> pyv \<times> string list) est" where
  "mvp_main host repo =
     ebind (\<lambda>w. (Inr (), make_dirs w (path_parent (path_join repo (path_of REPORT))))) (\<lambda>_.
     ebind (mapE (run_step host repo) (STEPS (mh_executable host))) (\<lambda>results.
     ebind (observe (integrated_linux_npu_ml_claim repo)) (\<lambda>(integrated, integrated_blockers).
     ebind (observe (evidence_artifacts repo)) (\<lambda>artifacts.
     let n = length (STEPS (mh_executable host));
         report = mvp_report results n integrated integrated_blockers artifacts in
     eseq (write_report repo report)
       (eret (snd (overall_status results n), report, summary_lines results report))))))"

end
