(* ===== verification/Mvp_Sound.thy ===== *)
theory Mvp_Sound
  imports Mvp_Sim
begin

text \<open>
  What the claims and the exit code of the simulator runner mean: a claim stands on commands that
  ended with code 0 and their markers, and a target that is not reached is explained.
\<close>

section \<open>One step\<close>

text \<open>The step was not skipped, and some run of its command ended with code 0 and every marker.\<close>

definition ran_clean :: "mvp_host \<Rightarrow> mvp_step \<Rightarrow> bool" where
  "ran_clean host step \<longleftrightarrow> skip_reason host step = None
     \<and> (\<exists>executed w out. wrapped_command host step = Inr executed \<and> fst (mh_run host executed w) = Inr (0, out)
          \<and> (\<forall>marker \<in> set (ms_pass_markers step). contains marker out))"

lemma timeout_returns: "\<exists>n \<ge> 1. timeout_seconds host step = Inr n"
proof -
  define key where "key = ''MVP_SIMULATOR_TIMEOUT_'' @ map upper_char (ms_name step) @ ''_SECONDS''"
  define raw where "raw = first_true
    [environ_get host ''MVP_SIMULATOR_FORCE_TIMEOUT_SECONDS'', environ_get host key,
     environ_get host ''MVP_SIMULATOR_DEFAULT_TIMEOUT_SECONDS'', PInt (ms_timeout_seconds step)]
    (PInt DEFAULT_TIMEOUT_SECONDS)"
  have "(\<exists>s. raw = PStr s) \<or> (\<exists>i. raw = PInt i)"
    by (simp add: raw_def environ_get_def split: option.splits)
  then have "\<exists>n \<ge> 1. (case py_int raw of Inl PyTypeError \<Rightarrow> Inr DEFAULT_TIMEOUT_SECONDS
      | Inl (PyValueError _) \<Rightarrow> Inr DEFAULT_TIMEOUT_SECONDS | Inl e \<Rightarrow> Inl e
      | Inr value \<Rightarrow> Inr (max 1 value)) = Inr n"
    by (auto simp: DEFAULT_TIMEOUT_SECONDS_def split: option.splits)
  then show ?thesis by (simp add: timeout_seconds_def raw_def key_def Let_def)
qed

lemma classify_cases: "classify code out step \<in> {''pass'', ''blocked'', ''fail''}"
  by (simp add: classify_def)

lemma classify_pass:
  "classify code out step = ''pass'' \<longleftrightarrow> code = 0 \<and> (\<forall>m \<in> set (ms_pass_markers step). contains m out)"
  by (auto simp: classify_def list_all_iff)

lemma step_result_fields [simp]:
  "mr_name (step_result step ex n st c el ar tail) = ms_name step"
  "mr_tier (step_result step ex n st c el ar tail) = ms_tier step"
  "mr_scope (step_result step ex n st c el ar tail) = ms_scope step"
  "mr_status (step_result step ex n st c el ar tail) = st"
  by (simp_all add: step_result_def)

lemma run_step_Inr:
  assumes "run_step host repo step w = (Inr r, w')"
  shows "mr_name r = ms_name step" and "mr_scope r = ms_scope step"
    and "mr_status r \<in> {''pass'', ''blocked'', ''fail''}"
    and "mr_status r = ''pass'' \<Longrightarrow> ran_clean host step"
proof -
  obtain executed seconds where ex: "wrapped_command host step = Inr executed" "timeout_seconds host step = Inr seconds"
    using timeout_returns [of host step] by (auto simp: wrapped_command_def)
  have "mr_name r = ms_name step \<and> mr_scope r = ms_scope step \<and> mr_status r \<in> {''pass'', ''blocked'', ''fail''}
    \<and> (mr_status r = ''pass'' \<longrightarrow> ran_clean host step)"
  proof (cases "skip_reason host step")
    case None
    with assms ex obtain code out w1 artifacts where run: "mh_run host executed w = (Inr (code, out), w1)"
      and r: "r = step_result step executed seconds (classify code out step) code (mh_elapsed host executed) artifacts
           (last_lines 40 (split_lines out))"
      by (auto simp: run_step_def elift_def observe_def eret_def ebind_Inr_iff)
    have "classify code out step = ''pass'' \<Longrightarrow> ran_clean host step"
      using None ex run unfolding ran_clean_def classify_pass by (intro conjI exI [of _ executed] exI [of _ w] exI [of _ out]) auto
    with r classify_cases [of code out step] show ?thesis by auto
  next
    case (Some reason)
    with assms ex show ?thesis
      by (auto simp: run_step_def elift_def observe_def eret_def ebind_Inr_iff)
  qed
  then show "mr_name r = ms_name step" "mr_scope r = ms_scope step" "mr_status r \<in> {''pass'', ''blocked'', ''fail''}"
    "mr_status r = ''pass'' \<Longrightarrow> ran_clean host step" by blast+
qed

text \<open>The results of the steps, in their order.\<close>

definition results_of :: "mvp_host \<Rightarrow> mvp_step list \<Rightarrow> mvp_result list \<Rightarrow> bool" where
  "results_of host = list_all2 (\<lambda>step r. mr_name r = ms_name step \<and> mr_scope r = ms_scope step
     \<and> mr_status r \<in> {''pass'', ''blocked'', ''fail''} \<and> (mr_status r = ''pass'' \<longrightarrow> ran_clean host step))"

lemma results_of_run: "mapE (run_step host repo) xs w = (Inr rs, w') \<Longrightarrow> results_of host xs rs"
proof (induction xs arbitrary: w rs)
  case Nil
  then show ?case by (simp add: eret_def results_of_def)
next
  case (Cons x xs)
  then obtain r rs' w1 where "run_step host repo x w = (Inr r, w1)" "mapE (run_step host repo) xs w1 = (Inr rs', w')"
    "rs = r # rs'"
    by (auto simp: ebind_Inr_iff eret_def)
  moreover from this(2) have "results_of host xs rs'" by (rule Cons.IH)
  ultimately show ?case using run_step_Inr [of host repo x w r w1] by (simp add: results_of_def)
qed

lemma results_of_member:
  assumes "results_of host xs rs" "r \<in> set rs"
  obtains step where "step \<in> set xs" "mr_name r = ms_name step" "mr_scope r = ms_scope step"
    "mr_status r \<in> {''pass'', ''blocked'', ''fail''}" "mr_status r = ''pass'' \<longrightarrow> ran_clean host step"
  using assms unfolding results_of_def list_all2_conv_all_nth by (metis in_set_conv_nth)

lemma results_of_step:
  assumes "results_of host xs rs" "step \<in> set xs"
  obtains r where "r \<in> set rs" "mr_name r = ms_name step" "mr_scope r = ms_scope step"
    "mr_status r \<in> {''pass'', ''blocked'', ''fail''}" "mr_status r = ''pass'' \<longrightarrow> ran_clean host step"
  using assms unfolding results_of_def list_all2_conv_all_nth by (metis in_set_conv_nth)

section \<open>The whole run\<close>

lemma mvp_main_Inr:
  assumes "mvp_main host repo w = (Inr (code, report, lines), w')"
  obtains results integrated blockers artifacts w1 where
    "results_of host (STEPS (mh_executable host)) results"
    "length results = length (STEPS (mh_executable host))"
    "integrated_linux_npu_ml_claim repo w1 = Inr (integrated, blockers)"
    "report = mvp_report results (length (STEPS (mh_executable host))) integrated blockers artifacts"
    "code = snd (overall_status results (length (STEPS (mh_executable host))))"
    "w' = snd (write_report repo report w1)"
proof -
  let ?n = "length (STEPS (mh_executable host))"
  obtain results w0 w1 integrated blockers artifacts where
    run: "mapE (run_step host repo) (STEPS (mh_executable host)) w0 = (Inr results, w1)"
    and claim: "integrated_linux_npu_ml_claim repo w1 = Inr (integrated, blockers)"
    and rest: "report = mvp_report results ?n integrated blockers artifacts" "code = snd (overall_status results ?n)"
      "w' = snd (write_report repo report w1)"
    using assms unfolding mvp_main_def Let_def
    by (elim ebind_InrE)
      (auto simp: eseq_Inr_iff eret_def observe_def write_report_def split: prod.splits elim!: ebind_InrE)
  from results_of_run [OF run] have "results_of host (STEPS (mh_executable host)) results" .
  moreover from this have "length results = ?n" by (simp add: results_of_def list_all2_lengthD)
  ultimately show ?thesis using that claim rest by blast
qed

text \<open>Writing the report does not touch the transcript.\<close>

lemma transcript_kept: "read_text (snd (write_report repo report w)) (smoke_log repo) = read_text w (smoke_log repo)"
proof -
  have "smoke_log repo \<noteq> path_join repo (path_of REPORT)" "smoke_log repo \<noteq> path_join repo (path_of (REPORT @ ''.tmp''))"
    by (simp_all add: smoke_log_def REPORT_def CHIPYARD_OUT_def path_join_def path_of_def starts_with_def)
  then show ?thesis
    by (simp add: read_text_def write_report_def replace_file_def unlink_def write_file_def read_bytes_def split: option.splits)
qed

lemma integrated_claim_sound:
  assumes "integrated_linux_npu_ml_claim repo w = Inr (True, blockers)"
  obtains t where "read_text w (smoke_log repo) = Inr t" "\<forall>m \<in> set INTEGRATED_NPU_LINUX_MARKERS. contains m t"
  using assms by (auto simp: integrated_linux_npu_ml_claim_def Let_def filter_empty_conv split: if_splits)

definition linux_smoke_step :: "string \<Rightarrow> mvp_step" where
  "linux_smoke_step exe = STEPS exe ! 8"

definition npu_smoke_step :: "string \<Rightarrow> mvp_step" where
  "npu_smoke_step exe = STEPS exe ! 9"

lemmas step_lists = STEPS_def reference_boot_steps_def generated_ap_steps_def local_steps_def

lemma smoke_steps_in:
  "linux_smoke_step exe \<in> set (STEPS exe)" "npu_smoke_step exe \<in> set (STEPS exe)"
  "ms_name (linux_smoke_step exe) = ''chipyard_verilator_linux_smoke''"
  "ms_scope (linux_smoke_step exe) = ''our_chip_os_boot''" "ms_name (npu_smoke_step exe) = ''npu_ml_smoke''"
  "ms_pass_markers (linux_smoke_step exe) = [''STATUS: PASS chipyard.verilator_linux_smoke'']"
  "ms_pass_markers (npu_smoke_step exe) = [''STATUS: PASS mvp.npu_ml_smoke'']"
  by (auto simp: step_lists linux_smoke_step_def npu_smoke_step_def)

lemma step_names: "distinct (map ms_name (STEPS exe))"
  by (simp add: step_lists)

lemma smoke_steps:
  assumes "step \<in> set (STEPS exe)"
  shows "ms_name step = ''chipyard_verilator_linux_smoke'' \<Longrightarrow> step = linux_smoke_step exe"
    and "ms_name step = ''npu_ml_smoke'' \<Longrightarrow> step = npu_smoke_step exe"
  using assms smoke_steps_in step_names [of exe] unfolding distinct_map inj_on_def by metis+

lemma passed_ran_clean:
  assumes "results_of host xs rs" "passed_with P rs"
  obtains step r where "P r" "step \<in> set xs" "mr_name r = ms_name step" "ran_clean host step"
  using assms unfolding passed_with_def list_ex_iff by (metis results_of_member)

lemma report_fields:
  "get (mvp_report results n integrated bs artifacts) ''minimum_linux_npu_target_claim'' =
     PBool (on_chip_os_boot_passed results \<and> npu_ml_smoke_passed results \<and> integrated)"
  "get (mvp_report results n integrated bs artifacts) ''blockers_to_minimum_linux_npu_target'' =
     PList (map item_json (minimum_target_blockers results integrated bs))"
  "get (mvp_report results n integrated bs artifacts) ''status'' = PStr (fst (overall_status results n))"
  by (simp_all add: mvp_report_def Let_def get_def get_or_def)

section \<open>The claims\<close>

text \<open>C26: A report claims the minimum Linux and NPU target only when neither smoke step was skipped,
  a run of the generated-AP Linux smoke checker and one of the NPU smoke checker each ended with
  code 0 and printed the PASS line, and the generated-AP transcript that is on disk when the
  run ends holds every integrated marker.\<close>

theorem minimum_target_claim_sound:
  assumes "mvp_main host repo w = (Inr (code, report, lines), w')"
    and "get report ''minimum_linux_npu_target_claim'' = PBool True"
  shows "ran_clean host (linux_smoke_step (mh_executable host)) \<and> ran_clean host (npu_smoke_step (mh_executable host))
    \<and> (\<exists>t. read_text w' (smoke_log repo) = Inr t \<and> (\<forall>m \<in> set INTEGRATED_NPU_LINUX_MARKERS. contains m t))"
proof -
  from assms(1) obtain results integrated blockers artifacts w1 where
    res: "results_of host (STEPS (mh_executable host)) results"
    and claim: "integrated_linux_npu_ml_claim repo w1 = Inr (integrated, blockers)"
    and report: "report = mvp_report results (length (STEPS (mh_executable host))) integrated blockers artifacts"
    and w': "w' = snd (write_report repo report w1)"
    by (rule mvp_main_Inr)
  from assms(2) report have passed: "on_chip_os_boot_passed results" "npu_ml_smoke_passed results" integrated
    by (simp_all add: report_fields)
  have "ran_clean host (linux_smoke_step (mh_executable host))"
    using passed(1) unfolding on_chip_os_boot_passed_def by (rule passed_ran_clean [OF res]) (use smoke_steps(1) in auto)
  moreover have "ran_clean host (npu_smoke_step (mh_executable host))"
    using passed(2) unfolding npu_ml_smoke_passed_def by (rule passed_ran_clean [OF res]) (use smoke_steps(2) in auto)
  moreover have "\<exists>t. read_text w' (smoke_log repo) = Inr t \<and> (\<forall>m \<in> set INTEGRATED_NPU_LINUX_MARKERS. contains m t)"
    using claim passed(3) unfolding w' transcript_kept by (auto elim: integrated_claim_sound)
  ultimately show ?thesis by blast
qed

text \<open>With no failed step and no blocker, both smoke steps passed.\<close>

lemma no_blocker_passed:
  assumes "results_of host (STEPS exe) results" "\<forall>r \<in> set results. mr_status r \<noteq> ''fail''"
    and none: "minimum_target_blockers results integrated blockers = []"
  shows "npu_ml_smoke_passed results" "on_chip_os_boot_passed results" integrated
proof -
  show integrated using none by (auto simp: minimum_target_blockers_def split: if_splits)
  show "npu_ml_smoke_passed results"
  proof (rule ccontr)
    assume not_passed: "\<not> npu_ml_smoke_passed results"
    obtain r where r: "r \<in> set results" "mr_name r = ''npu_ml_smoke''" "mr_status r \<in> {''pass'', ''blocked'', ''fail''}"
      using assms(1) smoke_steps_in(2,5) by (metis results_of_step)
    with not_passed assms(2) have "mr_status r = ''blocked''"
      by (auto simp: npu_ml_smoke_passed_def passed_with_def list_ex_iff)
    with r none not_passed show False
      by (auto simp: minimum_target_blockers_def blocked_items_def items_with_def filter_empty_conv)
  qed
  show "on_chip_os_boot_passed results"
  proof (rule ccontr)
    assume not_passed: "\<not> on_chip_os_boot_passed results"
    obtain r where r: "r \<in> set results" "mr_name r = ''chipyard_verilator_linux_smoke''" "mr_scope r = ''our_chip_os_boot''"
      "mr_status r \<in> {''pass'', ''blocked'', ''fail''}"
      using assms(1) smoke_steps_in(1,3,4) by (metis results_of_step)
    with not_passed assms(2) have "mr_status r = ''blocked''"
      by (auto simp: on_chip_os_boot_passed_def passed_with_def list_ex_iff)
    with r none show False
      by (auto simp: minimum_target_blockers_def on_chip_blockers_def blocked_items_def items_with_def filter_empty_conv
          list_ex_iff)
  qed
qed

text \<open>C27: Exit code 0 says that every step ran clean; the code is 0, 1 or 2, and 1 exactly when the
  report's status is fail; and without a failure, a target that is not claimed has at least one
  blocker in the report.\<close>

theorem unreached_target_explained:
  assumes "mvp_main host repo w = (Inr (code, report, lines), w')"
  shows "(code = 0 \<longrightarrow> (\<forall>step \<in> set (STEPS (mh_executable host)). ran_clean host step))
    \<and> code \<in> {0, 1, 2} \<and> (code = 1 \<longleftrightarrow> get report ''status'' = PStr ''fail'')
    \<and> (code \<noteq> 1 \<and> get report ''blockers_to_minimum_linux_npu_target'' = PList [] \<longrightarrow>
       get report ''minimum_linux_npu_target_claim'' = PBool True)"
proof -
  let ?steps = "STEPS (mh_executable host)"
  from assms obtain results integrated blockers artifacts where
    res: "results_of host ?steps results" and len: "length results = length ?steps"
    and report: "report = mvp_report results (length ?steps) integrated blockers artifacts"
    and code: "code = snd (overall_status results (length ?steps))"
    by (rule mvp_main_Inr)
  have "ran_clean host step" if "code = 0" "step \<in> set ?steps" for step
  proof -
    from res that(2) obtain r where "r \<in> set results" "mr_status r \<in> {''pass'', ''blocked'', ''fail''}"
      "mr_status r = ''pass'' \<longrightarrow> ran_clean host step" by (rule results_of_step)
    with that(1) code show "ran_clean host step"
      by (auto simp: overall_status_def Let_def image_iff split: if_splits)
  qed
  moreover have "code \<in> {0, 1, 2} \<and> (code = 1 \<longleftrightarrow> get report ''status'' = PStr ''fail'')"
    by (simp add: code report report_fields overall_status_def Let_def)
  moreover have "get report ''minimum_linux_npu_target_claim'' = PBool True"
    if "code \<noteq> 1" "get report ''blockers_to_minimum_linux_npu_target'' = PList []"
  proof -
    from that have "\<forall>r \<in> set results. mr_status r \<noteq> ''fail''" "minimum_target_blockers results integrated blockers = []"
      by (auto simp: code report report_fields overall_status_def Let_def image_iff split: if_splits)
    from no_blocker_passed [OF res this] show ?thesis by (simp add: report report_fields)
  qed
  ultimately show ?thesis by blast
qed

section \<open>A run that reaches the target\<close>

lemma file_artifact_returns: "(\<And>p. wd_readable w p) \<Longrightarrow> \<exists>v. file_artifact repo p w = Inr v"
  by (auto simp: file_artifact_def Let_def sha256_file_def read_bytes_def stat_size_def is_file_def split: option.splits)

lemma mapR_returns: "(\<And>x. x \<in> set xs \<Longrightarrow> \<exists>y. f x = Inr y) \<Longrightarrow> \<exists>ys. mapR f xs = Inr ys"
proof (induction xs)
  case (Cons x xs)
  then obtain y ys where "f x = Inr y" "mapR f xs = Inr ys" by (metis list.set_intros)
  then show ?case by simp
qed simp

lemma artifacts_return:
  assumes "\<And>p. wd_readable w p"
  shows "\<exists>vs. step_artifacts repo step w = Inr vs" "\<exists>v. evidence_artifacts repo w = Inr v"
proof -
  show "\<exists>vs. step_artifacts repo step w = Inr vs"
    unfolding step_artifacts_def by (rule mapR_returns) (rule file_artifact_returns [OF assms])
  have "\<exists>d. mapR (\<lambda>(key, path). rbind (file_artifact repo (path_join repo (path_of path)) w) (\<lambda>v. Inr (key, v))) xs = Inr d"
    for xs :: "(string \<times> string) list"
    using file_artifact_returns [OF assms] by (intro mapR_returns) (auto split: prod.splits)
  then show "\<exists>v. evidence_artifacts repo w = Inr v" unfolding evidence_artifacts_def by (auto simp del: mapR.simps)
qed

definition demo_host :: mvp_host where
  "demo_host = \<lparr>mh_executable = ''python3'', mh_environ = (\<lambda>_. None),
     mh_run = (\<lambda>cmd w. (Inr (0, concat (concat (map ms_pass_markers (STEPS ''python3'')))), w)),
     mh_elapsed = (\<lambda>_. Fin 1)\<rparr>"

definition demo_root :: ppath where "demo_root = PPath True [''repo'']"

definition demo_mvp_world :: world where
  "demo_mvp_world = \<lparr>wd_file = [smoke_log demo_root \<mapsto> concat INTEGRATED_NPU_LINUX_MARKERS], wd_readable = (\<lambda>_. True),
     wd_is_dir = (\<lambda>_. False), wd_executable = (\<lambda>_. False), wd_resolve = id, wd_env_path = [], wd_sha256 = id,
     wd_json = (\<lambda>_. None), wd_yaml = (\<lambda>_. None), wd_list = (\<lambda>_. []), wd_run = (\<lambda>_ _ _. OsFailure [])\<rparr>"

lemma demo_step:
  assumes "\<And>p. wd_readable w p" "step \<in> set (STEPS ''python3'')"
  shows "\<exists>r. run_step demo_host repo step w = (Inr r, w) \<and> mr_status r = ''pass''"
proof -
  obtain seconds where "timeout_seconds demo_host step = Inr seconds" using timeout_returns by blast
  moreover have "skip_reason demo_host step = None"
    by (simp add: skip_reason_def environ_get_def demo_host_def Let_def image_iff)
  moreover have "classify 0 (concat (concat (map ms_pass_markers (STEPS ''python3'')))) step = ''pass''"
    using assms(2) unfolding classify_pass by (auto intro!: contains_concat)
  moreover obtain vs where "step_artifacts repo step w = Inr vs" using artifacts_return [OF assms(1)] by blast
  ultimately show ?thesis
    by (simp add: run_step_def wrapped_command_def elift_def observe_def eret_def ebind_def)
      (simp add: demo_host_def)
qed

lemma demo_steps:
  assumes "\<And>p. wd_readable w p" "set xs \<subseteq> set (STEPS ''python3'')"
  shows "\<exists>rs. mapE (run_step demo_host repo) xs w = (Inr rs, w) \<and> (\<forall>r \<in> set rs. mr_status r = ''pass'')"
  using assms(2)
proof (induction xs)
  case (Cons x xs)
  then show ?case using demo_step [OF assms(1), of x repo] by (auto simp: ebind_def eret_def)
qed (simp add: eret_def)

lemma demo_run:
  obtains report lines w' where "mvp_main demo_host demo_root demo_mvp_world = (Inr (0, report, lines), w')"
    "get report ''minimum_linux_npu_target_claim'' = PBool True"
proof -
  define w where "w = make_dirs demo_mvp_world (path_parent (path_join demo_root (path_of REPORT)))"
  have w: "wd_readable w p" "wd_file w = wd_file demo_mvp_world" for p
    by (simp_all add: w_def make_dirs_def demo_mvp_world_def)
  obtain rs where rs: "mapE (run_step demo_host demo_root) (STEPS ''python3'') w = (Inr rs, w)"
    "\<forall>r \<in> set rs. mr_status r = ''pass''"
    using demo_steps [OF w(1), of "STEPS ''python3''"] by blast
  obtain artifacts where artifacts: "evidence_artifacts demo_root w = Inr artifacts" using artifacts_return [OF w(1)] by blast
  have "read_text w (smoke_log demo_root) = Inr (concat INTEGRATED_NPU_LINUX_MARKERS)"
    using w by (simp add: read_text_def read_bytes_def demo_mvp_world_def universal_newlines_plain INTEGRATED_NPU_LINUX_MARKERS_def)
  moreover have "is_file w (smoke_log demo_root)" using w(2) by (simp add: is_file_def demo_mvp_world_def)
  ultimately have claim: "integrated_linux_npu_ml_claim demo_root w = Inr (True, [])"
    using contains_concat [of _ INTEGRATED_NPU_LINUX_MARKERS]
    by (simp add: integrated_linux_npu_ml_claim_def Let_def filter_empty_conv filter_False)
  have res: "results_of demo_host (STEPS ''python3'') rs" using rs(1) by (rule results_of_run)
  then have len: "length rs = length (STEPS ''python3'')" by (simp add: results_of_def list_all2_lengthD)
  have overall: "overall_status rs (length rs) = (''pass'', 0)"
    using rs(2) by (auto simp: overall_status_def Let_def)
  have passed: "on_chip_os_boot_passed rs" "npu_ml_smoke_passed rs"
    unfolding on_chip_os_boot_passed_def npu_ml_smoke_passed_def passed_with_def list_ex_iff
    using results_of_step [OF res smoke_steps_in(1)] results_of_step [OF res smoke_steps_in(2)] smoke_steps_in rs(2)
    by metis+
  let ?report = "mvp_report rs (length rs) True [] artifacts"
  have exe: "mh_executable demo_host = ''python3''" by (simp add: demo_host_def)
  have "mvp_main demo_host demo_root demo_mvp_world =
    (Inr (0, ?report, summary_lines rs ?report), snd (write_report demo_root ?report w))"
    unfolding mvp_main_def exe by (simp add: ebind_def observe_def eseq_def eret_def Let_def w_def [symmetric] rs claim
        artifacts write_report_def len [symmetric] overall)
  moreover have "get ?report ''minimum_linux_npu_target_claim'' = PBool True" using passed by (simp add: report_fields)
  ultimately show ?thesis using that by blast
qed

theorem minimum_target_claim_sound_witness:
  "ran_clean demo_host (linux_smoke_step ''python3'') \<and> ran_clean demo_host (npu_smoke_step ''python3'')"
proof (rule demo_run)
  fix report lines w'
  assume "mvp_main demo_host demo_root demo_mvp_world = (Inr (0, report, lines), w')"
    and "get report ''minimum_linux_npu_target_claim'' = PBool True"
  from minimum_target_claim_sound [OF this] show ?thesis by (simp add: demo_host_def)
qed

theorem unreached_target_explained_witness:
  "ran_clean demo_host (STEPS ''python3'' ! 0)"
proof (rule demo_run)
  fix report lines w'
  assume "mvp_main demo_host demo_root demo_mvp_world = (Inr (0, report, lines), w')"
  from unreached_target_explained [OF this] show ?thesis
    using nth_mem [of 0 "STEPS ''python3''"] by (simp add: demo_host_def step_lists)
qed

end
