(* ===== verification/Platform_Gen.thy ===== *)
theory Platform_Gen
  imports Py_Files
begin

text \<open>
  \<open>scripts/gen_platform_artifacts.py\<close>: from the decoded platform contract to a Verilog header, a
  device-tree include, a C header and a JSON file, written to or compared with the generated
  directory. A line of text is a list of pieces, each of which may raise as the expression in the
  source does. Text that is written is the text read back: encoding and decoding cancel. A register
  whose name is not a string is an error here.
\<close>

section \<open>Constants\<close>

definition CONTRACT_PATH :: string where "CONTRACT_PATH = ''sw/platform/e1_platform_contract.json''"
definition OUT_DIR :: string where "OUT_DIR = ''sw/platform/generated''"

definition ARTIFACTS :: "(string \<times> string) list" where
  "ARTIFACTS = [(''vh'', ''e1_platform.vh''), (''dtsi'', ''e1-platform.dtsi''), (''h'', ''e1_platform.h''),
     (''hal'', ''e1_platform_hal.json'')]"

definition HEADER_COMMENT :: string where
  "HEADER_COMMENT = ''Generated by scripts/gen_platform_artifacts.py from ''
     @ ''sw/platform/e1_platform_contract.json. DO NOT EDIT BY HAND.''"

section \<open>Numbers in the contract\<close>

definition digit_of :: "nat \<Rightarrow> char \<Rightarrow> nat option" where
  "digit_of base c =
     (let n = of_char c :: int;
          d = (if is_digit c then n - 48 else if 97 \<le> n \<and> n \<le> 122 then n - 87
               else if 65 \<le> n \<and> n \<le> 90 then n - 55 else 36)
      in if d < int base then Some (nat d) else None)"

fun read_digits :: "nat \<Rightarrow> nat \<Rightarrow> string \<Rightarrow> nat option" where
  "read_digits base acc [] = Some acc"
| "read_digits base acc (c # s) =
     (case digit_of base c of None \<Rightarrow> None | Some d \<Rightarrow> read_digits base (base * acc + d) s)"

text \<open>\<open>int(s, 0)\<close> of a text without underscores.\<close>

definition unsigned_auto :: "string \<Rightarrow> nat option" where
  "unsigned_auto s =
     (case s of
        z # b # r \<Rightarrow>
          if z = CHR ''0'' \<and> b \<in> set ''xX'' then if r = [] then None else read_digits 16 0 r
          else if z = CHR ''0'' \<and> b \<in> set ''oO'' then if r = [] then None else read_digits 8 0 r
          else if z = CHR ''0'' \<and> b \<in> set ''bB'' then if r = [] then None else read_digits 2 0 r
          else if z = CHR ''0'' \<and> read_digits 10 0 s \<noteq> Some 0 then None
          else read_digits 10 0 s
      | [_] \<Rightarrow> read_digits 10 0 s
      | [] \<Rightarrow> None)"

definition int_auto :: "string \<Rightarrow> int option" where
  "int_auto s0 = (let (sg, s) = read_sign (strip s0) in map_option (\<lambda>n. sg * int n) (unsigned_auto s))"

text \<open>\<open>_h\<close> and \<open>_hex\<close>.\<close>

definition h_int :: "pyv \<Rightarrow> int py" where
  "h_int v =
     (if is_int v then Inr (as_int v)
      else let s = filter (\<lambda>c. c \<noteq> CHR ''_'') (py_str v) in
        case int_auto s of None \<Rightarrow> Inl (PyValueError (''invalid literal for int() with base 0: '' @ repr_str s))
        | Some i \<Rightarrow> Inr i)"

definition hex_text :: "pyv \<Rightarrow> nat \<Rightarrow> string py" where
  "hex_text v width = rbind (h_int v) (\<lambda>i. Inr (''0x'' @ fmt_int 16 True width i))"

section \<open>The contract\<close>

definition load_contract :: "ppath \<Rightarrow> world \<Rightarrow> pyv py" where
  "load_contract repo w = rbind (read_text w (path_join repo (path_of CONTRACT_PATH))) (json_loads w)"

definition cpu_variant :: "pyv \<Rightarrow> pyv py" where
  "cpu_variant contract =
     rbind (py_in ''e1_chip_cpu_variant'' contract) (\<lambda>present.
     if \<not> present then
       Inl (PySystemExit ''contract is missing e1_chip_cpu_variant; extend sw/platform/e1_platform_contract.json'')
     else py_item contract ''e1_chip_cpu_variant'')"

text \<open>\<open>v[k1][k2]...\<close>.\<close>

definition item_at :: "pyv \<Rightarrow> string list \<Rightarrow> pyv py" where
  "item_at v ks = foldR (\<lambda>k x. py_item x k) ks v"

text \<open>The regions by name; a later region of the same name replaces an earlier one.\<close>

definition e1_chip_regions :: "pyv \<Rightarrow> (pyv \<times> pyv) list py" where
  "e1_chip_regions contract =
     rbind (item_at contract [''e1_chip'', ''regions'']) (\<lambda>rs.
     rbind (py_iter rs) (\<lambda>regions.
     mapR (\<lambda>region. rbind (py_item region ''name'') (\<lambda>name.
       if hashable name then Inr (name, region) else Inl PyTypeError)) regions))"

definition region_of :: "(pyv \<times> pyv) list \<Rightarrow> string \<Rightarrow> pyv option" where
  "region_of regions name = map_option snd (find (\<lambda>(k, _). k = PStr name) (rev regions))"

section \<open>Lines of text\<close>

definition lit :: "string \<Rightarrow> string py" where "lit s = Inr s"
definition tabs :: "nat \<Rightarrow> string" where "tabs n = replicate n (CHR 0x09)"
definition eol :: string where "eol = [CHR 0x0A]"

definition line :: "string py list \<Rightarrow> string py" where
  "line parts = rbind (mapR id parts) (\<lambda>ss. Inr (concat ss))"

text \<open>\<open>{_h(e):08X}\<close>, \<open>{_h(e):x}\<close>, \<open>{_hex(e, width)}\<close>, \<open>{int(e)}\<close> and \<open>{e}\<close>.\<close>

definition h_upper8 :: "pyv py \<Rightarrow> string py" where
  "h_upper8 e = rbind e (\<lambda>v. rbind (h_int v) (\<lambda>i. Inr (fmt_int 16 True 8 i)))"

definition h_lower :: "pyv py \<Rightarrow> string py" where
  "h_lower e = rbind e (\<lambda>v. rbind (h_int v) (\<lambda>i. Inr (fmt_int 16 False 0 i)))"

definition hx :: "nat \<Rightarrow> pyv py \<Rightarrow> string py" where
  "hx width e = rbind e (\<lambda>v. hex_text v width)"

definition dec :: "pyv py \<Rightarrow> string py" where
  "dec e = rbind e (\<lambda>v. rbind (py_int v) (\<lambda>i. Inr (dec_str i)))"

definition as_text :: "pyv py \<Rightarrow> string py" where
  "as_text e = rbind e (\<lambda>v. Inr (py_str v))"

text \<open>A part of the text, and the lines joined by line ends.\<close>

definition part :: "string py list \<Rightarrow> string list py" where
  "part ls = mapR id ls"

definition parts_of :: "('a \<Rightarrow> string list py) \<Rightarrow> 'a list \<Rightarrow> string list py" where
  "parts_of f xs = rbind (mapR f xs) (\<lambda>lss. Inr (concat lss))"

definition joined :: "string list py list \<Rightarrow> string py" where
  "joined ps = rbind (mapR id ps) (\<lambda>lss. Inr (join eol (concat lss)))"

section \<open>The Verilog header\<close>

definition vh_head :: "pyv \<Rightarrow> string list py" where
  \<open>vh_head v = part
     [lit (''// '' @ HEADER_COMMENT),
      lit ''`ifndef E1_PLATFORM_VH'',
      lit ''`define E1_PLATFORM_VH'',
      lit [],
      line [lit (''`define E1_RESET_VECTOR 32'h''), h_upper8 (item_at v [''boot'', ''reset_vector''])],
      line [lit (''`define E1_ROM_BASE     32'h''), h_upper8 (item_at v [''boot'', ''rom_base''])],
      line [lit (''`define E1_ROM_SIZE     32'h''), h_upper8 (item_at v [''boot'', ''rom_size''])],
      line [lit (''`define E1_DRAM_BASE    32'h''), h_upper8 (item_at v [''dram'', ''base''])],
      line [lit (''`define E1_DRAM_SIZE    32'h''), h_upper8 (item_at v [''dram'', ''size''])],
      line [lit (''`define E1_PLIC_BASE    32'h''), h_upper8 (item_at v [''plic'', ''base''])],
      line [lit (''`define E1_PLIC_SIZE    32'h''), h_upper8 (item_at v [''plic'', ''size''])],
      line [lit (''`define E1_CLINT_BASE   32'h''), h_upper8 (item_at v [''clint'', ''base''])],
      line [lit (''`define E1_CLINT_SIZE   32'h''), h_upper8 (item_at v [''clint'', ''size''])],
      line [lit (''`define E1_UART_BASE    32'h''), h_upper8 (item_at v [''uart'', ''base''])],
      line [lit (''`define E1_UART_SIZE    32'h''), h_upper8 (item_at v [''uart'', ''size''])],
      lit []]\<close>

definition vh_device :: "string \<Rightarrow> pyv \<Rightarrow> string list py" where
  \<open>vh_device name dev =
     (let u = map upper_char name in part
        [line [lit (''`define E1_'' @ u @ ''_BASE    32'h''), h_upper8 (item_at dev [''base''])],
         line [lit (''`define E1_'' @ u @ ''_SIZE    32'h''), h_upper8 (item_at dev [''size''])]])\<close>

text \<open>One line per interrupt, after the given word.\<close>

definition irq_lines :: "string \<Rightarrow> pyv \<Rightarrow> string list py" where
  "irq_lines define v =
     rbind (item_at v [''interrupts'']) (\<lambda>irqs.
     rbind (py_items irqs) (\<lambda>entries.
     part (map (\<lambda>(irq_name, irq_id). line [lit (define @ '' E1_'' @ irq_name @ '' ''), dec (Inr irq_id)]) entries)))"

definition device_parts :: "(string \<Rightarrow> pyv \<Rightarrow> string list py) \<Rightarrow> pyv \<Rightarrow> string list py" where
  "device_parts f v =
     rbind (item_at v [''devices'']) (\<lambda>devices.
     rbind (py_items devices) (\<lambda>entries. parts_of (\<lambda>(name, dev). f name dev) entries))"

definition gen_verilog_header :: "pyv \<Rightarrow> string py" where
  \<open>gen_verilog_header contract =
     rbind (cpu_variant contract) (\<lambda>v. joined
       [vh_head v, device_parts vh_device v, Inr [[]], irq_lines ''`define'' v,
        Inr [[], ''`endif // E1_PLATFORM_VH'', []]])\<close>

section \<open>The device-tree include\<close>

definition reg :: "pyv py \<Rightarrow> pyv py \<Rightarrow> string py" where
  "reg b s = line [lit ''<0x0 '', hx 8 b, lit '' 0x0 '', hx 8 s, lit ''>'']"

definition dtsi_head :: "pyv \<Rightarrow> string list py" where
  \<open>dtsi_head v = part
     [lit ''// SPDX-License-Identifier: GPL-2.0-only OR BSD-2-Clause'',
      lit (''// '' @ HEADER_COMMENT),
      lit ''/ {'',
      lit (tabs 1 @ ''#address-cells = <2>;''),
      lit (tabs 1 @ ''#size-cells = <2>;''),
      lit [],
      lit (tabs 1 @ ''cpus {''),
      lit (tabs 2 @ ''#address-cells = <1>;''),
      lit (tabs 2 @ ''#size-cells = <0>;''),
      line [lit (tabs 2 @ ''timebase-frequency = <''), dec (item_at v [''timebase_frequency_hz'']), lit ''>;''],
      lit (tabs 2 @ ''cpu@0 {''),
      lit (tabs 3 @ ''device_type = "cpu";''),
      lit (tabs 3 @ ''reg = <0>;''),
      lit (tabs 3 @ ''status = "okay";''),
      lit (tabs 3 @ ''compatible = "riscv";''),
      line [lit (tabs 3 @ ''riscv,isa = "''), as_text (item_at v [''isa'']), lit ''";''],
      lit (tabs 3 @ ''mmu-type = "riscv,sv39";''),
      lit (tabs 3 @ ''cpu0_intc: interrupt-controller {''),
      lit (tabs 4 @ ''#interrupt-cells = <1>;''),
      lit (tabs 4 @ ''interrupt-controller;''),
      lit (tabs 4 @ ''compatible = "riscv,cpu-intc";''),
      lit (tabs 3 @ ''};''),
      lit (tabs 2 @ ''};''),
      lit (tabs 1 @ ''};''),
      lit [],
      line [lit (tabs 1 @ ''memory@''), h_lower (item_at v [''dram'', ''base'']), lit '' {''],
      lit (tabs 2 @ ''device_type = "memory";''),
      line [lit (tabs 2 @ ''reg = ''), reg (item_at v [''dram'', ''base'']) (item_at v [''dram'', ''size'']), lit '';''],
      lit (tabs 1 @ ''};''),
      lit []]\<close>

definition dtsi_soc :: "pyv \<Rightarrow> pyv \<Rightarrow> pyv \<Rightarrow> pyv \<Rightarrow> string list py" where
  \<open>dtsi_soc clint plic uart irqs = part
     [lit (tabs 1 @ ''soc {''),
      lit (tabs 2 @ ''compatible = "simple-bus";''),
      lit (tabs 2 @ ''#address-cells = <2>;''),
      lit (tabs 2 @ ''#size-cells = <2>;''),
      lit (tabs 2 @ ''ranges;''),
      lit [],
      line [lit (tabs 2 @ ''clint@''), h_lower (item_at clint [''base'']), lit '' {''],
      lit (tabs 3 @ ''compatible = "sifive,clint0", "riscv,clint0";''),
      line [lit (tabs 3 @ ''reg = ''), reg (item_at clint [''base'']) (item_at clint [''size'']), lit '';''],
      line [lit (tabs 3 @ ''interrupts-extended = <&cpu0_intc 3>, <&cpu0_intc ''), dec (item_at irqs [''IRQ_TIMER'']), lit ''>;''],
      lit (tabs 2 @ ''};''),
      lit [],
      line [lit (tabs 2 @ ''plic: plic@''), h_lower (item_at plic [''base'']), lit '' {''],
      lit (tabs 3 @ ''compatible = "sifive,plic-1.0.0", "riscv,plic0";''),
      line [lit (tabs 3 @ ''reg = ''), reg (item_at plic [''base'']) (item_at plic [''size'']), lit '';''],
      lit (tabs 3 @ ''#interrupt-cells = <1>;''),
      lit (tabs 3 @ ''interrupt-controller;''),
      lit (tabs 3 @ ''interrupts-extended = <&cpu0_intc 11>, <&cpu0_intc 9>;''),
      line [lit (tabs 3 @ ''riscv,ndev = <''), dec (item_at plic [''num_sources'']), lit ''>;''],
      lit (tabs 2 @ ''};''),
      lit [],
      line [lit (tabs 2 @ ''uart0: serial@''), h_lower (item_at uart [''base'']), lit '' {''],
      line [lit (tabs 3 @ ''compatible = "''), as_text (item_at uart [''compatible'']), lit ''";''],
      line [lit (tabs 3 @ ''reg = ''), reg (item_at uart [''base'']) (item_at uart [''size'']), lit '';''],
      line [lit (tabs 3 @ ''clock-frequency = <''), dec (item_at uart [''clock_frequency_hz'']), lit ''>;''],
      line [lit (tabs 3 @ ''current-speed = <''), dec (item_at uart [''baud'']), lit ''>;''],
      line [lit (tabs 3 @ ''reg-shift = <''), dec (py_get uart ''reg_shift'' (PInt 0)), lit ''>;''],
      lit (tabs 3 @ ''interrupt-parent = <&plic>;''),
      line [lit (tabs 3 @ ''interrupts = <''), dec (item_at uart [''irq'']), lit ''>;''],
      lit (tabs 2 @ ''};''),
      lit []]\<close>

definition dtsi_device :: "string \<Rightarrow> pyv \<Rightarrow> string list py" where
  \<open>dtsi_device name dev =
     (let node = ''e1_'' @ name in part
     [line [lit (tabs 2 @ node @ '': '' @ name @ ''@''), h_lower (item_at dev [''base'']), lit '' {''],
      line [lit (tabs 3 @ ''compatible = "''), as_text (item_at dev [''compatible'']), lit ''";''],
      line [lit (tabs 3 @ ''reg = ''), reg (item_at dev [''base'']) (item_at dev [''size'']), lit '';''],
      lit (tabs 3 @ ''interrupt-parent = <&plic>;''),
      line [lit (tabs 3 @ ''interrupts = <''), dec (item_at dev [''irq'']), lit ''>;''],
      lit (tabs 2 @ ''};''),
      lit []])\<close>

definition gen_dtsi :: "pyv \<Rightarrow> string py" where
  "gen_dtsi contract =
     rbind (cpu_variant contract) (\<lambda>v.
     rbind (item_at v [''plic'']) (\<lambda>plic. rbind (item_at v [''clint'']) (\<lambda>clint. rbind (item_at v [''uart'']) (\<lambda>uart.
     rbind (item_at v [''interrupts'']) (\<lambda>irqs. rbind (item_at v [''devices'']) (\<lambda>devs. joined
       [dtsi_head v, dtsi_soc clint plic uart irqs, device_parts dtsi_device v, Inr [tabs 1 @ ''};'', ''};'', []]]))))))"

section \<open>The C header\<close>

definition c_head :: "pyv \<Rightarrow> string list py" where
  \<open>c_head v = part
     [lit (''/* '' @ HEADER_COMMENT @ '' */''),
      lit ''#ifndef E1_PLATFORM_H'',
      lit ''#define E1_PLATFORM_H'',
      lit [],
      line [lit (''#define E1_RESET_VECTOR  ''), hx 8 (item_at v [''boot'', ''reset_vector'']), lit ''UL''],
      line [lit (''#define E1_ROM_BASE      ''), hx 8 (item_at v [''boot'', ''rom_base'']), lit ''UL''],
      line [lit (''#define E1_ROM_SIZE      ''), hx 8 (item_at v [''boot'', ''rom_size'']), lit ''UL''],
      line [lit (''#define E1_SBI_ENTRY     ''), hx 8 (item_at v [''boot'', ''sbi_entry'']), lit ''UL''],
      line [lit (''#define E1_KERNEL_ENTRY  ''), hx 8 (item_at v [''boot'', ''kernel_entry'']), lit ''UL''],
      lit [],
      line [lit (''#define E1_DRAM_BASE     ''), hx 8 (item_at v [''dram'', ''base'']), lit ''UL''],
      line [lit (''#define E1_DRAM_SIZE     ''), hx 8 (item_at v [''dram'', ''size'']), lit ''UL''],
      lit [],
      line [lit (''#define E1_PLIC_BASE     ''), hx 8 (item_at v [''plic'', ''base'']), lit ''UL''],
      line [lit (''#define E1_PLIC_SIZE     ''), hx 8 (item_at v [''plic'', ''size'']), lit ''UL''],
      line [lit (''#define E1_PLIC_NSOURCES ''), dec (item_at v [''plic'', ''num_sources''])],
      lit [],
      line [lit (''#define E1_CLINT_BASE    ''), hx 8 (item_at v [''clint'', ''base'']), lit ''UL''],
      line [lit (''#define E1_CLINT_SIZE    ''), hx 8 (item_at v [''clint'', ''size'']), lit ''UL''],
      lit [],
      line [lit (''#define E1_UART_BASE     ''), hx 8 (item_at v [''uart'', ''base'']), lit ''UL''],
      line [lit (''#define E1_UART_SIZE     ''), hx 8 (item_at v [''uart'', ''size'']), lit ''UL''],
      line [lit (''#define E1_UART_CLK_HZ   ''), dec (item_at v [''uart'', ''clock_frequency_hz'']), lit ''U''],
      line [lit (''#define E1_UART_BAUD     ''), dec (item_at v [''uart'', ''baud'']), lit ''U''],
      line [lit (''#define E1_TIMEBASE_HZ   ''), dec (item_at v [''timebase_frequency_hz'']), lit ''U''],
      lit []]\<close>

definition c_registers :: "(pyv \<times> pyv) list \<Rightarrow> string \<Rightarrow> string list py" where
  \<open>c_registers regions name =
     (let u = map upper_char name in
      case region_of regions name of None \<Rightarrow> Inr []
      | Some region \<Rightarrow>
          if \<not> truthy region then Inr []
          else
            rbind (py_in ''registers'' region) (\<lambda>present.
            if \<not> present then Inr []
            else
              rbind (py_item region ''registers'') (\<lambda>rs.
              rbind (py_iter rs) (\<lambda>registers. part (map (\<lambda>reg.
                line [lit (''#define E1_'' @ u @ ''_''), as_text (item_at reg [''name'']), lit (''_OFFSET ''), hx 2 (item_at reg [''offset'']), lit ''UL''])
                registers)))))\<close>

definition c_device :: "(pyv \<times> pyv) list \<Rightarrow> string \<Rightarrow> pyv \<Rightarrow> string list py" where
  \<open>c_device regions name dev =
     (let u = map upper_char name in
      rbind (part
        [line [lit (''#define E1_'' @ u @ ''_BASE     ''), hx 8 (item_at dev [''base'']), lit ''UL''],
         line [lit (''#define E1_'' @ u @ ''_SIZE     ''), hx 8 (item_at dev [''size'']), lit ''UL'']]) (\<lambda>ls.
      rbind (c_registers regions name) (\<lambda>rs. Inr (ls @ rs))))\<close>

definition gen_c_header :: "pyv \<Rightarrow> string py" where
  "gen_c_header contract =
     rbind (cpu_variant contract) (\<lambda>v.
     rbind (e1_chip_regions contract) (\<lambda>regions. joined
       [c_head v, device_parts (c_device regions) v, Inr [[]], irq_lines ''#define'' v,
        Inr [[], ''#endif /* E1_PLATFORM_H */'', []]]))"

section \<open>The JSON file\<close>

text \<open>Named entries in order, each of which may raise.\<close>

definition entries :: "(string \<times> pyv py) list \<Rightarrow> pyv py" where
  "entries es = rbind (mapR (\<lambda>(k, m). rbind m (\<lambda>v. Inr (k, v))) es) (\<lambda>d. Inr (PDict d))"

definition hx_json :: "nat \<Rightarrow> pyv py \<Rightarrow> pyv py" where
  "hx_json width e = rbind (hx width e) (\<lambda>s. Inr (PStr s))"

definition int_json :: "pyv py \<Rightarrow> pyv py" where
  "int_json e = rbind e (\<lambda>v. rbind (py_int v) (\<lambda>i. Inr (PInt i)))"

definition hal_registers :: "(pyv \<times> pyv) list \<Rightarrow> string \<Rightarrow> pyv py" where
  "hal_registers regions name =
     rbind (py_get (case region_of regions name of None \<Rightarrow> PDict [] | Some r \<Rightarrow> r) ''registers'' (PList [])) (\<lambda>rs.
     rbind (py_iter rs) (\<lambda>registers.
     rbind (mapR (\<lambda>reg. rbind (item_at reg [''name'']) (\<lambda>name. rbind (hx_json 2 (item_at reg [''offset''])) (\<lambda>v.
        if is_str name then Inr (as_str name, v) else Inl PyTypeError))) registers) (\<lambda>d.
     Inr (PDict (dupdate [] d)))))"

definition hal_device :: "(pyv \<times> pyv) list \<Rightarrow> string \<times> pyv \<Rightarrow> string \<times> pyv py" where
  "hal_device regions e = (case e of (name, dev) \<Rightarrow>
     (name, entries
       [(''base'', hx_json 8 (item_at dev [''base''])), (''size'', hx_json 8 (item_at dev [''size''])),
        (''irq'', int_json (item_at dev [''irq''])), (''compatible'', item_at dev [''compatible'']),
        (''registers'', hal_registers regions name)]))"

definition gen_hal_json :: "pyv \<Rightarrow> string py" where
  "gen_hal_json contract =
     rbind (cpu_variant contract) (\<lambda>v.
     rbind (e1_chip_regions contract) (\<lambda>regions.
     rbind (entries
       [(''_generated_from'', Inr (PStr ''sw/platform/e1_platform_contract.json'')),
        (''_generator'', Inr (PStr ''scripts/gen_platform_artifacts.py'')),
        (''platform'', Inr (PStr ''openagent-e1-cpu-variant'')),
        (''isa'', item_at v [''isa'']),
        (''memory'', entries
           [(''dram_base'', hx_json 8 (item_at v [''dram'', ''base''])), (''dram_size'', hx_json 8 (item_at v [''dram'', ''size'']))]),
        (''uart'', entries
           [(''base'', hx_json 8 (item_at v [''uart'', ''base''])), (''size'', hx_json 8 (item_at v [''uart'', ''size''])),
            (''irq'', int_json (item_at v [''uart'', ''irq''])), (''baud'', int_json (item_at v [''uart'', ''baud'']))]),
        (''interrupts'', rbind (item_at v [''interrupts'']) (\<lambda>irqs. rbind (py_items irqs) (\<lambda>es.
           entries (map (\<lambda>(k, val). (k, int_json (Inr val))) es)))),
        (''devices'', rbind (item_at v [''devices'']) (\<lambda>devs. rbind (py_items devs) (\<lambda>es.
           entries (map (hal_device regions) es))))]) (\<lambda>data.
     Inr (json_dumps True data @ eol))))"

section \<open>Writing and checking\<close>

definition GENERATORS :: "(string \<times> (pyv \<Rightarrow> string py)) list" where
  "GENERATORS = [(''vh'', gen_verilog_header), (''dtsi'', gen_dtsi), (''h'', gen_c_header), (''hal'', gen_hal_json)]"

definition generate_all :: "pyv \<Rightarrow> (string \<times> string) list py" where
  "generate_all contract =
     mapR (\<lambda>(kind, _). case map_of GENERATORS kind of None \<Rightarrow> Inl (PyKeyError kind)
       | Some g \<Rightarrow> rbind (g contract) (\<lambda>s. Inr (kind, s))) ARTIFACTS"

definition content :: "(string \<times> string) list \<Rightarrow> string \<Rightarrow> string py" where
  "content contents kind = (case map_of contents kind of None \<Rightarrow> Inl (PyKeyError kind) | Some s \<Rightarrow> Inr s)"

definition artifact_path :: "ppath \<Rightarrow> string \<Rightarrow> ppath" where
  "artifact_path repo name = path_join (path_join repo (path_of OUT_DIR)) (path_of name)"

definition shown_path :: "string \<Rightarrow> string" where
  "shown_path name = path_str (path_join (path_of OUT_DIR) (path_of name))"

definition write_all :: "ppath \<Rightarrow> (string \<times> string) list \<Rightarrow> (world, py_exc, string list) est" where
  "write_all repo contents =
     ebind (\<lambda>w. (Inr (), make_dirs w (path_join repo (path_of OUT_DIR)))) (\<lambda>_.
     mapE (\<lambda>(kind, name). ebind (elift (content contents kind)) (\<lambda>s.
       (\<lambda>w. (Inr name, write_file w (artifact_path repo name) s)))) ARTIFACTS)"

definition check_artifact :: "ppath \<Rightarrow> (string \<times> string) list \<Rightarrow> world \<Rightarrow> string \<times> string \<Rightarrow> string list py" where
  "check_artifact repo contents w a = (case a of (kind, name) \<Rightarrow>
     if \<not> is_file w (artifact_path repo name) then
       Inr [shown_path name @ '' is missing; run `make platform-artifacts`'']
     else
       rbind (read_text w (artifact_path repo name)) (\<lambda>actual.
       rbind (content contents kind) (\<lambda>expected.
       Inr (err_if (actual \<noteq> expected)
         (shown_path name @ '' is stale; regenerate with `make platform-artifacts`'')))))"

definition check_all :: "ppath \<Rightarrow> (string \<times> string) list \<Rightarrow> world \<Rightarrow> string list py" where
  "check_all repo contents w = collect (map (check_artifact repo contents w) ARTIFACTS)"

datatype gen_mode = GenStdout string | GenCheck | GenWrite

definition printed :: "string list \<Rightarrow> string" where
  "printed ls = concat (map (\<lambda>l. l @ eol) ls)"

text \<open>The exit code and the text on standard output.\<close>

definition gen_main :: "ppath \<Rightarrow> gen_mode \<Rightarrow> (world, py_exc, int \<times> string) est" where
  "gen_main repo mode =
     ebind (\<lambda>w. (rbind (load_contract repo w) generate_all, w)) (\<lambda>contents.
     case mode of
       GenStdout kind \<Rightarrow> ebind (elift (content contents kind)) (\<lambda>s. eret (0, s))
     | GenCheck \<Rightarrow>
         ebind (\<lambda>w. (check_all repo contents w, w)) (\<lambda>errors.
         eret (if errors \<noteq> [] then (1, printed (''Platform artifact check failed:'' # map (\<lambda>e. ''  - '' @ e) errors))
               else (0, printed [''Platform artifacts are up to date.''])))
     | GenWrite \<Rightarrow>
         ebind (write_all repo contents) (\<lambda>names.
         eret (0, printed (map (\<lambda>name. ''wrote '' @ shown_path name) names))))"

end
