(* ===== verification/Platform_Sound.thy ===== *)
theory Platform_Sound
  imports Platform_Gen
begin

text \<open>
  A number printed into a generated file reads back as that number, and the files just written pass
  the check unless a text of the contract carries a carriage return.
\<close>

section \<open>Hexadecimal text\<close>

lemma digit_of_digit_char: "d < 16 \<Longrightarrow> digit_of 16 (digit_char True d) = Some d"
proof -
  have "list_all (\<lambda>d. digit_of 16 (digit_char True d) = Some d) [0..<16]" by code_simp
  then show "d < 16 \<Longrightarrow> digit_of 16 (digit_char True d) = Some d" by (simp add: list_all_iff)
qed

lemma read_digit_chars:
  "list_all (\<lambda>d. d < 16) ds \<Longrightarrow>
   read_digits 16 acc (map (digit_char True) ds) = Some (foldl (\<lambda>a d. 16 * a + d) acc ds)"
  by (induction ds arbitrary: acc) (auto simp: digit_of_digit_char)

lemma nat_digits_value: "foldl (\<lambda>a d. 16 * a + d) 0 (nat_digits 16 n) = n"
  by (induction "16 :: nat" n rule: nat_digits.induct) (subst nat_digits.simps, auto)

lemma nat_digits_small: "list_all (\<lambda>d. d < 16) (nat_digits 16 n)"
  by (induction "16 :: nat" n rule: nat_digits.induct) (subst nat_digits.simps, auto)

lemma hex_digit_plain:
  assumes "d < 16"
  shows "digit_char True d \<noteq> CHR ''_''" "\<not> is_space (digit_char True d)"
proof -
  have "list_all (\<lambda>d. digit_char True d \<noteq> CHR ''_'' \<and> \<not> is_space (digit_char True d)) [0..<16]" by code_simp
  with assms show "digit_char True d \<noteq> CHR ''_''" "\<not> is_space (digit_char True d)" by (simp_all add: list_all_iff)
qed

lemma fmt_hex:
  assumes "0 \<le> i"
  obtains ds where "fmt_int 16 True width i = map (digit_char True) ds" "list_all (\<lambda>d. d < 16) ds"
    "foldl (\<lambda>a d. 16 * a + d) 0 ds = nat i" "ds \<noteq> []"
proof -
  let ?ds = "nat_digits 16 (nat i)"
  let ?zs = "replicate (width - length ?ds) (0 :: nat)"
  have zero: "digit_char True 0 = CHR ''0''" by (simp add: digit_char_def)
  have "fmt_int 16 True width i = map (digit_char True) (?zs @ ?ds)"
    using assms by (simp add: fmt_int_def Let_def zero)
  moreover have "list_all (\<lambda>d. d < 16) (?zs @ ?ds)"
    using nat_digits_small [of "nat i"] by (auto simp: list_all_iff)
  moreover have "foldl (\<lambda>a d. 16 * a + d) 0 (replicate k 0) = (0 :: nat)" for k by (induction k) auto
  then have "foldl (\<lambda>a d. 16 * a + d) 0 (?zs @ ?ds) = nat i" by (simp add: nat_digits_value)
  moreover have "?zs @ ?ds \<noteq> []" by (subst nat_digits.simps) simp
  ultimately show ?thesis using that by blast
qed

lemma dropWhile_none: "list_all (\<lambda>x. \<not> P x) xs \<Longrightarrow> dropWhile P xs = xs"
  by (cases xs) auto

lemma strip_plain: "list_all (\<lambda>c. \<not> is_space c) s \<Longrightarrow> strip s = s"
  by (simp add: strip_def dropWhile_none list_all_iff)

lemma h_int_hex:
  assumes "0 \<le> i"
  shows "h_int (PStr (''0x'' @ fmt_int 16 True width i)) = Inr i"
proof -
  obtain ds where ds: "fmt_int 16 True width i = map (digit_char True) ds" "list_all (\<lambda>d. d < 16) ds"
    "foldl (\<lambda>a d. 16 * a + d) 0 ds = nat i" "ds \<noteq> []"
    using assms by (rule fmt_hex)
  let ?t = "''0x'' @ map (digit_char True) ds"
  have keep: "filter (\<lambda>c. c \<noteq> CHR ''_'') ?t = ?t"
    using ds(2) hex_digit_plain(1) by (auto simp: list_all_iff filter_id_conv)
  have "list_all (\<lambda>c. \<not> is_space c) ?t"
    using ds(2) hex_digit_plain(2) by (auto simp: list_all_iff is_space_def)
  then have "strip ?t = ?t" by (rule strip_plain)
  then have "int_auto ?t = Some (int (nat i))"
    using ds(3,4) read_digit_chars [OF ds(2), of 0] by (simp add: int_auto_def read_sign_def unsigned_auto_def)
  with assms keep show ?thesis by (simp add: h_int_def py_str_def ds(1) Let_def)
qed

section \<open>The generated directory\<close>

lemma generate_all_Inr:
  assumes "generate_all contract = Inr contents"
  obtains a b c d where "contents = [(''vh'', a), (''dtsi'', b), (''h'', c), (''hal'', d)]"
    "gen_verilog_header contract = Inr a" "gen_dtsi contract = Inr b" "gen_c_header contract = Inr c"
    "gen_hal_json contract = Inr d"
  using assms unfolding generate_all_def ARTIFACTS_def GENERATORS_def by auto

text \<open>The files after writing.\<close>

definition written_world :: "ppath \<Rightarrow> (string \<times> string) list \<Rightarrow> world \<Rightarrow> world" where
  "written_world repo contents w =
     foldl (\<lambda>w (kind, s). case map_of ARTIFACTS kind of None \<Rightarrow> w
       | Some name \<Rightarrow> write_file w (artifact_path repo name) s)
       (make_dirs w (path_join repo (path_of OUT_DIR))) contents"

lemma write_all_run:
  assumes "contents = [(''vh'', a), (''dtsi'', b), (''h'', c), (''hal'', d)]"
  shows "write_all repo contents w = (Inr (map snd ARTIFACTS), written_world repo contents w)"
  by (simp add: assms write_all_def written_world_def ARTIFACTS_def ebind_def eret_def elift_def content_def)

lemma artifact_paths_distinct [simp]:
  "artifact_path repo n = artifact_path repo m \<longleftrightarrow> pparts (path_of n) = pparts (path_of m)"
  if "\<not> pabs (path_of n)" "\<not> pabs (path_of m)"
  using that by (simp add: artifact_path_def path_join_def OUT_DIR_def path_of_def starts_with_def)

lemma written_read:
  assumes "contents = [(''vh'', a), (''dtsi'', b), (''h'', c), (''hal'', d)]" "(kind, name) \<in> set ARTIFACTS"
    "map_of contents kind = Some s"
  shows "read_text (written_world repo contents w) (artifact_path repo name) = Inr (universal_newlines s)"
    and "is_file (written_world repo contents w) (artifact_path repo name)"
proof -
  have "read_bytes (written_world repo contents w) (artifact_path repo name) = Inr s
    \<and> is_file (written_world repo contents w) (artifact_path repo name)"
    using assms(2,3) unfolding assms(1) written_world_def ARTIFACTS_def
    by (auto simp: path_of_def starts_with_def)
  then show "read_text (written_world repo contents w) (artifact_path repo name) = Inr (universal_newlines s)"
    "is_file (written_world repo contents w) (artifact_path repo name)"
    by (simp_all add: read_text_def)
qed

lemma contract_kept:
  assumes "contents = [(''vh'', a), (''dtsi'', b), (''h'', c), (''hal'', d)]"
  shows "load_contract repo (written_world repo contents w) = load_contract repo w"
proof -
  have "path_join repo (path_of CONTRACT_PATH) \<noteq> artifact_path repo name" if "name \<in> snd ` set ARTIFACTS" for name
    using that by (auto simp: ARTIFACTS_def artifact_path_def CONTRACT_PATH_def OUT_DIR_def path_join_def path_of_def
        starts_with_def)
  then have "read_bytes (written_world repo contents w) (path_join repo (path_of CONTRACT_PATH)) =
      read_bytes w (path_join repo (path_of CONTRACT_PATH))"
    by (simp add: assms written_world_def ARTIFACTS_def)
  moreover have "wd_json (written_world repo contents w) = wd_json w"
    by (simp add: assms written_world_def ARTIFACTS_def write_file_def make_dirs_def)
  ultimately show ?thesis by (simp add: load_contract_def read_text_def json_loads_def [abs_def])
qed

text \<open>C29: Whatever the contract, a number that is not negative and was printed into a generated file
  by \<open>_hex\<close> reads back as that number.\<close>

theorem generated_hex_reads_back:
  assumes "hex_text v width = Inr s" "h_int v = Inr i" "0 \<le> i"
  shows "h_int (PStr s) = Inr i"
  using assms h_int_hex [of i width] by (auto simp: hex_text_def)

theorem generated_hex_reads_back_witness: "h_int (PStr ''0x00_3C'') = Inr 60 \<and> h_int (PStr ''0x0000003C'') = Inr 60"
proof
  show h: "h_int (PStr ''0x00_3C'') = Inr 60" by code_simp
  have "hex_text (PStr ''0x00_3C'') 8 = Inr ''0x0000003C''" by code_simp
  then show "h_int (PStr ''0x0000003C'') = Inr 60" using h by (rule generated_hex_reads_back) simp
qed

text \<open>C28: After the generator has written its files, running it with \<open>--check\<close> ends with code 0 exactly
  when none of the four texts has a carriage return, and with code 1 otherwise.\<close>

theorem regenerated_files_pass_check:
  assumes "gen_main repo GenWrite w = (Inr r, w')" "load_contract repo w = Inr contract"
  shows "\<exists>contents output. generate_all contract = Inr contents \<and>
    gen_main repo GenCheck w' =
      (Inr (if \<forall>(kind, s) \<in> set contents. CHR 0x0D \<notin> set s then 0 else 1, output), w')"
proof -
  obtain contents where gen: "generate_all contract = Inr contents" and w': "w' = snd (write_all repo contents w)"
    using assms by (auto simp: gen_main_def ebind_Inr_iff eret_def)
  then obtain a b c d where parts: "contents = [(''vh'', a), (''dtsi'', b), (''h'', c), (''hal'', d)]"
    by (elim generate_all_Inr)
  have w': "w' = written_world repo contents w" using w' write_all_run [OF parts] by simp
  have "check_artifact repo contents w' (kind, name) = Inr (err_if (CHR 0x0D \<in> set s)
      (shown_path name @ '' is stale; regenerate with `make platform-artifacts`''))"
    if "(kind, name) \<in> set ARTIFACTS" "map_of contents kind = Some s" for kind name s
    using written_read [OF parts that] that by (simp add: check_artifact_def w' content_def universal_newlines_plain)
  then have "\<exists>errors. check_all repo contents w' = Inr errors
      \<and> (errors = [] \<longleftrightarrow> (\<forall>(kind, s) \<in> set contents. CHR 0x0D \<notin> set s))"
    by (simp add: check_all_def ARTIFACTS_def parts)
  then obtain errors where "check_all repo contents w' = Inr errors"
    "errors = [] \<longleftrightarrow> (\<forall>(kind, s) \<in> set contents. CHR 0x0D \<notin> set s)" by blast
  moreover have "load_contract repo w' = Inr contract" using contract_kept [OF parts] assms(2) w' by simp
  ultimately show ?thesis using gen by (simp add: gen_main_def ebind_def eret_def)
qed

section \<open>A small contract\<close>

definition demo_span :: "(string \<times> pyv) list" where
  "demo_span = [(''base'', PStr ''0x1''), (''size'', PInt 2)]"

definition demo_contract :: pyv where
  "demo_contract = PDict
     [(''e1_chip'', PDict [(''regions'', PList
         [PDict [(''name'', PStr ''npu''), (''registers'', PList [PDict [(''name'', PStr ''CTRL''), (''offset'', PStr ''0x04'')]])]])]),
      (''e1_chip_cpu_variant'', PDict
        [(''isa'', PStr ''rv64''), (''timebase_frequency_hz'', PInt 1),
         (''boot'', PDict (map (\<lambda>k. (k, PInt 0)) [''reset_vector'', ''rom_base'', ''rom_size'', ''sbi_entry'', ''kernel_entry''])),
         (''dram'', PDict demo_span), (''plic'', PDict (demo_span @ [(''num_sources'', PInt 3)])), (''clint'', PDict demo_span),
         (''uart'', PDict (demo_span @ [(''compatible'', PStr ''ns16550''), (''clock_frequency_hz'', PInt 1), (''baud'', PInt 1),
            (''irq'', PInt 4)])),
         (''interrupts'', PDict [(''IRQ_TIMER'', PInt 7)]),
         (''devices'', PDict [(''npu'', PDict (demo_span @ [(''irq'', PInt 5), (''compatible'', PStr ''openagent,e1-npu'')]))])])]"

text \<open>A text without a carriage return, piece by piece.\<close>

definition clean_text :: "string py \<Rightarrow> bool" where
  "clean_text m = (case m of Inl _ \<Rightarrow> False | Inr s \<Rightarrow> CHR 0x0D \<notin> set s)"

definition clean_lines :: "string list py \<Rightarrow> bool" where
  "clean_lines m = (case m of Inl _ \<Rightarrow> False | Inr ls \<Rightarrow> \<forall>l \<in> set ls. CHR 0x0D \<notin> set l)"

lemma clean_all:
  "(\<exists>ss. mapR id ms = Inr ss \<and> (\<forall>s \<in> set ss. CHR 0x0D \<notin> set s)) \<longleftrightarrow> list_all clean_text ms"
proof (induction ms)
  case (Cons m ms)
  then show ?case by (cases m) (auto simp: clean_text_def)
qed simp

lemma clean_all_lines:
  "(\<exists>lss. mapR id ms = Inr lss \<and> (\<forall>ls \<in> set lss. \<forall>l \<in> set ls. CHR 0x0D \<notin> set l)) \<longleftrightarrow> list_all clean_lines ms"
proof (induction ms)
  case (Cons m ms)
  then show ?case by (cases m) (auto simp: clean_lines_def)
qed simp

lemma digit_char_plain: "d < 16 \<Longrightarrow> digit_char u d \<noteq> CHR 0x0D"
proof -
  have "list_all (\<lambda>d. digit_char True d \<noteq> CHR 0x0D \<and> digit_char False d \<noteq> CHR 0x0D) [0..<16]" by code_simp
  then show "d < 16 \<Longrightarrow> digit_char u d \<noteq> CHR 0x0D" by (cases u) (simp_all add: list_all_iff)
qed

lemma nat_digits_below: "2 \<le> b \<Longrightarrow> d \<in> set (nat_digits b n) \<Longrightarrow> d < b"
proof (induction b n rule: nat_digits.induct)
  case (1 b n)
  then show ?case by (cases "n < b") (auto simp: nat_digits.simps [of b n])
qed

lemma fmt_int_plain:
  assumes "2 \<le> b" "b \<le> 16"
  shows "CHR 0x0D \<notin> set (fmt_int b u w i)"
proof -
  have "digit_char u d \<noteq> CHR 0x0D" if "d \<in> set (nat_digits b (nat \<bar>i\<bar>))" for d
    using nat_digits_below [OF assms(1) that] assms(2) by (intro digit_char_plain) simp
  then show ?thesis by (force simp: fmt_int_def Let_def)
qed

lemma set_join_plain: "CHR 0x0D \<notin> set sep \<Longrightarrow> \<forall>l \<in> set ls. CHR 0x0D \<notin> set l \<Longrightarrow> CHR 0x0D \<notin> set (join sep ls)"
  by (induction sep ls rule: join.induct) auto

lemma clean_rules:
  "clean_text (lit s) \<longleftrightarrow> CHR 0x0D \<notin> set s"
  "clean_text (line ps) \<longleftrightarrow> list_all clean_text ps"
  "clean_text (h_upper8 (Inr v)) \<longleftrightarrow> \<not> isl (h_int v)"
  "clean_text (h_lower (Inr v)) \<longleftrightarrow> \<not> isl (h_int v)"
  "clean_text (hx n (Inr v)) \<longleftrightarrow> \<not> isl (h_int v)"
  "clean_text (dec (Inr v)) \<longleftrightarrow> \<not> isl (py_int v)"
  "clean_text (as_text (Inr v)) \<longleftrightarrow> CHR 0x0D \<notin> set (py_str v)"
  "clean_lines (part ls) \<longleftrightarrow> list_all clean_text ls"
  "clean_lines (Inr texts) \<longleftrightarrow> (\<forall>l \<in> set texts. CHR 0x0D \<notin> set l)"
proof -
  show "clean_text (line ps) \<longleftrightarrow> list_all clean_text ps"
    by (subst clean_all [symmetric]) (auto simp: clean_text_def line_def split: sum.splits)
  show "clean_lines (part ls) \<longleftrightarrow> list_all clean_text ls"
    by (subst clean_all [symmetric]) (auto simp: clean_lines_def part_def split: sum.splits)
qed (auto simp: clean_text_def clean_lines_def lit_def h_upper8_def h_lower_def hx_def dec_def as_text_def hex_text_def
    fmt_int_plain rbind_def split: sum.splits)

lemma clean_joined: "list_all clean_lines ms \<Longrightarrow> clean_text (joined ms)"
proof -
  assume "list_all clean_lines ms"
  then obtain lss where "mapR id ms = Inr lss" "\<forall>ls \<in> set lss. \<forall>l \<in> set ls. CHR 0x0D \<notin> set l"
    unfolding clean_all_lines [symmetric] by blast
  then show "clean_text (joined ms)"
    using set_join_plain [of eol "concat lss"] by (simp add: clean_text_def joined_def eol_def)
qed

lemma parts_of_one: "parts_of f [x] = f x"
  by (cases "f x") (simp_all add: parts_of_def)

text \<open>JSON text has no carriage return of its own.\<close>

fun no_floats :: "pyv \<Rightarrow> bool" where
  "no_floats (PFloat _) = False"
| "no_floats (PList xs) = list_all no_floats xs"
| "no_floats (PDict d) = list_all (\<lambda>(_, v). v) (map (map_prod id no_floats) d)"
| "no_floats _ = True"

lemma json_string_plain: "CHR 0x0D \<notin> set (json_string s)"
proof -
  have "CHR 0x0D \<notin> set (json_char c)" for c
  proof (cases "c = CHR 0x0D")
    case False
    then show ?thesis using fmt_int_plain [of 16 False 2 "of_char c"] by (auto simp: json_char_def Let_def)
  qed (simp add: json_char_def)
  then show ?thesis by (auto simp: json_string_def)
qed

lemma json_block_plain:
  assumes "CHR 0x0D \<notin> set l" "CHR 0x0D \<notin> set r" "\<forall>s \<in> set items. CHR 0x0D \<notin> set s"
  shows "CHR 0x0D \<notin> set (json_block l r n items)"
proof -
  have pad: "CHR 0x0D \<notin> set ([CHR 0x0A] @ replicate k (CHR '' ''))" for k by auto
  have "CHR 0x0D \<notin> set (join ('','' @ [CHR 0x0A] @ replicate (n + 2) (CHR '' '')) items)"
    using pad assms(3) by (intro set_join_plain) auto
  with assms(1,2) show ?thesis by (auto simp: json_block_def Let_def)
qed

lemma dumps_plain: "no_floats v \<Longrightarrow> CHR 0x0D \<notin> set (dumps_at srt n v)"
proof (induction srt n v rule: dumps_at.induct)
  case (6 srt n xs)
  then have "\<forall>s \<in> set (map (dumps_at srt (n + 2)) xs). CHR 0x0D \<notin> set s" by (auto simp: list_all_iff)
  then show ?case using json_block_plain [of "''[''" "'']''"] by simp
next
  case (7 srt n d)
  have "CHR 0x0D \<notin> set s" if "(k, s) \<in> set (map (map_prod id (dumps_at srt (n + 2))) d)" for k s
  proof -
    from that obtain v where "(k, v) \<in> set d" "s = dumps_at srt (n + 2) v" by auto
    with 7 show ?thesis by (fastforce simp: list_all_iff)
  qed
  moreover define items where "items = map (map_prod id (dumps_at srt (n + 2))) d"
  moreover define shown where "shown = (if srt then sort_key fst items else items)"
  ultimately have "CHR 0x0D \<notin> set s" if "(k, s) \<in> set shown" for k s using that by (simp split: if_splits)
  then have "\<forall>s \<in> set (map (\<lambda>(k, s). json_string k @ '': '' @ s) shown). CHR 0x0D \<notin> set s"
    using json_string_plain by auto
  then show ?case using json_block_plain [of "''{''" "''}''"]
    by (simp add: Let_def shown_def items_def del: map_map)
qed (simp_all add: fmt_int_plain json_string_plain)

lemma demo_numbers: "h_int (PStr ''0x1'') = Inr 1" "h_int (PStr ''0x04'') = Inr 4"
  by code_simp+

lemma clean_appended:
  "clean_lines (rbind m (\<lambda>ls. rbind m' (\<lambda>rs. Inr (ls @ rs)))) \<longleftrightarrow> clean_lines m \<and> clean_lines m'"
  by (cases m; cases m') (auto simp: clean_lines_def)

lemma demo_upper: "map upper_char ''npu'' = ''NPU''"
  by code_simp

lemmas demo_simps = demo_contract_def demo_span_def cpu_variant_def item_at_def dhas_def device_parts_def irq_lines_def
  clean_rules demo_numbers parts_of_one clean_appended demo_upper tabs_def eol_def HEADER_COMMENT_def

lemma demo_texts:
  "clean_text (gen_verilog_header demo_contract)" "clean_text (gen_dtsi demo_contract)"
  "clean_text (gen_c_header demo_contract)" "clean_text (gen_hal_json demo_contract)"
proof -
  have [simp]: "h_int (PInt i) = Inr i" for i by (simp add: h_int_def)
  show "clean_text (gen_verilog_header demo_contract)"
    by (simp add: gen_verilog_header_def demo_simps)
      (rule clean_joined, simp add: demo_simps vh_head_def vh_device_def demo_upper [simplified])
  show "clean_text (gen_dtsi demo_contract)"
    by (simp add: gen_dtsi_def demo_simps)
      (rule clean_joined, simp add: demo_simps dtsi_head_def dtsi_soc_def dtsi_device_def reg_def py_str_def)
  show "clean_text (gen_c_header demo_contract)"
    by (simp add: gen_c_header_def e1_chip_regions_def hashable_def demo_simps)
      (rule clean_joined, simp add: demo_simps c_head_def c_device_def c_registers_def region_of_def py_str_def demo_upper [simplified])
  have "no_floats v \<Longrightarrow> clean_text (Inr (json_dumps True v @ eol))" for v
    by (simp add: clean_text_def json_dumps_def dumps_plain eol_def)
  then show "clean_text (gen_hal_json demo_contract)"
    by (simp add: gen_hal_json_def e1_chip_regions_def hashable_def demo_simps entries_def hal_device_def hal_registers_def
        region_of_def hx_json_def hx_def hex_text_def int_json_def)
qed

definition demo_gen_world :: world where
  "demo_gen_world = \<lparr>wd_file = [path_of CONTRACT_PATH \<mapsto> ''{}''], wd_readable = (\<lambda>_. True),
     wd_is_dir = (\<lambda>_. False), wd_executable = (\<lambda>_. False), wd_resolve = id, wd_env_path = [], wd_sha256 = id,
     wd_json = (\<lambda>_. Some demo_contract), wd_yaml = (\<lambda>_. None), wd_list = (\<lambda>_. []), wd_run = (\<lambda>_ _ _. OsFailure [])\<rparr>"

theorem regenerated_files_pass_check_witness:
  "\<exists>r w' output. gen_main (PPath False []) GenWrite demo_gen_world = (Inr r, w')
     \<and> gen_main (PPath False []) GenCheck w' = (Inr (0, output), w')"
proof -
  let ?repo = "PPath False []"
  obtain a b c d where texts: "gen_verilog_header demo_contract = Inr a" "gen_dtsi demo_contract = Inr b"
    "gen_c_header demo_contract = Inr c" "gen_hal_json demo_contract = Inr d"
    and clean: "CHR 0x0D \<notin> set a \<union> set b \<union> set c \<union> set d"
    using demo_texts by (auto simp: clean_text_def split: sum.splits)
  then have gen: "generate_all demo_contract = Inr [(''vh'', a), (''dtsi'', b), (''h'', c), (''hal'', d)]"
    by (simp add: generate_all_def ARTIFACTS_def GENERATORS_def)
  have repo: "path_join ?repo (path_of CONTRACT_PATH) = path_of CONTRACT_PATH"
    by (simp add: path_join_def CONTRACT_PATH_def path_of_def starts_with_def)
  have load: "load_contract ?repo demo_gen_world = Inr demo_contract"
    unfolding load_contract_def repo by (simp add: read_text_def read_bytes_def demo_gen_world_def json_loads_def)
  obtain r w' where run: "gen_main ?repo GenWrite demo_gen_world = (Inr r, w')"
    using gen load write_all_run [OF refl, of ?repo a b c d demo_gen_world]
    by (simp add: gen_main_def ebind_def eret_def)
  from regenerated_files_pass_check [OF this load] gen clean
  have "\<exists>output. gen_main ?repo GenCheck w' = (Inr (0, output), w')" by auto
  with run show ?thesis by blast
qed

end
