(* ===== verification/Ap_Evidence.thy ===== *)
theory Ap_Evidence
  imports Py_Check Py_Files
begin

text \<open>
  \<open>scripts/cpu_ap_evidence_lib.py\<close>: the manifest of CPU/AP evidence, the rules a transcript must
  satisfy, and the digests of files and directory trees. Failures are gathered by the
  writer of checks. The text of a JSON decoding error is left out of the messages.
\<close>

section \<open>Constants\<close>

definition SELECTED_MANIFEST :: string where
  "SELECTED_MANIFEST = ''docs/generators/chipyard/openagent-rocket-manifest.json''"
definition IMPORT_TEMPLATE :: string where
  "IMPORT_TEMPLATE = ''docs/generators/chipyard/import-manifest.template.json''"
definition GENERATED_MANIFEST :: string where
  "GENERATED_MANIFEST = ''build/chipyard/openagent_rocket/OpenAgentRocketConfig.manifest.json''"
definition EVIDENCE_MANIFEST :: string where
  "EVIDENCE_MANIFEST = ''docs/evidence/cpu-ap-evidence-manifest.json''"
definition PLATFORM_CONTRACT :: string where
  "PLATFORM_CONTRACT = ''sw/platform/e1_platform_contract.json''"

definition EXPECTED_CHIPYARD :: "(string \<times> string) list" where
  "EXPECTED_CHIPYARD =
     [(''repo'', ''https://github.com/ucb-bar/chipyard.git''), (''tag'', ''1.13.0''),
      (''commit'', ''69eba860a352343e4ac6b6df0f3638a79a86ec78'')]"

definition DEFAULT_FORBIDDEN_EVIDENCE_TERMS :: "string list" where
  \<open>DEFAULT_FORBIDDEN_EVIDENCE_TERMS =
     [''placeholder'', ''template only'', ''sample only'', ''not real evidence'', ''todo'',
      ''openagent-evidence: template=true'', ''openagent-evidence: status=FAIL'',
      ''openagent-evidence: status=BLOCKED'', ''qemu-virt software reference'', ''Renode software reference'',
      ''/path/to/'', ''/exact/external/'', [CHR 0x27] @ ''/exact/'']\<close>

definition LINUX_GATES :: "(string \<times> string) list" where
  "LINUX_GATES =
     [(''rv64gc_isa'', ''build/evidence/cpu_ap/openagent_e1_isa_cache_mmu.log''),
      (''s_mode_privilege'', ''build/evidence/cpu_ap/openagent_e1_opensbi_boot.log''),
      (''mmu_sv39_or_stronger'', ''build/evidence/cpu_ap/openagent_e1_isa_cache_mmu.log''),
      (''clint_timer_software_irq'', ''build/evidence/cpu_ap/openagent_e1_trap_timer_irq.log''),
      (''plic_external_irq'', ''build/evidence/cpu_ap/openagent_e1_trap_timer_irq.log''),
      (''uart_console'', ''build/evidence/cpu_ap/openagent_e1_linux_boot.log''),
      (''dtb_linux_boot_contract'', ''build/chipyard/openagent_rocket/openagent-e1.dts''),
      (''opensbi_handoff'', ''build/evidence/cpu_ap/openagent_e1_opensbi_boot.log''),
      (''linux_initramfs_smoke'', ''build/evidence/cpu_ap/openagent_e1_linux_boot.log'')]"

definition PHONE_ITEMS :: "string list" where
  "PHONE_ITEMS =
     [''multi_hart_application_cpu_topology_or_documented_equivalent'',
      ''riscv_application_profile_and_extension_matrix'', ''cache_hierarchy_and_coherency_evidence'',
      ''mmu_page_table_and_tlb_evidence'', ''sustained_boot_and_benchmark_evidence'',
      ''power_thermal_voltage_frequency_evidence'', ''process_14a_corner_benchmark_derate_evidence'',
      ''android_cts_vts_and_userspace_evidence'']"

definition REQUIRED_GENERATED :: "string list" where
  "REQUIRED_GENERATED = [''generated_src'', ''verilog'', ''dts'', ''simulator'']"

definition REQUIRED_TRANSCRIPTS :: "string list" where
  "REQUIRED_TRANSCRIPTS =
     [''opensbi_boot_log'', ''linux_boot_log'', ''trap_timer_irq_log'', ''isa_cache_mmu_log'', ''ap_benchmark_log'']"

section \<open>Files and digests\<close>

definition ap_path :: "ppath \<Rightarrow> string \<Rightarrow> ppath" where
  "ap_path repo s = path_join repo (path_of s)"

definition rel :: "ppath \<Rightarrow> ppath \<Rightarrow> string" where
  "rel repo p = (case relative_to p repo of Some q \<Rightarrow> path_str q | None \<Rightarrow> path_str p)"

definition load_json :: "world \<Rightarrow> ppath \<Rightarrow> pyv py" where
  "load_json w p = rbind (read_text w p) (json_loads w)"

text \<open>\<open>require(condition, message, errors)\<close>.\<close>

definition require :: "bool \<Rightarrow> string \<Rightarrow> unit checked" where
  "require b msg = report_if (\<not> b) msg"

text \<open>
  The decoder here keeps every pair of an object, as the hook receives them; the keys that occur
  again within one object are the duplicates.
\<close>

fun repeated :: "string list \<Rightarrow> string list" where
  "repeated [] = []"
| "repeated (k # ks) = (if k \<in> set ks then [k] else []) @ repeated ks"

fun duplicate_keys :: "pyv \<Rightarrow> string list" where
  "duplicate_keys (PList xs) = concat (map duplicate_keys xs)"
| "duplicate_keys (PDict d) = concat (map snd (map (map_prod id duplicate_keys) d)) @ repeated (map fst d)"
| "duplicate_keys _ = []"

definition reject_duplicate_json_keys :: "(string \<Rightarrow> pyv option) \<Rightarrow> world \<Rightarrow> ppath \<Rightarrow> ppath \<Rightarrow> unit checked" where
  "reject_duplicate_json_keys pairs w repo p =
     (if \<not> path_exists w p then report_if True (''missing JSON manifest: '' @ rel repo p)
      else
        wbind (wlift (read_text w p)) (\<lambda>t.
        case pairs t of
          None \<Rightarrow> report_if True (rel repo p @ '' is invalid JSON'')
        | Some v \<Rightarrow>
            report_if (duplicate_keys v \<noteq> []) (rel repo p @ '' contains duplicate JSON keys: ''
              @ join '', '' (sort (remdups (duplicate_keys v))))))"

text \<open>The files below a directory in the order of their paths, each with its name and digest.\<close>

definition sha256_tree :: "world \<Rightarrow> ppath \<Rightarrow> string py" where
  "sha256_tree w p =
     rbind (mapR (\<lambda>item. rbind (sha256_file w item) (\<lambda>digest.
         Inr ((case relative_to item p of Some q \<Rightarrow> path_str q | None \<Rightarrow> path_str item)
           @ [CHR 0x00] @ digest @ [CHR 0x00])))
       (sort (filter (is_file w) (rglob w p)))) (\<lambda>chunks. Inr (wd_sha256 w (concat chunks)))"

definition sha256_path :: "world \<Rightarrow> ppath \<Rightarrow> string py" where
  "sha256_path w p = (if wd_is_dir w p then sha256_tree w p else sha256_file w p)"

section \<open>The evidence manifest\<close>

definition specs_of :: "string \<Rightarrow> pyv \<Rightarrow> (string \<times> pyv) list py" where
  "specs_of key manifest =
     rbind (py_get manifest key (PDict [])) (\<lambda>v.
     Inr (if \<not> is_dict v then [] else filter (\<lambda>(name, spec). is_dict spec) (as_dict v)))"

definition artifact_specs :: "pyv \<Rightarrow> (string \<times> pyv) list py" where
  "artifact_specs = specs_of ''generated_artifacts''"

definition transcript_specs :: "pyv \<Rightarrow> (string \<times> pyv) list py" where
  "transcript_specs = specs_of ''transcripts''"

definition manifest_header :: "ppath \<Rightarrow> pyv \<Rightarrow> unit checked" where
  "manifest_header repo manifest = wlist
     [require (py_eq (get manifest ''schema_version'') (PInt 1)) ''CPU/AP evidence manifest schema_version must be 1'',
      require (py_eq (get manifest ''claim_boundary'') (PStr ''generated_chipyard_artifacts_and_external_transcripts_only''))
        ''CPU/AP evidence manifest must use generated_chipyard_artifacts_and_external_transcripts_only'',
      require (py_eq (get manifest ''completion_claim'') (PStr ''blocked_until_all_required_artifacts_and_evidence_pass''))
        ''CPU/AP evidence manifest must keep completion claim blocked'',
      wbind (wlift (in_names (get manifest ''selected_manifest'')
          [rel repo (ap_path repo SELECTED_MANIFEST), ''generators/chipyard/openagent-rocket-manifest.json'']))
        (\<lambda>ok. require ok ''CPU/AP evidence manifest selected_manifest path drifted''),
      require (py_eq (get manifest ''generated_manifest'') (PStr (rel repo (ap_path repo GENERATED_MANIFEST))))
        ''CPU/AP evidence manifest generated_manifest path drifted'',
      require (py_eq (get manifest ''capture_helper'') (PStr ''scripts/capture_cpu_ap_evidence.py''))
        ''CPU/AP evidence manifest capture_helper path drifted'']"

text \<open>A non-empty list.\<close>

definition filled_list :: "pyv \<Rightarrow> bool" where
  "filled_list v \<longleftrightarrow> is_list v \<and> truthy v"

text \<open>One entry of the gate matrix; the gate it names, when it has a name.\<close>

definition gate_entry :: "pyv \<Rightarrow> string option checked" where
  "gate_entry gate =
     (let gate_id = get gate ''gate'' in
      if \<not> is_dict gate then Inr ([''CPU/AP Linux-capable gate matrix entries must be objects''], None)
      else if \<not> is_str gate_id then Inr ([''CPU/AP Linux-capable gate missing gate id''], None)
      else case map_of LINUX_GATES (as_str gate_id) of
          None \<Rightarrow> Inr ([''CPU/AP Linux-capable gate is not approved: '' @ as_str gate_id], Some (as_str gate_id))
        | Some expected_evidence \<Rightarrow>
            wbind (wlist
              ([require (py_eq (get gate ''status'') (PStr ''blocked''))
                  (''CPU/AP Linux-capable gate '' @ as_str gate_id @ '' must remain blocked until evidence passes''),
                require (py_eq (get gate ''evidence'') (PStr expected_evidence))
                  (''CPU/AP Linux-capable gate '' @ as_str gate_id @ '' evidence path drifted'')]
               @ map (\<lambda>key. require (filled_list (get gate key))
                   (''CPU/AP Linux-capable gate '' @ as_str gate_id @ '' must list '' @ key))
                 [''pass_requires'', ''fail_if'']))
              (\<lambda>_. wret (Some (as_str gate_id))))"

definition gate_matrix_check :: "pyv \<Rightarrow> unit checked" where
  "gate_matrix_check manifest =
     (let gate_matrix = get_or manifest ''linux_capable_gate_matrix'' (PList []) in
      if \<not> is_list gate_matrix then
        report_if True ''CPU/AP evidence manifest linux_capable_gate_matrix must be a list''
      else
        wbind (wmap gate_entry (as_list gate_matrix)) (\<lambda>seen.
        let missing_gates = filter (\<lambda>g. Some g \<notin> set seen) (sort (map fst LINUX_GATES)) in
        report_if (missing_gates \<noteq> [])
          (''CPU/AP evidence manifest missing Linux-capable gates: '' @ join '', '' missing_gates)))"

text \<open>\<open>set(v) != names\<close> for a list.\<close>

definition set_differs :: "pyv \<Rightarrow> string list \<Rightarrow> bool py" where
  "set_differs v names =
     rbind (py_set (as_list v)) (\<lambda>xs. Inr (\<not> (list_all (\<lambda>x. x \<in> PStr ` set names) xs
       \<and> list_all (\<lambda>n. PStr n \<in> set xs) names)))"

definition qemu_check :: "pyv \<Rightarrow> unit checked" where
  "qemu_check manifest =
     (let qemu = get_or manifest ''qemu_reference_evidence'' (PDict []);
          allowed = get_or qemu ''allowed_results'' (PList []); limit = get qemu ''claim_limit'' in
      if \<not> is_dict qemu then report_if True ''CPU/AP evidence manifest qemu_reference_evidence must be an object''
      else wlist
        [require (py_eq (get qemu ''status'') (PStr ''software_reference_only_not_linux_capable_cpu_evidence''))
           ''QEMU reference evidence must remain excluded from Linux-capable CPU/AP claims'',
         require (py_eq (get qemu ''attempt_log'') (PStr ''build/reports/qemu_os_boot_attempt.log''))
           ''QEMU OS attempt log path drifted'',
         require (py_eq (get qemu ''capture_command'') (PStr ''scripts/run_qemu.sh --check-os''))
           ''QEMU OS attempt capture command drifted'',
         wbind (if \<not> is_list allowed then wret True
                else wlift (set_differs allowed [''BLOCKED'', ''FAIL'', ''PASS'']))
           (\<lambda>bad. report_if bad ''QEMU OS attempt must declare exact BLOCKED/FAIL/PASS states''),
         report_if (\<not> is_str limit \<or> \<not> contains ''cannot satisfy'' (as_str limit))
           ''QEMU reference evidence must state it cannot satisfy AP evidence gates''])"

definition policy_check :: "pyv \<Rightarrow> unit checked" where
  "policy_check manifest =
     (let policy = get_or manifest ''target_policy'' (PDict []);
          phone_items = get_or policy ''phone_2028_claim_requires'' (PList []);
          forbidden = get_or policy ''forbidden_without_evidence'' (PList []) in
      if \<not> is_dict policy then report_if True ''CPU/AP evidence manifest target_policy must be an object''
      else wlist
        [require (py_eq (get policy ''initial_linux_bringup_claim'') (PStr ''single_hart_rocket_rv64gc_linux_smoke_only''))
           ''CPU/AP target policy must limit the initial Rocket path to Linux smoke'',
         require (py_eq (get policy ''phone_2028_ap_claim'') (PStr ''blocked_until_phone_class_artifacts_and_evidence_pass''))
           ''CPU/AP target policy must keep the 2028 phone-class AP claim blocked'',
         if \<not> is_list phone_items then report_if True ''CPU/AP target policy phone_2028_claim_requires must be a list''
         else
           wbind (wlift (py_set (as_list phone_items))) (\<lambda>found.
           let missing = filter (\<lambda>i. PStr i \<notin> set found) (sort PHONE_ITEMS) in
           report_if (missing \<noteq> [])
             (''CPU/AP target policy missing 2028 phone-class blockers: '' @ join '', '' missing)),
         if \<not> is_list forbidden then report_if True ''CPU/AP target policy forbidden_without_evidence must be a list''
         else weach (\<lambda>phrase.
           wbind (wlift (py_in phrase forbidden)) (\<lambda>ok.
           require ok (''CPU/AP target policy must forbid unsupported claim: '' @ phrase)))
           [''phone-class AP'', ''Android compatible'', ''production silicon'']])"

text \<open>The fields an artifact and a transcript specification share.\<close>

definition spec_fields :: "string \<Rightarrow> string \<Rightarrow> string \<Rightarrow> pyv \<Rightarrow> unit checked" where
  "spec_fields word prefix name spec =
     (let path = get spec ''path''; sha_key = get spec ''sha256_key'' in wlist
      [report_if (\<not> is_str path \<or> \<not> starts_with prefix (as_str path))
         (''CPU/AP '' @ word @ '' '' @ name @ '' has invalid path: '' @ py_repr path),
       report_if (\<not> py_eq (get spec ''manifest_key'') (PStr name))
         (''CPU/AP '' @ word @ '' '' @ name @ '' manifest_key must match '' @ word @ '' name''),
       report_if (\<not> nonempty_str sha_key) (''CPU/AP '' @ word @ '' '' @ name @ '' missing sha256_key'')])"

definition artifact_spec_check :: "string \<times> pyv \<Rightarrow> unit checked" where
  "artifact_spec_check e = (case e of (name, spec) \<Rightarrow> wlist
     [spec_fields ''artifact'' ''build/chipyard/openagent_rocket/'' name spec,
      wbind (wlift (in_names (get spec ''kind'') [''file'', ''directory'', ''file_or_directory''])) (\<lambda>ok.
        require ok (''CPU/AP artifact '' @ name @ '' kind must be file, directory, or file_or_directory'')),
      if name = ''simulator'' then
        require (get spec ''requires_executable'' = PBool True)
          ''CPU/AP simulator artifact must require an executable file''
      else wret ()])"

definition transcript_spec_check :: "string \<times> pyv \<Rightarrow> unit checked" where
  "transcript_spec_check e = (case e of (name, spec) \<Rightarrow> wlist
     (spec_fields ''transcript'' ''build/evidence/cpu_ap/'' name spec
      # map (\<lambda>key. require (filled_list (get spec key)) (''CPU/AP transcript '' @ name @ '' must list '' @ key))
          [''required_strings'', ''raw_required_strings'']))"

definition specs_check :: "string \<Rightarrow> string list \<Rightarrow> (string \<times> pyv \<Rightarrow> unit checked) \<Rightarrow> (string \<times> pyv) list \<Rightarrow> unit checked" where
  "specs_check msg required check specs =
     (let missing = filter (\<lambda>n. n \<notin> set (map fst specs)) (sort required) in
      wlist (report_if (missing \<noteq> []) (msg @ join '', '' missing) # map check specs))"

definition validate_evidence_manifest :: "ppath \<Rightarrow> pyv \<Rightarrow> unit checked" where
  "validate_evidence_manifest repo manifest =
     (if \<not> is_dict manifest then Inl PyAttributeError
      else wlist
        [manifest_header repo manifest, gate_matrix_check manifest, qemu_check manifest, policy_check manifest,
         wbind (wlift (artifact_specs manifest))
           (specs_check ''CPU/AP evidence manifest missing generated artifact specs: '' REQUIRED_GENERATED artifact_spec_check),
         wbind (wlift (transcript_specs manifest))
           (specs_check ''CPU/AP evidence manifest missing transcript specs: '' REQUIRED_TRANSCRIPTS transcript_spec_check)])"

definition load_evidence_manifest :: "world \<Rightarrow> ppath \<Rightarrow> pyv checked" where
  "load_evidence_manifest w repo =
     (let p = ap_path repo EVIDENCE_MANIFEST in
      if \<not> is_file w p then Inr ([''missing CPU/AP evidence manifest: '' @ rel repo p], PDict [])
      else case load_json w p of
          Inl PyJSONDecodeError \<Rightarrow> Inr ([rel repo p @ '' is invalid JSON''], PDict [])
        | Inl e \<Rightarrow> Inl e
        | Inr manifest \<Rightarrow> wbind (validate_evidence_manifest repo manifest) (\<lambda>_. wret manifest))"

section \<open>Transcripts\<close>

definition str_terms :: "pyv list \<Rightarrow> string list" where
  "str_terms xs = map as_str (filter is_str xs)"

text \<open>\<open>xs + v\<close>: only a list can be added to a list.\<close>

definition list_plus :: "pyv list \<Rightarrow> pyv \<Rightarrow> pyv list py" where
  "list_plus xs v = (if is_list v then Inr (xs @ as_list v) else Inl PyTypeError)"

definition group_check :: "string \<Rightarrow> string \<Rightarrow> pyv \<Rightarrow> unit checked" where
  "group_check t rel_path grp =
     (if \<not> filled_list grp then report_if True (rel_path @ '' has invalid at_least_one rule in manifest'')
      else if list_ex (\<lambda>term. contains term t) (str_terms (as_list grp)) then wret ()
      else wbind (wlift (py_join '', '' grp)) (\<lambda>names.
        report_if True (rel_path @ '' must contain at least one marker from: '' @ names)))"

definition text_check :: "string \<Rightarrow> pyv \<Rightarrow> string \<Rightarrow> bool \<Rightarrow> unit checked" where
  "text_check t spec rel_path raw =
     wbind (wlift (py_int (get_or spec ''min_bytes'' (PInt 160)))) (\<lambda>min_bytes.
     wbind (report_if (int (length (strip t)) < min_bytes) (rel_path @ '' is too small to be a real command transcript'')) (\<lambda>_.
     wbind (wlift (list_plus (map PStr DEFAULT_FORBIDDEN_EVIDENCE_TERMS) (get_or spec ''forbidden_strings'' (PList [])))) (\<lambda>forbidden.
     let found = filter (\<lambda>term. contains (lower term) (lower t)) (str_terms forbidden) in
     wbind (report_if (found \<noteq> [])
       (rel_path @ '' contains forbidden placeholder/failure markers: '' @ join '', '' found)) (\<lambda>_.
     wbind (wlift (py_iter (get_or spec (if raw then ''raw_required_strings'' else ''required_strings'') (PList [])))) (\<lambda>terms.
     let missing = filter (\<lambda>term. \<not> contains term t) (str_terms terms) in
     wbind (report_if (missing \<noteq> []) (rel_path @ '' missing required transcript markers: '' @ join '', '' missing)) (\<lambda>_.
     wbind (wlift (py_iter (get_or spec ''at_least_one'' (PList [])))) (\<lambda>groups.
     weach (group_check t rel_path) groups)))))))"

definition text_problems :: "string \<Rightarrow> pyv \<Rightarrow> string \<Rightarrow> bool \<Rightarrow> string list py" where
  "text_problems t spec rel_path raw = messages (text_check t spec rel_path raw)"

definition manifest_line :: "string \<Rightarrow> string" where
  "manifest_line p = ''openagent-evidence: generated_manifest='' @ p"

definition sha_line :: "string \<Rightarrow> string" where
  "sha_line digest = ''openagent-evidence: generated_manifest_sha256='' @ digest"

definition metadata_check :: "world \<Rightarrow> ppath \<Rightarrow> string \<Rightarrow> string \<Rightarrow> unit checked" where
  "metadata_check w repo t rel_path =
     (let p = ap_path repo GENERATED_MANIFEST; expected = rel repo p in
      wbind (if is_file w p then wlift (rbind (sha256_path w p) (\<lambda>d. Inr (Some d))) else wret None) (\<lambda>expected_sha. wlist
        [report_if (\<not> contains (manifest_line expected) t) (rel_path @ '' must bind to generated manifest '' @ expected),
         (case expected_sha of
            None \<Rightarrow> report_if True (rel_path @ '' cannot be release evidence until '' @ expected @ '' exists'')
          | Some sha \<Rightarrow> report_if (\<not> contains (sha_line sha) t)
              (rel_path @ '' generated_manifest_sha256 must match '' @ expected)),
         report_if (contains (sha_line ''missing'') t) (rel_path @ '' records a missing generated manifest hash'')]))"

definition transcript_metadata_problems :: "world \<Rightarrow> ppath \<Rightarrow> string \<Rightarrow> string \<Rightarrow> string list py" where
  "transcript_metadata_problems w repo t rel_path = messages (metadata_check w repo t rel_path)"

section \<open>Generated artifacts\<close>

definition empty_dir_check :: "world \<Rightarrow> ppath \<Rightarrow> ppath \<Rightarrow> string \<Rightarrow> unit checked" where
  "empty_dir_check w repo p label =
     report_if (wd_is_dir w p \<and> wd_list w p = []) (''generated '' @ label @ '' directory is empty: '' @ rel repo p)"

definition validate_path_kind :: "world \<Rightarrow> ppath \<Rightarrow> ppath \<Rightarrow> pyv \<Rightarrow> string \<Rightarrow> unit checked" where
  "validate_path_kind w repo p spec label =
     (let kind = get spec ''kind'' in wlist
      [if py_eq kind (PStr ''file'') then
         require (is_file w p) (''missing generated '' @ label @ '' file: '' @ rel repo p)
       else if py_eq kind (PStr ''directory'') then wlist
         [require (wd_is_dir w p) (''missing generated '' @ label @ '' directory: '' @ rel repo p),
          empty_dir_check w repo p label]
       else if py_eq kind (PStr ''file_or_directory'') then wlist
         [require (path_exists w p) (''missing generated '' @ label @ '' artifact: '' @ rel repo p),
          empty_dir_check w repo p label]
       else report_if True (''generated '' @ label @ '' has invalid manifest kind: '' @ py_repr kind),
       report_if (get spec ''requires_executable'' = PBool True \<and> path_exists w p
           \<and> \<not> (if is_file w p then wd_executable w p
                else wd_is_dir w p \<and> list_ex (\<lambda>item. is_file w item \<and> wd_executable w item) (rglob w p)))
         (''generated '' @ label @ '' artifact lacks an executable file: '' @ rel repo p)])"

definition validate_sha256 :: "world \<Rightarrow> ppath \<Rightarrow> pyv \<Rightarrow> string \<Rightarrow> string \<Rightarrow> unit checked" where
  "validate_sha256 w p expected_hashes name sha256_key =
     wbind (wlift (py_get expected_hashes sha256_key PNone)) (\<lambda>expected.
     if \<not> nonempty_str expected then
       report_if True (''generated import manifest missing sha256 entry: '' @ sha256_key)
     else if \<not> path_exists w p then wret ()
     else
       wbind (wlift (sha256_path w p)) (\<lambda>actual.
       report_if (as_str expected \<noteq> actual)
         (name @ '' sha256 mismatch: expected '' @ as_str expected @ '', got '' @ actual)))"

end
