(* ===== verification/Ap_Check.thy ===== *)
theory Ap_Check
  imports Ap_Evidence
begin

text \<open>
  \<open>scripts/check_cpu_ap_evidence.py\<close>: the scaffold checks on the sources and manifests of the
  repository, the state of the archived transcripts, and the exit code. The Linux hardware gate
  it calls is a command of the world.
\<close>

section \<open>The scaffold\<close>

definition CONTRACT_TOKENS :: "string list" where
  \<open>CONTRACT_TOKENS =
     [''OpenSBI'', ''Linux early console'', ''mcause'', ''mepc'', ''mtimecmp'',
      ''external interrupt claim/complete'', ''firmware-to-kernel handoff'', ''2028 phone-class'',
      ''ISA compliance'', ''cache hierarchy'', ''MMU'', ''CoreMark'', ''STREAM'', ''power method'',
      ''process_14a_corner_benchmark_derate_evidence'', ''process effects contract'',
      ''worst process corner'', ''pdk signoff claim=none'', ''Exact Linux-Capable Gate States'',
      ''rv64gc_isa'', ''s_mode_privilege'', ''mmu_sv39_or_stronger'', ''clint_timer_software_irq'',
      ''plic_external_irq'', ''dtb_linux_boot_contract'', ''linux_initramfs_smoke'',
      ''QEMU `virt` OS boot attempts are useful software-reference evidence only'']\<close>

definition BLOCKER_TOKENS :: "string list" where
  \<open>BLOCKER_TOKENS =
     [''No generated Chipyard/Rocket RTL'', ''OpenAgentRocketConfig'', ''has_cpu=false'',
      ''single Rocket RV64GC hart is not a 2028 phone-class AP'', ''openagent_e1_isa_cache_mmu.log'',
      ''openagent_e1_ap_benchmarks.log'']\<close>

definition read_source :: "world \<Rightarrow> ppath \<Rightarrow> string \<Rightarrow> string py" where
  "read_source w repo p = read_text w (ap_path repo p)"

text \<open>\<open>v.get(key) == expected\<close>, where \<open>v\<close> may not be a dictionary.\<close>

definition field_is :: "pyv \<Rightarrow> string \<Rightarrow> pyv \<Rightarrow> bool py" where
  "field_is v key expected = rbind (py_get v key PNone) (\<lambda>x. Inr (py_eq x expected))"

definition require_that :: "bool py \<Rightarrow> string \<Rightarrow> unit checked" where
  "require_that m msg = wbind (wlift m) (\<lambda>b. require b msg)"

definition linux_gate_check :: "world \<Rightarrow> string \<Rightarrow> unit checked" where
  "linux_gate_check w exe =
     (case wd_run w [exe, ''scripts/check_linux_hardware_contract_gate.py''] (wd_env_path w) PNone of
        Completed code out \<Rightarrow>
          require (code = 0) (''Linux hardware contract gate failed:'' @ [CHR 0x0A] @ rstrip out)
      | TimedOut out \<Rightarrow> Inl (PyOSError out)
      | OsFailure msg \<Rightarrow> Inl (PyOSError msg))"

definition rtl_check :: "string \<Rightarrow> string \<Rightarrow> string \<Rightarrow> unit checked" where
  \<open>rtl_check cpu test tb = wlist
     [require (contains ''FETCH_REQ'' cpu \<and> contains ''EXECUTE'' cpu) ''tiny CPU no longer has fetch/execute states'',
      require (contains (''7'' @ [CHR 0x27] @ ''b0010011'') cpu \<and> contains (''7'' @ [CHR 0x27] @ ''b0000011'') cpu)
        ''tiny CPU opcode subset drifted'',
      require (contains ''irq_pending = timer_irq | software_irq | external_irq'' cpu) ''IRQ placeholder reflection changed'',
      require (contains ''stall_cpu_ar'' tb \<and> contains ''stall_cpu_aw'' tb \<and> contains ''stall_cpu_w'' tb)
        ''CPU contract TB lacks request stall injection'',
      require (contains ''tiny_cpu_extended_opcode_subset_has_observable_state'' test)
        ''tiny CPU opcode coverage test is missing'',
      require (contains ''tiny_cpu_waits_for_fetch_and_store_request_stalls'' test) ''tiny CPU bus stall test is missing'',
      require (contains ''tiny_cpu_privileged_csr_and_trap_instructions_are_blocked_scaffold'' test)
        ''tiny CPU privileged/CSR/trap-class fail-closed test is missing'']\<close>

text \<open>\<open>contract["e1_chip"].get("has_cpu") is False\<close>.\<close>

definition contract_check :: "pyv \<Rightarrow> unit checked" where
  "contract_check contract =
     wbind (wlift (py_item contract ''e1_chip'')) (\<lambda>chip.
     wbind (wlift (py_get chip ''has_cpu'' PNone)) (\<lambda>has_cpu.
     require (has_cpu = PBool False)
       ''platform contract must remain has_cpu=false until package top integrates a production CPU''))"

definition expected_chipyard :: "string \<Rightarrow> pyv" where
  "expected_chipyard key = (case map_of EXPECTED_CHIPYARD key of None \<Rightarrow> PNone | Some s \<Rightarrow> PStr s)"

text \<open>\<open>a and b\<close> of tests that may raise.\<close>

definition and_then :: "bool py \<Rightarrow> bool py \<Rightarrow> bool py" where
  "and_then a b = rbind a (\<lambda>x. if x then b else Inr False)"

definition selection_check :: "pyv \<Rightarrow> pyv \<Rightarrow> pyv \<Rightarrow> pyv \<Rightarrow> pyv \<Rightarrow> unit checked" where
  "selection_check manifest chipyard selected phone_target claim_policy = wlist
     [require_that (field_is manifest ''status'' (PStr ''selected_not_generated''))
        ''Rocket manifest must not claim generated artifacts yet'',
      require_that (field_is chipyard ''tag'' (expected_chipyard ''tag''))
        ''Chipyard AP path must remain pinned to tag 1.13.0'',
      require_that (field_is chipyard ''commit'' (expected_chipyard ''commit''))
        ''Chipyard AP path must remain pinned to the selected commit'',
      require_that (and_then (field_is selected ''core'' (PStr ''Rocket'')) (field_is selected ''isa'' (PStr ''RV64GC'')))
        ''AP path must select Rocket RV64GC'',
      require_that (field_is selected ''harts'' (PInt 1)) ''first local AP integration target must remain single-hart'',
      require_that (field_is selected ''config_name'' (PStr ''OpenAgentRocketConfig'')) ''AP config name drifted'',
      require_that (field_is selected ''claim_level'' (PStr ''initial_linux_bringup_only''))
        ''single Rocket AP path must be labeled initial Linux bring-up only'',
      require_that (field_is phone_target ''status'' (PStr ''blocked_not_selected_for_product_claims''))
        ''2028 phone-class AP target boundary must remain blocked'',
      require_that (rbind (py_get claim_policy ''linux_capable_cpu_claim'' PNone) (\<lambda>x. Inr (x = PBool False)))
        ''manifest must not claim Linux boot without evidence'',
      require_that (field_is manifest ''evidence_manifest'' (PStr ''docs/evidence/cpu-ap-evidence-manifest.json''))
        ''selected manifest must point to CPU/AP evidence manifest'',
      require_that (field_is manifest ''target_delta_manifest'' (PStr ''docs/evidence/cpu-ap-2028-target-deltas.json''))
        ''selected manifest must point to CPU/AP 2028 target delta manifest'',
      require_that (field_is manifest ''roadmap_manifest'' (PStr ''docs/evidence/cpu-ap-roadmap.json''))
        ''selected manifest must point to CPU/AP roadmap manifest'',
      require_that (field_is manifest ''capture_helper'' (PStr ''scripts/capture_cpu_ap_evidence.py''))
        ''selected manifest must point to CPU/AP evidence capture helper'']"

definition required_evidence_check :: "pyv \<Rightarrow> pyv \<Rightarrow> unit checked" where
  "required_evidence_check manifest evidence_manifest =
     wbind (wlift (transcript_specs evidence_manifest)) (\<lambda>specs. weach (\<lambda>(name, spec).
       let path = get spec ''path'' in
       require_that (rbind (py_get manifest ''required_evidence'' (PList [])) (py_mem path))
         (''selected manifest lacks required CPU/AP evidence path: '' @ py_str path)) specs)"

definition tokens_check :: "string \<Rightarrow> string \<Rightarrow> string list \<Rightarrow> unit checked" where
  "tokens_check msg t tokens = weach (\<lambda>token. require (contains token t) (msg @ token)) tokens"

definition check_scaffold :: "world \<Rightarrow> ppath \<Rightarrow> string \<Rightarrow> unit checked" where
  "check_scaffold w repo exe =
     wbind (linux_gate_check w exe) (\<lambda>_.
     wbind (wlift (read_source w repo ''rtl/cpu/e1_cpu_subsystem_stub.sv'')) (\<lambda>cpu.
     wbind (wlift (read_source w repo ''verify/cocotb/test_tiny_cpu_execution.py'')) (\<lambda>test.
     wbind (wlift (read_source w repo ''verify/cocotb/e1_tiny_cpu_contract_tb.sv'')) (\<lambda>tb.
     wbind (wlift (read_source w repo ''docs/arch/linux-capable-cpu-contract.md'')) (\<lambda>linux_contract.
     wbind (wlift (read_source w repo ''docs/project/cpu-ap-blocker-status-2026-05-17.md'')) (\<lambda>blocker.
     wbind (wlift (rbind (read_source w repo ''sw/platform/e1_platform_contract.json'') (json_loads w))) (\<lambda>contract.
     wbind (wlift (load_json w (ap_path repo SELECTED_MANIFEST))) (\<lambda>manifest.
     wbind (wlift (py_get manifest ''chipyard'' (PDict []))) (\<lambda>chipyard.
     wbind (wlift (py_get manifest ''selected_path'' (PDict []))) (\<lambda>selected.
     wbind (wlift (py_get manifest ''claim_policy'' (PDict []))) (\<lambda>claim_policy.
     wbind (wlift (py_get manifest ''phone_2028_target_boundary'' (PDict []))) (\<lambda>phone_target.
     wbind (load_evidence_manifest w repo) (\<lambda>evidence_manifest. wlist
       [rtl_check cpu test tb, contract_check contract,
        selection_check manifest chipyard selected phone_target claim_policy,
        required_evidence_check manifest evidence_manifest,
        require (is_file w (ap_path repo ''docs/arch/linux-capable-cpu-contract.md''))
          ''Linux-capable CPU requirements gate is missing'',
        tokens_check ''Linux-capable CPU contract lacks required evidence token: '' linux_contract CONTRACT_TOKENS,
        tokens_check ''CPU/AP blocker status lacks required blocker token: '' blocker BLOCKER_TOKENS])))))))))))))"

section \<open>The transcripts\<close>

text \<open>The transcript a specification names: missing, or checked.\<close>

definition transcript_check :: "world \<Rightarrow> ppath \<Rightarrow> string \<times> pyv \<Rightarrow> string list checked" where
  "transcript_check w repo e = (case e of (name, spec) \<Rightarrow>
     (case get spec ''path'' of
        PStr rel_path \<Rightarrow>
          if \<not> is_file w (ap_path repo rel_path) then wret [rel_path]
          else
            wbind (wlift (read_text w (ap_path repo rel_path))) (\<lambda>t.
            wbind (text_check t spec rel_path False) (\<lambda>_.
            wbind (metadata_check w repo t rel_path) (\<lambda>_. wret [])))
      | _ \<Rightarrow> wret []))"

text \<open>The problems are the messages, the value lists the missing transcripts.\<close>

definition evidence_problems :: "world \<Rightarrow> ppath \<Rightarrow> string list checked" where
  "evidence_problems w repo =
     wbind (load_evidence_manifest w repo) (\<lambda>evidence_manifest.
     wbind (wlift (transcript_specs evidence_manifest)) (\<lambda>specs.
     wbind (wmap (transcript_check w repo) specs) (\<lambda>missing. wret (concat missing))))"

section \<open>The exit code\<close>

text \<open>The last specification of a path decides.\<close>

definition capture_commands :: "(string \<times> pyv) list \<Rightarrow> string list \<Rightarrow> string list" where
  "capture_commands specs paths =
     concat (map (\<lambda>path. case find (\<lambda>(name, spec). get spec ''path'' = PStr path) (rev specs) of
          None \<Rightarrow> []
        | Some (name, spec) \<Rightarrow>
            (let command = get spec ''capture_command'' in if nonempty_str command then [as_str command] else [])) paths)"

definition NEXT_STEP :: string where
  "NEXT_STEP = ''  next: run python3 scripts/capture_cpu_ap_evidence.py plan all --format shell, ''
     @ ''wire the generated AP simulator/test commands, run ''
     @ ''scripts/capture_chipyard_linux_evidence.sh preflight, then capture real generated-AP ''
     @ ''transcripts and rerun python3 scripts/check_cpu_ap_evidence.py --require-evidence''"

definition bullets :: "string list \<Rightarrow> string list" where
  "bullets xs = map (\<lambda>x. ''  - '' @ x) xs"

definition ap_check_main :: "world \<Rightarrow> ppath \<Rightarrow> string \<Rightarrow> bool \<Rightarrow> (int \<times> string list) py" where
  "ap_check_main w repo exe require_evidence =
     rbind (messages (check_scaffold w repo exe)) (\<lambda>errors.
     if errors \<noteq> [] then Inr (1, ''CPU/AP scaffold check failed:'' # bullets errors)
     else
       let pass = ''STATUS: PASS cpu_ap.scaffold - tiny executable CPU path and gates are present'' in
       rbind (evidence_problems w repo) (\<lambda>(problems, absent).
       if problems \<noteq> [] then
         Inr (1, [pass, ''STATUS: FAIL cpu_ap.linux_evidence - evidence logs are invalid:''] @ bullets problems)
       else if absent \<noteq> [] then
         rbind (load_evidence_manifest w repo) (\<lambda>(_, evidence_manifest).
         rbind (transcript_specs evidence_manifest) (\<lambda>specs.
         let commands = capture_commands specs absent in
         Inr (if require_evidence then 1 else 0,
           [pass, ''STATUS: BLOCKED cpu_ap.linux_evidence - missing production boot/trap evidence:'']
           @ bullets absent
           @ (if commands \<noteq> [] then ''  capture commands:'' # map (\<lambda>c. ''    '' @ c) commands else [])
           @ [NEXT_STEP])))
       else Inr (0, [pass, ''STATUS: PASS cpu_ap.linux_evidence''])))"

end
