(* ===== verification/Ap_Capture.thy ===== *)
theory Ap_Capture
  imports Ap_Check
begin

text \<open>
  \<open>scripts/capture_cpu_ap_evidence.py\<close>: archiving an external transcript, the audit of a device-tree
  source, and the listings. What the host supplies beyond the files (the user's home for
  \<open>expanduser\<close>, the clock, the device-tree compiler) is a record. A printed line goes to one of the
  two streams.
\<close>

section \<open>Constants\<close>

definition MODE_TO_TRANSCRIPT :: "(string \<times> string \<times> string) list" where
  "MODE_TO_TRANSCRIPT =
     [(''ap-benchmarks'', ''ap_benchmark_log'', ''openagent_e1_ap_benchmarks''),
      (''isa-cache-mmu'', ''isa_cache_mmu_log'', ''openagent_e1_isa_cache_mmu''),
      (''opensbi-boot'', ''opensbi_boot_log'', ''openagent_e1_opensbi_boot''),
      (''linux-boot'', ''linux_boot_log'', ''openagent_e1_linux_boot''),
      (''trap-timer-irq'', ''trap_timer_irq_log'', ''openagent_e1_trap_timer_irq'')]"

definition MODE_ENV :: "(string \<times> string) list" where
  "MODE_ENV =
     [(''ap-benchmarks'', ''OPENAGENT_AP_BENCHMARKS_CMD''), (''isa-cache-mmu'', ''OPENAGENT_ISA_CACHE_MMU_CMD''),
      (''opensbi-boot'', ''OPENAGENT_OPENSBI_BOOT_CMD''), (''linux-boot'', ''OPENAGENT_LINUX_BOOT_CMD''),
      (''trap-timer-irq'', ''OPENAGENT_TRAP_TIMER_IRQ_CMD'')]"

text \<open>Patterns for \<open>\s*\<close>, \<open>[0-9a-fA-F]+\<close> and a quoted name.\<close>

definition rx_blank :: rx where "rx_blank = RStar rx_space"
definition rx_hex :: rx where "rx_hex = rx_plus (RSet False [(48, 57), (97, 102), (65, 70)])"

definition rx_quoted :: "string \<Rightarrow> rx" where
  "rx_quoted s = rx_seq [rx_char (CHR 0x22), rx_lit s, rx_char (CHR 0x22)]"

definition device_type_rx :: "string \<Rightarrow> rx" where
  "device_type_rx s = rx_seq [rx_lit ''device_type'', rx_blank, rx_lit ''='', rx_blank, rx_quoted s]"

definition DTS_BOOT_REQUIREMENTS :: "(string \<times> rx list) list" where
  "DTS_BOOT_REQUIREMENTS =
     [(''cpu node'', [rx_seq [RWordB, rx_lit ''cpus'', rx_blank, rx_lit ''{''], device_type_rx ''cpu'']),
      (''memory node'', [rx_seq [rx_lit ''memory@'', rx_hex], device_type_rx ''memory'']),
      (''timer node'', [rx_lit ''riscv,clint0'', rx_lit ''riscv,aclint-mtimer'', rx_lit ''riscv,aclint-mswi'']),
      (''interrupt controller'', [rx_lit ''interrupt-controller'', rx_lit ''riscv,plic0'']),
      (''uart console'', [rx_seq [rx_lit ''serial@'', rx_hex], rx_lit ''ns16550'', rx_lit ''sifive,uart'']),
      (''chosen stdout'',
        [rx_lit ''stdout-path'',
         rx_seq [rx_lit ''bootargs'', rx_blank, rx_lit ''='', RStar rx_dot_all, rx_lit ''console='']])]"

definition E1_PERIPHERAL_REQUIREMENTS :: "(string \<times> rx list) list" where
  "E1_PERIPHERAL_REQUIREMENTS =
     [(''e1 npu mmio'', [rx_lit ''openagent,e1-npu'']), (''e1 dma mmio'', [rx_lit ''openagent,e1-dma'']),
      (''e1 display mmio'', [rx_lit ''openagent,e1-display''])]"

section \<open>Host and output\<close>

record cap_host =
  ch_expanduser :: "string \<Rightarrow> string"
  ch_utc_now :: string
  ch_dtc :: "ppath \<Rightarrow> (int \<times> string \<times> string) option"

datatype printed = Out string | Err string

definition load_manifest_or_exit :: "world \<Rightarrow> ppath \<Rightarrow> pyv py" where
  "load_manifest_or_exit w repo =
     rbind (load_evidence_manifest w repo) (\<lambda>(errors, manifest).
     if errors \<noteq> [] then Inl (PySystemExit ''1'') else Inr manifest)"

section \<open>The device-tree audit\<close>

definition strip_dts_comments :: "string \<Rightarrow> string" where
  "strip_dts_comments t =
     rx_sub (rx_seq [rx_lit ''//'', RStar rx_any]) []
       (rx_sub (rx_seq [rx_lit ''/*'', RLazy rx_dot_all, rx_lit ''*/'']) [] t)"

text \<open>The labels none of whose patterns occurs.\<close>

definition lacking :: "(string \<times> rx list) list \<Rightarrow> string \<Rightarrow> string list" where
  "lacking requirements t =
     map fst (filter (\<lambda>(label, patterns). \<not> list_ex (\<lambda>p. rx_search p True t \<noteq> None) patterns) requirements)"

definition SERIAL_BLOCK :: rx where
  "SERIAL_BLOCK = rx_seq [rx_lit ''serial@'', rx_hex, rx_blank, rx_lit ''{'', RLazy rx_dot_all, rx_char (CHR 0x0A),
     rx_blank, rx_lit ''};'']"

definition serial_blocks :: "string \<Rightarrow> string list" where
  "serial_blocks t = map (\<lambda>(a, b, g). take (b - a) (drop a t)) (rx_finditer SERIAL_BLOCK True t)"

definition dts_missing :: "bool \<Rightarrow> string \<Rightarrow> string list" where
  "dts_missing require_e1 t =
     lacking DTS_BOOT_REQUIREMENTS t
     @ (if require_e1 then lacking E1_PERIPHERAL_REQUIREMENTS t else [])
     @ (if serial_blocks t \<noteq> []
           \<and> \<not> list_ex (\<lambda>b. \<not> contains ''status'' b \<or> \<not> contains ''disabled'' b) (serial_blocks t)
        then [''enabled uart console''] else [])"

record dts_args =
  da_path :: string
  da_run_dtc :: bool
  da_require_bootable :: bool
  da_require_e1_peripherals :: bool

definition rooted :: "ppath \<Rightarrow> ppath \<Rightarrow> ppath" where
  "rooted repo p = (if pabs p then p else path_join repo p)"

definition dtc_result :: "cap_host \<Rightarrow> bool \<Rightarrow> ppath \<Rightarrow> int \<times> string" where
  "dtc_result host run_dtc p =
     (case (if run_dtc then ch_dtc host p else None) of
        None \<Rightarrow> (0, ''dtc not available'')
      | Some (code, out, err) \<Rightarrow>
          (let msg = strip (if err \<noteq> [] then err else out) in (code, if msg \<noteq> [] then msg else ''dtc compiled DTS'')))"

definition dts_audit :: "cap_host \<Rightarrow> world \<Rightarrow> ppath \<Rightarrow> dts_args \<Rightarrow> (int \<times> printed list) py" where
  "dts_audit host w repo a =
     (let p = rooted repo (path_of (ch_expanduser host (da_path a))) in
      if \<not> is_file w p then
        Inr (if da_require_bootable a then 1 else 0,
          [Out (''STATUS: BLOCKED cpu_ap.dts_boot_audit - DTS is missing: '' @ rel repo p)])
      else
        rbind (read_text w p) (\<lambda>t.
        let u = strip_dts_comments t; missing = dts_missing (da_require_e1_peripherals a) u;
            missing_e1 = lacking E1_PERIPHERAL_REQUIREMENTS u; (dtc_rc, dtc_msg) = dtc_result host (da_run_dtc a) p;
            dtc_line = (if da_run_dtc a then [Out (''  dtc: '' @ dtc_msg)] else []) in
        Inr (if dtc_rc \<noteq> 0 then
               (1, [Out (''STATUS: FAIL cpu_ap.dts_boot_audit - dtc failed for '' @ rel repo p), Out dtc_msg])
             else if missing \<noteq> [] then
               (if da_require_bootable a then 1 else 0,
                Out (''STATUS: BLOCKED cpu_ap.dts_boot_audit - '' @ rel repo p @ '' is not a complete AP boot DTB'')
                # map (\<lambda>item. Out (''  - missing '' @ item)) missing @ dtc_line)
             else
               (0, Out (''STATUS: PASS cpu_ap.dts_boot_audit - '' @ rel repo p @ '' has AP boot DTB markers'')
                # (if missing_e1 \<noteq> [] then
                     [Out (''  note: generated DTS lacks e1 peripheral smoke markers: '' @ join '', '' missing_e1),
                      Out (''  note: linux-boot evidence still needs a real e1 MMIO smoke result ''
                        @ ''from the selected AP/software integration'')] else [])
                @ dtc_line))))"

section \<open>Archiving a transcript\<close>

record intake_args =
  ia_mode :: string
  ia_source :: string
  ia_command :: string
  ia_generated_manifest :: string

definition mode_transcript :: "string \<Rightarrow> (string \<times> string) py" where
  "mode_transcript mode = (case map_of MODE_TO_TRANSCRIPT mode of None \<Rightarrow> Inl (PyKeyError mode) | Some x \<Rightarrow> Inr x)"

definition spec_named :: "pyv \<Rightarrow> string \<Rightarrow> pyv py" where
  "spec_named manifest key =
     rbind (transcript_specs manifest) (\<lambda>specs.
     case dget specs key of None \<Rightarrow> Inl (PyKeyError key) | Some spec \<Rightarrow> Inr spec)"

definition archived_text :: "string \<Rightarrow> string \<Rightarrow> string \<Rightarrow> string \<Rightarrow> string \<Rightarrow> string \<Rightarrow> string \<Rightarrow> string" where
  "archived_text artifact source command manifest_rel manifest_sha now raw_text = join [CHR 0x0A]
     [''openagent-evidence: target=cpu_ap artifact='' @ artifact,
      ''openagent-evidence: source='' @ source,
      ''openagent-evidence: command='' @ command,
      ''openagent-evidence: generated_manifest='' @ manifest_rel,
      ''openagent-evidence: generated_manifest_sha256='' @ manifest_sha,
      ''openagent-evidence: intake_utc='' @ now,
      ''openagent-evidence: raw_transcript_begin'',
      rstrip raw_text,
      ''openagent-evidence: raw_transcript_end'',
      ''openagent-evidence: status=PASS'',
      []]"

text \<open>The archive is written, and its digest taken, after all checks.\<close>

definition archive :: "cap_host \<Rightarrow> ppath \<Rightarrow> intake_args \<Rightarrow> pyv \<Rightarrow> string \<Rightarrow> ppath \<Rightarrow> string \<Rightarrow> string \<Rightarrow>
    (world, py_exc, int \<times> printed list) est" where
  "archive host repo a spec artifact generated source raw_text =
     ebind (\<lambda>w. (sha256_path w generated, w)) (\<lambda>manifest_sha.
     ebind (elift (py_item spec ''path'')) (\<lambda>path.
     let destination = ap_path repo (py_str path) in
     ebind (\<lambda>w. (Inr (), write_file (make_dirs w (path_parent destination)) destination
       (archived_text artifact source (ia_command a) (rel repo (wd_resolve w generated)) manifest_sha
         (ch_utc_now host) raw_text))) (\<lambda>_.
     ebind (\<lambda>w. (sha256_path w destination, w)) (\<lambda>digest.
     ebind (elift (py_item spec ''sha256_key'')) (\<lambda>key.
     eret (0,
       [Out (''STATUS: PASS cpu_ap.transcript_intake - archived '' @ rel repo destination @ '' sha256='' @ digest),
        Out (''  update generated import manifest evidence_sha256.'' @ py_str key @ ''='' @ digest)]))))))"

definition intake :: "cap_host \<Rightarrow> ppath \<Rightarrow> intake_args \<Rightarrow> (world, py_exc, int \<times> printed list) est" where
  "intake host repo a =
     ebind (\<lambda>w. (load_manifest_or_exit w repo, w)) (\<lambda>manifest.
     ebind (elift (mode_transcript (ia_mode a))) (\<lambda>(transcript_key, artifact).
     ebind (elift (spec_named manifest transcript_key)) (\<lambda>spec.
     let generated = rooted repo (path_of (ia_generated_manifest a));
         source = path_of (ch_expanduser host (ia_source a)) in
     (\<lambda>w.
      if \<not> is_file w generated then
        (Inr (2, [Err (''error: generated import manifest does not exist: '' @ rel repo generated),
           Out (''STATUS: BLOCKED cpu_ap.transcript_intake - generate/import OpenAgentRocketConfig ''
             @ ''before archiving boot evidence'')]), w)
      else if \<not> is_file w source then
        (Inr (1, [Err (''error: source transcript does not exist: '' @ path_str source)]), w)
      else
        ebind (elift (read_text w source)) (\<lambda>raw_text.
        ebind (elift (text_problems (ia_command a @ [CHR 0x0A] @ raw_text) spec (path_str source) True)) (\<lambda>problems.
        if problems \<noteq> [] then
          eret (1, Out ''STATUS: FAIL cpu_ap.transcript_intake - source transcript is not acceptable''
            # map (\<lambda>p. Out (''  - '' @ p)) problems)
        else archive host repo a spec artifact generated (path_str source) raw_text)) w))))"

section \<open>Listings\<close>

definition hash_lines :: "world \<Rightarrow> ppath \<Rightarrow> string \<Rightarrow> (string \<times> pyv) list \<Rightarrow> printed list py" where
  "hash_lines w repo prefix specs =
     mapR (\<lambda>(name, spec).
       rbind (py_item spec ''path'') (\<lambda>path.
       let p = ap_path repo (py_str path) in
       if path_exists w p then
         rbind (py_item spec ''sha256_key'') (\<lambda>key.
         rbind (sha256_path w p) (\<lambda>digest.
         Inr (Out (''  '' @ prefix @ ''.'' @ py_str key @ ''='' @ digest @ ''  # '' @ name))))
       else Inr (Out (''  missing '' @ py_str path @ ''  # '' @ name)))) specs"

definition hashes :: "world \<Rightarrow> ppath \<Rightarrow> (int \<times> printed list) py" where
  "hashes w repo =
     rbind (load_manifest_or_exit w repo) (\<lambda>manifest.
     rbind (rbind (artifact_specs manifest) (hash_lines w repo ''artifact_sha256'')) (\<lambda>artifacts.
     rbind (rbind (transcript_specs manifest) (hash_lines w repo ''evidence_sha256'')) (\<lambda>transcripts.
     Inr (0, Out ''CPU/AP generated artifact hashes for import manifest:'' # artifacts
       @ Out ''CPU/AP transcript hashes for import manifest:'' # transcripts))))"

definition modes_of :: "string \<Rightarrow> string list" where
  "modes_of mode = (if mode \<noteq> ''all'' then [mode] else sort (map fst MODE_TO_TRANSCRIPT))"

definition mode_env :: "string \<Rightarrow> string py" where
  "mode_env mode = (case map_of MODE_ENV mode of None \<Rightarrow> Inl (PyKeyError mode) | Some s \<Rightarrow> Inr s)"

definition template_lines :: "pyv \<Rightarrow> string \<Rightarrow> printed list py" where
  "template_lines manifest mode =
     rbind (mode_transcript mode) (\<lambda>(transcript_key, artifact).
     rbind (spec_named manifest transcript_key) (\<lambda>spec.
     rbind (py_item spec ''artifact'') (\<lambda>label.
     rbind (py_item spec ''path'') (\<lambda>path.
     rbind (mode_env mode) (\<lambda>env.
     rbind (py_iter (get_or spec ''raw_required_strings'' (PList []))) (\<lambda>markers.
     Inr ([Out (''# '' @ mode @ '': '' @ py_str label), Out (''# destination: '' @ py_str path),
           Out (''# command env: '' @ env),
           Out ''# Raw transcript from the generated AP simulator must contain these markers:'']
         @ map (\<lambda>m. Out (''# - '' @ py_str m)) markers
         @ [Out ''#'', Out (''openagent-evidence: template_for='' @ artifact),
            Out ''openagent-evidence: replace_this_file_with_real_generated_ap_output=true'', Out []])))))))"

definition template :: "world \<Rightarrow> ppath \<Rightarrow> string \<Rightarrow> (int \<times> printed list) py" where
  "template w repo mode =
     rbind (load_manifest_or_exit w repo) (\<lambda>manifest.
     rbind (mapR (template_lines manifest) (modes_of mode)) (\<lambda>ls. Inr (0, concat ls)))"

definition plan_entry :: "pyv \<Rightarrow> string \<Rightarrow> pyv py" where
  "plan_entry manifest mode =
     rbind (mode_transcript mode) (\<lambda>(transcript_key, artifact).
     rbind (spec_named manifest transcript_key) (\<lambda>spec.
     rbind (mode_env mode) (\<lambda>env.
     Inr (PDict
       [(''mode'', PStr mode), (''artifact'', PStr artifact), (''artifact_label'', get spec ''artifact''),
        (''destination'', get spec ''path''), (''command_env'', PStr env),
        (''raw_required_strings'', get_or spec ''raw_required_strings'' (PList [])),
        (''intake_command'', PStr (''python3 scripts/capture_cpu_ap_evidence.py intake '' @ mode
           @ '' --source /path/to/'' @ mode @ ''.log --command '' @ [CHR 0x22] @ ''$'' @ env @ [CHR 0x22]))]))))"

datatype plan_format = PlanText | PlanJson | PlanShell

definition entry_text :: "pyv \<Rightarrow> string \<Rightarrow> string" where
  "entry_text entry key = py_str (get entry key)"

definition capture_plan :: "world \<Rightarrow> ppath \<Rightarrow> string \<Rightarrow> plan_format \<Rightarrow> (int \<times> printed list) py" where
  "capture_plan w repo mode fmt =
     rbind (load_manifest_or_exit w repo) (\<lambda>manifest.
     rbind (mapR (plan_entry manifest) (modes_of mode)) (\<lambda>es.
     Inr (0, case fmt of
        PlanJson \<Rightarrow> [Out (json_dumps True (PDict
          [(''schema'', PStr ''openagent.cpu_ap_capture_plan.v1''), (''generated_manifest'', PStr GENERATED_MANIFEST),
           (''wrapper'', PStr ''scripts/capture_chipyard_linux_evidence.sh''),
           (''claim_boundary'', PStr ''plan_only_no_boot_claim''), (''entries'', PList es)]))]
      | PlanShell \<Rightarrow>
          [Out ''# Fill these with commands that run the generated AP simulator/tests.'',
           Out ''# The capture wrapper archives only transcripts that pass marker validation.'']
          @ concat (map (\<lambda>e. [Out (''# '' @ entry_text e ''mode'' @ '' -> '' @ entry_text e ''destination''),
              Out (''export '' @ entry_text e ''command_env'' @ [CHR ''='', CHR 0x27, CHR 0x27])]) es)
          @ [Out ''scripts/capture_chipyard_linux_evidence.sh all'']
      | PlanText \<Rightarrow>
          [Out ''CPU/AP generated-AP capture plan'', Out (''Generated manifest: '' @ GENERATED_MANIFEST),
           Out ''Wrapper: scripts/capture_chipyard_linux_evidence.sh all'']
          @ concat (map (\<lambda>e.
              [Out (''- '' @ entry_text e ''mode'' @ '': '' @ entry_text e ''destination''),
               Out (''  command env: '' @ entry_text e ''command_env''), Out ''  required raw markers:'']
              @ map (\<lambda>m. Out (''    - '' @ py_str m)) (as_list (get e ''raw_required_strings''))) es))))"

section \<open>The dispatch\<close>

datatype cap_command =
    CapIntake intake_args
  | CapHashes
  | CapTemplate string
  | CapPlan string plan_format
  | CapDts dts_args

definition capture_main :: "cap_host \<Rightarrow> ppath \<Rightarrow> cap_command \<Rightarrow> (world, py_exc, int \<times> printed list) est" where
  "capture_main host repo c = (case c of
     CapIntake a \<Rightarrow> intake host repo a
   | CapHashes \<Rightarrow> (\<lambda>w. (hashes w repo, w))
   | CapTemplate mode \<Rightarrow> (\<lambda>w. (template w repo mode, w))
   | CapPlan mode fmt \<Rightarrow> (\<lambda>w. (capture_plan w repo mode fmt, w))
   | CapDts a \<Rightarrow> (\<lambda>w. (dts_audit host w repo a, w)))"

end
