(* ===== verification/Ap_Sound.thy ===== *)
theory Ap_Sound
  imports Ap_Capture
begin

text \<open>
  What the CPU/AP evidence gate accepts, and that what the capture helper archives is bound to the
  generated manifest the gate asks for.
\<close>

section \<open>Clean checks of the manifest\<close>

lemma require_clean [clean_simps]: "require b msg = Inr ([], u) \<longleftrightarrow> b"
  by (simp add: require_def clean_simps)

text \<open>What a clean manifest says of each transcript.\<close>

definition good_transcript :: "string \<times> pyv \<Rightarrow> bool" where
  "good_transcript e = (case e of (name, spec) \<Rightarrow>
     (\<exists>p. get spec ''path'' = PStr p \<and> starts_with ''build/evidence/cpu_ap/'' p)
     \<and> (\<exists>xs. get spec ''required_strings'' = PList xs \<and> xs \<noteq> []))"

lemma filled_list_iff: "filled_list v \<longleftrightarrow> (\<exists>xs. v = PList xs \<and> xs \<noteq> [])"
  by (cases v) (auto simp: filled_list_def)

interpretation spec_rule: sound_check transcript_spec_check good_transcript
proof
  fix e assume "transcript_spec_check e = Inr ([], ())"
  then show "good_transcript e"
    by (cases e) (auto simp: transcript_spec_check_def spec_fields_def good_transcript_def clean_simps Let_def
        filled_list_iff)
qed

lemma load_manifest_clean:
  assumes "load_evidence_manifest w repo = Inr ([], manifest)"
  shows "load_json w (ap_path repo EVIDENCE_MANIFEST) = Inr manifest \<and> is_dict manifest
    \<and> (\<exists>specs. transcript_specs manifest = Inr specs \<and> set REQUIRED_TRANSCRIPTS \<subseteq> set (map fst specs)
         \<and> list_all good_transcript specs)"
proof -
  from assms have load: "load_json w (ap_path repo EVIDENCE_MANIFEST) = Inr manifest"
    and valid: "validate_evidence_manifest repo manifest = Inr ([], ())"
    by (auto simp: load_evidence_manifest_def clean_simps Let_def split: if_splits sum.splits py_exc.splits)
  from valid have dict: "is_dict manifest" by (auto simp: validate_evidence_manifest_def split: if_splits)
  with valid have "wbind (wlift (transcript_specs manifest))
      (specs_check ''CPU/AP evidence manifest missing transcript specs: '' REQUIRED_TRANSCRIPTS transcript_spec_check)
      = Inr ([], ())"
    by (simp add: validate_evidence_manifest_def wlist_clean del: wlist.simps)
  then obtain specs where specs: "transcript_specs manifest = Inr specs"
    and check: "specs_check ''CPU/AP evidence manifest missing transcript specs: '' REQUIRED_TRANSCRIPTS
      transcript_spec_check specs = Inr ([], ())"
    by (auto simp: clean_simps)
  from check have "filter (\<lambda>n. n \<notin> set (map fst specs)) (sort REQUIRED_TRANSCRIPTS) = []"
    and each: "\<forall>e \<in> set specs. transcript_spec_check e = Inr ([], ())"
    by (auto simp: specs_check_def clean_simps Let_def)
  then have "set REQUIRED_TRANSCRIPTS \<subseteq> set (map fst specs)" by (auto simp: filter_empty_conv)
  moreover have "list_all good_transcript specs" using each spec_rule.sound by (simp add: list_all_iff)
  ultimately show ?thesis using load dict specs by blast
qed

section \<open>Clean transcripts\<close>

text \<open>What the gate promises of a transcript: its text, by the digest of the generated manifest.\<close>

definition bound_transcript :: "string \<Rightarrow> string \<Rightarrow> pyv \<Rightarrow> string \<Rightarrow> bool" where
  "bound_transcript manifest_rel digest spec t \<longleftrightarrow>
     contains (manifest_line manifest_rel) t \<and> contains (sha_line digest) t
     \<and> list_all (\<lambda>term. \<not> contains (lower term) (lower t)) DEFAULT_FORBIDDEN_EVIDENCE_TERMS
     \<and> list_all (\<lambda>s. contains s t) (str_terms (as_list (get spec ''required_strings'')))"

lemma metadata_clean:
  assumes "metadata_check w repo t r = Inr ([], ())"
  obtains digest where "sha256_path w (ap_path repo GENERATED_MANIFEST) = Inr digest"
    "contains (manifest_line (rel repo (ap_path repo GENERATED_MANIFEST))) t" "contains (sha_line digest) t"
  using assms by (auto simp: metadata_check_def clean_simps Let_def split: if_splits)

lemma text_clean:
  assumes "text_check t spec r False = Inr ([], ())" "get spec ''required_strings'' = PList xs"
  shows "list_all (\<lambda>term. \<not> contains (lower term) (lower t)) DEFAULT_FORBIDDEN_EVIDENCE_TERMS"
    and "list_all (\<lambda>s. contains s t) (str_terms xs)"
proof -
  have key: "get_or spec ''required_strings'' d = PList xs" for d
    using assms(2) by (auto simp: get_def get_or_def split: option.splits)
  from assms(1) obtain forbidden where
    forbidden: "list_plus (map PStr DEFAULT_FORBIDDEN_EVIDENCE_TERMS) (get_or spec ''forbidden_strings'' (PList [])) = Inr forbidden"
    "filter (\<lambda>term. contains (lower term) (lower t)) (str_terms forbidden) = []"
    "filter (\<lambda>term. \<not> contains term t) (str_terms xs) = []"
    by (auto simp: text_check_def clean_simps Let_def key)
  moreover have "str_terms (map PStr ts @ ys) = ts @ str_terms ys" for ts ys
    by (induction ts) (simp_all add: str_terms_def)
  ultimately have "set DEFAULT_FORBIDDEN_EVIDENCE_TERMS \<subseteq> set (str_terms forbidden)"
    by (auto simp: list_plus_def split: if_splits)
  with forbidden(2,3) show "list_all (\<lambda>term. \<not> contains (lower term) (lower t)) DEFAULT_FORBIDDEN_EVIDENCE_TERMS"
    "list_all (\<lambda>s. contains s t) (str_terms xs)"
    by (auto simp: list_all_iff filter_empty_conv)
qed

lemma transcript_clean:
  assumes "transcript_check w repo (name, spec) = Inr ([], [])" "good_transcript (name, spec)"
  shows "\<exists>p t digest. get spec ''path'' = PStr p \<and> read_text w (ap_path repo p) = Inr t
    \<and> sha256_path w (ap_path repo GENERATED_MANIFEST) = Inr digest
    \<and> bound_transcript (rel repo (ap_path repo GENERATED_MANIFEST)) digest spec t"
proof -
  from assms(2) obtain p xs where p: "get spec ''path'' = PStr p" and xs: "get spec ''required_strings'' = PList xs"
    by (auto simp: good_transcript_def)
  from assms(1) obtain t where t: "read_text w (ap_path repo p) = Inr t"
    and words: "text_check t spec p False = Inr ([], ())" and meta: "metadata_check w repo t p = Inr ([], ())"
    by (auto simp: transcript_check_def p clean_simps split: if_splits)
  from meta obtain digest where "sha256_path w (ap_path repo GENERATED_MANIFEST) = Inr digest"
    "contains (manifest_line (rel repo (ap_path repo GENERATED_MANIFEST))) t" "contains (sha_line digest) t"
    by (rule metadata_clean)
  with p t text_clean [OF words xs] xs show ?thesis by (auto simp: bound_transcript_def)
qed

section \<open>The gate\<close>

text \<open>C36: When the gate demands the evidence and ends with code 0, the five required transcripts are
  listed, and every listed transcript is a file whose text names the generated manifest with the
  digest it has now, holds every required marker and none of the default forbidden terms.\<close>

theorem ap_evidence_sound:
  assumes "ap_check_main w repo exe True = Inr (0, lines)"
  shows "\<exists>manifest specs digest. load_json w (ap_path repo EVIDENCE_MANIFEST) = Inr manifest
    \<and> transcript_specs manifest = Inr specs \<and> set REQUIRED_TRANSCRIPTS \<subseteq> set (map fst specs)
    \<and> sha256_path w (ap_path repo GENERATED_MANIFEST) = Inr digest
    \<and> (\<forall>(name, spec) \<in> set specs. \<exists>p t. get spec ''path'' = PStr p \<and> read_text w (ap_path repo p) = Inr t
         \<and> bound_transcript (rel repo (ap_path repo GENERATED_MANIFEST)) digest spec t)"
proof -
  from assms have "evidence_problems w repo = Inr ([], [])"
    by (auto simp: ap_check_main_def Let_def split: if_splits prod.splits)
  then obtain manifest specs missing where
    load: "load_evidence_manifest w repo = Inr ([], manifest)" and specs: "transcript_specs manifest = Inr specs"
    and run: "wmap (transcript_check w repo) specs = Inr ([], missing)" and none: "concat missing = []"
    by (auto simp: evidence_problems_def clean_simps)
  from load_manifest_clean [OF load] specs have json: "load_json w (ap_path repo EVIDENCE_MANIFEST) = Inr manifest"
    and required: "set REQUIRED_TRANSCRIPTS \<subseteq> set (map fst specs)" and good: "list_all good_transcript specs"
    by auto
  have clean: "transcript_check w repo e = Inr ([], [])" if "e \<in> set specs" for e
  proof -
    from that obtain i where "i < length specs" "e = specs ! i" by (auto simp: in_set_conv_nth)
    with run have "i < length missing" "transcript_check w repo e = Inr ([], missing ! i)"
      by (auto simp: wmap_clean list_all2_conv_all_nth)
    with none show ?thesis by (auto dest: nth_mem)
  qed
  have each: "\<exists>p t digest. get spec ''path'' = PStr p \<and> read_text w (ap_path repo p) = Inr t
    \<and> sha256_path w (ap_path repo GENERATED_MANIFEST) = Inr digest
    \<and> bound_transcript (rel repo (ap_path repo GENERATED_MANIFEST)) digest spec t" if "(name, spec) \<in> set specs" for name spec
    using clean [OF that] good that by (intro transcript_clean) (auto simp: list_all_iff)
  obtain name spec where "(name, spec) \<in> set specs" using required by (auto simp: REQUIRED_TRANSCRIPTS_def)
  from each [OF this] obtain digest where digest: "sha256_path w (ap_path repo GENERATED_MANIFEST) = Inr digest" by blast
  have "\<forall>(name, spec) \<in> set specs. \<exists>p t. get spec ''path'' = PStr p \<and> read_text w (ap_path repo p) = Inr t
    \<and> bound_transcript (rel repo (ap_path repo GENERATED_MANIFEST)) digest spec t"
    using each digest by fastforce
  with json specs required digest show ?thesis by blast
qed

section \<open>A repository whose evidence is accepted\<close>

definition demo_spec :: "string \<Rightarrow> pyv" where
  "demo_spec name = PDict
     [(''path'', PStr ''build/evidence/cpu_ap/run.log''), (''manifest_key'', PStr name), (''sha256_key'', PStr name),
      (''required_strings'', PList [PStr ''Linux version'']), (''raw_required_strings'', PList [PStr ''Linux version'']),
      (''min_bytes'', PInt 8)]"

definition demo_artifact :: "string \<Rightarrow> pyv" where
  "demo_artifact name = PDict
     [(''path'', PStr ''build/chipyard/openagent_rocket/out''), (''manifest_key'', PStr name), (''sha256_key'', PStr name),
      (''kind'', PStr ''file''), (''requires_executable'', PBool True)]"

definition demo_gate :: "string \<times> string \<Rightarrow> pyv" where
  "demo_gate e = PDict
     [(''gate'', PStr (fst e)), (''status'', PStr ''blocked''), (''evidence'', PStr (snd e)),
      (''pass_requires'', PList [PStr ''log'']), (''fail_if'', PList [PStr ''none''])]"

definition demo_manifest :: pyv where
  "demo_manifest = PDict
     [(''schema_version'', PInt 1),
      (''claim_boundary'', PStr ''generated_chipyard_artifacts_and_external_transcripts_only''),
      (''completion_claim'', PStr ''blocked_until_all_required_artifacts_and_evidence_pass''),
      (''selected_manifest'', PStr ''generators/chipyard/openagent-rocket-manifest.json''),
      (''generated_manifest'', PStr GENERATED_MANIFEST),
      (''capture_helper'', PStr ''scripts/capture_cpu_ap_evidence.py''),
      (''linux_capable_gate_matrix'', PList (map demo_gate LINUX_GATES)),
      (''qemu_reference_evidence'', PDict
         [(''status'', PStr ''software_reference_only_not_linux_capable_cpu_evidence''),
          (''attempt_log'', PStr ''build/reports/qemu_os_boot_attempt.log''),
          (''capture_command'', PStr ''scripts/run_qemu.sh --check-os''),
          (''allowed_results'', PList [PStr ''PASS'', PStr ''FAIL'', PStr ''BLOCKED'']),
          (''claim_limit'', PStr ''cannot satisfy'')]),
      (''target_policy'', PDict
         [(''initial_linux_bringup_claim'', PStr ''single_hart_rocket_rv64gc_linux_smoke_only''),
          (''phone_2028_ap_claim'', PStr ''blocked_until_phone_class_artifacts_and_evidence_pass''),
          (''phone_2028_claim_requires'', PList (map PStr PHONE_ITEMS)),
          (''forbidden_without_evidence'', PList (map PStr [''phone-class AP'', ''Android compatible'', ''production silicon'']))]),
      (''generated_artifacts'', PDict (map (\<lambda>n. (n, demo_artifact n)) REQUIRED_GENERATED)),
      (''transcripts'', PDict (map (\<lambda>n. (n, demo_spec n)) REQUIRED_TRANSCRIPTS))]"

abbreviation demo_repo :: ppath where "demo_repo \<equiv> PPath True [''repo'']"

lemma demo_manifest_parts:
  "manifest_header demo_repo demo_manifest = Inr ([], ())" "qemu_check demo_manifest = Inr ([], ())"
  "policy_check demo_manifest = Inr ([], ())"
  by code_simp+

lemma demo_gates: "gate_matrix_check demo_manifest = Inr ([], ())"
  by code_simp

lemma demo_specs:
  "artifact_specs demo_manifest = Inr (map (\<lambda>n. (n, demo_artifact n)) REQUIRED_GENERATED)"
  "transcript_specs demo_manifest = Inr (map (\<lambda>n. (n, demo_spec n)) REQUIRED_TRANSCRIPTS)"
  by code_simp+

lemma demo_specs_checked:
  "specs_check ''CPU/AP evidence manifest missing generated artifact specs: '' REQUIRED_GENERATED artifact_spec_check
     (map (\<lambda>n. (n, demo_artifact n)) REQUIRED_GENERATED) = Inr ([], ())"
  "specs_check ''CPU/AP evidence manifest missing transcript specs: '' REQUIRED_TRANSCRIPTS transcript_spec_check
     (map (\<lambda>n. (n, demo_spec n)) REQUIRED_TRANSCRIPTS) = Inr ([], ())"
  by code_simp+

lemma demo_manifest_valid: "validate_evidence_manifest demo_repo demo_manifest = Inr ([], ())"
proof -
  have "is_dict demo_manifest" by (simp add: demo_manifest_def)
  then show ?thesis
    by (simp add: validate_evidence_manifest_def demo_manifest_parts demo_gates demo_specs demo_specs_checked wret_def)
qed

definition demo_transcript :: string where
  "demo_transcript = concat [manifest_line GENERATED_MANIFEST, [CHR 0x0A], sha_line ''d1'', [CHR 0x0A], ''Linux version'']"

definition demo_selected :: pyv where
  "demo_selected = PDict
     [(''status'', PStr ''selected_not_generated''),
      (''chipyard'', PDict (map (\<lambda>(k, v). (k, PStr v)) EXPECTED_CHIPYARD)),
      (''selected_path'', PDict [(''core'', PStr ''Rocket''), (''isa'', PStr ''RV64GC''), (''harts'', PInt 1),
         (''config_name'', PStr ''OpenAgentRocketConfig''), (''claim_level'', PStr ''initial_linux_bringup_only'')]),
      (''phone_2028_target_boundary'', PDict [(''status'', PStr ''blocked_not_selected_for_product_claims'')]),
      (''claim_policy'', PDict [(''linux_capable_cpu_claim'', PBool False)]),
      (''evidence_manifest'', PStr ''docs/evidence/cpu-ap-evidence-manifest.json''),
      (''target_delta_manifest'', PStr ''docs/evidence/cpu-ap-2028-target-deltas.json''),
      (''roadmap_manifest'', PStr ''docs/evidence/cpu-ap-roadmap.json''),
      (''capture_helper'', PStr ''scripts/capture_cpu_ap_evidence.py''),
      (''required_evidence'', PList [PStr ''build/evidence/cpu_ap/run.log''])]"

definition demo_cpu :: string where
  \<open>demo_cpu = concat [''FETCH_REQ EXECUTE '', ''7'' @ [CHR 0x27] @ ''b0010011'', ''7'' @ [CHR 0x27] @ ''b0000011'',
     ''irq_pending = timer_irq | software_irq | external_irq'']\<close>

definition demo_test :: string where
  "demo_test = concat [''tiny_cpu_extended_opcode_subset_has_observable_state'', ''tiny_cpu_waits_for_fetch_and_store_request_stalls'',
     ''tiny_cpu_privileged_csr_and_trap_instructions_are_blocked_scaffold'']"

definition demo_ap_files :: "(string \<times> string) list" where
  "demo_ap_files =
     [(''rtl/cpu/e1_cpu_subsystem_stub.sv'', demo_cpu), (''verify/cocotb/test_tiny_cpu_execution.py'', demo_test),
      (''verify/cocotb/e1_tiny_cpu_contract_tb.sv'', ''stall_cpu_ar stall_cpu_aw stall_cpu_w''),
      (''docs/arch/linux-capable-cpu-contract.md'', concat CONTRACT_TOKENS),
      (''docs/project/cpu-ap-blocker-status-2026-05-17.md'', concat BLOCKER_TOKENS),
      (''sw/platform/e1_platform_contract.json'', ''contract''), (SELECTED_MANIFEST, ''selected''),
      (EVIDENCE_MANIFEST, ''evidence''), (GENERATED_MANIFEST, ''generated''),
      (''build/evidence/cpu_ap/run.log'', demo_transcript)]"

definition demo_ap_world :: world where
  "demo_ap_world = \<lparr>wd_file = map_of (map (\<lambda>(p, s). (ap_path demo_repo p, s)) demo_ap_files), wd_readable = (\<lambda>_. True),
     wd_is_dir = (\<lambda>_. False), wd_executable = (\<lambda>_. False), wd_resolve = id, wd_env_path = [], wd_sha256 = (\<lambda>_. ''d1''),
     wd_json = map_of [(''contract'', PDict [(''e1_chip'', PDict [(''has_cpu'', PBool False)])]), (''selected'', demo_selected),
       (''evidence'', demo_manifest)],
     wd_yaml = (\<lambda>_. None), wd_list = (\<lambda>_. []), wd_run = (\<lambda>_ _ _. Completed 0 [])\<rparr>"

lemma demo_reads:
  "read_source demo_ap_world demo_repo ''rtl/cpu/e1_cpu_subsystem_stub.sv'' = Inr demo_cpu"
  "read_source demo_ap_world demo_repo ''verify/cocotb/test_tiny_cpu_execution.py'' = Inr demo_test"
  "read_source demo_ap_world demo_repo ''verify/cocotb/e1_tiny_cpu_contract_tb.sv'' = Inr ''stall_cpu_ar stall_cpu_aw stall_cpu_w''"
  "read_source demo_ap_world demo_repo ''docs/arch/linux-capable-cpu-contract.md'' = Inr (concat CONTRACT_TOKENS)"
  "read_source demo_ap_world demo_repo ''docs/project/cpu-ap-blocker-status-2026-05-17.md'' = Inr (concat BLOCKER_TOKENS)"
  "read_source demo_ap_world demo_repo ''sw/platform/e1_platform_contract.json'' = Inr ''contract''"
  "read_source demo_ap_world demo_repo ''build/evidence/cpu_ap/run.log'' = Inr demo_transcript"
  by code_simp+

lemma demo_loads:
  "load_json demo_ap_world (ap_path demo_repo SELECTED_MANIFEST) = Inr demo_selected"
  "load_json demo_ap_world (ap_path demo_repo EVIDENCE_MANIFEST) = Inr demo_manifest"
  "is_file demo_ap_world (ap_path demo_repo EVIDENCE_MANIFEST)"
  "is_file demo_ap_world (ap_path demo_repo ''docs/arch/linux-capable-cpu-contract.md'')"
  "is_file demo_ap_world (ap_path demo_repo ''build/evidence/cpu_ap/run.log'')"
  "json_loads demo_ap_world ''contract'' = Inr (PDict [(''e1_chip'', PDict [(''has_cpu'', PBool False)])])"
  by code_simp+

lemma demo_evidence_loads: "load_evidence_manifest demo_ap_world demo_repo = Inr ([], demo_manifest)"
  by (simp add: load_evidence_manifest_def demo_loads demo_manifest_valid wret_def Let_def)

lemma demo_scaffold_parts:
  "rtl_check demo_cpu demo_test ''stall_cpu_ar stall_cpu_aw stall_cpu_w'' = Inr ([], ())"
  "contract_check (PDict [(''e1_chip'', PDict [(''has_cpu'', PBool False)])]) = Inr ([], ())"
  by code_simp+

lemma demo_contract_tokens:
  "tokens_check ''CPU/AP blocker status lacks required blocker token: '' (concat BLOCKER_TOKENS) BLOCKER_TOKENS = Inr ([], ())"
  "tokens_check ''Linux-capable CPU contract lacks required evidence token: '' (concat CONTRACT_TOKENS) CONTRACT_TOKENS = Inr ([], ())"
  by (simp_all add: tokens_check_def clean_simps contains_concat)

definition demo_section :: "string \<Rightarrow> pyv" where
  "demo_section key = get demo_selected key"

lemma demo_ap_sections:
  "py_get demo_selected ''chipyard'' (PDict []) = Inr (demo_section ''chipyard'')"
  "py_get demo_selected ''selected_path'' (PDict []) = Inr (demo_section ''selected_path'')"
  "py_get demo_selected ''claim_policy'' (PDict []) = Inr (demo_section ''claim_policy'')"
  "py_get demo_selected ''phone_2028_target_boundary'' (PDict []) = Inr (demo_section ''phone_2028_target_boundary'')"
  by code_simp+

lemma demo_selection:
  "selection_check demo_selected (demo_section ''chipyard'') (demo_section ''selected_path'')
     (demo_section ''phone_2028_target_boundary'') (demo_section ''claim_policy'') = Inr ([], ())"
  "required_evidence_check demo_selected demo_manifest = Inr ([], ())"
  by code_simp+

lemma demo_scaffold: "check_scaffold demo_ap_world demo_repo ''python3'' = Inr ([], ())"
proof -
  have "linux_gate_check demo_ap_world ''python3'' = Inr ([], ())"
    by (simp add: linux_gate_check_def demo_ap_world_def clean_simps)
  then show ?thesis
    by (simp add: check_scaffold_def demo_reads demo_loads demo_ap_sections demo_evidence_loads demo_scaffold_parts
        demo_selection demo_contract_tokens require_def report_if_def wret_def err_if_def)
qed

lemma demo_spec_fields:
  "get_or (demo_spec n) ''min_bytes'' (PInt 160) = PInt 8" "get_or (demo_spec n) ''forbidden_strings'' (PList []) = PList []"
  "get_or (demo_spec n) ''required_strings'' (PList []) = PList [PStr ''Linux version'']"
  "get_or (demo_spec n) ''at_least_one'' (PList []) = PList []" "get (demo_spec n) ''path'' = PStr ''build/evidence/cpu_ap/run.log''"
  by (simp_all add: demo_spec_def get_or_def get_def)

lemma demo_words:
  "\<not> length (strip demo_transcript) < 8"
  "filter (\<lambda>term. contains (lower term) (lower demo_transcript)) DEFAULT_FORBIDDEN_EVIDENCE_TERMS = []"
  "contains ''Linux version'' demo_transcript"
  by code_simp+

lemma str_terms_map [simp]: "str_terms (map PStr xs) = xs" "str_terms [PStr x] = [x]"
  by (simp_all add: str_terms_def filter_map comp_def)

lemma demo_text_checked: "text_check demo_transcript (demo_spec n) r False = Inr ([], ())"
  by (simp add: text_check_def demo_spec_fields demo_words list_plus_def report_if_def err_if_def weach_def wret_def)

lemma demo_metadata:
  "is_file demo_ap_world (ap_path demo_repo GENERATED_MANIFEST)"
  "sha256_path demo_ap_world (ap_path demo_repo GENERATED_MANIFEST) = Inr ''d1''"
  "rel demo_repo (ap_path demo_repo GENERATED_MANIFEST) = GENERATED_MANIFEST"
  "contains (manifest_line GENERATED_MANIFEST) demo_transcript" "contains (sha_line ''d1'') demo_transcript"
  "\<not> contains (sha_line ''missing'') demo_transcript"
  by code_simp+

lemma demo_metadata_checked: "metadata_check demo_ap_world demo_repo demo_transcript r = Inr ([], ())"
  by (simp add: metadata_check_def demo_metadata Let_def report_if_def err_if_def wret_def)

lemma demo_evidence: "evidence_problems demo_ap_world demo_repo = Inr ([], [])"
proof -
  have read: "read_text demo_ap_world (ap_path demo_repo ''build/evidence/cpu_ap/run.log'') = Inr demo_transcript"
    using demo_reads(7) by (simp add: read_source_def)
  have "transcript_check demo_ap_world demo_repo (n, demo_spec n) = Inr ([], [])" for n
    by (simp add: transcript_check_def demo_spec_fields demo_loads read demo_text_checked demo_metadata_checked wret_def)
  then have "wmap (transcript_check demo_ap_world demo_repo) (map (\<lambda>n. (n, demo_spec n)) ns) =
      Inr ([], replicate (length ns) [])" for ns
    by (induction ns) (simp_all add: wret_def)
  then show ?thesis by (simp add: evidence_problems_def demo_evidence_loads demo_specs wret_def)
qed

lemma demo_accepted: "\<exists>lines. ap_check_main demo_ap_world demo_repo ''python3'' True = Inr (0, lines)"
  by (simp add: ap_check_main_def demo_scaffold demo_evidence messages_def)

theorem ap_evidence_sound_witness:
  "\<exists>t. read_text demo_ap_world (ap_path demo_repo ''build/evidence/cpu_ap/run.log'') = Inr t
     \<and> bound_transcript GENERATED_MANIFEST ''d1'' (demo_spec ''linux_boot_log'') t"
proof -
  obtain lines where "ap_check_main demo_ap_world demo_repo ''python3'' True = Inr (0, lines)" using demo_accepted by blast
  from ap_evidence_sound [OF this] demo_loads(2) demo_specs(2) demo_metadata(2,3)
  have "\<forall>(name, spec) \<in> set (map (\<lambda>n. (n, demo_spec n)) REQUIRED_TRANSCRIPTS). \<exists>p t. get spec ''path'' = PStr p
    \<and> read_text demo_ap_world (ap_path demo_repo p) = Inr t \<and> bound_transcript GENERATED_MANIFEST ''d1'' spec t"
    by auto
  moreover have "(''linux_boot_log'', demo_spec ''linux_boot_log'') \<in> set (map (\<lambda>n. (n, demo_spec n)) REQUIRED_TRANSCRIPTS)"
    by (simp add: REQUIRED_TRANSCRIPTS_def)
  ultimately show ?thesis using demo_spec_fields(5) by fastforce
qed

end
