(* ===== verification/Ap_Archive.thy ===== *)
theory Ap_Archive
  imports Ap_Sound
begin

text \<open>
  What the capture helper archives is bound to the generated manifest the evidence gate asks for.
\<close>

section \<open>Archiving\<close>

lemma contains_join: "m \<in> set ls \<Longrightarrow> contains m (join sep ls)"
proof (induction sep ls rule: join.induct)
  case (2 sep s)
  then show ?case using contains_front [of m "[]"] by simp
next
  case (3 sep s t ss)
  then show ?case using contains_front [of m "sep @ join sep (t # ss)"] contains_append [of m _ "s @ sep"] by auto
qed simp

lemma transcript_parts:
  assumes "starts_with ''build/evidence/cpu_ap/'' p"
  obtains r where "pabs (ap_path repo p) = pabs repo" "pparts (ap_path repo p) = pparts repo @ [''build'', ''evidence'', ''cpu_ap''] @ r"
proof -
  from assms obtain q where q: "p = ''build/evidence/cpu_ap/'' @ q" by (rule starts_withE)
  have "path_of p = PPath False ([''build'', ''evidence'', ''cpu_ap''] @ filter (\<lambda>s. s \<noteq> [] \<and> s \<noteq> ''.'') (split_on (CHR ''/'') q))"
    unfolding q by (simp add: path_of_def starts_with_def)
  then show ?thesis using that by (simp add: ap_path_def path_join_def)
qed

lemma generated_parts:
  "ap_path repo GENERATED_MANIFEST = PPath (pabs repo) (pparts repo @
     [''build'', ''chipyard'', ''openagent_rocket'', ''OpenAgentRocketConfig.manifest.json''])"
  by (simp add: ap_path_def GENERATED_MANIFEST_def path_join_def path_of_def starts_with_def)

text \<open>Writing a transcript leaves the generated manifest and its digest.\<close>

lemma generated_kept:
  fixes repo p s w
  assumes p: "starts_with ''build/evidence/cpu_ap/'' p" and nodir: "\<not> wd_is_dir w (ap_path repo GENERATED_MANIFEST)"
  defines "v \<equiv> write_file (make_dirs w (path_parent (ap_path repo p))) (ap_path repo p) s"
  shows "is_file v (ap_path repo GENERATED_MANIFEST) = is_file w (ap_path repo GENERATED_MANIFEST)"
    and "sha256_path v (ap_path repo GENERATED_MANIFEST) = sha256_path w (ap_path repo GENERATED_MANIFEST)"
proof -
  obtain r where r: "pparts (ap_path repo p) = pparts repo @ [''build'', ''evidence'', ''cpu_ap''] @ r"
    using p by (rule transcript_parts)
  have other: "ap_path repo p \<noteq> ap_path repo GENERATED_MANIFEST"
    using r by (auto simp: generated_parts)
  show "is_file v (ap_path repo GENERATED_MANIFEST) = is_file w (ap_path repo GENERATED_MANIFEST)"
    using other by (auto simp: v_def)
  have "\<not> wd_is_dir v (ap_path repo GENERATED_MANIFEST)"
    using nodir r by (auto simp: v_def write_file_def make_dirs_def path_parent_def generated_parts butlast_append split: if_splits)
  moreover have "wd_sha256 v = wd_sha256 w" by (simp add: v_def write_file_def make_dirs_def)
  moreover have "read_bytes v (ap_path repo GENERATED_MANIFEST) = read_bytes w (ap_path repo GENERATED_MANIFEST)"
    using other by (simp add: v_def)
  ultimately show "sha256_path v (ap_path repo GENERATED_MANIFEST) = sha256_path w (ap_path repo GENERATED_MANIFEST)"
    using nodir by (simp add: sha256_path_def sha256_file_def)
qed

section \<open>The archived text\<close>

lemma intake_archives:
  assumes "intake host repo a w = (Inr (0, lines), w')"
  obtains spec artifact source raw_text p sha where
    "starts_with ''build/evidence/cpu_ap/'' p"
    "is_file w (rooted repo (path_of (ia_generated_manifest a)))"
    "sha256_path w (rooted repo (path_of (ia_generated_manifest a))) = Inr sha"
    "w' = write_file (make_dirs w (path_parent (ap_path repo p))) (ap_path repo p)
       (archived_text artifact source (ia_command a) (rel repo (wd_resolve w (rooted repo (path_of (ia_generated_manifest a)))))
         sha (ch_utc_now host) raw_text)"
proof -
  let ?generated = "rooted repo (path_of (ia_generated_manifest a))"
  from assms obtain manifest key artifact spec raw_text where
    manifest: "load_manifest_or_exit w repo = Inr manifest" and spec: "spec_named manifest key = Inr spec"
    and generated: "is_file w ?generated"
    and archive: "archive host repo a spec artifact ?generated
      (path_str (path_of (ch_expanduser host (ia_source a)))) raw_text w = (Inr (0, lines), w')"
    unfolding intake_def Let_def
    by (auto simp: elift_def eret_def split: if_splits prod.splits elim!: ebind_InrE)
  from manifest have "load_evidence_manifest w repo = Inr ([], manifest)"
    by (auto simp: load_manifest_or_exit_def split: if_splits)
  from load_manifest_clean [OF this] obtain specs where specs: "transcript_specs manifest = Inr specs" "list_all good_transcript specs"
    by blast
  with spec have "dget specs key = Some spec" by (auto simp: spec_named_def split: option.splits)
  with specs(2) have "good_transcript (key, spec)" by (auto simp: list_all_iff dest: dget_in)
  then obtain p where p: "get spec ''path'' = PStr p" "starts_with ''build/evidence/cpu_ap/'' p"
    by (auto simp: good_transcript_def)
  from p(1) have "py_item spec ''path'' = Inr v \<Longrightarrow> v = PStr p" for v
    by (cases spec) (auto simp: get_def get_or_def split: option.splits)
  with archive obtain sha where "sha256_path w ?generated = Inr sha"
    "w' = write_file (make_dirs w (path_parent (ap_path repo p))) (ap_path repo p)
       (archived_text artifact (path_str (path_of (ch_expanduser host (ia_source a)))) (ia_command a)
         (rel repo (wd_resolve w ?generated)) sha (ch_utc_now host) raw_text)"
    unfolding archive_def Let_def
    by (auto simp: elift_def eret_def py_str_def elim!: ebind_InrE)
  with p(2) generated that show ?thesis by blast
qed

text \<open>C37: When the capture helper archives a transcript against the generated manifest at its place, the
  file it leaves names that manifest with the digest it has: the gate's metadata check can complain
  of it only if the text also records a missing digest.\<close>

theorem archived_transcript_bound:
  assumes "intake host repo a w = (Inr (0, lines), w')"
    and "rooted repo (path_of (ia_generated_manifest a)) = ap_path repo GENERATED_MANIFEST"
    and "wd_resolve w (ap_path repo GENERATED_MANIFEST) = ap_path repo GENERATED_MANIFEST"
    and "\<not> wd_is_dir w (ap_path repo GENERATED_MANIFEST)"
  shows "\<exists>p t. starts_with ''build/evidence/cpu_ap/'' p \<and> read_bytes w' (ap_path repo p) = Inr t
    \<and> transcript_metadata_problems w' repo t p =
        Inr (if contains (sha_line ''missing'') t then [p @ '' records a missing generated manifest hash''] else [])"
proof -
  let ?g = "ap_path repo GENERATED_MANIFEST"
  from assms(1) obtain spec artifact source raw_text p sha where
    p: "starts_with ''build/evidence/cpu_ap/'' p" and gen: "is_file w ?g" "sha256_path w ?g = Inr sha"
    and w': "w' = write_file (make_dirs w (path_parent (ap_path repo p))) (ap_path repo p)
       (archived_text artifact source (ia_command a) (rel repo ?g) sha (ch_utc_now host) raw_text)"
    by (rule intake_archives) (simp add: assms(2,3))
  define t where "t = archived_text artifact source (ia_command a) (rel repo ?g) sha (ch_utc_now host) raw_text"
  have "contains (manifest_line (rel repo ?g)) t" "contains (sha_line sha) t"
    unfolding t_def archived_text_def manifest_line_def sha_line_def by (rule contains_join, simp)+
  moreover have "is_file w' ?g" "sha256_path w' ?g = Inr sha"
    using generated_kept [OF p assms(4)] gen by (simp_all add: w')
  ultimately have "transcript_metadata_problems w' repo t p =
      Inr (if contains (sha_line ''missing'') t then [p @ '' records a missing generated manifest hash''] else [])"
    by (simp add: transcript_metadata_problems_def metadata_check_def messages_def Let_def report_if_def err_if_def wret_def
        wbind_def)
  moreover have "read_bytes w' (ap_path repo p) = Inr t" by (simp add: w' t_def)
  ultimately show ?thesis using p by blast
qed

section \<open>An archived transcript\<close>

definition demo_source_world :: world where
  "demo_source_world = write_file demo_ap_world (PPath True [''run.log'']) ''Linux version 6''"

definition demo_cap_host :: cap_host where
  "demo_cap_host = \<lparr>ch_expanduser = id, ch_utc_now = ''2026'', ch_dtc = (\<lambda>_. None)\<rparr>"

definition demo_intake :: intake_args where
  "demo_intake = \<lparr>ia_mode = ''linux-boot'', ia_source = ''/run.log'', ia_command = ''make run'',
     ia_generated_manifest = GENERATED_MANIFEST\<rparr>"

lemma demo_source_files:
  "load_json demo_source_world (ap_path demo_repo EVIDENCE_MANIFEST) = Inr demo_manifest"
  "is_file demo_source_world (ap_path demo_repo EVIDENCE_MANIFEST)"
  "is_file demo_source_world (ap_path demo_repo GENERATED_MANIFEST)"
  "is_file demo_source_world (path_of ''/run.log'')"
  "read_text demo_source_world (path_of ''/run.log'') = Inr ''Linux version 6''"
  "sha256_path demo_source_world (ap_path demo_repo GENERATED_MANIFEST) = Inr ''d1''"
  "wd_resolve demo_source_world (ap_path demo_repo GENERATED_MANIFEST) = ap_path demo_repo GENERATED_MANIFEST"
  "\<not> wd_is_dir demo_source_world (ap_path demo_repo GENERATED_MANIFEST)"
  by code_simp+

definition demo_capture :: string where
  "demo_capture = ''make run'' @ [CHR 0x0A] @ ''Linux version 6''"

lemma demo_source_words:
  "\<not> length (strip demo_capture) < 8"
  "filter (\<lambda>term. contains (lower term) (lower demo_capture)) DEFAULT_FORBIDDEN_EVIDENCE_TERMS = []"
  "contains ''Linux version'' demo_capture"
  by code_simp+

lemma demo_source_spec:
  "rooted demo_repo (path_of GENERATED_MANIFEST) = ap_path demo_repo GENERATED_MANIFEST"
  "spec_named demo_manifest ''linux_boot_log'' = Inr (demo_spec ''linux_boot_log'')"
  "mode_transcript ''linux-boot'' = Inr (''linux_boot_log'', ''openagent_e1_linux_boot'')"
  by code_simp+

lemma demo_raw_field: "get_or (demo_spec n) ''raw_required_strings'' (PList []) = PList [PStr ''Linux version'']"
  by (simp add: demo_spec_def get_or_def)

lemma demo_source_accepted: "text_problems demo_capture (demo_spec n) r True = Inr []"
  by (simp add: text_problems_def messages_def text_check_def demo_spec_fields demo_raw_field demo_source_words list_plus_def
      report_if_def err_if_def weach_def wret_def)

lemma demo_intake_archives: "\<exists>lines w'. intake demo_cap_host demo_repo demo_intake demo_source_world = (Inr (0, lines), w')"
proof -
  have "load_evidence_manifest demo_source_world demo_repo = Inr ([], demo_manifest)"
    by (simp add: load_evidence_manifest_def demo_source_files demo_manifest_valid wret_def Let_def)
  then have manifest: "load_manifest_or_exit demo_source_world demo_repo = Inr demo_manifest"
    by (simp add: load_manifest_or_exit_def)
  have "py_item (demo_spec n) ''path'' = Inr (PStr ''build/evidence/cpu_ap/run.log'')"
    "py_item (demo_spec n) ''sha256_key'' = Inr (PStr n)" for n
    by (simp_all add: demo_spec_def)
  moreover define v where "v = (\<lambda>s. write_file (make_dirs demo_source_world
    (path_parent (ap_path demo_repo ''build/evidence/cpu_ap/run.log''))) (ap_path demo_repo ''build/evidence/cpu_ap/run.log'') s)"
  moreover have "sha256_path (v s) (ap_path demo_repo ''build/evidence/cpu_ap/run.log'') = Inr ''d1''" for s
  proof -
    have "\<not> wd_is_dir (v s) (ap_path demo_repo ''build/evidence/cpu_ap/run.log'')"
      by (simp add: v_def write_file_def make_dirs_def demo_source_world_def demo_ap_world_def path_parent_def ap_path_def
          path_join_def path_of_def starts_with_def)
    moreover have "wd_sha256 (v s) = (\<lambda>_. ''d1'')"
      by (simp add: v_def write_file_def make_dirs_def demo_source_world_def demo_ap_world_def)
    ultimately show ?thesis by (simp add: sha256_path_def sha256_file_def v_def)
  qed
  moreover have "text_problems (''make run'' @ [CHR 0x0A] @ ''Linux version 6'') (demo_spec n) r True = Inr []" for n r
    using demo_source_accepted by (simp only: demo_capture_def)
  ultimately show ?thesis
    by (simp add: intake_def demo_intake_def demo_cap_host_def manifest demo_source_spec demo_source_files ebind_def elift_def
        eret_def archive_def Let_def py_str_def)
qed

theorem archived_transcript_bound_witness:
  "\<exists>lines w' p t. intake demo_cap_host demo_repo demo_intake demo_source_world = (Inr (0, lines), w')
     \<and> read_bytes w' (ap_path demo_repo p) = Inr t"
proof -
  obtain lines w' where run: "intake demo_cap_host demo_repo demo_intake demo_source_world = (Inr (0, lines), w')"
    using demo_intake_archives by blast
  from archived_transcript_bound [OF run] demo_source_files(7,8) demo_source_spec(1) run show ?thesis
    by (auto simp: demo_intake_def)
qed

end
