(* ===== verification/Py_Glob.thy ===== *)
theory Py_Glob
  imports Py_Files
begin

text \<open>
  Patterns over paths: \<open>fnmatch\<close> on one component, \<open>Path.glob\<close> below a directory and
  \<open>Path.match\<close> from the right. The results of \<open>glob\<close> are in no particular order; the scripts sort
  them.
\<close>

section \<open>Components\<close>

text \<open>
  \<open>fnmatch\<close> on one path component. A bracket expression is a list of ranges, possibly negated; a
  bracket that is never closed stands for itself.
\<close>

fun class_ranges :: "string \<Rightarrow> (char \<times> char) list" where
  "class_ranges (a # m # b # s) =
     (if m = CHR ''-'' then (a, b) # class_ranges s else (a, a) # class_ranges (m # b # s))"
| "class_ranges (a # s) = (a, a) # class_ranges s"
| "class_ranges [] = []"

definition in_class :: "string \<Rightarrow> char \<Rightarrow> bool" where
  "in_class body c =
     (let neg = (body \<noteq> [] \<and> body ! 0 = CHR ''!''); rs = class_ranges (if neg then drop 1 body else body) in
      list_ex (\<lambda>(a, b). (of_char a :: int) \<le> of_char c \<and> (of_char c :: int) \<le> of_char b) rs \<noteq> neg)"

text \<open>The body of the bracket and the rest: the closing bracket is not the first character.\<close>

definition close_class :: "string \<Rightarrow> (string \<times> string) option" where
  "close_class s =
     (let k = (if s \<noteq> [] \<and> s ! 0 = CHR ''!'' then 1 else 0) + (1 :: nat); r = dropWhile (\<lambda>c. c \<noteq> CHR '']'') (drop k s) in
      if r = [] then None else Some (take (length s - length r) s, drop 1 r))"

fun fnmatch_fuel :: "nat \<Rightarrow> string \<Rightarrow> string \<Rightarrow> bool" where
  "fnmatch_fuel 0 pat s = False"
| "fnmatch_fuel (Suc n) pat s =
     (case pat of
        [] \<Rightarrow> s = []
      | p # ps \<Rightarrow>
          if p = CHR ''*'' then
            fnmatch_fuel n ps s \<or> (case s of [] \<Rightarrow> False | _ # cs \<Rightarrow> fnmatch_fuel n pat cs)
          else case s of
              [] \<Rightarrow> False
            | c # cs \<Rightarrow>
                if p = CHR ''?'' then fnmatch_fuel n ps cs
                else if p = CHR ''['' then
                  (case close_class ps of
                     None \<Rightarrow> c = p \<and> fnmatch_fuel n ps cs
                   | Some (body, rest) \<Rightarrow> in_class body c \<and> fnmatch_fuel n rest cs)
                else c = p \<and> fnmatch_fuel n ps cs)"

text \<open>Every round consumes a character of the pattern or of the text.\<close>

definition fnmatch :: "string \<Rightarrow> string \<Rightarrow> bool" where
  "fnmatch pat s = fnmatch_fuel (Suc (length pat + length s)) pat s"

definition is_wild :: "string \<Rightarrow> bool" where
  "is_wild pat \<longleftrightarrow> list_ex (\<lambda>c. c \<in> set ''*?['') pat"

definition dir_names :: "world \<Rightarrow> ppath \<Rightarrow> string list" where
  "dir_names w p = (if wd_is_dir w p then wd_list w p else [])"

fun glob_from :: "world \<Rightarrow> ppath \<Rightarrow> string list \<Rightarrow> ppath list" where
  "glob_from w p [] = [p]"
| "glob_from w p (pat # pats) =
     (if pat = ''**'' then concat (map (\<lambda>q. glob_from w q pats) (p # filter (wd_is_dir w) (rglob w p)))
      else concat (map (\<lambda>name. glob_from w (path_join p (PPath False [name])) pats)
        (if is_wild pat then filter (fnmatch pat) (dir_names w p) else [pat])))"

text \<open>\<open>ROOT.glob(pattern)\<close>: only relative patterns that name something.\<close>

definition glob :: "world \<Rightarrow> ppath \<Rightarrow> string \<Rightarrow> ppath list py" where
  "glob w repo pattern =
     (let p = path_of pattern in
      if pabs p then Inl (PyRuntimeError ''Non-relative patterns are unsupported'')
      else if pparts p = [] then Inl (PyValueError ''Unacceptable pattern'')
      else Inr (glob_from w repo (pparts p)))"

text \<open>\<open>Path(path).match(pattern)\<close>: component by component from the right.\<close>

definition all_parts :: "ppath \<Rightarrow> string list" where
  "all_parts p = (if pabs p then [''/''] else []) @ pparts p"

definition path_match :: "ppath \<Rightarrow> string \<Rightarrow> bool py" where
  "path_match p pattern =
     (let q = path_of pattern; pats = all_parts q; parts = all_parts p in
      if pats = [] then Inl (PyValueError ''empty pattern'')
      else Inr ((if pabs q then length pats = length parts else length pats \<le> length parts)
        \<and> list_all (\<lambda>(part, pat). fnmatch pat part) (zip (rev parts) (rev pats))))"

text \<open>\<open>path.is_absolute() or ".." in path.parts\<close>.\<close>

definition outside_repo :: "string \<Rightarrow> bool" where
  "outside_repo s \<longleftrightarrow> pabs (path_of s) \<or> ''..'' \<in> set (pparts (path_of s))"

text \<open>\<open>sorted(path for path in base.glob(pattern) if path.is_file())\<close>.\<close>

definition globbed_files :: "world \<Rightarrow> ppath \<Rightarrow> string \<Rightarrow> ppath list py" where
  "globbed_files w base pattern = rbind (glob w base pattern) (\<lambda>ps. Inr (filter (is_file w) (sort (remdups ps))))"

text \<open>\<open>p.parents[n]\<close>.\<close>

definition path_parents :: "ppath \<Rightarrow> nat \<Rightarrow> ppath py" where
  "path_parents p n = (if n < length (pparts p) then Inr (PPath (pabs p) (take (length (pparts p) - Suc n) (pparts p)))
     else Inl PyIndexError)"

section \<open>Numbers\<close>

text \<open>\<open>format(x, "g")\<close>: six significant digits, without trailing zeros.\<close>

definition drop_zeros :: "string \<Rightarrow> string" where
  "drop_zeros s = rev (dropWhile (\<lambda>c. c = CHR ''0'') (rev s))"

definition fmt_g_pos :: "rat \<Rightarrow> string" where
  "fmt_g_pos x =
     (let k = dec_exp x; d0 = round_even (x / pow10 (k - 5)); (d, e) = (if d0 = 10 ^ 6 then (10 ^ 5, k + 1) else (d0, k));
          ds = dec_str d in
      if - 4 \<le> e \<and> e < 0 then ''0.'' @ replicate (nat (- e - 1)) (CHR ''0'') @ drop_zeros ds
      else if 0 \<le> e \<and> e < 6 then
        (let frac = drop_zeros (drop (nat (e + 1)) ds) in take (nat (e + 1)) ds @ (if frac = [] then [] else ''.'' @ frac))
      else (let frac = drop_zeros (drop 1 ds) in take 1 ds @ (if frac = [] then [] else ''.'' @ frac)
              @ ''e'' @ (if e < 0 then ''-'' else ''+'') @ fmt_int 10 False 2 \<bar>e\<bar>))"

definition fmt_g :: "pyfloat \<Rightarrow> string" where
  "fmt_g f = (case f of
       PInf \<Rightarrow> ''inf'' | NInf \<Rightarrow> ''-inf'' | NaN \<Rightarrow> ''nan''
     | Fin x \<Rightarrow> if x = 0 then ''0'' else if x < 0 then ''-'' @ fmt_g_pos (- x) else fmt_g_pos x)"

end
