(* ===== verification/Board_Evidence.thy ===== *)
theory Board_Evidence
  imports Py_Check Py_Glob
begin

text \<open>
  \<open>scripts/check_board_package_evidence.py\<close>: the manifest of board, package and fabrication evidence with its
  linked contracts, templates, records and release blockers. A set of names is listed in the
  order of the source. The text of a YAML error is left out of the messages.
\<close>

section \<open>Constants\<close>

definition MANIFEST :: string where "MANIFEST = ''docs/manufacturing/board-package-evidence.yaml''"

definition BOARD_SHA256_RE :: rx where
  "BOARD_SHA256_RE = rx_seq (replicate 64 (RSet False [(48, 57), (97, 102)]))"

definition ALLOWED_STATUS :: "string list" where
  \<open>ALLOWED_STATUS =
     [''missing'', ''draft'', ''complete'']\<close>

definition REQUIRED_RELEASE_BLOCKER_IDS :: "string list" where
  \<open>REQUIRED_RELEASE_BLOCKER_IDS =
     [''package_drawing'', ''footprint_source'', ''bond_diagram'', ''kicad_project'', ''kicad_schematic'',
      ''kicad_pcb'', ''vendor_derived_footprint'', ''erc'', ''drc'', ''gerbers'', ''drill'', ''bom'',
      ''pick_and_place'', ''cross_probe'', ''dfm'', ''si_pi'', ''first_article'']\<close>

definition REQUIRED_SOURCE_CONTRACTS :: "string list" where
  \<open>REQUIRED_SOURCE_CONTRACTS =
     [''package_pinout'', ''padframe_contract'', ''board_cross_probe'', ''board_fab_notes'']\<close>

definition REQUIRED_SCALING_CHECKLIST_IDS :: "string list" where
  \<open>REQUIRED_SCALING_CHECKLIST_IDS =
     [''package_pin_budget'', ''external_lpddr_phy'', ''cpu_scaling_power'', ''npu_scaling_power'',
      ''board_power_thermal'', ''board_bringup'']\<close>

definition REQUIRED_SCALING_SCOPE :: "string list" where
  \<open>REQUIRED_SCALING_SCOPE =
     [''package_pin_budget'', ''cpu_scaling_power'', ''npu_scaling_power'', ''external_lpddr_phy'',
      ''board_power_thermal'', ''board_bringup'']\<close>

definition FORBIDDEN_SCALING_CLAIMS :: "string list" where
  \<open>FORBIDDEN_SCALING_CLAIMS =
     [''package_ready'', ''board_fabrication_ready'', ''lpddr_routing_closed'',
      ''thermal_solution_validated'', ''npu_power_validated'', ''2028_product_ready'']\<close>

definition REQUIRED_READINESS_MATRIX_IDS :: "string list" where
  \<open>REQUIRED_READINESS_MATRIX_IDS =
     [''lpddr'', ''power_rails'', ''thermal'', ''package_pins'', ''si_pi'', ''vendor_fab_evidence'']\<close>

definition REQUIRED_CAPTURE_TEMPLATE_FIELDS :: "string list" where
  \<open>REQUIRED_CAPTURE_TEMPLATE_FIELDS =
     [''template'', ''status'', ''artifact_record_required_fields'', ''metadata_required_fields'',
      ''acceptance_required_fields'', ''forbidden_claims'']\<close>

definition REQUIRED_EVIDENCE_RECORD_FIELDS :: "string list" where
  \<open>REQUIRED_EVIDENCE_RECORD_FIELDS =
     [''blocker_id'', ''artifact_name'', ''artifact_class'', ''source_path'', ''source_owner'',
      ''captured_at'', ''captured_by'', ''immutable_revision_or_lot'', ''sha256'', ''vendor_or_tool'',
      ''revision'', ''source_document'', ''package_or_board_revision'', ''reviewer'',
      ''acceptance_status'', ''acceptance_criteria'', ''review_record'', ''linked_release_gate'',
      ''supersedes_placeholder'']\<close>

definition ACCEPTED_RELEASE_STATUSES :: "string list" where
  \<open>ACCEPTED_RELEASE_STATUSES =
     [''accepted'', ''approved'', ''pass'']\<close>

definition FORBIDDEN_RELEASE_PATH_PARTS :: "string list" where
  \<open>FORBIDDEN_RELEASE_PATH_PARTS =
     [''placeholder'', ''template'', ''scaffold'', ''skeleton'']\<close>

definition FORBIDDEN_RELEASE_TEXT_MARKERS :: "string list" where
  \<open>FORBIDDEN_RELEASE_TEXT_MARKERS =
     [''template_not_release_evidence'', ''non_release_placeholder'', ''release use: `prohibited`'',
      ''release_use: prohibited'', ''placeholder-only'', ''not a foundry-approved package'',
      ''not fabrication release evidence'']\<close>

section \<open>Paths and patterns\<close>

definition as_string_list :: "pyv \<Rightarrow> string list" where
  "as_string_list v = (if is_list v \<and> list_all nonempty_str (as_list v) then map as_str (as_list v) else [])"

definition repo_path :: "ppath \<Rightarrow> string \<Rightarrow> ppath" where
  "repo_path repo s = path_join repo (path_of s)"

definition matching_files :: "world \<Rightarrow> ppath \<Rightarrow> string list \<Rightarrow> ppath list py" where
  "matching_files w repo globs =
     rbind (mapR (glob w repo) globs) (\<lambda>found. Inr (sort (remdups (filter (is_file w) (concat found)))))"

fun any_match :: "ppath \<Rightarrow> string list \<Rightarrow> bool py" where
  "any_match p [] = Inr False"
| "any_match p (g # gs) = rbind (path_match p g) (\<lambda>b. if b then Inr True else any_match p gs)"

definition path_matches_globs :: "string \<Rightarrow> string list \<Rightarrow> bool py" where
  "path_matches_globs path globs = any_match (path_of path) globs"

definition validate_rel_path :: "string \<Rightarrow> string \<Rightarrow> unit checked" where
  "validate_rel_path field s =
     (let p = path_of s in
      report_if (pabs p \<or> ''..'' \<in> set (pparts p)) (field @ '': path must be repo-relative: '' @ s))"

section \<open>Linked files\<close>

definition names_of :: "string list \<Rightarrow> string" where "names_of ns = join '', '' ns"

definition lacking_names :: "string list \<Rightarrow> string list \<Rightarrow> string list" where
  "lacking_names required found = filter (\<lambda>n. n \<notin> set found) (sort required)"

definition blocker_check :: "world \<Rightarrow> ppath \<Rightarrow> pyv \<Rightarrow> unit checked" where
  "blocker_check w repo blocker =
     (if \<not> is_dict blocker then report_if True ''placeholder_blockers: blocker must be a mapping''
      else
        let field = ''placeholder_blockers.'' @ py_str (get_or blocker ''id'' (PStr ''<missing-id>''));
            file_name = get blocker ''file'' in
        if \<not> nonempty_str file_name then report_if True (field @ '': missing file'')
        else
          wbind (validate_rel_path (field @ ''.file'') (as_str file_name)) (\<lambda>_.
          let p = repo_path repo (as_str file_name) in
          if \<not> is_file w p then report_if True (field @ '': file is missing: '' @ as_str file_name)
          else
            wbind (wlift (read_text w p)) (\<lambda>t.
            let required_text = as_string_list (get blocker ''required_text'') in
            if required_text = [] then report_if True (field @ '': required_text must be a non-empty string list'')
            else
              let missing = filter (\<lambda>m. \<not> contains m t) required_text in
              report_if (missing \<noteq> []) (field @ '': missing placeholder marker(s): '' @ names_of missing))))"

definition filled :: "pyv \<Rightarrow> bool" where
  "filled v \<longleftrightarrow> is_list v \<and> truthy v"

definition validate_placeholder_blockers :: "world \<Rightarrow> ppath \<Rightarrow> pyv \<Rightarrow> unit checked" where
  "validate_placeholder_blockers w repo manifest =
     (let blockers = get manifest ''placeholder_blockers'' in
      if \<not> filled blockers then report_if True ''placeholder_blockers: missing explicit placeholder blocker records''
      else weach (blocker_check w repo) (as_list blockers))"

text \<open>\<open>path.relative_to(ROOT)\<close> raises for a path elsewhere. An empty dictionary is what a failed load returns.\<close>

definition load_yaml_contract :: "world \<Rightarrow> ppath \<Rightarrow> ppath \<Rightarrow> string \<Rightarrow> pyv checked" where
  "load_yaml_contract w repo p label =
     (if \<not> is_file w p then
        (case relative_to p repo of
           None \<Rightarrow> Inl (PyValueError (path_str p @ '' is not in the subpath''))
         | Some q \<Rightarrow> Inr ([label @ '': file is missing: '' @ path_str q], PDict []))
      else
        wbind (wlift (read_text w p)) (\<lambda>t.
        case wd_yaml w t of
          None \<Rightarrow> Inr ([label @ '': invalid YAML''], PDict [])
        | Some data \<Rightarrow> if is_dict data then wret data else Inr ([label @ '': YAML must be a mapping''], PDict [])))"

text \<open>One field of a linked contract agrees with a value.\<close>

definition agrees :: "pyv \<Rightarrow> string \<Rightarrow> pyv \<Rightarrow> string \<Rightarrow> unit checked" where
  "agrees d key v msg = report_if (\<not> py_eq (get d key) v) msg"

definition contract_links_check :: "pyv \<Rightarrow> pyv \<Rightarrow> pyv \<Rightarrow> unit checked" where
  "contract_links_check contracts padframe cross_probe =
     (let pinout_path = get contracts ''package_pinout''; artifacts = get_or padframe ''package_artifacts'' (PDict []);
          scope = get_or cross_probe ''scope'' (PDict []) in wlist
      [agrees padframe ''package_pinout'' pinout_path
         (''source_contracts.package_pinout: does not match padframe package_pinout ('' @ py_str (get padframe ''package_pinout'') @ '')''),
       if is_dict artifacts then wlist
         [agrees artifacts ''pinout'' pinout_path
            ''source_contracts.package_pinout: does not match padframe package_artifacts.pinout'',
          agrees artifacts ''board_cross_probe'' (get contracts ''board_cross_probe'')
            ''source_contracts.board_cross_probe: does not match padframe package_artifacts.board_cross_probe'',
          agrees artifacts ''board_fab_notes'' (get contracts ''board_fab_notes'')
            ''source_contracts.board_fab_notes: does not match padframe package_artifacts.board_fab_notes'']
       else report_if True ''source_contracts.padframe_contract: package_artifacts must be a mapping'',
       if is_dict scope then wlist
         [agrees scope ''package_pinout'' pinout_path
            ''source_contracts.package_pinout: does not match cross-probe scope.package_pinout'',
          agrees scope ''padframe_contract'' (get contracts ''padframe_contract'')
            ''source_contracts.padframe_contract: does not match cross-probe scope.padframe_contract'',
          agrees scope ''board_fab_notes'' (get contracts ''board_fab_notes'')
            ''source_contracts.board_fab_notes: does not match cross-probe scope.board_fab_notes'']
       else report_if True ''source_contracts.board_cross_probe: scope must be a mapping''])"

text \<open>\<open>pin.get("board_net") in {None, ""}\<close>.\<close>

definition unnetted_pin :: "pyv \<Rightarrow> string list py" where
  "unnetted_pin pin =
     (if \<not> is_dict pin \<or> py_eq (get pin ''direction'') (PStr ''nc'') then Inr []
      else if \<not> hashable (get pin ''board_net'') then Inl PyTypeError
      else Inr (if get pin ''board_net'' \<in> {PNone, PStr []}
        then [py_str (get_or pin ''name'' (get_or pin ''pin'' (PStr ''<unnamed>'')))] else []))"

definition pins_check :: "pyv \<Rightarrow> pyv \<Rightarrow> pyv \<Rightarrow> unit checked" where
  "pins_check pinout padframe cross_probe =
     (let pins = get pinout ''pins''; count = nat_str (length (as_list pins)); n = PInt (int (length (as_list pins)));
          coverage = get_or cross_probe ''coverage'' (PDict []);
          probed = (if is_dict coverage then get coverage ''package_pins'' else PNone) in
      if \<not> filled pins then report_if True ''source_contracts.package_pinout: pins must be a non-empty list''
      else wlist
        [agrees padframe ''package_pins'' n (''source_contracts.package_pinout: pin count '' @ count
           @ '' does not match padframe package_pins '' @ py_str (get padframe ''package_pins'')),
         report_if (\<not> py_eq probed n) (''source_contracts.package_pinout: pin count '' @ count
           @ '' does not match cross-probe coverage.package_pins '' @ py_str probed),
         wbind (wlift (mapR unnetted_pin (as_list pins))) (\<lambda>found.
           let missing = concat found in
           report_if (missing \<noteq> []) (''source_contracts.package_pinout: non-NC pins missing board_net: '' @ names_of missing))])"

definition contract_file_check :: "world \<Rightarrow> ppath \<Rightarrow> pyv \<Rightarrow> string \<Rightarrow> unit checked" where
  "contract_file_check w repo contracts key =
     (let v = get contracts key in
      if \<not> nonempty_str v then report_if True (''source_contracts.'' @ key @ '': missing repo-relative path'')
      else wlist
        [validate_rel_path (''source_contracts.'' @ key) (as_str v),
         report_if (\<not> is_file w (repo_path repo (as_str v)))
           (''source_contracts.'' @ key @ '': linked file is missing: '' @ as_str v)])"

definition validate_source_contracts :: "world \<Rightarrow> ppath \<Rightarrow> pyv \<Rightarrow> unit checked" where
  "validate_source_contracts w repo manifest =
     (let contracts = get manifest ''source_contracts''; file_of = (\<lambda>key. repo_path repo (as_str (get contracts key))) in
      if \<not> is_dict contracts then report_if True ''source_contracts: missing package/padframe/board contract links''
      else
        wbind (weach (contract_file_check w repo contracts) (sort REQUIRED_SOURCE_CONTRACTS)) (\<lambda>_.
        if \<not> list_all (\<lambda>key. is_str (get contracts key)) [''package_pinout'', ''padframe_contract'', ''board_cross_probe'']
        then wret ()
        else
          wbind (load_yaml_contract w repo (file_of ''package_pinout'') ''source_contracts.package_pinout'') (\<lambda>pinout.
          wbind (load_yaml_contract w repo (file_of ''padframe_contract'') ''source_contracts.padframe_contract'') (\<lambda>padframe.
          wbind (load_yaml_contract w repo (file_of ''board_cross_probe'') ''source_contracts.board_cross_probe'') (\<lambda>cross_probe.
          if \<not> truthy pinout \<or> \<not> truthy padframe \<or> \<not> truthy cross_probe then wret ()
          else wlist [contract_links_check contracts padframe cross_probe, pins_check pinout padframe cross_probe])))))"

text \<open>A file the manifest links under a key, decoded; \<open>None\<close> after a failure.\<close>

definition linked_yaml :: "world \<Rightarrow> ppath \<Rightarrow> pyv \<Rightarrow> string \<Rightarrow> string \<Rightarrow> string \<Rightarrow> pyv option checked" where
  "linked_yaml w repo manifest key what word =
     (let v = get manifest key; p = repo_path repo (as_str v) in
      if \<not> nonempty_str v then Inr ([key @ '': missing repo-relative '' @ what @ '' path''], None)
      else
        wbind (validate_rel_path key (as_str v)) (\<lambda>_.
        if \<not> is_file w p then Inr ([key @ '': file is missing: '' @ as_str v], None)
        else
          wbind (wlift (read_text w p)) (\<lambda>t.
          case wd_yaml w t of
            None \<Rightarrow> Inr ([as_str v @ '': invalid YAML''], None)
          | Some d \<Rightarrow> if is_dict d then wret (Some d) else Inr ([as_str v @ '': '' @ word @ '' must be a mapping''], None))))"

definition validate_capture_template :: "world \<Rightarrow> ppath \<Rightarrow> pyv \<Rightarrow> unit checked" where
  "validate_capture_template w repo manifest =
     wbind (linked_yaml w repo manifest ''capture_template'' ''template'' ''template'') (\<lambda>found.
     case found of None \<Rightarrow> wret ()
     | Some template \<Rightarrow>
         let v = as_str (get manifest ''capture_template'');
             missing = lacking_names REQUIRED_CAPTURE_TEMPLATE_FIELDS (map fst (as_dict template)) in wlist
         ([report_if (missing \<noteq> []) (v @ '': missing template fields: '' @ names_of missing),
           report_if (\<not> py_eq (get template ''status'') (PStr ''template_not_release_evidence''))
             (v @ '': status must be template_not_release_evidence'')]
          @ map (\<lambda>f. report_if (as_string_list (get template f) = []) (v @ '': '' @ f @ '' must be a non-empty string list''))
              [''artifact_record_required_fields'', ''metadata_required_fields'', ''acceptance_required_fields'', ''forbidden_claims'']))"

section \<open>The scaling assessment\<close>

text \<open>One row: the id it adds to the ids seen before.\<close>

definition row_check :: "string \<Rightarrow> string \<Rightarrow> string \<Rightarrow> string list \<Rightarrow> pyv \<Rightarrow> string list \<Rightarrow> string list checked" where
  "row_check v table prefix string_fields row seen =
     (let row_id = as_str (get row ''id''); field = v @ prefix @ row_id in
      if \<not> is_dict row then Inr ([v @ '': '' @ table @ '' entries must be mappings''], seen)
      else if \<not> nonempty_str (get row ''id'') then Inr ([v @ '': '' @ table @ '' entry missing id''], seen)
      else
        wbind (wlist
          ([report_if (row_id \<in> set seen) (v @ '': duplicate '' @ table @ '' id '' @ row_id),
            report_if (\<not> py_eq (get row ''status'') (PStr ''blocked'')) (field @ '': status must remain blocked''),
            report_if (\<not> py_eq (get row ''blocks_release_gate'') (PStr ''board_fabrication_release''))
              (field @ '': blocks_release_gate must be board_fabrication_release'')]
           @ map (\<lambda>f. report_if (\<not> nonempty_str (get row f)) (field @ '': missing '' @ f)) string_fields
           @ [report_if (length (as_string_list (get row ''required_evidence'')) < 3)
                (field @ '': required_evidence must list at least three evidence items'')]))
          (\<lambda>_. wret (row_id # seen)))"

fun rows_check :: "(pyv \<Rightarrow> string list \<Rightarrow> string list checked) \<Rightarrow> pyv list \<Rightarrow> string list \<Rightarrow> string list checked" where
  "rows_check f [] seen = wret seen"
| "rows_check f (row # rows) seen = wbind (f row seen) (rows_check f rows)"

definition table_check :: "string \<Rightarrow> pyv \<Rightarrow> string \<Rightarrow> string \<Rightarrow> string list \<Rightarrow> string list \<Rightarrow> unit checked" where
  "table_check v assessment table prefix string_fields required =
     (let rows = get assessment table in
      if \<not> filled rows then report_if True (v @ '': '' @ table @ '' must be a non-empty list'')
      else
        wbind (rows_check (row_check v table prefix string_fields) (as_list rows) []) (\<lambda>seen.
        let missing = lacking_names required seen in
        report_if (missing \<noteq> []) (v @ '': missing '' @ table @ '' ids: '' @ names_of missing)))"

definition validate_scaling_assessment :: "world \<Rightarrow> ppath \<Rightarrow> pyv \<Rightarrow> unit checked" where
  "validate_scaling_assessment w repo manifest =
     wbind (linked_yaml w repo manifest ''scaling_assessment'' ''checklist'' ''assessment'') (\<lambda>found.
     case found of None \<Rightarrow> wret ()
     | Some a \<Rightarrow>
         let v = as_str (get manifest ''scaling_assessment'');
             missing_scope = lacking_names REQUIRED_SCALING_SCOPE (as_string_list (get a ''scope''));
             missing_forbidden = lacking_names FORBIDDEN_SCALING_CLAIMS (as_string_list (get a ''forbidden_claims'')) in wlist
         [agrees a ''schema'' (PStr ''openagent.board_package_scaling_assessment.v1'')
            (v @ '': schema must be openagent.board_package_scaling_assessment.v1''),
          agrees a ''status'' (PStr ''non_release_assessment'') (v @ '': status must be non_release_assessment''),
          agrees a ''release_use'' (PStr ''prohibited'') (v @ '': release_use must be prohibited''),
          agrees a ''source_manifest'' (PStr MANIFEST) (v @ '': source_manifest must point at '' @ MANIFEST),
          report_if (missing_scope \<noteq> []) (v @ '': missing scope entries: '' @ names_of missing_scope),
          report_if (missing_forbidden \<noteq> []) (v @ '': missing forbidden_claims: '' @ names_of missing_forbidden),
          report_if (length (as_string_list (get a ''assumptions'')) < 3)
            (v @ '': assumptions must include package, LPDDR, and CPU/NPU power caveats''),
          table_check v a ''readiness_matrix'' ''.readiness_matrix.''
            [''product_implication'', ''package_implication'', ''board_implication''] REQUIRED_READINESS_MATRIX_IDS,
          table_check v a ''checklist'' ''.'' [''owner'', ''implication''] REQUIRED_SCALING_CHECKLIST_IDS])"

section \<open>Evidence records\<close>

definition validate_evidence_record_requirements :: "pyv \<Rightarrow> unit checked" where
  "validate_evidence_record_requirements manifest =
     (let r = get manifest ''evidence_record_requirements'';
          missing = lacking_names REQUIRED_EVIDENCE_RECORD_FIELDS (as_string_list (get r ''required_fields'')) in
      if \<not> is_dict r then report_if True ''evidence_record_requirements: missing structured evidence record policy''
      else wlist
        [report_if (missing \<noteq> []) (''evidence_record_requirements.required_fields: missing entries: '' @ names_of missing),
         agrees r ''linked_release_gate'' (PStr ''board_fabrication_release'')
           ''evidence_record_requirements.linked_release_gate must be board_fabrication_release'',
         report_if (\<not> set ACCEPTED_RELEASE_STATUSES \<subseteq> set (as_string_list (get r ''accepted_release_statuses'')))
           (''evidence_record_requirements.accepted_release_statuses must include: '' @ names_of (sort ACCEPTED_RELEASE_STATUSES)),
         report_if (get r ''supersedes_placeholder_required'' \<noteq> PBool True)
           ''evidence_record_requirements.supersedes_placeholder_required must be true''])"

definition is_board_digest :: "pyv \<Rightarrow> bool" where
  "is_board_digest v \<longleftrightarrow> is_str v \<and> rx_fullmatch BOARD_SHA256_RE (as_str v)"

text \<open>The file of a record, once its path is accepted.\<close>

definition record_file_check :: "world \<Rightarrow> ppath \<Rightarrow> string \<Rightarrow> pyv \<Rightarrow> unit checked" where
  "record_file_check w repo field record =
     (let source_path = as_str (get record ''source_path''); p = repo_path repo source_path; sha = get record ''sha256'' in
      if \<not> is_file w p then report_if True (field @ ''.source_path: file is missing: '' @ source_path)
      else
        wbind (wlift (read_text w p)) (\<lambda>t.
        let matched = filter (\<lambda>m. contains m (lower t)) FORBIDDEN_RELEASE_TEXT_MARKERS in
        wbind (report_if (matched \<noteq> []) (field @ ''.source_path: contains non-release marker(s): '' @ names_of matched)) (\<lambda>_.
        if \<not> is_board_digest sha then report_if True (field @ ''.sha256: must be lowercase sha256'')
        else
          wbind (wlift (sha256_file w p)) (\<lambda>actual.
          report_if (actual \<noteq> as_str sha) (field @ ''.sha256: does not match file content'')))))"

definition record_path_check ::
  "world \<Rightarrow> ppath \<Rightarrow> string \<Rightarrow> string \<Rightarrow> string list \<Rightarrow> pyv \<Rightarrow> string list \<Rightarrow> pyv \<Rightarrow> unit checked" where
  "record_path_check w repo field artifact_name globs capture_template placeholder_files record =
     (let source_path = as_str (get record ''source_path'');
          forbidden = filter (\<lambda>x. x \<in> set (map lower (all_parts (path_of source_path)))) (sort FORBIDDEN_RELEASE_PATH_PARTS) in
      if \<not> nonempty_str (get record ''source_path'') then
        report_if True (field @ ''.source_path: missing repo-relative file path'')
      else
        wbind (validate_rel_path (field @ ''.source_path'') source_path) (\<lambda>_.
        wbind (report_if (forbidden \<noteq> [])
          (field @ ''.source_path: release evidence path contains forbidden part(s): '' @ names_of forbidden)) (\<lambda>_.
        wbind (wlift (path_matches_globs source_path globs)) (\<lambda>ok.
        wbind (report_if (\<not> ok) (field @ ''.source_path: must match one of '' @ artifact_name @ '' globs'')) (\<lambda>_.
        if py_eq (PStr source_path) capture_template \<or> source_path \<in> set placeholder_files then
          report_if True (field @ ''.source_path: template/placeholder files are not release evidence'')
        else record_file_check w repo field record)))))"

definition record_check ::
  "world \<Rightarrow> ppath \<Rightarrow> string \<Rightarrow> string \<Rightarrow> string option \<Rightarrow> string list \<Rightarrow> pyv \<Rightarrow> string list \<Rightarrow> nat \<times> pyv \<Rightarrow> unit checked" where
  "record_check w repo prefix artifact_name blocker_id globs capture_template placeholder_files e = (case e of (i, record) \<Rightarrow>
     let field = prefix @ ''.evidence_records['' @ nat_str i @ '']'';
         missing = lacking_names REQUIRED_EVIDENCE_RECORD_FIELDS (map fst (as_dict record)) in
     if \<not> is_dict record then report_if True (field @ '': must be a mapping'')
     else wlist
       [report_if (missing \<noteq> []) (field @ '': missing required fields: '' @ names_of missing),
        (case blocker_id of None \<Rightarrow> wret ()
         | Some b \<Rightarrow> report_if (b \<noteq> [] \<and> \<not> py_eq (get record ''blocker_id'') (PStr b)) (field @ ''.blocker_id: must match '' @ b)),
        agrees record ''artifact_name'' (PStr artifact_name) (field @ ''.artifact_name: must match '' @ artifact_name),
        agrees record ''linked_release_gate'' (PStr ''board_fabrication_release'')
          (field @ ''.linked_release_gate: must be board_fabrication_release''),
        report_if (get record ''supersedes_placeholder'' \<noteq> PBool True) (field @ ''.supersedes_placeholder: must be true''),
        wbind (wlift (in_names (get record ''acceptance_status'') ACCEPTED_RELEASE_STATUSES)) (\<lambda>ok.
          report_if (\<not> ok) (field @ ''.acceptance_status: must be one of '' @ names_of (sort ACCEPTED_RELEASE_STATUSES))),
        record_path_check w repo field artifact_name globs capture_template placeholder_files record])"

definition validate_evidence_records ::
  "world \<Rightarrow> ppath \<Rightarrow> string \<Rightarrow> string \<Rightarrow> string option \<Rightarrow> string list \<Rightarrow> pyv \<Rightarrow> bool \<Rightarrow> pyv \<Rightarrow> unit checked" where
  "validate_evidence_records w repo field artifact_name blocker_id globs records require_records manifest =
     (if records = PNone then
        report_if require_records (field @ '': evidence_records are required before status complete/release'')
      else if \<not> is_list records then report_if True (field @ '': evidence_records must be a list'')
      else if require_records \<and> as_list records = [] then
        report_if True (field @ '': evidence_records must be non-empty before status complete/release'')
      else
        wbind (wlift (py_iter (get_or manifest ''placeholder_blockers'' (PList [])))) (\<lambda>blockers.
        let placeholder_files = map (\<lambda>b. as_str (get b ''file'')) (filter (\<lambda>b. is_dict b \<and> is_str (get b ''file'')) blockers) in
        weach (record_check w repo field artifact_name blocker_id globs (get manifest ''capture_template'') placeholder_files)
          (enum (as_list records))))"

section \<open>Artifacts\<close>

definition metadata_digest_check :: "string \<Rightarrow> string \<times> pyv \<Rightarrow> unit checked" where
  "metadata_digest_check field e = (case e of (key, v) \<Rightarrow>
     report_if (ends_in ''_sha256'' key \<and> \<not> is_board_digest v) (field @ ''.metadata.'' @ key @ '': must be lowercase sha256''))"

definition metadata_check :: "string \<Rightarrow> pyv \<Rightarrow> bool \<Rightarrow> unit checked" where
  "metadata_check field artifact demanded =
     (let given = get_or artifact ''metadata'' (PDict []);
          required = as_string_list (get_or artifact ''required_metadata'' (PList []));
          metadata = (if truthy given \<and> \<not> is_dict given then PDict [] else given);
          missing = filter (\<lambda>k. \<not> has_key metadata k) (sort (remdups required)) in wlist
      [report_if (truthy given \<and> \<not> is_dict given) (field @ '': metadata must be a mapping''),
       report_if (truthy (get_or artifact ''required_metadata'' (PList [])) \<and> required = [])
         (field @ '': required_metadata must be a string list''),
       weach (metadata_digest_check field) (as_dict metadata),
       report_if (demanded \<and> missing \<noteq> []) (field @ '': missing required metadata: '' @ names_of missing)])"

text \<open>The blocker id of an artifact joins the ids of the artifacts before it.\<close>

definition blocker_id_check :: "string \<Rightarrow> pyv \<Rightarrow> bool \<Rightarrow> string list \<Rightarrow> string list checked" where
  "blocker_id_check field artifact open_status ids =
     (let b = get artifact ''release_blocker_id'' in
      if b \<noteq> PNone then
        (if \<not> nonempty_str b then Inr ([field @ '': release_blocker_id must be a non-empty string''], ids)
         else Inr (err_if (as_str b \<in> set ids) (field @ '': duplicate release_blocker_id '' @ as_str b), as_str b # ids))
      else Inr (err_if open_status (field @ '': release_blocker_id is required for fail-closed evidence''), ids))"

definition release_blocker_lines :: "pyv \<Rightarrow> bool \<Rightarrow> string list" where
  "release_blocker_lines artifact open_status =
     (let blocker = get artifact ''release_blocker''; b = get artifact ''release_blocker_id'' in
      if nonempty_str blocker \<and> open_status then
        [if nonempty_str b then as_str b @ '': '' @ as_str blocker else as_str blocker]
      else [])"

definition artifact_name :: "pyv \<Rightarrow> string" where
  "artifact_name artifact = (if nonempty_str (get artifact ''name'') then as_str (get artifact ''name'') else ''unnamed'')"

text \<open>Failures as messages; the value is the ids seen and the lines added to the release blockers.\<close>

definition artifact_check ::
  "world \<Rightarrow> ppath \<Rightarrow> string \<Rightarrow> bool \<Rightarrow> pyv \<Rightarrow> pyv \<Rightarrow> string list \<Rightarrow> (string list \<times> string list) checked" where
  "artifact_check w repo group_name release manifest artifact ids =
     (if \<not> is_dict artifact then Inr ([group_name @ '': artifact must be a mapping''], ids, [])
      else
        let name = artifact_name artifact; field = group_name @ ''.'' @ name; status = get artifact ''status'';
            complete = py_eq status (PStr ''complete''); globs = as_string_list (get artifact ''globs'');
            blocker = get artifact ''release_blocker''; b = get artifact ''release_blocker_id'' in
        wbind (report_if (\<not> nonempty_str (get artifact ''name'')) (group_name @ '': artifact missing name'')) (\<lambda>_.
        wbind (wlift (in_names status ALLOWED_STATUS)) (\<lambda>ok.
        wbind (report_if (\<not> ok) (field @ '': status must be missing, draft, or complete'')) (\<lambda>_.
        wbind (report_if (globs = []) (field @ '': globs must be a non-empty string list'')) (\<lambda>_.
        wbind (weach (validate_rel_path (field @ ''.globs'')) globs) (\<lambda>_.
        wbind (metadata_check field artifact (release \<or> complete)) (\<lambda>_.
        wbind (wlift (matching_files w repo globs)) (\<lambda>files.
        wbind (report_if (blocker \<noteq> PNone \<and> \<not> nonempty_str blocker) (field @ '': release_blocker must be a non-empty string'')) (\<lambda>_.
        wbind (blocker_id_check field artifact (release \<or> \<not> complete) ids) (\<lambda>ids'.
        wbind (wlist
          [report_if (\<not> nonempty_str blocker) (field @ '': release_blocker is required for capturable blocker output''),
           report_if (py_eq status (PStr ''missing'') \<and> files \<noteq> []) (field @ '': status missing but files exist''),
           report_if (complete \<and> files = []) (field @ '': status complete but files are missing''),
           validate_evidence_records w repo field name (if is_str b then Some (as_str b) else None) globs
             (get artifact ''evidence_records'') complete manifest,
           report_if (release \<and> \<not> complete) (field @ '': release requires status complete, got '' @ py_str status),
           report_if (release \<and> files = []) (field @ '': release artifact files are missing'')]) (\<lambda>_.
        wret (ids', if release then release_blocker_lines artifact (\<not> complete \<or> files = []) else []))))))))))))"

text \<open>A loop whose rounds pass on the ids seen and add lines to the release blockers.\<close>

fun ids_each :: "('a \<Rightarrow> string list \<Rightarrow> (string list \<times> string list) checked) \<Rightarrow> 'a list \<Rightarrow> string list \<Rightarrow>
    (string list \<times> string list) checked" where
  "ids_each f [] ids = wret (ids, [])"
| "ids_each f (a # as) ids =
     wbind (f a ids) (\<lambda>(ids', ls). wbind (ids_each f as ids') (\<lambda>(ids'', ls'). wret (ids'', ls @ ls')))"

definition group_check ::
  "world \<Rightarrow> ppath \<Rightarrow> bool \<Rightarrow> pyv \<Rightarrow> string \<times> pyv \<Rightarrow> string list \<Rightarrow> (string list \<times> string list) checked" where
  "group_check w repo release manifest e ids = (case e of (name, g) \<Rightarrow>
     let field = ''artifact_groups.'' @ name; status = get g ''status''; artifacts = get g ''artifacts'' in
     if \<not> is_dict g then Inr ([field @ '': group must be a mapping''], ids, [])
     else
       wbind (wlift (in_names status ALLOWED_STATUS)) (\<lambda>ok.
       wbind (report_if (\<not> ok) (field @ '': status must be missing, draft, or complete'')) (\<lambda>_.
       wbind (report_if (release \<and> \<not> py_eq status (PStr ''complete''))
         (field @ '': release requires status complete, got '' @ py_str status)) (\<lambda>_.
       if \<not> filled artifacts then Inr ([field @ '': missing artifacts''], ids, [])
       else ids_each (artifact_check w repo field release manifest) (as_list artifacts) ids))))"

section \<open>The manifest and the exit code\<close>

definition manifest_header_check :: "pyv \<Rightarrow> unit checked" where
  "manifest_header_check manifest =
     (let policy = get manifest ''policy'' in wlist
      [agrees manifest ''status'' (PStr ''release_blocked'')
         ''manifest status must remain release_blocked until real artifacts are complete'',
       agrees manifest ''release_gate'' (PStr ''board_fabrication_release'') ''release_gate must be board_fabrication_release'',
       agrees manifest ''schema'' (PStr ''openagent.board_package_evidence.v1'') ''schema must be openagent.board_package_evidence.v1'',
       report_if (\<not> is_dict policy \<or> \<not> is_str (get policy ''preflight'') \<or> \<not> is_str (get policy ''release''))
         ''policy must define preflight and release text''])"

text \<open>The value is what is appended to the release blockers.\<close>

definition manifest_check :: "world \<Rightarrow> ppath \<Rightarrow> bool \<Rightarrow> pyv \<Rightarrow> string list checked" where
  "manifest_check w repo release manifest =
     wbind (wlist
       [manifest_header_check manifest, validate_source_contracts w repo manifest, validate_capture_template w repo manifest,
        validate_scaling_assessment w repo manifest, validate_evidence_record_requirements manifest,
        validate_placeholder_blockers w repo manifest]) (\<lambda>_.
     let groups = get manifest ''artifact_groups'' in
     if \<not> is_dict groups \<or> \<not> truthy groups then Inr ([''artifact_groups: missing evidence groups''], [])
     else
       wbind (ids_each (group_check w repo release manifest) (as_dict groups) []) (\<lambda>(ids, blockers).
       let missing = lacking_names REQUIRED_RELEASE_BLOCKER_IDS ids in
       wbind (report_if (missing \<noteq> []) (''missing required release blocker ids: '' @ names_of missing)) (\<lambda>_.
       wret blockers)))"

definition validate_manifest :: "world \<Rightarrow> ppath \<Rightarrow> bool \<Rightarrow> string list checked" where
  "validate_manifest w repo release =
     (let p = repo_path repo MANIFEST in
      if \<not> is_file w p then Inr ([''missing manifest: '' @ MANIFEST], [])
      else
        wbind (wlift (read_text w p)) (\<lambda>t.
        case wd_yaml w t of
          None \<Rightarrow> Inr ([MANIFEST @ '': invalid YAML''], [])
        | Some manifest \<Rightarrow>
            if is_dict manifest then manifest_check w repo release manifest
            else Inr ([MANIFEST @ '': manifest must be a mapping''], [])))"

fun unique_from :: "string list \<Rightarrow> string list \<Rightarrow> string list" where
  "unique_from seen [] = []"
| "unique_from seen (x # xs) = (if x \<in> set seen then unique_from seen xs else x # unique_from (x # seen) xs)"

definition unique_items :: "string list \<Rightarrow> string list" where
  "unique_items xs = unique_from [] xs"

definition dashed :: "string list \<Rightarrow> string list" where
  "dashed xs = map (\<lambda>x. ''  - '' @ x) xs"

definition board_main :: "world \<Rightarrow> ppath \<Rightarrow> bool \<Rightarrow> (int \<times> string list) py" where
  "board_main w repo release =
     rbind (validate_manifest w repo release) (\<lambda>(failures, release_blockers).
     let mode = (if release then ''release'' else ''preflight'') in
     Inr (if failures \<noteq> [] then
            (1, [''board/package evidence '' @ mode @ '' check failed:'']
              @ (if release \<and> release_blockers \<noteq> []
                 then ''Release blockers:'' # dashed (unique_items release_blockers) @ [''Validation detail:''] else [])
              @ dashed failures)
          else (0, [''board/package evidence '' @ mode @ '' check ok''])))"

end
