(* ===== verification/Board_Sound.thy ===== *)
theory Board_Sound
  imports Board_Evidence
begin

text \<open>
  What a release check of \<open>scripts/check_board_package_evidence.py\<close> that exits with 0 guarantees: every
  required release blocker is closed by exactly one artifact, and the records of each artifact name
  files that exist, match their digests and carry no marker of a template or placeholder.
\<close>

section \<open>The guarantee\<close>

definition repo_relative :: "string \<Rightarrow> bool" where
  "repo_relative s \<longleftrightarrow> \<not> pabs (path_of s) \<and> ''..'' \<notin> set (pparts (path_of s))"

definition record_accepted :: "world \<Rightarrow> ppath \<Rightarrow> pyv \<Rightarrow> string list \<Rightarrow> string \<Rightarrow> pyv \<Rightarrow> bool" where
  "record_accepted w repo manifest globs blocker_id record \<longleftrightarrow>
     get record ''blocker_id'' = PStr blocker_id
     \<and> get record ''acceptance_status'' \<in> PStr ` set ACCEPTED_RELEASE_STATUSES
     \<and> get record ''supersedes_placeholder'' = PBool True
     \<and> (\<exists>s t d. get record ''source_path'' = PStr s \<and> repo_relative s \<and> path_matches_globs s globs = Inr True
          \<and> PStr s \<noteq> get manifest ''capture_template''
          \<and> read_text w (repo_path repo s) = Inr t
          \<and> list_all (\<lambda>m. \<not> contains m (lower t)) FORBIDDEN_RELEASE_TEXT_MARKERS
          \<and> sha256_file w (repo_path repo s) = Inr d \<and> get record ''sha256'' = PStr d)"

definition artifact_released :: "world \<Rightarrow> ppath \<Rightarrow> pyv \<Rightarrow> pyv \<Rightarrow> bool" where
  "artifact_released w repo manifest artifact \<longleftrightarrow>
     get artifact ''status'' = PStr ''complete''
     \<and> (\<exists>f fs. matching_files w repo (as_string_list (get artifact ''globs'')) = Inr (f # fs))
     \<and> (\<exists>b r rs. get artifact ''release_blocker_id'' = PStr b \<and> get artifact ''evidence_records'' = PList (r # rs)
          \<and> list_all (record_accepted w repo manifest (as_string_list (get artifact ''globs'')) b) (r # rs))"

definition own_ids :: "pyv \<Rightarrow> string list" where
  "own_ids artifact = (let b = get artifact ''release_blocker_id'' in if nonempty_str b then [as_str b] else [])"

definition group_artifacts :: "string \<times> pyv \<Rightarrow> pyv list" where
  "group_artifacts e = as_list (get (snd e) ''artifacts'')"

definition artifacts_of :: "pyv \<Rightarrow> pyv list" where
  "artifacts_of manifest = concat (map group_artifacts (as_dict (get manifest ''artifact_groups'')))"

definition ids_of :: "pyv list \<Rightarrow> string list" where
  "ids_of artifacts = concat (map own_ids artifacts)"

section \<open>Loops that collect ids\<close>

text \<open>A round that reports nothing establishes \<open>holds\<close>, and adds ids that were not seen before.\<close>

locale id_loop =
  fixes round :: "'a \<Rightarrow> string list \<Rightarrow> (string list \<times> string list) checked"
    and holds :: "'a \<Rightarrow> bool" and news :: "'a \<Rightarrow> string list"
  assumes round_holds: "round a ids = Inr ([], (ids', ls)) \<Longrightarrow> holds a"
    and round_ids: "round a ids = Inr ([], (ids', ls)) \<Longrightarrow> ids' = rev (news a) @ ids \<and> (distinct ids \<longrightarrow> distinct ids')"
begin

lemma loop_sound:
  "ids_each round as ids = Inr ([], (ids', ls)) \<Longrightarrow>
     list_all holds as \<and> ids' = rev (concat (map news as)) @ ids \<and> (distinct ids \<longrightarrow> distinct ids')"
proof (induction as arbitrary: ids ids' ls)
  case Nil
  then show ?case by (simp add: clean_simps)
next
  case (Cons a as)
  then obtain ids1 l1 l2 where "round a ids = Inr ([], (ids1, l1))" "ids_each round as ids1 = Inr ([], (ids', l2))"
    by (auto simp: clean_simps split: prod.splits)
  with Cons.IH round_holds round_ids show ?case by fastforce
qed

end

section \<open>Records\<close>

lemma rel_path_clean [clean_simps]: "validate_rel_path f s = Inr ([], u) \<longleftrightarrow> repo_relative s"
  by (simp add: validate_rel_path_def repo_relative_def Let_def clean_simps)

lemma agrees_clean [clean_simps]: "agrees d k v msg = Inr ([], u) \<longleftrightarrow> py_eq (get d k) v"
  by (simp add: agrees_def clean_simps)

lemma is_board_digestD: "is_board_digest v \<Longrightarrow> \<exists>s. v = PStr s"
  by (auto simp: is_board_digest_def)

lemma record_file_clean:
  assumes "record_file_check w repo f r = Inr ([], u)"
  shows "\<exists>t d. read_text w (repo_path repo (as_str (get r ''source_path''))) = Inr t
    \<and> list_all (\<lambda>m. \<not> contains m (lower t)) FORBIDDEN_RELEASE_TEXT_MARKERS
    \<and> sha256_file w (repo_path repo (as_str (get r ''source_path''))) = Inr d \<and> get r ''sha256'' = PStr d"
proof -
  from assms obtain t d where t: "read_text w (repo_path repo (as_str (get r ''source_path''))) = Inr t"
    "filter (\<lambda>m. contains m (lower t)) FORBIDDEN_RELEASE_TEXT_MARKERS = []"
    and d: "sha256_file w (repo_path repo (as_str (get r ''source_path''))) = Inr d"
    "is_board_digest (get r ''sha256'')" "d = as_str (get r ''sha256'')"
    by (auto simp: record_file_check_def Let_def clean_simps split: if_splits)
  from d is_board_digestD have "get r ''sha256'' = PStr d" by fastforce
  moreover from t(2) have "list_all (\<lambda>m. \<not> contains m (lower t)) FORBIDDEN_RELEASE_TEXT_MARKERS"
    by (simp add: filter_empty_conv list_all_iff)
  ultimately show ?thesis using t(1) d(1) by blast
qed

lemma record_path_clean:
  assumes "record_path_check w repo f n globs ct fs r = Inr ([], u)"
  shows "\<exists>s. get r ''source_path'' = PStr s \<and> repo_relative s \<and> path_matches_globs s globs = Inr True
    \<and> PStr s \<noteq> ct \<and> record_file_check w repo f r = Inr ([], ())"
  using assms by (auto simp: record_path_check_def Let_def clean_simps nonempty_str_iff py_eq_str split: if_splits)

lemma record_clean:
  assumes "record_check w repo f n (Some b) globs (get m ''capture_template'') fs e = Inr ([], u)" "b \<noteq> []"
  shows "record_accepted w repo m globs b (snd e)"
proof -
  obtain i r where e: "e = (i, r)" by (cases e)
  have dict: "is_dict r"
    using assms(1) by (simp add: e record_check_def Let_def clean_simps split: if_splits)
  define f' where "f' = f @ ''.evidence_records['' @ nat_str i @ '']''"
  from assms dict have parts: "get r ''blocker_id'' = PStr b" "get r ''supersedes_placeholder'' = PBool True"
    "\<exists>ok. in_names (get r ''acceptance_status'') ACCEPTED_RELEASE_STATUSES = Inr ok \<and> ok"
    "record_path_check w repo f' n globs (get m ''capture_template'') fs r = Inr ([], ())"
    by (simp_all add: e f'_def record_check_def Let_def wlist_clean report_if_clean agrees_clean wbind_clean wlift_clean del: wlist.simps)
  from record_path_clean [OF parts(4)] obtain s where s: "get r ''source_path'' = PStr s" "repo_relative s"
    "path_matches_globs s globs = Inr True" "PStr s \<noteq> get m ''capture_template''" "record_file_check w repo f' r = Inr ([], ())"
    by blast
  from record_file_clean [OF s(5)] s(1) obtain t d where t: "read_text w (repo_path repo s) = Inr t"
    "list_all (\<lambda>m. \<not> contains m (lower t)) FORBIDDEN_RELEASE_TEXT_MARKERS"
    "sha256_file w (repo_path repo s) = Inr d" "get r ''sha256'' = PStr d" by auto
  from parts(3) have "get r ''acceptance_status'' \<in> PStr ` set ACCEPTED_RELEASE_STATUSES" by (auto simp: in_names_True)
  with parts(1,2) s(1-4) t show ?thesis unfolding record_accepted_def e by auto
qed

lemma snd_enum: "map snd (enum xs) = xs"
  by (simp add: enum_def)

lemma records_clean:
  assumes "validate_evidence_records w repo f n (Some b) globs v True m = Inr ([], u)" "b \<noteq> []"
  shows "\<exists>r rs. v = PList (r # rs) \<and> list_all (record_accepted w repo m globs b) (r # rs)"
proof -
  from assms(1) have v: "v \<noteq> PNone" "is_list v" "as_list v \<noteq> []"
    by (auto simp: validate_evidence_records_def clean_simps split: if_splits)
  with assms(1) obtain fs where "\<forall>e \<in> set (enum (as_list v)).
      record_check w repo f n (Some b) globs (get m ''capture_template'') fs e = Inr ([], ())"
    by (auto simp: validate_evidence_records_def clean_simps Let_def split: if_splits)
  with record_clean assms(2) have "\<forall>e \<in> set (enum (as_list v)). record_accepted w repo m globs b (snd e)" by blast
  then have "\<forall>r \<in> set (map snd (enum (as_list v))). record_accepted w repo m globs b r" by auto
  with v show ?thesis by (auto simp: snd_enum list_all_iff neq_Nil_conv)
qed

section \<open>Artifacts\<close>

lemma blocker_id_clean:
  assumes "blocker_id_check f a True ids = Inr ([], ids')"
  shows "\<exists>b. get a ''release_blocker_id'' = PStr b \<and> b \<noteq> [] \<and> b \<notin> set ids \<and> ids' = b # ids"
  using assms by (auto simp: blocker_id_check_def err_if_def Let_def nonempty_str_iff split: if_splits)

lemma artifact_clean:
  assumes "artifact_check w repo g True m a ids = Inr ([], (ids', ls))"
  shows "artifact_released w repo m a \<and> ids' = rev (own_ids a) @ ids \<and> (distinct ids \<longrightarrow> distinct ids')"
proof -
  define f where "f = g @ ''.'' @ artifact_name a"
  define b where "b = get a ''release_blocker_id''"
  define globs where "globs = as_string_list (get a ''globs'')"
  from assms have complete: "get a ''status'' = PStr ''complete''"
    by (auto simp: artifact_check_def Let_def clean_simps simp del: wlist.simps split: if_splits)
  from assms obtain files where files: "matching_files w repo globs = Inr files" "files \<noteq> []"
    by (auto simp: artifact_check_def Let_def clean_simps globs_def simp del: wlist.simps split: if_splits)
  from assms have ids: "blocker_id_check f a True ids = Inr ([], ids')"
    by (auto simp: artifact_check_def Let_def clean_simps f_def simp del: wlist.simps split: if_splits)
  from assms complete have records: "validate_evidence_records w repo f (artifact_name a) (if is_str b then Some (as_str b) else None)
      globs (get a ''evidence_records'') True m = Inr ([], ())"
    by (auto simp: artifact_check_def Let_def clean_simps f_def b_def globs_def simp del: wlist.simps split: if_splits)
  from blocker_id_clean [OF ids] obtain s where s: "b = PStr s" "s \<noteq> []" "s \<notin> set ids" "ids' = s # ids" by (auto simp: b_def)
  with records records_clean have "\<exists>r rs. get a ''evidence_records'' = PList (r # rs) \<and> list_all (record_accepted w repo m globs s) (r # rs)"
    by fastforce
  with complete files s show ?thesis
    by (auto simp: artifact_released_def own_ids_def b_def globs_def nonempty_str_iff neq_Nil_conv)
qed

interpretation artifact_loop: id_loop "artifact_check w repo g True m" "artifact_released w repo m" own_ids for w repo g m
  by unfold_locales (use artifact_clean in blast)+

lemma group_clean:
  assumes "group_check w repo True m e ids = Inr ([], (ids', ls))"
  shows "list_all (artifact_released w repo m) (group_artifacts e)
    \<and> ids' = rev (ids_of (group_artifacts e)) @ ids \<and> (distinct ids \<longrightarrow> distinct ids')"
proof -
  from assms obtain f where "ids_each (artifact_check w repo f True m) (group_artifacts e) ids = Inr ([], (ids', ls))"
    by (auto simp: group_check_def group_artifacts_def Let_def clean_simps split: if_splits prod.splits)
  from artifact_loop.loop_sound [OF this] show ?thesis unfolding ids_of_def .
qed

interpretation group_loop: id_loop "group_check w repo True m" "\<lambda>e. list_all (artifact_released w repo m) (group_artifacts e)"
    "\<lambda>e. ids_of (group_artifacts e)" for w repo m
  by unfold_locales (use group_clean in blast)+

lemma lacking_Nil: "lacking_names required found = [] \<longleftrightarrow> set required \<subseteq> set found"
  by (auto simp: lacking_names_def filter_empty_conv)

lemma manifest_clean:
  assumes "manifest_check w repo True m = Inr ([], ls)"
  shows "get m ''status'' = PStr ''release_blocked'' \<and> list_all (artifact_released w repo m) (artifacts_of m)
    \<and> distinct (ids_of (artifacts_of m)) \<and> set REQUIRED_RELEASE_BLOCKER_IDS \<subseteq> set (ids_of (artifacts_of m))"
proof -
  define gs where "gs = as_dict (get m ''artifact_groups'')"
  from assms obtain ids ls' where ids: "ids_each (group_check w repo True m) gs [] = Inr ([], (ids, ls'))"
    "set REQUIRED_RELEASE_BLOCKER_IDS \<subseteq> set ids"
    by (auto simp: manifest_check_def Let_def clean_simps gs_def lacking_Nil simp del: wlist.simps split: if_splits prod.splits)
  from assms have "manifest_header_check m = Inr ([], ())"
    by (auto simp: manifest_check_def Let_def clean_simps simp del: wlist.simps split: if_splits prod.splits)
  then have status: "get m ''status'' = PStr ''release_blocked''"
    by (auto simp: manifest_header_check_def Let_def clean_simps simp del: wlist.simps)
  have shape: "concat (map (\<lambda>e. ids_of (group_artifacts e)) gs) = ids_of (concat (map group_artifacts gs))"
    by (induction gs) (simp_all add: ids_of_def)
  from group_loop.loop_sound [OF ids(1)] shape
  have "list_all (\<lambda>e. list_all (artifact_released w repo m) (group_artifacts e)) gs" "ids = rev (ids_of (artifacts_of m))" "distinct ids"
    by (auto simp: artifacts_of_def gs_def)
  with status ids(2) show ?thesis by (auto simp: artifacts_of_def gs_def list_all_iff)
qed

text \<open>
  C38: A release check that exits with 0 has read a manifest in which the release blocker ids are
  pairwise different and include every required one, and every artifact is complete, matches at
  least one file, and has records, each accepted, each naming a repository-relative file that
  matches the artifact's globs, has the recorded digest and holds no marker of a template or
  placeholder; the manifest still calls itself release_blocked.
\<close>

theorem board_release_sound:
  assumes "board_main w repo True = Inr (0, lines)"
  shows "\<exists>t m. read_text w (repo_path repo MANIFEST) = Inr t \<and> wd_yaml w t = Some m
    \<and> get m ''status'' = PStr ''release_blocked'' \<and> list_all (artifact_released w repo m) (artifacts_of m)
    \<and> distinct (ids_of (artifacts_of m)) \<and> set REQUIRED_RELEASE_BLOCKER_IDS \<subseteq> set (ids_of (artifacts_of m))"
proof -
  from assms obtain ls where "validate_manifest w repo True = Inr ([], ls)"
    by (auto simp: board_main_def Let_def split: if_splits prod.splits)
  then obtain t m where "read_text w (repo_path repo MANIFEST) = Inr t" "wd_yaml w t = Some m"
    "manifest_check w repo True m = Inr ([], ls)"
    by (auto simp: validate_manifest_def Let_def clean_simps split: if_splits option.splits)
  with manifest_clean show ?thesis by blast
qed

section \<open>A package that is released\<close>

definition demo_record :: "string \<Rightarrow> pyv" where
  "demo_record i = PDict
     ([(''blocker_id'', PStr i), (''artifact_name'', PStr i), (''source_path'', PStr ''o''),
       (''sha256'', PStr (replicate 64 (CHR ''a''))), (''acceptance_status'', PStr ''accepted''),
       (''linked_release_gate'', PStr ''board_fabrication_release''), (''supersedes_placeholder'', PBool True)]
      @ map (\<lambda>k. (k, PStr ''x'')) REQUIRED_EVIDENCE_RECORD_FIELDS)"

definition demo_board_artifact :: "string \<Rightarrow> pyv" where
  "demo_board_artifact i = PDict
     [(''name'', PStr i), (''status'', PStr ''complete''), (''globs'', PList [PStr ''o'']), (''release_blocker'', PStr ''open''),
      (''release_blocker_id'', PStr i), (''evidence_records'', PList [demo_record i])]"

definition demo_contracts :: pyv where
  "demo_contracts = PDict [(''package_pinout'', PStr ''p''), (''padframe_contract'', PStr ''f''),
     (''board_cross_probe'', PStr ''x''), (''board_fab_notes'', PStr ''n'')]"

definition demo_pinout :: pyv where
  "demo_pinout = PDict [(''pins'', PList [PDict [(''name'', PStr ''A1''), (''direction'', PStr ''in''), (''board_net'', PStr ''VDD'')],
     PDict [(''name'', PStr ''A2''), (''direction'', PStr ''nc'')]])]"

definition demo_padframe :: pyv where
  "demo_padframe = PDict [(''package_pinout'', PStr ''p''), (''package_pins'', PInt 2),
     (''package_artifacts'', PDict [(''pinout'', PStr ''p''), (''board_cross_probe'', PStr ''x''), (''board_fab_notes'', PStr ''n'')])]"

definition demo_cross_probe :: pyv where
  "demo_cross_probe = PDict [(''coverage'', PDict [(''package_pins'', PInt 2)]),
     (''scope'', PDict [(''package_pinout'', PStr ''p''), (''padframe_contract'', PStr ''f''), (''board_fab_notes'', PStr ''n'')])]"

definition demo_three :: pyv where
  "demo_three = PList [PStr ''a'', PStr ''b'', PStr ''c'']"

definition demo_template :: pyv where
  "demo_template = PDict [(''template'', PStr ''t''), (''status'', PStr ''template_not_release_evidence''),
     (''artifact_record_required_fields'', demo_three), (''metadata_required_fields'', demo_three),
     (''acceptance_required_fields'', demo_three), (''forbidden_claims'', demo_three)]"

definition demo_row :: "string list \<Rightarrow> string \<Rightarrow> pyv" where
  "demo_row fs i = PDict ([(''id'', PStr i), (''status'', PStr ''blocked''), (''blocks_release_gate'', PStr ''board_fabrication_release''),
     (''required_evidence'', demo_three)] @ map (\<lambda>f. (f, PStr ''x'')) fs)"

definition demo_assessment :: pyv where
  "demo_assessment = PDict
     [(''schema'', PStr ''openagent.board_package_scaling_assessment.v1''), (''status'', PStr ''non_release_assessment''),
      (''release_use'', PStr ''prohibited''), (''source_manifest'', PStr MANIFEST),
      (''scope'', PList (map PStr REQUIRED_SCALING_SCOPE)), (''forbidden_claims'', PList (map PStr FORBIDDEN_SCALING_CLAIMS)),
      (''assumptions'', demo_three),
      (''readiness_matrix'', PList (map (demo_row [''product_implication'', ''package_implication'', ''board_implication''])
         REQUIRED_READINESS_MATRIX_IDS)),
      (''checklist'', PList (map (demo_row [''owner'', ''implication'']) REQUIRED_SCALING_CHECKLIST_IDS))]"

definition demo_board_manifest :: pyv where
  "demo_board_manifest = PDict
     [(''status'', PStr ''release_blocked''), (''release_gate'', PStr ''board_fabrication_release''),
      (''schema'', PStr ''openagent.board_package_evidence.v1''),
      (''policy'', PDict [(''preflight'', PStr ''p''), (''release'', PStr ''r'')]),
      (''source_contracts'', demo_contracts), (''capture_template'', PStr ''t''), (''scaling_assessment'', PStr ''s''),
      (''evidence_record_requirements'', PDict
        [(''required_fields'', PList (map PStr REQUIRED_EVIDENCE_RECORD_FIELDS)),
         (''linked_release_gate'', PStr ''board_fabrication_release''),
         (''accepted_release_statuses'', PList (map PStr ACCEPTED_RELEASE_STATUSES)),
         (''supersedes_placeholder_required'', PBool True)]),
      (''placeholder_blockers'', PList [PDict [(''id'', PStr ''h''), (''file'', PStr ''h''), (''required_text'', PList [PStr ''stub''])]]),
      (''artifact_groups'', PDict [(''package'', PDict [(''status'', PStr ''complete''),
         (''artifacts'', PList (map demo_board_artifact REQUIRED_RELEASE_BLOCKER_IDS))])])]"

abbreviation board_repo :: ppath where "board_repo \<equiv> PPath True [''repo'']"

definition demo_board_world :: world where
  "demo_board_world = \<lparr>wd_file = map_of (map (\<lambda>(p, s). (repo_path board_repo p, s))
       [(MANIFEST, ''manifest''), (''p'', ''pinout''), (''f'', ''padframe''), (''x'', ''cross''), (''n'', ''notes''), (''t'', ''template''),
        (''s'', ''scaling''), (''h'', ''a stub''), (''o'', ''measured'')]),
     wd_readable = (\<lambda>_. True), wd_is_dir = (\<lambda>_. False), wd_executable = (\<lambda>_. False), wd_resolve = id, wd_env_path = [],
     wd_sha256 = (\<lambda>_. replicate 64 (CHR ''a'')), wd_json = (\<lambda>_. None),
     wd_yaml = map_of [(''manifest'', demo_board_manifest), (''pinout'', demo_pinout), (''padframe'', demo_padframe),
       (''cross'', demo_cross_probe), (''template'', demo_template), (''scaling'', demo_assessment)],
     wd_list = (\<lambda>_. []), wd_run = (\<lambda>_ _ _. Completed 0 [])\<rparr>"

lemma demo_board_sections:
  "manifest_header_check demo_board_manifest = Inr ([], ())"
  "validate_evidence_record_requirements demo_board_manifest = Inr ([], ())"
  "validate_placeholder_blockers demo_board_world board_repo demo_board_manifest = Inr ([], ())"
  by code_simp+

lemma demo_board_contracts: "validate_source_contracts demo_board_world board_repo demo_board_manifest = Inr ([], ())"
  by code_simp

lemma demo_board_template: "validate_capture_template demo_board_world board_repo demo_board_manifest = Inr ([], ())"
  by code_simp

lemma demo_board_assessment: "validate_scaling_assessment demo_board_world board_repo demo_board_manifest = Inr ([], ())"
  by code_simp

lemma demo_board_values:
  "is_dict (demo_record i)" "is_dict (demo_board_artifact i)"
  "get (demo_record i) ''blocker_id'' = PStr i" "get (demo_record i) ''artifact_name'' = PStr i"
  "get (demo_record i) ''source_path'' = PStr ''o''" "get (demo_record i) ''sha256'' = PStr (replicate 64 (CHR ''a''))"
  "get (demo_record i) ''acceptance_status'' = PStr ''accepted''" "get (demo_record i) ''supersedes_placeholder'' = PBool True"
  "get (demo_record i) ''linked_release_gate'' = PStr ''board_fabrication_release''"
  "get (demo_board_artifact i) ''name'' = PStr i" "get (demo_board_artifact i) ''status'' = PStr ''complete''"
  "get (demo_board_artifact i) ''globs'' = PList [PStr ''o'']" "get (demo_board_artifact i) ''release_blocker'' = PStr ''open''"
  "get (demo_board_artifact i) ''release_blocker_id'' = PStr i" "get_or (demo_board_artifact i) ''metadata'' (PDict []) = PDict []"
  "get_or (demo_board_artifact i) ''required_metadata'' (PList []) = PList []"
  "get (demo_board_artifact i) ''evidence_records'' = PList [demo_record i]"
  by (simp_all add: demo_record_def demo_board_artifact_def get_def get_or_def)

lemma demo_board_paths:
  "path_matches_globs ''o'' [''o''] = Inr True" "validate_rel_path f ''o'' = Inr ([], ())"
  "filter (\<lambda>x. x \<in> set (map lower (all_parts (path_of ''o'')))) (sort FORBIDDEN_RELEASE_PATH_PARTS) = []"
  "is_file demo_board_world (repo_path board_repo ''o'')"
  "read_text demo_board_world (repo_path board_repo ''o'') = Inr ''measured''"
  "filter (\<lambda>m. contains m (lower ''measured'')) FORBIDDEN_RELEASE_TEXT_MARKERS = []"
  "is_board_digest (PStr (replicate 64 (CHR ''a'')))"
  "sha256_file demo_board_world (repo_path board_repo ''o'') = Inr (replicate 64 (CHR ''a''))"
  "matching_files demo_board_world board_repo [''o''] = Inr [repo_path board_repo ''o'']"
  "get demo_board_manifest ''capture_template'' = PStr ''t''"
  "get_or demo_board_manifest ''placeholder_blockers'' (PList []) = PList
     [PDict [(''id'', PStr ''h''), (''file'', PStr ''h''), (''required_text'', PList [PStr ''stub''])]]"
  by code_simp+

lemma demo_record_checked:
  assumes "i \<noteq> []"
  shows "record_check demo_board_world board_repo f i (Some i) [''o''] (PStr ''t'') [''h''] (n, demo_record i) = Inr ([], ())"
proof -
  have "lacking_names REQUIRED_EVIDENCE_RECORD_FIELDS (map fst (as_dict (demo_record i))) = []"
    by (auto simp: lacking_Nil demo_record_def)
  moreover have "record_file_check demo_board_world board_repo g (demo_record i) = Inr ([], ())" for g
    by (simp add: record_file_check_def demo_board_values demo_board_paths clean_simps Let_def)
  ultimately show ?thesis
    by (simp add: record_check_def record_path_check_def demo_board_values demo_board_paths clean_simps agrees_def Let_def
      demo_board_paths(3) [unfolded set_map] nonempty_str_iff in_names_def ACCEPTED_RELEASE_STATUSES_def del: wlist.simps)
qed

lemma demo_artifact_checked:
  assumes "i \<noteq> []" "i \<notin> set ids"
  shows "artifact_check demo_board_world board_repo g True demo_board_manifest (demo_board_artifact i) ids = Inr ([], (i # ids, []))"
proof -
  have "artifact_name (demo_board_artifact i) = i" using assms by (simp add: artifact_name_def demo_board_values nonempty_str_iff)
  moreover have "get (PDict [(''id'', PStr ''h''), (''file'', PStr ''h''), (''required_text'', PList [PStr ''stub''])]) ''file'' = PStr ''h''"
    by (simp add: get_def get_or_def)
  then have "validate_evidence_records demo_board_world board_repo f i (Some i) [''o''] (PList [demo_record i]) True demo_board_manifest
      = Inr ([], ())" for f
    using assms demo_record_checked
    by (simp add: validate_evidence_records_def demo_board_paths clean_simps Let_def enum_def)
  moreover have "metadata_check f (demo_board_artifact i) True = Inr ([], ())" for f
    by (simp add: metadata_check_def demo_board_values clean_simps Let_def as_string_list_def)
  moreover have "blocker_id_check f (demo_board_artifact i) open_status ids = Inr ([], i # ids)" for f open_status
    using assms by (simp add: blocker_id_check_def demo_board_values nonempty_str_iff err_if_def)
  ultimately show ?thesis using assms
    by (simp add: artifact_check_def demo_board_values demo_board_paths clean_simps Let_def nonempty_str_iff in_names_def
      ALLOWED_STATUS_def as_string_list_def release_blocker_lines_def)
qed

lemma demo_artifacts_checked:
  assumes "distinct is" "[] \<notin> set is" "set is \<inter> set ids = {}"
  shows "ids_each (artifact_check demo_board_world board_repo g True demo_board_manifest) (map demo_board_artifact is) ids =
    Inr ([], (rev is @ ids, []))"
  using assms
proof (induction "is" arbitrary: ids)
  case (Cons i "is")
  then have "i \<noteq> []" by auto
  with Cons show ?case by (simp add: demo_artifact_checked wret_def)
qed (simp add: wret_def)

lemma demo_group:
  "get demo_board_manifest ''artifact_groups'' = PDict [(''package'', PDict [(''status'', PStr ''complete''),
     (''artifacts'', PList (map demo_board_artifact REQUIRED_RELEASE_BLOCKER_IDS))])]"
  by (simp add: demo_board_manifest_def get_def get_or_def)

lemma demo_groups_checked:
  "ids_each (group_check demo_board_world board_repo True demo_board_manifest)
     [(''package'', PDict [(''status'', PStr ''complete''), (''artifacts'', PList (map demo_board_artifact REQUIRED_RELEASE_BLOCKER_IDS))])] []
   = Inr ([], (rev REQUIRED_RELEASE_BLOCKER_IDS, []))"
proof -
  have "distinct REQUIRED_RELEASE_BLOCKER_IDS" "[] \<notin> set REQUIRED_RELEASE_BLOCKER_IDS" "REQUIRED_RELEASE_BLOCKER_IDS \<noteq> []"
    by (simp_all add: REQUIRED_RELEASE_BLOCKER_IDS_def)
  then show ?thesis
    by (simp add: group_check_def filled_def get_def get_or_def in_names_def ALLOWED_STATUS_def clean_simps demo_artifacts_checked wret_def
      report_if_def err_if_def)
qed

lemma demo_board_released: "\<exists>lines. board_main demo_board_world board_repo True = Inr (0, lines)"
proof -
  have "manifest_check demo_board_world board_repo True demo_board_manifest = Inr ([], [])"
    by (simp add: manifest_check_def demo_board_sections demo_board_contracts demo_board_template demo_board_assessment demo_group
      demo_groups_checked lacking_Nil report_if_def err_if_def wret_def del: ids_each.simps)
  moreover have "read_text demo_board_world (repo_path board_repo MANIFEST) = Inr ''manifest''"
    "is_file demo_board_world (repo_path board_repo MANIFEST)" by code_simp+
  moreover have "wd_yaml demo_board_world ''manifest'' = Some demo_board_manifest" "is_dict demo_board_manifest"
    by (simp_all add: demo_board_world_def demo_board_manifest_def)
  ultimately show ?thesis by (simp add: board_main_def validate_manifest_def)
qed

theorem board_release_sound_witness:
  "\<exists>t m. wd_yaml demo_board_world t = Some m \<and> ''drc'' \<in> set (ids_of (artifacts_of m))
     \<and> list_all (artifact_released demo_board_world board_repo m) (artifacts_of m)"
proof -
  obtain lines where "board_main demo_board_world board_repo True = Inr (0, lines)" using demo_board_released by blast
  from board_release_sound [OF this] have "\<exists>t m. wd_yaml demo_board_world t = Some m
     \<and> list_all (artifact_released demo_board_world board_repo m) (artifacts_of m)
     \<and> set REQUIRED_RELEASE_BLOCKER_IDS \<subseteq> set (ids_of (artifacts_of m))" by blast
  then show ?thesis by (auto simp: REQUIRED_RELEASE_BLOCKER_IDS_def)
qed

end
