(* ===== verification/Pd_Closure.thy ===== *)
theory Pd_Closure
  imports Py_Check Py_Glob
begin

text \<open>
  \<open>scripts/check_pd_closure.py\<close>: the numeric closure metrics of a layout run, the statuses of its run
  manifest and its waivers. The text of a JSON error is left out.
\<close>

section \<open>Constants\<close>

definition ZERO_METRICS :: "(string \<times> string) list" where
  "ZERO_METRICS =
     [(''antenna__violating__nets'', ''antenna violating nets''),
      (''antenna__violating__pins'', ''antenna violating pins''),
      (''route__antenna_violation__count'', ''route antenna violations''),
      (''timing__hold_vio__count'', ''hold violation count''),
      (''timing__setup_vio__count'', ''setup violation count''),
      (''timing__hold_r2r_vio__count'', ''reg-to-reg hold violation count''),
      (''timing__setup_r2r_vio__count'', ''reg-to-reg setup violation count''),
      (''design__max_slew_violation__count'', ''max slew violations''),
      (''design__max_cap_violation__count'', ''max capacitance violations''),
      (''design__max_fanout_violation__count'', ''max fanout violations''),
      (''design__violations'', ''aggregate design violations'')]"

definition NONNEGATIVE_METRICS :: "(string \<times> string) list" where
  "NONNEGATIVE_METRICS =
     [(''timing__hold__wns'', ''hold WNS''), (''timing__hold__tns'', ''hold TNS''),
      (''timing__hold_r2r__ws'', ''reg-to-reg hold worst slack''),
      (''timing__setup__wns'', ''setup WNS''), (''timing__setup__tns'', ''setup TNS''),
      (''timing__setup_r2r__ws'', ''reg-to-reg setup worst slack'')]"

definition RELEASE_CLEAN_CHECKS :: "string list" where
  "RELEASE_CLEAN_CHECKS = [''antenna'', ''sta'']"

section \<open>Files of a run\<close>

definition pd_load_yaml :: "world \<Rightarrow> ppath \<Rightarrow> pyv py" where
  "pd_load_yaml w p =
     (if \<not> is_file w p then Inr (PDict [])
      else rbind (read_text w p) (\<lambda>t. rbind (yaml_loads w t) (\<lambda>v. Inr (if is_dict v then v else PDict []))))"

text \<open>\<open>path.relative_to(root)\<close> as text.\<close>

definition rel_text :: "ppath \<Rightarrow> ppath \<Rightarrow> string py" where
  "rel_text root_dir p = (case relative_to p root_dir of
       None \<Rightarrow> Inl (PyValueError (path_str p @ '' is not in the subpath''))
     | Some q \<Rightarrow> Inr (path_str q))"

definition in_run :: "ppath \<Rightarrow> string \<Rightarrow> ppath" where
  "in_run run_dir s = path_join run_dir (path_of s)"

definition load_metrics :: "world \<Rightarrow> ppath \<Rightarrow> ppath \<Rightarrow> pyv checked" where
  "load_metrics w repo run_dir =
     (let p = in_run run_dir ''final/metrics.json'' in
      if \<not> is_file w p then wbind (wlift (rel_text repo p)) (\<lambda>r. Inr ([''missing OpenLane metrics: '' @ r], PDict []))
      else
        wbind (wlift (read_text w p)) (\<lambda>t.
        case wd_json w t of
          None \<Rightarrow> wbind (wlift (rel_text repo p)) (\<lambda>r. Inr ([r @ '': invalid JSON''], PDict []))
        | Some payload \<Rightarrow>
            if is_dict payload then wret payload
            else wbind (wlift (rel_text repo p)) (\<lambda>r. Inr ([r @ '': metrics payload must be a JSON object''], PDict []))))"

section \<open>Metrics\<close>

definition numeric_metric :: "pyv \<Rightarrow> string \<Rightarrow> string \<Rightarrow> pyfloat option checked" where
  "numeric_metric metrics key label =
     (let v = get metrics key in
      if \<not> is_num v then Inr ([''missing numeric metric '' @ key @ '' ('' @ label @ '')''], None)
      else wbind (wlift (py_float v)) (\<lambda>x. wret (Some x)))"

definition metric_check :: "pyv \<Rightarrow> (pyfloat \<Rightarrow> bool) \<Rightarrow> string \<Rightarrow> string \<times> string \<Rightarrow> unit checked" where
  "metric_check metrics bad demand e = (case e of (key, label) \<Rightarrow>
     wbind (numeric_metric metrics key label) (\<lambda>v.
     case v of None \<Rightarrow> wret ()
     | Some x \<Rightarrow> report_if (bad x) (label @ demand @ '' for PD release closure; got '' @ fmt_g x)))"

definition check_metrics :: "pyv \<Rightarrow> unit checked" where
  "check_metrics metrics = wlist
     [weach (metric_check metrics (\<lambda>x. \<not> float_eq x (Fin 0)) '' must be 0'') ZERO_METRICS,
      weach (metric_check metrics (\<lambda>x. float_lt x (Fin 0)) '' must be >= 0'') NONNEGATIVE_METRICS]"

section \<open>Statuses\<close>

definition waiver_check :: "ppath \<Rightarrow> ppath \<Rightarrow> pyv \<Rightarrow> unit checked" where
  "waiver_check repo waiver_path waiver =
     (let check = get waiver ''check''; status = get waiver ''status'' in
      if \<not> is_dict waiver then wret ()
      else
        wbind (wlift (in_names check RELEASE_CLEAN_CHECKS)) (\<lambda>release.
        if release \<and> \<not> py_eq status (PStr ''closed_release_clean'') then
          wbind (wlift (rel_text repo waiver_path)) (\<lambda>r. report_if True (r @ '': '' @ py_str check @ '' waiver remains '' @ py_str status
            @ ''; release closure requires closed_release_clean''))
        else wret ()))"

definition check_waivers :: "world \<Rightarrow> ppath \<Rightarrow> ppath \<Rightarrow> unit checked" where
  "check_waivers w repo run_dir =
     (let p = in_run run_dir ''signoff-waivers.yaml'' in
      wbind (wlift (pd_load_yaml w p)) (\<lambda>waivers.
      weach (waiver_check repo p) (if is_list (get waivers ''waivers'') then as_list (get waivers ''waivers'') else [])))"

definition release_status_check :: "ppath \<Rightarrow> ppath \<Rightarrow> pyv \<Rightarrow> string \<Rightarrow> unit checked" where
  "release_status_check repo manifest_path checks check =
     (let entry = get checks check; status = (if is_dict entry then get entry ''status'' else PNone) in
      if py_eq status (PStr ''clean'') then wret ()
      else wbind (wlift (rel_text repo manifest_path)) (\<lambda>r.
        report_if True (r @ '': checks.'' @ check @ ''.status must be clean; got '' @ py_str status)))"

definition check_run_manifest :: "world \<Rightarrow> ppath \<Rightarrow> ppath \<Rightarrow> unit checked" where
  "check_run_manifest w repo run_dir =
     (let p = in_run run_dir ''signoff-run.yaml'' in
      wbind (wlift (pd_load_yaml w p)) (\<lambda>manifest.
      let checks = get_or manifest ''checks'' (PDict []) in
      if \<not> is_dict checks then wbind (wlift (rel_text repo p)) (\<lambda>r. report_if True (r @ '': checks must be a mapping''))
      else weach (release_status_check repo p checks) (sort RELEASE_CLEAN_CHECKS)))"

text \<open>What \<open>main\<close> collects; the signoff check repeats it.\<close>

definition closure_failures :: "world \<Rightarrow> ppath \<Rightarrow> ppath \<Rightarrow> unit checked" where
  "closure_failures w repo run_dir =
     wbind (load_metrics w repo run_dir) (\<lambda>metrics. wlist
       [if truthy metrics then check_metrics metrics else wret (),
        check_run_manifest w repo run_dir,
        check_waivers w repo run_dir])"

definition listed :: "string list \<Rightarrow> string list" where
  "listed xs = map (\<lambda>x. ''  - '' @ x) xs"

definition closure_main :: "world \<Rightarrow> ppath \<Rightarrow> string \<Rightarrow> (int \<times> string list) py" where
  "closure_main w repo run =
     (let run_dir = wd_resolve w (path_join repo (path_of run)) in
      case relative_to run_dir repo of
        None \<Rightarrow> Inr (1, [''PD closure check failed: --run must stay inside this repository: '' @ run])
      | Some rel_run \<Rightarrow>
          if \<not> wd_is_dir w run_dir then Inr (1, [''PD closure check failed: run directory missing: '' @ path_str rel_run])
          else
            rbind (messages (closure_failures w repo run_dir)) (\<lambda>failures.
            Inr (if failures \<noteq> [] then (1, (''PD closure check failed for '' @ path_str rel_run @ '':'') # listed failures)
                 else (0, [''PD closure check passed for '' @ path_str rel_run @ ''.'']))))"

end
