(* ===== verification/Pd_Signoff.thy ===== *)
theory Pd_Signoff
  imports Pd_Closure "HOL-Library.AList"
begin

text \<open>
  \<open>scripts/check_pd_signoff.py\<close>: the layout signoff manifest, the choice of a run that has every required
  artifact, the checks of its reports and run manifest, the release gates and the exit code. The
  node graph of \<open>yaml.compose\<close> and the compiled form of a pattern written in the manifest come from
  the host; matching a compiled pattern is the matcher of \<open>Py_Regex\<close>.
\<close>

section \<open>Constants\<close>

definition REQUIRED_ARTIFACTS :: "(string \<times> string) list" where
  "REQUIRED_ARTIFACTS =
     [(''run_manifest'', ''.yaml''), (''gds'', ''.gds''), (''def'', ''.def''), (''gate_netlist'', ''.v''),
      (''corner_manifest'', ''.yaml''), (''sdc'', ''.sdc''), (''spef'', ''.spef''), (''sdf'', ''.sdf''),
      (''drc_report'', ''.rpt''), (''klayout_drc_report'', ''.rpt''), (''lvs_report'', ''.rpt''),
      (''antenna_report'', ''.rpt''), (''sta_report'', ''.rpt''), (''utilization_report'', ''.rpt''),
      (''congestion_report'', ''.rpt''), (''density_fill_report'', ''.rpt''), (''tool_versions'', ''.txt'')]"

definition ARTIFACT_LABELS :: "(string \<times> string) list" where
  "ARTIFACT_LABELS =
     [(''run_manifest'', ''run manifest''), (''gds'', ''GDS layout''), (''def'', ''DEF layout''),
      (''gate_netlist'', ''gate-level netlist''), (''corner_manifest'', ''corner manifest''),
      (''sdc'', ''SDC constraints''), (''spef'', ''SPEF parasitics''), (''sdf'', ''SDF backannotation''),
      (''drc_report'', ''DRC report''), (''klayout_drc_report'', ''KLayout DRC report''),
      (''lvs_report'', ''LVS report''), (''antenna_report'', ''antenna report''), (''sta_report'', ''STA report''),
      (''utilization_report'', ''utilization report''), (''congestion_report'', ''congestion report''),
      (''density_fill_report'', ''density/fill report''), (''tool_versions'', ''tool-version report'')]"

definition RUN_OUTPUT_SPECS :: "(string \<times> string \<times> string) list" where
  "RUN_OUTPUT_SPECS =
     [(''gds'', ''.gds'', ''GDS layout''), (''def'', ''.def'', ''DEF layout''),
      (''gate_netlist'', ''.v'', ''gate-level netlist''), (''corner_manifest'', ''.yaml'', ''corner manifest''),
      (''sdc'', ''.sdc'', ''SDC constraints''), (''spef'', ''.spef'', ''SPEF parasitics''),
      (''sdf'', ''.sdf'', ''SDF backannotation''), (''tool_versions'', ''.txt'', ''tool-version report'')]"

definition REQUIRED_BLOCKED_GATES :: "string list" where
  "REQUIRED_BLOCKED_GATES =
     [''pd_release'', ''tapeout_release'', ''board_fabrication_release'']"

definition REQUIRED_READINESS_SECTIONS :: "string list" where
  "REQUIRED_READINESS_SECTIONS =
     [''si_pi'', ''pdn_current_budget'', ''padframe_package'', ''thermal_package_board'']"

definition ALLOWED_READINESS_STATUS :: "string list" where
  "ALLOWED_READINESS_STATUS =
     [''blocked'', ''incomplete'', ''required_for_release'']"

definition REQUIRED_RUN_MANIFEST_FIELDS :: "string list" where
  "REQUIRED_RUN_MANIFEST_FIELDS =
     [''run_id'', ''design'', ''flow'', ''pdk'', ''std_cell_library'', ''openlane_image'',
      ''openlane_image_digest'', ''started_at'', ''completed_at'', ''status'', ''corners'', ''inputs'',
      ''outputs'', ''checks'']"

definition REQUIRED_RUN_CHECKS :: "string list" where
  "REQUIRED_RUN_CHECKS =
     [''drc'', ''lvs'', ''antenna'', ''sta'', ''utilization'', ''congestion'', ''density_fill'']"

definition PLACEHOLDERS :: "string list" where
  "PLACEHOLDERS =
     ['''', ''tbd'', ''todo'', ''placeholder'', ''none'', ''n/a'', ''unknown'']"

definition RELEASE_FAIL_CLOSED_KEYS :: "string list" where
  "RELEASE_FAIL_CLOSED_KEYS =
     [''QUIT_ON_TIMING_VIOLATIONS'', ''QUIT_ON_MAGIC_DRC'', ''QUIT_ON_LVS_ERROR'', ''QUIT_ON_SLEW_VIOLATIONS'']"

section \<open>Helpers\<close>

datatype ynode = YScalar string nat | YSeq "ynode list" | YMap "(ynode \<times> ynode) list"

text \<open>\<open>None\<close> is an error; a document without content composes to \<open>Some None\<close>. A pattern compiles to
its case-insensitivity and its tree.\<close>

record pd_host =
  ph_compose :: "string \<Rightarrow> ynode option option"
  ph_compile :: "string \<Rightarrow> (bool \<times> rx) option"

definition pd_as_list :: "pyv \<Rightarrow> string list" where
  "pd_as_list v = (if is_list v \<and> list_all is_str (as_list v) then map as_str (as_list v) else [])"

definition label_of :: "string \<Rightarrow> string" where
  "label_of name = (case map_of ARTIFACT_LABELS name of None \<Rightarrow> name | Some l \<Rightarrow> l)"

definition artifact_label :: "string \<Rightarrow> string" where
  "artifact_label name = label_of name @ '' ('' @ name @ '')''"

definition artifact_list :: "string list \<Rightarrow> string" where
  "artifact_list names = join '', '' (map artifact_label names)"

definition is_placeholder :: "pyv \<Rightarrow> bool" where
  "is_placeholder v \<longleftrightarrow> \<not> is_str v \<or> lower (strip (as_str v)) \<in> set PLACEHOLDERS"

text \<open>Sorted names of the first list that the second lacks, or has.\<close>

definition names_lacking :: "string list \<Rightarrow> string list \<Rightarrow> string list" where
  "names_lacking required found = filter (\<lambda>n. n \<notin> set found) (sort required)"

definition names_present :: "string list \<Rightarrow> string list \<Rightarrow> string list" where
  "names_present required found = filter (\<lambda>n. n \<in> set found) (sort required)"

definition keys_of :: "pyv \<Rightarrow> string list" where
  "keys_of v = map fst (as_dict v)"

section \<open>Duplicate keys\<close>

text \<open>Only the values of mappings are visited: a mapping inside a sequence is not.\<close>

fun visit_node :: "string \<Rightarrow> ynode \<Rightarrow> string list"
  and visit_entries :: "string \<Rightarrow> (string \<times> nat) list \<Rightarrow> (ynode \<times> ynode) list \<Rightarrow> string list" where
  "visit_node path (YMap es) = visit_entries path [] es"
| "visit_node path (YScalar s n) = []"
| "visit_node path (YSeq ns) = []"
| "visit_entries path seen [] = []"
| "visit_entries path seen ((YScalar key line, v) # es) =
     (let child = (if path = [] then key else path @ ''.'' @ key) in
      case map_of seen key of
        Some first \<Rightarrow>
          (''duplicate YAML key at '' @ path @ '': '' @ key @ '' (first line '' @ nat_str first @ '', duplicate line ''
             @ nat_str (line + 1) @ '')'') # visit_node child v @ visit_entries path seen es
      | None \<Rightarrow> visit_node child v @ visit_entries path ((key, line + 1) # seen) es)"
| "visit_entries path seen ((YSeq ns, v) # es) = visit_node path v @ visit_entries path seen es"
| "visit_entries path seen ((YMap ms, v) # es) = visit_node path v @ visit_entries path seen es"

definition validate_no_duplicate_yaml_keys :: "pd_host \<Rightarrow> string \<Rightarrow> string list py" where
  "validate_no_duplicate_yaml_keys h t =
     (case ph_compose h t of
        None \<Rightarrow> Inl PyYAMLError
      | Some None \<Rightarrow> Inr []
      | Some (Some root_node) \<Rightarrow> Inr (visit_node [] root_node))"

section \<open>The manifest\<close>

definition validate_relative_globs :: "string \<Rightarrow> string \<Rightarrow> pyv \<Rightarrow> unit checked" where
  "validate_relative_globs part name globs =
     (if pd_as_list globs = [] then report_if True (part @ ''.'' @ name @ '': missing globs'')
      else weach (\<lambda>pattern. report_if (outside_repo pattern)
        (part @ ''.'' @ name @ '': glob must be a relative repo path: '' @ pattern)) (pd_as_list globs))"

definition validate_relative_file :: "world \<Rightarrow> ppath \<Rightarrow> string \<Rightarrow> pyv \<Rightarrow> unit checked" where
  "validate_relative_file w base field v =
     (if \<not> nonempty_str v then report_if True (field @ '': missing evidence_manifest'')
      else if outside_repo (as_str v) then report_if True (field @ '': evidence_manifest must be a relative repo path: '' @ as_str v)
      else report_if (\<not> is_file w (path_join base (path_of (as_str v))))
        (field @ '': evidence_manifest points at missing file: '' @ as_str v))"

definition gate_check :: "world \<Rightarrow> ppath \<Rightarrow> string \<times> pyv \<Rightarrow> unit checked" where
  "gate_check w base e = (case e of (name, gate) \<Rightarrow>
     let field = ''blocked_gates.'' @ name; blocked = get gate ''blocked'' in
     if \<not> is_dict gate then report_if True (field @ '': gate spec must be a mapping'')
     else wlist
       [report_if (\<not> is_bool blocked) (field @ '': blocked must be true or false''),
        report_if (blocked = PBool False \<and> (pd_as_list (get gate ''approvals'') = [] \<or> pd_as_list (get gate ''evidence'') = []))
          (field @ '': unblocked gates require approvals and evidence''),
        report_if (\<not> nonempty_str (get gate ''reason'')) (field @ '': missing reason''),
        validate_relative_file w base field (get gate ''evidence_manifest''),
        report_if (pd_as_list (get gate ''unblock_requires'') = []) (field @ '': missing unblock_requires'')])"

definition validate_blocked_gates :: "world \<Rightarrow> ppath \<Rightarrow> pyv \<Rightarrow> unit checked" where
  "validate_blocked_gates w base manifest =
     (let gates = get manifest ''blocked_gates''; missing = names_lacking REQUIRED_BLOCKED_GATES (keys_of gates) in
      if \<not> is_dict gates then report_if True ''manifest must list blocked_gates''
      else wlist
        [report_if (missing \<noteq> []) (''blocked_gates missing gates: '' @ join '', '' missing),
         weach (gate_check w base) (as_dict gates)])"

definition readiness_artifact_check :: "string \<Rightarrow> nat \<times> pyv \<Rightarrow> unit checked" where
  "readiness_artifact_check part e = (case e of (i, artifact) \<Rightarrow>
     let nth_name = ''required_artifacts['' @ nat_str i @ '']''; shown = py_str (get_or artifact ''name'' (PStr nth_name)) in
     if \<not> is_dict artifact then report_if True (part @ ''.'' @ nth_name @ '': artifact must be a mapping'')
     else wlist
       [report_if (\<not> nonempty_str (get artifact ''name'')) (part @ ''.'' @ nth_name @ '': missing name''),
        validate_relative_globs part shown (get artifact ''globs''),
        wbind (wlift (in_names (get artifact ''status'') [''missing'', ''draft'', ''complete''])) (\<lambda>ok.
          report_if (\<not> ok) (part @ ''.'' @ shown @ '': status must be missing, draft, or complete''))])"

definition readiness_section_check :: "pyv \<Rightarrow> string \<Rightarrow> unit checked" where
  "readiness_section_check manifest name =
     (let part = get manifest name; blocking = get part ''release_blocking''; artifacts = get part ''required_artifacts'' in
      if \<not> is_dict part then report_if True (name @ '': readiness section must be a mapping'')
      else wlist
        [wbind (wlift (in_names (get part ''status'') ALLOWED_READINESS_STATUS)) (\<lambda>ok.
           report_if (\<not> ok) (name @ '': status must be one of '' @ join '', '' (sort ALLOWED_READINESS_STATUS))),
         report_if (\<not> is_bool blocking) (name @ '': release_blocking must be true or false''),
         report_if (blocking = PBool True \<and> pd_as_list (get part ''blockers'') = [])
           (name @ '': release-blocking sections require blockers''),
         if \<not> is_list artifacts \<or> as_list artifacts = [] then report_if True (name @ '': missing required_artifacts'')
         else weach (readiness_artifact_check name) (enum (as_list artifacts))])"

definition validate_readiness_sections :: "pyv \<Rightarrow> unit checked" where
  "validate_readiness_sections manifest =
     (let missing = names_lacking REQUIRED_READINESS_SECTIONS (keys_of manifest) in wlist
      [report_if (missing \<noteq> []) (''manifest missing readiness sections: '' @ join '', '' missing),
       weach (readiness_section_check manifest) (names_present REQUIRED_READINESS_SECTIONS (keys_of manifest))])"

text \<open>The inner function \<open>load_config\<close>.\<close>

definition pd_load_config :: "world \<Rightarrow> ppath \<Rightarrow> string \<Rightarrow> string \<Rightarrow> pyv option checked" where
  "pd_load_config w base mode entry =
     (let field = ''openlane_configs.'' @ mode; p = path_join base (path_of entry) in
      if outside_repo entry then Inr ([field @ '': config path must be relative: '' @ entry], None)
      else if \<not> is_file w p then Inr ([field @ '': missing config: '' @ entry], None)
      else
        wbind (wlift (read_text w p)) (\<lambda>t.
        case wd_json w t of
          None \<Rightarrow> Inr ([field @ '': invalid JSON in '' @ entry], None)
        | Some payload \<Rightarrow>
            if is_dict payload then wret (Some payload)
            else Inr ([field @ '': config must be a JSON object: '' @ entry], None)))"

definition release_config_check :: "world \<Rightarrow> ppath \<Rightarrow> string \<Rightarrow> unit checked" where
  "release_config_check w base entry =
     wbind (pd_load_config w base ''release'' entry) (\<lambda>found.
     case found of None \<Rightarrow> wret ()
     | Some payload \<Rightarrow>
         let fail_open = filter (\<lambda>k. get payload k \<noteq> PBool True) (sort RELEASE_FAIL_CLOSED_KEYS) in
         report_if (fail_open \<noteq> []) (''openlane_configs.release: '' @ entry @ '' must set fail-closed keys true: ''
           @ join '', '' fail_open))"

definition exploratory_config_check :: "world \<Rightarrow> ppath \<Rightarrow> string \<Rightarrow> unit checked" where
  "exploratory_config_check w base entry =
     wbind (pd_load_config w base ''exploratory'' entry) (\<lambda>found.
     case found of None \<Rightarrow> wret ()
     | Some payload \<Rightarrow>
         report_if (ends_in ''.exploratory.json'' entry \<and> \<not> list_ex (\<lambda>k. get payload k = PBool False) RELEASE_FAIL_CLOSED_KEYS)
           (''openlane_configs.exploratory: '' @ entry @ '' should explicitly differ from release fail-closed configs''))"

definition validate_openlane_configs :: "world \<Rightarrow> ppath \<Rightarrow> pyv \<Rightarrow> unit checked" where
  "validate_openlane_configs w base manifest =
     (let configs = get manifest ''openlane_configs''; release = pd_as_list (get configs ''release'');
          exploratory = pd_as_list (get configs ''exploratory'') in
      if \<not> is_dict configs then
        report_if True ''manifest must list openlane_configs.release and openlane_configs.exploratory''
      else wlist
        [report_if (release = []) ''openlane_configs.release must list fail-closed release configs'',
         report_if (exploratory = []) ''openlane_configs.exploratory must list non-release local iteration configs'',
         weach (release_config_check w base) release,
         weach (exploratory_config_check w base) exploratory])"

text \<open>\<open>s.rstrip("/")\<close>.\<close>

definition strip_slashes :: "string \<Rightarrow> string" where
  "strip_slashes s = rev (dropWhile (\<lambda>c. c = CHR ''/'') (rev s))"

definition run_prefix :: "string \<Rightarrow> string" where
  "run_prefix run_root = strip_slashes run_root @ ''/*/''"

definition schema_check :: "world \<Rightarrow> ppath \<Rightarrow> pyv \<Rightarrow> unit checked" where
  "schema_check w base v =
     (if \<not> nonempty_str v then report_if True ''manifest must list run_manifest_schema''
      else if outside_repo (as_str v) then report_if True (''run_manifest_schema must be a relative repo path: '' @ as_str v)
      else report_if (\<not> is_file w (path_join base (path_of (as_str v))))
        (''run_manifest_schema points at missing file: '' @ as_str v))"

definition runner_check :: "pyv \<Rightarrow> unit checked" where
  "runner_check runner =
     (let digest = get runner ''openlane_image_digest'' in
      if \<not> is_dict runner then report_if True ''manifest must list runner metadata''
      else wlist
        [report_if (\<not> nonempty_str (get runner ''openlane_image'')) ''runner.openlane_image must be a non-empty string'',
         report_if (\<not> is_str digest \<or> \<not> starts_with ''sha256:'' (as_str digest))
           ''runner.openlane_image_digest must be a sha256 digest'',
         report_if (get runner ''require_pinned_runner_for_release'' \<noteq> PBool True)
           ''runner.require_pinned_runner_for_release must be true''])"

definition pattern_check :: "string list \<Rightarrow> string \<Rightarrow> string \<Rightarrow> unit checked" where
  "pattern_check run_roots name pattern = wlist
     [report_if (outside_repo pattern) (name @ '': glob must be a relative repo path: '' @ pattern),
      report_if (run_roots \<noteq> [] \<and> \<not> list_ex (\<lambda>r. starts_with (run_prefix r) pattern) run_roots)
        (name @ '': glob must be scoped to one configured run root: '' @ pattern),
      case map_of REQUIRED_ARTIFACTS name of None \<Rightarrow> wret ()
      | Some extension \<Rightarrow> report_if (\<not> ends_in extension pattern) (name @ '': glob must match '' @ extension @ '' files: '' @ pattern)]"

definition artifact_spec_check :: "string list \<Rightarrow> string \<times> pyv \<Rightarrow> unit checked" where
  "artifact_spec_check run_roots e = (case e of (name, spec) \<Rightarrow>
     let globs = pd_as_list (get spec ''globs''); min_bytes = get_or spec ''min_bytes'' (PInt 1);
         is_report = ends_in ''_report'' name in
     if \<not> is_dict spec then report_if True (name @ '': artifact spec must be a mapping'')
     else if globs = [] then report_if True (name @ '': missing globs'')
     else wlist
       [weach (pattern_check run_roots name) globs,
        report_if (is_report \<and> \<not> nonempty_str (get spec ''fail_regex'')) (name @ '': report artifacts require fail_regex''),
        report_if (is_report \<and> \<not> nonempty_str (get spec ''pass_regex'')) (name @ '': report artifacts require pass_regex''),
        report_if (\<not> is_int min_bytes \<or> as_int min_bytes < 1) (name @ '': min_bytes must be a positive integer'')])"

definition waivers_check :: "pyv \<Rightarrow> unit checked" where
  "waivers_check waivers =
     (if \<not> truthy waivers then wret ()
      else if \<not> is_dict waivers then report_if True ''waivers must be a mapping''
      else weach (\<lambda>pattern. report_if (outside_repo pattern) (''waiver glob must be a relative repo path: '' @ pattern))
        (pd_as_list (get waivers ''globs'')))"

text \<open>The part of \<open>validate_manifest\<close> before, and the part after, \<open>required_artifacts\<close> is known to be a
mapping.\<close>

definition manifest_head_check :: "world \<Rightarrow> ppath \<Rightarrow> pyv \<Rightarrow> unit checked" where
  "manifest_head_check w base manifest = wlist
     [report_if (\<not> nonempty_str (get manifest ''signoff'')) ''manifest must name signoff'',
      schema_check w base (get manifest ''run_manifest_schema''),
      runner_check (get manifest ''runner''),
      report_if (pd_as_list (get manifest ''run_roots'') = []) ''manifest must list run_roots'']"

definition manifest_body_check :: "world \<Rightarrow> ppath \<Rightarrow> ppath \<Rightarrow> pyv \<Rightarrow> unit checked" where
  "manifest_body_check w base manifest_path manifest =
     (let run_roots = pd_as_list (get manifest ''run_roots''); required = get manifest ''required_artifacts'';
          missing = names_lacking (map fst REQUIRED_ARTIFACTS) (keys_of required);
          extra = names_lacking (keys_of required) (map fst REQUIRED_ARTIFACTS) in wlist
      [report_if (missing \<noteq> []) (''manifest missing required artifact classes: '' @ join '', '' missing),
       report_if (extra \<noteq> []) (''manifest has unknown artifact classes: '' @ join '', '' extra),
       weach (\<lambda>r. report_if (outside_repo r) (''run_root must be a relative repo path: '' @ r)) run_roots,
       weach (artifact_spec_check run_roots) (as_dict required),
       waivers_check (get_or manifest ''waivers'' (PDict [])),
       report_if (path_name manifest_path \<noteq> ''manifest.yaml'') ''signoff manifest file must be named manifest.yaml'',
       validate_blocked_gates w base manifest,
       validate_readiness_sections manifest,
       validate_openlane_configs w base manifest])"

definition pd_validate_manifest :: "world \<Rightarrow> ppath \<Rightarrow> pyv \<Rightarrow> unit checked" where
  "pd_validate_manifest w manifest_path manifest =
     wbind (wlift (path_parents manifest_path 2)) (\<lambda>base.
     wbind (manifest_head_check w base manifest) (\<lambda>_.
     if \<not> is_dict (get manifest ''required_artifacts'') then report_if True ''manifest has no required_artifacts''
     else manifest_body_check w base manifest_path manifest))"

section \<open>The manifest of a run\<close>

text \<open>A path written in the run manifest, resolved, and whether it leaves the run directory.\<close>

definition leaves_run :: "world \<Rightarrow> ppath \<Rightarrow> ppath \<Rightarrow> bool" where
  "leaves_run w run_dir p \<longleftrightarrow> relative_to p (wd_resolve w run_dir) = None"

definition run_report_check :: "world \<Rightarrow> ppath \<Rightarrow> string \<Rightarrow> pyv \<Rightarrow> unit checked" where
  "run_report_check w run_dir field report =
     (let p = wd_resolve w (in_run run_dir (as_str report)) in
      if \<not> nonempty_str report then report_if True (field @ ''.report is required'')
      else wlist
        [report_if (leaves_run w run_dir p) (field @ ''.report must stay inside the run directory''),
         report_if (\<not> is_file w p) (field @ ''.report missing: '' @ as_str report)])"

definition run_check_entry :: "world \<Rightarrow> ppath \<Rightarrow> string \<Rightarrow> pyv \<Rightarrow> string \<Rightarrow> unit checked" where
  "run_check_entry w run_dir pre checks name =
     (let check = get checks name; field = pre @ ''checks.'' @ name; status = get check ''status'' in
      if \<not> is_dict check then report_if True (field @ '' must be a mapping'')
      else wlist
        [wbind (wlift (in_names status [''clean'', ''waived''])) (\<lambda>ok.
           report_if (\<not> ok) (field @ ''.status must be clean or waived'')),
         report_if (status = PStr ''waived'' \<and> \<not> nonempty_str (get check ''waiver''))
           (field @ ''.waiver is required for waived checks''),
         run_report_check w run_dir field (get check ''report'')])"

definition run_checks_check :: "world \<Rightarrow> ppath \<Rightarrow> string \<Rightarrow> pyv \<Rightarrow> unit checked" where
  "run_checks_check w run_dir pre checks =
     (let missing = names_lacking REQUIRED_RUN_CHECKS (keys_of checks) in
      if \<not> is_dict checks then report_if True (pre @ ''checks must be a mapping'')
      else wlist
        [report_if (missing \<noteq> []) (pre @ ''missing checks: '' @ join '', '' missing),
         weach (run_check_entry w run_dir pre checks) (names_present REQUIRED_RUN_CHECKS (keys_of checks))])"

definition run_entry_check :: "world \<Rightarrow> ppath \<Rightarrow> string \<Rightarrow> string \<Rightarrow> string \<Rightarrow> string \<Rightarrow> unit checked" where
  "run_entry_check w run_dir pre part item entry =
     (let p = wd_resolve w (in_run run_dir entry) in wlist
      [report_if (leaves_run w run_dir p) (pre @ part @ ''.'' @ item @ '' must stay inside the run directory: '' @ entry),
       report_if (part = ''outputs'' \<and> \<not> is_file w p) (pre @ ''outputs.'' @ item @ '' missing '' @ label_of item @ '': '' @ entry)])"

definition run_item_check :: "world \<Rightarrow> ppath \<Rightarrow> string \<Rightarrow> string \<Rightarrow> string \<times> pyv \<Rightarrow> unit checked" where
  "run_item_check w run_dir pre part e = (case e of (item, v) \<Rightarrow>
     if is_str v then weach (run_entry_check w run_dir pre part item) [as_str v]
     else if is_list v \<and> list_all is_str (as_list v) then weach (run_entry_check w run_dir pre part item) (map as_str (as_list v))
     else report_if True (pre @ part @ ''.'' @ item @ '' must be a path string or list of path strings''))"

definition run_section_check :: "world \<Rightarrow> ppath \<Rightarrow> string \<Rightarrow> pyv \<Rightarrow> string \<Rightarrow> unit checked" where
  "run_section_check w run_dir pre payload part =
     (if \<not> is_dict (get payload part) then report_if True (pre @ part @ '' must be a mapping'')
      else weach (run_item_check w run_dir pre part) (as_dict (get payload part)))"

definition output_extension_check :: "string \<Rightarrow> pyv \<Rightarrow> string \<times> string \<times> string \<Rightarrow> unit checked" where
  "output_extension_check pre outputs e = (case e of (item, extension, label) \<Rightarrow>
     let v = get outputs item; values = (if is_str v then [v] else if is_list v then as_list v else []) in
     if \<not> list_all is_str values then wret ()
     else weach (\<lambda>entry. report_if (\<not> ends_in extension entry)
       (pre @ ''outputs.'' @ item @ '' must point to '' @ extension @ '' '' @ label @ '': '' @ entry)) (map as_str values))"

definition run_outputs_check :: "string \<Rightarrow> pyv \<Rightarrow> unit checked" where
  "run_outputs_check pre outputs =
     (let missing = names_lacking (map fst RUN_OUTPUT_SPECS) (keys_of outputs) in
      if \<not> is_dict outputs then wret ()
      else wlist
        [report_if (missing \<noteq> []) (pre @ ''outputs missing required artifacts: '' @ artifact_list missing),
         weach (output_extension_check pre outputs) RUN_OUTPUT_SPECS])"

definition run_payload_check :: "world \<Rightarrow> ppath \<Rightarrow> string \<Rightarrow> pyv \<Rightarrow> unit checked" where
  "run_payload_check w run_dir pre payload =
     (let missing = names_lacking REQUIRED_RUN_MANIFEST_FIELDS (keys_of payload);
          digest = get payload ''openlane_image_digest''; corners = get payload ''corners'' in wlist
      [report_if (missing \<noteq> []) (pre @ ''missing fields: '' @ join '', '' missing),
       report_if (get payload ''design'' \<noteq> PStr ''e1_chip_top'') (pre @ ''design must be e1_chip_top''),
       weach (\<lambda>f. report_if (is_placeholder (get payload f)) (pre @ f @ '' must not be empty or placeholder''))
         [''flow'', ''pdk'', ''std_cell_library'', ''openlane_image''],
       report_if (get payload ''status'' \<noteq> PStr ''complete'') (pre @ ''status must be complete''),
       report_if (\<not> is_str digest \<or> \<not> starts_with ''sha256:'' (as_str digest))
         (pre @ ''openlane_image_digest must be a sha256 digest''),
       report_if (\<not> is_list corners \<or> as_list corners = []) (pre @ ''corners must be a non-empty list''),
       run_checks_check w run_dir pre (get payload ''checks''),
       run_section_check w run_dir pre payload ''inputs'',
       run_section_check w run_dir pre payload ''outputs'',
       run_outputs_check pre (get payload ''outputs'')])"

definition validate_run_manifest :: "world \<Rightarrow> ppath \<Rightarrow> ppath \<Rightarrow> ppath \<Rightarrow> unit checked" where
  "validate_run_manifest w repo run_dir run_manifest =
     wbind (wlift (rel_text repo run_manifest)) (\<lambda>shown.
     wbind (wlift (read_text w run_manifest)) (\<lambda>t.
     case wd_yaml w t of
       None \<Rightarrow> report_if True (''run_manifest: invalid YAML in '' @ shown)
     | Some payload \<Rightarrow>
         if is_dict payload then run_payload_check w run_dir (''run_manifest: '' @ shown @ '' '') payload
         else report_if True (''run_manifest: '' @ shown @ '' must be a YAML mapping'')))"

section \<open>Choosing a run\<close>

definition run_dirs :: "world \<Rightarrow> ppath \<Rightarrow> string list \<Rightarrow> ppath list" where
  "run_dirs w repo run_roots = concat (map (\<lambda>r.
     let base = path_join repo (path_of r) in
     if wd_is_dir w base then sort (filter (wd_is_dir w) (map (\<lambda>n. path_join base (PPath False [n])) (wd_list w base)))
     else []) run_roots)"

definition files_for_run :: "world \<Rightarrow> ppath \<Rightarrow> string \<Rightarrow> string list \<Rightarrow> ppath list py" where
  "files_for_run w run_dir run_root globs =
     (let pre = run_prefix run_root in
      rbind (mapR (\<lambda>pattern. globbed_files w run_dir (drop (length pre) pattern)) (filter (starts_with pre) globs))
        (\<lambda>found. Inr (concat found)))"

text \<open>The files of every artifact class, and the classes without a file.\<close>

definition run_artifacts :: "world \<Rightarrow> ppath \<Rightarrow> string \<Rightarrow> (string \<times> pyv) list \<Rightarrow> ((string \<times> ppath list) list \<times> string list) py" where
  "run_artifacts w run_dir run_root required =
     rbind (mapR (\<lambda>(name, spec). rbind (files_for_run w run_dir run_root (pd_as_list (get spec ''globs'')))
              (\<lambda>fs. Inr (name, fs))) required)
       (\<lambda>found. Inr (filter (\<lambda>(name, fs). fs \<noteq> []) found, map fst (filter (\<lambda>(name, fs). fs = []) found)))"

type_synonym run_choice = "ppath option \<times> (string \<times> ppath list) list \<times> (ppath \<times> string list) list"

fun choose_from :: "world \<Rightarrow> ppath \<Rightarrow> (string \<times> pyv) list \<Rightarrow> ppath list \<Rightarrow> run_choice \<Rightarrow> run_choice py" where
  "choose_from w repo required [] (best, best_artifacts, missing_by_run) = Inr (None, best_artifacts, missing_by_run)"
| "choose_from w repo required (d # ds) (best, best_artifacts, missing_by_run) =
     rbind (rel_text repo (path_parent d)) (\<lambda>run_root.
     rbind (run_artifacts w d run_root required) (\<lambda>(artifacts, missing).
     let by_run = AList.update d missing missing_by_run;
         better = (case best of None \<Rightarrow> True
                   | Some b \<Rightarrow> length missing < length (case map_of by_run b of None \<Rightarrow> [] | Some ms \<Rightarrow> ms)) in
     if missing = [] then Inr (Some d, artifacts, by_run)
     else choose_from w repo required ds
       (if better then (Some d, artifacts, by_run) else (best, best_artifacts, by_run))))"

definition choose_complete_run :: "world \<Rightarrow> ppath \<Rightarrow> pyv \<Rightarrow> run_choice py" where
  "choose_complete_run w repo manifest =
     choose_from w repo (as_dict (get manifest ''required_artifacts''))
       (run_dirs w repo (pd_as_list (get manifest ''run_roots''))) (None, [], [])"

text \<open>\<open>min(missing_by_run, key=...)\<close>: the first with the fewest missing classes.\<close>

fun closest_run :: "(ppath \<times> string list) \<Rightarrow> (ppath \<times> string list) list \<Rightarrow> ppath \<times> string list" where
  "closest_run m [] = m"
| "closest_run m (r # rs) = closest_run (if length (snd r) < length (snd m) then r else m) rs"

section \<open>Reports\<close>

definition compiled :: "pd_host \<Rightarrow> pyv \<Rightarrow> (bool \<times> rx) option py" where
  "compiled h v = (if \<not> truthy v then Inr None
     else case ph_compile h (as_str v) of None \<Rightarrow> Inl PyRegexError | Some r \<Rightarrow> Inr (Some r))"

definition searches :: "(bool \<times> rx) option \<Rightarrow> string \<Rightarrow> bool" where
  "searches r t \<longleftrightarrow> (case r of None \<Rightarrow> False | Some (ic, p) \<Rightarrow> rx_search p ic t \<noteq> None)"

definition check_reports :: "pd_host \<Rightarrow> world \<Rightarrow> ppath list \<Rightarrow> pyv \<Rightarrow> pyv \<Rightarrow> (ppath list \<times> ppath list) py" where
  "check_reports h w ps fail_regex pass_regex =
     rbind (compiled h fail_regex) (\<lambda>fail_pattern.
     rbind (compiled h pass_regex) (\<lambda>pass_pattern.
     rbind (mapR (\<lambda>p. rbind (read_text w p) (\<lambda>t. Inr (p, t))) ps) (\<lambda>reports.
     Inr (map fst (filter (\<lambda>(p, t). searches fail_pattern t) reports),
          map fst (filter (\<lambda>(p, t). pass_pattern \<noteq> None \<and> \<not> searches pass_pattern t) reports)))))"

text \<open>One artifact class of the chosen run: the value is its dirty reports and those without a clean marker.\<close>

definition size_check :: "world \<Rightarrow> ppath \<Rightarrow> string \<Rightarrow> pyv \<Rightarrow> ppath \<Rightarrow> unit checked" where
  "size_check w repo name min_bytes p =
     wbind (wlift (stat_size w p)) (\<lambda>n.
     if n < as_int min_bytes then
       wbind (wlift (rel_text repo p)) (\<lambda>shown.
       report_if True (name @ '': artifact is smaller than min_bytes='' @ py_str min_bytes @ '': '' @ shown))
     else wret ())"

definition class_check ::
  "pd_host \<Rightarrow> world \<Rightarrow> ppath \<Rightarrow> pyv \<Rightarrow> string \<times> ppath list \<Rightarrow> (ppath list \<times> ppath list) checked" where
  "class_check h w repo required e = (case e of (name, fs) \<Rightarrow>
     let spec = get required name; min_bytes = get_or spec ''min_bytes'' (PInt 1) in
     wbind (weach (size_check w repo name min_bytes) fs) (\<lambda>_.
     if ends_in ''_report'' name then
       wbind (wlift (check_reports h w fs (get spec ''fail_regex'') (get spec ''pass_regex''))) (\<lambda>(dirty, missing_clean).
       wbind (weach (\<lambda>p. report_if True (name @ '': report missing required clean marker: '' @ path_str p)) missing_clean) (\<lambda>_.
       wret (dirty, missing_clean)))
     else wret ([], [])))"

definition run_check ::
  "pd_host \<Rightarrow> world \<Rightarrow> ppath \<Rightarrow> pyv \<Rightarrow> ppath \<Rightarrow> (string \<times> ppath list) list \<Rightarrow> (ppath list \<times> ppath list) checked" where
  "run_check h w repo required run_dir artifacts =
     wbind (wmap (class_check h w repo required) artifacts) (\<lambda>classes.
     wbind (weach (validate_run_manifest w repo run_dir)
        (case map_of artifacts ''run_manifest'' of None \<Rightarrow> [] | Some fs \<Rightarrow> fs)) (\<lambda>_.
     wbind (closure_failures w repo run_dir) (\<lambda>_.
     wret (concat (map fst classes), concat (map snd classes)))))"

section \<open>Waivers, gates and the exit code\<close>

definition matched_files :: "world \<Rightarrow> ppath \<Rightarrow> pyv \<Rightarrow> ppath list py" where
  "matched_files w repo globs =
     rbind (py_iter globs) (\<lambda>patterns.
     rbind (mapR (\<lambda>v. if is_str v then globbed_files w repo (as_str v) else Inl PyTypeError) patterns) (\<lambda>found.
     Inr (concat found)))"

definition blocked_gate_check :: "string \<times> pyv \<Rightarrow> unit checked" where
  "blocked_gate_check e = (case e of (name, gate) \<Rightarrow>
     report_if (is_dict gate \<and> get gate ''blocked'' = PBool True)
       (''release gate remains blocked: '' @ name @ '': '' @ py_str (get gate ''reason'')))"

definition waiver_demand :: "pyv \<Rightarrow> ppath list \<Rightarrow> ppath list \<Rightarrow> ppath list \<Rightarrow> unit checked" where
  "waiver_demand waiver_spec waivers dirty missing_clean =
     (if dirty \<noteq> [] \<and> truthy (get_or waiver_spec ''required_if_any_report_dirty'' (PBool False)) \<and> waivers = [] then wlist
        [report_if True ''dirty signoff reports found but no waiver file is present'',
         weach (\<lambda>p. report_if True (''signoff report matched failure regex: '' @ path_str p)) dirty,
         weach (\<lambda>p. report_if True (''signoff report missing required clean marker: '' @ path_str p)) missing_clean]
      else wret ())"

text \<open>The run that is checked, with what is printed about it.\<close>

definition chosen_run_check :: "pd_host \<Rightarrow> world \<Rightarrow> ppath \<Rightarrow> pyv \<Rightarrow> (string list \<times> ppath list \<times> ppath list) checked" where
  "chosen_run_check h w repo manifest =
     wbind (wlift (choose_complete_run w repo manifest)) (\<lambda>(complete, artifacts, missing_by_run).
     case (missing_by_run, complete) of
       ([], _) \<Rightarrow> Inr ([''no PD run directories found under run_roots: '' @ join '', '' (pd_as_list (get manifest ''run_roots''))], [], [], [])
     | (r # rs, None) \<Rightarrow>
         (let (best, missing) = closest_run r rs in
          wbind (wlift (rel_text repo best)) (\<lambda>shown.
          Inr ([''no single PD run contains all required signoff artifacts'',
                ''closest run '' @ shown @ '' missing: '' @ join '', '' missing], [], [], [])))
     | (r # rs, Some run_dir) \<Rightarrow>
         wbind (wlift (rel_text repo run_dir)) (\<lambda>shown.
         wbind (run_check h w repo (get manifest ''required_artifacts'') run_dir artifacts) (\<lambda>(dirty, missing_clean).
         wret ([''Checking PD signoff run: '' @ shown], dirty, missing_clean))))"

definition release_check :: "pd_host \<Rightarrow> world \<Rightarrow> ppath \<Rightarrow> pyv \<Rightarrow> string list checked" where
  "release_check h w repo manifest =
     wbind (chosen_run_check h w repo manifest) (\<lambda>(printed, dirty, missing_clean).
     let waiver_spec = get_or manifest ''waivers'' (PDict []); gates = get_or manifest ''blocked_gates'' (PDict []) in
     wbind (wlift (rbind (py_get waiver_spec ''globs'' (PList [])) (matched_files w repo))) (\<lambda>waivers.
     wbind (weach blocked_gate_check (as_dict gates)) (\<lambda>_.
     wbind (waiver_demand waiver_spec waivers dirty missing_clean) (\<lambda>_.
     wret printed))))"

definition pd_failed :: "string list \<Rightarrow> string list" where
  "pd_failed failures = ''PD signoff artifact check failed:'' # listed failures"

definition pd_main :: "pd_host \<Rightarrow> world \<Rightarrow> ppath \<Rightarrow> string \<Rightarrow> bool \<Rightarrow> (int \<times> string list) py" where
  "pd_main h w repo manifest_arg manifest_only =
     (let manifest_path = path_join repo (path_of manifest_arg) in
      rbind (read_text w manifest_path) (\<lambda>t.
      rbind (validate_no_duplicate_yaml_keys h t) (\<lambda>duplicates.
      if duplicates \<noteq> [] then Inr (1, pd_failed duplicates)
      else
        rbind (yaml_loads w t) (\<lambda>manifest.
        if \<not> is_dict manifest then Inr (1, pd_failed [''manifest must be a YAML mapping''])
        else
          rbind (messages (pd_validate_manifest w manifest_path manifest)) (\<lambda>failures.
          if failures \<noteq> [] then Inr (1, pd_failed failures)
          else if manifest_only then Inr (0, [''PD signoff manifest check ok''])
          else
            rbind (release_check h w repo manifest) (\<lambda>(failures, printed).
            Inr (if failures \<noteq> [] then (1, printed @ pd_failed failures)
                 else (0, printed @ [''PD signoff artifacts check ok''])))))))) "

end
