(* ===== verification/Pd_Sound.thy ===== *)
theory Pd_Sound
  imports Pd_Signoff
begin

text \<open>
  What the layout signoff guarantees when it exits with 0, and what the numeric closure metrics
  leave unchecked.
\<close>

section \<open>The guarantee\<close>

definition class_files :: "world \<Rightarrow> ppath \<Rightarrow> ppath \<Rightarrow> pyv \<Rightarrow> ppath list py" where
  "class_files w repo run_dir spec =
     rbind (rel_text repo (path_parent run_dir)) (\<lambda>r. files_for_run w run_dir r (pd_as_list (get spec ''globs'')))"

definition clean_report :: "pd_host \<Rightarrow> world \<Rightarrow> pyv \<Rightarrow> ppath \<Rightarrow> bool" where
  "clean_report h w spec p \<longleftrightarrow> (\<exists>ic r t. ph_compile h (as_str (get spec ''pass_regex'')) = Some (ic, r)
     \<and> read_text w p = Inr t \<and> rx_search r ic t \<noteq> None)"

definition complete_run_manifest :: "world \<Rightarrow> ppath \<Rightarrow> bool" where
  "complete_run_manifest w p \<longleftrightarrow> (\<exists>t d. read_text w p = Inr t \<and> wd_yaml w t = Some d
     \<and> get d ''design'' = PStr ''e1_chip_top'' \<and> get d ''status'' = PStr ''complete''
     \<and> (\<forall>c \<in> set REQUIRED_RUN_CHECKS. get (get (get d ''checks'') c) ''status'' \<in> {PStr ''clean'', PStr ''waived''}))"

definition class_signed_off :: "pd_host \<Rightarrow> world \<Rightarrow> ppath \<Rightarrow> ppath \<Rightarrow> pyv \<Rightarrow> string \<Rightarrow> bool" where
  "class_signed_off h w repo run_dir required name \<longleftrightarrow>
     (\<exists>fs. class_files w repo run_dir (get required name) = Inr fs \<and> fs \<noteq> []
        \<and> list_all (\<lambda>p. \<exists>n. stat_size w p = Inr n \<and> 1 \<le> n) fs
        \<and> (ends_in ''_report'' name \<longrightarrow> list_all (clean_report h w (get required name)) fs)
        \<and> (name = ''run_manifest'' \<longrightarrow> list_all (complete_run_manifest w) fs))"

definition metric_holds :: "pyv \<Rightarrow> (pyfloat \<Rightarrow> bool) \<Rightarrow> string \<times> string \<Rightarrow> bool" where
  "metric_holds metrics good e \<longleftrightarrow> (\<exists>x. py_float (get metrics (fst e)) = Inr x \<and> good x)"

text \<open>The code rejects a slack below zero, a test that NaN passes as well.\<close>

definition metrics_closed :: "pyv \<Rightarrow> bool" where
  "metrics_closed metrics \<longleftrightarrow> list_all (metric_holds metrics (\<lambda>x. float_eq x (Fin 0))) ZERO_METRICS
     \<and> list_all (metric_holds metrics (\<lambda>x. float_le (Fin 0) x \<or> x = NaN)) NONNEGATIVE_METRICS"

definition gate_open :: "pyv \<Rightarrow> bool" where
  "gate_open gate \<longleftrightarrow> get gate ''blocked'' = PBool False \<and> pd_as_list (get gate ''approvals'') \<noteq> []
     \<and> pd_as_list (get gate ''evidence'') \<noteq> []"

section \<open>Closure\<close>

lemma metric_check_clean:
  "metric_check metrics bad demand e = Inr ([], u) \<Longrightarrow> metric_holds metrics (\<lambda>x. \<not> bad x) e"
  by (cases e) (auto simp: metric_check_def numeric_metric_def metric_holds_def clean_simps Let_def split: if_splits option.splits)

interpretation metric_rule: sound_check "metric_check metrics bad demand" "metric_holds metrics (\<lambda>x. \<not> bad x)" for metrics bad demand
  by unfold_locales (rule metric_check_clean)

lemma not_negative: "\<not> float_lt x (Fin 0) \<longleftrightarrow> float_le (Fin 0) x \<or> x = NaN"
  by (auto simp: float_lt_def float_le_def)

lemma check_metrics_clean: "check_metrics metrics = Inr ([], u) \<Longrightarrow> metrics_closed metrics"
  using metric_rule.each_sound [of metrics "\<lambda>x. \<not> float_eq x (Fin 0)"] metric_rule.each_sound [of metrics "\<lambda>x. float_lt x (Fin 0)"]
  by (simp add: check_metrics_def wlist_clean metrics_closed_def list_all_iff not_negative del: wlist.simps) blast

lemma load_metrics_clean:
  assumes "load_metrics w repo run_dir = Inr ([], metrics)"
  shows "\<exists>t. read_text w (in_run run_dir ''final/metrics.json'') = Inr t \<and> wd_json w t = Some metrics \<and> is_dict metrics"
proof -
  let ?p = "in_run run_dir ''final/metrics.json''"
  have here: "is_file w ?p" using assms by (simp add: load_metrics_def Let_def clean_simps split: if_splits)
  with assms obtain t where t: "read_text w ?p = Inr t" by (auto simp: load_metrics_def Let_def clean_simps)
  with assms here show ?thesis by (cases "wd_json w t") (simp_all add: load_metrics_def Let_def clean_simps split: if_splits)
qed

lemma closure_clean:
  assumes "closure_failures w repo run_dir = Inr ([], u)"
  shows "\<exists>t metrics. read_text w (in_run run_dir ''final/metrics.json'') = Inr t \<and> wd_json w t = Some metrics
    \<and> (metrics = PDict [] \<or> metrics_closed metrics)"
proof -
  from assms obtain metrics where m: "load_metrics w repo run_dir = Inr ([], metrics)"
    and rest: "wlist [if truthy metrics then check_metrics metrics else wret (), check_run_manifest w repo run_dir,
      check_waivers w repo run_dir] = Inr ([], u)"
    using assms by (auto simp only: closure_failures_def wbind_clean)
  from rest have closed: "(if truthy metrics then check_metrics metrics else wret ()) = Inr ([], ())"
    unfolding wlist_clean by simp
  obtain t where t: "read_text w (in_run run_dir ''final/metrics.json'') = Inr t" "wd_json w t = Some metrics" "is_dict metrics"
    using load_metrics_clean [OF m] by (elim exE conjE)
  then have "metrics = PDict [] \<or> truthy metrics" by auto
  with closed check_metrics_clean t show ?thesis by fastforce
qed

section \<open>The chosen run\<close>

lemma class_lookup:
  assumes "mapR (\<lambda>(name, spec). rbind (F spec) (\<lambda>fs. Inr (name, fs))) required = Inr found" "dget required name = Some spec"
  shows "\<exists>fs. F spec = Inr fs \<and> map_of found name = Some fs"
  using assms
proof (induction required arbitrary: found)
  case (Cons e required)
  then show ?case by (cases e) (auto split: if_splits)
qed simp

lemma run_artifacts_complete:
  assumes "run_artifacts w d r required = Inr (artifacts, [])" "dget required name = Some spec"
  shows "\<exists>fs. files_for_run w d r (pd_as_list (get spec ''globs'')) = Inr fs \<and> fs \<noteq> [] \<and> map_of artifacts name = Some fs"
proof -
  from assms(1) obtain found where found: "mapR (\<lambda>(name, spec). rbind (files_for_run w d r (pd_as_list (get spec ''globs'')))
      (\<lambda>fs. Inr (name, fs))) required = Inr found" "artifacts = filter (\<lambda>(name, fs). fs \<noteq> []) found" "filter (\<lambda>(name, fs). fs = []) found = []"
    by (auto simp: run_artifacts_def)
  then have "artifacts = found" by (auto simp: filter_empty_conv intro: filter_True)
  with class_lookup [OF found(1) assms(2)] found(3) show ?thesis by (fastforce simp: filter_empty_conv dest: map_of_SomeD)
qed

lemma choose_from_complete:
  "choose_from w repo required ds c = Inr (Some d, artifacts, by_run) \<Longrightarrow>
     d \<in> set ds \<and> (\<exists>r. rel_text repo (path_parent d) = Inr r \<and> run_artifacts w d r required = Inr (artifacts, []))"
proof (induction ds arbitrary: c)
  case Nil
  then show ?case by (cases c) simp
next
  case (Cons e ds)
  obtain best arts by_run0 where c: "c = (best, arts, by_run0)" by (cases c)
  from Cons.prems obtain r where r: "rel_text repo (path_parent e) = Inr r" by (auto simp: c)
  with Cons.prems obtain artifacts' missing where a: "run_artifacts w e r required = Inr (artifacts', missing)" by (auto simp: c)
  show ?case
  proof (cases "missing = []")
    case True
    with Cons.prems a r show ?thesis by (simp add: c Let_def)
  next
    case False
    with Cons.prems a r obtain c' where "choose_from w repo required ds c' = Inr (Some d, artifacts, by_run)"
      by (auto simp: c Let_def)
    from Cons.IH [OF this] show ?thesis by auto
  qed
qed

section \<open>The classes\<close>

lemma size_check_clean:
  assumes "size_check w repo name min_bytes p = Inr ([], u)" "1 \<le> as_int min_bytes"
  shows "\<exists>n. stat_size w p = Inr n \<and> 1 \<le> n"
proof -
  from assms(1) obtain n where n: "stat_size w p = Inr n" by (auto simp: size_check_def clean_simps)
  with assms(1) have "\<not> n < as_int min_bytes" by (auto simp: size_check_def clean_simps split: if_splits)
  with n assms(2) show ?thesis by auto
qed

lemma mapR_pairs: "mapR (\<lambda>p. rbind (f p) (\<lambda>t. Inr (p, t))) ps = Inr xs \<Longrightarrow> p \<in> set ps \<Longrightarrow> \<exists>t. f p = Inr t \<and> (p, t) \<in> set xs"
  by (induction ps arbitrary: xs) auto

lemma check_reports_clean:
  assumes "check_reports h w ps fail_regex (PStr s) = Inr (dirty, [])" "s \<noteq> []"
  shows "\<exists>ic r. ph_compile h s = Some (ic, r) \<and> (\<forall>p \<in> set ps. \<exists>t. read_text w p = Inr t \<and> rx_search r ic t \<noteq> None)"
proof -
  from assms obtain ic r where c: "ph_compile h s = Some (ic, r)"
    by (auto simp: check_reports_def compiled_def split: option.splits)
  with assms obtain xs where xs: "mapR (\<lambda>p. rbind (read_text w p) (\<lambda>t. Inr (p, t))) ps = Inr xs"
    "filter (\<lambda>(p, t). \<not> searches (Some (ic, r)) t) xs = []"
    by (auto simp: check_reports_def compiled_def)
  from xs(2) have "searches (Some (ic, r)) t" if "(p, t) \<in> set xs" for p t
    using that by (auto simp: filter_empty_conv)
  with mapR_pairs [OF xs(1)] c show ?thesis by (fastforce simp: searches_def)
qed

lemma class_check_clean:
  assumes "class_check h w repo required (name, fs) = Inr ([], r)" "artifact_spec_check roots (name, get required name) = Inr ([], ())"
  shows "list_all (\<lambda>p. \<exists>n. stat_size w p = Inr n \<and> 1 \<le> n) fs"
    and "ends_in ''_report'' name \<longrightarrow> list_all (clean_report h w (get required name)) fs"
proof -
  define spec where "spec = get required name"
  define min_bytes where "min_bytes = get_or spec ''min_bytes'' (PInt 1)"
  have spec: "1 \<le> as_int min_bytes" "ends_in ''_report'' name \<longrightarrow> nonempty_str (get spec ''pass_regex'')"
    using assms(2) by (auto simp: artifact_spec_check_def Let_def clean_simps spec_def min_bytes_def simp del: wlist.simps split: if_splits)
  from assms(1) have "weach (size_check w repo name min_bytes) fs = Inr ([], ())"
    by (auto simp: class_check_def Let_def wbind_clean min_bytes_def spec_def)
  then show "list_all (\<lambda>p. \<exists>n. stat_size w p = Inr n \<and> 1 \<le> n) fs"
    using size_check_clean spec(1) by (auto simp: weach_clean list_all_iff)
  show "ends_in ''_report'' name \<longrightarrow> list_all (clean_report h w (get required name)) fs"
  proof
    assume report: "ends_in ''_report'' name"
    with spec(2) obtain s where s: "get spec ''pass_regex'' = PStr s" "s \<noteq> []" by (auto simp: nonempty_str_iff)
    from assms(1) report obtain dirty missing where "check_reports h w fs (get spec ''fail_regex'') (PStr s) = Inr (dirty, missing)"
      "weach (\<lambda>p. report_if True (name @ '': report missing required clean marker: '' @ path_str p)) missing = Inr ([], ())"
      by (auto simp: class_check_def Let_def wbind_clean wlift_clean spec_def [symmetric] s)
    then have "check_reports h w fs (get spec ''fail_regex'') (PStr s) = Inr (dirty, [])"
      by (cases missing) (auto simp: weach_clean report_if_clean)
    from check_reports_clean [OF this s(2)] s(1) show "list_all (clean_report h w (get required name)) fs"
      by (auto simp: clean_report_def list_all_iff spec_def)
  qed
qed

lemma run_check_entry_clean:
  "run_check_entry w run_dir pre checks c = Inr ([], u) \<Longrightarrow> get (get checks c) ''status'' \<in> {PStr ''clean'', PStr ''waived''}"
  by (auto simp: run_check_entry_def Let_def clean_simps in_names_True simp del: wlist.simps split: if_splits)

lemma lacking_none: "names_lacking required found = [] \<longleftrightarrow> set required \<subseteq> set found"
  by (auto simp: names_lacking_def filter_empty_conv)

lemma run_checks_clean:
  assumes "run_checks_check w run_dir pre checks = Inr ([], u)" "c \<in> set REQUIRED_RUN_CHECKS"
  shows "get (get checks c) ''status'' \<in> {PStr ''clean'', PStr ''waived''}"
proof -
  from assms(1) have "names_lacking REQUIRED_RUN_CHECKS (keys_of checks) = []"
    "weach (run_check_entry w run_dir pre checks) (names_present REQUIRED_RUN_CHECKS (keys_of checks)) = Inr ([], ())"
    by (auto simp: run_checks_check_def Let_def wlist_clean report_if_clean simp del: wlist.simps split: if_splits)
  with assms(2) have "run_check_entry w run_dir pre checks c = Inr ([], ())"
    by (auto simp: lacking_none weach_clean names_present_def)
  then show ?thesis by (rule run_check_entry_clean)
qed

lemma run_manifest_clean:
  assumes "validate_run_manifest w repo run_dir p = Inr ([], u)"
  shows "complete_run_manifest w p"
proof -
  from assms obtain t where t: "read_text w p = Inr t" by (auto simp: validate_run_manifest_def clean_simps)
  with assms obtain d pre where d: "wd_yaml w t = Some d" "run_payload_check w run_dir pre d = Inr ([], ())"
    by (auto simp: validate_run_manifest_def clean_simps split: if_splits option.splits)
  then have "get d ''design'' = PStr ''e1_chip_top''" "get d ''status'' = PStr ''complete''"
    "run_checks_check w run_dir pre (get d ''checks'') = Inr ([], ())"
    by (simp_all add: run_payload_check_def Let_def wlist_clean report_if_clean del: wlist.simps)
  with t d(1) run_checks_clean show ?thesis unfolding complete_run_manifest_def by blast
qed

section \<open>The whole check\<close>

lemma manifest_valid:
  assumes "pd_validate_manifest w path m = Inr ([], u)"
  shows "\<exists>base. is_dict (get m ''required_artifacts'') \<and> manifest_body_check w base path m = Inr ([], ())"
  using assms by (auto simp: pd_validate_manifest_def wbind_clean wlift_clean report_if_clean split: if_splits)

lemma body_parts:
  assumes "manifest_body_check w base path m = Inr ([], u)"
  shows "set (map fst REQUIRED_ARTIFACTS) \<subseteq> set (keys_of (get m ''required_artifacts''))"
    and "e \<in> set (as_dict (get m ''required_artifacts'')) \<Longrightarrow>
      artifact_spec_check (pd_as_list (get m ''run_roots'')) e = Inr ([], ())"
    and "validate_blocked_gates w base m = Inr ([], ())"
  using assms by (simp_all add: manifest_body_check_def Let_def wlist_clean weach_clean report_if_clean lacking_none del: wlist.simps)

lemma gates_clean:
  assumes "validate_blocked_gates w base m = Inr ([], u)" "weach blocked_gate_check (as_dict (get_or m ''blocked_gates'' (PDict []))) = Inr ([], ())"
  shows "set REQUIRED_BLOCKED_GATES \<subseteq> set (keys_of (get m ''blocked_gates''))
    \<and> (\<forall>(name, gate) \<in> set (as_dict (get m ''blocked_gates'')). gate_open gate)"
proof -
  from assms(1) have parts: "is_dict (get m ''blocked_gates'')" "set REQUIRED_BLOCKED_GATES \<subseteq> set (keys_of (get m ''blocked_gates''))"
    "\<forall>e \<in> set (as_dict (get m ''blocked_gates'')). gate_check w base e = Inr ([], ())"
    by (auto simp: validate_blocked_gates_def Let_def wlist_clean weach_clean report_if_clean lacking_none simp del: wlist.simps split: if_splits)
  have same: "get_or m ''blocked_gates'' (PDict []) = get m ''blocked_gates''"
    using parts(1) by (auto simp: get_def get_or_def split: option.splits)
  have "gate_open gate" if "(name, gate) \<in> set (as_dict (get m ''blocked_gates''))" for name gate
  proof -
    have "gate_check w base (name, gate) = Inr ([], ())" using parts(3) that by blast
    then have c: "is_dict gate" "is_bool (get gate ''blocked'')"
      "get gate ''blocked'' = PBool False \<Longrightarrow> pd_as_list (get gate ''approvals'') \<noteq> [] \<and> pd_as_list (get gate ''evidence'') \<noteq> []"
      by (auto simp: gate_check_def Let_def wlist_clean report_if_clean simp del: wlist.simps split: if_splits)
    moreover have "get gate ''blocked'' \<noteq> PBool True"
      using assms(2) that c(1) by (auto simp: weach_clean blocked_gate_check_def report_if_clean same)
    ultimately show ?thesis by (cases "get gate ''blocked''") (auto simp: gate_open_def)
  qed
  with parts(2) show ?thesis by blast
qed

lemma key_dget: "k \<in> set (keys_of v) \<Longrightarrow> \<exists>x. dget (as_dict v) k = Some x \<and> get v k = x"
proof -
  have "k \<in> set (map fst d) \<Longrightarrow> \<exists>x. dget d k = Some x" for d :: "(string \<times> pyv) list"
    by (induction d k rule: dget.induct) auto
  then show "k \<in> set (keys_of v) \<Longrightarrow> ?thesis" by (fastforce simp: keys_of_def get_def get_or_def)
qed

lemma run_check_clean:
  assumes "run_check h w repo required run_dir artifacts = Inr ([], r)"
  shows "e \<in> set artifacts \<Longrightarrow> \<exists>y. class_check h w repo required e = Inr ([], y)"
    and "map_of artifacts ''run_manifest'' = Some fs \<Longrightarrow> p \<in> set fs \<Longrightarrow> complete_run_manifest w p"
    and "closure_failures w repo run_dir = Inr ([], ())"
proof -
  from assms obtain classes where c: "wmap (class_check h w repo required) artifacts = Inr ([], classes)"
    "weach (validate_run_manifest w repo run_dir) (case map_of artifacts ''run_manifest'' of None \<Rightarrow> [] | Some fs \<Rightarrow> fs) = Inr ([], ())"
    "closure_failures w repo run_dir = Inr ([], ())"
    by (auto simp: run_check_def wbind_clean)
  show "\<exists>y. class_check h w repo required e = Inr ([], y)" if "e \<in> set artifacts"
    using c(1) that by (auto simp: wmap_clean list_all2_conv_all_nth in_set_conv_nth)
  show "complete_run_manifest w p" if "map_of artifacts ''run_manifest'' = Some fs" "p \<in> set fs"
    using c(2) that run_manifest_clean by (auto simp: weach_clean)
  show "closure_failures w repo run_dir = Inr ([], ())" by (rule c(3))
qed

lemma classes_signed_off:
  assumes body: "manifest_body_check w base path m = Inr ([], u)"
    and "rel_text repo (path_parent run_dir) = Inr r"
    and "run_artifacts w run_dir r (as_dict (get m ''required_artifacts'')) = Inr (artifacts, [])"
    and run: "run_check h w repo (get m ''required_artifacts'') run_dir artifacts = Inr ([], y)"
    and "name \<in> set (map fst REQUIRED_ARTIFACTS)"
  shows "class_signed_off h w repo run_dir (get m ''required_artifacts'') name"
proof -
  define required where "required = get m ''required_artifacts''"
  from assms(5) body_parts(1) [OF body] key_dget obtain spec where
    spec: "dget (as_dict required) name = Some spec" "get required name = spec"
    by (metis required_def subset_iff)
  from run_artifacts_complete [OF assms(3)] spec(1) obtain fs where
    fs: "files_for_run w run_dir r (pd_as_list (get spec ''globs'')) = Inr fs" "fs \<noteq> []" "map_of artifacts name = Some fs"
    unfolding required_def by blast
  from run_check_clean(1) [OF run] map_of_SomeD [OF fs(3)] obtain y' where
    c: "class_check h w repo required (name, fs) = Inr ([], y')" by (metis required_def)
  have s: "artifact_spec_check (pd_as_list (get m ''run_roots'')) (name, get required name) = Inr ([], ())"
    using body_parts(2) [OF body] dget_in [OF spec(1)] spec(2) by (simp add: required_def)
  have "name = ''run_manifest'' \<longrightarrow> list_all (complete_run_manifest w) fs"
    using run_check_clean(2) [OF run] fs(3) by (auto simp: list_all_iff)
  with class_check_clean [OF c s] fs(1,2) assms(2) spec(2) show ?thesis
    unfolding class_signed_off_def required_def [symmetric] by (auto simp: class_files_def)
qed

lemma chosen_clean:
  assumes "chosen_run_check h w repo m = Inr ([], x)"
  shows "\<exists>run_dir artifacts r y. run_dir \<in> set (run_dirs w repo (pd_as_list (get m ''run_roots'')))
    \<and> rel_text repo (path_parent run_dir) = Inr r
    \<and> run_artifacts w run_dir r (as_dict (get m ''required_artifacts'')) = Inr (artifacts, [])
    \<and> run_check h w repo (get m ''required_artifacts'') run_dir artifacts = Inr ([], y)"
proof -
  from assms obtain complete artifacts by_run where c: "choose_complete_run w repo m = Inr (complete, artifacts, by_run)"
    by (auto simp: chosen_run_check_def wbind_clean wlift_clean)
  with assms have "by_run \<noteq> []" by (auto simp: chosen_run_check_def)
  then obtain e es where "by_run = e # es" by (cases by_run) auto
  with assms c have "complete \<noteq> None"
    by (cases complete) (auto simp: chosen_run_check_def wbind_clean Let_def split: prod.splits)
  then obtain run_dir where run: "complete = Some run_dir" by blast
  with assms c \<open>by_run = e # es\<close> obtain y where y: "run_check h w repo (get m ''required_artifacts'') run_dir artifacts = Inr ([], y)"
    by (auto simp: chosen_run_check_def wbind_clean)
  from c run choose_from_complete [of w repo _ _ "(None, [], [])" run_dir artifacts by_run]
  show ?thesis using y unfolding choose_complete_run_def by blast
qed

lemma pd_main_clean:
  assumes "pd_main h w repo arg False = Inr (0, lines)"
  shows "\<exists>t m. read_text w (path_join repo (path_of arg)) = Inr t \<and> wd_yaml w t = Some m
    \<and> pd_validate_manifest w (path_join repo (path_of arg)) m = Inr ([], ()) \<and> (\<exists>x. release_check h w repo m = Inr ([], x))"
proof -
  let ?p = "path_join repo (path_of arg)"
  from assms obtain t where t: "read_text w ?p = Inr t" "validate_no_duplicate_yaml_keys h t = Inr []"
    by (auto simp: pd_main_def Let_def split: if_splits)
  with assms obtain m where m: "wd_yaml w t = Some m" "is_dict m"
    by (auto simp: pd_main_def Let_def yaml_loads_def split: option.splits if_splits)
  with assms t have v: "messages (pd_validate_manifest w ?p m) = Inr []"
    by (auto simp: pd_main_def Let_def yaml_loads_def split: if_splits)
  with assms t m have "\<exists>x. release_check h w repo m = Inr ([], x)"
    by (auto simp: pd_main_def Let_def yaml_loads_def split: if_splits)
  with t m v show ?thesis by (auto simp: messages_clean)
qed

text \<open>
  C39: A signoff that exits with 0 has found one run directory in which every required artifact class has
  at least one file and no empty one, every report matches its pass pattern, and every run manifest
  names the chip, is complete and has each required check clean or waived; the closure metrics of the
  run decode, and unless the dictionary is empty every violation count is 0 and every slack is at least 0 or
  NaN; and every release gate is open with approvals and evidence.
\<close>

theorem pd_signoff_sound:
  assumes "pd_main h w repo arg False = Inr (0, lines)"
  shows "\<exists>t m run_dir mt metrics. read_text w (path_join repo (path_of arg)) = Inr t \<and> wd_yaml w t = Some m
    \<and> run_dir \<in> set (run_dirs w repo (pd_as_list (get m ''run_roots'')))
    \<and> list_all (class_signed_off h w repo run_dir (get m ''required_artifacts'')) (map fst REQUIRED_ARTIFACTS)
    \<and> read_text w (in_run run_dir ''final/metrics.json'') = Inr mt \<and> wd_json w mt = Some metrics
    \<and> (metrics = PDict [] \<or> metrics_closed metrics)
    \<and> set REQUIRED_BLOCKED_GATES \<subseteq> set (keys_of (get m ''blocked_gates''))
    \<and> list_all (\<lambda>(name, gate). gate_open gate) (as_dict (get m ''blocked_gates''))"
proof -
  from pd_main_clean [OF assms] obtain t m x where t: "read_text w (path_join repo (path_of arg)) = Inr t" "wd_yaml w t = Some m"
    and valid: "pd_validate_manifest w (path_join repo (path_of arg)) m = Inr ([], ())" and "release_check h w repo m = Inr ([], x)"
    by blast
  then obtain x' where chosen: "chosen_run_check h w repo m = Inr ([], x')"
    and gates: "weach blocked_gate_check (as_dict (get_or m ''blocked_gates'' (PDict []))) = Inr ([], ())"
    by (auto simp: release_check_def Let_def wbind_clean wlift_clean)
  from manifest_valid [OF valid] obtain base where body: "manifest_body_check w base (path_join repo (path_of arg)) m = Inr ([], ())"
    by (elim exE conjE)
  from chosen_clean [OF chosen] obtain run_dir artifacts r y where run: "run_dir \<in> set (run_dirs w repo (pd_as_list (get m ''run_roots'')))"
    "rel_text repo (path_parent run_dir) = Inr r" "run_artifacts w run_dir r (as_dict (get m ''required_artifacts'')) = Inr (artifacts, [])"
    "run_check h w repo (get m ''required_artifacts'') run_dir artifacts = Inr ([], y)" by (elim exE conjE)
  have classes: "list_all (class_signed_off h w repo run_dir (get m ''required_artifacts'')) (map fst REQUIRED_ARTIFACTS)"
    using classes_signed_off [OF body run(2-4)] unfolding list_all_iff by (rule ballI)
  from closure_clean [OF run_check_clean(3) [OF run(4)]] obtain mt metrics where
    metrics: "read_text w (in_run run_dir ''final/metrics.json'') = Inr mt" "wd_json w mt = Some metrics"
    "metrics = PDict [] \<or> metrics_closed metrics" by (elim exE conjE)
  have "set REQUIRED_BLOCKED_GATES \<subseteq> set (keys_of (get m ''blocked_gates''))"
    "list_all (\<lambda>(name, gate). gate_open gate) (as_dict (get m ''blocked_gates''))"
    using gates_clean [OF body_parts(3) [OF body] gates] by (simp_all add: list_all_iff)
  with t run(1) classes metrics show ?thesis by (intro exI conjI)
qed

section \<open>What the closure metrics leave unchecked\<close>

definition nan_slacks :: "pyv \<Rightarrow> bool" where
  "nan_slacks metrics \<longleftrightarrow> list_all (\<lambda>(key, label). get metrics key = PInt 0) ZERO_METRICS
     \<and> list_all (\<lambda>(key, label). get metrics key = PFloat NaN) NONNEGATIVE_METRICS"

lemma nan_slacks_pass: "nan_slacks metrics \<Longrightarrow> check_metrics metrics = Inr ([], ())"
  using float_of_int_small [of 0]
  by (fastforce simp: check_metrics_def wlist_clean weach_clean nan_slacks_def list_all_iff metric_check_def
      numeric_metric_def is_num_def wret_def report_if_def err_if_def float_lt_def float_eq_def simp del: wlist.simps)

text \<open>
  C40: The closure check passes two kinds of \<open>final/metrics.json\<close> that say nothing of timing: an empty object, whose
  metrics it does not look at, and one whose six slacks are all NaN next to violation counts of 0. With
  the antenna and timing checks recorded as clean and no waiver file it exits with 0 on either.
\<close>

theorem empty_metrics_pass_closure:
  assumes "relative_to (wd_resolve w (path_join repo (path_of run))) repo = Some rel_run"
    and "run_dir = wd_resolve w (path_join repo (path_of run))" and "wd_is_dir w run_dir"
    and "is_file w (in_run run_dir ''final/metrics.json'')"
    and "read_text w (in_run run_dir ''final/metrics.json'') = Inr mt" and "wd_json w mt = Some metrics"
    and "is_file w (in_run run_dir ''signoff-run.yaml'')" and "read_text w (in_run run_dir ''signoff-run.yaml'') = Inr rt"
    and "wd_yaml w rt = Some payload" and "is_dict payload" and "is_dict (get payload ''checks'')"
    and "get (get (get payload ''checks'') ''antenna'') ''status'' = PStr ''clean''"
    and "get (get (get payload ''checks'') ''sta'') ''status'' = PStr ''clean''"
    and "\<not> is_file w (in_run run_dir ''signoff-waivers.yaml'')"
    and "metrics = PDict [] \<or> is_dict metrics \<and> nan_slacks metrics"
  shows "\<exists>lines. closure_main w repo run = Inr (0, lines)"
proof -
  have dict: "is_dict (get (get payload ''checks'') c)" if "get (get (get payload ''checks'') c) ''status'' = PStr ''clean''" for c
    using that by (cases "get (get payload ''checks'') c") (simp_all add: get_def [of _ "''status''"] get_or_def)
  have checks: "get_or payload ''checks'' (PDict []) = get payload ''checks''"
    using assms(11) by (auto simp: get_def get_or_def split: option.splits)
  have "is_dict metrics" "(if truthy metrics then check_metrics metrics else wret ()) = Inr ([], ())"
    using assms(15) nan_slacks_pass [of metrics] by (auto simp: wret_def)
  moreover from this(1) have "load_metrics w repo run_dir = Inr ([], metrics)"
    using assms(4-6) by (simp add: load_metrics_def wret_def)
  moreover have "check_run_manifest w repo run_dir = Inr ([], ())"
    using assms(7-13) dict by (simp add: check_run_manifest_def pd_load_yaml_def yaml_loads_def checks weach_clean
        RELEASE_CLEAN_CHECKS_def release_status_check_def wret_def)
  moreover have "check_waivers w repo run_dir = Inr ([], ())"
    using assms(14) by (simp add: check_waivers_def pd_load_yaml_def get_def get_or_def weach_clean)
  ultimately have "closure_failures w repo run_dir = Inr ([], ())"
    by (simp add: closure_failures_def wbind_clean wlist_clean del: wlist.simps)
  then show "\<exists>lines. closure_main w repo run = Inr (0, lines)"
    using assms(1-3) by (simp add: closure_main_def messages_def)
qed

section \<open>A run that is signed off\<close>

definition demo_pd_spec :: "string \<times> string \<Rightarrow> string \<times> pyv" where
  "demo_pd_spec e = (fst e, PDict [(''globs'', PList [PStr (''r/*/'' @ fst e @ snd e)]), (''fail_regex'', PStr ''f''),
     (''pass_regex'', PStr ''p'')])"

definition demo_pd_gate :: pyv where
  "demo_pd_gate = PDict [(''blocked'', PBool False), (''approvals'', PList [PStr ''a'']), (''evidence'', PList [PStr ''e'']),
     (''reason'', PStr ''done''), (''evidence_manifest'', PStr ''pd/signoff/manifest.yaml''), (''unblock_requires'', PList [PStr ''u''])]"

definition demo_readiness :: pyv where
  "demo_readiness = PDict [(''status'', PStr ''blocked''), (''release_blocking'', PBool False),
     (''required_artifacts'', PList [PDict [(''name'', PStr ''n''), (''globs'', PList [PStr ''x'']), (''status'', PStr ''missing'')]])]"

definition demo_pd_manifest :: pyv where
  "demo_pd_manifest = PDict
     ([(''signoff'', PStr ''e1''), (''run_manifest_schema'', PStr ''c.json''),
       (''runner'', PDict [(''openlane_image'', PStr ''i''), (''openlane_image_digest'', PStr ''sha256:0''),
         (''require_pinned_runner_for_release'', PBool True)]),
       (''run_roots'', PList [PStr ''r'']),
       (''required_artifacts'', PDict (map demo_pd_spec REQUIRED_ARTIFACTS)),
       (''blocked_gates'', PDict (map (\<lambda>g. (g, demo_pd_gate)) REQUIRED_BLOCKED_GATES)),
       (''openlane_configs'', PDict [(''release'', PList [PStr ''c.json'']), (''exploratory'', PList [PStr ''c.json''])])]
      @ map (\<lambda>s. (s, demo_readiness)) REQUIRED_READINESS_SECTIONS)"

definition demo_run_payload :: pyv where
  "demo_run_payload = PDict
     ([(''design'', PStr ''e1_chip_top''), (''status'', PStr ''complete''), (''openlane_image_digest'', PStr ''sha256:0''),
       (''corners'', PList [PStr ''tt'']), (''inputs'', PDict []),
       (''outputs'', PDict (map (\<lambda>(n, ext, l). (n, PStr (n @ ext))) RUN_OUTPUT_SPECS)),
       (''checks'', PDict (map (\<lambda>c. (c, PDict [(''status'', PStr ''clean''), (''report'', PStr ''drc_report.rpt'')])) REQUIRED_RUN_CHECKS))]
      @ map (\<lambda>f. (f, PStr ''x'')) REQUIRED_RUN_MANIFEST_FIELDS)"

definition demo_pd_metrics :: pyv where
  "demo_pd_metrics = PDict (map (\<lambda>(k, l). (k, PInt 0)) (ZERO_METRICS @ NONNEGATIVE_METRICS))"

abbreviation pd_repo :: ppath where "pd_repo \<equiv> PPath True [''repo'']"
abbreviation pd_run :: ppath where "pd_run \<equiv> PPath True [''repo'', ''r'', ''1'']"

definition demo_pd_world :: world where
  "demo_pd_world = \<lparr>wd_file = map_of
       ([(path_join pd_repo (path_of ''pd/signoff/manifest.yaml''), ''manifest''), (path_join pd_repo (path_of ''c.json''), ''config''),
         (in_run pd_run ''final/metrics.json'', ''metrics''), (in_run pd_run ''signoff-run.yaml'', ''run''),
         (in_run pd_run ''run_manifest.yaml'', ''run'')]
        @ map (\<lambda>(n, ext). (in_run pd_run (n @ ext), ''clean'')) REQUIRED_ARTIFACTS),
     wd_readable = (\<lambda>_. True), wd_is_dir = (\<lambda>p. p \<in> {PPath True [''repo'', ''r''], pd_run}), wd_executable = (\<lambda>_. False),
     wd_resolve = id, wd_env_path = [], wd_sha256 = id,
     wd_json = map_of [(''config'', PDict (map (\<lambda>k. (k, PBool True)) RELEASE_FAIL_CLOSED_KEYS)), (''metrics'', demo_pd_metrics)],
     wd_yaml = map_of [(''manifest'', demo_pd_manifest), (''run'', demo_run_payload)],
     wd_list = (\<lambda>p. if p = PPath True [''repo'', ''r''] then [''1''] else []), wd_run = (\<lambda>_ _ _. Completed 0 [])\<rparr>"

definition demo_pd_host :: pd_host where
  "demo_pd_host = \<lparr>ph_compose = (\<lambda>_. Some None),
     ph_compile = map_of [(''f'', (True, rx_lit ''fail'')), (''p'', (True, rx_lit ''clean''))]\<rparr>"

lemma demo_pd_head: "manifest_head_check demo_pd_world pd_repo demo_pd_manifest = Inr ([], ())"
  by code_simp

lemma demo_pd_gates: "validate_blocked_gates demo_pd_world pd_repo demo_pd_manifest = Inr ([], ())"
  by code_simp

lemma demo_pd_readiness: "validate_readiness_sections demo_pd_manifest = Inr ([], ())"
  by code_simp

lemma demo_pd_configs: "validate_openlane_configs demo_pd_world pd_repo demo_pd_manifest = Inr ([], ())"
  by code_simp

lemma demo_pd_specs: "weach (artifact_spec_check [''r'']) (map demo_pd_spec REQUIRED_ARTIFACTS) = Inr ([], ())"
  by code_simp

lemma demo_pd_choice: "run_dirs demo_pd_world pd_repo [''r''] = [pd_run]"
  by code_simp

lemma demo_pd_artifacts: "run_artifacts demo_pd_world pd_run ''r'' (map demo_pd_spec REQUIRED_ARTIFACTS) =
   Inr (map (\<lambda>(n, ext). (n, [in_run pd_run (n @ ext)])) REQUIRED_ARTIFACTS, [])"
  by code_simp

lemma demo_pd_closure: "closure_failures demo_pd_world pd_repo pd_run = Inr ([], ())"
  by code_simp

lemma demo_pd_run_manifest: "validate_run_manifest demo_pd_world pd_repo pd_run (in_run pd_run ''run_manifest.yaml'') = Inr ([], ())"
  by code_simp

lemma demo_pd_classes: "wmap (class_check demo_pd_host demo_pd_world pd_repo (PDict (map demo_pd_spec REQUIRED_ARTIFACTS)))
   (map (\<lambda>(n, ext). (n, [in_run pd_run (n @ ext)])) REQUIRED_ARTIFACTS) = Inr ([], replicate 17 ([], []))"
  by code_simp

lemma demo_pd_fields:
  "get demo_pd_manifest ''run_roots'' = PList [PStr ''r'']"
  "get demo_pd_manifest ''required_artifacts'' = PDict (map demo_pd_spec REQUIRED_ARTIFACTS)"
  "get_or demo_pd_manifest ''waivers'' (PDict []) = PDict []"
  "get_or demo_pd_manifest ''blocked_gates'' (PDict []) = PDict (map (\<lambda>g. (g, demo_pd_gate)) REQUIRED_BLOCKED_GATES)"
  "is_dict demo_pd_manifest" "pd_as_list (PList [PStr ''r'']) = [''r'']"
  by (simp_all add: demo_pd_manifest_def get_def get_or_def pd_as_list_def REQUIRED_READINESS_SECTIONS_def)

lemma demo_pd_valid:
  "pd_validate_manifest demo_pd_world (path_join pd_repo (path_of ''pd/signoff/manifest.yaml'')) demo_pd_manifest = Inr ([], ())"
proof -
  have keys: "names_lacking (map fst REQUIRED_ARTIFACTS) (keys_of (PDict (map demo_pd_spec REQUIRED_ARTIFACTS))) = []"
    "names_lacking (keys_of (PDict (map demo_pd_spec REQUIRED_ARTIFACTS))) (map fst REQUIRED_ARTIFACTS) = []"
    by (auto simp: lacking_none keys_of_def demo_pd_spec_def)
  have "\<not> outside_repo ''r''" by code_simp
  then have "manifest_body_check demo_pd_world pd_repo (path_join pd_repo (path_of ''pd/signoff/manifest.yaml'')) demo_pd_manifest = Inr ([], ())"
    by (simp add: manifest_body_check_def demo_pd_fields keys demo_pd_specs demo_pd_gates demo_pd_readiness demo_pd_configs
        wlist_clean weach_clean [of "\<lambda>r. report_if (outside_repo r) (m r)" "[''r'']" for m] report_if_clean waivers_check_def wret_def
        path_name_def path_of_def path_join_def split_on.simps del: wlist.simps)
  moreover have "path_parents (path_join pd_repo (path_of ''pd/signoff/manifest.yaml'')) 2 = Inr pd_repo" by code_simp
  ultimately show ?thesis by (simp add: pd_validate_manifest_def demo_pd_head demo_pd_fields)
qed

lemma demo_pd_run_checked:
  "run_check demo_pd_host demo_pd_world pd_repo (get demo_pd_manifest ''required_artifacts'') pd_run
     (map (\<lambda>(n, ext). (n, [in_run pd_run (n @ ext)])) REQUIRED_ARTIFACTS) = Inr ([], ([], []))"
proof -
  have "weach (validate_run_manifest demo_pd_world pd_repo pd_run) [in_run pd_run ''run_manifest.yaml''] = Inr ([], ())"
    by (simp add: weach_clean demo_pd_run_manifest)
  moreover have "map_of (map (\<lambda>(n, ext). (n, [in_run pd_run (n @ ext)])) REQUIRED_ARTIFACTS) ''run_manifest'' =
      Some [in_run pd_run ''run_manifest.yaml'']"
    by (simp add: REQUIRED_ARTIFACTS_def)
  ultimately show ?thesis by (simp add: run_check_def demo_pd_fields demo_pd_classes demo_pd_closure wret_def)
qed

lemma demo_pd_chosen: "\<exists>s. chosen_run_check demo_pd_host demo_pd_world pd_repo demo_pd_manifest = Inr ([], ([s], [], []))"
proof -
  have rel: "rel_text pd_repo (path_parent pd_run) = Inr ''r''" "rel_text pd_repo pd_run = Inr ''r/1''" by code_simp+
  have "choose_complete_run demo_pd_world pd_repo demo_pd_manifest =
      Inr (Some pd_run, map (\<lambda>(n, ext). (n, [in_run pd_run (n @ ext)])) REQUIRED_ARTIFACTS, [(pd_run, [])])"
    by (simp add: choose_complete_run_def demo_pd_fields demo_pd_choice rel demo_pd_artifacts)
  then show ?thesis by (simp add: chosen_run_check_def rel demo_pd_run_checked wret_def)
qed

lemma demo_pd_signed_off:
  "\<exists>lines. pd_main demo_pd_host demo_pd_world pd_repo ''pd/signoff/manifest.yaml'' False = Inr (0, lines)"
proof -
  have "weach blocked_gate_check (map (\<lambda>g. (g, demo_pd_gate)) REQUIRED_BLOCKED_GATES) = Inr ([], ())" by code_simp
  with demo_pd_chosen have release: "\<exists>lines. release_check demo_pd_host demo_pd_world pd_repo demo_pd_manifest = Inr ([], lines)"
    by (auto simp: release_check_def demo_pd_fields matched_files_def waiver_demand_def wret_def)
  have "read_text demo_pd_world (path_join pd_repo (path_of ''pd/signoff/manifest.yaml'')) = Inr ''manifest''" by code_simp
  moreover have "wd_yaml demo_pd_world ''manifest'' = Some demo_pd_manifest" by (simp add: demo_pd_world_def)
  moreover have "validate_no_duplicate_yaml_keys demo_pd_host ''manifest'' = Inr []"
    by (simp add: validate_no_duplicate_yaml_keys_def demo_pd_host_def)
  ultimately show ?thesis using release
    by (auto simp: pd_main_def yaml_loads_def demo_pd_fields demo_pd_valid messages_def)
qed

theorem pd_signoff_sound_witness:
  "\<exists>t m run_dir. wd_yaml demo_pd_world t = Some m
     \<and> class_signed_off demo_pd_host demo_pd_world pd_repo run_dir (get m ''required_artifacts'') ''drc_report''"
proof -
  obtain lines where "pd_main demo_pd_host demo_pd_world pd_repo ''pd/signoff/manifest.yaml'' False = Inr (0, lines)"
    using demo_pd_signed_off by blast
  from pd_signoff_sound [OF this] obtain t m run_dir where "wd_yaml demo_pd_world t = Some m"
    "list_all (class_signed_off demo_pd_host demo_pd_world pd_repo run_dir (get m ''required_artifacts'')) (map fst REQUIRED_ARTIFACTS)"
    by (elim exE conjE)
  then show ?thesis by (auto simp: REQUIRED_ARTIFACTS_def)
qed

text \<open>The same run with metrics of its own: an empty object, and slacks that are NaN.\<close>

definition demo_metrics_world :: "pyv \<Rightarrow> world" where
  "demo_metrics_world metrics = demo_pd_world\<lparr>wd_json := (\<lambda>_. Some metrics)\<rparr>"

definition demo_nan_metrics :: pyv where
  "demo_nan_metrics = PDict (map (\<lambda>(k, l). (k, PInt 0)) ZERO_METRICS @ map (\<lambda>(k, l). (k, PFloat NaN)) NONNEGATIVE_METRICS)"

lemma demo_nan_metrics: "is_dict demo_nan_metrics \<and> nan_slacks demo_nan_metrics"
  by code_simp

lemma demo_metrics_world:
  "relative_to (wd_resolve (demo_metrics_world m) (path_join pd_repo (path_of ''r/1''))) pd_repo = Some (PPath False [''r'', ''1''])"
  "pd_run = wd_resolve (demo_metrics_world m) (path_join pd_repo (path_of ''r/1''))"
  "wd_is_dir (demo_metrics_world m) pd_run" "is_file (demo_metrics_world m) (in_run pd_run ''final/metrics.json'')"
  "read_text (demo_metrics_world m) (in_run pd_run ''final/metrics.json'') = Inr ''metrics''"
  "wd_json (demo_metrics_world m) ''metrics'' = Some m" "is_file (demo_metrics_world m) (in_run pd_run ''signoff-run.yaml'')"
  "read_text (demo_metrics_world m) (in_run pd_run ''signoff-run.yaml'') = Inr ''run''"
  "wd_yaml (demo_metrics_world m) ''run'' = Some demo_run_payload"
  "is_dict demo_run_payload" "is_dict (get demo_run_payload ''checks'')"
  "get (get (get demo_run_payload ''checks'') ''antenna'') ''status'' = PStr ''clean''"
  "get (get (get demo_run_payload ''checks'') ''sta'') ''status'' = PStr ''clean''"
  "\<not> is_file (demo_metrics_world m) (in_run pd_run ''signoff-waivers.yaml'')"
proof -
  show "wd_yaml (demo_metrics_world m) ''run'' = Some demo_run_payload" "wd_json (demo_metrics_world m) ''metrics'' = Some m"
    by (simp_all add: demo_metrics_world_def demo_pd_world_def)
qed code_simp+

theorem empty_metrics_pass_closure_witness:
  "(\<exists>lines. closure_main (demo_metrics_world (PDict [])) pd_repo ''r/1'' = Inr (0, lines))
   \<and> (\<exists>lines. closure_main (demo_metrics_world demo_nan_metrics) pd_repo ''r/1'' = Inr (0, lines))"
proof
  show "\<exists>lines. closure_main (demo_metrics_world (PDict [])) pd_repo ''r/1'' = Inr (0, lines)"
    by (rule empty_metrics_pass_closure [OF demo_metrics_world]) simp
  show "\<exists>lines. closure_main (demo_metrics_world demo_nan_metrics) pd_repo ''r/1'' = Inr (0, lines)"
    by (rule empty_metrics_pass_closure [OF demo_metrics_world disjI2 [OF demo_nan_metrics]])
qed

end
