(* ===== verification/Soc_Thermal.thy ===== *)
theory Soc_Thermal
  imports Py_Files
begin

text \<open>
  \<open>benchmarks/sim/run_soc_thermal_sweep.py\<close>: power, temperature and bandwidth of the combined CPU and
  accelerator in three usage scenarios at four process corners, and the report over them. A
  dictionary with a fixed set of keys is a record; \<open>scenario_json\<close> and its companions are the
  dictionaries themselves.
\<close>

section \<open>Corners and scenarios\<close>

record soc_corner =
  so_name :: string
  so_voltage_v :: pyfloat
  so_temperature_c :: int
  so_cpu_frequency_derate :: pyfloat
  so_cpu_ipc_derate :: pyfloat
  so_npu_frequency_derate :: pyfloat
  so_npu_memory_derate :: pyfloat
  so_dynamic_power_scale :: pyfloat
  so_leakage_power_scale :: pyfloat
  so_thermal_resistance_scale :: pyfloat
  so_claim_boundary :: string

record soc_scenario =
  sn_name :: string
  sn_cpu_active_fraction :: pyfloat
  sn_npu_active_fraction :: pyfloat
  sn_memory_bandwidth_gbps :: pyfloat
  sn_display_camera_gbps :: pyfloat
  sn_duration_s :: int
  sn_intent :: string

definition SOC_CORNERS :: "soc_corner list" where
  "SOC_CORNERS =
    [\<lparr>so_name = ''14a_tt_0p70v_25c_frontside_pdn'', so_voltage_v = float_lit (7 / 10), so_temperature_c = 25,
      so_cpu_frequency_derate = float_lit 1, so_cpu_ipc_derate = float_lit 1, so_npu_frequency_derate = float_lit 1,
      so_npu_memory_derate = float_lit 1, so_dynamic_power_scale = float_lit 1, so_leakage_power_scale = float_lit 1,
      so_thermal_resistance_scale = float_lit 1, so_claim_boundary = ''planning_corner_not_pdk_signoff''\<rparr>,
     \<lparr>so_name = ''14a_ss_0p63v_105c_frontside_pdn'', so_voltage_v = float_lit (63 / 100),
      so_temperature_c = 105, so_cpu_frequency_derate = float_lit (18 / 25), so_cpu_ipc_derate = float_lit (9 / 10),
      so_npu_frequency_derate = float_lit (18 / 25), so_npu_memory_derate = float_lit (77 / 100),
      so_dynamic_power_scale = float_lit (81 / 100), so_leakage_power_scale = float_lit (37 / 20),
      so_thermal_resistance_scale = float_lit (5 / 4),
      so_claim_boundary = ''pessimistic_mobile_hot_corner_not_pdk_signoff''\<rparr>,
     \<lparr>so_name = ''14a_ff_0p77v_0c_frontside_pdn'', so_voltage_v = float_lit (77 / 100), so_temperature_c = 0,
      so_cpu_frequency_derate = float_lit (57 / 50), so_cpu_ipc_derate = float_lit (103 / 100),
      so_npu_frequency_derate = float_lit (57 / 50), so_npu_memory_derate = float_lit (27 / 25),
      so_dynamic_power_scale = float_lit (121 / 100), so_leakage_power_scale = float_lit (31 / 50),
      so_thermal_resistance_scale = float_lit (23 / 25),
      so_claim_boundary = ''fast_cold_corner_not_pdk_signoff''\<rparr>,
     \<lparr>so_name = ''14a_bspdn_follow_on_hot_ir_em_stress'', so_voltage_v = float_lit (17 / 25),
      so_temperature_c = 115, so_cpu_frequency_derate = float_lit (41 / 50), so_cpu_ipc_derate = float_lit (47 / 50),
      so_npu_frequency_derate = float_lit (41 / 50), so_npu_memory_derate = float_lit (89 / 100),
      so_dynamic_power_scale = float_lit (47 / 50), so_leakage_power_scale = float_lit (9 / 4),
      so_thermal_resistance_scale = float_lit (27 / 20),
      so_claim_boundary = ''backside_pdn_follow_on_variant_not_selected_not_pdk_signoff''\<rparr>]"

definition SCENARIOS :: "soc_scenario list" where
  "SCENARIOS =
    [\<lparr>sn_name = ''android_foreground_ai_assistant'', sn_cpu_active_fraction = float_lit (29 / 50), sn_npu_active_fraction = float_lit (31 / 50),
      sn_memory_bandwidth_gbps = float_lit 82, sn_display_camera_gbps = float_lit 18, sn_duration_s = 1800,
      sn_intent = ''mixed CPU scheduler, NPU inference, display, and camera contention''\<rparr>,
     \<lparr>sn_name = ''sustained_npu_camera_display'', sn_cpu_active_fraction = float_lit (7 / 20), sn_npu_active_fraction = float_lit (22 / 25),
      sn_memory_bandwidth_gbps = float_lit 118, sn_display_camera_gbps = float_lit 34, sn_duration_s = 1800,
      sn_intent = ''sustained NPU path with camera/display memory pressure''\<rparr>,
     \<lparr>sn_name = ''cpu_peak_background_npu'', sn_cpu_active_fraction = float_lit (23 / 25), sn_npu_active_fraction = float_lit (7 / 25),
      sn_memory_bandwidth_gbps = float_lit 74, sn_display_camera_gbps = float_lit 12, sn_duration_s = 900,
      sn_intent = ''CPU-heavy foreground work with concurrent low-duty NPU''\<rparr>]"

definition RELEASE_USE :: string where
  "RELEASE_USE = ''prohibited_until_pdk_extracted_timing_power_thermal_signoff''"

text \<open>The parsed arguments of the model.\<close>

record soc_args =
  sa_cpu_base_ipc :: pyfloat
  sa_cpu_base_frequency_hz :: int
  sa_cpu_base_power_w :: pyfloat
  sa_npu_base_tops :: pyfloat
  sa_npu_base_power_w :: pyfloat
  sa_memory_sustained_gbps :: pyfloat
  sa_ambient_c :: pyfloat

section \<open>One scenario\<close>

record scenario_row =
  rw_name :: string
  rw_intent :: string
  rw_duration_s :: int
  rw_cpu_frequency_hz :: int
  rw_cpu_ipc :: pyfloat
  rw_npu_int8_tops :: pyfloat
  rw_memory_bandwidth_demand_gbps :: pyfloat
  rw_display_camera_bandwidth_gbps :: pyfloat
  rw_memory_bandwidth_limit_gbps :: pyfloat
  rw_memory_bandwidth_margin_gbps :: pyfloat
  rw_cpu_power_w :: pyfloat
  rw_npu_power_w :: pyfloat
  rw_memory_power_w :: pyfloat
  rw_uncore_power_w :: pyfloat
  rw_total_power_w :: pyfloat
  rw_die_temp_c :: pyfloat
  rw_npu_tops_per_w :: pyfloat
  rw_composite_perf_per_w :: pyfloat
  rw_throttle_required :: bool

text \<open>Dynamic power at an activity, and leakage at a share, of a base power.\<close>

definition block_power :: "pyfloat \<Rightarrow> pyfloat \<Rightarrow> pyfloat \<Rightarrow> soc_corner \<Rightarrow> pyfloat" where
  "block_power base active leak corner =
     float_add (float_mul (float_mul base active) (so_dynamic_power_scale corner))
               (float_mul (float_mul base leak) (so_leakage_power_scale corner))"

definition scaled_frequency :: "int \<Rightarrow> pyfloat \<Rightarrow> int py" where
  "scaled_frequency hz derate =
     rbind (pynum (float_of_int hz)) (\<lambda>x. pynum (py_trunc (float_mul x derate)))"

definition npu_tops_at :: "soc_args \<Rightarrow> soc_corner \<Rightarrow> pyfloat" where
  "npu_tops_at a c = float_mul (float_mul (sa_npu_base_tops a) (so_npu_frequency_derate c)) (so_npu_memory_derate c)"

definition cpu_power :: "soc_args \<Rightarrow> soc_scenario \<Rightarrow> soc_corner \<Rightarrow> pyfloat" where
  "cpu_power a s c = block_power (sa_cpu_base_power_w a) (sn_cpu_active_fraction s) (float_lit (16 / 100)) c"

definition npu_power :: "soc_args \<Rightarrow> soc_scenario \<Rightarrow> soc_corner \<Rightarrow> pyfloat" where
  "npu_power a s c = block_power (sa_npu_base_power_w a) (sn_npu_active_fraction s) (float_lit (20 / 100)) c"

definition memory_power :: "soc_scenario \<Rightarrow> soc_corner \<Rightarrow> pyfloat" where
  "memory_power s c =
     float_mul (float_mul (float_lit (12 / 1000)) (sn_memory_bandwidth_gbps s)) (so_dynamic_power_scale c)"

definition uncore_power :: "soc_scenario \<Rightarrow> soc_corner \<Rightarrow> pyfloat" where
  "uncore_power s c =
     float_add (float_lit (45 / 100))
       (float_mul (float_mul (float_lit (6 / 1000)) (sn_display_camera_gbps s)) (so_dynamic_power_scale c))"

definition total_power :: "soc_args \<Rightarrow> soc_scenario \<Rightarrow> soc_corner \<Rightarrow> pyfloat" where
  "total_power a s c =
     float_add (float_add (float_add (cpu_power a s c) (npu_power a s c)) (memory_power s c)) (uncore_power s c)"

definition die_temp :: "soc_args \<Rightarrow> soc_scenario \<Rightarrow> soc_corner \<Rightarrow> pyfloat" where
  "die_temp a s c =
     float_add (sa_ambient_c a)
       (float_mul (float_mul (total_power a s c) (float_lit (88 / 10))) (so_thermal_resistance_scale c))"

definition bandwidth_limit :: "soc_args \<Rightarrow> soc_corner \<Rightarrow> pyfloat" where
  "bandwidth_limit a c = float_mul (sa_memory_sustained_gbps a) (so_npu_memory_derate c)"

definition bandwidth_margin :: "soc_args \<Rightarrow> soc_scenario \<Rightarrow> soc_corner \<Rightarrow> pyfloat" where
  "bandwidth_margin a s c =
     float_sub (bandwidth_limit a c) (float_add (sn_memory_bandwidth_gbps s) (sn_display_camera_gbps s))"

definition throttle_required :: "pyfloat \<Rightarrow> pyfloat \<Rightarrow> bool" where
  "throttle_required die margin \<longleftrightarrow> float_lt (float_lit 95) die \<or> float_lt margin (Fin 0)"

definition scenario_entry :: "soc_args \<Rightarrow> soc_scenario \<Rightarrow> soc_corner \<Rightarrow> scenario_row py" where
  "scenario_entry a s c =
     rbind (scaled_frequency (sa_cpu_base_frequency_hz a) (so_cpu_frequency_derate c)) (\<lambda>frequency.
     let ipc = float_mul (sa_cpu_base_ipc a) (so_cpu_ipc_derate c);
         tops = npu_tops_at a c; power = npu_power a s c; total = total_power a s c; die = die_temp a s c;
         margin = bandwidth_margin a s c
     in rbind (pynum (float_div tops (fmax power [float_lit (1 / 10 ^ 9)]))) (\<lambda>tops_per_w.
        rbind (pynum (float_div tops (float_lit 10))) (\<lambda>tenth.
        rbind (pynum (float_div (float_add (float_mul ipc (sn_cpu_active_fraction s)) tenth) total)) (\<lambda>composite.
        Inr \<lparr>rw_name = sn_name s, rw_intent = sn_intent s, rw_duration_s = sn_duration_s s,
             rw_cpu_frequency_hz = frequency, rw_cpu_ipc = ipc, rw_npu_int8_tops = tops,
             rw_memory_bandwidth_demand_gbps = sn_memory_bandwidth_gbps s,
             rw_display_camera_bandwidth_gbps = sn_display_camera_gbps s,
             rw_memory_bandwidth_limit_gbps = bandwidth_limit a c, rw_memory_bandwidth_margin_gbps = margin,
             rw_cpu_power_w = cpu_power a s c, rw_npu_power_w = power, rw_memory_power_w = memory_power s c,
             rw_uncore_power_w = uncore_power s c, rw_total_power_w = total, rw_die_temp_c = die,
             rw_npu_tops_per_w = tops_per_w, rw_composite_perf_per_w = composite,
             rw_throttle_required = throttle_required die margin\<rparr>))))"

definition scenario_json :: "scenario_row \<Rightarrow> pyv" where
  "scenario_json r = PDict
     [(''name'', PStr (rw_name r)), (''intent'', PStr (rw_intent r)), (''duration_s'', PInt (rw_duration_s r)),
      (''cpu_frequency_hz'', PInt (rw_cpu_frequency_hz r)), (''cpu_ipc'', PFloat (rw_cpu_ipc r)),
      (''npu_int8_tops'', PFloat (rw_npu_int8_tops r)),
      (''memory_bandwidth_demand_gbps'', PFloat (rw_memory_bandwidth_demand_gbps r)),
      (''display_camera_bandwidth_gbps'', PFloat (rw_display_camera_bandwidth_gbps r)),
      (''memory_bandwidth_limit_gbps'', PFloat (rw_memory_bandwidth_limit_gbps r)),
      (''memory_bandwidth_margin_gbps'', PFloat (rw_memory_bandwidth_margin_gbps r)),
      (''cpu_power_w'', PFloat (rw_cpu_power_w r)), (''npu_power_w'', PFloat (rw_npu_power_w r)),
      (''memory_power_w'', PFloat (rw_memory_power_w r)), (''uncore_power_w'', PFloat (rw_uncore_power_w r)),
      (''total_power_w'', PFloat (rw_total_power_w r)), (''die_temp_c'', PFloat (rw_die_temp_c r)),
      (''npu_tops_per_w'', PFloat (rw_npu_tops_per_w r)),
      (''composite_perf_per_w'', PFloat (rw_composite_perf_per_w r)),
      (''throttle_required'', PBool (rw_throttle_required r)), (''release_use'', PStr RELEASE_USE)]"

section \<open>One corner\<close>

text \<open>\<open>max(xs, key=k)\<close> and \<open>min(xs, key=k)\<close>: the first of the extremes.\<close>

fun first_max :: "('a \<Rightarrow> pyfloat) \<Rightarrow> 'a list \<Rightarrow> 'a py" where
  "first_max k [] = Inl (PyValueError ''max() arg is an empty sequence'')"
| "first_max k (x # xs) = Inr (foldl (\<lambda>m y. if float_lt (k m) (k y) then y else m) x xs)"

fun first_min :: "('a \<Rightarrow> pyfloat) \<Rightarrow> 'a list \<Rightarrow> 'a py" where
  "first_min k [] = Inl (PyValueError ''min() arg is an empty sequence'')"
| "first_min k (x # xs) = Inr (foldl (\<lambda>m y. if float_lt (k y) (k m) then y else m) x xs)"

record soc_corner_row =
  cw_corner :: soc_corner
  cw_scenarios :: "scenario_row list"
  cw_max_total_power_w :: pyfloat
  cw_max_die_temp_c :: pyfloat
  cw_worst_thermal_scenario :: string
  cw_min_composite_perf_per_w :: pyfloat
  cw_worst_efficiency_scenario :: string
  cw_throttle_required :: bool

definition corner_entry :: "soc_args \<Rightarrow> soc_corner \<Rightarrow> soc_corner_row py" where
  "corner_entry a c =
     rbind (mapR (\<lambda>s. scenario_entry a s c) SCENARIOS) (\<lambda>scenarios.
     rbind (first_max rw_die_temp_c scenarios) (\<lambda>worst_thermal.
     rbind (first_min rw_composite_perf_per_w scenarios) (\<lambda>worst_efficiency.
     rbind (first_max id (map rw_total_power_w scenarios)) (\<lambda>max_power.
     Inr \<lparr>cw_corner = c, cw_scenarios = scenarios, cw_max_total_power_w = max_power,
          cw_max_die_temp_c = rw_die_temp_c worst_thermal,
          cw_worst_thermal_scenario = rw_name worst_thermal,
          cw_min_composite_perf_per_w = rw_composite_perf_per_w worst_efficiency,
          cw_worst_efficiency_scenario = rw_name worst_efficiency,
          cw_throttle_required = list_ex rw_throttle_required scenarios\<rparr>))))"

definition corner_json :: "soc_corner_row \<Rightarrow> pyv" where
  "corner_json r = (let c = cw_corner r in PDict
     [(''name'', PStr (so_name c)), (''voltage_v'', PFloat (so_voltage_v c)),
      (''temperature_c'', PInt (so_temperature_c c)),
      (''cpu_frequency_derate'', PFloat (so_cpu_frequency_derate c)),
      (''cpu_ipc_derate'', PFloat (so_cpu_ipc_derate c)),
      (''npu_frequency_derate'', PFloat (so_npu_frequency_derate c)),
      (''npu_memory_derate'', PFloat (so_npu_memory_derate c)),
      (''dynamic_power_scale'', PFloat (so_dynamic_power_scale c)),
      (''leakage_power_scale'', PFloat (so_leakage_power_scale c)),
      (''thermal_resistance_scale'', PFloat (so_thermal_resistance_scale c)),
      (''claim_boundary'', PStr (so_claim_boundary c)), (''release_use'', PStr RELEASE_USE),
      (''scenarios'', PList (map scenario_json (cw_scenarios r))),
      (''summary'', PDict
        [(''max_total_power_w'', PFloat (cw_max_total_power_w r)),
         (''max_die_temp_c'', PFloat (cw_max_die_temp_c r)),
         (''worst_thermal_scenario'', PStr (cw_worst_thermal_scenario r)),
         (''min_composite_perf_per_w'', PFloat (cw_min_composite_perf_per_w r)),
         (''worst_efficiency_scenario'', PStr (cw_worst_efficiency_scenario r)),
         (''throttle_required'', PBool (cw_throttle_required r))])])"

section \<open>The report\<close>

definition PROCESS_EFFECTS :: string where "PROCESS_EFFECTS = ''docs/spec-db/process-14a-effects.yaml''"

text \<open>\<open>file_hash\<close> of a path below the root, given relative to it.\<close>

definition file_hash :: "world \<Rightarrow> ppath \<Rightarrow> string \<Rightarrow> pyv py" where
  "file_hash w repo p =
     (let q = path_join repo (path_of p) in
      rbind (sha256_file w q) (\<lambda>sha.
      rbind (stat_size w q) (\<lambda>n.
      Inr (PDict [(''path'', PStr p), (''sha256'', PStr sha), (''bytes'', PInt n)]))))"

text \<open>
  \<open>next(corner["name"] for corner in corners if item in corner["scenarios"])\<close> for the item at position
  \<open>i\<close> of the list of all scenarios: membership is identity or equality of dictionaries.
\<close>

definition in_scenarios :: "nat \<times> scenario_row \<Rightarrow> (nat \<times> scenario_row) list \<Rightarrow> bool" where
  "in_scenarios item rows \<longleftrightarrow>
     list_ex (\<lambda>row. fst row = fst item \<or> py_eq (scenario_json (snd item)) (scenario_json (snd row))) rows"

fun corner_of :: "nat \<times> scenario_row \<Rightarrow> nat \<Rightarrow> soc_corner_row list \<Rightarrow> string py" where
  "corner_of item n [] = Inl (PyRuntimeError ''StopIteration'')"
| "corner_of item n (r # rs) =
     (let rows = zip [n..<n + length (cw_scenarios r)] (cw_scenarios r) in
      if in_scenarios item rows then Inr (so_name (cw_corner r))
      else corner_of item (n + length rows) rs)"

record soc_summary =
  sy_process_corner_count :: nat
  sy_scenario_count :: nat
  sy_max_total_power_w :: pyfloat
  sy_max_die_temp_c :: pyfloat
  sy_worst_thermal_corner :: string
  sy_worst_thermal_scenario :: string
  sy_min_composite_perf_per_w :: pyfloat
  sy_worst_efficiency_corner :: string
  sy_worst_efficiency_scenario :: string
  sy_any_modeled_throttle_required :: bool

record soc_report =
  rp_config :: soc_args
  rp_contract :: pyv
  rp_corners :: "soc_corner_row list"
  rp_summary :: soc_summary

definition all_scenarios :: "soc_corner_row list \<Rightarrow> scenario_row list" where
  "all_scenarios corners = concat (map cw_scenarios corners)"

definition build_report :: "world \<Rightarrow> ppath \<Rightarrow> soc_args \<Rightarrow> soc_report py" where
  "build_report w repo a =
     (if \<not> is_file w (path_join repo (path_of PROCESS_EFFECTS))
      then Inl (PySystemExit (''missing '' @ PROCESS_EFFECTS))
      else
        rbind (mapR (corner_entry a) SOC_CORNERS) (\<lambda>corners.
        let items = enum (all_scenarios corners) in
        rbind (first_max (rw_die_temp_c \<circ> snd) items) (\<lambda>worst_thermal.
        rbind (first_min (rw_composite_perf_per_w \<circ> snd) items) (\<lambda>worst_efficiency.
        rbind (first_max (rw_total_power_w \<circ> snd) items) (\<lambda>max_power.
        rbind (file_hash w repo PROCESS_EFFECTS) (\<lambda>contract.
        rbind (corner_of worst_thermal 0 corners) (\<lambda>thermal_corner.
        rbind (corner_of worst_efficiency 0 corners) (\<lambda>efficiency_corner.
        Inr \<lparr>rp_config = a, rp_contract = contract, rp_corners = corners,
             rp_summary = \<lparr>sy_process_corner_count = length corners, sy_scenario_count = length SCENARIOS,
               sy_max_total_power_w = rw_total_power_w (snd max_power),
               sy_max_die_temp_c = rw_die_temp_c (snd worst_thermal),
               sy_worst_thermal_corner = thermal_corner,
               sy_worst_thermal_scenario = rw_name (snd worst_thermal),
               sy_min_composite_perf_per_w = rw_composite_perf_per_w (snd worst_efficiency),
               sy_worst_efficiency_corner = efficiency_corner,
               sy_worst_efficiency_scenario = rw_name (snd worst_efficiency),
               sy_any_modeled_throttle_required = list_ex (rw_throttle_required \<circ> snd) items\<rparr>\<rparr>))))))))"

definition config_json :: "soc_args \<Rightarrow> pyv" where
  "config_json a = PDict
     [(''cpu_cores'', PInt 2), (''cpu_base_ipc'', PFloat (sa_cpu_base_ipc a)),
      (''cpu_base_frequency_hz'', PInt (sa_cpu_base_frequency_hz a)),
      (''cpu_base_power_w'', PFloat (sa_cpu_base_power_w a)), (''npu_base_tops'', PFloat (sa_npu_base_tops a)),
      (''npu_base_power_w'', PFloat (sa_npu_base_power_w a)),
      (''memory_sustained_gbps'', PFloat (sa_memory_sustained_gbps a)), (''ambient_c'', PFloat (sa_ambient_c a)),
      (''model_boundary'', PStr ''combined architecture planning model; no PDK, RTL, silicon, or AOSP proof'')]"

definition summary_fields :: "soc_summary \<Rightarrow> (string \<times> pyv) list" where
  "summary_fields s =
     [(''process_corner_count'', PInt (int (sy_process_corner_count s))),
      (''scenario_count'', PInt (int (sy_scenario_count s))),
      (''max_total_power_w'', PFloat (sy_max_total_power_w s)), (''max_die_temp_c'', PFloat (sy_max_die_temp_c s)),
      (''worst_thermal_corner'', PStr (sy_worst_thermal_corner s)),
      (''worst_thermal_scenario'', PStr (sy_worst_thermal_scenario s)),
      (''min_composite_perf_per_w'', PFloat (sy_min_composite_perf_per_w s)),
      (''worst_efficiency_corner'', PStr (sy_worst_efficiency_corner s)),
      (''worst_efficiency_scenario'', PStr (sy_worst_efficiency_scenario s)),
      (''any_modeled_throttle_required'', PBool (sy_any_modeled_throttle_required s)),
      (''claim_boundary'', PStr ''modeled_derates_only_not_sustained_power_thermal_evidence'')]"

definition artifacts_json :: "soc_report \<Rightarrow> pyv" where
  "artifacts_json r = PDict
     [(''process_effects_contract'', rp_contract r),
      (''cpu_ap_model'', PStr ''benchmarks/generate_simulator_arch_metrics.py --mode model-14a-cpu-ap''),
      (''npu_model'', PStr ''benchmarks/sim/run_npu_scale_sim.py --config open_2028_first_50tops'')]"

definition CLAIM_BOUNDARY :: string where
  "CLAIM_BOUNDARY = ''modeled_only_not_rtl_pdk_silicon_sustained_or_phone_score_evidence''"

definition soc_report_json :: "soc_report \<Rightarrow> pyv" where
  "soc_report_json r = PDict
     [(''schema'', PStr ''openagent.soc_cpu_npu_thermal_sweep.v1''), (''status'', PStr ''pass''),
      (''evidence_class'', PStr ''deterministic_combined_cpu_npu_arch_model''),
      (''claim_boundary'', PStr CLAIM_BOUNDARY), (''benchmark_success_allowed'', PBool True),
      (''release_use'', PStr RELEASE_USE), (''config'', config_json (rp_config r)),
      (''artifacts'', artifacts_json r),
      (''process_corners'', PList (map corner_json (rp_corners r))),
      (''summary'', PDict (summary_fields (rp_summary r)))]"

text \<open>\<open>main\<close>: the report is written below the root unless the path is absolute, and printed.\<close>

definition soc_main :: "world \<Rightarrow> ppath \<Rightarrow> soc_args \<Rightarrow> ppath \<Rightarrow> (world \<times> string) py" where
  "soc_main w repo a out_arg =
     rbind (build_report w repo a) (\<lambda>report.
     let text = json_dumps True (soc_report_json report) @ [CHR 0x0A]; out = path_join repo out_arg
     in Inr (write_file (make_dirs w (path_parent out)) out text, text))"

end
