(* ===== verification/Soc_Check.thy ===== *)
theory Soc_Check
  imports Soc_Thermal Py_Check
begin

text \<open>
  \<open>scripts/check_soc_thermal_sweep.py\<close> and \<open>scripts/check_soc_optimization.py\<close>: the checks of the two
  reports, as decoded from JSON. A set of names is listed in the order of the source. Both scripts
  first run the generator, which may change the files.
\<close>

section \<open>Shared parts\<close>

definition FORBIDDEN_FIELDS :: "string list" where
  "FORBIDDEN_FIELDS = [''phone_score'', ''geekbench_score'', ''wall_clock_score'']"

definition positive_number :: "pyv \<Rightarrow> bool" where
  "positive_number v \<longleftrightarrow> is_json_number v \<and> float_lt (Fin 0) (as_num v)"

text \<open>\<open>require(cond, message, errors)\<close>.\<close>

definition soc_require :: "bool \<Rightarrow> string \<Rightarrow> unit checked" where
  "soc_require b msg = report_if (\<not> b) msg"

definition mentions :: "string \<Rightarrow> pyv \<Rightarrow> string \<Rightarrow> bool" where
  "mentions part d key \<longleftrightarrow> contains part (py_str (get_or d key (PStr [])))"

definition when_dict :: "pyv \<Rightarrow> unit checked \<Rightarrow> unit checked" where
  "when_dict v m = (if is_dict v then m else wret ())"

definition contract_check :: "pyv \<Rightarrow> string \<Rightarrow> string \<Rightarrow> string \<Rightarrow> unit checked" where
  "contract_check data missing drift invalid =
     (let artifacts = get data ''artifacts''; contract = get artifacts ''process_effects_contract'';
          sha = get contract ''sha256''
      in wlist [soc_require (is_dict artifacts) ''artifacts must be an object'',
         when_dict artifacts (wlist [soc_require (is_dict contract) missing,
           when_dict contract (wlist [
             soc_require (py_eq (get contract ''path'') (PStr PROCESS_EFFECTS)) drift,
             soc_require (is_str sha \<and> length (as_str sha) = 64) invalid])])])"

definition forbidden_check :: "pyv \<Rightarrow> unit checked" where
  "forbidden_check data = weach (\<lambda>field. soc_require (\<not> has_key data field)
     (''forbidden comparable score field present: '' @ field)) FORBIDDEN_FIELDS"

section \<open>The thermal sweep\<close>

definition REQUIRED_CORNERS :: "string list" where
  "REQUIRED_CORNERS =
     [''14a_tt_0p70v_25c_frontside_pdn'', ''14a_ss_0p63v_105c_frontside_pdn'',
      ''14a_ff_0p77v_0c_frontside_pdn'', ''14a_bspdn_follow_on_hot_ir_em_stress'']"

definition REQUIRED_SCENARIOS :: "string list" where
  "REQUIRED_SCENARIOS =
     [''android_foreground_ai_assistant'', ''sustained_npu_camera_display'', ''cpu_peak_background_npu'']"

definition POSITIVE_SCENARIO_KEYS :: "string list" where
  "POSITIVE_SCENARIO_KEYS =
     [''cpu_frequency_hz'', ''cpu_ipc'', ''npu_int8_tops'', ''memory_bandwidth_demand_gbps'',
      ''memory_bandwidth_limit_gbps'', ''cpu_power_w'', ''npu_power_w'', ''memory_power_w'',
      ''uncore_power_w'', ''total_power_w'', ''die_temp_c'', ''npu_tops_per_w'', ''composite_perf_per_w'']"

definition REQUIRED_SCENARIO_KEYS :: "string list" where
  "REQUIRED_SCENARIO_KEYS =
     POSITIVE_SCENARIO_KEYS @ [''memory_bandwidth_margin_gbps'', ''throttle_required'', ''release_use'']"

text \<open>\<open>{x.get("name") for x in xs if isinstance(x, dict)}\<close>: a name must be hashable. What is missing is sorted.\<close>

definition names_of :: "pyv list \<Rightarrow> pyv list py" where
  "names_of xs = (let names = map (\<lambda>x. get x ''name'') (filter is_dict xs)
     in if list_all hashable names then Inr names else Inl PyTypeError)"

definition missing_names :: "string list \<Rightarrow> pyv list \<Rightarrow> string list" where
  "missing_names required names = sort (filter (\<lambda>s. PStr s \<notin> set names) required)"

definition release_ok :: "pyv \<Rightarrow> bool" where
  "release_ok d \<longleftrightarrow> py_eq (get d ''release_use'') (PStr RELEASE_USE)"

definition sweep_scenario :: "string \<Rightarrow> pyv \<Rightarrow> unit checked" where
  "sweep_scenario here s =
     (if \<not> is_dict s then soc_require False (here @ '' must be an object'')
      else
        let missing = sort (filter (\<lambda>k. \<not> has_key s k) REQUIRED_SCENARIO_KEYS) in
        wlist ([soc_require (missing = []) (here @ '' missing keys: '' @ join '', '' missing)]
          @ map (\<lambda>key. soc_require (positive_number (get s key)) (here @ ''.'' @ key @ '' must be positive numeric''))
              POSITIVE_SCENARIO_KEYS
          @ [soc_require (is_json_number (get s ''memory_bandwidth_margin_gbps''))
               (here @ ''.memory_bandwidth_margin_gbps must be numeric''),
             soc_require (is_bool (get s ''throttle_required'')) (here @ ''.throttle_required must be bool''),
             soc_require (release_ok s) (here @ '' release_use must prohibit signoff use'')]))"

definition sweep_corner :: "nat \<Rightarrow> pyv \<Rightarrow> unit checked" where
  "sweep_corner i c =
     (let here = ''process_corners['' @ nat_str i @ '']'' in
      if \<not> is_dict c then soc_require False (here @ '' must be an object'')
      else
        let scenarios = get c ''scenarios'' in
        wlist [soc_require (release_ok c) (here @ '' release_use must prohibit signoff use''),
          soc_require (mentions ''not_pdk_signoff'' c ''claim_boundary'')
            (here @ '' claim boundary must block PDK signoff''),
          soc_require (is_list scenarios) (here @ ''.scenarios must be a list''),
          wbind (wlift (names_of (as_list scenarios))) (\<lambda>names.
            soc_require (missing_names REQUIRED_SCENARIOS names = [])
              (here @ '' missing scenarios: '' @ join '', '' (missing_names REQUIRED_SCENARIOS names))),
          weach (\<lambda>(j, s). sweep_scenario (here @ ''.scenarios['' @ nat_str j @ '']'') s) (enum (as_list scenarios))])"

text \<open>The scenarios that are checked: those that are objects, of corners that are objects.\<close>

definition sweep_scenarios :: "pyv list \<Rightarrow> pyv list" where
  "sweep_scenarios corners =
     concat (map (\<lambda>c. filter is_dict (as_list (get c ''scenarios''))) (filter is_dict corners))"

definition named_in :: "pyv \<Rightarrow> string \<Rightarrow> string list \<Rightarrow> string \<Rightarrow> unit checked" where
  "named_in d key names msg = wbind (wlift (in_names (get d key) names)) (\<lambda>b. soc_require b msg)"

definition sweep_summary :: "pyv \<Rightarrow> nat \<Rightarrow> unit checked" where
  "sweep_summary s corner_count =
     wlist ([soc_require (py_eq (get s ''process_corner_count'') (PInt (int corner_count))) ''summary corner count mismatch'',
         soc_require (py_eq (get s ''scenario_count'') (PInt (int (length REQUIRED_SCENARIOS))))
           ''summary scenario count mismatch'']
       @ map (\<lambda>key. soc_require (positive_number (get s key)) (''summary.'' @ key @ '' must be positive numeric''))
           [''max_total_power_w'', ''max_die_temp_c'', ''min_composite_perf_per_w'']
       @ [named_in s ''worst_thermal_corner'' REQUIRED_CORNERS
            ''summary.worst_thermal_corner must identify a required corner'',
          named_in s ''worst_efficiency_corner'' REQUIRED_CORNERS
            ''summary.worst_efficiency_corner must identify a required corner'',
          named_in s ''worst_thermal_scenario'' REQUIRED_SCENARIOS
            ''summary.worst_thermal_scenario must identify a required scenario'',
          named_in s ''worst_efficiency_scenario'' REQUIRED_SCENARIOS
            ''summary.worst_efficiency_scenario must identify a required scenario'',
          soc_require (py_eq (get s ''claim_boundary'')
              (PStr ''modeled_derates_only_not_sustained_power_thermal_evidence''))
            ''summary claim boundary must block sustained evidence use''])"

definition check_sweep :: "pyv \<Rightarrow> unit checked" where
  "check_sweep data =
     (if \<not> is_dict data then wlift (Inl PyAttributeError)
      else
        let corners = get data ''process_corners''; corner_list = as_list corners; summary = get data ''summary'' in
        wlist [soc_require (py_eq (get data ''schema'') (PStr ''openagent.soc_cpu_npu_thermal_sweep.v1'')) ''schema mismatch'',
          soc_require (get data ''benchmark_success_allowed'' = PBool True) ''benchmark_success_allowed must be true'',
          soc_require (release_ok data) ''release_use must prohibit signoff use'',
          soc_require (mentions ''not_rtl_pdk_silicon'' data ''claim_boundary'')
            ''claim_boundary must block RTL/PDK/silicon evidence use'',
          forbidden_check data,
          contract_check data ''missing process effects contract hash'' ''process contract path drifted''
            ''process contract sha256 invalid'',
          soc_require (is_list corners) ''process_corners must be a list'',
          wbind (wlift (names_of corner_list)) (\<lambda>names.
            soc_require (missing_names REQUIRED_CORNERS names = [])
              (''missing corners: '' @ join '', '' (missing_names REQUIRED_CORNERS names))),
          weach (\<lambda>(i, c). sweep_corner i c) (enum corner_list),
          soc_require (is_dict summary) ''summary must be an object'',
          when_dict summary (sweep_summary summary (length corner_list)),
          soc_require (sweep_scenarios corner_list \<noteq> []) ''no scenarios checked''])"

section \<open>The optimization\<close>

text \<open>A comparison of two entries after \<open>float\<close>.\<close>

definition float_cmp :: "(pyfloat \<Rightarrow> pyfloat \<Rightarrow> bool) \<Rightarrow> pyv \<Rightarrow> pyv \<Rightarrow> string \<Rightarrow> unit checked" where
  "float_cmp R x y msg =
     wbind (wlift (py_float x)) (\<lambda>a. wbind (wlift (py_float y)) (\<lambda>b. soc_require (R a b) msg))"

abbreviation flit :: "rat \<Rightarrow> pyv" where
  "flit q \<equiv> PFloat (float_lit q)"

definition positive_count :: "pyv \<Rightarrow> string \<Rightarrow> unit checked" where
  "positive_count d key =
     soc_require (is_int (get d key) \<and> 0 < as_int (get d key)) (''search_space.'' @ key @ '' must be positive'')"

definition opt_candidate_check :: "pyv \<Rightarrow> pyv \<Rightarrow> unit checked" where
  "opt_candidate_check optimized constraints =
     (let s = get optimized ''summary''; config = get optimized ''config'' in
      wlist [soc_require (is_dict s) ''optimized.summary must be an object'',
        when_dict s (wlist (
          [soc_require (get s ''any_modeled_throttle_required'' = PBool False)
             ''optimized candidate must remove modeled throttle'',
           float_cmp float_le (get_or s ''max_die_temp_c'' (flit 999)) (get_or constraints ''max_die_c'' (PFloat (Fin 0)))
             ''optimized max die temperature exceeds constraint'',
           float_cmp (\<lambda>x y. float_le y x) (get_or s ''min_bandwidth_margin_gbps'' (PFloat (Fin (- 999))))
             (get_or constraints ''min_bandwidth_margin_gbps'' (PFloat (Fin 0)))
             ''optimized bandwidth margin violates constraint'',
           float_cmp (\<lambda>x y. float_le y x) (get_or s ''min_npu_int8_tops'' (PFloat (Fin 0)))
             (get_or constraints ''min_npu_tops'' (PFloat (Fin 0))) ''optimized NPU TOPS violates constraint'']
          @ map (\<lambda>key. soc_require (positive_number (get s key)) (''optimized.summary.'' @ key @ '' must be positive''))
              [''max_die_temp_c'', ''max_total_power_w'', ''min_composite_perf_per_w'', ''min_npu_int8_tops''])),
        soc_require (is_dict config) ''optimized.config must be an object'',
        when_dict config (wlist [
          float_cmp (\<lambda>x y. float_le y x) (get_or config ''memory_sustained_gbps'' (PFloat (Fin 0))) (flit 160)
            ''optimized memory bandwidth must be at least 160 GB/s'',
          float_cmp float_lt (get_or config ''npu_base_power_w'' (flit 999)) (flit (36 / 10))
            ''optimized NPU power should improve over baseline''])])"

definition opt_improvement_check :: "pyv \<Rightarrow> unit checked" where
  "opt_improvement_check v =
     wlist [soc_require (get v ''baseline_any_throttle'' = PBool True) ''improvement must record throttling baseline'',
       soc_require (get v ''optimized_any_throttle'' = PBool False)
         ''improvement must record no-throttle optimized point'',
       float_cmp float_lt (get_or v ''max_die_c_delta'' (PFloat (Fin 0))) (PFloat (Fin 0))
         ''optimized point must reduce max die temperature'',
       float_cmp (\<lambda>x y. float_lt y x) (get_or v ''min_bandwidth_margin_gbps_delta'' (PFloat (Fin 0))) (PFloat (Fin 0))
         ''optimized point must improve bandwidth margin'']"

definition check_optimization :: "pyv \<Rightarrow> unit checked" where
  "check_optimization data =
     (if \<not> is_dict data then wlift (Inl PyAttributeError)
      else
        let search = get data ''search_space''; constraints = get data ''constraints'';
            optimized = get data ''optimized''; baseline = get data ''baseline''; v = get data ''improvement''
        in wlist [
          soc_require (py_eq (get data ''schema'') (PStr ''openagent.soc_cpu_npu_operating_point_optimization.v1''))
            ''schema mismatch'',
          soc_require (py_eq (get data ''status'') (PStr ''pass'')) ''status must be pass'',
          soc_require (get data ''benchmark_success_allowed'' = PBool True) ''benchmark_success_allowed must be true'',
          soc_require (release_ok data) ''release_use must prohibit signoff use'',
          soc_require (mentions ''not_rtl_pdk_silicon'' data ''claim_boundary'')
            ''claim boundary must block RTL/PDK/silicon use'',
          forbidden_check data,
          soc_require (is_dict search) ''search_space must be an object'',
          when_dict search (wlist [positive_count search ''evaluated_count'', positive_count search ''feasible_count'']),
          soc_require (is_dict constraints) ''constraints must be an object'',
          soc_require (is_dict optimized) ''optimized must be an object'',
          soc_require (is_dict baseline) ''baseline must be an object'',
          when_dict optimized (when_dict constraints (opt_candidate_check optimized constraints)),
          when_dict baseline (when_dict (get baseline ''summary'')
            (soc_require (get (get baseline ''summary'') ''any_modeled_throttle_required'' = PBool True)
               ''baseline should preserve known modeled throttle pressure'')),
          soc_require (is_dict v) ''improvement must be an object'',
          when_dict v (opt_improvement_check v),
          contract_check data ''missing process effects contract artifact'' ''process effects contract path drifted''
            ''process effects contract sha invalid''])"

section \<open>Running the generator\<close>

text \<open>A child process ends with a code and its output, or cannot be started; it may change the files.\<close>

type_synonym spawn = "string list \<Rightarrow> world \<Rightarrow> (int \<times> string) py \<times> world"

definition load_or_generate :: "spawn \<Rightarrow> string \<Rightarrow> ppath \<Rightarrow> string \<Rightarrow> string \<Rightarrow> world \<Rightarrow> pyv py" where
  "load_or_generate run python repo script report w =
     (let path = path_join repo (path_of report);
          (end', w') = run [python, path_str (path_join repo (path_of script)), ''--out'', path_str path] w
      in rbind end' (\<lambda>(code, out).
         if code \<noteq> 0 then Inl (PyRuntimeError out) else rbind (read_text w' path) (json_loads w')))"

text \<open>The exit code of \<open>main\<close> and the failures it prints; the text of an exception is not kept.\<close>

definition gate_main :: "(pyv \<Rightarrow> unit checked) \<Rightarrow> pyv py \<Rightarrow> (int \<times> string list) py" where
  "gate_main check loaded =
     (case loaded of
        Inr data \<Rightarrow> rbind (messages (check data)) (\<lambda>errors. Inr (if errors = [] then (0, []) else (1, errors)))
      | Inl (PyOSError e) \<Rightarrow> Inr (1, [e])
      | Inl (PyRuntimeError e) \<Rightarrow> Inr (1, [e])
      | Inl PyJSONDecodeError \<Rightarrow> Inr (1, [])
      | Inl e \<Rightarrow> Inl e)"

definition sweep_main :: "spawn \<Rightarrow> string \<Rightarrow> ppath \<Rightarrow> world \<Rightarrow> (int \<times> string list) py" where
  "sweep_main run python repo w = gate_main check_sweep
     (load_or_generate run python repo ''benchmarks/sim/run_soc_thermal_sweep.py''
        ''benchmarks/results/soc-thermal-sweep.json'' w)"

definition optimization_main :: "spawn \<Rightarrow> string \<Rightarrow> ppath \<Rightarrow> world \<Rightarrow> (int \<times> string list) py" where
  "optimization_main run python repo w = gate_main check_optimization
     (load_or_generate run python repo ''benchmarks/sim/optimize_soc_operating_point.py''
        ''benchmarks/results/soc-optimized-operating-point.json'' w)"

end
