(* ===== verification/Soc_Optimize.thy ===== *)
theory Soc_Optimize
  imports Soc_Thermal
begin

text \<open>
  \<open>benchmarks/sim/optimize_soc_operating_point.py\<close>: the search for the operating point with the best
  score among those that satisfy the constraints in every scenario and corner. \<open>frange\<close> is a
  loop over floats that need not end; code that uses it has results of type \<open>run\<close>, where
  \<open>None\<close> is not returning.
\<close>

section \<open>Code that may not return\<close>

type_synonym 'a run = "'a py option"

definition obind :: "'a run \<Rightarrow> ('a \<Rightarrow> 'b run) \<Rightarrow> 'b run" where
  "obind m f = (case m of None \<Rightarrow> None | Some (Inl e) \<Rightarrow> Some (Inl e) | Some (Inr x) \<Rightarrow> f x)"

fun foldO :: "('a \<Rightarrow> 'b \<Rightarrow> 'b run) \<Rightarrow> 'a list \<Rightarrow> 'b \<Rightarrow> 'b run" where
  "foldO f [] b = Some (Inr b)"
| "foldO f (x # xs) b = obind (f x b) (foldO f xs)"

lemma obind_simps [simp]:
  "obind None f = None" "obind (Some (Inl e)) f = Some (Inl e)" "obind (Some (Inr x)) f = f x"
  by (simp_all add: obind_def)

lemma obind_returns [simp]: "obind m f = Some (Inr y) \<longleftrightarrow> (\<exists>x. m = Some (Inr x) \<and> f x = Some (Inr y))"
  by (auto simp: obind_def split: option.splits sum.splits)

section \<open>Ranges\<close>

text \<open>\<open>round(x, 6)\<close>: the decimal nearest to the exact value, ties to even, as a float.\<close>

definition round6 :: "pyfloat \<Rightarrow> pyfloat" where
  "round6 x = (case x of Fin q \<Rightarrow> to_float (of_int (round_even (q * 10 ^ 6)) / 10 ^ 6) | _ \<Rightarrow> x)"

partial_function (option) frange_from :: "pyfloat \<Rightarrow> pyfloat \<Rightarrow> pyfloat \<Rightarrow> pyfloat list option" where
  "frange_from current bound step =
     (if float_le current bound
      then Option.bind (frange_from (float_add current step) bound step) (\<lambda>vs. Some (round6 current # vs))
      else Some [])"

definition half :: "pyfloat \<Rightarrow> pyfloat" where
  "half x = (case float_div x (float_lit 2) of Inr y \<Rightarrow> y | Inl _ \<Rightarrow> NaN)"

definition frange :: "pyfloat \<Rightarrow> pyfloat \<Rightarrow> pyfloat \<Rightarrow> pyfloat list option" where
  "frange start stop step = frange_from start (float_add stop (half step)) step"

text \<open>\<open>list(range(start, stop + 1, step))\<close>.\<close>

definition irange :: "int \<Rightarrow> int \<Rightarrow> int \<Rightarrow> int list py" where
  "irange start stop step =
     (if step = 0 then Inl (PyValueError ''range() arg 3 must not be zero'')
      else let n = (if 0 < step then (stop + step - start) div step else (start - stop - 2 - step) div (- step))
           in Inr (map (\<lambda>i. start + int i * step) [0..<nat n]))"

section \<open>Candidates\<close>

record opt_args =
  oa_max_die_c :: pyfloat
  oa_min_bandwidth_margin_gbps :: pyfloat
  oa_min_npu_tops :: pyfloat
  oa_ambient_c :: pyfloat
  oa_cpu_base_ipc :: pyfloat
  oa_cpu_base_frequency_hz :: int
  oa_baseline_cpu_power_w :: pyfloat
  oa_baseline_npu_power_w :: pyfloat
  oa_baseline_npu_tops :: pyfloat
  oa_baseline_memory_sustained_gbps :: pyfloat
  oa_cpu_power_w :: "pyfloat \<times> pyfloat \<times> pyfloat"
  oa_npu_power_w :: "pyfloat \<times> pyfloat \<times> pyfloat"
  oa_npu_tops :: "pyfloat \<times> pyfloat \<times> pyfloat"
  oa_memory_sustained_gbps :: "int \<times> int \<times> int"

text \<open>The minimum, maximum and step of a range are one component of the arguments.\<close>

definition report_for :: "world \<Rightarrow> ppath \<Rightarrow> opt_args \<Rightarrow> pyfloat \<Rightarrow> pyfloat \<Rightarrow> pyfloat \<Rightarrow> pyfloat \<Rightarrow> soc_report py" where
  "report_for w repo a cpu npu tops memory =
     build_report w repo \<lparr>sa_cpu_base_ipc = oa_cpu_base_ipc a,
       sa_cpu_base_frequency_hz = oa_cpu_base_frequency_hz a, sa_cpu_base_power_w = cpu,
       sa_npu_base_tops = tops, sa_npu_base_power_w = npu, sa_memory_sustained_gbps = memory,
       sa_ambient_c = oa_ambient_c a\<rparr>"

definition flatten_scenarios :: "soc_report \<Rightarrow> scenario_row list" where
  "flatten_scenarios r = all_scenarios (rp_corners r)"

record cand_summary =
  cs_summary :: soc_summary
  cs_min_bandwidth_margin_gbps :: pyfloat
  cs_min_npu_int8_tops :: pyfloat

text \<open>\<open>summary.update\<close> replaces four entries of the report's summary and adds two.\<close>

definition summarize_candidate :: "soc_report \<Rightarrow> cand_summary py" where
  "summarize_candidate r =
     (let scenarios = flatten_scenarios r in
      rbind (first_min id (map rw_memory_bandwidth_margin_gbps scenarios)) (\<lambda>min_margin.
      rbind (first_max id (map rw_die_temp_c scenarios)) (\<lambda>max_die.
      rbind (first_max id (map rw_total_power_w scenarios)) (\<lambda>max_power.
      rbind (first_min id (map rw_composite_perf_per_w scenarios)) (\<lambda>min_perf.
      rbind (first_min id (map rw_npu_int8_tops scenarios)) (\<lambda>min_tops.
      Inr \<lparr>cs_summary = (rp_summary r)\<lparr>sy_max_die_temp_c := max_die, sy_max_total_power_w := max_power,
             sy_min_composite_perf_per_w := min_perf,
             sy_any_modeled_throttle_required := list_ex rw_throttle_required scenarios\<rparr>,
           cs_min_bandwidth_margin_gbps = min_margin, cs_min_npu_int8_tops = min_tops\<rparr>))))))"

definition is_feasible :: "opt_args \<Rightarrow> cand_summary \<Rightarrow> bool" where
  "is_feasible a s \<longleftrightarrow>
     \<not> sy_any_modeled_throttle_required (cs_summary s)
     \<and> float_le (sy_max_die_temp_c (cs_summary s)) (oa_max_die_c a)
     \<and> float_le (oa_min_bandwidth_margin_gbps a) (cs_min_bandwidth_margin_gbps s)
     \<and> float_le (oa_min_npu_tops a) (cs_min_npu_int8_tops s)"

definition score :: "cand_summary \<Rightarrow> pyfloat" where
  "score s =
     float_sub
       (float_add (float_mul (sy_min_composite_perf_per_w (cs_summary s)) (float_lit 1000000))
                  (float_mul (cs_min_npu_int8_tops s) (float_lit 100)))
       (float_mul (sy_max_total_power_w (cs_summary s)) (float_lit 10))"

section \<open>The search\<close>

record search =
  se_best :: "(soc_report \<times> cand_summary) option"
  se_best_score :: pyfloat
  se_feasible_count :: nat
  se_evaluated_count :: nat

definition search_start :: search where
  "search_start = \<lparr>se_best = None, se_best_score = NInf, se_feasible_count = 0, se_evaluated_count = 0\<rparr>"

type_synonym point = "pyfloat \<times> pyfloat \<times> pyfloat \<times> int"

text \<open>A point is evaluated: its report and its summary.\<close>

fun evaluate :: "world \<Rightarrow> ppath \<Rightarrow> opt_args \<Rightarrow> point \<Rightarrow> (soc_report \<times> cand_summary) py" where
  "evaluate w repo a (cpu, npu, tops, memory) =
     rbind (pynum (float_of_int memory)) (\<lambda>m.
     rbind (report_for w repo a cpu npu tops m) (\<lambda>report.
     rbind (summarize_candidate report) (\<lambda>summary. Inr (report, summary))))"

definition try_point :: "world \<Rightarrow> ppath \<Rightarrow> opt_args \<Rightarrow> point \<Rightarrow> search \<Rightarrow> search py" where
  "try_point w repo a p st =
     rbind (evaluate w repo a p) (\<lambda>(report, summary).
     let st = st\<lparr>se_evaluated_count := Suc (se_evaluated_count st)\<rparr> in
     if \<not> is_feasible a summary then Inr st
     else
       let st = st\<lparr>se_feasible_count := Suc (se_feasible_count st)\<rparr> in
       Inr (if float_lt (se_best_score st) (score summary)
            then st\<lparr>se_best := Some (report, summary), se_best_score := score summary\<rparr> else st))"

definition franges :: "pyfloat \<times> pyfloat \<times> pyfloat \<Rightarrow> pyfloat list run" where
  "franges r = (case r of (lo, hi, step) \<Rightarrow> map_option Inr (frange lo hi step))"

definition iranges :: "int \<times> int \<times> int \<Rightarrow> int list run" where
  "iranges r = (case r of (lo, hi, step) \<Rightarrow> Some (irange lo hi step))"

definition search_loop :: "world \<Rightarrow> ppath \<Rightarrow> opt_args \<Rightarrow> search \<Rightarrow> search run" where
  "search_loop w repo a st =
     obind (franges (oa_cpu_power_w a)) (\<lambda>cpus. foldO (\<lambda>cpu st.
     obind (franges (oa_npu_power_w a)) (\<lambda>npus. foldO (\<lambda>npu st.
     obind (franges (oa_npu_tops a)) (\<lambda>tops. foldO (\<lambda>top st.
     obind (iranges (oa_memory_sustained_gbps a)) (\<lambda>memories. foldO (\<lambda>memory st.
       Some (try_point w repo a (cpu, npu, top, memory) st))
     memories st)) tops st)) npus st)) cpus st)"

record optimum =
  om_evaluated_count :: nat
  om_feasible_count :: nat
  om_baseline :: "soc_report \<times> cand_summary"
  om_optimized :: "soc_report \<times> cand_summary"
  om_max_die_c_delta :: pyfloat
  om_max_power_w_delta :: pyfloat
  om_min_composite_perf_per_w_ratio :: pyfloat
  om_min_bandwidth_margin_gbps_delta :: pyfloat

definition improvement :: "nat \<Rightarrow> nat \<Rightarrow> soc_report \<times> cand_summary \<Rightarrow> soc_report \<times> cand_summary \<Rightarrow> optimum py" where
  "improvement evaluated feasible base best =
     (let b = snd base; opt = snd best in
      rbind (pynum (float_div (sy_min_composite_perf_per_w (cs_summary opt)) (sy_min_composite_perf_per_w (cs_summary b))))
        (\<lambda>ratio.
      Inr \<lparr>om_evaluated_count = evaluated, om_feasible_count = feasible, om_baseline = base, om_optimized = best,
           om_max_die_c_delta = float_sub (sy_max_die_temp_c (cs_summary opt)) (sy_max_die_temp_c (cs_summary b)),
           om_max_power_w_delta = float_sub (sy_max_total_power_w (cs_summary opt)) (sy_max_total_power_w (cs_summary b)),
           om_min_composite_perf_per_w_ratio = ratio,
           om_min_bandwidth_margin_gbps_delta =
             float_sub (cs_min_bandwidth_margin_gbps opt) (cs_min_bandwidth_margin_gbps b)\<rparr>))"

definition NO_POINT :: string where "NO_POINT = ''no feasible operating point found''"

definition baseline_for :: "world \<Rightarrow> ppath \<Rightarrow> opt_args \<Rightarrow> (soc_report \<times> cand_summary) py" where
  "baseline_for w repo a =
     rbind (report_for w repo a (oa_baseline_cpu_power_w a) (oa_baseline_npu_power_w a)
       (oa_baseline_npu_tops a) (oa_baseline_memory_sustained_gbps a)) (\<lambda>report.
     rbind (summarize_candidate report) (\<lambda>summary. Inr (report, summary)))"

definition optimize :: "world \<Rightarrow> ppath \<Rightarrow> opt_args \<Rightarrow> optimum run" where
  "optimize w repo a =
     obind (Some (baseline_for w repo a)) (\<lambda>baseline.
     obind (search_loop w repo a search_start) (\<lambda>st.
     Some (case se_best st of
         None \<Rightarrow> Inl (PySystemExit NO_POINT)
       | Some best \<Rightarrow> improvement (se_evaluated_count st) (se_feasible_count st) baseline best)))"

section \<open>The report\<close>

definition cand_summary_json :: "cand_summary \<Rightarrow> pyv" where
  "cand_summary_json s = PDict (summary_fields (cs_summary s) @
     [(''min_bandwidth_margin_gbps'', PFloat (cs_min_bandwidth_margin_gbps s)),
      (''min_npu_int8_tops'', PFloat (cs_min_npu_int8_tops s))])"

definition candidate_payload :: "soc_report \<times> cand_summary \<Rightarrow> pyv" where
  "candidate_payload c = PDict
     [(''config'', config_json (rp_config (fst c))), (''summary'', cand_summary_json (snd c)),
      (''process_corners'', PList (map corner_json (rp_corners (fst c))))]"

definition floats_json :: "pyfloat \<times> pyfloat \<times> pyfloat \<Rightarrow> pyv" where
  "floats_json r = (case r of (x, y, z) \<Rightarrow> PList [PFloat x, PFloat y, PFloat z])"

definition ints_json :: "int \<times> int \<times> int \<Rightarrow> pyv" where
  "ints_json r = (case r of (x, y, z) \<Rightarrow> PList [PInt x, PInt y, PInt z])"

definition optimum_json :: "opt_args \<Rightarrow> optimum \<Rightarrow> pyv" where
  "optimum_json a m = PDict
     [(''schema'', PStr ''openagent.soc_cpu_npu_operating_point_optimization.v1''), (''status'', PStr ''pass''),
      (''evidence_class'', PStr ''deterministic_combined_cpu_npu_arch_model_optimization''),
      (''claim_boundary'', PStr CLAIM_BOUNDARY), (''benchmark_success_allowed'', PBool True),
      (''release_use'', PStr RELEASE_USE),
      (''constraints'', PDict
        [(''max_die_c'', PFloat (oa_max_die_c a)),
         (''min_bandwidth_margin_gbps'', PFloat (oa_min_bandwidth_margin_gbps a)),
         (''min_npu_tops'', PFloat (oa_min_npu_tops a)), (''requires_no_modeled_throttle'', PBool True)]),
      (''search_space'', PDict
        [(''evaluated_count'', PInt (int (om_evaluated_count m))),
         (''feasible_count'', PInt (int (om_feasible_count m))),
         (''cpu_power_w'', floats_json (oa_cpu_power_w a)), (''npu_power_w'', floats_json (oa_npu_power_w a)),
         (''npu_tops'', floats_json (oa_npu_tops a)),
         (''memory_sustained_gbps'', ints_json (oa_memory_sustained_gbps a))]),
      (''baseline'', candidate_payload (om_baseline m)), (''optimized'', candidate_payload (om_optimized m)),
      (''improvement'', PDict
        [(''baseline_any_throttle'',
            PBool (sy_any_modeled_throttle_required (cs_summary (snd (om_baseline m))))),
         (''optimized_any_throttle'',
            PBool (sy_any_modeled_throttle_required (cs_summary (snd (om_optimized m))))),
         (''max_die_c_delta'', PFloat (om_max_die_c_delta m)),
         (''max_power_w_delta'', PFloat (om_max_power_w_delta m)),
         (''min_composite_perf_per_w_ratio'', PFloat (om_min_composite_perf_per_w_ratio m)),
         (''min_bandwidth_margin_gbps_delta'', PFloat (om_min_bandwidth_margin_gbps_delta m))]),
      (''artifacts'', artifacts_json (fst (om_optimized m)))]"

definition optimize_main :: "world \<Rightarrow> ppath \<Rightarrow> opt_args \<Rightarrow> ppath \<Rightarrow> (world \<times> string) run" where
  "optimize_main w repo a out_arg =
     obind (optimize w repo a) (\<lambda>m.
     let text = json_dumps True (optimum_json a m) @ [CHR 0x0A]; out = path_join repo out_arg
     in Some (Inr (write_file (make_dirs w (path_parent out)) out text, text)))"

end
