(* ===== verification/Soc_Bounds.thy ===== *)
theory Soc_Bounds
  imports Soc_Optimize
begin

text \<open>
  Numeric facts of the operating-point models: ranges of floats end and hold the values they should, extremes are extremes, and
  at a cool operating point every figure of every scenario stays inside bounds that include the
  rounding of each operation, so the report is built and nothing throttles.
\<close>

section \<open>Extremes\<close>

lemma first_max_running: "first_max k (x # xs) = Inr (running (\<lambda>m y. float_lt (k m) (k y)) x xs)"
  and first_min_running: "first_min k (x # xs) = Inr (running (\<lambda>m y. float_lt (k y) (k m)) x xs)"
  by (simp_all add: running_def)

lemma first_max_greatest: "first_max k xs = Inr m \<Longrightarrow> y \<in> set xs \<Longrightarrow> \<not> float_lt (k m) (k y)"
proof (cases xs)
  case (Cons x ys)
  assume "first_max k xs = Inr m" "y \<in> set xs"
  then show ?thesis
    unfolding Cons first_max_running
    using running_extreme [of "\<lambda>m y. float_lt (k m) (k y)" y x ys] float_lt_trans float_lt_irrefl by blast
qed simp

lemma first_min_least: "first_min k xs = Inr m \<Longrightarrow> y \<in> set xs \<Longrightarrow> \<not> float_lt (k y) (k m)"
proof (cases xs)
  case (Cons x ys)
  assume "first_min k xs = Inr m" "y \<in> set xs"
  then show ?thesis
    unfolding Cons first_min_running
    using running_extreme [of "\<lambda>m y. float_lt (k y) (k m)" y x ys] float_lt_trans float_lt_irrefl by blast
qed simp

lemma first_in:
  assumes "xs \<noteq> []"
  shows "\<exists>m. first_max k xs = Inr m \<and> m \<in> set xs" and "\<exists>m. first_min k xs = Inr m \<and> m \<in> set xs"
proof -
  obtain y ys where xs: "xs = y # ys" using assms by (cases xs) auto
  show "\<exists>m. first_max k xs = Inr m \<and> m \<in> set xs"
    unfolding xs first_max_running by (rule exI, rule conjI, rule refl, rule running_in)
  show "\<exists>m. first_min k xs = Inr m \<and> m \<in> set xs"
    unfolding xs first_min_running by (rule exI, rule conjI, rule refl, rule running_in)
qed

section \<open>Ranges\<close>

text \<open>A sum of moderate size loses less than \<open>2^-22\<close>.\<close>

lemma fl_near:
  assumes "1 / 2 ^ 22 \<le> x" and "x \<le> 2 ^ 31"
  shows "\<bar>fl x - x\<bar> \<le> 1 / 2 ^ 22" and "\<not> fl_overflow x"
proof -
  have "pow2 (- 1022) \<le> pow2 (- 22)" by (rule pow2_mono) simp
  also have "\<dots> = 1 / 2 ^ 22" by (simp add: pow2_def power_int_minus inverse_eq_divide)
  finally have "\<bar>fl x - x\<bar> \<le> x * pow2 (- 53)" using assms(1) by (intro fl_error) linarith
  also have "\<dots> = x / 2 ^ 53" by (simp add: pow2_def power_int_minus inverse_eq_divide)
  also have "\<dots> \<le> 1 / 2 ^ 22" using assms(2) by simp
  finally show "\<bar>fl x - x\<bar> \<le> 1 / 2 ^ 22" .
  show "\<not> fl_overflow x" using assms by (intro fl_overflow_small) (auto intro: order_trans [rotated])
qed

lemma near_iff: "\<bar>r - x\<bar> * 4194304 \<le> 1 \<longleftrightarrow> x - 1 / 4194304 \<le> r \<and> r \<le> x + (1 :: rat) / 4194304"
  by (auto simp: abs_if field_simps)

lemma float_add_near:
  assumes "1 / 2 ^ 22 \<le> q + s" and "q + s \<le> 2 ^ 31"
  shows "\<exists>r. float_add (Fin q) (Fin s) = Fin r \<and> \<bar>r - (q + s)\<bar> \<le> 1 / 2 ^ 22"
  using fl_near [OF assms] by (simp add: float_add_def to_float_def)

lemma half_near:
  assumes "1 / 2 ^ 20 \<le> s" and "s \<le> 2 ^ 29"
  shows "\<exists>h. half (Fin s) = Fin h \<and> \<bar>h - s / 2\<bar> \<le> 1 / 2 ^ 22"
proof -
  have "float_lit 2 = Fin 2" using fl_numeral [of "Num.Bit0 Num.One"] by simp
  moreover have "1 / 2 ^ 22 \<le> s / 2" "s / 2 \<le> 2 ^ 31" using assms by simp_all
  ultimately show ?thesis using fl_near [of "s / 2"] by (simp add: half_def float_div_def to_float_def)
qed

lemma frange_from_returns:
  assumes "1 / 2 ^ 20 \<le> s" and "s \<le> 2 ^ 29" and "b \<le> 2 ^ 30"
  shows "0 \<le> q \<Longrightarrow> b - q < of_nat n * (s / 2) \<Longrightarrow>
    \<exists>xs. frange_from (Fin q) (Fin b) (Fin s) = Some xs \<and> length xs \<le> n"
proof (induction n arbitrary: q)
  case 0
  then show ?case by (simp add: frange_from.simps)
next
  case (Suc n)
  show ?case
  proof (cases "q \<le> b")
    case True
    have "1 / 2 ^ 22 \<le> q + s" "q + s \<le> 2 ^ 31" using assms Suc.prems(1) True by simp_all
    then obtain r where r: "float_add (Fin q) (Fin s) = Fin r" "\<bar>r - (q + s)\<bar> \<le> 1 / 2 ^ 22"
      using float_add_near by blast
    have step: "q + s / 2 \<le> r" using r(2) assms(1) by (simp add: near_iff)
    have "0 \<le> r" "b - r < of_nat n * (s / 2)"
      using step Suc.prems assms(1) by (simp_all add: algebra_simps)
    from Suc.IH [OF this] obtain xs where "frange_from (Fin r) (Fin b) (Fin s) = Some xs" "length xs \<le> n" by blast
    then show ?thesis using True r(1) by (subst frange_from.simps) simp
  next
    case False
    then show ?thesis by (subst frange_from.simps) simp
  qed
qed

text \<open>For any step of at least \<open>2^-20\<close> and any bounds the loop ends.\<close>

lemma frange_terminates:
  assumes "0 \<le> a" and "a \<le> b" and "b \<le> 2 ^ 29" and "1 / 2 ^ 20 \<le> s" and "s \<le> 2 ^ 29"
  shows "\<exists>xs. frange (Fin a) (Fin b) (Fin s) = Some (round6 (Fin a) # xs) \<and> of_nat (length xs) * s \<le> 2 * (b - a) + 2 * s"
proof -
  obtain h where h: "half (Fin s) = Fin h" "\<bar>h - s / 2\<bar> \<le> 1 / 2 ^ 22" using half_near [OF assms(4,5)] by blast
  have "1 / 2 ^ 22 \<le> b + h" "b + h \<le> 2 ^ 31" using h(2) assms by (simp_all add: near_iff)
  then obtain l where l: "float_add (Fin b) (Fin h) = Fin l" "\<bar>l - (b + h)\<bar> \<le> 1 / 2 ^ 22"
    using float_add_near by blast
  have bl: "b \<le> l" "l \<le> b + s" "l \<le> 2 ^ 30"
    using h(2) l(2) assms by (simp_all add: near_iff)
  define n where "n = Suc (nat \<lfloor>(l - a) / (s / 2)\<rfloor>)"
  have s: "0 < s" using assms(4) by (rule less_le_trans [rotated]) simp
  have pos: "0 \<le> (l - a) / (s / 2)" using bl assms s by simp
  have n: "(l - a) / (s / 2) < of_nat n" "of_nat n \<le> (l - a) / (s / 2) + 1"
    using pos floor_correct [of "(l - a) / (s / 2)"] by (simp_all add: n_def)
  have "l - a < of_nat n * (s / 2)" using n(1) s by (simp add: pos_divide_less_eq)
  from frange_from_returns [OF assms(4,5) bl(3) assms(1) this] obtain ys where
    ys: "frange_from (Fin a) (Fin l) (Fin s) = Some ys" "length ys \<le> n" by blast
  then obtain xs where xs: "ys = round6 (Fin a) # xs"
    using bl(1) assms(2) by (subst (asm) frange_from.simps) (auto split: bind_splits)
  have "of_nat (length ys) \<le> (l - a) / (s / 2) + 1" using ys(2) n(2) by (meson of_nat_le_iff order_trans)
  then have "of_nat (length ys) * s \<le> ((l - a) / (s / 2) + 1) * s" using s by (intro mult_right_mono) simp_all
  also have "\<dots> = 2 * (l - a) + s" using s by (simp add: field_simps)
  finally have "of_nat (length xs) * s \<le> 2 * (b - a) + 2 * s" using bl(2) xs by (simp add: algebra_simps)
  then show ?thesis using ys(1) xs h(1) l(1) by (simp add: frange_def)
qed

text \<open>When the stop is close to a whole number of steps from the start, the loop runs exactly so many
times and once more: the accumulated rounding of \<open>k\<close> additions does not reach half a step.\<close>

lemma frange_from_values:
  assumes "1 / 2 ^ 20 \<le> s" and "s \<le> 2 ^ 29" and "l \<le> 2 ^ 30"
  shows "0 \<le> q \<Longrightarrow> q + of_nat n * (s + 1 / 2 ^ 22) \<le> l \<Longrightarrow> l < q + of_nat (Suc n) * (s - 1 / 2 ^ 22) \<Longrightarrow>
    \<exists>xs. frange_from (Fin q) (Fin l) (Fin s) = Some xs \<and> length xs = Suc n
      \<and> (\<forall>i \<le> n. \<exists>c. xs ! i = round6 (Fin c) \<and> \<bar>c - (q + of_nat i * s)\<bar> \<le> of_nat i / 2 ^ 22)"
proof (induction n arbitrary: q)
  case 0
  have "1 / 2 ^ 22 \<le> q + s" "q + s \<le> 2 ^ 31" using assms 0 by simp_all
  then obtain r where r: "float_add (Fin q) (Fin s) = Fin r" "\<bar>r - (q + s)\<bar> \<le> 1 / 2 ^ 22"
    using float_add_near by blast
  have "\<not> r \<le> l" using r(2) 0 by (simp add: near_iff)
  then have "frange_from (Fin r) (Fin l) (Fin s) = Some []" by (subst frange_from.simps) simp
  then have "frange_from (Fin q) (Fin l) (Fin s) = Some [round6 (Fin q)]"
    using 0 r(1) by (subst frange_from.simps) simp
  then show ?case by auto
next
  case (Suc n)
  have n: "0 \<le> of_nat n * (s + 1 / 2 ^ 22)" using assms(1) by (intro mult_nonneg_nonneg) auto
  have s: "of_nat (Suc n) * (s + 1 / 2 ^ 22) = of_nat n * (s + 1 / 2 ^ 22) + s + 1 / 2 ^ 22"
    "of_nat (Suc (Suc n)) * (s - 1 / 2 ^ 22) = of_nat (Suc n) * (s - 1 / 2 ^ 22) + s - 1 / 2 ^ 22"
    by (simp_all add: algebra_simps)
  have q: "q + s \<le> l" using Suc.prems(2) n unfolding s by simp
  then have "q \<le> l" using assms(1) by (intro order_trans [OF _ q]) (auto intro: order_trans [rotated])
  have "1 / 2 ^ 22 \<le> q + s" "q + s \<le> 2 ^ 31" using assms Suc.prems(1) q by simp_all
  then obtain r where r: "float_add (Fin q) (Fin s) = Fin r" "\<bar>r - (q + s)\<bar> \<le> 1 / 2 ^ 22"
    using float_add_near by blast
  then have rb: "q + s - 1 / 2 ^ 22 \<le> r" "r \<le> q + s + 1 / 2 ^ 22" by (simp_all add: near_iff)
  have "0 \<le> r" using rb(1) assms(1) Suc.prems(1) by simp
  moreover have "r + of_nat n * (s + 1 / 2 ^ 22) \<le> l" using Suc.prems(2) rb(2) unfolding s by linarith
  moreover have "l < r + of_nat (Suc n) * (s - 1 / 2 ^ 22)" using Suc.prems(3) rb(1) unfolding s by linarith
  ultimately obtain xs where xs: "frange_from (Fin r) (Fin l) (Fin s) = Some xs" "length xs = Suc n"
    "\<forall>i \<le> n. \<exists>c. xs ! i = round6 (Fin c) \<and> \<bar>c - (r + of_nat i * s)\<bar> \<le> of_nat i / 2 ^ 22"
    using Suc.IH by blast
  have "\<exists>c. (round6 (Fin q) # xs) ! i = round6 (Fin c) \<and> \<bar>c - (q + of_nat i * s)\<bar> \<le> of_nat i / 2 ^ 22" if "i \<le> Suc n" for i
  proof (cases i)
    case (Suc j)
    with that xs(3) obtain c where c: "xs ! j = round6 (Fin c)" "\<bar>c - (r + of_nat j * s)\<bar> \<le> of_nat j / 2 ^ 22" by auto
    have "c - (q + of_nat i * s) = (c - (r + of_nat j * s)) + (r - (q + s))" by (simp add: Suc algebra_simps)
    then have "\<bar>c - (q + of_nat i * s)\<bar> \<le> of_nat j / 2 ^ 22 + 1 / 2 ^ 22"
      using c(2) r(2) by linarith
    also have "\<dots> = of_nat i / 2 ^ 22" by (simp add: Suc add_divide_distrib)
    finally show ?thesis using c(1) Suc by auto
  qed auto
  then show ?case using xs(1,2) r(1) \<open>q \<le> l\<close> by (subst frange_from.simps) simp
qed

lemma abs_near: "\<bar>x - y\<bar> \<le> e \<Longrightarrow> y - e \<le> x \<and> x \<le> y + (e :: rat)"
  by linarith

lemma round6_near:
  assumes "0 \<le> q" and "q \<le> 2 ^ 30"
  shows "\<exists>v. round6 (Fin q) = Fin v \<and> \<bar>v - q\<bar> \<le> 1 / 10 ^ 6"
proof -
  define m where "m = round_even (q * 10 ^ 6)"
  have m: "\<bar>of_int m - q * 10 ^ 6\<bar> \<le> 1 / 2" unfolding m_def by (rule round_even_error)
  have r6: "round6 (Fin q) = to_float (of_int m / 10 ^ 6)" by (simp add: round6_def m_def)
  show ?thesis
  proof (cases "m \<le> 0")
    case True
    have "0 \<le> q * 10 ^ 6" using assms(1) by simp
    then have "- 1 < rat_of_int m" using m by linarith
    then have "m = 0" using True by linarith
    then have "round6 (Fin q) = Fin 0" using r6 to_float_int [of 0] by simp
    then show ?thesis using m assms(1) \<open>m = 0\<close> by auto
  next
    case False
    then have one: "1 \<le> rat_of_int m" by simp
    define x where "x = rat_of_int m / 10 ^ 6"
    have x: "\<bar>x - q\<bar> \<le> 1 / (2 * 10 ^ 6)" using m by (simp add: x_def abs_if field_simps split: if_splits)
    have b: "1 / 2 ^ 22 \<le> x" "x \<le> 2 ^ 31" using one x assms(2) by (simp_all add: x_def abs_if field_simps split: if_splits)
    have "round6 (Fin q) = Fin (fl x)" using fl_near(2) [OF b] unfolding r6 x_def by (simp add: to_float_def)
    moreover have "\<bar>fl x - q\<bar> \<le> 1 / 2 ^ 22 + 1 / (2 * 10 ^ 6)" using fl_near(1) [OF b] x by linarith
    ultimately show ?thesis by auto
  qed
qed

text \<open>C32: Let the stop be within a quarter of a step of \<open>k\<close> steps above a start that is not negative, with a stop and
a step of at most \<open>2^29\<close> and a step of at least \<open>(k + 4) / 2^20\<close>. Then the loop of \<open>frange\<close> returns exactly \<open>k + 1\<close>
values: the start, the end and every step between, each within \<open>10^-6\<close> (the rounding to six digits) and
\<open>2^-22\<close> for each addition before it.\<close>
theorem frange_returns:
  assumes "0 \<le> a" and "b \<le> 2 ^ 29" and "s \<le> 2 ^ 29" and "of_nat (k + 4) \<le> s * 2 ^ 20"
    and "\<bar>b - (a + of_nat k * s)\<bar> \<le> s / 4"
  shows "\<exists>xs. frange (Fin a) (Fin b) (Fin s) = Some xs \<and> length xs = k + 1
    \<and> (\<forall>i \<le> k. \<exists>v. xs ! i = Fin v \<and> \<bar>v - (a + of_nat i * s)\<bar> \<le> of_nat i / 2 ^ 22 + 1 / 10 ^ 6)"
proof -
  have k: "of_nat k / 2 ^ 22 + 4 * (1 / 2 ^ 22) \<le> s / 4" using assms(4) by simp
  have k0: "0 \<le> (of_nat k :: rat)" by simp
  then have s: "1 / 2 ^ 20 \<le> s" using k by simp
  obtain h where h: "half (Fin s) = Fin h" "\<bar>h - s / 2\<bar> \<le> 1 / 2 ^ 22" using half_near [OF s assms(3)] by blast
  have ks: "0 \<le> of_nat k * s" using s by (intro mult_nonneg_nonneg) auto
  have b: "a + of_nat k * s - s / 4 \<le> b" "b \<le> a + of_nat k * s + s / 4" using assms(5) by linarith+
  have hb: "s / 2 - 1 / 2 ^ 22 \<le> h" "h \<le> s / 2 + 1 / 2 ^ 22" using h(2) by linarith+
  have "- (s / 4) \<le> b" using b(1) ks assms(1) by linarith
  then have "1 / 2 ^ 22 \<le> b + h" using hb(1) k k0 by simp
  moreover have "b + h \<le> 2 ^ 31" using hb(2) assms(2,3) by simp
  ultimately obtain l where l: "float_add (Fin b) (Fin h) = Fin l" "\<bar>l - (b + h)\<bar> \<le> 1 / 2 ^ 22"
    using float_add_near by blast
  have lb: "b + s / 2 - 2 * (1 / 2 ^ 22) \<le> l" "l \<le> b + s / 2 + 2 * (1 / 2 ^ 22)" "l \<le> 2 ^ 30"
    using h(2) l(2) assms(2,3) by (simp_all add: near_iff)
  have d: "0 < 1 / (2 :: rat) ^ 22" by simp
  have e: "of_nat k * (s + 1 / 2 ^ 22) = of_nat k * s + of_nat k / 2 ^ 22"
    "of_nat (Suc k) * (s - 1 / 2 ^ 22) = of_nat k * s + s - of_nat k / 2 ^ 22 - 1 / 2 ^ 22"
    by (simp_all add: algebra_simps)
  have ends: "a + of_nat k * (s + 1 / 2 ^ 22) \<le> l" "l < a + of_nat (Suc k) * (s - 1 / 2 ^ 22)"
    unfolding e using lb(1,2) b k d by (linarith, linarith)
  from frange_from_values [OF s assms(3) lb(3) assms(1) ends] obtain xs where
    xs: "frange_from (Fin a) (Fin l) (Fin s) = Some xs" "length xs = Suc k"
      "\<forall>i \<le> k. \<exists>c. xs ! i = round6 (Fin c) \<and> \<bar>c - (a + of_nat i * s)\<bar> \<le> of_nat i / 2 ^ 22" by blast
  have "\<exists>v. xs ! i = Fin v \<and> \<bar>v - (a + of_nat i * s)\<bar> \<le> of_nat i / 2 ^ 22 + 1 / 10 ^ 6" if i: "i \<le> k" for i
  proof -
    obtain c where c: "xs ! i = round6 (Fin c)" "\<bar>c - (a + of_nat i * s)\<bar> \<le> of_nat i / 2 ^ 22" using xs(3) i by blast
    have "of_nat i * (s + 1 / 2 ^ 22) \<le> of_nat k * (s + 1 / 2 ^ 22)" "0 \<le> of_nat i * (s - 1 / 2 ^ 22)"
      using i s by (auto intro!: mult_right_mono mult_nonneg_nonneg)
    then have w: "of_nat i * s + of_nat i / 2 ^ 22 \<le> of_nat k * (s + 1 / 2 ^ 22)" "of_nat i / 2 ^ 22 \<le> of_nat i * s"
      by (simp_all add: distrib_left right_diff_distrib)
    have "a + of_nat i * s - of_nat i / 2 ^ 22 \<le> c" "c \<le> a + of_nat i * s + of_nat i / 2 ^ 22"
      using abs_near [OF c(2)] by simp_all
    with w ends(1) lb(3) assms(1) have "0 \<le> c" "c \<le> 2 ^ 30" by linarith+
    then obtain v where v: "round6 (Fin c) = Fin v" "\<bar>v - c\<bar> \<le> 1 / 10 ^ 6" using round6_near by blast
    have "\<bar>v - (a + of_nat i * s)\<bar> \<le> of_nat i / 2 ^ 22 + 1 / 10 ^ 6" using v(2) c(2) by linarith
    then show ?thesis using c(1) v(1) by auto
  qed
  with xs(1,2) show ?thesis using h(1) l(1) by (simp add: frange_def)
qed

lemma frange_returns_witness:
  "\<exists>xs. frange (Fin 1) (Fin 4) (Fin (1 / 2)) = Some xs \<and> length xs = 7"
  using frange_returns [of 1 4 "1 / 2" 6] by auto

text \<open>A step too small to change the float never ends the loop.\<close>

lemma frange_stuck:
  assumes "float_add start step = start" and "float_le start (float_add stop (half step))"
  shows "frange start stop step = None"
proof (rule ccontr)
  assume "frange start stop step \<noteq> None"
  then obtain r where r: "frange_from start (float_add stop (half step)) step = Some r" by (auto simp: frange_def)
  have "\<not> (c = start \<and> b = float_add stop (half step) \<and> d = step)"
    if "frange_from c b d = Some r" for c b d r
  proof (rule frange_from.raw_induct
      [where P = "\<lambda>c b d r. \<not> (c = start \<and> b = float_add stop (half step) \<and> d = step)", OF _ that])
    fix f c b d r
    assume "\<And>c b d r. f c b d = Some r \<Longrightarrow> \<not> (c = start \<and> b = float_add stop (half step) \<and> d = step)"
      and "(if float_le c b then Option.bind (f (float_add c d) b d) (\<lambda>vs. Some (round6 c # vs)) else Some []) = Some r"
    then show "\<not> (c = start \<and> b = float_add stop (half step) \<and> d = step)"
      using assms by (auto split: if_splits bind_splits)
  qed
  with r show False by blast
qed

lemma frange_zero_step: "frange (Fin 1) (Fin 2) (Fin 0) = None"
  by (rule frange_stuck) code_simp+

section \<open>Bounds with rounding\<close>

text \<open>A finite float between two rationals; each rounded operation costs \<open>2^-22\<close> on both sides.\<close>

definition between :: "rat \<Rightarrow> rat \<Rightarrow> pyfloat \<Rightarrow> bool" where
  "between lo hi x \<longleftrightarrow> (\<exists>q. x = Fin q \<and> lo \<le> q \<and> q \<le> hi)"

named_theorems between_rules \<open>bounds of the float operations\<close>

lemma to_float_stays_between:
  assumes "1 / 4194304 \<le> z" and "z \<le> 2147483648" and "lo + 1 / 4194304 \<le> z" and "z + 1 / 4194304 \<le> hi"
  shows "between lo hi (to_float z)"
proof -
  have "\<bar>fl z - z\<bar> * 4194304 \<le> 1" "\<not> fl_overflow z" using fl_near [of z] assms(1,2) by simp_all
  then show ?thesis using assms(3,4) by (auto simp: near_iff between_def to_float_def)
qed

lemma between_lit [between_rules]:
  "1 / 4194304 \<le> z \<Longrightarrow> z \<le> 2147483648 \<Longrightarrow> lo + 1 / 4194304 \<le> z \<Longrightarrow> z + 1 / 4194304 \<le> hi \<Longrightarrow>
   between lo hi (float_lit z)"
  using to_float_stays_between [of z lo hi] fl_near [of z] by (simp add: to_float_def)

lemma between_add [between_rules]:
  assumes "between a b x" and "between c d y" and "1 / 4194304 \<le> a + c" and "b + d \<le> 2147483648"
    and "lo + 1 / 4194304 \<le> a + c" and "b + d + 1 / 4194304 \<le> hi"
  shows "between lo hi (float_add x y)"
proof -
  obtain p q where pq: "x = Fin p" "y = Fin q" "a \<le> p" "p \<le> b" "c \<le> q" "q \<le> d"
    using assms(1,2) by (auto simp: between_def)
  have "between lo hi (to_float (p + q))" by (rule to_float_stays_between) (use pq assms(3-6) in linarith)+
  then show ?thesis by (simp add: pq float_add_def)
qed

lemma between_sub [between_rules]:
  assumes "between a b x" and "between c d y" and "1 / 4194304 \<le> a - d" and "b - c \<le> 2147483648"
    and "lo + 1 / 4194304 \<le> a - d" and "b - c + 1 / 4194304 \<le> hi"
  shows "between lo hi (float_sub x y)"
proof -
  obtain p q where pq: "x = Fin p" "y = Fin q" "a \<le> p" "p \<le> b" "c \<le> q" "q \<le> d"
    using assms(1,2) by (auto simp: between_def)
  have "between lo hi (to_float (p - q))" by (rule to_float_stays_between) (use pq assms(3-6) in linarith)+
  then show ?thesis by (simp add: pq float_add_def float_sub_def float_neg_def)
qed

lemma between_mul [between_rules]:
  assumes "between a b x" and "between c d y" and "0 \<le> a" and "0 \<le> c" and "1 / 4194304 \<le> a * c"
    and "b * d \<le> 2147483648" and "lo + 1 / 4194304 \<le> a * c" and "b * d + 1 / 4194304 \<le> hi"
  shows "between lo hi (float_mul x y)"
proof -
  obtain p q where pq: "x = Fin p" "y = Fin q" "a \<le> p" "p \<le> b" "c \<le> q" "q \<le> d"
    using assms(1,2) by (auto simp: between_def)
  have "a * c \<le> p * q" "p * q \<le> b * d" using pq assms(3,4) by (auto intro!: mult_mono)
  then have "between lo hi (to_float (p * q))" by - (rule to_float_stays_between; use assms(5-8) in linarith)
  then show ?thesis by (simp add: pq float_mul_def)
qed

lemma between_div:
  assumes "between a b x" and "between c d y" and "0 \<le> a" and "0 < c" and "1 / 4194304 \<le> a / d"
    and "b / c \<le> 2147483648" and "lo + 1 / 4194304 \<le> a / d" and "b / c + 1 / 4194304 \<le> hi"
  shows "\<exists>z. float_div x y = Inr z \<and> between lo hi z"
proof -
  obtain p q where pq: "x = Fin p" "y = Fin q" "a \<le> p" "p \<le> b" "c \<le> q" "q \<le> d"
    using assms(1,2) by (auto simp: between_def)
  have "a / d \<le> p / q" "p / q \<le> b / c" using pq assms(3,4) by (auto intro!: frac_le)
  then have "between lo hi (to_float (p / q))" by - (rule to_float_stays_between; use assms(5-8) in linarith)
  then show ?thesis using pq assms(4) by (simp add: float_div_def)
qed

lemma between_less: "between a b x \<Longrightarrow> b \<le> c \<Longrightarrow> \<not> float_lt (Fin c) x"
  and between_more: "between a b x \<Longrightarrow> c \<le> a \<Longrightarrow> \<not> float_lt x (Fin c)"
  and between_le: "between a b x \<Longrightarrow> b \<le> c \<Longrightarrow> float_le x (Fin c)"
  and between_pos: "between a b x \<Longrightarrow> 0 < a \<Longrightarrow> float_lt (Fin 0) x"
  and between_ge: "between a b x \<Longrightarrow> c \<le> a \<Longrightarrow> float_le (Fin c) x"
  by (auto simp: between_def)

section \<open>A cool operating point\<close>

definition corner_ok :: "soc_corner \<Rightarrow> bool" where
  "corner_ok c \<longleftrightarrow> between (7 / 10) (12 / 10) (so_cpu_frequency_derate c)
     \<and> between (8 / 10) (11 / 10) (so_cpu_ipc_derate c)
     \<and> between (71 / 100) (12 / 10) (so_npu_frequency_derate c) \<and> between (76 / 100) (11 / 10) (so_npu_memory_derate c)
     \<and> between (8 / 10) (122 / 100) (so_dynamic_power_scale c) \<and> between (6 / 10) (226 / 100) (so_leakage_power_scale c)
     \<and> between (9 / 10) (136 / 100) (so_thermal_resistance_scale c)"

definition scenario_ok :: "soc_scenario \<Rightarrow> bool" where
  "scenario_ok s \<longleftrightarrow> between (3 / 10) (93 / 100) (sn_cpu_active_fraction s)
     \<and> between (2 / 10) (89 / 100) (sn_npu_active_fraction s)
     \<and> between 70 119 (sn_memory_bandwidth_gbps s) \<and> between 11 35 (sn_display_camera_gbps s)"

lemma corners_ok: "\<forall>c \<in> set SOC_CORNERS. corner_ok c"
  by (auto simp: SOC_CORNERS_def corner_ok_def intro!: between_lit)

lemma scenarios_ok: "\<forall>s \<in> set SCENARIOS. scenario_ok s"
  by (auto simp: SCENARIOS_def scenario_ok_def intro!: between_lit)

definition cool :: "soc_args \<Rightarrow> bool" where
  "cool a \<longleftrightarrow> between 1 3 (sa_cpu_base_ipc a) \<and> 1000 \<le> sa_cpu_base_frequency_hz a \<and> sa_cpu_base_frequency_hz a \<le> 4 * 10 ^ 9
     \<and> between (1 / 2) 1 (sa_cpu_base_power_w a) \<and> between (1 / 2) 1 (sa_npu_base_power_w a)
     \<and> between 38 100 (sa_npu_base_tops a) \<and> between 240 1000 (sa_memory_sustained_gbps a)
     \<and> between 20 25 (sa_ambient_c a)"

lemma block_power_between:
  assumes "between (1 / 2) 1 base" and "between (2 / 10) (93 / 100) act" and "between (15 / 100) (201 / 1000) leak" and "corner_ok c"
  shows "between (1 / 10) (16 / 10) (block_power base act leak c)"
proof -
  have c: "between (8 / 10) (122 / 100) (so_dynamic_power_scale c)" "between (6 / 10) (226 / 100) (so_leakage_power_scale c)"
    using assms(4) by (simp_all add: corner_ok_def)
  have "between (99 / 1000) (931 / 1000) (float_mul base act)" by (rule between_mul [OF assms(1,2)]) simp_all
  from between_mul [OF this c(1), where lo = "79 / 1000" and hi = "1136 / 1000"]
  have dyn: "between (79 / 1000) (1136 / 1000) (float_mul (float_mul base act) (so_dynamic_power_scale c))" by simp
  have "between (74 / 1000) (202 / 1000) (float_mul base leak)" by (rule between_mul [OF assms(1,3)]) simp_all
  from between_mul [OF this c(2), where lo = "44 / 1000" and hi = "458 / 1000"]
  have "between (44 / 1000) (458 / 1000) (float_mul (float_mul base leak) (so_leakage_power_scale c))" by simp
  from between_add [OF dyn this] show ?thesis unfolding block_power_def by simp
qed

lemma scaled_frequency_returns:
  assumes "between (7 / 10) (12 / 10) d" and "1000 \<le> hz" and "hz \<le> 4 * 10 ^ 9"
  shows "\<exists>n. scaled_frequency hz d = Inr n \<and> 0 < n"
proof -
  obtain q where q: "d = Fin q" "7 / 10 \<le> q" "q \<le> 2" using assms(1) by (auto simp: between_def)
  have hz: "rat_of_int hz \<le> 4 * 10 ^ 9" using assms(3) by (metis of_int_le_iff of_int_mult of_int_numeral of_int_power)
  then have "of_int hz * q \<le> 4 * 10 ^ 9 * 2" using q assms(2) by (intro mult_mono) simp_all
  then have small: "of_int hz * q < 2 ^ 53" by simp
  have "1000 * (7 / 10) \<le> of_int hz * q" using q assms(2) by (intro mult_mono) simp_all
  then have "1 \<le> fl (of_int hz * q)" using fl_between_ints(2) [OF _ small, of 1] by simp
  then have "0 < \<lfloor>fl (of_int hz * q)\<rfloor>" by (simp add: less_floor_iff)
  moreover have "\<not> fl_overflow (of_int hz * q)" using q assms(2) small by (intro fl_overflow_small) auto
  moreover have "float_of_int hz = Inr (Fin (of_int hz))" using assms by (intro float_of_int_small) auto
  ultimately show ?thesis using q \<open>1 \<le> fl _\<close> by (simp add: scaled_frequency_def float_mul_def to_float_def py_trunc_def)
qed

lemma float_div_returns: "d \<noteq> Fin 0 \<Longrightarrow> \<exists>z. float_div x d = Inr z"
  by (auto simp: float_div_def split: pyfloat.splits)

lemma nano_small: "fl (1 / 10 ^ 9) < 1 / 100"
proof -
  have "pow2 (- 1022) \<le> pow2 (- 30)" by (rule pow2_mono) simp
  also have "pow2 (- 30) \<le> 1 / 10 ^ 9" by (simp add: pow2_def power_int_minus inverse_eq_divide)
  finally have "\<bar>fl (1 / 10 ^ 9) - 1 / 10 ^ 9\<bar> \<le> 1 / 10 ^ 9 * pow2 (- 53)" by (rule fl_error)
  also have "\<dots> \<le> 1 / 10 ^ 9 * 1" using pow2_mono [of "- 53" 0] by (intro mult_left_mono) (simp_all add: pow2_def)
  finally have "\<bar>fl (1 / 10 ^ 9) - 1 / 10 ^ 9\<bar> \<le> 1 / 10 ^ 9 * 1" .
  from abs_le_D1 [OF this] show ?thesis by simp
qed

text \<open>The figures of one scenario at a cool operating point.\<close>

definition cool_row :: "scenario_row \<Rightarrow> bool" where
  "cool_row r \<longleftrightarrow> between 26 95 (rw_die_temp_c r) \<and> between 20 2000 (rw_memory_bandwidth_margin_gbps r)
     \<and> between 20 200 (rw_npu_int8_tops r) \<and> between 1 6 (rw_total_power_w r)
     \<and> between (1 / 10) 30 (rw_composite_perf_per_w r) \<and> \<not> rw_throttle_required r
     \<and> 0 < rw_cpu_frequency_hz r
     \<and> list_all (float_lt (Fin 0)) [rw_cpu_ipc r, rw_memory_bandwidth_demand_gbps r, rw_memory_bandwidth_limit_gbps r,
         rw_cpu_power_w r, rw_npu_power_w r, rw_memory_power_w r, rw_uncore_power_w r, rw_npu_tops_per_w r]"

lemma cool_power:
  assumes a: "cool a" and c: "corner_ok c" and s: "scenario_ok s"
  shows "between (1 / 10) (16 / 10) (cpu_power a s c)" and "between (1 / 10) (16 / 10) (npu_power a s c)"
proof -
  have "between (2 / 10) (93 / 100) (sn_cpu_active_fraction s)" "between (2 / 10) (93 / 100) (sn_npu_active_fraction s)"
    using s by (auto simp: scenario_ok_def between_def)
  moreover have "between (15 / 100) (201 / 1000) (float_lit (16 / 100))" "between (15 / 100) (201 / 1000) (float_lit (20 / 100))"
    by (rule between_lit; simp)+
  ultimately show "between (1 / 10) (16 / 10) (cpu_power a s c)" "between (1 / 10) (16 / 10) (npu_power a s c)"
    using a unfolding cpu_power_def npu_power_def cool_def by (blast intro: block_power_between c)+
qed

lemma cool_supply:
  assumes c: "corner_ok c" and s: "scenario_ok s"
  shows "between (6 / 10) (18 / 10) (memory_power s c)" and "between (4 / 10) (8 / 10) (uncore_power s c)"
proof -
  have s': "between 70 119 (sn_memory_bandwidth_gbps s)" "between 11 35 (sn_display_camera_gbps s)"
    and c': "between (8 / 10) (122 / 100) (so_dynamic_power_scale c)"
    using c s by (simp_all add: scenario_ok_def corner_ok_def)
  have lits: "between (119 / 10000) (121 / 10000) (float_lit (12 / 1000))"
    "between (59 / 10000) (61 / 10000) (float_lit (6 / 1000))" "between (44 / 100) (46 / 100) (float_lit (45 / 100))"
    by (rule between_lit; simp)+
  have "between (83 / 100) (144 / 100) (float_mul (float_lit (12 / 1000)) (sn_memory_bandwidth_gbps s))"
    by (rule between_mul [OF lits(1) s'(1)]) simp_all
  from between_mul [OF this c', where lo = "6 / 10" and hi = "18 / 10"]
  show "between (6 / 10) (18 / 10) (memory_power s c)" by (simp add: memory_power_def)
  have "between (6 / 100) (22 / 100) (float_mul (float_lit (6 / 1000)) (sn_display_camera_gbps s))"
    by (rule between_mul [OF lits(2) s'(2)]) simp_all
  from between_mul [OF this c', where lo = "1 / 100" and hi = "27 / 100"]
  have "between (1 / 100) (27 / 100) (float_mul (float_mul (float_lit (6 / 1000)) (sn_display_camera_gbps s)) (so_dynamic_power_scale c))"
    by simp
  from between_add [OF lits(3) this, where lo = "4 / 10" and hi = "8 / 10"]
  show "between (4 / 10) (8 / 10) (uncore_power s c)" by (simp add: uncore_power_def)
qed

lemma cool_total:
  assumes a: "cool a" and c: "corner_ok c" and s: "scenario_ok s"
  shows "between 1 (581 / 100) (total_power a s c)"
proof -
  have "between (19 / 100) (3201 / 1000) (float_add (cpu_power a s c) (npu_power a s c))"
    by (rule between_add [OF cool_power [OF assms]]) simp_all
  from between_add [OF this cool_supply(1) [OF c s], where lo = "78 / 100" and hi = "5002 / 1000"]
  have "between (78 / 100) (5002 / 1000) (float_add (float_add (cpu_power a s c) (npu_power a s c)) (memory_power s c))" by simp
  from between_add [OF this cool_supply(2) [OF c s], where lo = "1" and hi = "581 / 100"]
  show ?thesis by (simp add: total_power_def)
qed

lemma cool_die:
  assumes "cool a" and "corner_ok c" and "scenario_ok s"
  shows "between 26 95 (die_temp a s c)"
proof -
  have "between 20 25 (sa_ambient_c a)" and trs: "between (9 / 10) (136 / 100) (so_thermal_resistance_scale c)"
    using assms by (simp_all add: cool_def corner_ok_def)
  have "between (879 / 100) (881 / 100) (float_lit (88 / 10))" by (rule between_lit) simp_all
  from between_mul [OF cool_total [OF assms] this, where lo = 8 and hi = "512 / 10"]
  have "between 8 (512 / 10) (float_mul (total_power a s c) (float_lit (88 / 10)))" by simp
  from between_mul [OF this trs, where lo = 7 and hi = "698 / 10"]
  have "between 7 (698 / 10) (float_mul (float_mul (total_power a s c) (float_lit (88 / 10))) (so_thermal_resistance_scale c))" by simp
  from between_add [OF \<open>between 20 25 _\<close> this, where lo = 26 and hi = 95] show ?thesis by (simp add: die_temp_def)
qed

lemma cool_margin:
  assumes "cool a" and "corner_ok c" and "scenario_ok s"
  shows "between 20 2000 (bandwidth_margin a s c)" and "between 182 1101 (bandwidth_limit a c)"
proof -
  have "between 240 1000 (sa_memory_sustained_gbps a)" "between (76 / 100) (11 / 10) (so_npu_memory_derate c)"
    and s: "between 70 119 (sn_memory_bandwidth_gbps s)" "between 11 35 (sn_display_camera_gbps s)"
    using assms by (simp_all add: cool_def corner_ok_def scenario_ok_def)
  from between_mul [OF this(1,2), where lo = 182 and hi = 1101]
  have limit: "between 182 1101 (bandwidth_limit a c)" by (simp add: bandwidth_limit_def)
  then show "between 182 1101 (bandwidth_limit a c)" .
  have "between 80 155 (float_add (sn_memory_bandwidth_gbps s) (sn_display_camera_gbps s))"
    by (rule between_add [OF s]) simp_all
  with limit show "between 20 2000 (bandwidth_margin a s c)" unfolding bandwidth_margin_def by (rule between_sub) simp_all
qed

lemma cool_tops:
  assumes "cool a" and "corner_ok c"
  shows "between 20 200 (npu_tops_at a c)"
proof -
  have "between 38 100 (sa_npu_base_tops a)" "between (71 / 100) (12 / 10) (so_npu_frequency_derate c)"
    and d: "between (76 / 100) (11 / 10) (so_npu_memory_derate c)" using assms by (simp_all add: cool_def corner_ok_def)
  from between_mul [OF this(1,2), where lo = "269 / 10" and hi = 121]
  have "between (269 / 10) 121 (float_mul (sa_npu_base_tops a) (so_npu_frequency_derate c))" by simp
  from between_mul [OF this d, where lo = 20 and hi = 200] show ?thesis by (simp add: npu_tops_at_def)
qed

lemma cool_composite:
  assumes "cool a" and "corner_ok c" and "scenario_ok s"
  shows "\<exists>tenth z. float_div (npu_tops_at a c) (float_lit 10) = Inr tenth
    \<and> float_div (float_add (float_mul (float_mul (sa_cpu_base_ipc a) (so_cpu_ipc_derate c)) (sn_cpu_active_fraction s)) tenth)
        (total_power a s c) = Inr z \<and> between (1 / 10) 30 z"
proof -
  have "between 1 3 (sa_cpu_base_ipc a)" "between (8 / 10) (11 / 10) (so_cpu_ipc_derate c)"
    and s: "between (3 / 10) (93 / 100) (sn_cpu_active_fraction s)"
    using assms by (simp_all add: cool_def corner_ok_def scenario_ok_def)
  from between_mul [OF this(1,2), where lo = "7 / 10" and hi = 4]
  have "between (7 / 10) 4 (float_mul (sa_cpu_base_ipc a) (so_cpu_ipc_derate c))" by simp
  from between_mul [OF this s, where lo = "2 / 10" and hi = 4]
  have perf: "between (2 / 10) 4 (float_mul (float_mul (sa_cpu_base_ipc a) (so_cpu_ipc_derate c)) (sn_cpu_active_fraction s))" by simp
  have "between 9 11 (float_lit 10)" by (rule between_lit) simp_all
  from between_div [OF cool_tops [OF assms(1,2)] this, where lo = 1 and hi = 23]
  obtain tenth where tenth: "float_div (npu_tops_at a c) (float_lit 10) = Inr tenth" "between 1 23 tenth" by auto
  from between_add [OF perf tenth(2), where lo = 1 and hi = 28]
  have "between 1 28 (float_add (float_mul (float_mul (sa_cpu_base_ipc a) (so_cpu_ipc_derate c)) (sn_cpu_active_fraction s)) tenth)"
    by simp
  from between_div [OF this cool_total [OF assms], where lo = "1 / 10" and hi = 30] tenth(1) show ?thesis by auto
qed

lemma cool_scenario:
  assumes "cool a" and "corner_ok c" and "scenario_ok s"
  shows "\<exists>r. scenario_entry a s c = Inr r \<and> cool_row r"
proof -
  obtain hz where hz: "scaled_frequency (sa_cpu_base_frequency_hz a) (so_cpu_frequency_derate c) = Inr hz" "0 < hz"
    using scaled_frequency_returns assms by (auto simp: cool_def corner_ok_def)
  have "fmax (npu_power a s c) [float_lit (1 / 10 ^ 9)] = npu_power a s c"
    using cool_power(2) [OF assms] nano_small by (auto simp: fmax_def between_def)
  with between_div [OF cool_tops [OF assms(1,2)] cool_power(2) [OF assms], where lo = 1 and hi = 2001]
  obtain per_w where per_w: "float_div (npu_tops_at a c) (fmax (npu_power a s c) [float_lit (1 / 10 ^ 9)]) = Inr per_w"
    "between 1 2001 per_w" by auto
  have "between (7 / 10) 4 (float_mul (sa_cpu_base_ipc a) (so_cpu_ipc_derate c))" and demand: "between 70 119 (sn_memory_bandwidth_gbps s)"
    using assms by (auto simp: cool_def corner_ok_def scenario_ok_def intro!: between_mul [of 1 3 _ "8 / 10" "11 / 10"])
  have total: "between 1 6 (total_power a s c)" using cool_total [OF assms] by (auto simp: between_def)
  note positive = \<open>between (7 / 10) 4 _\<close> [THEN between_pos] demand [THEN between_pos] cool_margin(2) [OF assms, THEN between_pos] cool_power [OF assms, THEN between_pos]
    cool_supply [OF assms(2,3), THEN between_pos] per_w(2) [THEN between_pos]
  have "float_lit 95 = Fin 95" using fl_int [of 95] by simp
  then have "\<not> throttle_required (die_temp a s c) (bandwidth_margin a s c)"
    using cool_die [OF assms] cool_margin(1) [OF assms] by (auto simp: throttle_required_def between_def)
  then show ?thesis
    using hz per_w cool_composite [OF assms] cool_die [OF assms] cool_margin(1) [OF assms] cool_tops [OF assms(1,2)]
      total positive by (auto simp: scenario_entry_def cool_row_def Let_def) 
qed

section \<open>The report of a cool point\<close>

lemma mapR_all:
  assumes "\<forall>x \<in> set xs. \<exists>y. f x = Inr y \<and> P y"
  shows "\<exists>ys. mapR f xs = Inr ys \<and> length ys = length xs \<and> (\<forall>y \<in> set ys. P y)"
  using assms
proof (induction xs)
  case (Cons x xs)
  then obtain y ys where "f x = Inr y" "P y" "mapR f xs = Inr ys" "length ys = length xs" "\<forall>y \<in> set ys. P y" by auto
  then show ?case by auto
qed simp

text \<open>The corner of a scenario is always found.\<close>

lemma corner_of_returns:
  assumes "n \<le> fst item" and "fst item < n + length (all_scenarios rs)"
  shows "\<exists>name. corner_of item n rs = Inr name"
  using assms
proof (induction rs arbitrary: n)
  case (Cons r rs)
  let ?rows = "zip [n..<n + length (cw_scenarios r)] (cw_scenarios r)"
  show ?case
  proof (cases "in_scenarios item ?rows")
    case False
    have "n + length (cw_scenarios r) \<le> fst item"
    proof (rule ccontr)
      assume *: "\<not> ?thesis"
      then have "?rows ! (fst item - n) \<in> set ?rows" "fst (?rows ! (fst item - n)) = fst item"
        using Cons.prems(1) by (auto simp: set_zip intro!: exI [of _ "fst item - n"])
      then show False using False by (auto simp: in_scenarios_def list_ex_iff)
    qed
    then have "\<exists>name. corner_of item (n + length (cw_scenarios r)) rs = Inr name"
      using Cons.prems(2) by (intro Cons.IH) (simp_all add: all_scenarios_def)
    then show ?thesis using False by (simp add: Let_def)
  qed (simp add: Let_def)
qed (simp add: all_scenarios_def)

lemma cool_corner:
  assumes "cool a" and "corner_ok c"
  shows "\<exists>r. corner_entry a c = Inr r \<and> cw_scenarios r \<noteq> [] \<and> (\<forall>x \<in> set (cw_scenarios r). cool_row x)"
proof -
  obtain rows where rows: "mapR (\<lambda>s. scenario_entry a s c) SCENARIOS = Inr rows" "length rows = length SCENARIOS"
    "\<forall>x \<in> set rows. cool_row x"
    using mapR_all [of SCENARIOS "\<lambda>s. scenario_entry a s c" cool_row] cool_scenario [OF assms] scenarios_ok by auto
  have "rows \<noteq> []" using rows(2) by (auto simp: SCENARIOS_def)
  then show ?thesis
    using first_in(1) [of rows rw_die_temp_c] first_in(2) [of rows rw_composite_perf_per_w]
      first_in(1) [of "map rw_total_power_w rows" id] rows by (auto simp: corner_entry_def)
qed

lemma enum_in: "x \<in> set (enum xs) \<Longrightarrow> fst x < length xs"
  by (auto simp: enum_def set_zip)

lemma cool_report:
  assumes "cool a" and "wd_file w (path_join repo (path_of PROCESS_EFFECTS)) = Some t"
    and "wd_readable w (path_join repo (path_of PROCESS_EFFECTS))"
  shows "\<exists>r. build_report w repo a = Inr r \<and> rp_config r = a \<and> flatten_scenarios r \<noteq> []
    \<and> (\<forall>x \<in> set (flatten_scenarios r). cool_row x)"
proof -
  obtain rs where rs: "mapR (corner_entry a) SOC_CORNERS = Inr rs" "length rs = length SOC_CORNERS"
    "\<forall>r \<in> set rs. cw_scenarios r \<noteq> [] \<and> (\<forall>x \<in> set (cw_scenarios r). cool_row x)"
    using mapR_all [of SOC_CORNERS "corner_entry a" "\<lambda>r. cw_scenarios r \<noteq> [] \<and> (\<forall>x \<in> set (cw_scenarios r). cool_row x)"]
      cool_corner [OF assms(1)] corners_ok by auto
  have "\<exists>r. r \<in> set rs" using rs(2) by (cases rs) (auto simp: SOC_CORNERS_def)
  have rows: "all_scenarios rs \<noteq> []" using rs(2,3) by (cases rs) (auto simp: SOC_CORNERS_def all_scenarios_def)
  then have items: "enum (all_scenarios rs) \<noteq> []" by (simp add: enum_def)
  obtain hot weak big where ext: "first_max (rw_die_temp_c \<circ> snd) (enum (all_scenarios rs)) = Inr hot" "hot \<in> set (enum (all_scenarios rs))"
    "first_min (rw_composite_perf_per_w \<circ> snd) (enum (all_scenarios rs)) = Inr weak" "weak \<in> set (enum (all_scenarios rs))"
    "first_max (rw_total_power_w \<circ> snd) (enum (all_scenarios rs)) = Inr big"
    using first_in [OF items] by metis
  obtain c1 c2 where "corner_of hot 0 rs = Inr c1" "corner_of weak 0 rs = Inr c2"
    using corner_of_returns [of 0 hot rs] corner_of_returns [of 0 weak rs] enum_in [OF ext(2)] enum_in [OF ext(4)] by auto
  then show ?thesis
    using ext rs rows assms(2,3) \<open>\<exists>r. r \<in> set rs\<close>
    by (auto simp: build_report_def Let_def is_file_def file_hash_def sha256_file_def read_bytes_def stat_size_def
        flatten_scenarios_def all_scenarios_def)
qed

definition cool_summary :: "cand_summary \<Rightarrow> bool" where
  "cool_summary s \<longleftrightarrow> \<not> sy_any_modeled_throttle_required (cs_summary s)
     \<and> between 26 95 (sy_max_die_temp_c (cs_summary s)) \<and> between 1 6 (sy_max_total_power_w (cs_summary s))
     \<and> between (1 / 10) 30 (sy_min_composite_perf_per_w (cs_summary s))
     \<and> between 20 2000 (cs_min_bandwidth_margin_gbps s) \<and> between 20 200 (cs_min_npu_int8_tops s)"

lemma cool_summarize:
  assumes "flatten_scenarios r \<noteq> []" and "\<forall>x \<in> set (flatten_scenarios r). cool_row x"
  shows "\<exists>s. summarize_candidate r = Inr s \<and> cool_summary s"
proof -
  have ne: "map f (flatten_scenarios r) \<noteq> []" for f :: "scenario_row \<Rightarrow> pyfloat" using assms(1) by simp
  show ?thesis
    using first_in(2) [OF ne, of id rw_memory_bandwidth_margin_gbps] first_in(1) [OF ne, of id rw_die_temp_c]
      first_in(1) [OF ne, of id rw_total_power_w] first_in(2) [OF ne, of id rw_composite_perf_per_w]
      first_in(2) [OF ne, of id rw_npu_int8_tops] assms(2)
    by (auto simp: summarize_candidate_def Let_def cool_summary_def cool_row_def list_ex_iff)
qed

lemma cool_score:
  assumes "cool_summary s"
  shows "between 1 40000000 (score s)"
proof -
  have s: "between 1 6 (sy_max_total_power_w (cs_summary s))" "between (1 / 10) 30 (sy_min_composite_perf_per_w (cs_summary s))"
    "between 20 200 (cs_min_npu_int8_tops s)" using assms by (simp_all add: cool_summary_def)
  have lits: "between 999999 1000001 (float_lit 1000000)" "between 99 101 (float_lit 100)" "between 9 11 (float_lit 10)"
    by (rule between_lit; simp)+
  from between_mul [OF s(2) lits(1), where lo = 99999 and hi = 30000031]
  have 1: "between 99999 30000031 (float_mul (sy_min_composite_perf_per_w (cs_summary s)) (float_lit 1000000))" by simp
  have 2: "between 1979 20201 (float_mul (cs_min_npu_int8_tops s) (float_lit 100))"
    by (rule between_mul [OF s(3) lits(2)]) simp_all
  have 3: "between 8 67 (float_mul (sy_max_total_power_w (cs_summary s)) (float_lit 10))"
    by (rule between_mul [OF s(1) lits(3)]) simp_all
  from between_add [OF 1 2, where lo = 101000 and hi = 30100000]
  have "between 101000 30100000 (float_add (float_mul (sy_min_composite_perf_per_w (cs_summary s)) (float_lit 1000000))
    (float_mul (cs_min_npu_int8_tops s) (float_lit 100)))" by simp
  from between_sub [OF this 3] show ?thesis by (simp add: score_def)
qed

end
