(* ===== verification/Soc_Sound.thy ===== *)
theory Soc_Sound
  imports Soc_Bounds
begin

text \<open>
  What the search for an operating point returns: the first of the best feasible candidates, held to
  the limits in every scenario at every corner.
\<close>

section \<open>The search as one fold\<close>

definition vals :: "'a list run \<Rightarrow> 'a list" where
  "vals r = (case r of Some (Inr xs) \<Rightarrow> xs | _ \<Rightarrow> [])"

text \<open>The points of the search space, in the order of the loops.\<close>

definition points :: "opt_args \<Rightarrow> point list" where
  "points a = concat (map (\<lambda>c. concat (map (\<lambda>n. concat (map (\<lambda>t. map (\<lambda>m. (c, n, t, m))
     (vals (iranges (oa_memory_sustained_gbps a)))) (vals (franges (oa_npu_tops a)))))
     (vals (franges (oa_npu_power_w a))))) (vals (franges (oa_cpu_power_w a))))"

lemma fold_flat:
  assumes "\<And>x s s'. g x s = Some (Inr s') \<Longrightarrow> foldR f (h x) s = Inr s'"
  shows "foldO g xs s = Some (Inr s') \<Longrightarrow> foldR f (concat (map h xs)) s = Inr s'"
  using assms by (induction xs arbitrary: s) (auto simp: foldR_append)

lemma loop_flat:
  assumes "obind r (\<lambda>xs. foldO g xs s) = Some (Inr s')"
    and "\<And>x s s'. g x s = Some (Inr s') \<Longrightarrow> foldR f (h x) s = Inr s'"
  shows "foldR f (concat (map h (vals r))) s = Inr s'"
  using assms(1) fold_flat [OF assms(2)] by (auto simp: vals_def)

lemma inner_flat:
  assumes "obind r (\<lambda>xs. foldO (\<lambda>x s. Some (f (h x) s)) xs s) = Some (Inr s')"
  shows "foldR f (map h (vals r)) s = Inr s'"
  using loop_flat [OF assms, of f "\<lambda>x. [h x]"] by (simp add: concat_map_singleton)

lemma search_loop_flat:
  assumes "search_loop w repo a st = Some (Inr st')"
  shows "foldR (try_point w repo a) (points a) st = Inr st'"
  using assms unfolding search_loop_def points_def
  by (elim loop_flat inner_flat)

section \<open>The best candidate\<close>

type_synonym candidate = "soc_report \<times> cand_summary"

text \<open>What the body of the search does with a candidate.\<close>

definition weigh :: "opt_args \<Rightarrow> candidate \<Rightarrow> search \<Rightarrow> search" where
  "weigh a e st =
     (let st = st\<lparr>se_evaluated_count := Suc (se_evaluated_count st)\<rparr> in
      if \<not> is_feasible a (snd e) then st
      else let st = st\<lparr>se_feasible_count := Suc (se_feasible_count st)\<rparr> in
        if float_lt (se_best_score st) (score (snd e))
        then st\<lparr>se_best := Some e, se_best_score := score (snd e)\<rparr> else st)"

lemma try_point_weigh: "try_point w repo a p st = rbind (evaluate w repo a p) (\<lambda>e. Inr (weigh a e st))"
  by (cases "evaluate w repo a p") (auto simp: try_point_def weigh_def Let_def split: prod.splits)

lemma search_weigh:
  "foldR (try_point w repo a) ps st = Inr st' \<longleftrightarrow>
   (\<exists>es. mapR (evaluate w repo a) ps = Inr es \<and> st' = fold (weigh a) es st)"
  by (induction ps arbitrary: st) (auto simp: try_point_weigh)

text \<open>The state of the search after the candidates \<open>es\<close>; the index of the best is the first of its score.\<close>

definition beats :: "opt_args \<Rightarrow> candidate list \<Rightarrow> nat \<Rightarrow> bool" where
  "beats a es i \<longleftrightarrow> i < length es \<and> is_feasible a (snd (es ! i))
     \<and> (\<forall>e \<in> set es. is_feasible a (snd e) \<longrightarrow> \<not> float_lt (score (snd (es ! i))) (score (snd e)))
     \<and> (\<forall>j < i. is_feasible a (snd (es ! j)) \<longrightarrow> \<not> float_le (score (snd (es ! i))) (score (snd (es ! j))))"

definition search_inv :: "opt_args \<Rightarrow> candidate list \<Rightarrow> search \<Rightarrow> bool" where
  "search_inv a es st \<longleftrightarrow> se_evaluated_count st = length es
     \<and> se_feasible_count st = length (filter (\<lambda>e. is_feasible a (snd e)) es)
     \<and> (case se_best st of
          None \<Rightarrow> se_best_score st = NInf \<and> (\<forall>e \<in> set es. is_feasible a (snd e) \<longrightarrow> \<not> float_lt NInf (score (snd e)))
        | Some b \<Rightarrow> se_best_score st = score (snd b) \<and> float_lt NInf (score (snd b)) \<and> (\<exists>i. beats a es i \<and> es ! i = b))"

lemma float_lt_not_le: "float_lt x y \<Longrightarrow> \<not> float_le y x"
  by (simp add: float_lt_def)

lemma float_not_lt_trans: "float_lt x y \<Longrightarrow> \<not> float_lt x z \<Longrightarrow> \<not> float_lt y z \<and> \<not> float_le y z"
  by (cases x; cases y; cases z) (auto simp: float_lt_def float_le_def)

lemma float_lt_bot: "\<not> float_lt NInf z \<Longrightarrow> \<not> float_lt y z"
  by (cases y; cases z) (auto simp: float_lt_def float_le_def)

lemma beats_skip: "beats a es i \<Longrightarrow> (is_feasible a (snd e) \<Longrightarrow> \<not> float_lt (score (snd (es ! i))) (score (snd e)))
  \<Longrightarrow> beats a (es @ [e]) i"
  by (auto simp: beats_def nth_append)

lemma beats_new:
  assumes "is_feasible a (snd e)"
    and "\<And>x. x \<in> set es \<Longrightarrow> is_feasible a (snd x) \<Longrightarrow>
      \<not> float_lt (score (snd e)) (score (snd x)) \<and> \<not> float_le (score (snd e)) (score (snd x))"
  shows "beats a (es @ [e]) (length es)"
  using assms by (auto simp: beats_def nth_append)

lemma inv_best: "search_inv a es st \<Longrightarrow> se_best st = Some b \<Longrightarrow>
    se_best_score st = score (snd b) \<and> float_lt NInf (score (snd b)) \<and> (\<exists>i. beats a es i \<and> es ! i = b)"
  by (simp add: search_inv_def)

text \<open>A candidate that is not chosen leaves the best one the best.\<close>

lemma inv_keep:
  assumes inv: "search_inv a es st"
    and skip: "is_feasible a (snd e) \<Longrightarrow> \<not> float_lt (se_best_score st) (score (snd e))"
    and st': "se_best st' = se_best st" "se_best_score st' = se_best_score st"
      "se_evaluated_count st' = Suc (se_evaluated_count st)"
      "se_feasible_count st' = se_feasible_count st + of_bool (is_feasible a (snd e))"
  shows "search_inv a (es @ [e]) st'"
proof (cases "se_best st")
  case None
  then show ?thesis using inv skip st' by (auto simp: search_inv_def)
next
  case (Some b)
  then obtain i where i: "beats a es i" "es ! i = b" and score: "se_best_score st = score (snd b)"
    "float_lt NInf (score (snd b))" using inv_best [OF inv] by blast
  have "beats a (es @ [e]) i" "(es @ [e]) ! i = b"
    using i skip unfolding score(1) by (auto intro: beats_skip simp: beats_def nth_append)
  then show ?thesis using inv Some score st' by (auto simp: search_inv_def)
qed

text \<open>A candidate that is chosen is better than all before it.\<close>

lemma inv_choose:
  assumes inv: "search_inv a es st" and e: "is_feasible a (snd e)" "float_lt (se_best_score st) (score (snd e))"
    and st': "se_best st' = Some e" "se_best_score st' = score (snd e)"
      "se_evaluated_count st' = Suc (se_evaluated_count st)"
      "se_feasible_count st' = Suc (se_feasible_count st)"
  shows "search_inv a (es @ [e]) st'"
proof -
  have worse: "\<not> float_lt (se_best_score st) (score (snd x))" if "x \<in> set es" "is_feasible a (snd x)" for x
    using inv that by (auto simp: search_inv_def beats_def split: option.splits)
  have bottom: "float_lt NInf (score (snd e))"
    using e(2) by (cases "se_best_score st"; cases "score (snd e)") (auto simp: float_lt_def float_le_def)
  have "beats a (es @ [e]) (length es)"
    using e(1) worse float_not_lt_trans [OF e(2)] by (intro beats_new) auto
  then show ?thesis using inv e(1) st' bottom
    by (auto simp: search_inv_def intro!: exI [of _ "length es"])
qed

lemma weigh_inv:
  assumes "search_inv a es st"
  shows "search_inv a (es @ [e]) (weigh a e st)"
proof (cases "is_feasible a (snd e) \<and> float_lt (se_best_score st) (score (snd e))")
  case True
  then show ?thesis by (intro inv_choose [OF assms]) (auto simp: weigh_def Let_def)
next
  case False
  then show ?thesis by (intro inv_keep [OF assms]) (auto simp: weigh_def Let_def)
qed

lemma search_all: "search_inv a es (fold (weigh a) es search_start)"
proof (induction es rule: rev_induct)
  case Nil
  then show ?case by (simp add: search_inv_def search_start_def)
next
  case (snoc e es)
  then show ?case using weigh_inv by simp
qed

lemma optimize_search:
  assumes "optimize w repo a = Some (Inr m)"
  shows "\<exists>es i. mapR (evaluate w repo a) (points a) = Inr es \<and> beats a es i \<and> om_optimized m = es ! i
     \<and> om_evaluated_count m = length (points a)
     \<and> om_feasible_count m = length (filter (\<lambda>e. is_feasible a (snd e)) es)"
proof -
  obtain st base best where st: "search_loop w repo a search_start = Some (Inr st)" "se_best st = Some best"
    and m: "improvement (se_evaluated_count st) (se_feasible_count st) base best = Inr m"
    using assms by (auto simp: optimize_def split: option.splits)
  obtain es where es: "mapR (evaluate w repo a) (points a) = Inr es" "st = fold (weigh a) es search_start"
    using search_loop_flat [OF st(1)] by (auto simp: search_weigh)
  have "search_inv a es st" unfolding es(2) by (rule search_all)
  moreover have "om_optimized m = best" "om_evaluated_count m = se_evaluated_count st"
    "om_feasible_count m = se_feasible_count st"
    using m by (auto simp: improvement_def Let_def)
  ultimately show ?thesis
    using es(1) st(2) mapR_Inr_length [OF es(1)] by (auto simp: search_inv_def)
qed

section \<open>What every scenario satisfies\<close>

lemma float_bound: "float_le m b \<Longrightarrow> \<not> float_lt m x \<Longrightarrow> \<not> float_lt b x"
  "float_le b m \<Longrightarrow> \<not> float_lt x m \<Longrightarrow> \<not> float_lt x b"
  by (cases m; cases b; cases x; simp add: float_lt_def float_le_def)+

text \<open>The limits a candidate is held to, on one scenario.\<close>

definition within_limits :: "opt_args \<Rightarrow> scenario_row \<Rightarrow> bool" where
  "within_limits a row \<longleftrightarrow> \<not> rw_throttle_required row
     \<and> \<not> float_lt (oa_max_die_c a) (rw_die_temp_c row)
     \<and> \<not> float_lt (rw_memory_bandwidth_margin_gbps row) (oa_min_bandwidth_margin_gbps a)
     \<and> \<not> float_lt (rw_npu_int8_tops row) (oa_min_npu_tops a)"

lemma feasible_limits:
  assumes "summarize_candidate r = Inr s" and "is_feasible a s" and "row \<in> set (flatten_scenarios r)"
  shows "within_limits a row"
proof -
  let ?rows = "flatten_scenarios r"
  have "first_min id (map rw_memory_bandwidth_margin_gbps ?rows) = Inr (cs_min_bandwidth_margin_gbps s)"
    "first_max id (map rw_die_temp_c ?rows) = Inr (sy_max_die_temp_c (cs_summary s))"
    "first_min id (map rw_npu_int8_tops ?rows) = Inr (cs_min_npu_int8_tops s)"
    and throttle: "sy_any_modeled_throttle_required (cs_summary s) = list_ex rw_throttle_required ?rows"
    using assms(1) by (auto simp: summarize_candidate_def Let_def)
  from first_min_least [OF this(1)] first_max_greatest [OF this(2)] first_min_least [OF this(3)]
  have "\<not> float_lt (rw_memory_bandwidth_margin_gbps row) (cs_min_bandwidth_margin_gbps s)"
    "\<not> float_lt (sy_max_die_temp_c (cs_summary s)) (rw_die_temp_c row)"
    "\<not> float_lt (rw_npu_int8_tops row) (cs_min_npu_int8_tops s)"
    using assms(3) by auto
  then show ?thesis
    using assms(2,3) throttle by (auto simp: within_limits_def is_feasible_def list_ex_iff intro: float_bound [THEN notE])
qed

lemma build_report_rows:
  assumes "build_report w repo a = Inr r" and "c \<in> set SOC_CORNERS" and "s \<in> set SCENARIOS"
  shows "rp_config r = a \<and> (\<exists>row. scenario_entry a s c = Inr row \<and> row \<in> set (flatten_scenarios r))"
proof -
  have r: "mapR (corner_entry a) SOC_CORNERS = Inr (rp_corners r)" "rp_config r = a"
    using assms(1) by (auto simp: build_report_def Let_def split: if_splits)
  then obtain cw where cw: "cw \<in> set (rp_corners r)" "corner_entry a c = Inr cw"
    using assms(2) by (auto simp: mapR_Inr_iff list_all2_conv_all_nth in_set_conv_nth) metis
  then have "mapR (\<lambda>s. scenario_entry a s c) SCENARIOS = Inr (cw_scenarios cw)"
    by (auto simp: corner_entry_def)
  then obtain row where "row \<in> set (cw_scenarios cw)" "scenario_entry a s c = Inr row"
    using assms(3) by (auto simp: mapR_Inr_iff list_all2_conv_all_nth in_set_conv_nth) metis
  then show ?thesis using r(2) cw(1) by (auto simp: flatten_scenarios_def all_scenarios_def)
qed

lemma scenario_throttle:
  "scenario_entry a s c = Inr row \<Longrightarrow>
   rw_throttle_required row = (float_lt (float_lit 95) (rw_die_temp_c row)
     \<or> float_lt (rw_memory_bandwidth_margin_gbps row) (Fin 0))"
  by (auto simp: scenario_entry_def throttle_required_def Let_def)

lemma optimized_built:
  assumes "optimize w repo a = Some (Inr m)"
  shows "is_feasible a (snd (om_optimized m))" and "0 < om_evaluated_count m" and "0 < om_feasible_count m"
    and "\<exists>x. build_report w repo x = Inr (fst (om_optimized m))"
    and "summarize_candidate (fst (om_optimized m)) = Inr (snd (om_optimized m))"
proof -
  from optimize_search [OF assms] obtain es i where
    es: "mapR (evaluate w repo a) (points a) = Inr es" and best: "beats a es i" "om_optimized m = es ! i"
    and counts: "om_evaluated_count m = length (points a)"
      "om_feasible_count m = length (filter (\<lambda>e. is_feasible a (snd e)) es)" by auto
  have i: "i < length (points a)" "es ! i \<in> set es" using best(1) mapR_Inr_length [OF es] by (simp_all add: beats_def)
  show f: "is_feasible a (snd (om_optimized m))" using best by (simp add: beats_def)
  show "0 < om_evaluated_count m" "0 < om_feasible_count m"
    using i f best(2) by (auto simp: counts filter_empty_conv)
  obtain cpu npu tops memory where "points a ! i = (cpu, npu, tops, memory)" by (cases "points a ! i") auto
  then have "evaluate w repo a (cpu, npu, tops, memory) = Inr (es ! i)"
    using es i by (auto simp: mapR_Inr_iff list_all2_conv_all_nth)
  then show "\<exists>x. build_report w repo x = Inr (fst (om_optimized m))"
    "summarize_candidate (fst (om_optimized m)) = Inr (snd (om_optimized m))"
    by (cases "es ! i"; auto simp: report_for_def best(2))+
qed

text \<open>C31: At the point the search returns, every scenario at every corner is modelled without an error, does not
throttle, and keeps the limits of the search, 95 degrees and a bandwidth margin that is not negative.\<close>
theorem optimized_within_limits:
  assumes "optimize w repo a = Some (Inr m)" and "c \<in> set SOC_CORNERS" and "s \<in> set SCENARIOS"
  shows "\<exists>row. scenario_entry (rp_config (fst (om_optimized m))) s c = Inr row \<and> within_limits a row
     \<and> \<not> float_lt (float_lit 95) (rw_die_temp_c row) \<and> \<not> float_lt (rw_memory_bandwidth_margin_gbps row) (Fin 0)"
proof -
  note built = optimized_built [OF assms(1)]
  then obtain x where x: "build_report w repo x = Inr (fst (om_optimized m))" by blast
  from build_report_rows [OF this assms(2,3)] obtain row where
    row: "rp_config (fst (om_optimized m)) = x" "scenario_entry x s c = Inr row"
      "row \<in> set (flatten_scenarios (fst (om_optimized m)))" by auto
  have "within_limits a row" using feasible_limits [OF built(5,1) row(3)] .
  then show ?thesis using row(1,2) scenario_throttle [OF row(2)] by (auto simp: within_limits_def)
qed

section \<open>A search that finds a point\<close>

definition demo_search :: opt_args where
  "demo_search = \<lparr>oa_max_die_c = Fin 95, oa_min_bandwidth_margin_gbps = Fin 0, oa_min_npu_tops = Fin 20,
     oa_ambient_c = Fin 25, oa_cpu_base_ipc = Fin 2, oa_cpu_base_frequency_hz = 3200000000,
     oa_baseline_cpu_power_w = Fin 1, oa_baseline_npu_power_w = Fin 1, oa_baseline_npu_tops = Fin 40,
     oa_baseline_memory_sustained_gbps = Fin 240, oa_cpu_power_w = (Fin 1, Fin 1, Fin 1),
     oa_npu_power_w = (Fin 1, Fin 1, Fin 1), oa_npu_tops = (Fin 40, Fin 40, Fin 1),
     oa_memory_sustained_gbps = (256, 256, 8)\<rparr>"

definition demo_soc_world :: world where
  "demo_soc_world = \<lparr>wd_file = (\<lambda>_. Some ''effects''), wd_readable = (\<lambda>_. True), wd_is_dir = (\<lambda>_. False),
     wd_executable = (\<lambda>_. False), wd_resolve = id, wd_env_path = [], wd_sha256 = (\<lambda>_. replicate 64 (CHR ''a'')),
     wd_json = (\<lambda>_. None), wd_yaml = (\<lambda>_. None), wd_list = (\<lambda>_. []), wd_run = (\<lambda>_ _ _. Completed 0 [])\<rparr>"

lemma demo_floats:
  "half (Fin 1) = Fin (1 / 2)" "float_add (Fin 1) (Fin (1 / 2)) = Fin (3 / 2)" "float_add (Fin 1) (Fin 1) = Fin 2"
  "float_add (Fin 40) (Fin (1 / 2)) = Fin (81 / 2)" "float_add (Fin 40) (Fin 1) = Fin 41"
  "round6 (Fin 1) = Fin 1" "round6 (Fin 40) = Fin 40"
  by code_simp+

lemma demo_ranges:
  "franges (Fin 1, Fin 1, Fin 1) = Some (Inr [Fin 1])" "franges (Fin 40, Fin 40, Fin 1) = Some (Inr [Fin 40])"
  "iranges (256, 256, 8) = Some (Inr [256])"
  by (simp_all add: franges_def frange_def frange_from.simps demo_floats iranges_def irange_def)

lemma cool_evaluate:
  assumes "cool x" and "build_report demo_soc_world repo x = m"
  shows "\<exists>r s. m = Inr r \<and> summarize_candidate r = Inr s \<and> cool_summary s"
  using cool_report [OF assms(1), of demo_soc_world repo "''effects''"] cool_summarize assms(2)
  by (auto simp: demo_soc_world_def)

lemma demo_optimize:
  "\<exists>m. optimize demo_soc_world repo demo_search = Some (Inr m) \<and> cool_summary (snd (om_baseline m))"
proof -
  let ?at = "\<lambda>memory. report_for demo_soc_world repo demo_search (Fin 1) (Fin 1) (Fin 40) (Fin memory)"
  have at: "\<exists>r s. ?at n = Inr r \<and> summarize_candidate r = Inr s \<and> cool_summary s" if "n \<in> {240, 256}" for n
    unfolding report_for_def by (rule cool_evaluate [OF _ refl]) (use that in \<open>auto simp: cool_def demo_search_def between_def\<close>)
  obtain r0 s0 r1 s1 where base: "?at 240 = Inr r0" "summarize_candidate r0 = Inr s0" "cool_summary s0"
    and point: "?at 256 = Inr r1" "summarize_candidate r1 = Inr s1" "cool_summary s1"
    using at [of 240] at [of 256] by auto
  have "float_of_int 256 = Inr (Fin 256)" using float_of_int_small [of 256] by simp
  then have evaluated: "evaluate demo_soc_world repo demo_search (Fin 1, Fin 1, Fin 40, 256) = Inr (r1, s1)"
    using point by simp
  have feasible: "is_feasible demo_search s1" using point(3)
    by (auto simp: is_feasible_def cool_summary_def demo_search_def between_def)
  have score: "float_lt NInf (score s1)" using cool_score [OF point(3)]
    by (auto simp: between_def float_lt_def float_le_def)
  define st where "st = weigh demo_search (r1, s1) search_start"
  have best: "se_best st = Some (r1, s1)" using feasible score by (simp add: st_def weigh_def search_start_def)
  have "try_point demo_soc_world repo demo_search (Fin 1, Fin 1, Fin 40, 256) search_start = Inr st"
    by (simp only: try_point_weigh evaluated rbind_simps st_def)
  moreover have "oa_cpu_power_w demo_search = (Fin 1, Fin 1, Fin 1)" "oa_npu_power_w demo_search = (Fin 1, Fin 1, Fin 1)"
    "oa_npu_tops demo_search = (Fin 40, Fin 40, Fin 1)" "oa_memory_sustained_gbps demo_search = (256, 256, 8)"
    by (simp_all add: demo_search_def)
  ultimately have loop: "search_loop demo_soc_world repo demo_search search_start = Some (Inr st)"
    by (simp add: search_loop_def demo_ranges)
  have "baseline_for demo_soc_world repo demo_search = Inr (r0, s0)"
    using base by (simp add: baseline_for_def demo_search_def)
  moreover have "sy_min_composite_perf_per_w (cs_summary s0) \<noteq> Fin 0" using base(3) by (auto simp: cool_summary_def between_def)
  from float_div_returns [OF this, of "sy_min_composite_perf_per_w (cs_summary s1)"]
  have "\<exists>m. improvement (se_evaluated_count st) (se_feasible_count st) (r0, s0) (r1, s1) = Inr m \<and> om_baseline m = (r0, s0)"
    by (auto simp: improvement_def Let_def)
  ultimately show ?thesis using loop best base(3) by (auto simp: optimize_def)
qed

lemma optimized_within_limits_witness:
  "\<exists>m row. optimize demo_soc_world (path_of ''/r'') demo_search = Some (Inr m)
     \<and> scenario_entry (rp_config (fst (om_optimized m))) (hd SCENARIOS) (hd SOC_CORNERS) = Inr row
     \<and> \<not> float_lt (Fin 95) (rw_die_temp_c row)"
proof -
  obtain m where m: "optimize demo_soc_world (path_of ''/r'') demo_search = Some (Inr m)" using demo_optimize by blast
  have "hd SOC_CORNERS \<in> set SOC_CORNERS" "hd SCENARIOS \<in> set SCENARIOS" by (simp_all add: SOC_CORNERS_def SCENARIOS_def)
  from optimized_within_limits [OF m this] m show ?thesis by (auto simp: within_limits_def demo_search_def)
qed

text \<open>C30: The search returns the candidate \<open>es ! i\<close> of the candidates \<open>es\<close> of all points of the search space, in
the order of the loops: it is feasible, no feasible candidate has a better score, and those before it
that are feasible score worse (or not a number). All candidates are counted, and all feasible ones.\<close>
theorem optimize_best:
  assumes "optimize w repo a = Some (Inr m)"
  shows "\<exists>es i. mapR (evaluate w repo a) (points a) = Inr es \<and> i < length es \<and> om_optimized m = es ! i
     \<and> is_feasible a (snd (es ! i))
     \<and> (\<forall>e \<in> set es. is_feasible a (snd e) \<longrightarrow> \<not> float_lt (score (snd (es ! i))) (score (snd e)))
     \<and> (\<forall>j < i. is_feasible a (snd (es ! j)) \<longrightarrow> \<not> float_le (score (snd (es ! i))) (score (snd (es ! j))))
     \<and> om_evaluated_count m = length (points a)
     \<and> om_feasible_count m = length (filter (\<lambda>e. is_feasible a (snd e)) es)"
  using optimize_search [OF assms] unfolding beats_def by blast

lemma optimize_best_witness:
  "\<exists>m. optimize demo_soc_world (path_of ''/r'') demo_search = Some (Inr m) \<and> om_evaluated_count m = 1
     \<and> om_feasible_count m = 1"
proof -
  obtain m where m: "optimize demo_soc_world (path_of ''/r'') demo_search = Some (Inr m)" using demo_optimize by blast
  have "points demo_search = [(Fin 1, Fin 1, Fin 40, 256)]" by (simp add: points_def demo_search_def demo_ranges vals_def)
  with optimize_best [OF m] m show ?thesis by (auto simp: mapR_Inr_iff list_all2_Cons1)
qed

end
