(* ===== verification/Soc_Gate.thy ===== *)
theory Soc_Gate
  imports Soc_Check Soc_Sound
begin

text \<open>
  The checks of the two reports against the models that write them: exactly which built reports pass,
  and exactly what an optimization has to add to its own constraints to pass.
\<close>

section \<open>What the checks say of a built report\<close>

lemma soc_require_clean [clean_simps]: "soc_require b msg = Inr ([], u) \<longleftrightarrow> b"
  by (simp add: soc_require_def clean_simps)

lemma when_dict_simps [simp]: "when_dict (PDict d) m = m"
  by (simp add: when_dict_def)

lemma positive_simps [simp]:
  "positive_number (PFloat x) \<longleftrightarrow> float_lt (Fin 0) x" "positive_number (PInt i) \<longleftrightarrow> 0 < i"
  by (simp_all add: positive_number_def is_json_number_def is_num_def as_num_def)

definition all_positive :: "scenario_row \<Rightarrow> bool" where
  "all_positive r \<longleftrightarrow> 0 < rw_cpu_frequency_hz r \<and> list_all (float_lt (Fin 0))
     [rw_cpu_ipc r, rw_npu_int8_tops r, rw_memory_bandwidth_demand_gbps r, rw_memory_bandwidth_limit_gbps r,
      rw_cpu_power_w r, rw_npu_power_w r, rw_memory_power_w r, rw_uncore_power_w r, rw_total_power_w r,
      rw_die_temp_c r, rw_npu_tops_per_w r, rw_composite_perf_per_w r]"

lemma sweep_scenario_clean:
  "sweep_scenario here (scenario_json r) = Inr ([], ()) \<longleftrightarrow> all_positive r"
  by (simp add: sweep_scenario_def scenario_json_def clean_simps REQUIRED_SCENARIO_KEYS_def POSITIVE_SCENARIO_KEYS_def
      has_key_def dhas_def get_def get_or_def all_positive_def release_ok_def is_json_number_def is_num_def Let_def)

text \<open>The names in a built report are those of the two tables.\<close>

definition shaped_corner :: "soc_corner_row \<Rightarrow> bool" where
  "shaped_corner r \<longleftrightarrow> cw_corner r \<in> set SOC_CORNERS \<and> map rw_name (cw_scenarios r) = REQUIRED_SCENARIOS"

lemma names_of_json:
  "\<forall>x \<in> set xs. \<exists>d. x = PDict d \<and> (\<exists>s. get x ''name'' = PStr s) \<Longrightarrow> names_of xs = Inr (map (\<lambda>x. get x ''name'') xs)"
proof -
  assume *: "\<forall>x \<in> set xs. \<exists>d. x = PDict d \<and> (\<exists>s. get x ''name'' = PStr s)"
  then have "filter is_dict xs = xs" by (intro filter_True) auto
  with * show ?thesis by (auto simp: names_of_def hashable_def list_all_iff Let_def)
qed

lemma boundaries: "\<forall>c \<in> set SOC_CORNERS. contains ''not_pdk_signoff'' (so_claim_boundary c)"
  by (simp add: SOC_CORNERS_def starts_with_def)

lemma get_scenario [simp]: "get (scenario_json r) ''name'' = PStr (rw_name r)" "is_dict (scenario_json r)"
  by (simp_all add: scenario_json_def get_def get_or_def)

lemma get_corner [simp]:
  "get (corner_json r) ''name'' = PStr (so_name (cw_corner r))" "is_dict (corner_json r)"
  "get (corner_json r) ''scenarios'' = PList (map scenario_json (cw_scenarios r))"
  "get (corner_json r) ''release_use'' = PStr RELEASE_USE"
  "get_or (corner_json r) ''claim_boundary'' x = PStr (so_claim_boundary (cw_corner r))"
  by (simp_all add: corner_json_def get_def get_or_def Let_def)

lemma enum_all: "(\<forall>z \<in> set (enum xs). P (snd z)) \<longleftrightarrow> (\<forall>x \<in> set xs. P x)"
proof -
  have "map snd (enum xs) = xs" by (simp add: enum_def)
  then have "set xs = snd ` set (enum xs)" by (metis set_map)
  then show ?thesis by simp
qed

lemma enum_map: "enum (map f xs) = map (\<lambda>(i, x). (i, f x)) (enum xs)"
  by (simp add: enum_def zip_map2)

lemma enum_json:
  assumes "\<And>i x. Q (i, f x) \<longleftrightarrow> P x"
  shows "(\<forall>z \<in> set (enum (map f xs)). Q z) \<longleftrightarrow> (\<forall>x \<in> set xs. P x)"
  using enum_all [of xs P] assms by (simp add: enum_map split_beta)

lemma scenario_names: "map (\<lambda>x. get x ''name'') (map scenario_json rows) = map PStr (map rw_name rows)"
  by simp

lemma no_missing: "missing_names names (map PStr names) = []"
  by (simp add: missing_names_def filter_empty_conv)

lemma sweep_rows_clean:
  "weach (\<lambda>(j, s). sweep_scenario (here j) s) (enum (map scenario_json rows)) = Inr ([], ())
    \<longleftrightarrow> (\<forall>x \<in> set rows. all_positive x)"
  unfolding weach_clean by (rule enum_json) (simp add: sweep_scenario_clean)

lemma sweep_corner_clean:
  assumes "shaped_corner r"
  shows "sweep_corner i (corner_json r) = Inr ([], ()) \<longleftrightarrow> (\<forall>x \<in> set (cw_scenarios r). all_positive x)"
proof -
  have names: "names_of (map scenario_json (cw_scenarios r)) = Inr (map PStr REQUIRED_SCENARIOS)"
  proof -
    have "map rw_name (cw_scenarios r) = REQUIRED_SCENARIOS" using assms by (simp add: shaped_corner_def)
    note names = scenario_names [of "cw_scenarios r", unfolded this]
    show ?thesis unfolding names [symmetric]
      by (rule names_of_json) (auto simp: scenario_json_def get_def get_or_def)
  qed
  have "contains ''not_pdk_signoff'' (so_claim_boundary (cw_corner r))" using assms boundaries by (simp add: shaped_corner_def)
  then show ?thesis
    by (simp add: sweep_corner_def wlist_clean wbind_clean wlift_clean soc_require_clean wret_clean names no_missing sweep_rows_clean
        Let_def release_ok_def mentions_def py_str_def)
qed

text \<open>Corners and summary of a built report.\<close>

lemma corner_entry_shaped:
  assumes "corner_entry a c = Inr r" and "c \<in> set SOC_CORNERS"
  shows "shaped_corner r \<and> cw_corner r = c"
proof -
  have rows: "mapR (\<lambda>s. scenario_entry a s c) SCENARIOS = Inr (cw_scenarios r)" "cw_corner r = c"
    using assms(1) by (auto simp: corner_entry_def)
  have "map rw_name (cw_scenarios r) = map sn_name SCENARIOS"
  proof -
    have "list_all2 (\<lambda>s row. rw_name row = sn_name s) SCENARIOS (cw_scenarios r)"
      using rows(1) unfolding mapR_Inr_iff by (rule list_all2_mono) (auto simp: scenario_entry_def Let_def)
    then show ?thesis by (induction rule: list_all2_induct) auto
  qed
  also have "\<dots> = REQUIRED_SCENARIOS" by (simp add: SCENARIOS_def REQUIRED_SCENARIOS_def)
  finally show ?thesis using rows(2) assms(2) by (simp add: shaped_corner_def)
qed

lemma corner_names: "map so_name SOC_CORNERS = REQUIRED_CORNERS"
  by (simp add: SOC_CORNERS_def REQUIRED_CORNERS_def)

lemma corners_shaped:
  assumes "mapR (corner_entry a) SOC_CORNERS = Inr rs"
  shows "\<forall>r \<in> set rs. shaped_corner r" and "map (\<lambda>r. so_name (cw_corner r)) rs = REQUIRED_CORNERS"
proof -
  have "list_all2 (\<lambda>c r. shaped_corner r \<and> cw_corner r = c) SOC_CORNERS rs"
    using assms unfolding mapR_Inr_iff by (rule list.rel_mono_strong) (use corner_entry_shaped in blast)
  then have "(\<forall>r \<in> set rs. shaped_corner r) \<and> map cw_corner rs = SOC_CORNERS"
    by (induction rule: list_all2_induct) auto
  then have shaped: "\<forall>r \<in> set rs. shaped_corner r" and "map cw_corner rs = SOC_CORNERS" by blast+
  from this(2) have "map (so_name \<circ> cw_corner) rs = REQUIRED_CORNERS" by (metis list.map_comp corner_names)
  with shaped show "\<forall>r \<in> set rs. shaped_corner r" "map (\<lambda>r. so_name (cw_corner r)) rs = REQUIRED_CORNERS"
    by (simp_all add: comp_def)
qed

lemma corner_of_named: "corner_of item n rs = Inr name \<Longrightarrow> name \<in> set (map (\<lambda>r. so_name (cw_corner r)) rs)"
  by (induction item n rs rule: corner_of.induct) (auto simp: Let_def split: if_splits)

lemma first_member:
  assumes "first_max k xs = Inr m \<or> first_min k xs = Inr m"
  shows "m \<in> set xs"
  using assms first_in [of xs k] by (cases xs) auto

lemma enum_snd_member: "z \<in> set (enum xs) \<Longrightarrow> snd z \<in> set xs"
  by (cases z) (auto simp: enum_def dest: set_zip_rightD)

lemma built_report:
  assumes "build_report w repo a = Inr r"
  shows "(\<forall>c \<in> set (rp_corners r). shaped_corner c) \<and> map (\<lambda>c. so_name (cw_corner c)) (rp_corners r) = REQUIRED_CORNERS
    \<and> file_hash w repo PROCESS_EFFECTS = Inr (rp_contract r)
    \<and> (\<exists>hot weak big tc ec. {hot, weak, big} \<subseteq> set (all_scenarios (rp_corners r)) \<and> {tc, ec} \<subseteq> set REQUIRED_CORNERS
        \<and> rp_summary r = \<lparr>sy_process_corner_count = length REQUIRED_CORNERS, sy_scenario_count = length REQUIRED_SCENARIOS,
            sy_max_total_power_w = rw_total_power_w big, sy_max_die_temp_c = rw_die_temp_c hot,
            sy_worst_thermal_corner = tc, sy_worst_thermal_scenario = rw_name hot,
            sy_min_composite_perf_per_w = rw_composite_perf_per_w weak, sy_worst_efficiency_corner = ec,
            sy_worst_efficiency_scenario = rw_name weak,
            sy_any_modeled_throttle_required = list_ex (rw_throttle_required \<circ> snd) (enum (all_scenarios (rp_corners r)))\<rparr>)"
proof -
  let ?items = "enum (all_scenarios (rp_corners r))"
  obtain hot weak big tc ec where parts: "mapR (corner_entry a) SOC_CORNERS = Inr (rp_corners r)"
    "first_max (rw_die_temp_c \<circ> snd) ?items = Inr hot" "first_min (rw_composite_perf_per_w \<circ> snd) ?items = Inr weak"
    "first_max (rw_total_power_w \<circ> snd) ?items = Inr big" "file_hash w repo PROCESS_EFFECTS = Inr (rp_contract r)"
    "corner_of hot 0 (rp_corners r) = Inr tc" "corner_of weak 0 (rp_corners r) = Inr ec"
    "rp_summary r = \<lparr>sy_process_corner_count = length (rp_corners r), sy_scenario_count = length SCENARIOS,
            sy_max_total_power_w = rw_total_power_w (snd big), sy_max_die_temp_c = rw_die_temp_c (snd hot),
            sy_worst_thermal_corner = tc, sy_worst_thermal_scenario = rw_name (snd hot),
            sy_min_composite_perf_per_w = rw_composite_perf_per_w (snd weak), sy_worst_efficiency_corner = ec,
            sy_worst_efficiency_scenario = rw_name (snd weak),
            sy_any_modeled_throttle_required = list_ex (rw_throttle_required \<circ> snd) ?items\<rparr>"
    using assms by (auto simp: build_report_def Let_def split: if_splits)
  note shape = corners_shaped [OF parts(1)]
  have "length (rp_corners r) = length REQUIRED_CORNERS" using shape(2) by (metis length_map)
  moreover have "length SCENARIOS = length REQUIRED_SCENARIOS" by (simp add: SCENARIOS_def REQUIRED_SCENARIOS_def)
  moreover have "{snd hot, snd weak, snd big} \<subseteq> set (all_scenarios (rp_corners r))"
    using enum_snd_member [OF first_member [OF disjI1 [OF parts(2)]]] enum_snd_member [OF first_member [OF disjI2 [OF parts(3)]]]
      enum_snd_member [OF first_member [OF disjI1 [OF parts(4)]]] by blast
  moreover have "{tc, ec} \<subseteq> set REQUIRED_CORNERS"
    using corner_of_named [OF parts(6)] corner_of_named [OF parts(7)] by (simp only: shape(2)) simp
  ultimately show ?thesis
    by (intro conjI exI [of _ "snd hot"] exI [of _ "snd weak"] exI [of _ "snd big"] exI [of _ tc] exI [of _ ec]
        shape parts(5)) (simp_all only: parts(8))
qed

lemma scenario_names_in:
  assumes "\<forall>c \<in> set cs. shaped_corner c" and "x \<in> set (all_scenarios cs)"
  shows "rw_name x \<in> set REQUIRED_SCENARIOS"
proof -
  obtain c where c: "c \<in> set cs" "x \<in> set (cw_scenarios c)" using assms(2) by (auto simp: all_scenarios_def)
  then have "map rw_name (cw_scenarios c) = REQUIRED_SCENARIOS" using assms(1) by (simp add: shaped_corner_def)
  then show ?thesis using c(2) by (metis image_eqI set_map)
qed

section \<open>The gate on the sweep\<close>

lemma contract_clean:
  assumes "file_hash w repo PROCESS_EFFECTS = Inr (rp_contract r)" and "\<forall>t. length (wd_sha256 w t) = 64"
    and "get data ''artifacts'' = artifacts_json r"
  shows "contract_check data x y z = Inr ([], ())"
proof -
  obtain t n where "rp_contract r =
      PDict [(''path'', PStr PROCESS_EFFECTS), (''sha256'', PStr (wd_sha256 w t)), (''bytes'', PInt n)]"
    using assms(1) by (auto simp: file_hash_def sha256_file_def Let_def dest!: sym [of "PDict _"])
  then show ?thesis using assms(2)
    unfolding contract_check_def assms(3) Let_def
    by (simp add: artifacts_json_def clean_simps get_def get_or_def)
qed

lemma sweep_corners_clean:
  assumes "\<forall>c \<in> set cs. shaped_corner c"
  shows "weach (\<lambda>(i, c). sweep_corner i c) (enum (map corner_json cs)) = Inr ([], ())
    \<longleftrightarrow> (\<forall>x \<in> set (all_scenarios cs). all_positive x)"
proof -
  have "weach (\<lambda>(i, c). sweep_corner i c) (enum (map corner_json cs)) = Inr ([], ())
    \<longleftrightarrow> (\<forall>z \<in> set (enum cs). sweep_corner (fst z) (corner_json (snd z)) = Inr ([], ()))"
    by (simp add: weach_clean enum_map split_beta)
  also have "\<dots> \<longleftrightarrow> (\<forall>z \<in> set (enum cs). \<forall>x \<in> set (cw_scenarios (snd z)). all_positive x)"
    using assms sweep_corner_clean enum_snd_member by blast
  also have "\<dots> \<longleftrightarrow> (\<forall>c \<in> set cs. \<forall>x \<in> set (cw_scenarios c). all_positive x)" by (rule enum_all)
  finally show ?thesis by (auto simp: all_scenarios_def)
qed

lemma named_in_clean: "get d key = PStr s \<Longrightarrow> named_in d key names msg = Inr ([], ()) \<longleftrightarrow> s \<in> set names"
  by (simp add: named_in_def clean_simps in_names_def)

lemma positive_extremes: "all_positive x \<Longrightarrow> float_lt (Fin 0) (rw_total_power_w x) \<and> float_lt (Fin 0) (rw_die_temp_c x)
    \<and> float_lt (Fin 0) (rw_composite_perf_per_w x)"
  by (simp add: all_positive_def)

lemma sweep_summary_clean:
  assumes "build_report w repo a = Inr r" and "\<forall>x \<in> set (all_scenarios (rp_corners r)). all_positive x"
  shows "sweep_summary (PDict (summary_fields (rp_summary r))) (length (rp_corners r)) = Inr ([], ())"
proof -
  note built = built_report [OF assms(1)]
  then obtain hot weak big tc ec where in_rows: "{hot, weak, big} \<subseteq> set (all_scenarios (rp_corners r))"
    and corners: "{tc, ec} \<subseteq> set REQUIRED_CORNERS"
    and s: "sy_process_corner_count (rp_summary r) = length REQUIRED_CORNERS"
      "sy_scenario_count (rp_summary r) = length REQUIRED_SCENARIOS"
      "sy_max_total_power_w (rp_summary r) = rw_total_power_w big" "sy_max_die_temp_c (rp_summary r) = rw_die_temp_c hot"
      "sy_worst_thermal_corner (rp_summary r) = tc" "sy_worst_thermal_scenario (rp_summary r) = rw_name hot"
      "sy_min_composite_perf_per_w (rp_summary r) = rw_composite_perf_per_w weak"
      "sy_worst_efficiency_corner (rp_summary r) = ec" "sy_worst_efficiency_scenario (rp_summary r) = rw_name weak"
    by (elim conjE exE) simp
  have count: "length (rp_corners r) = length REQUIRED_CORNERS" using built by (metis length_map)
  have names: "rw_name hot \<in> set REQUIRED_SCENARIOS" "rw_name weak \<in> set REQUIRED_SCENARIOS"
    using built in_rows by (auto intro: scenario_names_in)
  have pos: "float_lt (Fin 0) (rw_total_power_w big)" "float_lt (Fin 0) (rw_die_temp_c hot)"
    "float_lt (Fin 0) (rw_composite_perf_per_w weak)" using assms(2) in_rows positive_extremes by auto
  show ?thesis using corners names pos
    by (simp add: sweep_summary_def summary_fields_def clean_simps get_def get_or_def s count named_in_clean
        num_eq_def float_eq_def as_num_def is_num_def)
qed

text \<open>C33: The gate on the sweep accepts a report that was built exactly when the figures of all its scenarios
are positive: the shape of the report, its names, counts, extremes and claims never fail it.\<close>
theorem sweep_gate_exact:
  assumes "build_report w repo a = Inr r" and "\<forall>t. length (wd_sha256 w t) = 64"
  shows "check_sweep (soc_report_json r) = Inr ([], ()) \<longleftrightarrow> (\<forall>x \<in> set (flatten_scenarios r). all_positive x)"
proof -
  note built = built_report [OF assms(1)]
  let ?data = "soc_report_json r"
  have fields: "is_dict ?data" "get ?data ''schema'' = PStr ''openagent.soc_cpu_npu_thermal_sweep.v1''"
    "get ?data ''benchmark_success_allowed'' = PBool True" "get ?data ''release_use'' = PStr RELEASE_USE"
    "get_or ?data ''claim_boundary'' d = PStr CLAIM_BOUNDARY" "get ?data ''artifacts'' = artifacts_json r"
    "get ?data ''process_corners'' = PList (map corner_json (rp_corners r))"
    "get ?data ''summary'' = PDict (summary_fields (rp_summary r))" "\<forall>f \<in> set FORBIDDEN_FIELDS. \<not> has_key ?data f" for d
    by (simp_all add: soc_report_json_def get_def get_or_def has_key_def dhas_def FORBIDDEN_FIELDS_def)
  have names: "names_of (map corner_json (rp_corners r)) = Inr (map PStr REQUIRED_CORNERS)"
  proof -
    have "map (\<lambda>x. get x ''name'') (map corner_json (rp_corners r)) = map PStr (map (\<lambda>c. so_name (cw_corner c)) (rp_corners r))"
      by simp
    also have "\<dots> = map PStr REQUIRED_CORNERS" using built by metis
    finally show ?thesis
      using names_of_json [of "map corner_json (rp_corners r)"] by (auto simp: corner_json_def get_def get_or_def Let_def)
  qed
  have scenarios: "sweep_scenarios (map corner_json (rp_corners r)) \<noteq> []"
  proof -
    obtain c cs where cs: "rp_corners r = c # cs" using built by (cases "rp_corners r") (auto simp: REQUIRED_CORNERS_def)
    then have "map rw_name (cw_scenarios c) = REQUIRED_SCENARIOS" using built by (simp add: shaped_corner_def)
    then show ?thesis by (cases "cw_scenarios c") (auto simp: cs sweep_scenarios_def REQUIRED_SCENARIOS_def)
  qed
  have corners: "weach (\<lambda>(i, c). sweep_corner i c) (enum (map corner_json (rp_corners r))) = Inr ([], ())
      \<longleftrightarrow> (\<forall>x \<in> set (flatten_scenarios r). all_positive x)"
    unfolding flatten_scenarios_def by (rule sweep_corners_clean [OF built [THEN conjunct1]])
  have contract: "contract_check ?data x y z = Inr ([], ())" for x y z
    by (rule contract_clean [OF built [THEN conjunct2, THEN conjunct2, THEN conjunct1] assms(2) fields(6)])
  have boundary: "contains ''not_rtl_pdk_silicon'' CLAIM_BOUNDARY" by code_simp
  show ?thesis
  proof (cases "\<forall>x \<in> set (flatten_scenarios r). all_positive x")
    case True
    then have "sweep_summary (PDict (summary_fields (rp_summary r))) (length (rp_corners r)) = Inr ([], ())"
      using sweep_summary_clean [OF assms(1)] by (simp add: flatten_scenarios_def)
    then show ?thesis using True corners fields(9) boundary scenarios contract
      by (simp add: check_sweep_def fields(1-8) wlist_clean wbind_clean wlift_clean soc_require_clean wret_clean names
          no_missing forbidden_check_def weach_clean [of _ FORBIDDEN_FIELDS] mentions_def py_str_def release_ok_def Let_def)
  next
    case False
    then have "weach (\<lambda>(i, c). sweep_corner i c) (enum (map corner_json (rp_corners r))) \<noteq> Inr ([], ())" using corners by simp
    then have "check_sweep ?data \<noteq> Inr ([], ())"
      by (simp add: check_sweep_def fields(1,7) wbind_clean Let_def)
    then show ?thesis using False by simp
  qed
qed

section \<open>The gate on the optimization\<close>

lemma float_cmp_clean: "float_cmp R (PFloat x) (PFloat y) msg = Inr ([], ()) \<longleftrightarrow> R x y"
  by (simp add: float_cmp_def clean_simps)

text \<open>What the optimization does not guarantee by itself and the gate asks for.\<close>

definition improves :: "optimum \<Rightarrow> bool" where
  "improves m \<longleftrightarrow> (let s = snd (om_optimized m); config = rp_config (fst (om_optimized m)) in
     list_all (float_lt (Fin 0)) [sy_max_die_temp_c (cs_summary s), sy_max_total_power_w (cs_summary s),
       sy_min_composite_perf_per_w (cs_summary s), cs_min_npu_int8_tops s]
     \<and> float_le (float_lit 160) (sa_memory_sustained_gbps config)
     \<and> float_lt (sa_npu_base_power_w config) (float_lit (36 / 10))
     \<and> sy_any_modeled_throttle_required (cs_summary (snd (om_baseline m)))
     \<and> float_lt (om_max_die_c_delta m) (Fin 0) \<and> float_lt (Fin 0) (om_min_bandwidth_margin_gbps_delta m))"

lemma cand_summary_get:
  "get_or (cand_summary_json s) ''any_modeled_throttle_required'' d = PBool (sy_any_modeled_throttle_required (cs_summary s))"
  "get_or (cand_summary_json s) ''max_die_temp_c'' d = PFloat (sy_max_die_temp_c (cs_summary s))"
  "get_or (cand_summary_json s) ''max_total_power_w'' d = PFloat (sy_max_total_power_w (cs_summary s))"
  "get_or (cand_summary_json s) ''min_composite_perf_per_w'' d = PFloat (sy_min_composite_perf_per_w (cs_summary s))"
  "get_or (cand_summary_json s) ''min_bandwidth_margin_gbps'' d = PFloat (cs_min_bandwidth_margin_gbps s)"
  "get_or (cand_summary_json s) ''min_npu_int8_tops'' d = PFloat (cs_min_npu_int8_tops s)"
  "is_dict (cand_summary_json s)"
  by (simp_all add: cand_summary_json_def summary_fields_def get_def get_or_def)

lemma config_get:
  "get_or (config_json a) ''memory_sustained_gbps'' d = PFloat (sa_memory_sustained_gbps a)"
  "get_or (config_json a) ''npu_base_power_w'' d = PFloat (sa_npu_base_power_w a)" "is_dict (config_json a)"
  by (simp_all add: config_json_def get_or_def)

lemma payload_get:
  "get_or (candidate_payload c) ''summary'' d = cand_summary_json (snd c)"
  "get_or (candidate_payload c) ''config'' d = config_json (rp_config (fst c))" "is_dict (candidate_payload c)"
  by (simp_all add: candidate_payload_def get_def get_or_def)

lemma opt_candidate_clean:
  assumes "is_dict k" and "get_or k ''max_die_c'' (PFloat (Fin 0)) = PFloat die"
    and "get_or k ''min_bandwidth_margin_gbps'' (PFloat (Fin 0)) = PFloat margin"
    and "get_or k ''min_npu_tops'' (PFloat (Fin 0)) = PFloat tops"
  shows "opt_candidate_check (candidate_payload c) k = Inr ([], ()) \<longleftrightarrow>
    (let s = snd c in \<not> sy_any_modeled_throttle_required (cs_summary s)
      \<and> float_le (sy_max_die_temp_c (cs_summary s)) die \<and> float_le margin (cs_min_bandwidth_margin_gbps s)
      \<and> float_le tops (cs_min_npu_int8_tops s)
      \<and> list_all (float_lt (Fin 0)) [sy_max_die_temp_c (cs_summary s), sy_max_total_power_w (cs_summary s),
          sy_min_composite_perf_per_w (cs_summary s), cs_min_npu_int8_tops s]
      \<and> float_le (float_lit 160) (sa_memory_sustained_gbps (rp_config (fst c)))
      \<and> float_lt (sa_npu_base_power_w (rp_config (fst c))) (float_lit (36 / 10)))"
  by (simp add: opt_candidate_check_def payload_get clean_simps when_dict_def cand_summary_get config_get
      get_def float_cmp_clean assms Let_def)

lemma opt_improvement_clean:
  assumes "get v ''baseline_any_throttle'' = PBool b" and "get v ''optimized_any_throttle'' = PBool False"
    and "get_or v ''max_die_c_delta'' (PFloat (Fin 0)) = PFloat die"
    and "get_or v ''min_bandwidth_margin_gbps_delta'' (PFloat (Fin 0)) = PFloat margin"
  shows "opt_improvement_check v = Inr ([], ()) \<longleftrightarrow> b \<and> float_lt die (Fin 0) \<and> float_lt (Fin 0) margin"
  by (simp add: opt_improvement_check_def clean_simps assms float_cmp_clean)

text \<open>C34: The gate on the optimization accepts what the search returns exactly when it improves on the baseline:
the constraints of the search are never violated, but the gate has limits of its own.\<close>
theorem optimization_gate_exact:
  assumes "optimize w repo a = Some (Inr m)" and "\<forall>t. length (wd_sha256 w t) = 64"
  shows "check_optimization (optimum_json a m) = Inr ([], ()) \<longleftrightarrow> improves m"
proof -
  note built = optimized_built [OF assms(1)]
  have limits: "\<not> sy_any_modeled_throttle_required (cs_summary (snd (om_optimized m)))"
    "float_le (sy_max_die_temp_c (cs_summary (snd (om_optimized m)))) (oa_max_die_c a)"
    "float_le (oa_min_bandwidth_margin_gbps a) (cs_min_bandwidth_margin_gbps (snd (om_optimized m)))"
    "float_le (oa_min_npu_tops a) (cs_min_npu_int8_tops (snd (om_optimized m)))"
    using built(1) by (simp_all add: is_feasible_def)
  let ?data = "optimum_json a m"
  let ?k = "get ?data ''constraints''" and ?s = "get ?data ''search_space''" and ?v = "get ?data ''improvement''"
  have fields: "is_dict ?data"
    "get ?data ''schema'' = PStr ''openagent.soc_cpu_npu_operating_point_optimization.v1''"
    "get ?data ''status'' = PStr ''pass''"
    "get ?data ''benchmark_success_allowed'' = PBool True" "get ?data ''release_use'' = PStr RELEASE_USE"
    "get_or ?data ''claim_boundary'' (PStr []) = PStr CLAIM_BOUNDARY"
    "get ?data ''optimized'' = candidate_payload (om_optimized m)" "get ?data ''baseline'' = candidate_payload (om_baseline m)"
    "is_dict ?k" "is_dict ?s" "is_dict ?v"
    "get ?s ''evaluated_count'' = PInt (int (om_evaluated_count m))"
    "get ?s ''feasible_count'' = PInt (int (om_feasible_count m))"
    and artifacts: "get ?data ''artifacts'' = artifacts_json (fst (om_optimized m))"
    and forbidden: "\<forall>f \<in> set FORBIDDEN_FIELDS. \<not> has_key ?data f"
    and k: "get_or ?k ''max_die_c'' (PFloat (Fin 0)) = PFloat (oa_max_die_c a)"
      "get_or ?k ''min_bandwidth_margin_gbps'' (PFloat (Fin 0)) = PFloat (oa_min_bandwidth_margin_gbps a)"
      "get_or ?k ''min_npu_tops'' (PFloat (Fin 0)) = PFloat (oa_min_npu_tops a)"
    and v: "get ?v ''baseline_any_throttle'' = PBool (sy_any_modeled_throttle_required (cs_summary (snd (om_baseline m))))"
      "get ?v ''optimized_any_throttle'' = PBool (sy_any_modeled_throttle_required (cs_summary (snd (om_optimized m))))"
      "get_or ?v ''max_die_c_delta'' (PFloat (Fin 0)) = PFloat (om_max_die_c_delta m)"
      "get_or ?v ''min_bandwidth_margin_gbps_delta'' (PFloat (Fin 0)) = PFloat (om_min_bandwidth_margin_gbps_delta m)"
    by (simp_all add: optimum_json_def get_def get_or_def has_key_def dhas_def FORBIDDEN_FIELDS_def)
  obtain x where "build_report w repo x = Inr (fst (om_optimized m))" using built(4) by blast
  from built_report [OF this, THEN conjunct2, THEN conjunct2, THEN conjunct1]
  have contract: "contract_check ?data x y z = Inr ([], ())" for x y z by (rule contract_clean [OF _ assms(2) artifacts])
  have boundary: "contains ''not_rtl_pdk_silicon'' CLAIM_BOUNDARY" by code_simp
  have summary: "get (candidate_payload c) ''summary'' = cand_summary_json (snd c)" for c by (simp add: get_def payload_get)
  have improvement: "opt_improvement_check ?v = Inr ([], ()) \<longleftrightarrow>
      sy_any_modeled_throttle_required (cs_summary (snd (om_baseline m)))
      \<and> float_lt (om_max_die_c_delta m) (Fin 0) \<and> float_lt (Fin 0) (om_min_bandwidth_margin_gbps_delta m)"
    using limits(1) by (intro opt_improvement_clean) (simp_all add: v)
  show ?thesis
    using forbidden boundary contract built(2,3)
    by (simp add: check_optimization_def fields wbind_clean soc_require_clean wret_clean when_dict_def positive_count_def
        opt_candidate_clean [OF fields(9) k] limits improvement forbidden_check_def weach_clean mentions_def py_str_def
        release_ok_def payload_get summary cand_summary_get improves_def Let_def get_def [of "cand_summary_json _"])
qed

lemma optimization_gate_exact_witness:
  "\<exists>m. optimize demo_soc_world (path_of ''/r'') demo_search = Some (Inr m)
     \<and> check_optimization (optimum_json demo_search m) \<noteq> Inr ([], ())"
proof -
  obtain m where m: "optimize demo_soc_world (path_of ''/r'') demo_search = Some (Inr m)" "cool_summary (snd (om_baseline m))"
    using demo_optimize by blast
  have "\<not> improves m" using m(2) by (simp add: improves_def cool_summary_def Let_def)
  moreover have "\<forall>t. length (wd_sha256 demo_soc_world t) = 64" by (simp add: demo_soc_world_def)
  ultimately show ?thesis using optimization_gate_exact [OF m(1)] m(1) by blast
qed

section \<open>A sweep that passes\<close>

definition demo_point :: soc_args where
  "demo_point = \<lparr>sa_cpu_base_ipc = Fin 2, sa_cpu_base_frequency_hz = 3200000000, sa_cpu_base_power_w = Fin 1,
     sa_npu_base_tops = Fin 40, sa_npu_base_power_w = Fin 1, sa_memory_sustained_gbps = Fin 256, sa_ambient_c = Fin 25\<rparr>"

lemma cool_all_positive: "cool_row r \<Longrightarrow> all_positive r"
  by (auto simp: cool_row_def all_positive_def intro: between_pos)

lemma sweep_gate_exact_witness:
  "\<exists>r. build_report demo_soc_world (path_of ''/r'') demo_point = Inr r \<and> check_sweep (soc_report_json r) = Inr ([], ())"
proof -
  have "cool demo_point" by (auto simp: cool_def demo_point_def between_def)
  from cool_report [OF this, of demo_soc_world "path_of ''/r''" "''effects''"] obtain r where
    r: "build_report demo_soc_world (path_of ''/r'') demo_point = Inr r" "\<forall>x \<in> set (flatten_scenarios r). cool_row x"
    by (auto simp: demo_soc_world_def)
  have "\<forall>t. length (wd_sha256 demo_soc_world t) = 64" by (simp add: demo_soc_world_def)
  from sweep_gate_exact [OF r(1) this] show ?thesis using r cool_all_positive by blast
qed

end
