(* ===== verification/Arch_Metrics.thy ===== *)
theory Arch_Metrics
  imports Soc_Thermal
begin

text \<open>
  \<open>benchmarks/generate_simulator_arch_metrics.py\<close>: the liveness-only artifact of a QEMU run and the
  architecture model of the two-core CPU over four workloads at four process corners. The type
  tests on the constant workloads always pass and are left out; a sum of floats adds from the left.
\<close>

section \<open>Corners and workloads\<close>

record cpu_corner =
  cc_name :: string
  cc_voltage_v :: pyfloat
  cc_temperature_c :: int
  cc_frequency_derate :: pyfloat
  cc_ipc_derate :: pyfloat
  cc_dynamic_power_scale :: pyfloat
  cc_leakage_power_scale :: pyfloat
  cc_thermal_resistance_scale :: pyfloat
  cc_claim_boundary :: string

record workload =
  wl_name :: string
  wl_instructions :: int
  wl_base_ipc :: pyfloat
  wl_mpki :: pyfloat
  wl_activity :: pyfloat

definition CPU_CORNERS :: "cpu_corner list" where
  "CPU_CORNERS =
    [\<lparr>cc_name = ''14a_tt_0p70v_25c_frontside_pdn'', cc_voltage_v = float_lit (7 / 10), cc_temperature_c = 25,
      cc_frequency_derate = float_lit 1, cc_ipc_derate = float_lit 1, cc_dynamic_power_scale = float_lit 1,
      cc_leakage_power_scale = float_lit 1, cc_thermal_resistance_scale = float_lit 1,
      cc_claim_boundary = ''planning_corner_not_pdk_signoff''\<rparr>,
     \<lparr>cc_name = ''14a_ss_0p63v_105c_frontside_pdn'', cc_voltage_v = float_lit (63 / 100),
      cc_temperature_c = 105, cc_frequency_derate = float_lit (18 / 25), cc_ipc_derate = float_lit (9 / 10),
      cc_dynamic_power_scale = float_lit (81 / 100), cc_leakage_power_scale = float_lit (37 / 20),
      cc_thermal_resistance_scale = float_lit (5 / 4),
      cc_claim_boundary = ''pessimistic_mobile_hot_corner_not_pdk_signoff''\<rparr>,
     \<lparr>cc_name = ''14a_ff_0p77v_0c_frontside_pdn'', cc_voltage_v = float_lit (77 / 100), cc_temperature_c = 0,
      cc_frequency_derate = float_lit (57 / 50), cc_ipc_derate = float_lit (103 / 100),
      cc_dynamic_power_scale = float_lit (121 / 100), cc_leakage_power_scale = float_lit (31 / 50),
      cc_thermal_resistance_scale = float_lit (23 / 25),
      cc_claim_boundary = ''fast_cold_corner_not_pdk_signoff''\<rparr>,
     \<lparr>cc_name = ''14a_bspdn_follow_on_hot_ir_em_stress'', cc_voltage_v = float_lit (17 / 25),
      cc_temperature_c = 115, cc_frequency_derate = float_lit (41 / 50), cc_ipc_derate = float_lit (47 / 50),
      cc_dynamic_power_scale = float_lit (47 / 50), cc_leakage_power_scale = float_lit (9 / 4),
      cc_thermal_resistance_scale = float_lit (27 / 20),
      cc_claim_boundary = ''backside_pdn_follow_on_variant_not_selected_not_pdk_signoff''\<rparr>]"

definition WORKLOADS :: "workload list" where
  "WORKLOADS =
    [\<lparr>wl_name = ''rv64gc_coremark_like_integer'', wl_instructions = 240000000, wl_base_ipc = float_lit (9 / 4),
      wl_mpki = float_lit (9 / 5), wl_activity = float_lit (29 / 50)\<rparr>,
     \<lparr>wl_name = ''linux_kernel_compile_mix'', wl_instructions = 420000000, wl_base_ipc = float_lit (43 / 25),
      wl_mpki = float_lit (28 / 5), wl_activity = float_lit (33 / 50)\<rparr>,
     \<lparr>wl_name = ''android_ui_runtime_mix'', wl_instructions = 180000000, wl_base_ipc = float_lit (69 / 50),
      wl_mpki = float_lit (36 / 5), wl_activity = float_lit (21 / 50)\<rparr>,
     \<lparr>wl_name = ''tflite_cpu_fallback_smoke'', wl_instructions = 310000000, wl_base_ipc = float_lit (39 / 20),
      wl_mpki = float_lit (31 / 10), wl_activity = float_lit (71 / 100)\<rparr>]"

definition QEMU_BANNER :: string where "QEMU_BANNER = ''openagent e1 qemu''"
definition NOMINAL :: string where "NOMINAL = ''14a_tt_0p70v_25c_frontside_pdn''"

record arch_args =
  aa_qemu_log :: ppath
  aa_out :: ppath
  aa_cores :: int
  aa_base_frequency_hz :: int
  aa_base_power_w :: pyfloat
  aa_ambient_c :: pyfloat

text \<open>\<open>display_path\<close> falls back to the path itself outside the root.\<close>

definition arch_display_path :: "ppath \<Rightarrow> ppath \<Rightarrow> string" where
  "arch_display_path repo p = (case relative_to p repo of Some q \<Rightarrow> path_str q | None \<Rightarrow> path_str p)"

definition arch_file_hash :: "world \<Rightarrow> ppath \<Rightarrow> ppath \<Rightarrow> pyv py" where
  "arch_file_hash w repo p =
     rbind (sha256_file w p) (\<lambda>sha.
     rbind (stat_size w p) (\<lambda>n.
     Inr (PDict [(''path'', PStr (arch_display_path repo p)), (''sha256'', PStr sha), (''bytes'', PInt n)])))"

section \<open>The modelled workloads\<close>

record workload_row =
  wr_name :: string
  wr_instructions :: int
  wr_target_cycles :: int
  wr_simulated_frequency_hz :: int
  wr_ipc :: pyfloat
  wr_mpki :: pyfloat
  wr_elapsed_seconds_modeled :: pyfloat
  wr_estimated_package_power_w :: pyfloat
  wr_energy_j :: pyfloat

text \<open>\<open>int(instructions / (ipc * cores))\<close>.\<close>

definition cycles_for :: "int \<Rightarrow> pyfloat \<Rightarrow> int \<Rightarrow> int py" where
  "cycles_for instructions ipc cores =
     rbind (pynum (float_of_int cores)) (\<lambda>c.
     rbind (pynum (float_of_int instructions)) (\<lambda>i.
     rbind (pynum (float_div i (float_mul ipc c))) (\<lambda>x. pynum (py_trunc x))))"

definition workload_entry :: "int \<Rightarrow> int \<Rightarrow> pyfloat \<Rightarrow> cpu_corner \<Rightarrow> workload \<Rightarrow> workload_row py" where
  "workload_entry cores hz watts c wl =
     (let ipc = float_mul (wl_base_ipc wl) (cc_ipc_derate c) in
      rbind (cycles_for (wl_instructions wl) ipc cores) (\<lambda>cycles.
      rbind (pynum (int_truediv cycles hz)) (\<lambda>elapsed.
      let dynamic = float_mul (float_mul watts (wl_activity wl)) (cc_dynamic_power_scale c);
          leakage = float_mul (float_mul watts (float_lit (18 / 100))) (cc_leakage_power_scale c);
          estimated = float_add dynamic leakage
      in rbind (pynum (float_div (wl_mpki wl) (cc_ipc_derate c))) (\<lambda>mpki.
         Inr \<lparr>wr_name = wl_name wl, wr_instructions = wl_instructions wl, wr_target_cycles = cycles,
              wr_simulated_frequency_hz = hz, wr_ipc = ipc, wr_mpki = mpki, wr_elapsed_seconds_modeled = elapsed,
              wr_estimated_package_power_w = estimated, wr_energy_j = float_mul estimated elapsed\<rparr>))))"

definition modeled_workload_entries :: "int \<Rightarrow> int \<Rightarrow> pyfloat \<Rightarrow> cpu_corner \<Rightarrow> workload_row list py" where
  "modeled_workload_entries cores frequency_hz watts c =
     rbind (scaled_frequency frequency_hz (cc_frequency_derate c)) (\<lambda>hz.
     mapR (workload_entry cores hz watts c) WORKLOADS)"

definition workload_json :: "workload_row \<Rightarrow> pyv" where
  "workload_json r = PDict
     [(''name'', PStr (wr_name r)), (''instructions'', PInt (wr_instructions r)),
      (''target_cycles'', PInt (wr_target_cycles r)), (''simulated_frequency_hz'', PInt (wr_simulated_frequency_hz r)),
      (''ipc'', PFloat (wr_ipc r)), (''mpki'', PFloat (wr_mpki r)),
      (''elapsed_seconds_modeled'', PFloat (wr_elapsed_seconds_modeled r)),
      (''estimated_package_power_w'', PFloat (wr_estimated_package_power_w r)),
      (''energy_j'', PFloat (wr_energy_j r))]"

section \<open>The modelled corners\<close>

record cpu_corner_row =
  ar_corner :: cpu_corner
  ar_simulated_frequency_hz :: int
  ar_target_cycles :: int
  ar_instructions :: int
  ar_ipc :: pyfloat
  ar_estimated_package_power_w :: pyfloat
  ar_estimated_die_temp_c :: pyfloat
  ar_instructions_per_joule :: pyfloat
  ar_workloads :: "workload_row list"

definition float_sum :: "pyfloat list \<Rightarrow> pyfloat" where
  "float_sum xs = foldl float_add (Fin 0) xs"

definition cpu_corner_entry :: "arch_args \<Rightarrow> cpu_corner \<Rightarrow> cpu_corner_row py" where
  "cpu_corner_entry a c =
     rbind (modeled_workload_entries (aa_cores a) (aa_base_frequency_hz a) (aa_base_power_w a) c) (\<lambda>workloads.
     let instructions = sum_list (map wr_instructions workloads); cycles = sum_list (map wr_target_cycles workloads);
         energy = float_sum (map wr_energy_j workloads)
     in rbind (first_max id (map wr_estimated_package_power_w workloads)) (\<lambda>peak.
        let die = float_add (aa_ambient_c a)
                    (float_mul (float_mul peak (float_lit (95 / 10))) (cc_thermal_resistance_scale c))
        in rbind (scaled_frequency (aa_base_frequency_hz a) (cc_frequency_derate c)) (\<lambda>hz.
           rbind (pynum (int_truediv instructions (cycles * aa_cores a))) (\<lambda>ipc.
           rbind (pynum (float_of_int instructions)) (\<lambda>i.
           rbind (pynum (float_div i energy)) (\<lambda>per_joule.
           Inr \<lparr>ar_corner = c, ar_simulated_frequency_hz = hz, ar_target_cycles = cycles, ar_instructions = instructions,
                ar_ipc = ipc, ar_estimated_package_power_w = peak, ar_estimated_die_temp_c = die,
                ar_instructions_per_joule = per_joule, ar_workloads = workloads\<rparr>))))))"

definition cpu_corner_json :: "cpu_corner_row \<Rightarrow> pyv" where
  "cpu_corner_json r = (let c = ar_corner r in PDict
     [(''name'', PStr (cc_name c)), (''voltage_v'', PFloat (cc_voltage_v c)),
      (''temperature_c'', PInt (cc_temperature_c c)), (''frequency_derate'', PFloat (cc_frequency_derate c)),
      (''ipc_derate'', PFloat (cc_ipc_derate c)), (''dynamic_power_scale'', PFloat (cc_dynamic_power_scale c)),
      (''leakage_power_scale'', PFloat (cc_leakage_power_scale c)),
      (''thermal_resistance_scale'', PFloat (cc_thermal_resistance_scale c)),
      (''simulated_frequency_hz'', PInt (ar_simulated_frequency_hz r)), (''target_cycles'', PInt (ar_target_cycles r)),
      (''instructions'', PInt (ar_instructions r)), (''ipc'', PFloat (ar_ipc r)),
      (''estimated_package_power_w'', PFloat (ar_estimated_package_power_w r)),
      (''estimated_die_temp_c'', PFloat (ar_estimated_die_temp_c r)),
      (''instructions_per_joule'', PFloat (ar_instructions_per_joule r)),
      (''workloads'', PList (map workload_json (ar_workloads r))), (''claim_boundary'', PStr (cc_claim_boundary c)),
      (''release_use'', PStr RELEASE_USE)])"

section \<open>The artifacts\<close>

definition exit_if :: "bool \<Rightarrow> string \<Rightarrow> unit py" where
  "exit_if b msg = (if b then Inl (PySystemExit msg) else Inr ())"

definition find_nominal :: "cpu_corner_row list \<Rightarrow> cpu_corner_row py" where
  "find_nominal rs = (case find (\<lambda>r. cc_name (ar_corner r) = NOMINAL) rs of
     None \<Rightarrow> Inl (PyRuntimeError ''StopIteration'') | Some r \<Rightarrow> Inr r)"

definition mean_mpki :: "workload_row list \<Rightarrow> pyfloat py" where
  "mean_mpki ws =
     rbind (pynum (float_of_int (int (length ws)))) (\<lambda>n. pynum (float_div (float_sum (map wr_mpki ws)) n))"

definition arch_config_json :: "arch_args \<Rightarrow> pyv" where
  "arch_config_json a = PDict
     [(''cores'', PInt (aa_cores a)), (''isa'', PStr ''rv64gc_planned_linux_ap_profile''),
      (''base_frequency_hz'', PInt (aa_base_frequency_hz a)), (''base_power_w'', PFloat (aa_base_power_w a)),
      (''ambient_c'', PFloat (aa_ambient_c a)),
      (''model_boundary'', PStr ''two-core scalable AP model; not RTL performance signoff'')]"

definition arch_report :: "arch_args \<Rightarrow> cpu_corner_row list \<Rightarrow> cpu_corner_row \<Rightarrow> cpu_corner_row \<Rightarrow> cpu_corner_row \<Rightarrow>
    cpu_corner_row \<Rightarrow> pyv \<Rightarrow> pyfloat \<Rightarrow> pyv" where
  "arch_report a corners nominal worst max_power max_temp hash mpki =
     PDict
      [(''schema'', PStr ''openagent.simulator_arch_metrics.v1''),
       (''evidence_class'', PStr ''deterministic_14a_cpu_ap_arch_model''),
       (''claim_boundary'',
          PStr ''modeled_architecture_metrics_only_not_pdk_rtl_silicon_or_phone_score_evidence''),
       (''calibration_status'', PStr ''architecture_model_calibrated_by_static_assumptions''),
       (''benchmark_success_allowed'', PBool True), (''config'', arch_config_json a),
       (''process_effects_contract'', hash), (''target_cycles'', PInt (ar_target_cycles nominal)),
       (''simulated_frequency_hz'', PInt (ar_simulated_frequency_hz nominal)), (''ipc'', PFloat (ar_ipc nominal)),
       (''mpki'', PFloat mpki),
       (''estimated_package_power_w'', PFloat (ar_estimated_package_power_w nominal)),
       (''estimated_die_temp_c'', PFloat (ar_estimated_die_temp_c nominal)),
       (''instructions_per_joule'', PFloat (ar_instructions_per_joule nominal)),
       (''process_corner_count'', PInt (int (length corners))),
       (''worst_process_corner'', PStr (cc_name (ar_corner worst))),
       (''worst_process_corner_ipc'', PFloat (ar_ipc worst)),
       (''worst_process_corner_frequency_hz'', PInt (ar_simulated_frequency_hz worst)),
       (''worst_process_corner_power_w'', PFloat (ar_estimated_package_power_w max_power)),
       (''worst_process_corner_die_temp_c'', PFloat (ar_estimated_die_temp_c max_temp)),
       (''workloads'', PList (map workload_json (ar_workloads nominal))),
       (''process_corners'', PList (map cpu_corner_json corners))]"

definition modeled_14a_cpu_ap :: "world \<Rightarrow> ppath \<Rightarrow> arch_args \<Rightarrow> pyv py" where
  "modeled_14a_cpu_ap w repo a =
     (let contract = path_join repo (path_of PROCESS_EFFECTS) in
      rbind (exit_if (aa_cores a \<le> 0) ''--cores must be positive'') (\<lambda>_.
      rbind (exit_if (aa_base_frequency_hz a \<le> 0) ''--base-frequency-hz must be positive'') (\<lambda>_.
      rbind (exit_if (float_le (aa_base_power_w a) (Fin 0)) ''--base-power-w must be positive'') (\<lambda>_.
      rbind (exit_if (\<not> is_file w contract) (''missing process effects contract: '' @ PROCESS_EFFECTS)) (\<lambda>_.
      rbind (mapR (cpu_corner_entry a) CPU_CORNERS) (\<lambda>corners.
      rbind (find_nominal corners) (\<lambda>nominal.
      rbind (first_min ar_ipc corners) (\<lambda>worst.
      rbind (first_max ar_estimated_package_power_w corners) (\<lambda>max_power.
      rbind (first_max ar_estimated_die_temp_c corners) (\<lambda>max_temp.
      rbind (arch_file_hash w repo contract) (\<lambda>hash.
      rbind (mean_mpki (ar_workloads nominal)) (\<lambda>mpki.
      Inr (arch_report a corners nominal worst max_power max_temp hash mpki)))))))))))))"

text \<open>The message about a missing log needs the log below the root: \<open>relative_to\<close> raises otherwise.\<close>

definition qemu_liveness :: "world \<Rightarrow> ppath \<Rightarrow> arch_args \<Rightarrow> pyv py" where
  "qemu_liveness w repo a =
     (let log = path_join repo (aa_qemu_log a) in
      if \<not> is_file w log
      then (case relative_to log repo of
              None \<Rightarrow> Inl (PyValueError (path_str log))
            | Some q \<Rightarrow> Inl (PySystemExit (''missing qemu smoke log: '' @ path_str q)))
      else rbind (read_text w log) (\<lambda>text.
        rbind (exit_if (\<not> contains QEMU_BANNER text)
          (''qemu smoke log does not contain required banner: '' @ QEMU_BANNER)) (\<lambda>_.
        Inr (PDict
          [(''schema'', PStr ''openagent.simulator_arch_metrics.v1''), (''evidence_class'', PStr ''qemu_virt_liveness_only''),
           (''claim_boundary'', PStr ''not_performance_evidence''), (''calibration_status'', PStr ''uncalibrated''),
           (''benchmark_success_allowed'', PBool False), (''source_log'', PStr (arch_display_path repo log)),
           (''observed_banner'', PStr QEMU_BANNER), (''target_cycles'', PInt 0), (''simulated_frequency_hz'', PInt 0),
           (''ipc'', PInt 0),
           (''notes'', PList
              [PStr ''QEMU smoke confirms firmware liveness only.'',
               PStr ''Cycle, frequency, and IPC remain zero until gem5, RTL, FPGA, or silicon metrics exist.'',
               PStr ''Do not compare this artifact with phone-class benchmark results.''])]))))"

definition arch_data :: "world \<Rightarrow> ppath \<Rightarrow> string \<Rightarrow> arch_args \<Rightarrow> pyv py" where
  "arch_data w repo mode a = (if mode = ''qemu-liveness'' then qemu_liveness w repo a else modeled_14a_cpu_ap w repo a)"

definition arch_main :: "world \<Rightarrow> ppath \<Rightarrow> string \<Rightarrow> arch_args \<Rightarrow> (world \<times> string) py" where
  "arch_main w repo mode a =
     (let out = path_join repo (aa_out a) in
      rbind (arch_data w repo mode a) (\<lambda>data.
      Inr (write_file (make_dirs w (path_parent out)) out (json_dumps True data @ [CHR 0x0A]),
           ''wrote '' @ arch_display_path repo out)))"

end
