(* ===== verification/Arch_Sound.thy ===== *)
theory Arch_Sound
  imports Arch_Metrics Bench_Parsers Soc_Bounds
begin

text \<open>
  The artifact of the architecture model against the parser of the benchmark runner: what the
  liveness mode writes is never accepted, what the model writes is, with every metric the benchmark
  plan requires.
\<close>

text \<open>\<open>required_metrics\<close> of \<open>simulator_arch_metrics\<close> in \<open>benchmarks/configs/benchmark_plan.json\<close>.\<close>

definition REQUIRED_METRICS :: "string list" where
  "REQUIRED_METRICS =
     [''target_cycles'', ''simulated_frequency_hz'', ''ipc'', ''estimated_package_power_w'', ''estimated_die_temp_c'',
      ''instructions_per_joule'', ''process_corner_count'', ''worst_process_corner_ipc'',
      ''worst_process_corner_frequency_hz'', ''worst_process_corner_power_w'', ''worst_process_corner_die_temp_c'']"

text \<open>
  Reading back written JSON gives the same entries, in any order; entries of nested dictionaries may
  be reordered too, so only plain entries are the same values.
\<close>

definition reads_as :: "pyv \<Rightarrow> pyv \<Rightarrow> bool" where
  "reads_as data d \<longleftrightarrow> is_dict d \<and> (\<forall>k. has_key d k = has_key data k)
     \<and> (\<forall>k. hashable (get data k) \<longrightarrow> get d k = get data k)"

lemma liveness_entries:
  assumes "qemu_liveness w repo a = Inr data"
  shows "get data ''target_cycles'' = PInt 0" "get data ''simulated_frequency_hz'' = PInt 0" "get data ''ipc'' = PInt 0"
    "get data ''benchmark_success_allowed'' = PBool False" "\<forall>k \<in> set FORBIDDEN_SCORES. \<not> has_key data k"
  using assms by (auto simp: qemu_liveness_def Let_def get_def get_or_def has_key_def dhas_def FORBIDDEN_SCORES_def
      split: if_splits option.splits)

lemma report_values:
  "map (get (arch_report a cs n wo mp mt h m)) REQUIRED_METRICS =
     [PInt (ar_target_cycles n), PInt (ar_simulated_frequency_hz n), PFloat (ar_ipc n),
      PFloat (ar_estimated_package_power_w n), PFloat (ar_estimated_die_temp_c n), PFloat (ar_instructions_per_joule n),
      PInt (int (length cs)), PFloat (ar_ipc wo), PInt (ar_simulated_frequency_hz wo),
      PFloat (ar_estimated_package_power_w mp), PFloat (ar_estimated_die_temp_c mt)]"
  by (simp add: arch_report_def get_def get_or_def REQUIRED_METRICS_def)

lemma report_entries:
  "get (arch_report a cs n wo mp mt h m) ''benchmark_success_allowed'' = PBool True"
  "\<forall>k \<in> set FORBIDDEN_SCORES. \<not> has_key (arch_report a cs n wo mp mt h m) k"
  "\<forall>k \<in> set REQUIRED_METRICS. is_num (get (arch_report a cs n wo mp mt h m) k)
     \<and> hashable (get (arch_report a cs n wo mp mt h m) k)"
proof -
  have "list_all (\<lambda>v. is_num v \<and> hashable v) (map (get (arch_report a cs n wo mp mt h m)) REQUIRED_METRICS)"
    unfolding report_values by (simp add: is_num_def hashable_def)
  then show "\<forall>k \<in> set REQUIRED_METRICS. is_num (get (arch_report a cs n wo mp mt h m) k)
     \<and> hashable (get (arch_report a cs n wo mp mt h m) k)" by (simp add: list_all_iff)
qed (simp_all add: arch_report_def get_def get_or_def has_key_def dhas_def FORBIDDEN_SCORES_def)

lemma modeled_report:
  assumes "modeled_14a_cpu_ap w repo a = Inr data"
  obtains cs n wo mp mt h m where "data = arch_report a cs n wo mp mt h m"
  using assms by (auto simp: modeled_14a_cpu_ap_def Let_def)

text \<open>C35: Read back by the benchmark runner, the artifact of the liveness mode is rejected as uncalibrated, and that of
the architecture model is accepted as it is, with a number for every metric the plan requires.\<close>
theorem simulator_artifact_gate:
  assumes "arch_data w repo mode a = Inr data" and "wd_json w' text = Some d" and "reads_as data d"
  shows "if mode = ''qemu-liveness''
    then parse_benchmark_output w' ''simulator_metrics_v1'' text
           = Inl (PyValueError ''simulator metrics are not calibrated benchmark evidence'')
    else parse_benchmark_output w' ''simulator_metrics_v1'' text = Inr d
           \<and> (\<forall>k \<in> set REQUIRED_METRICS. is_num (get d k))"
proof -
  have d: "is_dict d" "\<And>k. has_key d k = has_key data k" "\<And>k. hashable (get data k) \<Longrightarrow> get d k = get data k"
    using assms(3) by (simp_all add: reads_as_def)
  have parse: "parse_benchmark_output w' ''simulator_metrics_v1'' text = parse_simulator_metrics w' text"
    by (simp add: parse_benchmark_output_def)
  show ?thesis
  proof (cases "mode = ''qemu-liveness''")
    case True
    then have "qemu_liveness w repo a = Inr data" using assms(1) by (simp add: arch_data_def)
    note entries = liveness_entries [OF this]
    have "get d ''target_cycles'' = PInt 0" "get d ''simulated_frequency_hz'' = PInt 0" "get d ''ipc'' = PInt 0"
      "get d ''benchmark_success_allowed'' = PBool False" by (simp_all add: d(3) entries hashable_def)
    then show ?thesis using True entries(5) assms(2) d
      by (simp add: parse parse_simulator_metrics_def json_loads_def SIMULATOR_REQUIRED_def is_num_def Let_def
          filter_empty_conv fail_if_def)
  next
    case False
    then have "modeled_14a_cpu_ap w repo a = Inr data" using assms(1) by (simp add: arch_data_def)
    then obtain cs n wo mp mt h m where "data = arch_report a cs n wo mp mt h m" by (rule modeled_report)
    note entries = report_entries [of a cs n wo mp mt h m, folded this]
    have metrics: "\<forall>k \<in> set REQUIRED_METRICS. is_num (get d k)" using entries(3) d(3) by auto
    then have "filter (\<lambda>key. \<not> is_num (get d key)) SIMULATOR_REQUIRED = []"
      by (simp add: REQUIRED_METRICS_def SIMULATOR_REQUIRED_def)
    moreover have "get d ''benchmark_success_allowed'' = PBool True" using entries(1) d(3) by (simp add: hashable_def)
    ultimately show ?thesis using False entries(2) metrics assms(2) d
      by (simp add: parse parse_simulator_metrics_def json_loads_def Let_def filter_empty_conv fail_if_def)
  qed
qed

definition demo_qemu_world :: world where
  "demo_qemu_world = \<lparr>wd_file = (\<lambda>_. Some (''OK '' @ QEMU_BANNER)), wd_readable = (\<lambda>_. True), wd_is_dir = (\<lambda>_. False),
     wd_executable = (\<lambda>_. False), wd_resolve = id, wd_env_path = [], wd_sha256 = id,
     wd_json = (\<lambda>_. None), wd_yaml = (\<lambda>_. None), wd_list = (\<lambda>_. []), wd_run = (\<lambda>_ _ _. Completed 0 [])\<rparr>"

definition demo_arch_args :: arch_args where
  "demo_arch_args = \<lparr>aa_qemu_log = path_of ''build/reports/qemu_smoke.log'',
     aa_out = path_of ''benchmarks/results/simulator-arch-metrics.json'', aa_cores = 2,
     aa_base_frequency_hz = 3200000000, aa_base_power_w = Fin 3, aa_ambient_c = Fin 25\<rparr>"

lemma simulator_artifact_gate_witness:
  "\<exists>data. arch_data demo_qemu_world (path_of ''/r'') ''qemu-liveness'' demo_arch_args = Inr data
     \<and> parse_benchmark_output (demo_qemu_world\<lparr>wd_json := \<lambda>_. Some data\<rparr>) ''simulator_metrics_v1'' ''J''
         = Inl (PyValueError ''simulator metrics are not calibrated benchmark evidence'')"
proof -
  have "contains QEMU_BANNER (universal_newlines (''OK '' @ QEMU_BANNER))" by code_simp
  then obtain data where data: "arch_data demo_qemu_world (path_of ''/r'') ''qemu-liveness'' demo_arch_args = Inr data"
    by (auto simp: arch_data_def qemu_liveness_def demo_qemu_world_def is_file_def read_text_def read_bytes_def
        exit_if_def Let_def)
  moreover have "reads_as data data"
    using data by (auto simp: reads_as_def arch_data_def qemu_liveness_def Let_def split: if_splits option.splits)
  ultimately show ?thesis
    using simulator_artifact_gate [OF data, of "demo_qemu_world\<lparr>wd_json := \<lambda>_. Some data\<rparr>" "''J''" data] by simp
qed

end
