(* ===== verification/Spec2Isabelle.thy ===== *)
theory Spec2Isabelle
  imports Npu_Recovery Npu_Fakes Npu_Scale Bench_Accept Power_Sound Pad_Sound
    Mvp_Sound Platform_Sound Ap_Archive Board_Sound Pd_Sound Soc_Gate Arch_Sound
begin

text \<open>
  A model of the Python code of the OpenAgent E1 chip repository that carries logic of its
  own: the runtime that drives the neural accelerator over MMIO registers, the
  architectural throughput model, the runner that decides which benchmark results may
  count as evidence, the thermal model and the search for an operating point, the generator of
  the platform's headers, the simulator runner, and the gates that decide whether power, pad,
  CPU/AP, board and layout evidence is accepted.

  \<^bold>\<open>How the parts interact.\<close> The runtime reaches a device only through the two callables it is
  constructed with; the tests of the repository give it a behavioural device and recording
  devices, and both are modelled. The scale model is run by a benchmark script whose output the
  benchmark runner parses; the runner writes a report that a validation pass reads back. The
  gates are independent scripts over a manifest, a file tree and digests: each gathers
  failures in a list and turns them into an exit code. They meet in the files: the
  architecture model writes the artifact the benchmark runner parses, the thermal model and the
  search write the reports two gates check, what the capture helper archives is what the CPU/AP gate
  reads, and what the platform generator writes is what its check mode compares.

  \<^bold>\<open>The theories.\<close>

  \<^item> \<open>Prelude\<close>: sums and the state-and-error monad (\<open>ebind\<close>, \<open>eseq\<close>, \<open>foldE\<close>), the invariant
    combinator \<open>keeps\<close> with its introduction rules \<open>keeps_intros\<close>, bit masks as arithmetic
    (\<open>mask_simps\<close>), byte lists, formatted integers.
  \<^item> \<open>Npu_Runtime\<close>: \<open>compiler/runtime/e1_npu_runtime.py\<close>. The two callables are a record \<open>mmio\<close> over
    any device state; every method is a definition of the same name. \<open>Npu_Client\<close> shows once
    (locale \<open>mmio_invariant\<close>) that each method keeps whatever invariant every single access keeps.
    \<open>Npu_Scratch\<close> states the interface of a scratchpad (locale \<open>npu_scratchpad\<close>) and proves the
    byte accessors correct inside it; \<open>Npu_Gemm\<close> extends it to a device with a matrix unit (locale
    \<open>npu_gemm_device\<close>) and proves the matrix product against the golden model.
  \<^item> \<open>Npu_Sim\<close>: the behavioural device of \<open>compiler/runtime/test_e1_npu_runtime_sim.py\<close>, a partial map
    from addresses to values. The two device locales are interpreted on it. \<open>Npu_Driver\<close> draws the
    consequences for every device state a client can reach (\<open>sim_reach\<close>): products, submitted
    descriptors, scratchpad round trips, the outcome of polling, the rejection of bad arguments
    before any access. \<open>Npu_Recovery\<close> interprets \<open>mmio_invariant\<close> on reachability and shows that a
    scalar command brings a device left in descriptor mode back to computing products.
  \<^item> \<open>Npu_Fakes\<close>: the recording devices of \<open>compiler/runtime/test_e1_npu_runtime.py\<close>; scalar
    commands against 32-bit machine words.
  \<^item> \<open>Npu_Scale\<close>: \<open>compiler/runtime/e1_npu_scale_model.py\<close> and
    \<open>benchmarks/sim/run_npu_scale_sim.py\<close>: estimates as a roofline, process corners and their extremes.
  \<^item> \<open>Soc_Thermal\<close>, \<open>Soc_Optimize\<close>: \<open>benchmarks/sim/run_soc_thermal_sweep.py\<close> and
    \<open>benchmarks/sim/optimize_soc_operating_point.py\<close>. \<open>Soc_Check\<close>: the gates on their reports,
    \<open>scripts/check_soc_thermal_sweep.py\<close> and \<open>scripts/check_soc_optimization.py\<close>. \<open>Soc_Bounds\<close> bounds every
    float of the model with its rounding (\<open>between\<close>) and shows that ranges of floats end and hold the expected
    values; \<open>Soc_Sound\<close>
    shows that the search returns the first best feasible point and what holds there; \<open>Soc_Gate\<close> says
    exactly which reports the gates accept.
  \<^item> \<open>Arch_Metrics\<close>, \<open>Arch_Sound\<close>: \<open>benchmarks/generate_simulator_arch_metrics.py\<close> and its artifact under
    the parser of the benchmark runner.
  \<^item> \<open>Py_Float\<close>, \<open>Py_Value\<close>, \<open>Py_Regex\<close>, \<open>Py_World\<close>, \<open>Py_Csv\<close>, \<open>Py_Files\<close>, \<open>Py_Glob\<close>, \<open>Py_Check\<close>: what
    the scripts use of the language and its standard library: binary64 numbers as rounded
    rationals with infinities and NaN, the values JSON and YAML decode to, a backtracking
    regular-expression matcher, paths and files, the reader of \<open>csv\<close>, writing and \<open>json.dumps\<close>,
    file patterns, and checkers that gather failures. The locale \<open>sound_check\<close> lifts what one
    clean check guarantees to loops over it.
  \<^item> \<open>Bench_Config\<close>, \<open>Bench_Deps\<close>, \<open>Bench_Capability\<close>, \<open>Bench_Metadata\<close>, \<open>Bench_Parsers\<close>,
    \<open>Bench_Report\<close>, \<open>Bench_Run\<close>: \<open>benchmarks/run_benchmarks.py\<close> in the order of the file: the plan
    and its validation, dependencies, the capability proof of the accelerator, metadata and
    metric gates, the output parsers (locale \<open>metric_parser\<close>), the validation of a report, running
    and dispatch. \<open>Bench_Evidence\<close> and \<open>Bench_Accept\<close> show what a passed result, an exit code and
    an accepted report guarantee.
  \<^item> \<open>Power_Evidence\<close>, \<open>Power_Sound\<close>: \<open>benchmarks/power/scripts/check_sustained_run_evidence.py\<close>.
  \<^item> \<open>Pad_Check\<close>, \<open>Pad_Sound\<close>: \<open>scripts/check_pad_consistency.py\<close>; the locale \<open>row_check\<close> covers
    its loops over the rows of a table.
  \<^item> \<open>Mvp_Sim\<close>, \<open>Mvp_Sound\<close>: \<open>scripts/run_mvp_simulator.py\<close>: what its claims and its exit code mean.
  \<^item> \<open>Platform_Gen\<close>, \<open>Platform_Sound\<close>: \<open>scripts/gen_platform_artifacts.py\<close>: generated files pass the
    check, generated constants read back.
  \<^item> \<open>Ap_Evidence\<close>, \<open>Ap_Check\<close>, \<open>Ap_Capture\<close>: \<open>scripts/cpu_ap_evidence_lib.py\<close>,
    \<open>scripts/check_cpu_ap_evidence.py\<close>, \<open>scripts/capture_cpu_ap_evidence.py\<close>; \<open>Ap_Sound\<close> shows what the
    gate accepts, \<open>Ap_Archive\<close> that an archived transcript is bound to the generated manifest.
  \<^item> \<open>Board_Evidence\<close>, \<open>Board_Sound\<close>: \<open>scripts/check_board_package_evidence.py\<close>; the locale
    \<open>id_loop\<close> covers its loops over entries with an \<open>id\<close>.
  \<^item> \<open>Pd_Closure\<close>, \<open>Pd_Signoff\<close>, \<open>Pd_Sound\<close>: \<open>scripts/check_pd_closure.py\<close> and
    \<open>scripts/check_pd_signoff.py\<close>.

  \<^bold>\<open>Choices.\<close> Python integers are \<open>int\<close>; register values are masked where the code masks them.
  Exceptions are the left side of a sum. A dictionary is the list of its entries in insertion
  order, a device register file a partial map. Text has 8-bit characters, so decoding errors
  of UTF-8 are outside the model. The text of an operating-system, JSON or YAML error is
  represented by the path it is about, or left out. The SHA-256 digest, the JSON and YAML
  decoders, the file system, directory listings and what a child process prints and returns are
  fields of the record \<open>world\<close>, about which nothing is assumed; where a command may change the
  files (\<open>Mvp_Sim\<close>) or a library compiles a pattern found in a manifest or composes a YAML graph
  (\<open>Pd_Signoff\<close>), a host record holds it. The sign of a zero float is not tracked.

  \<^bold>\<open>Bounds.\<close> Loops are folds over their ranges; the polling loop recurses on the number of polls
  left, and needs no fuel. The loop over a range of floats need not end: it is a partial function
  with \<open>None\<close> for not returning, and \<open>Soc_Bounds\<close> says when it does and what it yields. The matcher of
  file patterns recurses on a bound that each step decreases together with the pattern or the text,
  started at one more than the sum of their lengths, so it is never exhausted; the regular-expression matcher and the \<open>csv\<close> reader
  recurse on the text. A recursive listing of a directory goes 2048 levels down: a path of that depth
  is longer than the 4096 bytes a path may have on the host.

  \<^bold>\<open>Not modelled.\<close>

  \<^item> Argument parsing, printing and the layout of a report file, except where a property is about
    the text.
  \<^item> The gates that test the presence of files and of literal markers in them (Chipyard, Linux,
    Android and BSP, memory, product, plan and release gates under \<open>scripts/\<close>): they keep no state and
    repeat, over other lists of literals, the checks modelled for the CPU/AP and board gates.
  \<^item> The archiving and diagnosis of a layout run, which copy files and print reports; its
    acceptance is modelled.
  \<^item> The gates on recorded NPU documents, which compare numbers the scale model produces with
    literals, and a table of power estimates derived from files of the host.
  \<^item> Wrappers that start linters and type checkers, test suites, separate copies of the benchmark
    parsers, and everything that is not Python: the RTL, its test benches, board data,
    generated artifacts.
\<close>

end
